(* ===== verification/Go_Prelude.thy ===== *)
theory Go_Prelude
  imports "HOL-Library.Word" "HOL-Library.Monad_Syntax" "HOL-Library.AList"
    "HOL-Library.Multiset" "HOL-Library.List_Lexorder" "HOL-Library.Char_ord"
    "HOL-Library.Sublist"
begin

text \<open>
  What the service takes for granted from Go, shared by every component.

  A Go statement that may panic is a value of type 'a run, None being the panic: a nil
  pointer dereference, an index out of range or a send on a nil value.  Statements
  are sequenced with the option monad.  A pointer field that may be nil is an option, reading
  through it is a bind.  A read m[k] of a Go map returns the zero value of the
  element type when k is absent (map_get).  A range loop whose body updates a state is
  go_for, slices.IndexFunc is index_func (None stands for -1) and slices.SortStableFunc
  is sort_stable_func, the insertion sort Go runs on each block.
\<close>

named_theorems go_simps \<open>evaluation rules of the Go operations\<close>
named_theorems inv_intros \<open>introduction rules of the invariants\<close>

type_synonym 'a run = "'a option"
type_synonym int32 = "32 word"
type_synonym uint32 = "32 word"

subsection \<open>Maps\<close>

definition map_get :: "'v \<Rightarrow> ('k \<Rightarrow> 'v option) \<Rightarrow> 'k \<Rightarrow> 'v" where
  "map_get zero m k = (case m k of None \<Rightarrow> zero | Some v \<Rightarrow> v)"

lemma map_get_Some [simp]: "m k = Some v \<Longrightarrow> map_get z m k = v"
  by (simp add: map_get_def)

lemma map_get_None [simp]: "m k = None \<Longrightarrow> map_get z m k = z"
  by (simp add: map_get_def)

lemma map_get_upd [simp]: "map_get z (m(k \<mapsto> v)) k' = (if k' = k then v else map_get z m k')"
  by (simp add: map_get_def)

lemma map_get_neq_zero: "map_get z m k \<noteq> z \<Longrightarrow> m k = Some (map_get z m k)"
  by (auto simp: map_get_def split: option.splits)

subsection \<open>Panics\<close>

text \<open>A Boolean that decides whether the statement panics.\<close>

definition guard_run :: "bool \<Rightarrow> unit run" where
  "guard_run b = (if b then Some () else None)"

lemma guard_run_simps [simp]:
  "guard_run True = Some ()" "guard_run False = None"
  by (simp_all add: guard_run_def)

lemma guard_run_eq_Some [simp]: "guard_run b = Some u \<longleftrightarrow> b"
  by (cases b) simp_all

lemma bind_eq_None: "Option.bind m f = None \<longleftrightarrow> m = None \<or> (\<exists>x. m = Some x \<and> f x = None)"
  by (cases m) simp_all

subsection \<open>Loops over a slice\<close>

primrec go_for :: "('a \<Rightarrow> 's \<Rightarrow> 's run) \<Rightarrow> 'a list \<Rightarrow> 's \<Rightarrow> 's run" where
  "go_for body [] s = Some s"
| "go_for body (x # xs) s = Option.bind (body x s) (go_for body xs)"

lemma go_for_append:
  "go_for body (xs @ ys) s = Option.bind (go_for body xs s) (go_for body ys)"
  by (induction xs arbitrary: s) (auto split: Option.bind_splits)

text \<open>The invariant rule: a body that keeps I on every element returns and keeps I.\<close>

lemma go_for_inv:
  assumes "I s"
    and "\<And>x s. x \<in> set xs \<Longrightarrow> I s \<Longrightarrow> \<exists>s'. body x s = Some s' \<and> I s'"
  shows "\<exists>s'. go_for body xs s = Some s' \<and> I s'"
  using assms
proof (induction xs arbitrary: s)
  case (Cons x xs)
  then obtain s1 where "body x s = Some s1" "I s1" by (meson list.set_intros(1))
  with Cons show ?case by simp
qed simp

text \<open>The partial version: whatever a body that does not panic keeps, the loop keeps.\<close>

lemma go_for_preserves:
  assumes "go_for body xs s = Some s'" and "I s"
    and "\<And>x s s'. x \<in> set xs \<Longrightarrow> I s \<Longrightarrow> body x s = Some s' \<Longrightarrow> I s'"
  shows "I s'"
  using assms
proof (induction xs arbitrary: s)
  case (Cons x xs)
  then obtain s1 where "body x s = Some s1" "go_for body xs s1 = Some s'"
    by (auto split: Option.bind_splits)
  with Cons show ?case by (meson list.set_intros)
qed simp

lemma go_for_total: "go_for (\<lambda>x s. Some (f x s)) xs s = Some (fold f xs s)"
  by (induction xs arbitrary: s) simp_all

text \<open>The invariant may speak of the elements already passed.\<close>

lemma go_for_prefix_inv:
  assumes "I [] s"
    and "\<And>pre x post s. xs = pre @ x # post \<Longrightarrow> I pre s \<Longrightarrow>
      \<exists>s'. body x s = Some s' \<and> I (pre @ [x]) s'"
  shows "\<exists>s'. go_for body xs s = Some s' \<and> I xs s'"
  using assms
proof (induction xs rule: rev_induct)
  case (snoc x xs)
  have "\<exists>s'. go_for body xs s = Some s' \<and> I xs s'"
    using snoc.prems(1) snoc.prems(2)[of _ _ "_ @ [x]"] by (intro snoc.IH) simp_all
  then obtain s1 where "go_for body xs s = Some s1" "I xs s1" by blast
  with snoc.prems(2)[of xs x "[]" s1] show ?case by (auto simp: go_for_append)
qed simp

subsection \<open>slices.IndexFunc\<close>

primrec index_func :: "('a \<Rightarrow> bool) \<Rightarrow> 'a list \<Rightarrow> nat option" where
  "index_func P [] = None"
| "index_func P (x # xs) = (if P x then Some 0 else map_option Suc (index_func P xs))"

lemma index_func_None: "index_func P xs = None \<longleftrightarrow> (\<forall>x \<in> set xs. \<not> P x)"
  by (induction xs) auto

lemma index_func_SomeD:
  "index_func P xs = Some i \<Longrightarrow>
     i < length xs \<and> P (xs ! i) \<and> (\<forall>j < i. \<not> P (xs ! j))"
proof (induction xs arbitrary: i)
  case (Cons x xs)
  then show ?case
    by (cases "P x") (auto simp: less_Suc_eq_0_disj nth_Cons split: nat.splits)
qed simp

lemma index_func_append:
  "index_func P (xs @ ys) = (case index_func P xs of Some i \<Rightarrow> Some i
     | None \<Rightarrow> map_option (\<lambda>i. length xs + i) (index_func P ys))"
  by (induction xs; cases "index_func P ys") (auto split: option.splits)

lemma index_func_cong:
  "(\<And>x. x \<in> set xs \<Longrightarrow> P x = Q x) \<Longrightarrow> index_func P xs = index_func Q xs"
  by (induction xs) auto

subsection \<open>slices.SortStableFunc\<close>

text \<open>
  Go's stable sort inserts each element into the sorted prefix from the right, moving it
  left past every element that compares greater.  The prefix is kept reversed here.
\<close>

primrec insert_left :: "('a \<Rightarrow> 'a \<Rightarrow> int) \<Rightarrow> 'a \<Rightarrow> 'a list \<Rightarrow> 'a list" where
  "insert_left cmp x [] = [x]"
| "insert_left cmp x (y # ys) = (if cmp x y < 0 then y # insert_left cmp x ys else x # y # ys)"

definition sort_stable_func :: "('a \<Rightarrow> 'a \<Rightarrow> int) \<Rightarrow> 'a list \<Rightarrow> 'a list" where
  "sort_stable_func cmp xs = rev (fold (insert_left cmp) xs [])"

lemma mset_insert_left [simp]: "mset (insert_left cmp x ys) = add_mset x (mset ys)"
  by (induction ys) simp_all

lemma mset_fold_insert_left:
  "mset (fold (insert_left cmp) xs ys) = mset xs + mset ys"
  by (induction xs arbitrary: ys) simp_all

lemma mset_sort_stable_func [simp]: "mset (sort_stable_func cmp xs) = mset xs"
  by (simp add: sort_stable_func_def mset_fold_insert_left)

lemma set_sort_stable_func [simp]: "set (sort_stable_func cmp xs) = set xs"
  by (metis mset_sort_stable_func set_mset_mset)

lemma length_sort_stable_func [simp]: "length (sort_stable_func cmp xs) = length xs"
  by (metis mset_sort_stable_func size_mset)

text \<open>When the comparison is that of a key, the result is the stable sort by the key.\<close>

lemma insert_left_sorted:
  fixes key :: "'a \<Rightarrow> 'k::linorder"
  assumes "\<And>y. y \<in> set ys \<Longrightarrow> cmp x y < 0 \<longleftrightarrow> key x < key y"
    and "sorted_wrt (\<lambda>a b. key b \<le> key a) ys"
  shows "sorted_wrt (\<lambda>a b. key b \<le> key a) (insert_left cmp x ys)"
  using assms
proof (induction ys)
  case (Cons y ys)
  have "set (insert_left cmp x ys) = insert x (set ys)"
    by (metis mset_insert_left set_mset_add_mset_insert set_mset_mset)
  with Cons show ?case by (fastforce simp: not_less)
qed simp

lemma insert_left_filter:
  fixes key :: "'a \<Rightarrow> 'k::linorder"
  assumes "\<And>y. y \<in> set ys \<Longrightarrow> cmp x y < 0 \<longleftrightarrow> key x < key y"
  shows "filter (\<lambda>z. key z = k) (insert_left cmp x ys) =
    (if key x = k then x # filter (\<lambda>z. key z = k) ys else filter (\<lambda>z. key z = k) ys)"
  using assms by (induction ys) auto

lemma fold_insert_left_key:
  fixes key :: "'a \<Rightarrow> 'k::linorder"
  assumes "\<And>a b. a \<in> set xs \<union> set ys \<Longrightarrow> b \<in> set xs \<union> set ys \<Longrightarrow>
      cmp a b < 0 \<longleftrightarrow> key a < key b"
    and "sorted_wrt (\<lambda>a b. key b \<le> key a) ys"
  shows "sorted_wrt (\<lambda>a b. key b \<le> key a) (fold (insert_left cmp) xs ys) \<and>
    filter (\<lambda>z. key z = k) (fold (insert_left cmp) xs ys) =
      rev (filter (\<lambda>z. key z = k) xs) @ filter (\<lambda>z. key z = k) ys"
  using assms
proof (induction xs arbitrary: ys)
  case (Cons x xs)
  have set_eq: "set (insert_left cmp x ys) = insert x (set ys)"
    by (metis mset_insert_left set_mset_add_mset_insert set_mset_mset)
  have "sorted_wrt (\<lambda>a b. key b \<le> key a) (insert_left cmp x ys)"
    using Cons.prems by (intro insert_left_sorted) auto
  moreover have "filter (\<lambda>z. key z = k) (insert_left cmp x ys) =
    (if key x = k then x # filter (\<lambda>z. key z = k) ys else filter (\<lambda>z. key z = k) ys)"
    using Cons.prems(1) by (intro insert_left_filter) auto
  ultimately show ?case
    using Cons.IH[of "insert_left cmp x ys"] Cons.prems(1) by (simp add: set_eq)
qed simp

theorem sort_stable_func_key:
  fixes key :: "'a \<Rightarrow> 'k::linorder"
  assumes "\<And>a b. a \<in> set xs \<Longrightarrow> b \<in> set xs \<Longrightarrow> cmp a b < 0 \<longleftrightarrow> key a < key b"
  shows "sort_stable_func cmp xs = sort_key key xs"
proof (rule sym, rule properties_for_sort_key)
  show "mset (sort_stable_func cmp xs) = mset xs" by simp
  have *: "sorted_wrt (\<lambda>a b. key b \<le> key a) (fold (insert_left cmp) xs []) \<and>
    filter (\<lambda>z. key z = k) (fold (insert_left cmp) xs []) = rev (filter (\<lambda>z. key z = k) xs)" for k
    using fold_insert_left_key[of xs "[]" cmp key k] assms by simp
  show "filter (\<lambda>x. key k = key x) (sort_stable_func cmp xs) = filter (\<lambda>x. key k = key x) xs"
    if "k \<in> set (sort_stable_func cmp xs)" for k
    using *[of "key k"] by (simp add: sort_stable_func_def eq_commute[of "key k"] rev_filter[symmetric] rev_swap[symmetric])
  show "sorted (map key (sort_stable_func cmp xs))"
    using * by (simp add: sort_stable_func_def sorted_wrt_map sorted_wrt_rev)
qed

subsection \<open>Other slice helpers\<close>

text \<open>slices.Contains is list membership.\<close>

definition slices_contains :: "'a list \<Rightarrow> 'a \<Rightarrow> bool" where
  [simp]: "slices_contains xs x = (x \<in> set xs)"

text \<open>A store into the last element of a slice panics when the slice is empty.\<close>

definition update_last :: "('a \<Rightarrow> 'a) \<Rightarrow> 'a list \<Rightarrow> 'a list run" where
  "update_last f xs = (if xs = [] then None else Some (butlast xs @ [f (last xs)]))"

lemma update_last_snoc [simp]: "update_last f (xs @ [x]) = Some (xs @ [f x])"
  by (simp add: update_last_def)

lemma update_last_Nil [simp]: "update_last f [] = None"
  by (simp add: update_last_def)

lemma update_last_nonempty: "xs \<noteq> [] \<Longrightarrow> \<exists>ys. update_last f xs = Some ys \<and> ys \<noteq> []"
  by (simp add: update_last_def)

lemma update_last_SomeD: "update_last f xs = Some ys \<Longrightarrow> xs \<noteq> [] \<and> ys = butlast xs @ [f (last xs)]"
  by (auto simp: update_last_def split: if_splits)

text \<open>Signed 32-bit numbers as integers.\<close>

lemma sint32_range: "- (2 ^ 31) \<le> sint (x :: int32) \<and> sint x < 2 ^ 31"
  using sint_range_size[of x] by (simp add: word_size)

end
