(* ===== verification/Go_Float32.thy ===== *)
theory Go_Float32
  imports Go_Prelude
begin

text \<open>
  Go's float32, the type of session times, lap times and gaps.  A finite value is the integer m
  of its multiple m * 2^-149 of the smallest positive float32, so every float32 has an exact
  representation and the two zeros coincide (the service compares and subtracts, so it cannot
  tell them apart).  A difference is computed exactly and rounded to 24 significant bits, ties to even,
  with overflow to an infinity from 2^128 on, as IEEE 754 asks.
\<close>

datatype f32 = NaN | Inf bool | Fin int
  \<comment> \<open>Inf True is minus infinity\<close>

fun bit_length :: "nat \<Rightarrow> nat" where
  "bit_length n = (if n = 0 then 0 else Suc (bit_length (n div 2)))"

declare bit_length.simps [simp del]

text \<open>Division by a positive divisor, rounded to the nearest integer, ties to even.\<close>

definition div_half_even :: "nat \<Rightarrow> nat \<Rightarrow> nat" where
  "div_half_even n d =
     (let q = n div d; r = n mod d in
      if 2 * r < d then q else if d < 2 * r then Suc q else if even q then q else Suc q)"

definition f32_round_mag :: "nat \<Rightarrow> nat" where
  "f32_round_mag n = (let d = 2 ^ (bit_length n - 24) in div_half_even n d * d)"

definition f32_round :: "int \<Rightarrow> f32" where
  "f32_round m =
     (let r = f32_round_mag (nat \<bar>m\<bar>) in
      if 2 ^ 277 \<le> r then Inf (m < 0) else Fin (sgn m * int r))"

fun f32_neg :: "f32 \<Rightarrow> f32" where
  "f32_neg NaN = NaN"
| "f32_neg (Inf s) = Inf (\<not> s)"
| "f32_neg (Fin m) = Fin (- m)"

fun f32_add :: "f32 \<Rightarrow> f32 \<Rightarrow> f32" where
  "f32_add (Fin a) (Fin b) = f32_round (a + b)"
| "f32_add (Inf s) (Inf t) = (if s = t then Inf s else NaN)"
| "f32_add (Inf s) (Fin _) = Inf s"
| "f32_add (Fin _) (Inf s) = Inf s"
| "f32_add NaN _ = NaN"
| "f32_add _ NaN = NaN"

definition f32_sub :: "f32 \<Rightarrow> f32 \<Rightarrow> f32" where
  "f32_sub a b = f32_add a (f32_neg b)"

fun f32_lt :: "f32 \<Rightarrow> f32 \<Rightarrow> bool" where
  "f32_lt (Fin a) (Fin b) = (a < b)"
| "f32_lt (Inf s) (Inf t) = (s \<and> \<not> t)"
| "f32_lt (Inf s) (Fin _) = s"
| "f32_lt (Fin _) (Inf s) = (\<not> s)"
| "f32_lt NaN _ = False"
| "f32_lt _ NaN = False"

fun f32_eq :: "f32 \<Rightarrow> f32 \<Rightarrow> bool" where
  "f32_eq NaN _ = False"
| "f32_eq _ NaN = False"
| "f32_eq a b = (a = b)"

definition f32_gt :: "f32 \<Rightarrow> f32 \<Rightarrow> bool" where
  "f32_gt a b = f32_lt b a"

definition f32_le :: "f32 \<Rightarrow> f32 \<Rightarrow> bool" where
  "f32_le a b = (f32_lt a b \<or> f32_eq a b)"

text \<open>The float32 of a small integer constant, as 0.0 and 60.0 of the source.\<close>

definition f32_of_int :: "int \<Rightarrow> f32" where
  "f32_of_int k = f32_round (k * 2 ^ 149)"

abbreviation f32_zero :: f32 where
  "f32_zero \<equiv> Fin 0"

subsection \<open>Rounding\<close>

lemma bit_length_bounds: "0 < n \<Longrightarrow> 2 ^ (bit_length n - 1) \<le> n \<and> n < 2 ^ bit_length n"
proof (induction n rule: bit_length.induct)
  case (1 n)
  show ?case
  proof (cases "n div 2 = 0")
    case True
    with 1(2) have "n = 1" by auto
    then have "bit_length n = 1" by (simp add: bit_length.simps)
    with \<open>n = 1\<close> show ?thesis by simp
  next
    case False
    let ?b = "bit_length (n div 2)"
    have IH: "2 ^ (?b - 1) \<le> n div 2 \<and> n div 2 < 2 ^ ?b" using 1 False by auto
    have "0 < ?b" using False by (subst bit_length.simps) simp
    then obtain c where c: "?b = Suc c" by (cases ?b) auto
    have "bit_length n = Suc ?b" using 1(2) by (subst bit_length.simps) simp
    with IH c show ?thesis by auto
  qed
qed

lemma bit_length_le: "n < 2 ^ k \<Longrightarrow> bit_length n \<le> k"
proof (cases "n = 0")
  case True
  then show ?thesis by (simp add: bit_length.simps)
next
  case False
  assume "n < 2 ^ k"
  with bit_length_bounds[of n] False have "(2::nat) ^ (bit_length n - 1) < 2 ^ k" by linarith
  then have "bit_length n - 1 < k" by simp
  then show ?thesis by simp
qed

lemma div_half_even_1 [simp]: "div_half_even n (Suc 0) = n"
  by (simp add: div_half_even_def)

lemma f32_round_mag_exact: "n < 2 ^ 24 \<Longrightarrow> f32_round_mag n = n"
  using bit_length_le[of n 24] by (simp add: f32_round_mag_def)

lemma f32_round_mag_0 [simp]: "f32_round_mag 0 = 0"
  by (simp add: f32_round_mag_exact)

lemma f32_round_0 [simp]: "f32_round 0 = Fin 0"
  by (simp add: f32_round_def)

lemma f32_round_exact: "\<bar>m\<bar> < 2 ^ 24 \<Longrightarrow> f32_round m = Fin m"
  by (simp add: f32_round_def f32_round_mag_exact nat_less_iff sgn_mult_abs Let_def)

text \<open>A multiple of 2^e with at most 24 significant bits is a float32.\<close>

lemma f32_round_scaled:
  assumes "\<bar>k\<bar> < 2 ^ 24" and "\<bar>k\<bar> * 2 ^ e < 2 ^ 277"
  shows "f32_round (k * 2 ^ e) = Fin (k * 2 ^ e)"
proof -
  let ?n = "nat \<bar>k * 2 ^ e\<bar>"
  have n: "?n = nat \<bar>k\<bar> * 2 ^ e"
    by (simp add: abs_mult nat_mult_distrib nat_power_eq)
  have "nat \<bar>k\<bar> < 2 ^ 24" using assms(1) by (simp add: nat_less_iff)
  then have "?n < 2 ^ (24 + e)" by (simp add: n power_add)
  then have "bit_length ?n - 24 \<le> e" using bit_length_le by fastforce
  then have "(2::nat) ^ (bit_length ?n - 24) dvd ?n"
    by (simp add: n le_imp_power_dvd)
  then have "f32_round_mag ?n = ?n"
    by (simp add: f32_round_mag_def div_half_even_def Let_def)
  moreover have "?n < 2 ^ 277"
    using assms(2) by (simp add: nat_less_iff abs_mult)
  ultimately show ?thesis by (simp add: f32_round_def sgn_mult_abs)
qed

lemma f32_of_int_exact: "\<bar>k\<bar> < 2 ^ 24 \<Longrightarrow> f32_of_int k = Fin (k * 2 ^ 149)"
  unfolding f32_of_int_def by (rule f32_round_scaled) simp_all

lemma f32_of_int_0 [simp]: "f32_of_int 0 = Fin 0"
  by (simp add: f32_of_int_def)

text \<open>The difference of two whole seconds is exact.\<close>

lemma f32_sub_of_int:
  assumes "\<bar>a\<bar> < 2 ^ 23" and "\<bar>b\<bar> < 2 ^ 23"
  shows "f32_sub (f32_of_int a) (f32_of_int b) = f32_of_int (a - b)"
proof -
  have "f32_of_int a = Fin (a * 2 ^ 149)" "f32_of_int b = Fin (b * 2 ^ 149)"
    by (rule f32_of_int_exact, use assms in simp)+
  then show ?thesis
    by (simp add: f32_sub_def f32_of_int_def left_diff_distrib del: f32_of_int_0)
qed

lemma f32_lt_of_int:
  "\<bar>a\<bar> < 2 ^ 24 \<Longrightarrow> \<bar>b\<bar> < 2 ^ 24 \<Longrightarrow> f32_lt (f32_of_int a) (f32_of_int b) \<longleftrightarrow> a < b"
  by (simp add: f32_of_int_exact)

lemma f32_eq_of_int:
  "\<bar>a\<bar> < 2 ^ 24 \<Longrightarrow> \<bar>b\<bar> < 2 ^ 24 \<Longrightarrow> f32_eq (f32_of_int a) (f32_of_int b) \<longleftrightarrow> a = b"
  by (simp add: f32_of_int_exact)

subsection \<open>Comparison\<close>

lemma f32_eq_iff: "f32_eq a b \<longleftrightarrow> a = b \<and> a \<noteq> NaN"
  by (cases a; cases b) auto

lemma f32_lt_irrefl [simp]: "\<not> f32_lt a a"
  by (cases a) auto

lemma f32_lt_trans: "f32_lt a b \<Longrightarrow> f32_lt b c \<Longrightarrow> f32_lt a c"
  by (cases a; cases b; cases c) auto

lemma f32_lt_asym: "f32_lt a b \<Longrightarrow> \<not> f32_lt b a"
  using f32_lt_irrefl f32_lt_trans by blast

text \<open>A difference is negative, zero or positive as its operands compare.\<close>

lemma f32_round_mag_eq_0: "f32_round_mag n = 0 \<longleftrightarrow> n = 0"
proof (cases "n < 2 ^ 24")
  case True
  then show ?thesis by (simp add: f32_round_mag_exact)
next
  case False
  let ?d = "(2::nat) ^ (bit_length n - 24)"
  have "bit_length n - 1 \<ge> bit_length n - 24" by simp
  then have "?d \<le> 2 ^ (bit_length n - 1)" by simp
  also have "\<dots> \<le> n" using False bit_length_bounds[of n] by auto
  finally have "0 < n div ?d" by (simp add: div_greater_zero_iff)
  then show ?thesis using False by (auto simp: f32_round_mag_def div_half_even_def Let_def)
qed

lemma f32_sub_Fin_nonneg:
  assumes "b \<le> a" shows "\<not> f32_lt (f32_sub (Fin a) (Fin b)) f32_zero"
  using assms by (auto simp: f32_sub_def f32_round_def Let_def sgn_if)

lemma f32_sub_Fin_pos:
  assumes "b < a" shows "f32_lt f32_zero (f32_sub (Fin a) (Fin b))"
  using assms by (auto simp: f32_sub_def f32_round_def Let_def f32_round_mag_eq_0 neq0_conv[symmetric])

lemma f32_sub_self [simp]: "f32_sub (Fin a) (Fin a) = Fin 0"
  by (simp add: f32_sub_def)

end
