(* ===== verification/Messages.thy ===== *)
theory Messages
  imports Go_Float32
begin

text \<open>
  The messages the service exchanges, as records of the fields its code reads and writes.
  The message types themselves are generated from the iracelog protocol definition, outside
  this repository; a pointer field that the code dereferences is an option (None is nil), a
  repeated field a list, a map field that the code ranges over an association list with
  distinct keys in the order of one run of the range loop.  Points in time are nanoseconds
  since the Unix epoch.
\<close>

subsection \<open>Time\<close>

type_synonym timestamp = int

definition as_time :: "timestamp option \<Rightarrow> timestamp" where
  \<comment> \<open>Timestamp.AsTime, which reads a nil timestamp as the epoch\<close>
  "as_time t = (case t of None \<Rightarrow> 0 | Some n \<Rightarrow> n)"

definition zero_time :: timestamp where
  \<comment> \<open>time.Time{}: the first of January of the year 1\<close>
  "zero_time = - (62135596800 * 1000000000)"

definition clamp64 :: "int \<Rightarrow> int" where
  "clamp64 n = max (- (2 ^ 63)) (min (2 ^ 63 - 1) n)"

definition time_sub :: "timestamp \<Rightarrow> timestamp \<Rightarrow> int" where
  \<comment> \<open>Time.Sub, a Duration in nanoseconds, saturating at the bounds of int64\<close>
  "time_sub a b = clamp64 (a - b)"

definition minute :: int where
  "minute = 60 * 1000000000"

lemma time_sub_gt: "0 \<le> d \<Longrightarrow> d < 2 ^ 63 - 1 \<Longrightarrow> d < time_sub a b \<longleftrightarrow> d < a - b"
  by (auto simp: time_sub_def clamp64_def)

subsection \<open>Race state\<close>

datatype CarState =
    CAR_STATE_INIT | CAR_STATE_RUN | CAR_STATE_PIT | CAR_STATE_OUT | CAR_STATE_FIN
  | CAR_STATE_OTHER int

datatype MessageType = MESSAGE_TYPE_TIMING | MESSAGE_TYPE_OTHER int

datatype MessageSubType = MESSAGE_SUB_TYPE_RACE_CONTROL | MESSAGE_SUB_TYPE_OTHER int

datatype LapMode = LAP_MODE_INLAP | LAP_MODE_OUTLAP | LAP_MODE_OTHER int

record TimeWithMarker =
  twm_Time :: f32
  twm_Marker :: int

record TimeInfo =
  ti_Time :: f32
  ti_LapMode :: LapMode
  ti_LapNo :: int32

record Car =
  car_CarIdx :: int32
  car_State :: CarState
  car_Pos :: int32
  car_Pic :: int32
  car_Lap :: int32
  car_Lc :: int32
  car_Gap :: f32
  car_Last :: "TimeWithMarker option"
  car_TimeInfo :: "TimeInfo option"
  car_TrackPos :: f32
  car_StintLap :: uint32

record Message =
  msg_Type :: MessageType
  msg_SubType :: MessageSubType
  msg_Msg :: string

record Session =
  ses_SessionNum :: uint32
  ses_SessionTime :: f32
  ses_TimeOfDay :: uint32
  ses_AirTemp :: f32
  ses_TrackTemp :: f32
  ses_TrackWetness :: int
  ses_Precipitation :: f32
  ses_TimeRemain :: f32

subsection \<open>Cars and drivers\<close>

record CarInfo =
  ci_CarIdx :: uint32
  ci_CarNumber :: string
  ci_CarClassId :: int32
  ci_CarId :: uint32
  ci_CarNumberRaw :: int32

text \<open>A model of a car, of which the entries are examples.\<close>

record CarModel =
  cm_Name :: string
  cm_NameShort :: string
  cm_CarId :: uint32
  cm_CarClassId :: int32
  cm_FuelPct :: f32
  cm_PowerAdjust :: f32
  cm_WeightPenalty :: f32
  cm_DryTireSets :: int32

record DriverInfo =
  dri_Id :: int32
  dri_Name :: string
  dri_Initials :: string
  dri_AbbrevName :: string
  dri_IRating :: int32
  dri_LicLevel :: int32
  dri_LicSubLevel :: int32
  dri_LicString :: string

record Team =
  team_Name :: string
  team_Id :: uint32

record CarEntry =
  ce_Car :: "CarInfo option"
  ce_Team :: "Team option"
  ce_Drivers :: "DriverInfo list"

record CarClass =
  cc_Id :: uint32
  cc_Name :: string

subsection \<open>Selectors and published payloads\<close>

datatype EventSelector = EventSelector_Id int32 | EventSelector_Key string | EventSelector_None

record PublishStateRequest =
  psr_Event :: "EventSelector option"
  psr_Session :: "Session option"
  psr_Cars :: "Car list"
  psr_Messages :: "Message list"
  psr_Timestamp :: "timestamp option"

record PublishDriverDataRequest =
  pdr_Event :: "EventSelector option"
  pdr_Entries :: "CarEntry list"
  pdr_CarClasses :: "CarClass list"
  pdr_CurrentDrivers :: "(uint32 \<times> string) list"
  pdr_SessionNum :: uint32
  pdr_SessionTime :: f32
  pdr_Timestamp :: "timestamp option"
  pdr_Cars :: "CarModel list"

record ClassSpeedmapData =
  csd_Laptime :: f32

record PublishSpeedmapRequest =
  psm_Event :: "EventSelector option"
  psm_Speedmap :: "(string \<times> ClassSpeedmapData) list option"
  psm_Timestamp :: "timestamp option"

subsection \<open>Analysis data\<close>

record StintInfo =
  si_ExitTime :: f32
  si_EnterTime :: f32
  si_LapExit :: int32
  si_LapEnter :: int32
  si_StintTime :: f32
  si_NumLaps :: int32
  si_IsCurrentStint :: bool

definition StintInfo0 :: StintInfo where
  "StintInfo0 = \<lparr>si_ExitTime = f32_zero, si_EnterTime = f32_zero, si_LapExit = 0, si_LapEnter = 0,
     si_StintTime = f32_zero, si_NumLaps = 0, si_IsCurrentStint = False\<rparr>"

record CarStint =
  cst_CarNum :: string
  cst_Current :: "StintInfo option"
  cst_History :: "StintInfo list"

record PitInfo =
  pi_EnterTime :: f32
  pi_ExitTime :: f32
  pi_LapEnter :: int32
  pi_LapExit :: int32
  pi_LaneTime :: f32
  pi_IsCurrentPitstop :: bool

definition PitInfo0 :: PitInfo where
  "PitInfo0 = \<lparr>pi_EnterTime = f32_zero, pi_ExitTime = f32_zero, pi_LapEnter = 0, pi_LapExit = 0,
     pi_LaneTime = f32_zero, pi_IsCurrentPitstop = False\<rparr>"

record CarPit =
  cp_CarNum :: string
  cp_Current :: "PitInfo option"
  cp_History :: "PitInfo list"

record SeatTime =
  st_EnterCarTime :: f32
  st_LeaveCarTime :: f32

record Driver =
  dr_Name :: string
  dr_SeatTimes :: "SeatTime list"

record CarOccupancy =
  co_CarNum :: string
  co_Name :: string
  co_CurrentDriverName :: string
  co_Drivers :: "Driver list"

record CarComputeState =
  cs_CarNum :: string
  cs_CarState :: CarState
  cs_OutEncountered :: f32

record LapInfo =
  li_Mode :: LapMode
  li_Time :: f32

record Lap =
  lap_LapNo :: int32
  lap_LapTime :: f32
  lap_LapInfo :: "LapInfo option"

record CarLaps =
  cl_CarNum :: string
  cl_Laps :: "Lap list"

record GapInfo =
  gi_CarNum :: string
  gi_LapNo :: int32
  gi_Pos :: int32
  gi_Gap :: f32
  gi_Pic :: int32

record RaceGraph =
  rg_LapNo :: int32
  rg_CarClass :: string
  rg_Gaps :: "GapInfo list"

record Analysis =
  an_RaceOrder :: "string list"
  an_CarLaps :: "CarLaps list"
  an_CarComputeStates :: "CarComputeState list"
  an_CarStints :: "CarStint list"
  an_CarPits :: "CarPit list"
  an_CarOccupancies :: "CarOccupancy list"
  an_RaceGraph :: "RaceGraph list"

record SnapshotData =
  sd_RecordStamp :: "timestamp option"
  sd_SessionTime :: f32
  sd_TimeOfDay :: uint32
  sd_AirTemp :: f32
  sd_TrackTemp :: f32
  sd_TrackWetness :: int
  sd_Precipitation :: f32
  sd_CarClassLaptimes :: "(string \<times> f32) list"

record ReplayInfo =
  ri_MinTimestamp :: "timestamp option"
  ri_MinSessionTime :: f32
  ri_MaxSessionTime :: f32

definition ReplayInfo0 :: ReplayInfo where
  "ReplayInfo0 = \<lparr>ri_MinTimestamp = None, ri_MinSessionTime = f32_zero,
     ri_MaxSessionTime = f32_zero\<rparr>"

subsection \<open>Events and tracks\<close>

datatype SessionType = SESSION_TYPE_RACE | SESSION_TYPE_OTHER int

record EventSession =
  es_Num :: uint32
  es_Type :: SessionType

record TireInfo =
  tire_Index :: uint32
  tire_CompoundType :: string

record Event =
  ev_Id :: uint32
  ev_Key :: string
  ev_Name :: string
  ev_Description :: string
  ev_RaceloggerVersion :: string
  ev_EventTime :: timestamp
  ev_TrackId :: uint32
  ev_Sessions :: "EventSession list"
  ev_ReplayInfo :: "ReplayInfo option"
  ev_TeamRacing :: bool
  ev_MultiClass :: bool
  ev_NumCarTypes :: uint32
  ev_NumCarClasses :: uint32
  ev_IrSessionId :: int32
  ev_IrSubSessionId :: int32
  ev_PitSpeed :: f32
  ev_TireInfos :: "TireInfo list"

record TrackPitInfo =
  tpi_Entry :: f32
  tpi_Exit :: f32
  tpi_LaneLength :: f32

record Sector =
  sec_Num :: uint32
  sec_StartPct :: f32

record Track =
  tr_Id :: uint32
  tr_Name :: string
  tr_PitInfo :: "TrackPitInfo option"
  tr_ShortName :: string
  tr_Config :: string
  tr_Length :: f32
  tr_PitSpeed :: f32
  tr_Sectors :: "Sector list"

datatype RecordingMode = RECORDING_MODE_DO_NOT_PERSIST | RECORDING_MODE_OTHER int

record EventContainer =
  ec_Event :: Event
  ec_Track :: Track
  ec_Owner :: string

end
