(* ===== verification/Car_Processor.thy ===== *)
theory Car_Processor
  imports Messages
begin

text \<open>
  The car processor, pkg/grpc/processing/car/car_processor.go: it registers the cars of the
  driver messages, keeps one state machine per car (INIT, RUN, PIT, OUT, FIN) driven by the
  state messages, and from its transitions the stints, pit stops and seat times of each car.

  The pointers the Go maps hold are owned by one key each and only changed through the
  processor, so the maps hold values.  A method is a function from the processor to the
  processor after the call, None when it panics.  A range over CurrentDrivers visits the
  association list in its order, which stands for the order of the run.
\<close>

subsection \<open>State\<close>

record CarProcessor =
  ByCarIdx :: "uint32 \<Rightarrow> CarEntry option"
  ByCarNum :: "(string \<times> CarEntry) list"
  ComputeState :: "string \<Rightarrow> CarComputeState option"
  StintLookup :: "string \<Rightarrow> CarStint option"
  PitLookup :: "string \<Rightarrow> CarPit option"
  CarOccupancyLookup :: "string \<Rightarrow> CarOccupancy option"
  NumByIdx :: "uint32 \<Rightarrow> string option"
  CurrentDrivers :: "(uint32 \<times> string) list"
  CarClasses :: "CarClass list"
  raceSessions :: "uint32 list"

definition OutThreshold :: f32 where
  "OutThreshold = f32_of_int 60"

definition WithRaceSessions :: "uint32 list \<Rightarrow> CarProcessor \<Rightarrow> CarProcessor" where
  "WithRaceSessions sessions cp = cp\<lparr>raceSessions := sessions\<rparr>"

definition NewCarProcessor :: "(CarProcessor \<Rightarrow> CarProcessor) list \<Rightarrow> CarProcessor" where
  "NewCarProcessor opts = fold (\<lambda>opt cp. opt cp) opts
     \<lparr>ByCarIdx = Map.empty, ByCarNum = [], ComputeState = Map.empty, StintLookup = Map.empty,
      PitLookup = Map.empty, CarOccupancyLookup = Map.empty, NumByIdx = Map.empty,
      CurrentDrivers = [], CarClasses = [], raceSessions = []\<rparr>"

text \<open>The zero-value reads p.NumByIdx[idx] and p.CurrentDrivers[idx].\<close>

definition num_by_idx :: "CarProcessor \<Rightarrow> uint32 \<Rightarrow> string" where
  "num_by_idx p idx = map_get [] (NumByIdx p) idx"

definition current_driver :: "CarProcessor \<Rightarrow> uint32 \<Rightarrow> string" where
  "current_driver p idx = map_get [] (map_of (CurrentDrivers p)) idx"

subsection \<open>Drivers of a car\<close>

definition newDriverEntry :: "string \<Rightarrow> f32 \<Rightarrow> Driver" where
  "newDriverEntry arg sessionTime =
     \<lparr>dr_Name = arg,
      dr_SeatTimes = [\<lparr>st_EnterCarTime = sessionTime, st_LeaveCarTime = sessionTime\<rparr>]\<rparr>"

definition driverEntryByName :: "Driver list \<Rightarrow> string \<Rightarrow> nat option" where
  "driverEntryByName data name = index_func (\<lambda>item. dr_Name item = name) data"

definition updateLeave :: "f32 \<Rightarrow> nat \<Rightarrow> Driver list \<Rightarrow> Driver list run" where
  "updateLeave sessionTime i drivers = do {
     sts \<leftarrow> update_last (\<lambda>st. st\<lparr>st_LeaveCarTime := sessionTime\<rparr>) (dr_SeatTimes (drivers ! i));
     Some (drivers[i := (drivers ! i)\<lparr>dr_SeatTimes := sts\<rparr>])
   }"

definition updateLeaveOpt :: "f32 \<Rightarrow> nat option \<Rightarrow> Driver list \<Rightarrow> Driver list run" where
  "updateLeaveOpt sessionTime i drivers =
     (case i of None \<Rightarrow> Some drivers | Some i \<Rightarrow> updateLeave sessionTime i drivers)"

definition addSeatTime :: "f32 \<Rightarrow> nat \<Rightarrow> Driver list \<Rightarrow> Driver list" where
  "addSeatTime sessionTime i drivers =
     drivers[i := (drivers ! i)\<lparr>dr_SeatTimes := dr_SeatTimes (drivers ! i) @
       [\<lparr>st_EnterCarTime = sessionTime, st_LeaveCarTime = sessionTime\<rparr>]\<rparr>]"

text \<open>The else branch of updateCarInfo: the car is known, name is its driver now.\<close>

definition updateOccupancy ::
  "string \<Rightarrow> string \<Rightarrow> f32 \<Rightarrow> CarOccupancy \<Rightarrow> CarOccupancy run" where
  "updateOccupancy lastName name sessionTime item = (
     let currentDriverIdx = driverEntryByName (co_Drivers item) lastName in
     case driverEntryByName (co_Drivers item) name of
       None \<Rightarrow> do {
         ds \<leftarrow> updateLeaveOpt sessionTime currentDriverIdx
                (co_Drivers item @ [newDriverEntry name sessionTime]);
         Some (item\<lparr>co_Drivers := ds\<rparr>)
       }
     | Some driverIndex \<Rightarrow>
         if lastName \<noteq> name then do {
           ds \<leftarrow> updateLeaveOpt sessionTime currentDriverIdx (co_Drivers item);
           Some (item\<lparr>co_CurrentDriverName := name, co_Drivers := addSeatTime sessionTime driverIndex ds\<rparr>)
         } else do {
           ds \<leftarrow> updateLeave sessionTime driverIndex (co_Drivers item);
           Some (item\<lparr>co_Drivers := ds\<rparr>)
         })"

subsection \<open>Driver messages\<close>

definition register_entry :: "CarEntry \<Rightarrow> CarProcessor \<Rightarrow> CarProcessor run" where
  "register_entry e p = do {
     c \<leftarrow> ce_Car e;
     Some (let num = ci_CarNumber c;
               p = p\<lparr>ByCarIdx := (ByCarIdx p)(ci_CarIdx c \<mapsto> e),
                     ByCarNum := AList.update num e (ByCarNum p),
                     NumByIdx := (NumByIdx p)(ci_CarIdx c \<mapsto> num)\<rparr>
           in if ComputeState p num = None
              then p\<lparr>ComputeState := (ComputeState p)(num \<mapsto>
                     \<lparr>cs_CarNum = num, cs_CarState = CAR_STATE_INIT, cs_OutEncountered = f32_zero\<rparr>)\<rparr>
              else p)
   }"

definition update_car_driver :: "f32 \<Rightarrow> uint32 \<times> string \<Rightarrow> CarProcessor \<Rightarrow> CarProcessor run" where
  "update_car_driver sessionTime d p = (case d of (carIdx, name) \<Rightarrow> do {
     item \<leftarrow> (case CarOccupancyLookup p (num_by_idx p carIdx) of
        None \<Rightarrow> do {
          e \<leftarrow> ByCarIdx p carIdx;
          t \<leftarrow> ce_Team e;
          Some \<lparr>co_CarNum = num_by_idx p carIdx, co_Name = team_Name t,
                co_CurrentDriverName = name, co_Drivers = [newDriverEntry name sessionTime]\<rparr>
        }
      | Some item \<Rightarrow> updateOccupancy (current_driver p carIdx) name sessionTime item);
     Some (p\<lparr>CarOccupancyLookup := (CarOccupancyLookup p)(num_by_idx p carIdx \<mapsto> item)\<rparr>)
   })"

definition updateCarInfo :: "PublishDriverDataRequest \<Rightarrow> CarProcessor \<Rightarrow> CarProcessor run" where
  "updateCarInfo payload p =
     go_for (update_car_driver (pdr_SessionTime payload)) (pdr_CurrentDrivers payload) p"

definition ProcessCarPayload :: "PublishDriverDataRequest \<Rightarrow> CarProcessor \<Rightarrow> CarProcessor run" where
  "ProcessCarPayload payload p = do {
     p \<leftarrow> go_for register_entry (pdr_Entries payload) (p\<lparr>CarClasses := pdr_CarClasses payload\<rparr>);
     if \<not> slices_contains (raceSessions p) (pdr_SessionNum payload)
     then Some (p\<lparr>CurrentDrivers := pdr_CurrentDrivers payload\<rparr>)
     else do {
       p \<leftarrow> updateCarInfo payload p;
       Some (p\<lparr>CurrentDrivers := pdr_CurrentDrivers payload\<rparr>)
     }
   }"

subsection \<open>State messages\<close>

definition markSeatTime :: "string \<Rightarrow> f32 \<Rightarrow> CarProcessor \<Rightarrow> CarProcessor run" where
  "markSeatTime carNum sessionTime p = do {
     e \<leftarrow> map_of (ByCarNum p) carNum;
     c \<leftarrow> ce_Car e;
     entry \<leftarrow> CarOccupancyLookup p carNum;
     ds \<leftarrow> updateLeaveOpt sessionTime
            (driverEntryByName (co_Drivers entry) (current_driver p (ci_CarIdx c))) (co_Drivers entry);
     Some (p\<lparr>CarOccupancyLookup := (CarOccupancyLookup p)(carNum \<mapsto> entry\<lparr>co_Drivers := ds\<rparr>)\<rparr>)
   }"

definition ensure_occupancy :: "f32 \<Rightarrow> Car \<Rightarrow> CarProcessor \<Rightarrow> CarProcessor run" where
  "ensure_occupancy sessionTime car p = (
     let carIdx = car_CarIdx car; carNum = num_by_idx p carIdx in
     case CarOccupancyLookup p carNum of
       Some _ \<Rightarrow> Some p
     | None \<Rightarrow> do {
         e \<leftarrow> ByCarIdx p carIdx;
         t \<leftarrow> ce_Team e;
         Some (p\<lparr>CarOccupancyLookup := (CarOccupancyLookup p)(carNum \<mapsto>
            \<lparr>co_CarNum = carNum, co_Name = team_Name t,
             co_CurrentDriverName = current_driver p carIdx,
             co_Drivers = [newDriverEntry (current_driver p carIdx) sessionTime]\<rparr>)\<rparr>)
       })"

text \<open>ensureCarOccupancy reads payload.Session.SessionTime only when it adds an entry; the caller has read it before.\<close>

definition ensureCarOccupancy :: "f32 \<Rightarrow> PublishStateRequest \<Rightarrow> CarProcessor \<Rightarrow> CarProcessor run" where
  "ensureCarOccupancy sessionTime payload p = go_for (ensure_occupancy sessionTime) (psr_Cars payload) p"

definition new_stint :: "f32 \<Rightarrow> int32 \<Rightarrow> StintInfo" where
  "new_stint sessionTime lap =
     StintInfo0\<lparr>si_ExitTime := sessionTime, si_LapExit := lap, si_IsCurrentStint := True\<rparr>"

definition new_pit :: "f32 \<Rightarrow> int32 \<Rightarrow> PitInfo" where
  "new_pit sessionTime lap =
     PitInfo0\<lparr>pi_EnterTime := sessionTime, pi_LapEnter := lap, pi_IsCurrentPitstop := True\<rparr>"

definition pits_of :: "CarProcessor \<Rightarrow> string \<Rightarrow> CarPit" where
  "pits_of p num = (case PitLookup p num of Some pits \<Rightarrow> pits
     | None \<Rightarrow> \<lparr>cp_CarNum = num, cp_Current = None, cp_History = []\<rparr>)"

type_synonym handler_result = "(CarProcessor \<times> CarComputeState) run"

definition handleComputeStateInit ::
  "int32 \<Rightarrow> CarState \<Rightarrow> f32 \<Rightarrow> CarComputeState \<Rightarrow> CarProcessor \<Rightarrow> handler_result" where
  "handleComputeStateInit curCarLap curCarState sessionTime cs p = (case curCarState of
     CAR_STATE_RUN \<Rightarrow> do {
       let stints = \<lparr>cst_CarNum = cs_CarNum cs, cst_Current = Some (new_stint sessionTime curCarLap),
                     cst_History = []\<rparr>;
       let p = p\<lparr>StintLookup := (StintLookup p)(cs_CarNum cs \<mapsto> stints)\<rparr>;
       p \<leftarrow> markSeatTime (cs_CarNum cs) sessionTime p;
       Some (p, cs\<lparr>cs_CarState := curCarState\<rparr>)
     }
   | _ \<Rightarrow> Some (p, cs))"

definition close_stint :: "f32 \<Rightarrow> int32 \<Rightarrow> StintInfo \<Rightarrow> StintInfo" where
  "close_stint sessionTime lap cur =
     cur\<lparr>si_EnterTime := sessionTime, si_LapEnter := lap,
         si_NumLaps := lap - si_LapExit cur + 1,
         si_StintTime := f32_sub sessionTime (si_ExitTime cur)\<rparr>"

definition handleComputeStateRun ::
  "int32 \<Rightarrow> CarState \<Rightarrow> f32 \<Rightarrow> CarComputeState \<Rightarrow> CarProcessor \<Rightarrow> handler_result" where
  "handleComputeStateRun curCarLap curCarState sessionTime cs p = do {
     let num = cs_CarNum cs;
     stint \<leftarrow> StintLookup p num;
     cur0 \<leftarrow> cst_Current stint;
     let cur = close_stint sessionTime curCarLap cur0;
     let stint = stint\<lparr>cst_Current := Some cur\<rparr>;
     p \<leftarrow> markSeatTime num sessionTime p;
     let (p, stint, cs) = (case curCarState of
         CAR_STATE_RUN \<Rightarrow> (p, stint, cs\<lparr>cs_OutEncountered := f32_zero\<rparr>)
       | CAR_STATE_FIN \<Rightarrow> (p, stint, cs\<lparr>cs_CarState := CAR_STATE_FIN\<rparr>)
       | CAR_STATE_OUT \<Rightarrow>
           if f32_eq (cs_OutEncountered cs) f32_zero
           then (p, stint, cs\<lparr>cs_OutEncountered := sessionTime\<rparr>)
           else if f32_gt (f32_sub sessionTime (cs_OutEncountered cs)) OutThreshold
           then (p, stint\<lparr>cst_History := cst_History stint @ [cur], cst_Current := Some StintInfo0\<rparr>,
                 cs\<lparr>cs_CarState := CAR_STATE_OUT\<rparr>)
           else (p, stint, cs)
       | CAR_STATE_PIT \<Rightarrow>
           (p\<lparr>PitLookup := (PitLookup p)(num \<mapsto>
               (pits_of p num)\<lparr>cp_Current := Some (new_pit sessionTime curCarLap)\<rparr>)\<rparr>,
            stint\<lparr>cst_History := cst_History stint @ [cur\<lparr>si_IsCurrentStint := False\<rparr>],
                  cst_Current := Some StintInfo0\<rparr>,
            cs\<lparr>cs_OutEncountered := f32_zero, cs_CarState := CAR_STATE_PIT\<rparr>)
       | _ \<Rightarrow> (p, stint, cs));
     Some (p\<lparr>StintLookup := (StintLookup p)(num \<mapsto> stint)\<rparr>, cs)
   }"

definition handleComputeStatePit ::
  "int32 \<Rightarrow> CarState \<Rightarrow> f32 \<Rightarrow> CarComputeState \<Rightarrow> CarProcessor \<Rightarrow> handler_result" where
  "handleComputeStatePit curCarLap curCarState sessionTime cs p = do {
     let num = cs_CarNum cs;
     pits \<leftarrow> PitLookup p num;
     cur0 \<leftarrow> cp_Current pits;
     let cur = cur0\<lparr>pi_ExitTime := sessionTime, pi_LapExit := curCarLap,
                    pi_LaneTime := f32_sub sessionTime (pi_EnterTime cur0)\<rparr>;
     let pits = pits\<lparr>cp_Current := Some cur\<rparr>;
     p \<leftarrow> markSeatTime num sessionTime p;
     (p, pits, cs) \<leftarrow> (case curCarState of
         CAR_STATE_RUN \<Rightarrow> do {
           stints \<leftarrow> StintLookup p num;
           Some (p\<lparr>StintLookup := (StintLookup p)(num \<mapsto>
                   stints\<lparr>cst_Current := Some (new_stint sessionTime curCarLap)\<rparr>)\<rparr>,
                 pits\<lparr>cp_History := cp_History pits @ [cur\<lparr>pi_IsCurrentPitstop := False\<rparr>],
                      cp_Current := Some PitInfo0\<rparr>,
                 cs\<lparr>cs_OutEncountered := f32_zero, cs_CarState := CAR_STATE_RUN\<rparr>)
         }
       | CAR_STATE_OUT \<Rightarrow> Some (
           if f32_eq (cs_OutEncountered cs) f32_zero
           then (p, pits, cs\<lparr>cs_OutEncountered := sessionTime\<rparr>)
           else if f32_gt (f32_sub sessionTime (cs_OutEncountered cs)) OutThreshold
           then (p, pits, cs\<lparr>cs_CarState := CAR_STATE_OUT\<rparr>)
           else (p, pits, cs))
       | CAR_STATE_PIT \<Rightarrow> Some (p, pits, cs\<lparr>cs_OutEncountered := f32_zero\<rparr>)
       | _ \<Rightarrow> Some (p, pits, cs));
     Some (p\<lparr>PitLookup := (PitLookup p)(num \<mapsto> pits)\<rparr>, cs)
   }"

definition handleComputeStateOut ::
  "int32 \<Rightarrow> CarState \<Rightarrow> f32 \<Rightarrow> CarComputeState \<Rightarrow> CarProcessor \<Rightarrow> handler_result" where
  "handleComputeStateOut curCarLap curCarState sessionTime cs p = (
     let num = cs_CarNum cs in
     case curCarState of
       CAR_STATE_RUN \<Rightarrow> do {
         stints \<leftarrow> StintLookup p num;
         Some (p\<lparr>StintLookup := (StintLookup p)(num \<mapsto>
                 stints\<lparr>cst_Current := Some (new_stint sessionTime curCarLap)\<rparr>)\<rparr>,
               cs\<lparr>cs_CarState := CAR_STATE_RUN\<rparr>)
       }
     | CAR_STATE_PIT \<Rightarrow>
         Some (p\<lparr>PitLookup := (PitLookup p)(num \<mapsto>
                 (pits_of p num)\<lparr>cp_Current := Some (new_pit sessionTime curCarLap)\<rparr>)\<rparr>,
               cs\<lparr>cs_CarState := CAR_STATE_PIT\<rparr>)
     | _ \<Rightarrow> Some (p, cs))"

definition handleComputeState ::
  "Car \<Rightarrow> f32 \<Rightarrow> CarComputeState \<Rightarrow> CarProcessor \<Rightarrow> handler_result" where
  "handleComputeState carMsg sessionTime cs p = (
     let curCarLap = car_Lap carMsg; curCarState = car_State carMsg in
     if curCarLap <s 1 then Some (p, cs)
     else case cs_CarState cs of
       CAR_STATE_INIT \<Rightarrow> handleComputeStateInit curCarLap curCarState sessionTime cs p
     | CAR_STATE_RUN \<Rightarrow> handleComputeStateRun curCarLap curCarState sessionTime cs p
     | CAR_STATE_PIT \<Rightarrow> handleComputeStatePit curCarLap curCarState sessionTime cs p
     | CAR_STATE_OUT \<Rightarrow> handleComputeStateOut curCarLap curCarState sessionTime cs p
     | _ \<Rightarrow> Some (p, cs))"

text \<open>
  One iteration of ProcessStatePayload.  A car number without a compute state (none arises from the
  operations, see car_inv) is a nil pointer: it is read from lap 1 on, and below lap 1 stored back unread, which the
  model takes as no change.
\<close>

definition process_car :: "f32 \<Rightarrow> Car \<Rightarrow> CarProcessor \<Rightarrow> CarProcessor run" where
  "process_car sessionTime carMsg p = (
     let carNum = num_by_idx p (car_CarIdx carMsg) in
     if carNum = [] then Some p
     else case ComputeState p carNum of
       None \<Rightarrow> if car_Lap carMsg <s 1 then Some p else None
     | Some cs \<Rightarrow> do {
         (p, cs) \<leftarrow> handleComputeState carMsg sessionTime cs p;
         Some (p\<lparr>ComputeState := (ComputeState p)(carNum \<mapsto> cs)\<rparr>)
       })"

definition ProcessStatePayload :: "PublishStateRequest \<Rightarrow> CarProcessor \<Rightarrow> CarProcessor run" where
  "ProcessStatePayload payload p = do {
     session \<leftarrow> psr_Session payload;
     let sessionTime = ses_SessionTime session;
     p \<leftarrow> ensureCarOccupancy sessionTime payload p;
     go_for (process_car sessionTime) (psr_Cars payload) p
   }"

definition ProcessStatePayloads :: "PublishStateRequest list \<Rightarrow> CarProcessor \<Rightarrow> CarProcessor run" where
  "ProcessStatePayloads payloads p = go_for ProcessStatePayload payloads p"

end
