(* ===== verification/Car_Invariants.thy ===== *)
theory Car_Invariants
  imports Car_Processor
begin

text \<open>
  The car processor never panics on the messages of a recording whose cars are registered, and
  keeps car_inv: the lookups the state machine of a car needs are present in each of its states,
  the closed stints and pit stops add up, the drivers of a car are distinct and have
  seat times.  One lemma per operation, then the message handlers.
\<close>

subsection \<open>Well-formed entries\<close>

definition stint_closed :: "StintInfo \<Rightarrow> bool" where
  "stint_closed s \<longleftrightarrow> si_NumLaps s = si_LapEnter s - si_LapExit s + 1 \<and>
     si_StintTime s = f32_sub (si_EnterTime s) (si_ExitTime s)"

definition pit_closed :: "PitInfo \<Rightarrow> bool" where
  "pit_closed s \<longleftrightarrow> \<not> pi_IsCurrentPitstop s \<and>
     pi_LaneTime s = f32_sub (pi_ExitTime s) (pi_EnterTime s)"

definition stint_ok :: "string \<Rightarrow> CarStint \<Rightarrow> bool" where
  "stint_ok num st \<longleftrightarrow> cst_CarNum st = num \<and> list_all stint_closed (cst_History st)"

definition pit_ok :: "string \<Rightarrow> CarPit \<Rightarrow> bool" where
  "pit_ok num pt \<longleftrightarrow> cp_CarNum pt = num \<and> list_all pit_closed (cp_History pt)"

definition drivers_ok :: "Driver list \<Rightarrow> bool" where
  "drivers_ok ds \<longleftrightarrow> distinct (map dr_Name ds) \<and> (\<forall>d \<in> set ds. dr_SeatTimes d \<noteq> [])"

definition occ_ok :: "string \<Rightarrow> CarOccupancy \<Rightarrow> bool" where
  "occ_ok num occ \<longleftrightarrow> co_CarNum occ = num \<and> drivers_ok (co_Drivers occ)"

text \<open>What the lookups hold for a car in each state of its state machine.\<close>

definition compute_ok ::
  "(string \<Rightarrow> CarStint option) \<Rightarrow> (string \<Rightarrow> CarPit option) \<Rightarrow> string \<Rightarrow> CarComputeState \<Rightarrow> bool" where
  "compute_ok stints pits num cs \<longleftrightarrow> cs_CarNum cs = num \<and>
     cs_CarState cs \<in> {CAR_STATE_INIT, CAR_STATE_RUN, CAR_STATE_PIT, CAR_STATE_OUT, CAR_STATE_FIN} \<and>
     (cs_CarState cs \<in> {CAR_STATE_RUN, CAR_STATE_PIT, CAR_STATE_OUT} \<longrightarrow>
        (\<exists>st si. stints num = Some st \<and> cst_Current st = Some si \<and>
           si_IsCurrentStint si = (cs_CarState cs = CAR_STATE_RUN))) \<and>
     (cs_CarState cs = CAR_STATE_PIT \<longrightarrow>
        (\<exists>pt pi. pits num = Some pt \<and> cp_Current pt = Some pi \<and> pi_IsCurrentPitstop pi))"

text \<open>The car number has a driver message entry with its car.\<close>

definition car_known :: "(string \<times> CarEntry) list \<Rightarrow> string \<Rightarrow> bool" where
  "car_known cars num \<longleftrightarrow> (\<exists>e c. map_of cars num = Some e \<and> ce_Car e = Some c)"

definition registered :: "CarProcessor \<Rightarrow> bool" where
  "registered p \<longleftrightarrow> (\<forall>idx num. NumByIdx p idx = Some num \<longrightarrow>
     (\<exists>e. ByCarIdx p idx = Some e \<and> ce_Car e \<noteq> None \<and> ce_Team e \<noteq> None) \<and>
     ComputeState p num \<noteq> None)"

definition car_inv :: "CarProcessor \<Rightarrow> bool" where
  "car_inv p \<longleftrightarrow> registered p \<and> distinct (map fst (ByCarNum p)) \<and>
     (\<forall>num cs. ComputeState p num = Some cs \<longrightarrow>
        car_known (ByCarNum p) num \<and> compute_ok (StintLookup p) (PitLookup p) num cs) \<and>
     (\<forall>num st. StintLookup p num = Some st \<longrightarrow> stint_ok num st) \<and>
     (\<forall>num pt. PitLookup p num = Some pt \<longrightarrow> pit_ok num pt) \<and>
     (\<forall>num occ. CarOccupancyLookup p num = Some occ \<longrightarrow> occ_ok num occ)"

subsection \<open>Occupancies\<close>

lemma driverEntryByName_SomeD:
  "driverEntryByName ds name = Some i \<Longrightarrow> i < length ds \<and> dr_Name (ds ! i) = name"
  by (auto simp: driverEntryByName_def dest: index_func_SomeD)

lemma driverEntryByName_None:
  "driverEntryByName ds name = None \<longleftrightarrow> name \<notin> dr_Name ` set ds"
  by (auto simp: driverEntryByName_def index_func_None)

lemma driverEntryByName_append:
  "driverEntryByName ds name = Some i \<Longrightarrow> driverEntryByName (ds @ es) name = Some i"
  by (simp add: driverEntryByName_def index_func_append)

lemma drivers_ok_update:
  assumes "drivers_ok ds" "i < length ds" "dr_Name d = dr_Name (ds ! i)" "dr_SeatTimes d \<noteq> []"
  shows "drivers_ok (ds[i := d])"
proof -
  have "map dr_Name (ds[i := d]) = map dr_Name ds"
    using assms(3) by (simp add: map_update) (metis assms(2) list_update_id nth_map)
  moreover have "\<forall>x \<in> set (ds[i := d]). dr_SeatTimes x \<noteq> []"
    using assms(1,4) set_update_subset_insert by (fastforce simp: drivers_ok_def)
  ultimately show ?thesis using assms(1) by (simp add: drivers_ok_def)
qed

lemma updateLeave_ok:
  assumes "drivers_ok ds" "i < length ds"
  shows "\<exists>ds'. updateLeave t i ds = Some ds' \<and> drivers_ok ds' \<and>
    map dr_Name ds' = map dr_Name ds"
proof -
  have ne: "dr_SeatTimes (ds ! i) \<noteq> []" using assms by (simp add: drivers_ok_def)
  let ?sts = "butlast (dr_SeatTimes (ds ! i)) @
    [(last (dr_SeatTimes (ds ! i)))\<lparr>st_LeaveCarTime := t\<rparr>]"
  have "updateLeave t i ds = Some (ds[i := (ds ! i)\<lparr>dr_SeatTimes := ?sts\<rparr>])"
    using ne by (simp add: updateLeave_def update_last_def)
  moreover have "drivers_ok (ds[i := (ds ! i)\<lparr>dr_SeatTimes := ?sts\<rparr>])"
    using assms by (intro drivers_ok_update) auto
  moreover have "map dr_Name (ds[i := (ds ! i)\<lparr>dr_SeatTimes := ?sts\<rparr>]) = map dr_Name ds"
    using assms(2) by (simp add: map_update) (metis list_update_id nth_map)
  ultimately show ?thesis by blast
qed

lemma updateLeaveOpt_ok:
  assumes "drivers_ok ds" "\<And>j. i = Some j \<Longrightarrow> j < length ds"
  shows "\<exists>ds'. updateLeaveOpt t i ds = Some ds' \<and> drivers_ok ds' \<and>
    map dr_Name ds' = map dr_Name ds"
  using assms by (cases i) (auto simp: updateLeaveOpt_def intro: updateLeave_ok)

lemma drivers_ok_new [simp]: "drivers_ok [newDriverEntry name t]"
  by (simp add: drivers_ok_def newDriverEntry_def)

lemma drivers_ok_snoc_new:
  "drivers_ok ds \<Longrightarrow> name \<notin> dr_Name ` set ds \<Longrightarrow> drivers_ok (ds @ [newDriverEntry name t])"
  by (auto simp: drivers_ok_def newDriverEntry_def)

lemma addSeatTime_ok:
  "drivers_ok ds \<Longrightarrow> i < length ds \<Longrightarrow> drivers_ok (addSeatTime t i ds)"
  unfolding addSeatTime_def by (rule drivers_ok_update) auto

lemma updateOccupancy_ok:
  assumes "occ_ok num occ"
  shows "\<exists>occ'. updateOccupancy lastName name t occ = Some occ' \<and> occ_ok num occ'"
proof -
  let ?ds = "co_Drivers occ" let ?c = "driverEntryByName ?ds lastName"
  have ok: "drivers_ok ?ds" and num: "co_CarNum occ = num" using assms by (auto simp: occ_ok_def)
  show ?thesis
  proof (cases "driverEntryByName ?ds name")
    case None
    have "\<And>j. ?c = Some j \<Longrightarrow> j < length (?ds @ [newDriverEntry name t])"
      by (auto dest!: driverEntryByName_SomeD)
    moreover have "drivers_ok (?ds @ [newDriverEntry name t])"
      using ok None by (intro drivers_ok_snoc_new) (auto simp: driverEntryByName_None)
    ultimately show ?thesis
      using updateLeaveOpt_ok[of "?ds @ [newDriverEntry name t]" ?c t] None num
      by (auto simp: updateOccupancy_def occ_ok_def)
  next
    case (Some i)
    have i: "i < length ?ds" using driverEntryByName_SomeD[OF Some] by simp
    have "\<And>j. ?c = Some j \<Longrightarrow> j < length ?ds" by (auto dest!: driverEntryByName_SomeD)
    then obtain ds' where ds': "updateLeaveOpt t ?c ?ds = Some ds'" "drivers_ok ds'"
        "map dr_Name ds' = map dr_Name ?ds" using updateLeaveOpt_ok[OF ok] by blast
    from ds'(3) have "length ds' = length ?ds" by (metis length_map)
    with i ds' addSeatTime_ok[of ds' i t] updateLeave_ok[OF ok i, of t] Some num show ?thesis
      by (auto simp: updateOccupancy_def occ_ok_def)
  qed
qed

subsection \<open>What a call leaves alone\<close>

text \<open>The registration of the cars, which the state messages only read.\<close>

definition same_cars :: "CarProcessor \<Rightarrow> CarProcessor \<Rightarrow> bool" where
  "same_cars p q \<longleftrightarrow> ByCarIdx q = ByCarIdx p \<and> ByCarNum q = ByCarNum p \<and> NumByIdx q = NumByIdx p \<and>
     CurrentDrivers q = CurrentDrivers p \<and> CarClasses q = CarClasses p \<and> raceSessions q = raceSessions p"

lemma same_cars_refl [simp]: "same_cars p p"
  by (simp add: same_cars_def)

lemma same_cars_trans: "same_cars p q \<Longrightarrow> same_cars q r \<Longrightarrow> same_cars p r"
  by (simp add: same_cars_def)

lemma same_cars_num_by_idx: "same_cars p q \<Longrightarrow> num_by_idx q = num_by_idx p"
  by (simp add: same_cars_def num_by_idx_def[abs_def])

lemma car_inv_update_occ:
  "car_inv p \<Longrightarrow> occ_ok num occ \<Longrightarrow>
     car_inv (p\<lparr>CarOccupancyLookup := (CarOccupancyLookup p)(num \<mapsto> occ)\<rparr>)"
  by (simp add: car_inv_def registered_def)

lemma markSeatTime_ok:
  assumes "car_inv p" "ComputeState p num \<noteq> None" "CarOccupancyLookup p num \<noteq> None"
  shows "\<exists>occ. markSeatTime num t p =
      Some (p\<lparr>CarOccupancyLookup := (CarOccupancyLookup p)(num \<mapsto> occ)\<rparr>) \<and> occ_ok num occ"
proof -
  from assms obtain e c occ where
    e: "map_of (ByCarNum p) num = Some e" "ce_Car e = Some c" and
    occ: "CarOccupancyLookup p num = Some occ" "occ_ok num occ"
    unfolding car_inv_def car_known_def by blast
  let ?i = "driverEntryByName (co_Drivers occ) (current_driver p (ci_CarIdx c))"
  have "\<And>j. ?i = Some j \<Longrightarrow> j < length (co_Drivers occ)" by (auto dest!: driverEntryByName_SomeD)
  then obtain ds where "updateLeaveOpt t ?i (co_Drivers occ) = Some ds" "drivers_ok ds"
    using updateLeaveOpt_ok[of "co_Drivers occ" ?i t] occ by (auto simp: occ_ok_def)
  with e occ show ?thesis by (auto simp: markSeatTime_def occ_ok_def)
qed

lemma markSeatTime_stints:
  "markSeatTime num t (p\<lparr>StintLookup := s\<rparr>) =
     map_option (\<lambda>q. q\<lparr>StintLookup := s\<rparr>) (markSeatTime num t p)"
  by (auto simp: markSeatTime_def current_driver_def split: Option.bind_splits)

subsection \<open>The handlers of the state machine\<close>

text \<open>
  handled p num r: the handler of car num, called in p, has changed only the entries of num and left
  them as the new compute state needs them.
\<close>

definition handled :: "CarProcessor \<Rightarrow> string \<Rightarrow> CarProcessor \<times> CarComputeState \<Rightarrow> bool" where
  "handled p num r \<longleftrightarrow> (case r of (q, cs) \<Rightarrow>
     same_cars p q \<and> ComputeState q = ComputeState p \<and>
     (\<forall>n. n \<noteq> num \<longrightarrow> StintLookup q n = StintLookup p n \<and> PitLookup q n = PitLookup p n \<and>
        CarOccupancyLookup q n = CarOccupancyLookup p n) \<and>
     (\<forall>st. StintLookup q num = Some st \<longrightarrow> stint_ok num st) \<and>
     (\<forall>pt. PitLookup q num = Some pt \<longrightarrow> pit_ok num pt) \<and>
     (\<exists>occ. CarOccupancyLookup q num = Some occ \<and> occ_ok num occ) \<and>
     compute_ok (StintLookup q) (PitLookup q) num cs)"

lemma compute_ok_cong:
  "compute_ok s p num cs \<Longrightarrow> s' num = s num \<Longrightarrow> p' num = p num \<Longrightarrow> compute_ok s' p' num cs"
  by (simp add: compute_ok_def)

lemma handled_inv:
  assumes inv: "car_inv p" and "ComputeState p num \<noteq> None" and h: "handled p num (q, cs)"
  shows "car_inv (q\<lparr>ComputeState := (ComputeState q)(num \<mapsto> cs)\<rparr>)"
proof -
  have same: "same_cars p q" "ComputeState q = ComputeState p" using h by (auto simp: handled_def)
  have reg: "registered (q\<lparr>ComputeState := (ComputeState q)(num \<mapsto> cs)\<rparr>)"
    using inv same by (auto simp: car_inv_def registered_def same_cars_def)
  have "car_known (ByCarNum q) n \<and> compute_ok (StintLookup q) (PitLookup q) n c"
    if "((ComputeState q)(num \<mapsto> cs)) n = Some c" for n c
  proof (cases "n = num")
    case True
    with that assms same show ?thesis
      by (auto simp: car_inv_def same_cars_def handled_def)
  next
    case False
    with that same have "ComputeState p n = Some c" by simp
    with inv have "car_known (ByCarNum p) n" "compute_ok (StintLookup p) (PitLookup p) n c"
      by (auto simp: car_inv_def)
    with h False same show ?thesis
      by (auto simp: handled_def same_cars_def intro: compute_ok_cong)
  qed
  moreover have "stint_ok n st" if "StintLookup q n = Some st" for n st
    using inv h that by (cases "n = num") (auto simp: car_inv_def handled_def)
  moreover have "pit_ok n pt" if "PitLookup q n = Some pt" for n pt
    using inv h that by (cases "n = num") (auto simp: car_inv_def handled_def)
  moreover have "occ_ok n occ" if "CarOccupancyLookup q n = Some occ" for n occ
    using inv h that by (cases "n = num") (auto simp: car_inv_def handled_def)
  ultimately show ?thesis
    using inv same reg by (simp add: car_inv_def same_cars_def)
qed

lemma car_inv_computeD:
  assumes "car_inv p" "ComputeState p num = Some cs"
  shows "cs_CarNum cs = num" "compute_ok (StintLookup p) (PitLookup p) num cs"
  using assms unfolding car_inv_def compute_ok_def by blast+

lemma car_inv_stintD: "car_inv p \<Longrightarrow> StintLookup p num = Some st \<Longrightarrow> stint_ok num st"
  by (simp add: car_inv_def)

lemma car_inv_pitD: "car_inv p \<Longrightarrow> PitLookup p num = Some pt \<Longrightarrow> pit_ok num pt"
  by (simp add: car_inv_def)

lemma car_inv_occD: "car_inv p \<Longrightarrow> CarOccupancyLookup p num = Some occ \<Longrightarrow> occ_ok num occ"
  by (simp add: car_inv_def)

lemma pits_of_ok: "car_inv p \<Longrightarrow> pit_ok num (pits_of p num)"
  by (auto simp: pits_of_def car_inv_def pit_ok_def split: option.splits)

lemma stint_closed_close [simp]:
  "stint_closed (close_stint t lap cur)"
  "stint_closed (close_stint t lap cur\<lparr>si_IsCurrentStint := b\<rparr>)"
  by (simp_all add: stint_closed_def close_stint_def)

lemma close_stint_current [simp]: "si_IsCurrentStint (close_stint t lap cur) = si_IsCurrentStint cur"
  by (simp add: close_stint_def)

lemma new_stint_current [simp]: "si_IsCurrentStint (new_stint t lap)"
  by (simp add: new_stint_def)

lemma new_pit_current [simp]: "pi_IsCurrentPitstop (new_pit t lap)"
  by (simp add: new_pit_def)

lemma StintInfo0_current [simp]: "\<not> si_IsCurrentStint StintInfo0"
  by (simp add: StintInfo0_def)

lemmas handler_ok_simps =
  handled_def same_cars_def compute_ok_def stint_ok_def pit_ok_def

lemma handled_refl:
  assumes "car_inv p" "ComputeState p num = Some cs" "CarOccupancyLookup p num \<noteq> None"
  shows "handled p num (p, cs)"
  using assms car_inv_computeD[OF assms(1,2)]
  by (auto simp: handled_def car_inv_stintD car_inv_pitD car_inv_occD)

lemma handleComputeStateInit_ok:
  assumes "car_inv p" "ComputeState p num = Some cs" "CarOccupancyLookup p num \<noteq> None"
    and st: "cs_CarState cs = CAR_STATE_INIT"
  shows "\<exists>r. handleComputeStateInit lap st t cs p = Some r \<and> handled p num r"
proof (cases "st = CAR_STATE_RUN")
  case True
  let ?stints = "\<lparr>cst_CarNum = num, cst_Current = Some (new_stint t lap), cst_History = []\<rparr>"
  let ?p = "p\<lparr>StintLookup := (StintLookup p)(num \<mapsto> ?stints)\<rparr>"
  note num = car_inv_computeD(1)[OF assms(1,2)]
  obtain occ where "markSeatTime num t p =
      Some (p\<lparr>CarOccupancyLookup := (CarOccupancyLookup p)(num \<mapsto> occ)\<rparr>)" "occ_ok num occ"
    using markSeatTime_ok[OF assms(1)] assms(2,3) by blast
  then have mark: "markSeatTime num t ?p =
      Some (?p\<lparr>CarOccupancyLookup := (CarOccupancyLookup p)(num \<mapsto> occ)\<rparr>)" "occ_ok num occ"
    by (simp_all add: markSeatTime_stints)
  with True num assms(1) show ?thesis
    by (auto simp: handleComputeStateInit_def handler_ok_simps Let_def
        dest: car_inv_pitD[OF assms(1), unfolded pit_ok_def])
next
  case False
  then have "handleComputeStateInit lap st t cs p = Some (p, cs)"
    by (simp add: handleComputeStateInit_def split: CarState.splits)
  with handled_refl[OF assms(1-3)] show ?thesis by simp
qed

lemma handleComputeStateRun_ok:
  assumes "car_inv p" "ComputeState p num = Some cs" "CarOccupancyLookup p num \<noteq> None"
    and "cs_CarState cs = CAR_STATE_RUN"
  shows "\<exists>r. handleComputeStateRun lap st t cs p = Some r \<and> handled p num r"
proof -
  note num = car_inv_computeD[OF assms(1,2)]
  from num(2) assms(4) obtain stint cur where
    stint: "StintLookup p num = Some stint" "cst_Current stint = Some cur" "si_IsCurrentStint cur"
    by (auto simp: compute_ok_def)
  have sok: "stint_ok num stint" using car_inv_stintD[OF assms(1) stint(1)] .
  have pok: "pit_ok num (pits_of p num)" using pits_of_ok[OF assms(1)] .
  have pok': "\<And>pt. PitLookup p num = Some pt \<Longrightarrow> pit_ok num pt" using car_inv_pitD[OF assms(1)] .
  obtain occ where mark: "markSeatTime num t p =
      Some (p\<lparr>CarOccupancyLookup := (CarOccupancyLookup p)(num \<mapsto> occ)\<rparr>)" "occ_ok num occ"
    using markSeatTime_ok[OF assms(1)] assms(2,3) by blast
  show ?thesis
    using num(1) stint sok pok pok' mark assms(4)
    by (cases st)
      (auto simp: handleComputeStateRun_def handler_ok_simps pits_of_def Let_def)
qed

lemma handleComputeStatePit_ok:
  assumes "car_inv p" "ComputeState p num = Some cs" "CarOccupancyLookup p num \<noteq> None"
    and "cs_CarState cs = CAR_STATE_PIT"
  shows "\<exists>r. handleComputeStatePit lap st t cs p = Some r \<and> handled p num r"
proof -
  note num = car_inv_computeD[OF assms(1,2)]
  from num(2) assms(4) obtain stint scur pits cur where
    stint: "StintLookup p num = Some stint" "cst_Current stint = Some scur" "\<not> si_IsCurrentStint scur" and
    pits: "PitLookup p num = Some pits" "cp_Current pits = Some cur" "pi_IsCurrentPitstop cur"
    by (auto simp: compute_ok_def)
  have sok: "stint_ok num stint" using car_inv_stintD[OF assms(1) stint(1)] .
  have pok: "pit_ok num pits" using car_inv_pitD[OF assms(1) pits(1)] .
  obtain occ where mark: "markSeatTime num t p =
      Some (p\<lparr>CarOccupancyLookup := (CarOccupancyLookup p)(num \<mapsto> occ)\<rparr>)" "occ_ok num occ"
    using markSeatTime_ok[OF assms(1)] assms(2,3) by blast
  show ?thesis
    using num(1) stint sok pits pok mark assms(4)
    by (cases st)
      (auto simp: handleComputeStatePit_def handler_ok_simps pit_closed_def Let_def)
qed

lemma handleComputeStateOut_ok:
  assumes "car_inv p" "ComputeState p num = Some cs" "CarOccupancyLookup p num \<noteq> None"
    and "cs_CarState cs = CAR_STATE_OUT"
  shows "\<exists>r. handleComputeStateOut lap st t cs p = Some r \<and> handled p num r"
proof -
  note num = car_inv_computeD[OF assms(1,2)]
  from num(2) assms(4) obtain stint scur where
    stint: "StintLookup p num = Some stint" "cst_Current stint = Some scur" "\<not> si_IsCurrentStint scur"
    by (auto simp: compute_ok_def)
  have sok: "stint_ok num stint" using car_inv_stintD[OF assms(1) stint(1)] .
  have pok: "pit_ok num (pits_of p num)" using pits_of_ok[OF assms(1)] .
  have pok': "\<And>pt. PitLookup p num = Some pt \<Longrightarrow> pit_ok num pt" using car_inv_pitD[OF assms(1)] .
  obtain occ where occ: "CarOccupancyLookup p num = Some occ" using assms(3) by auto
  have ook: "occ_ok num occ" using car_inv_occD[OF assms(1) occ] .
  show ?thesis
    using num(1) stint sok pok pok' occ ook assms(4)
    by (cases st)
      (auto simp: handleComputeStateOut_def handler_ok_simps pits_of_def Let_def)
qed

lemma handleComputeState_ok:
  assumes "car_inv p" "ComputeState p num = Some cs" "CarOccupancyLookup p num \<noteq> None"
  shows "\<exists>r. handleComputeState carMsg t cs p = Some r \<and> handled p num r"
  using assms handled_refl[OF assms] handleComputeStateInit_ok[OF assms]
    handleComputeStateRun_ok[OF assms] handleComputeStatePit_ok[OF assms]
    handleComputeStateOut_ok[OF assms]
  by (cases "cs_CarState cs") (auto simp: handleComputeState_def Let_def)

subsection \<open>State messages\<close>

text \<open>Registered cars: what the state messages of a recording refer to.\<close>

definition known_idx :: "CarProcessor \<Rightarrow> uint32 \<Rightarrow> bool" where
  "known_idx p idx \<longleftrightarrow> NumByIdx p idx \<noteq> None"

lemma known_idx_ok:
  assumes "car_inv p" "known_idx p idx"
  shows "(\<exists>e t. ByCarIdx p idx = Some e \<and> ce_Team e = Some t) \<and>
    ComputeState p (num_by_idx p idx) \<noteq> None"
  using assms by (fastforce simp: known_idx_def car_inv_def registered_def num_by_idx_def map_get_def)

lemma same_cars_known_idx: "same_cars p q \<Longrightarrow> known_idx q = known_idx p"
  by (simp add: same_cars_def known_idx_def[abs_def])

lemma ensure_occupancy_ok:
  assumes "car_inv p" "known_idx p (car_CarIdx car)"
  shows "\<exists>q. ensure_occupancy t car p = Some q \<and> car_inv q \<and> same_cars p q \<and>
    CarOccupancyLookup q (num_by_idx p (car_CarIdx car)) \<noteq> None \<and>
    dom (CarOccupancyLookup p) \<subseteq> dom (CarOccupancyLookup q)"
proof (cases "CarOccupancyLookup p (num_by_idx p (car_CarIdx car))")
  case None
  obtain e tm where e: "ByCarIdx p (car_CarIdx car) = Some e" "ce_Team e = Some tm"
    using known_idx_ok[OF assms] by blast
  let ?num = "num_by_idx p (car_CarIdx car)"
  let ?occ = "\<lparr>co_CarNum = ?num, co_Name = team_Name tm,
    co_CurrentDriverName = current_driver p (car_CarIdx car),
    co_Drivers = [newDriverEntry (current_driver p (car_CarIdx car)) t]\<rparr>"
  have "occ_ok ?num ?occ" by (simp add: occ_ok_def)
  from car_inv_update_occ[OF assms(1) this] None e show ?thesis
    by (auto simp: ensure_occupancy_def same_cars_def Let_def)
qed (use assms in \<open>auto simp: ensure_occupancy_def Let_def\<close>)

lemma ensureCarOccupancy_ok:
  assumes "car_inv p" "\<forall>car \<in> set (psr_Cars payload). known_idx p (car_CarIdx car)"
  shows "\<exists>q. ensureCarOccupancy t payload p = Some q \<and> car_inv q \<and> same_cars p q \<and>
    (\<forall>car \<in> set (psr_Cars payload). CarOccupancyLookup q (num_by_idx p (car_CarIdx car)) \<noteq> None)"
  unfolding ensureCarOccupancy_def
proof (rule go_for_prefix_inv[where I = "\<lambda>pre q. car_inv q \<and> same_cars p q \<and>
    (\<forall>car \<in> set pre. CarOccupancyLookup q (num_by_idx p (car_CarIdx car)) \<noteq> None)"], goal_cases)
  case 1
  then show ?case using assms by simp
next
  case (2 pre car post q)
  then have q: "car_inv q" "same_cars p q" by auto
  have "known_idx q (car_CarIdx car)"
    using assms(2) 2(1) same_cars_known_idx[OF q(2)] by simp
  from ensure_occupancy_ok[OF q(1) this, of t] obtain r where r:
    "ensure_occupancy t car q = Some r" "car_inv r" "same_cars q r"
    "CarOccupancyLookup r (num_by_idx q (car_CarIdx car)) \<noteq> None"
    "dom (CarOccupancyLookup q) \<subseteq> dom (CarOccupancyLookup r)" by blast
  with 2 q same_cars_num_by_idx[OF q(2)] same_cars_trans[OF q(2) r(3)] show ?case
    by (fastforce simp: domIff)
qed

lemma process_car_ok:
  assumes "car_inv p" "known_idx p (car_CarIdx car)"
    and "CarOccupancyLookup p (num_by_idx p (car_CarIdx car)) \<noteq> None"
  shows "\<exists>q. process_car t car p = Some q \<and> car_inv q \<and> same_cars p q \<and>
    dom (CarOccupancyLookup p) \<subseteq> dom (CarOccupancyLookup q)"
proof (cases "num_by_idx p (car_CarIdx car) = []")
  case False
  let ?num = "num_by_idx p (car_CarIdx car)"
  obtain cs where cs: "ComputeState p ?num = Some cs" using known_idx_ok[OF assms(1,2)] by auto
  from handleComputeState_ok[OF assms(1) cs assms(3), of car t] obtain r ncs where
    r: "handleComputeState car t cs p = Some (r, ncs)" "handled p ?num (r, ncs)" by auto
  let ?q = "r\<lparr>ComputeState := (ComputeState r)(?num \<mapsto> ncs)\<rparr>"
  have "car_inv ?q" using handled_inv[OF assms(1) _ r(2)] cs by simp
  moreover have "CarOccupancyLookup r n \<noteq> None" if "CarOccupancyLookup p n \<noteq> None" for n
    using r(2) that by (cases "n = ?num") (auto simp: handled_def)
  then have "dom (CarOccupancyLookup p) \<subseteq> dom (CarOccupancyLookup ?q)" by (auto simp: dom_def)
  moreover have "same_cars p ?q" using r(2) by (simp add: handled_def same_cars_def)
  moreover have "process_car t car p = Some ?q"
    using False cs r(1) by (simp add: process_car_def Let_def)
  ultimately show ?thesis by blast
qed (use assms in \<open>simp add: process_car_def\<close>)

lemma process_cars_ok:
  assumes "car_inv p" "\<forall>car \<in> set cars. known_idx p (car_CarIdx car) \<and>
    CarOccupancyLookup p (num_by_idx p (car_CarIdx car)) \<noteq> None"
  shows "\<exists>q. go_for (process_car t) cars p = Some q \<and> car_inv q \<and> same_cars p q"
proof -
  let ?I = "\<lambda>q. car_inv q \<and> same_cars p q \<and> dom (CarOccupancyLookup p) \<subseteq> dom (CarOccupancyLookup q)"
  have "\<exists>q. go_for (process_car t) cars p = Some q \<and> ?I q"
  proof (rule go_for_inv)
    fix car q
    assume "car \<in> set cars" and q: "?I q"
    with assms(2) have "known_idx q (car_CarIdx car)"
      "num_by_idx q (car_CarIdx car) \<in> dom (CarOccupancyLookup q)"
      by (fastforce simp: same_cars_known_idx same_cars_num_by_idx)+
    then have "known_idx q (car_CarIdx car)"
      "CarOccupancyLookup q (num_by_idx q (car_CarIdx car)) \<noteq> None" by auto
    from process_car_ok[OF _ this, of t] q
    show "\<exists>r. process_car t car q = Some r \<and> ?I r" by (meson same_cars_trans subset_trans)
  qed (use assms in simp)
  then show ?thesis by blast
qed

lemma ProcessStatePayload_ok:
  assumes "car_inv p" "psr_Session payload \<noteq> None"
    and "\<forall>car \<in> set (psr_Cars payload). known_idx p (car_CarIdx car)"
  shows "\<exists>q. ProcessStatePayload payload p = Some q \<and> car_inv q \<and> same_cars p q"
proof -
  obtain ses where ses: "psr_Session payload = Some ses" using assms(2) by auto
  let ?t = "ses_SessionTime ses"
  obtain q where q: "ensureCarOccupancy ?t payload p = Some q" "car_inv q" "same_cars p q"
    "\<forall>car \<in> set (psr_Cars payload). CarOccupancyLookup q (num_by_idx p (car_CarIdx car)) \<noteq> None"
    using ensureCarOccupancy_ok[OF assms(1,3), of ?t] by blast
  have "\<exists>r. go_for (process_car ?t) (psr_Cars payload) q = Some r \<and> car_inv r \<and> same_cars q r"
    using assms(3) q by (intro process_cars_ok) (auto simp: same_cars_known_idx same_cars_num_by_idx)
  with q ses same_cars_trans[OF q(3)] show ?thesis by (auto simp: ProcessStatePayload_def)
qed

subsection \<open>Driver messages\<close>

definition good_entry :: "CarEntry \<Rightarrow> bool" where
  "good_entry e \<longleftrightarrow> ce_Car e \<noteq> None \<and> ce_Team e \<noteq> None"

lemma register_entry_ok:
  assumes "car_inv p" "good_entry e"
  shows "\<exists>q. register_entry e p = Some q \<and> car_inv q \<and>
    known_idx q (ci_CarIdx (the (ce_Car e))) \<and> (\<forall>i. known_idx p i \<longrightarrow> known_idx q i)"
proof -
  obtain c where c: "ce_Car e = Some c" using assms(2) by (auto simp: good_entry_def)
  let ?num = "ci_CarNumber c"
  let ?q = "p\<lparr>ByCarIdx := (ByCarIdx p)(ci_CarIdx c \<mapsto> e),
    ByCarNum := AList.update ?num e (ByCarNum p), NumByIdx := (NumByIdx p)(ci_CarIdx c \<mapsto> ?num)\<rparr>"
  let ?new = "\<lparr>cs_CarNum = ?num, cs_CarState = CAR_STATE_INIT, cs_OutEncountered = f32_zero\<rparr>"
  have known: "\<And>n. car_known (ByCarNum p) n \<or> n = ?num \<Longrightarrow> car_known (AList.update ?num e (ByCarNum p)) n"
    using c by (auto simp: car_known_def update_conv')
  have dist: "distinct (map fst (AList.update ?num e (ByCarNum p)))"
    using assms(1) by (simp add: car_inv_def distinct_update)
  have reg: "registered ?q \<or> ComputeState p ?num = None"
    "registered (?q\<lparr>ComputeState := (ComputeState p)(?num \<mapsto> ?new)\<rparr>)"
    using assms c by (auto simp: registered_def car_inv_def good_entry_def)
  have new: "compute_ok (StintLookup p) (PitLookup p) ?num ?new"
    by (simp add: compute_ok_def)
  have inv: "if ComputeState p ?num = None
      then car_inv (?q\<lparr>ComputeState := (ComputeState p)(?num \<mapsto> ?new)\<rparr>) else car_inv ?q"
    using assms(1) reg new known dist by (auto simp: car_inv_def)
  with c show ?thesis
    by (auto simp: register_entry_def Let_def known_idx_def)
qed

lemma update_car_driver_ok:
  assumes "car_inv p" "known_idx p (fst d)"
  shows "\<exists>q. update_car_driver t d p = Some q \<and> car_inv q \<and> same_cars p q"
proof -
  obtain carIdx name where d: "d = (carIdx, name)" by force
  let ?num = "num_by_idx p carIdx"
  obtain e tm where e: "ByCarIdx p carIdx = Some e" "ce_Team e = Some tm"
    using known_idx_ok assms d by fastforce
  have "\<exists>item. update_car_driver t d p =
      Some (p\<lparr>CarOccupancyLookup := (CarOccupancyLookup p)(?num \<mapsto> item)\<rparr>) \<and> occ_ok ?num item"
  proof (cases "CarOccupancyLookup p ?num")
    case None
    with e d show ?thesis by (auto simp: update_car_driver_def occ_ok_def)
  next
    case (Some item)
    with updateOccupancy_ok[OF car_inv_occD[OF assms(1) Some], of "current_driver p carIdx" name t] d
    show ?thesis by (auto simp: update_car_driver_def)
  qed
  then show ?thesis using car_inv_update_occ[OF assms(1)] by (auto simp: same_cars_def)
qed

lemma car_inv_irrelevant:
  "car_inv (p\<lparr>CarClasses := cc\<rparr>) = car_inv p" "car_inv (p\<lparr>CurrentDrivers := cd\<rparr>) = car_inv p"
  by (simp_all add: car_inv_def registered_def)

text \<open>The driver message registers every car it names a driver of, now or earlier.\<close>

definition good_driver_data :: "CarProcessor \<Rightarrow> PublishDriverDataRequest \<Rightarrow> bool" where
  "good_driver_data p payload \<longleftrightarrow> list_all good_entry (pdr_Entries payload) \<and>
     (\<forall>d \<in> set (pdr_CurrentDrivers payload). known_idx p (fst d) \<or>
        fst d \<in> (\<lambda>e. ci_CarIdx (the (ce_Car e))) ` set (pdr_Entries payload))"

lemma register_entries_ok:
  assumes "car_inv p" "list_all good_entry es"
  shows "\<exists>q. go_for register_entry es p = Some q \<and> car_inv q \<and>
    (\<forall>i. known_idx p i \<or> i \<in> (\<lambda>e. ci_CarIdx (the (ce_Car e))) ` set es \<longrightarrow> known_idx q i)"
proof (rule go_for_prefix_inv[where I = "\<lambda>pre q. car_inv q \<and>
    (\<forall>i. known_idx p i \<or> i \<in> (\<lambda>e. ci_CarIdx (the (ce_Car e))) ` set pre \<longrightarrow> known_idx q i)"], goal_cases)
  case (2 pre e post q)
  then have "good_entry e" using assms(2) by simp
  with 2 register_entry_ok[of q e] show ?case by fastforce
qed (use assms in simp)

lemma ProcessCarPayload_ok:
  assumes "car_inv p" "good_driver_data p payload"
  shows "\<exists>q. ProcessCarPayload payload p = Some q \<and> car_inv q \<and>
    (\<forall>i. known_idx p i \<or> i \<in> (\<lambda>e. ci_CarIdx (the (ce_Car e))) ` set (pdr_Entries payload) \<longrightarrow> known_idx q i)"
proof -
  let ?p = "p\<lparr>CarClasses := pdr_CarClasses payload\<rparr>"
  obtain q where q: "go_for register_entry (pdr_Entries payload) ?p = Some q" "car_inv q"
    "\<forall>i. known_idx p i \<or> i \<in> (\<lambda>e. ci_CarIdx (the (ce_Car e))) ` set (pdr_Entries payload) \<longrightarrow> known_idx q i"
    using register_entries_ok[of ?p "pdr_Entries payload"] assms
    by (auto simp: car_inv_irrelevant good_driver_data_def known_idx_def)
  have "\<exists>r. updateCarInfo payload q = Some r \<and> car_inv r \<and> same_cars q r"
    unfolding updateCarInfo_def
  proof (rule go_for_inv)
    fix d r
    assume "d \<in> set (pdr_CurrentDrivers payload)" and r: "car_inv r \<and> same_cars q r"
    then have "known_idx r (fst d)"
      using assms(2) q(3) by (auto simp: good_driver_data_def same_cars_known_idx)
    with r show "\<exists>s. update_car_driver (pdr_SessionTime payload) d r = Some s \<and> car_inv s \<and> same_cars q s"
      by (meson same_cars_trans update_car_driver_ok)
  qed (use q in simp)
  then obtain r where r: "updateCarInfo payload q = Some r" "car_inv r" "same_cars q r" by blast
  have "known_idx (r\<lparr>CurrentDrivers := ds\<rparr>) = known_idx q" for ds
    using r(3) by (auto simp: known_idx_def[abs_def] same_cars_def)
  moreover have "known_idx (q\<lparr>CurrentDrivers := ds\<rparr>) = known_idx q" for ds
    by (auto simp: known_idx_def[abs_def])
  ultimately show ?thesis using q r
    by (auto simp: ProcessCarPayload_def car_inv_irrelevant)
qed

end
