(* ===== verification/Car_Properties.thy ===== *)
theory Car_Properties
  imports Car_Invariants
begin

text \<open>
  The properties of the car processor: safety of every recording, the compute states as a function of
  the message, the arithmetic of the closed stints and pit stops, driver changes, and
  what happens on a state message that names a car the driver messages have not announced.
\<close>

subsection \<open>Recordings\<close>

text \<open>The messages of one event in the order they arrive.\<close>

datatype car_msg = DriverMsg PublishDriverDataRequest | StateMsg PublishStateRequest

fun car_step :: "car_msg \<Rightarrow> CarProcessor \<Rightarrow> CarProcessor run" where
  "car_step (DriverMsg d) p = ProcessCarPayload d p"
| "car_step (StateMsg s) p = ProcessStatePayload s p"

text \<open>
  The assumption on a recording: entries carry their car and team, and a car index is announced
  by a driver message before (or in the message in which) it is used.
\<close>

definition entry_idx :: "CarEntry \<Rightarrow> uint32" where
  "entry_idx e = ci_CarIdx (the (ce_Car e))"

fun good_recording :: "uint32 list \<Rightarrow> car_msg list \<Rightarrow> bool" where
  "good_recording known [] = True"
| "good_recording known (DriverMsg d # ms) =
     (let known' = map entry_idx (pdr_Entries d) @ known
      in list_all good_entry (pdr_Entries d) \<and>
         list_all (\<lambda>x. fst x \<in> set known') (pdr_CurrentDrivers d) \<and> good_recording known' ms)"
| "good_recording known (StateMsg s # ms) =
     (psr_Session s \<noteq> None \<and> list_all (\<lambda>car. car_CarIdx car \<in> set known) (psr_Cars s) \<and>
      good_recording known ms)"

lemma good_recording_ok:
  assumes "good_recording known ms" "car_inv p" "\<And>i. i \<in> set known \<Longrightarrow> known_idx p i"
  shows "\<exists>q. go_for car_step ms p = Some q \<and> car_inv q"
  using assms
proof (induction known ms arbitrary: p rule: good_recording.induct)
  case (2 known d ms)
  let ?known = "map entry_idx (pdr_Entries d) @ known"
  from 2(2) have good: "list_all good_entry (pdr_Entries d)"
    "list_all (\<lambda>x. fst x \<in> set ?known) (pdr_CurrentDrivers d)" "good_recording ?known ms"
    by (auto simp: Let_def)
  from good(2) 2(4) have "\<forall>x \<in> set (pdr_CurrentDrivers d). known_idx p (fst x) \<or>
      fst x \<in> (\<lambda>e. ci_CarIdx (the (ce_Car e))) ` set (pdr_Entries d)"
    by (fastforce simp: list_all_iff entry_idx_def)
  with good(1) have "good_driver_data p d" by (simp add: good_driver_data_def)
  from ProcessCarPayload_ok[OF 2(3) this] obtain q where q: "ProcessCarPayload d p = Some q" "car_inv q"
    "\<And>i. known_idx p i \<or> i \<in> entry_idx ` set (pdr_Entries d) \<Longrightarrow> known_idx q i"
    by (auto simp: entry_idx_def)
  have "\<exists>r. go_for car_step ms q = Some r \<and> car_inv r"
    using 2(4) q(3) by (intro 2(1)[OF refl good(3) q(2)]) auto
  with q(1) show ?case by simp
next
  case (3 known s ms)
  then have "\<forall>car \<in> set (psr_Cars s). known_idx p (car_CarIdx car)"
    by (auto simp: list_all_iff)
  with 3(2,3) obtain q where q: "ProcessStatePayload s p = Some q" "car_inv q" "same_cars p q"
    using ProcessStatePayload_ok by (metis good_recording.simps(3))
  have "\<exists>r. go_for car_step ms q = Some r \<and> car_inv r"
    using 3(2,4) q by (intro 3(1)) (auto simp: same_cars_known_idx)
  with q(1) show ?case by simp
qed simp

lemma NewCarProcessor_fields [simp]:
  "car_inv (NewCarProcessor [WithRaceSessions rs])"
  "raceSessions (NewCarProcessor [WithRaceSessions rs]) = rs"
  by (simp_all add: NewCarProcessor_def WithRaceSessions_def car_inv_def registered_def)

lemma good_recording_new:
  assumes "good_recording [] ms"
  shows "\<exists>q. go_for car_step ms (NewCarProcessor [WithRaceSessions rs]) = Some q \<and> car_inv q"
  using assms by (intro good_recording_ok[where known = "[]"]) auto

subsection \<open>Compute states\<close>

text \<open>
  The state machine of a car as a function of the message: the specification the handlers
  implement.  A car counts as OUT once it has been reported OUT for more than OutThreshold.
\<close>

definition out_expired :: "f32 \<Rightarrow> CarComputeState \<Rightarrow> bool" where
  "out_expired t cs \<longleftrightarrow> \<not> f32_eq (cs_OutEncountered cs) f32_zero \<and>
     f32_gt (f32_sub t (cs_OutEncountered cs)) OutThreshold"

fun next_state :: "bool \<Rightarrow> CarState \<Rightarrow> CarState \<Rightarrow> CarState" where
  "next_state expired CAR_STATE_INIT CAR_STATE_RUN = CAR_STATE_RUN"
| "next_state expired CAR_STATE_RUN CAR_STATE_FIN = CAR_STATE_FIN"
| "next_state expired CAR_STATE_RUN CAR_STATE_PIT = CAR_STATE_PIT"
| "next_state expired CAR_STATE_PIT CAR_STATE_RUN = CAR_STATE_RUN"
| "next_state expired CAR_STATE_OUT CAR_STATE_RUN = CAR_STATE_RUN"
| "next_state expired CAR_STATE_OUT CAR_STATE_PIT = CAR_STATE_PIT"
| "next_state True CAR_STATE_RUN CAR_STATE_OUT = CAR_STATE_OUT"
| "next_state True CAR_STATE_PIT CAR_STATE_OUT = CAR_STATE_OUT"
| "next_state expired old msg = old"

definition next_out_time :: "f32 \<Rightarrow> CarState \<Rightarrow> CarState \<Rightarrow> f32 \<Rightarrow> f32" where
  "next_out_time t old msg out = (
     if old \<in> {CAR_STATE_RUN, CAR_STATE_PIT} then
       (if msg \<in> {CAR_STATE_RUN, CAR_STATE_PIT} then f32_zero
        else if msg = CAR_STATE_OUT \<and> f32_eq out f32_zero then t else out)
     else out)"

definition compute_next :: "Car \<Rightarrow> f32 \<Rightarrow> CarComputeState \<Rightarrow> CarComputeState" where
  "compute_next car t cs = (if car_Lap car <s 1 then cs else
     cs\<lparr>cs_CarState := next_state (out_expired t cs) (cs_CarState cs) (car_State car),
        cs_OutEncountered := next_out_time t (cs_CarState cs) (car_State car) (cs_OutEncountered cs)\<rparr>)"

lemma markSeatTime_compute:
  "markSeatTime num t p = Some q \<Longrightarrow> ComputeState q = ComputeState p \<and> same_cars p q"
  by (auto simp: markSeatTime_def same_cars_def split: Option.bind_splits)

lemma handleComputeStateInit_compute:
  "handleComputeStateInit lap st t cs p = Some (q, cs') \<Longrightarrow>
     ComputeState q = ComputeState p \<and>
     cs' = cs\<lparr>cs_CarState := next_state e CAR_STATE_INIT st\<rparr> \<or> cs_CarState cs \<noteq> CAR_STATE_INIT"
  by (cases st) (auto simp: handleComputeStateInit_def Let_def split: Option.bind_splits
      dest!: markSeatTime_compute)

lemma handleComputeStateRun_compute:
  "handleComputeStateRun lap st t cs p = Some (q, cs') \<Longrightarrow> cs_CarState cs = CAR_STATE_RUN \<Longrightarrow>
     ComputeState q = ComputeState p \<and>
     cs' = cs\<lparr>cs_CarState := next_state (out_expired t cs) CAR_STATE_RUN st,
             cs_OutEncountered := next_out_time t CAR_STATE_RUN st (cs_OutEncountered cs)\<rparr>"
  by (cases st) (auto simp: handleComputeStateRun_def Let_def out_expired_def next_out_time_def
      split: Option.bind_splits if_splits dest!: markSeatTime_compute)

lemma handleComputeStatePit_compute:
  "handleComputeStatePit lap st t cs p = Some (q, cs') \<Longrightarrow> cs_CarState cs = CAR_STATE_PIT \<Longrightarrow>
     ComputeState q = ComputeState p \<and>
     cs' = cs\<lparr>cs_CarState := next_state (out_expired t cs) CAR_STATE_PIT st,
             cs_OutEncountered := next_out_time t CAR_STATE_PIT st (cs_OutEncountered cs)\<rparr>"
  by (cases st) (auto simp: handleComputeStatePit_def Let_def out_expired_def next_out_time_def
      split: Option.bind_splits if_splits dest!: markSeatTime_compute)

lemma handleComputeStateOut_compute:
  "handleComputeStateOut lap st t cs p = Some (q, cs') \<Longrightarrow> cs_CarState cs = CAR_STATE_OUT \<Longrightarrow>
     ComputeState q = ComputeState p \<and>
     cs' = cs\<lparr>cs_CarState := next_state (out_expired t cs) CAR_STATE_OUT st\<rparr>"
  by (cases st) (auto simp: handleComputeStateOut_def Let_def split: Option.bind_splits)

lemma handleComputeState_compute:
  assumes "handleComputeState car t cs p = Some (q, cs')"
  shows "ComputeState q = ComputeState p \<and> cs' = compute_next car t cs"
proof (cases "car_Lap car <s 1")
  case False
  with assms show ?thesis
    by (cases "cs_CarState cs")
      (auto simp: handleComputeState_def Let_def compute_next_def next_out_time_def
        dest!: handleComputeStateInit_compute[where e = "out_expired t cs"]
          handleComputeStateRun_compute handleComputeStatePit_compute handleComputeStateOut_compute)
qed (use assms in \<open>simp add: handleComputeState_def compute_next_def\<close>)

definition compute_update ::
  "(uint32 \<Rightarrow> string) \<Rightarrow> f32 \<Rightarrow> Car \<Rightarrow> (string \<Rightarrow> CarComputeState option) \<Rightarrow> string \<Rightarrow> CarComputeState option" where
  "compute_update num_of t car m = (let num = num_of (car_CarIdx car) in
     if num = [] then m
     else case m num of None \<Rightarrow> m | Some cs \<Rightarrow> m(num \<mapsto> compute_next car t cs))"

lemma process_car_compute:
  assumes "process_car t car p = Some q"
  shows "ComputeState q = compute_update (num_by_idx p) t car (ComputeState p)"
  using assms
  by (auto simp: process_car_def compute_update_def Let_def
      split: if_splits option.splits Option.bind_splits dest!: handleComputeState_compute)

lemma markSeatTime_same: "markSeatTime num t p = Some q \<Longrightarrow> same_cars p q"
  using markSeatTime_compute by blast

lemma process_car_same:
  assumes "process_car t car p = Some q"
  shows "same_cars p q"
proof -
  have "same_cars p q" if "handleComputeState car t cs p = Some (q, cs')" for q cs cs'
    using that
    by (auto simp: handleComputeState_def handleComputeStateInit_def handleComputeStateRun_def
        handleComputeStatePit_def handleComputeStateOut_def Let_def
        split: if_splits CarState.splits Option.bind_splits dest!: markSeatTime_same)
      (auto simp: same_cars_def)
  with assms show ?thesis
    by (auto simp: process_car_def Let_def same_cars_def split: if_splits option.splits Option.bind_splits)
qed

lemma process_cars_compute:
  "go_for (process_car t) cars p = Some q \<Longrightarrow>
     ComputeState q = fold (compute_update (num_by_idx p) t) cars (ComputeState p) \<and> same_cars p q"
proof (induction cars arbitrary: p)
  case (Cons car cars)
  then obtain r where r: "process_car t car p = Some r" "go_for (process_car t) cars r = Some q"
    by (auto split: Option.bind_splits)
  with Cons.IH[OF r(2)] process_car_compute[OF r(1)] process_car_same[OF r(1)] show ?case
    by (auto simp: same_cars_num_by_idx intro: same_cars_trans)
qed simp

lemma ensureCarOccupancy_compute:
  "ensureCarOccupancy t payload p = Some q \<Longrightarrow>
     ComputeState q = ComputeState p \<and> StintLookup q = StintLookup p \<and>
     PitLookup q = PitLookup p \<and> same_cars p q"
  unfolding ensureCarOccupancy_def
  by (rule go_for_preserves[where I = "\<lambda>q. ComputeState q = ComputeState p \<and>
        StintLookup q = StintLookup p \<and> PitLookup q = PitLookup p \<and> same_cars p q"])
    (auto simp: ensure_occupancy_def Let_def same_cars_def split: option.splits Option.bind_splits)

lemma ProcessStatePayload_compute:
  assumes "ProcessStatePayload payload p = Some q"
  shows "\<exists>ses. psr_Session payload = Some ses \<and> same_cars p q \<and>
    ComputeState q = fold (compute_update (num_by_idx p) (ses_SessionTime ses))
      (psr_Cars payload) (ComputeState p)"
  using assms
  by (auto simp: ProcessStatePayload_def Let_def split: Option.bind_splits
      dest!: ensureCarOccupancy_compute process_cars_compute intro: same_cars_trans
      simp: same_cars_num_by_idx)

subsection \<open>Unannounced cars\<close>

lemma ensure_occupancy_known:
  assumes "dom (ByCarIdx p) = dom (NumByIdx p)" and "[] \<notin> ran (NumByIdx p)"
    and "same_cars p q" and "CarOccupancyLookup q [] = None" and "ensure_occupancy t x q = Some r"
  shows "known_idx p (car_CarIdx x) \<and> same_cars p r \<and> CarOccupancyLookup r [] = None"
proof (cases "NumByIdx p (car_CarIdx x)")
  case None
  then have "num_by_idx q (car_CarIdx x) = []" "ByCarIdx q (car_CarIdx x) = None"
    using assms(1,3) by (auto simp: same_cars_def num_by_idx_def)
  with assms(4,5) show ?thesis by (simp add: ensure_occupancy_def Let_def)
next
  case (Some num)
  then have "num \<noteq> []" "num_by_idx q (car_CarIdx x) = num"
    using assms(2,3) by (auto simp: ran_def same_cars_def num_by_idx_def)
  moreover from this have "same_cars q r \<and> CarOccupancyLookup r [] = None"
    using assms(4,5)
    by (auto simp: ensure_occupancy_def Let_def same_cars_def split: option.splits Option.bind_splits)
  ultimately show ?thesis using Some assms(3) same_cars_trans by (auto simp: known_idx_def)
qed

subsection \<open>A concrete recording\<close>

text \<open>Car 7 is announced with driver ''ann'', then runs from lap 1 and pits in lap 5.\<close>

definition demo_driver_msg :: PublishDriverDataRequest where
  "demo_driver_msg = \<lparr>pdr_Event = Some (EventSelector_Key ''e''),
     pdr_Entries = [\<lparr>ce_Car = Some \<lparr>ci_CarIdx = 7, ci_CarNumber = ''77'', ci_CarClassId = 1, ci_CarId = 1, ci_CarNumberRaw = 77\<rparr>,
                     ce_Team = Some \<lparr>team_Name = ''team'', team_Id = 1\<rparr>, ce_Drivers = []\<rparr>],
     pdr_CarClasses = [\<lparr>cc_Id = 1, cc_Name = ''GT3''\<rparr>], pdr_CurrentDrivers = [(7, ''ann'')],
     pdr_SessionNum = 0, pdr_SessionTime = f32_zero, pdr_Timestamp = Some 0, pdr_Cars = []\<rparr>"

definition demo_car :: "CarState \<Rightarrow> int32 \<Rightarrow> Car" where
  "demo_car st lap = \<lparr>car_CarIdx = 7, car_State = st, car_Pos = 1, car_Pic = 1, car_Lap = lap,
     car_Lc = lap - 1, car_Gap = f32_zero, car_Last = Some \<lparr>twm_Time = f32_zero, twm_Marker = 0\<rparr>,
     car_TimeInfo = None, car_TrackPos = f32_zero, car_StintLap = 0\<rparr>"

definition demo_session :: "int \<Rightarrow> Session" where
  "demo_session t = \<lparr>ses_SessionNum = 0, ses_SessionTime = Fin t, ses_TimeOfDay = 0,
     ses_AirTemp = f32_zero, ses_TrackTemp = f32_zero, ses_TrackWetness = 0, ses_Precipitation = f32_zero,
     ses_TimeRemain = f32_zero\<rparr>"

definition demo_state_msg :: "int \<Rightarrow> CarState \<Rightarrow> int32 \<Rightarrow> PublishStateRequest" where
  "demo_state_msg t st lap = \<lparr>psr_Event = Some (EventSelector_Key ''e''),
     psr_Session = Some (demo_session t), psr_Cars = [demo_car st lap], psr_Messages = [],
     psr_Timestamp = Some 0\<rparr>"

definition demo_recording :: "car_msg list" where
  "demo_recording = [DriverMsg demo_driver_msg, StateMsg (demo_state_msg 10 CAR_STATE_RUN 1),
     StateMsg (demo_state_msg 90 CAR_STATE_PIT 5)]"

lemmas demo_defs = demo_recording_def demo_driver_msg_def demo_state_msg_def demo_session_def demo_car_def

text \<open>The processor after the driver message, and the rules that evaluate the handlers on it.\<close>

definition demo_proc :: CarProcessor where
  "demo_proc = the (ProcessCarPayload demo_driver_msg (NewCarProcessor [WithRaceSessions [0]]))"

lemmas car_eval = NewCarProcessor_def WithRaceSessions_def demo_defs ProcessCarPayload_def
  updateCarInfo_def register_entry_def update_car_driver_def newDriverEntry_def num_by_idx_def
  ProcessStatePayload_def ensureCarOccupancy_def ensure_occupancy_def process_car_def
  handleComputeState_def handleComputeStateInit_def word_sless_alt markSeatTime_def Let_def
  current_driver_def driverEntryByName_def updateLeaveOpt_def updateLeave_def update_last_def

lemma demo_proc_run:
  "\<exists>q. ProcessStatePayload (demo_state_msg 10 CAR_STATE_RUN 1) demo_proc = Some q"
  by (simp add: demo_proc_def car_eval)

lemma demo_recording_good: "good_recording [] demo_recording"
  by (simp add: demo_defs good_entry_def entry_idx_def Let_def)

subsection \<open>Properties\<close>

text \<open>
  C2: on every recording whose messages announce their cars first, the car processor handles all
  messages without a panic, and the lookups are consistent with the state of each car afterwards.
\<close>

theorem car_recording_safe:
  assumes "good_recording [] ms"
  shows "\<exists>p. go_for car_step ms (NewCarProcessor [WithRaceSessions rs]) = Some p \<and> car_inv p"
  by (rule good_recording_new) (rule assms)

theorem car_recording_safe_witness:
  "\<exists>p. go_for car_step demo_recording (NewCarProcessor [WithRaceSessions [0]]) = Some p \<and> car_inv p"
  by (rule car_recording_safe[OF demo_recording_good])

text \<open>
  C4: a state message moves the compute state of every car it lists, in the order of the list,
  as next_state and next_out_time prescribe, and moves no other: cars below lap 1
  stay, FIN is final, OUT is entered only after the threshold.
\<close>

theorem car_states_refine:
  assumes "ProcessStatePayload payload p = Some q" and "psr_Session payload = Some ses"
  shows "ComputeState q = fold (compute_update (num_by_idx p) (ses_SessionTime ses))
    (psr_Cars payload) (ComputeState p)"
  using ProcessStatePayload_compute[OF assms(1)] assms(2) by auto

theorem car_states_refine_witness:
  "\<exists>q. ProcessStatePayload (demo_state_msg 10 CAR_STATE_RUN 1) demo_proc = Some q \<and>
     map_option cs_CarState (ComputeState q ''77'') = Some CAR_STATE_RUN"
proof -
  obtain q where q: "ProcessStatePayload (demo_state_msg 10 CAR_STATE_RUN 1) demo_proc = Some q"
    using demo_proc_run by blast
  have "psr_Session (demo_state_msg 10 CAR_STATE_RUN 1) = Some (demo_session 10)"
    by (simp add: demo_state_msg_def)
  from car_states_refine[OF q this]
  have "map_option cs_CarState (ComputeState q ''77'') = Some CAR_STATE_RUN"
    by (simp add: demo_proc_def car_eval compute_update_def compute_next_def)
  with q show ?thesis by blast
qed

text \<open>
  C5: after any recording, every stint in a car's history has the number of laps and the time
  between its own exit and entry, and every pit stop the lane time between its own entry
  and exit.
\<close>

theorem car_history_adds_up:
  assumes "good_recording [] ms"
    and "go_for car_step ms (NewCarProcessor [WithRaceSessions rs]) = Some p"
  shows "(\<forall>num st. StintLookup p num = Some st \<longrightarrow> (\<forall>s \<in> set (cst_History st).
      si_NumLaps s = si_LapEnter s - si_LapExit s + 1 \<and>
      si_StintTime s = f32_sub (si_EnterTime s) (si_ExitTime s))) \<and>
    (\<forall>num pt. PitLookup p num = Some pt \<longrightarrow> (\<forall>x \<in> set (cp_History pt).
      \<not> pi_IsCurrentPitstop x \<and> pi_LaneTime x = f32_sub (pi_ExitTime x) (pi_EnterTime x)))"
proof -
  have inv: "car_inv p" using good_recording_new[OF assms(1), of rs] assms(2) by auto
  then show ?thesis
    by (auto simp: stint_ok_def stint_closed_def pit_ok_def pit_closed_def list_all_iff
        dest!: car_inv_stintD[OF inv] car_inv_pitD[OF inv])
qed

lemma demo_recording_history:
  "\<exists>p st. go_for car_step demo_recording (NewCarProcessor [WithRaceSessions [0]]) = Some p \<and>
     StintLookup p ''77'' = Some st \<and> length (cst_History st) = 1"
  by (simp add: demo_recording_def car_eval handleComputeStateRun_def close_stint_def pits_of_def)

theorem car_history_adds_up_witness:
  "\<exists>p st s. go_for car_step demo_recording (NewCarProcessor [WithRaceSessions [0]]) = Some p \<and>
     StintLookup p ''77'' = Some st \<and> s \<in> set (cst_History st) \<and>
     si_NumLaps s = si_LapEnter s - si_LapExit s + 1"
proof -
  obtain p st where p: "go_for car_step demo_recording (NewCarProcessor [WithRaceSessions [0]]) = Some p"
    "StintLookup p ''77'' = Some st" "length (cst_History st) = 1"
    using demo_recording_history by blast
  then obtain s where s: "s \<in> set (cst_History st)" by (cases "cst_History st") auto
  from car_history_adds_up[OF demo_recording_good p(1), THEN conjunct1] p(2) s
  have "si_NumLaps s = si_LapEnter s - si_LapExit s + 1" by blast
  with p s show ?thesis by blast
qed

text \<open>
  When a driver of the car takes over from another one, the seat time of the driver who leaves
  ends now, a new seat time of the one who enters begins now, everybody else's seat times
  stay, and the car's current driver is the one who entered.
\<close>

theorem car_driver_change:
  assumes "occ_ok num occ" and "lastName \<noteq> name"
    and "driverEntryByName (co_Drivers occ) lastName = Some i"
    and "driverEntryByName (co_Drivers occ) name = Some j"
  shows "\<exists>occ'. updateOccupancy lastName name t occ = Some occ' \<and>
    co_CurrentDriverName occ' = name \<and> length (co_Drivers occ') = length (co_Drivers occ) \<and>
    dr_SeatTimes (co_Drivers occ' ! i) = butlast (dr_SeatTimes (co_Drivers occ ! i)) @
      [(last (dr_SeatTimes (co_Drivers occ ! i)))\<lparr>st_LeaveCarTime := t\<rparr>] \<and>
    dr_SeatTimes (co_Drivers occ' ! j) = dr_SeatTimes (co_Drivers occ ! j) @
      [\<lparr>st_EnterCarTime = t, st_LeaveCarTime = t\<rparr>] \<and>
    (\<forall>k. k \<noteq> i \<longrightarrow> k \<noteq> j \<longrightarrow> co_Drivers occ' ! k = co_Drivers occ ! k)"
proof -
  let ?ds = "co_Drivers occ"
  have i: "i < length ?ds" "dr_Name (?ds ! i) = lastName" and j: "j < length ?ds" "dr_Name (?ds ! j) = name"
    using assms(3,4) by (auto dest: driverEntryByName_SomeD)
  then have "i \<noteq> j" using assms(2) by auto
  moreover have "dr_SeatTimes (?ds ! i) \<noteq> []" using assms(1) i by (simp add: occ_ok_def drivers_ok_def)
  ultimately show ?thesis using assms(2-4) i j
    by (simp add: updateOccupancy_def updateLeaveOpt_def updateLeave_def update_last_def addSeatTime_def)
qed

definition demo_occ :: CarOccupancy where
  "demo_occ = \<lparr>co_CarNum = ''77'', co_Name = ''team'', co_CurrentDriverName = ''ann'',
     co_Drivers = [newDriverEntry ''ann'' (Fin 0), newDriverEntry ''bob'' (Fin 0)]\<rparr>"

theorem car_driver_change_witness:
  "\<exists>occ. updateOccupancy ''ann'' ''bob'' (Fin 5) demo_occ = Some occ \<and>
     length (dr_SeatTimes (co_Drivers occ ! 1)) = 2"
  using car_driver_change[of "''77''" demo_occ "''ann''" "''bob''" 0 1 "Fin 5"]
  by (auto simp: demo_occ_def occ_ok_def drivers_ok_def newDriverEntry_def driverEntryByName_def)

text \<open>
  A driver who takes over the car for the first time is added with a seat time, but the
  car's current driver name stays that of the driver who left.
\<close>

theorem car_new_driver_not_current:
  assumes "occ_ok num occ" and "driverEntryByName (co_Drivers occ) name = None"
  shows "\<exists>occ'. updateOccupancy lastName name t occ = Some occ' \<and>
    co_CurrentDriverName occ' = co_CurrentDriverName occ \<and>
    map dr_Name (co_Drivers occ') = map dr_Name (co_Drivers occ) @ [name] \<and> occ_ok num occ'"
proof -
  let ?ds = "co_Drivers occ @ [newDriverEntry name t]" and ?i = "driverEntryByName (co_Drivers occ) lastName"
  have "drivers_ok ?ds"
    using assms by (intro drivers_ok_snoc_new) (auto simp: occ_ok_def driverEntryByName_None)
  moreover have "\<And>j. ?i = Some j \<Longrightarrow> j < length ?ds" by (auto dest!: driverEntryByName_SomeD)
  ultimately obtain ds where "updateLeaveOpt t ?i ?ds = Some ds" "drivers_ok ds"
      "map dr_Name ds = map dr_Name ?ds" using updateLeaveOpt_ok by blast
  with assms show ?thesis by (auto simp: updateOccupancy_def occ_ok_def newDriverEntry_def)
qed

theorem car_new_driver_not_current_witness:
  "\<exists>occ. updateOccupancy ''ann'' ''cid'' (Fin 5) demo_occ = Some occ \<and>
     co_CurrentDriverName occ = ''ann''"
  using car_new_driver_not_current[of "''77''" demo_occ "''cid''" "''ann''" "Fin 5"]
  by (auto simp: demo_occ_def occ_ok_def drivers_ok_def newDriverEntry_def driverEntryByName_def)

text \<open>
  A state message with a car that no driver message has announced panics (a nil
  dereference in ensureCarOccupancy), unless a car with an empty number has an occupancy.
\<close>

theorem car_unknown_idx_panics:
  assumes "car \<in> set (psr_Cars payload)" and "\<not> known_idx p (car_CarIdx car)"
    and "dom (ByCarIdx p) = dom (NumByIdx p)" and "[] \<notin> ran (NumByIdx p)"
    and "CarOccupancyLookup p [] = None"
  shows "ProcessStatePayload payload p = None"
proof -
  have loop: "go_for (ensure_occupancy t) cars q = None"
    if "car \<in> set cars" "same_cars p q" "CarOccupancyLookup q [] = None" for cars q t
    using that
  proof (induction cars arbitrary: q)
    case (Cons x cars)
    show ?case
    proof (cases "ensure_occupancy t x q")
      case (Some r)
      note step = ensure_occupancy_known[OF assms(3,4) Cons.prems(2,3) Some]
      then have "x \<noteq> car" using assms(2) by auto
      with step Some Cons show ?thesis by simp
    qed simp
  qed simp
  show ?thesis
  proof (cases "psr_Session payload")
    case (Some ses)
    with loop[OF assms(1) same_cars_refl assms(5)] show ?thesis
      by (simp add: ProcessStatePayload_def ensureCarOccupancy_def Let_def)
  qed (simp add: ProcessStatePayload_def)
qed

theorem car_unknown_idx_panics_witness:
  "ProcessStatePayload (demo_state_msg 10 CAR_STATE_RUN 1) (NewCarProcessor []) = None"
  by (rule car_unknown_idx_panics[where car = "demo_car CAR_STATE_RUN 1"])
    (simp_all add: NewCarProcessor_def demo_state_msg_def known_idx_def)

end
