(* ===== verification/Car_Interface.thy ===== *)
theory Car_Interface
  imports Car_Properties
begin

text \<open>
  What the race processor and the composition of the processors rely on: the car processor as an
  interface.  A car the interface has a number for has an entry with its car
  data, and a step on an acceptable message succeeds, keeps the car data valid and forgets no car.
\<close>

locale car_data =
  fixes valid :: "'s \<Rightarrow> bool"
    and num_of :: "'s \<Rightarrow> uint32 \<Rightarrow> string"
    and entry_of :: "'s \<Rightarrow> uint32 \<Rightarrow> CarEntry option"
    and accepts :: "'s \<Rightarrow> 'm \<Rightarrow> bool"
    and step :: "'m \<Rightarrow> 's \<Rightarrow> 's run"
  assumes entry_known:
      "valid s \<Longrightarrow> num_of s i \<noteq> [] \<Longrightarrow> \<exists>e c. entry_of s i = Some e \<and> ce_Car e = Some c"
    and step_valid: "valid s \<Longrightarrow> accepts s m \<Longrightarrow> \<exists>s'. step m s = Some s' \<and> valid s'"
begin

lemma step_SomeD: "valid s \<Longrightarrow> accepts s m \<Longrightarrow> step m s = Some s' \<Longrightarrow> valid s'"
  using step_valid by fastforce

text \<open>The class of a car, for the cars that have a number.\<close>

lemma entry_class:
  assumes "valid s" "num_of s i \<noteq> []"
  shows "\<exists>k. map_option ci_CarClassId (Option.bind (entry_of s i) ce_Car) = Some k"
  using entry_known[OF assms] by auto

end

text \<open>The messages the car processor accepts: the hypotheses of its safety lemmas.\<close>

definition accepts_msg :: "CarProcessor \<Rightarrow> car_msg \<Rightarrow> bool" where
  "accepts_msg p m = (case m of
     DriverMsg d \<Rightarrow> good_driver_data p d
   | StateMsg s \<Rightarrow> psr_Session s \<noteq> None \<and> (\<forall>car \<in> set (psr_Cars s). known_idx p (car_CarIdx car)))"

lemma car_inv_entry:
  assumes "car_inv p" "num_by_idx p i \<noteq> []"
  shows "\<exists>e c. ByCarIdx p i = Some e \<and> ce_Car e = Some c"
proof -
  have "NumByIdx p i = Some (num_by_idx p i)"
    using assms(2) unfolding num_by_idx_def by (rule map_get_neq_zero)
  with assms(1) obtain e where "ByCarIdx p i = Some e" "ce_Car e \<noteq> None"
    unfolding car_inv_def registered_def by blast
  then show ?thesis by auto
qed

interpretation car_reg: car_data car_inv num_by_idx ByCarIdx accepts_msg car_step
proof unfold_locales
  show "\<exists>e c. ByCarIdx s i = Some e \<and> ce_Car e = Some c" if "car_inv s" "num_by_idx s i \<noteq> []" for s i
    using car_inv_entry[OF that] .
  show "\<exists>s'. car_step m s = Some s' \<and> car_inv s'" if "car_inv s" "accepts_msg s m" for s m
  proof (cases m)
    case (DriverMsg d)
    with that have "good_driver_data s d" by (simp add: accepts_msg_def)
    from ProcessCarPayload_ok[OF that(1) this] DriverMsg show ?thesis by auto
  next
    case (StateMsg d)
    with that have "psr_Session d \<noteq> None" "\<forall>car \<in> set (psr_Cars d). known_idx s (car_CarIdx car)"
      by (simp_all add: accepts_msg_def)
    from ProcessStatePayload_ok[OF that(1) this] StateMsg show ?thesis by auto
  qed
qed

end
