(* ===== verification/Race_Processor.thy ===== *)
theory Race_Processor
  imports Car_Interface
begin

text \<open>
  The race processor, pkg/grpc/processing/race/race_processor.go: from the state messages the
  car processor has seen before, the race order, the laps of each car, the race graphs
  (overall and per car class) and the replay info of the event.

  The race processor holds a pointer to the car processor and only reads it, so each method
  takes it as an argument cp.  The map RaceGraph, whose keys the processor later ranges
  over, is an association list.
\<close>

record RaceProcessor =
  RaceOrder :: "string list"
  CarLapsMap :: "string \<Rightarrow> CarLaps option"
  RaceGraphs :: "(string \<times> RaceGraph list) list"
  ReplayInfo :: ReplayInfo
  rp_raceSessions :: "uint32 list"
  raceStartMarkerFound :: bool
  timeInfos :: "string \<Rightarrow> TimeInfo option"

definition WithRaceSessions_race :: "uint32 list \<Rightarrow> RaceProcessor \<Rightarrow> RaceProcessor" where
  "WithRaceSessions_race sessions rp = rp\<lparr>rp_raceSessions := sessions\<rparr>"

definition NewRaceProcessor :: "(RaceProcessor \<Rightarrow> RaceProcessor) list \<Rightarrow> RaceProcessor" where
  "NewRaceProcessor opts = fold (\<lambda>opt rp. opt rp) opts
     \<lparr>RaceOrder = [], CarLapsMap = Map.empty, RaceGraphs = [], ReplayInfo = ReplayInfo0,
      rp_raceSessions = [], raceStartMarkerFound = False, timeInfos = Map.empty\<rparr>"

subsection \<open>Validity of a message\<close>

definition checkValidData :: "CarProcessor \<Rightarrow> PublishStateRequest \<Rightarrow> bool" where
  "checkValidData cp payload =
     list_all (\<lambda>car. car_CarIdx car \<noteq> - 1 \<and> num_by_idx cp (car_CarIdx car) \<noteq> []) (psr_Cars payload)"

subsection \<open>Laps\<close>

definition getLapInfo :: "CarProcessor \<Rightarrow> Car \<Rightarrow> RaceProcessor \<Rightarrow> LapInfo option \<times> RaceProcessor" where
  "getLapInfo cp car p = (let carNum = num_by_idx cp (car_CarIdx car) in
     case timeInfos p carNum of
       None \<Rightarrow> (None, p)
     | Some ti \<Rightarrow>
         if ti_LapNo ti \<noteq> car_Lc car then (None, p)
         else (Some \<lparr>li_Mode = ti_LapMode ti, li_Time = ti_Time ti\<rparr>,
               p\<lparr>timeInfos := (timeInfos p)(carNum := None)\<rparr>))"

definition process_car_lap :: "CarProcessor \<Rightarrow> Car \<Rightarrow> RaceProcessor \<Rightarrow> RaceProcessor run" where
  "process_car_lap cp car p = (
     let carNum = num_by_idx cp (car_CarIdx car); lap = car_Lc car in
     if lap <s 1 then Some p
     else do {
       let carEntry = (case CarLapsMap p carNum of Some e \<Rightarrow> e
                       | None \<Rightarrow> \<lparr>cl_CarNum = carNum, cl_Laps = []\<rparr>);
       let p = (case car_TimeInfo car of None \<Rightarrow> p
                | Some ti \<Rightarrow> p\<lparr>timeInfos := (timeInfos p)(carNum \<mapsto> ti)\<rparr>);
       laptime \<leftarrow> car_Last car;
       let (laps, p) = (case index_func (\<lambda>item. lap_LapNo item = lap) (cl_Laps carEntry) of
           Some idx \<Rightarrow>
             ((cl_Laps carEntry)[idx := \<lparr>lap_LapNo = lap, lap_LapTime = twm_Time laptime,
                lap_LapInfo = lap_LapInfo (cl_Laps carEntry ! idx)\<rparr>], p)
         | None \<Rightarrow>
             (let (lapInfo, p) = getLapInfo cp car p in
              (cl_Laps carEntry @ [\<lparr>lap_LapNo = lap, lap_LapTime = twm_Time laptime,
                 lap_LapInfo = lapInfo\<rparr>], p)));
       Some (p\<lparr>CarLapsMap := (CarLapsMap p)(carNum \<mapsto> carEntry\<lparr>cl_Laps := laps\<rparr>)\<rparr>)
     })"

definition processCarLaps :: "CarProcessor \<Rightarrow> PublishStateRequest \<Rightarrow> RaceProcessor \<Rightarrow> RaceProcessor run" where
  "processCarLaps cp payload p = go_for (process_car_lap cp) (psr_Cars payload) p"

subsection \<open>Race graphs\<close>

text \<open>Cars in state INIT or OUT are not racing and have no gap.\<close>

definition racing :: "Car \<Rightarrow> bool" where
  "racing car = (\<not> slices_contains [CAR_STATE_INIT, CAR_STATE_OUT] (car_State car))"

definition cmp_pos :: "GapInfo \<Rightarrow> GapInfo \<Rightarrow> int" where
  "cmp_pos a b = sint (gi_Pos a - gi_Pos b)"

text \<open>p.RaceGraph[name] = ... : replace the entry of that lap or append the new one.\<close>

definition put_graph :: "RaceGraph \<Rightarrow> RaceGraph list \<Rightarrow> RaceGraph list" where
  "put_graph e graph = (case index_func (\<lambda>item. rg_LapNo item = rg_LapNo e) graph of
     Some lapEntry \<Rightarrow> graph[lapEntry := e]
   | None \<Rightarrow> graph @ [e])"

definition graph_of :: "RaceProcessor \<Rightarrow> string \<Rightarrow> RaceGraph list" where
  "graph_of p name = map_get [] (map_of (RaceGraphs p)) name"

definition store_graph :: "string \<Rightarrow> RaceGraph \<Rightarrow> RaceProcessor \<Rightarrow> RaceProcessor" where
  "store_graph name e p = p\<lparr>RaceGraphs := AList.update name (put_graph e (graph_of p name)) (RaceGraphs p)\<rparr>"

definition overall_gap :: "CarProcessor \<Rightarrow> Car \<Rightarrow> GapInfo" where
  "overall_gap cp car = \<lparr>gi_CarNum = num_by_idx cp (car_CarIdx car), gi_LapNo = car_Lc car,
     gi_Pos = car_Pos car, gi_Gap = car_Gap car, gi_Pic = car_Pic car\<rparr>"

definition processOverallRaceGraph ::
  "CarProcessor \<Rightarrow> PublishStateRequest \<Rightarrow> RaceProcessor \<Rightarrow> RaceProcessor" where
  "processOverallRaceGraph cp payload p =
     (case index_func (\<lambda>item. car_Pos item = 1) (psr_Cars payload) of
       None \<Rightarrow> p
     | Some leaderEntry \<Rightarrow>
         store_graph ''overall''
           \<lparr>rg_LapNo = car_Lc (psr_Cars payload ! leaderEntry), rg_CarClass = ''overall'',
            rg_Gaps = sort_stable_func cmp_pos
              (map (overall_gap cp) (filter racing (psr_Cars payload)))\<rparr> p)"

text \<open>The loop of filterByCarClass, over the car entries it looks up.\<close>

definition class_filter :: "(uint32 \<Rightarrow> CarEntry option) \<Rightarrow> int32 \<Rightarrow> Car list \<Rightarrow> Car list run" where
  "class_filter entry_of classId cars = go_for (\<lambda>car ret. do {
     e \<leftarrow> entry_of (car_CarIdx car);
     c \<leftarrow> ce_Car e;
     Some (if ci_CarClassId c = classId then ret @ [car] else ret)
   }) cars []"

definition filterByCarClass :: "CarProcessor \<Rightarrow> PublishStateRequest \<Rightarrow> CarClass \<Rightarrow> Car list run" where
  "filterByCarClass cp payload carClass = class_filter (ByCarIdx cp) (cc_Id carClass) (psr_Cars payload)"

definition class_gap :: "CarProcessor \<Rightarrow> f32 \<Rightarrow> Car \<Rightarrow> GapInfo" where
  "class_gap cp leaderGap car = (overall_gap cp car)\<lparr>gi_Gap := f32_sub (car_Gap car) leaderGap\<rparr>"

definition processClassRaceGraph ::
  "CarProcessor \<Rightarrow> PublishStateRequest \<Rightarrow> CarClass \<Rightarrow> RaceProcessor \<Rightarrow> RaceProcessor run" where
  "processClassRaceGraph cp payload carClass p = do {
     carClassEntries \<leftarrow> filterByCarClass cp payload carClass;
     if carClassEntries = [] then Some p
     else case index_func (\<lambda>item. car_Pic item = 1) carClassEntries of
       None \<Rightarrow> Some p
     | Some leaderEntry \<Rightarrow> Some (
         store_graph (cc_Name carClass)
           \<lparr>rg_LapNo = car_Lc (psr_Cars payload ! leaderEntry), rg_CarClass = cc_Name carClass,
            rg_Gaps = sort_stable_func cmp_pos
              (map (class_gap cp (car_Gap (carClassEntries ! leaderEntry)))
                (filter racing carClassEntries))\<rparr> p)
   }"

subsection \<open>Replay info\<close>

definition is_race_start :: "Message \<Rightarrow> bool" where
  "is_race_start m = (msg_Msg m = ''Race start'' \<and> msg_Type m = MESSAGE_TYPE_TIMING \<and>
     msg_SubType m = MESSAGE_SUB_TYPE_RACE_CONTROL)"

definition processReplayInfo ::
  "PublishStateRequest \<Rightarrow> f32 \<Rightarrow> RaceProcessor \<Rightarrow> RaceProcessor run" where
  "processReplayInfo payload sessionTime p = do {
     session \<leftarrow> psr_Session payload;
     Some (
       if \<not> slices_contains (rp_raceSessions p) (ses_SessionNum session) then p
       else
         let info = (ReplayInfo p)\<lparr>ri_MaxSessionTime := sessionTime\<rparr>;
             start = info\<lparr>ri_MinTimestamp := Some (as_time (psr_Timestamp payload)),
                          ri_MinSessionTime := sessionTime\<rparr>
         in if raceStartMarkerFound p then p\<lparr>ReplayInfo := info\<rparr>
            else if index_func is_race_start (psr_Messages payload) \<noteq> None
            then p\<lparr>ReplayInfo := start, raceStartMarkerFound := True\<rparr>
            else if ri_MinTimestamp info = None then p\<lparr>ReplayInfo := start\<rparr>
            else p\<lparr>ReplayInfo := info\<rparr>)
   }"

subsection \<open>State messages\<close>

definition race_order :: "CarProcessor \<Rightarrow> PublishStateRequest \<Rightarrow> string list" where
  "race_order cp payload = map (\<lambda>car. num_by_idx cp (car_CarIdx car)) (psr_Cars payload)"

definition ProcessStatePayload_race ::
  "CarProcessor \<Rightarrow> PublishStateRequest \<Rightarrow> RaceProcessor \<Rightarrow> RaceProcessor run" where
  "ProcessStatePayload_race cp payload p = do {
     session \<leftarrow> psr_Session payload;
     if \<not> checkValidData cp payload then Some p
     else do {
       let p = p\<lparr>RaceOrder := race_order cp payload\<rparr>;
       p \<leftarrow> processCarLaps cp payload p;
       let p = processOverallRaceGraph cp payload p;
       p \<leftarrow> go_for (processClassRaceGraph cp payload) (CarClasses cp) p;
       processReplayInfo payload (ses_SessionTime session) p
     }
   }"

end
