(* ===== verification/Race_Properties.thy ===== *)
theory Race_Properties
  imports Race_Processor
begin

text \<open>
  The properties of the race processor: it neither panics nor loses its invariant on the
  messages the car processor has accepted, its laps refine a table from car number and lap
  to lap time, its graphs have one entry per lap with the racing cars in the order
  of their position, and the start of the replay is fixed once the race start has been seen.
\<close>

subsection \<open>Cars of a class, from the interface of the car processor\<close>

definition in_class :: "(uint32 \<Rightarrow> CarEntry option) \<Rightarrow> int32 \<Rightarrow> Car \<Rightarrow> bool" where
  "in_class entry_of k car =
     (map_option ci_CarClassId (Option.bind (entry_of (car_CarIdx car)) ce_Car) = Some k)"

context car_data
begin

lemma class_filter_loop:
  assumes "valid s" "\<forall>car \<in> set cars. num_of s (car_CarIdx car) \<noteq> []"
  shows "go_for (\<lambda>car ret. do {
      e \<leftarrow> entry_of s (car_CarIdx car);
      c \<leftarrow> ce_Car e;
      Some (if ci_CarClassId c = k then ret @ [car] else ret)
    }) cars acc = Some (acc @ filter (in_class (entry_of s) k) cars)"
  using assms(2)
proof (induction cars arbitrary: acc)
  case (Cons car cars)
  obtain e c where "entry_of s (car_CarIdx car) = Some e" "ce_Car e = Some c"
    using entry_known[OF assms(1)] Cons.prems by force
  with Cons show ?case by (simp add: in_class_def)
qed simp

lemma class_filter_total:
  assumes "valid s" "\<forall>car \<in> set cars. num_of s (car_CarIdx car) \<noteq> []"
  shows "class_filter (entry_of s) k cars = Some (filter (in_class (entry_of s) k) cars)"
  using class_filter_loop[OF assms, of k "[]"] by (simp add: class_filter_def)

end

lemma filterByCarClass_eq:
  assumes "car_inv cp" "checkValidData cp payload"
  shows "filterByCarClass cp payload cc =
    Some (filter (in_class (ByCarIdx cp) (cc_Id cc)) (psr_Cars payload))"
  unfolding filterByCarClass_def using assms
  by (intro car_reg.class_filter_total) (auto simp: checkValidData_def list_all_iff)

subsection \<open>Invariant\<close>

definition laps_ok :: "string \<Rightarrow> CarLaps \<Rightarrow> bool" where
  "laps_ok num cl \<longleftrightarrow> cl_CarNum cl = num \<and> distinct (map lap_LapNo (cl_Laps cl)) \<and>
     list_all (\<lambda>l. \<not> lap_LapNo l <s 1) (cl_Laps cl)"

definition graph_ok :: "string \<Rightarrow> RaceGraph list \<Rightarrow> bool" where
  "graph_ok name g \<longleftrightarrow> distinct (map rg_LapNo g) \<and> list_all (\<lambda>e. rg_CarClass e = name) g"

definition race_inv :: "RaceProcessor \<Rightarrow> bool" where
  "race_inv p \<longleftrightarrow> (\<forall>num cl. CarLapsMap p num = Some cl \<longrightarrow> laps_ok num cl) \<and>
     distinct (map fst (RaceGraphs p)) \<and> (\<forall>name. graph_ok name (graph_of p name))"

lemma race_inv_new [simp]: "race_inv (NewRaceProcessor [WithRaceSessions_race rs])"
  by (simp add: race_inv_def NewRaceProcessor_def WithRaceSessions_race_def graph_of_def graph_ok_def)

lemma race_inv_other [simp]:
  "race_inv (p\<lparr>RaceOrder := ro\<rparr>) = race_inv p" "race_inv (p\<lparr>ReplayInfo := ri\<rparr>) = race_inv p"
  "race_inv (p\<lparr>raceStartMarkerFound := b\<rparr>) = race_inv p" "race_inv (p\<lparr>timeInfos := ti\<rparr>) = race_inv p"
  by (simp_all add: race_inv_def graph_of_def)

text \<open>A list of records with distinct keys, in which one is replaced or to which one is appended.\<close>

lemma distinct_map_update:
  assumes "i < length xs" "f y = f (xs ! i)"
  shows "map f (xs[i := y]) = map f xs"
  using assms by (simp add: map_update) (metis list_update_id nth_map)

lemma put_graph_laps:
  "distinct (map rg_LapNo g) \<Longrightarrow> distinct (map rg_LapNo (put_graph e g))"
  by (auto simp: put_graph_def index_func_None distinct_map_update split: option.splits
      dest: index_func_SomeD)

lemma set_put_graph: "set (put_graph e g) \<subseteq> insert e (set g)"
  by (auto simp: put_graph_def split: option.splits dest: set_update_subset_insert[THEN subsetD])

lemma put_graph_ok: "graph_ok name g \<Longrightarrow> rg_CarClass e = name \<Longrightarrow> graph_ok name (put_graph e g)"
  using set_put_graph[of e g] by (auto simp: graph_ok_def list_all_iff put_graph_laps)

lemma put_graph_in: "e \<in> set (put_graph e g)"
  by (auto simp: put_graph_def split: option.splits dest!: index_func_SomeD intro: set_update_memI)

lemma put_graph_others:
  "distinct (map rg_LapNo g) \<Longrightarrow>
     filter (\<lambda>x. rg_LapNo x \<noteq> rg_LapNo e) (put_graph e g) = filter (\<lambda>x. rg_LapNo x \<noteq> rg_LapNo e) g"
proof (induction g)
  case (Cons x g)
  then show ?case
    by (cases "index_func (\<lambda>item. rg_LapNo item = rg_LapNo e) g")
      (auto simp: put_graph_def)
qed (simp add: put_graph_def)

lemma graph_of_store [simp]:
  "graph_of (store_graph name e p) name' =
     (if name' = name then put_graph e (graph_of p name) else graph_of p name')"
  by (simp add: store_graph_def graph_of_def map_get_def update_conv')

lemma store_graph_inv: "race_inv p \<Longrightarrow> rg_CarClass e = name \<Longrightarrow> race_inv (store_graph name e p)"
  by (auto simp: race_inv_def put_graph_ok) (auto simp: store_graph_def distinct_update)

subsection \<open>Each part of a state message\<close>

definition good_laps :: "Car list \<Rightarrow> bool" where
  "good_laps cars \<longleftrightarrow> (\<forall>car \<in> set cars. car_Lc car <s 1 \<or> car_Last car \<noteq> None)"

lemma getLapInfo_only:
  "snd (getLapInfo cp car p) = p \<or> (\<exists>ti. snd (getLapInfo cp car p) = p\<lparr>timeInfos := ti\<rparr>)"
  by (auto simp: getLapInfo_def Let_def split: option.splits)

lemma race_inv_put_laps:
  "race_inv p \<Longrightarrow> laps_ok num cl \<Longrightarrow> race_inv (p\<lparr>CarLapsMap := (CarLapsMap p)(num \<mapsto> cl)\<rparr>)"
  by (simp add: race_inv_def graph_of_def)

text \<open>The laps of a car after its message: replace the lap or append it.\<close>

definition put_lap :: "Lap \<Rightarrow> Lap list \<Rightarrow> Lap list" where
  "put_lap l laps = (case index_func (\<lambda>item. lap_LapNo item = lap_LapNo l) laps of
     Some i \<Rightarrow> laps[i := l\<lparr>lap_LapInfo := lap_LapInfo (laps ! i)\<rparr>] | None \<Rightarrow> laps @ [l])"

lemma put_lap_distinct: "distinct (map lap_LapNo laps) \<Longrightarrow> distinct (map lap_LapNo (put_lap l laps))"
  by (auto simp: put_lap_def index_func_None distinct_map_update split: option.splits
      dest: index_func_SomeD)

lemma put_lap_positive:
  "list_all (\<lambda>l. \<not> lap_LapNo l <s 1) laps \<Longrightarrow> \<not> lap_LapNo l <s 1 \<Longrightarrow>
     list_all (\<lambda>l. \<not> lap_LapNo l <s 1) (put_lap l laps)"
  using set_update_subset_insert[of laps _ "l\<lparr>lap_LapInfo := lap_LapInfo (laps ! _)\<rparr>"]
  by (fastforce simp: put_lap_def list_all_iff split: option.splits dest!: set_update_subset_insert[THEN subsetD])

definition laps_of :: "RaceProcessor \<Rightarrow> string \<Rightarrow> CarLaps" where
  "laps_of p num = (case CarLapsMap p num of Some e \<Rightarrow> e | None \<Rightarrow> \<lparr>cl_CarNum = num, cl_Laps = []\<rparr>)"

lemma process_car_lap_eq:
  assumes "\<not> car_Lc car <s 1" "car_Last car = Some lt"
  shows "\<exists>ti info. process_car_lap cp car p = (let num = num_by_idx cp (car_CarIdx car);
      l = \<lparr>lap_LapNo = car_Lc car, lap_LapTime = twm_Time lt, lap_LapInfo = info\<rparr>
    in Some (p\<lparr>timeInfos := ti,
      CarLapsMap := (CarLapsMap p)(num \<mapsto> (laps_of p num)\<lparr>cl_Laps := put_lap l (cl_Laps (laps_of p num))\<rparr>)\<rparr>))"
proof -
  let ?num = "num_by_idx cp (car_CarIdx car)"
  let ?laps = "cl_Laps (laps_of p ?num)"
  let ?ti = "case car_TimeInfo car of None \<Rightarrow> timeInfos p | Some ti \<Rightarrow> (timeInfos p)(?num \<mapsto> ti)"
  let ?p = "p\<lparr>timeInfos := ?ti\<rparr>"
  have p: "(case car_TimeInfo car of None \<Rightarrow> p | Some ti \<Rightarrow> p\<lparr>timeInfos := (timeInfos p)(?num \<mapsto> ti)\<rparr>) = ?p"
    by (simp split: option.splits)
  show ?thesis
  proof (cases "index_func (\<lambda>item. lap_LapNo item = car_Lc car) ?laps")
    case None
    obtain info q where q: "getLapInfo cp car ?p = (info, q)" by force
    then obtain ti where ti: "q = p\<lparr>timeInfos := ti\<rparr>" using getLapInfo_only[of cp car ?p] by auto
    with None assms q show ?thesis
      unfolding process_car_lap_def Let_def p laps_of_def[symmetric]
      by (intro exI[of _ ti] exI[of _ info]) (simp add: Let_def put_lap_def)
  next
    case (Some i)
    with assms show ?thesis
      unfolding process_car_lap_def Let_def p laps_of_def[symmetric]
      by (intro exI[of _ ?ti] exI[of _ None]) (simp add: Let_def put_lap_def)
  qed
qed

lemma laps_of_ok: "race_inv p \<Longrightarrow> laps_ok num (laps_of p num)"
  by (auto simp: race_inv_def laps_of_def laps_ok_def split: option.splits)

lemma process_car_lap_inv:
  assumes "race_inv p" "car_Lc car <s 1 \<or> car_Last car \<noteq> None"
  shows "\<exists>q. process_car_lap cp car p = Some q \<and> race_inv q"
proof (cases "car_Lc car <s 1")
  case False
  with assms(2) obtain lt where lt: "car_Last car = Some lt" by auto
  let ?num = "num_by_idx cp (car_CarIdx car)"
  from process_car_lap_eq[OF False lt, of cp p] obtain ti l where
    q: "process_car_lap cp car p = Some (p\<lparr>timeInfos := ti,
      CarLapsMap := (CarLapsMap p)(?num \<mapsto> (laps_of p ?num)\<lparr>cl_Laps := put_lap l (cl_Laps (laps_of p ?num))\<rparr>)\<rparr>)"
    and l: "lap_LapNo l = car_Lc car" by (auto simp: Let_def)
  have "laps_ok ?num ((laps_of p ?num)\<lparr>cl_Laps := put_lap l (cl_Laps (laps_of p ?num))\<rparr>)"
    using laps_of_ok[OF assms(1), of ?num] False l
    by (simp add: laps_ok_def put_lap_distinct put_lap_positive)
  from race_inv_put_laps[of "p\<lparr>timeInfos := ti\<rparr>", OF _ this] assms(1) q show ?thesis by simp
qed (use assms in \<open>simp add: process_car_lap_def\<close>)

lemma processCarLaps_inv:
  assumes "race_inv p" "good_laps (psr_Cars payload)"
  shows "\<exists>q. processCarLaps cp payload p = Some q \<and> race_inv q"
  unfolding processCarLaps_def
  by (rule go_for_inv) (use assms process_car_lap_inv in \<open>auto simp: good_laps_def\<close>)

lemma processOverallRaceGraph_inv: "race_inv p \<Longrightarrow> race_inv (processOverallRaceGraph cp payload p)"
  by (auto simp: processOverallRaceGraph_def store_graph_inv split: option.splits)

lemma processClassRaceGraph_inv:
  assumes "race_inv p" "car_inv cp" "checkValidData cp payload"
  shows "\<exists>q. processClassRaceGraph cp payload cc p = Some q \<and> race_inv q"
  using assms(1) by (auto simp: processClassRaceGraph_def filterByCarClass_eq[OF assms(2,3)]
      store_graph_inv split: option.splits)

lemma processReplayInfo_inv:
  "race_inv p \<Longrightarrow> psr_Session payload \<noteq> None \<Longrightarrow>
     \<exists>q. processReplayInfo payload t p = Some q \<and> race_inv q"
  by (auto simp: processReplayInfo_def Let_def)

lemma ProcessStatePayload_race_ok:
  assumes "race_inv p" "car_inv cp" "psr_Session payload \<noteq> None" "good_laps (psr_Cars payload)"
  shows "\<exists>q. ProcessStatePayload_race cp payload p = Some q \<and> race_inv q"
proof (cases "checkValidData cp payload")
  case True
  obtain ses where ses: "psr_Session payload = Some ses" using assms(3) by auto
  obtain q1 where q1: "processCarLaps cp payload (p\<lparr>RaceOrder := race_order cp payload\<rparr>) = Some q1" "race_inv q1"
    using processCarLaps_inv[of "p\<lparr>RaceOrder := race_order cp payload\<rparr>" payload cp] assms(1,4) by auto
  have "\<exists>q2. go_for (processClassRaceGraph cp payload) (CarClasses cp)
      (processOverallRaceGraph cp payload q1) = Some q2 \<and> race_inv q2"
    by (rule go_for_inv)
      (use processOverallRaceGraph_inv[OF q1(2)] processClassRaceGraph_inv[OF _ assms(2) True] in auto)
  then obtain q2 where q2: "go_for (processClassRaceGraph cp payload) (CarClasses cp)
      (processOverallRaceGraph cp payload q1) = Some q2" "race_inv q2" by blast
  from processReplayInfo_inv[OF q2(2) assms(3)] True ses q1 q2 show ?thesis
    by (auto simp: ProcessStatePayload_race_def)
qed (use assms in \<open>auto simp: ProcessStatePayload_race_def\<close>)

subsection \<open>Lap times as a table\<close>

text \<open>The abstraction: the time of lap n of car num.\<close>

definition lap_time :: "RaceProcessor \<Rightarrow> string \<times> int32 \<Rightarrow> f32 option" where
  "lap_time p k = (case k of (num, n) \<Rightarrow>
     map_option lap_LapTime (find (\<lambda>l. lap_LapNo l = n) (cl_Laps (laps_of p num))))"

definition table_update :: "CarProcessor \<Rightarrow> Car \<Rightarrow> (string \<times> int32 \<Rightarrow> f32 option) \<Rightarrow> string \<times> int32 \<Rightarrow> f32 option" where
  "table_update cp car tab = (if car_Lc car <s 1 then tab
     else tab((num_by_idx cp (car_CarIdx car), car_Lc car) \<mapsto> twm_Time (the (car_Last car))))"

lemma find_put_lap:
  "map_option lap_LapTime (find (\<lambda>x. lap_LapNo x = n) (put_lap l laps)) =
     (if n = lap_LapNo l then Some (lap_LapTime l)
      else map_option lap_LapTime (find (\<lambda>x. lap_LapNo x = n) laps))"
proof (induction laps)
  case (Cons x laps)
  then show ?case
    by (cases "index_func (\<lambda>item. lap_LapNo item = lap_LapNo l) laps") (auto simp: put_lap_def)
qed (simp add: put_lap_def)

lemma process_car_lap_Last:
  "\<not> car_Lc car <s 1 \<Longrightarrow> process_car_lap cp car p = Some q \<Longrightarrow> \<exists>lt. car_Last car = Some lt"
  by (cases "car_Last car") (simp_all add: process_car_lap_def Let_def)

lemma process_car_lap_table:
  assumes "process_car_lap cp car p = Some q"
  shows "lap_time q = table_update cp car (lap_time p)"
proof (cases "car_Lc car <s 1")
  case False
  then obtain lt where lt: "car_Last car = Some lt"
    using process_car_lap_Last[OF _ assms] by blast
  let ?num = "num_by_idx cp (car_CarIdx car)"
  from process_car_lap_eq[OF False lt, of cp p] assms obtain ti l where
    q: "q = p\<lparr>timeInfos := ti,
      CarLapsMap := (CarLapsMap p)(?num \<mapsto> (laps_of p ?num)\<lparr>cl_Laps := put_lap l (cl_Laps (laps_of p ?num))\<rparr>)\<rparr>"
    and l: "lap_LapNo l = car_Lc car" "lap_LapTime l = twm_Time lt" by (auto simp: Let_def)
  have "laps_of q ?num = (laps_of p ?num)\<lparr>cl_Laps := put_lap l (cl_Laps (laps_of p ?num))\<rparr>"
    "\<And>n. n \<noteq> ?num \<Longrightarrow> laps_of q n = laps_of p n" using q by (simp_all add: laps_of_def)
  then have "lap_time q (n, k) = table_update cp car (lap_time p) (n, k)" for n k
    using False lt l by (cases "n = ?num") (auto simp: lap_time_def table_update_def find_put_lap)
  then show ?thesis by (simp add: fun_eq_iff)
qed (use assms in \<open>simp add: process_car_lap_def table_update_def\<close>)

lemma processCarLaps_table:
  assumes "processCarLaps cp payload p = Some q"
  shows "lap_time q = fold (table_update cp) (psr_Cars payload) (lap_time p)"
proof -
  have "lap_time q = fold (table_update cp) cars (lap_time p)"
    if "go_for (process_car_lap cp) cars p = Some q" for cars p
    using that
  proof (induction cars arbitrary: p)
    case (Cons car cars)
    then obtain r where "process_car_lap cp car p = Some r" "go_for (process_car_lap cp) cars r = Some q"
      by (auto split: Option.bind_splits)
    with Cons.IH process_car_lap_table show ?case by simp
  qed simp
  with assms show ?thesis by (simp add: processCarLaps_def)
qed

text \<open>The later parts of a state message leave the laps and the race order alone.\<close>

definition same_laps :: "RaceProcessor \<Rightarrow> RaceProcessor \<Rightarrow> bool" where
  "same_laps p q \<longleftrightarrow> CarLapsMap q = CarLapsMap p \<and> RaceOrder q = RaceOrder p"

lemma same_laps_trans: "same_laps p q \<Longrightarrow> same_laps q r \<Longrightarrow> same_laps p r"
  by (simp add: same_laps_def)

lemma same_laps_time: "same_laps p q \<Longrightarrow> lap_time q = lap_time p"
  by (simp add: same_laps_def lap_time_def laps_of_def fun_eq_iff split: prod.splits)

lemma processOverallRaceGraph_laps: "same_laps p (processOverallRaceGraph cp payload p)"
  by (simp add: processOverallRaceGraph_def same_laps_def store_graph_def split: option.splits)

lemma processClassRaceGraph_laps:
  "processClassRaceGraph cp payload cc p = Some q \<Longrightarrow> same_laps p q"
  by (auto simp: processClassRaceGraph_def same_laps_def store_graph_def
      split: Option.bind_splits if_splits option.splits)

lemma processReplayInfo_laps: "processReplayInfo payload t p = Some q \<Longrightarrow> same_laps p q"
  by (auto simp: processReplayInfo_def same_laps_def Let_def split: Option.bind_splits if_splits)

lemma process_car_lap_order: "process_car_lap cp car p = Some q \<Longrightarrow> RaceOrder q = RaceOrder p"
proof (cases "car_Lc car <s 1")
  case False
  assume q: "process_car_lap cp car p = Some q"
  with False obtain lt where "car_Last car = Some lt"
    using process_car_lap_Last by blast
  from process_car_lap_eq[OF False this, of cp p] q show ?thesis by (auto simp: Let_def)
qed (simp add: process_car_lap_def)

lemma processCarLaps_order: "processCarLaps cp payload p = Some q \<Longrightarrow> RaceOrder q = RaceOrder p"
  unfolding processCarLaps_def
  by (rule go_for_preserves[where I = "\<lambda>q. RaceOrder q = RaceOrder p"])
    (auto dest: process_car_lap_order)

lemma ProcessStatePayload_race_laps:
  assumes "ProcessStatePayload_race cp payload p = Some q" "checkValidData cp payload"
  shows "lap_time q = fold (table_update cp) (psr_Cars payload) (lap_time p) \<and>
    RaceOrder q = race_order cp payload"
proof -
  let ?p = "p\<lparr>RaceOrder := race_order cp payload\<rparr>"
  from assms obtain q1 q2 t where q1: "processCarLaps cp payload ?p = Some q1"
    and q2: "go_for (processClassRaceGraph cp payload) (CarClasses cp)
      (processOverallRaceGraph cp payload q1) = Some q2"
    and q: "processReplayInfo payload t q2 = Some q"
    by (auto simp: ProcessStatePayload_race_def Let_def split: Option.bind_splits)
  have "same_laps q1 q2"
    by (rule go_for_preserves[OF q2, where I = "same_laps q1"])
      (auto intro: processOverallRaceGraph_laps same_laps_trans processClassRaceGraph_laps)
  then have same: "same_laps q1 q" using processReplayInfo_laps[OF q] same_laps_trans by blast
  have "lap_time ?p = lap_time p" by (simp add: lap_time_def laps_of_def fun_eq_iff)
  then show ?thesis
    using same_laps_time[OF same] processCarLaps_table[OF q1] processCarLaps_order[OF q1] same
    by (simp add: same_laps_def)
qed

subsection \<open>Messages for the witnesses\<close>

definition demo_race :: RaceProcessor where
  "demo_race = NewRaceProcessor [WithRaceSessions_race [0]]"

text \<open>Two classes: car 1 of class A leads in lap 10, cars 2 and 3 of class B are in lap 8 and 7.\<close>

definition demo_entry :: "uint32 \<Rightarrow> string \<Rightarrow> int32 \<Rightarrow> CarEntry" where
  "demo_entry i num k = \<lparr>ce_Car = Some \<lparr>ci_CarIdx = i, ci_CarNumber = num, ci_CarClassId = k, ci_CarId = 1, ci_CarNumberRaw = 1\<rparr>,
     ce_Team = Some \<lparr>team_Name = num, team_Id = 1\<rparr>, ce_Drivers = []\<rparr>"

definition demo_classes_msg :: PublishDriverDataRequest where
  "demo_classes_msg = \<lparr>pdr_Event = None,
     pdr_Entries = [demo_entry 1 ''1'' 1, demo_entry 2 ''2'' 2, demo_entry 3 ''3'' 2],
     pdr_CarClasses = [\<lparr>cc_Id = 1, cc_Name = ''A''\<rparr>, \<lparr>cc_Id = 2, cc_Name = ''B''\<rparr>],
     pdr_CurrentDrivers = [], pdr_SessionNum = 0, pdr_SessionTime = f32_zero, pdr_Timestamp = None,
     pdr_Cars = []\<rparr>"

definition demo_cp :: CarProcessor where
  "demo_cp = the (ProcessCarPayload demo_classes_msg (NewCarProcessor [WithRaceSessions [0]]))"

definition demo_racer :: "int32 \<Rightarrow> int32 \<Rightarrow> int32 \<Rightarrow> int32 \<Rightarrow> int \<Rightarrow> Car" where
  "demo_racer i pos pic lc gap = \<lparr>car_CarIdx = i, car_State = CAR_STATE_RUN, car_Pos = pos, car_Pic = pic,
     car_Lap = lc + 1, car_Lc = lc, car_Gap = Fin gap,
     car_Last = Some \<lparr>twm_Time = Fin (100 + gap), twm_Marker = 0\<rparr>, car_TimeInfo = None,
     car_TrackPos = f32_zero, car_StintLap = 0\<rparr>"

definition demo_cars :: "Car list" where
  "demo_cars = [demo_racer 1 1 1 10 0, demo_racer 2 2 1 8 20, demo_racer 3 3 2 7 30]"

definition demo_payload :: PublishStateRequest where
  "demo_payload = \<lparr>psr_Event = None, psr_Session = Some (demo_session 50), psr_Cars = demo_cars,
     psr_Messages = [], psr_Timestamp = Some 7\<rparr>"

lemma demo_cp_simps [simp]:
  "NumByIdx demo_cp = [1 \<mapsto> ''1'', 2 \<mapsto> ''2'', 3 \<mapsto> ''3'']"
  "ByCarIdx demo_cp = [1 \<mapsto> demo_entry 1 ''1'' 1, 2 \<mapsto> demo_entry 2 ''2'' 2, 3 \<mapsto> demo_entry 3 ''3'' 2]"
  "CarClasses demo_cp = [\<lparr>cc_Id = 1, cc_Name = ''A''\<rparr>, \<lparr>cc_Id = 2, cc_Name = ''B''\<rparr>]"
  by (simp_all add: demo_cp_def demo_classes_msg_def demo_entry_def ProcessCarPayload_def
      register_entry_def updateCarInfo_def Let_def NewCarProcessor_def WithRaceSessions_def)

lemma demo_cp_inv: "car_inv demo_cp"
proof -
  have "good_driver_data (NewCarProcessor [WithRaceSessions [0]]) demo_classes_msg"
    by (simp add: good_driver_data_def demo_classes_msg_def demo_entry_def good_entry_def)
  from ProcessCarPayload_ok[OF NewCarProcessor_fields(1) this] show ?thesis
    by (auto simp: demo_cp_def)
qed

lemma demo_payload_valid: "checkValidData demo_cp demo_payload"
  by (simp add: checkValidData_def demo_payload_def demo_cars_def demo_racer_def num_by_idx_def)

lemma demo_payload_laps: "good_laps (psr_Cars demo_payload)" "psr_Session demo_payload \<noteq> None"
  by (simp_all add: good_laps_def demo_payload_def demo_cars_def demo_racer_def)

subsection \<open>Replay info\<close>

text \<open>The earlier parts of a state message leave the replay info alone.\<close>

definition same_replay :: "RaceProcessor \<Rightarrow> RaceProcessor \<Rightarrow> bool" where
  "same_replay p q \<longleftrightarrow> ReplayInfo q = ReplayInfo p \<and>
     raceStartMarkerFound q = raceStartMarkerFound p \<and> rp_raceSessions q = rp_raceSessions p"

lemma same_replay_trans: "same_replay p q \<Longrightarrow> same_replay q r \<Longrightarrow> same_replay p r"
  by (simp add: same_replay_def)

lemma process_car_lap_replay:
  assumes "process_car_lap cp car p = Some q" shows "same_replay p q"
proof (cases "car_Lc car <s 1")
  case False
  then obtain lt where "car_Last car = Some lt" using process_car_lap_Last assms by blast
  from process_car_lap_eq[OF False this, of cp p] assms show ?thesis
    by (auto simp: Let_def same_replay_def)
qed (use assms in \<open>simp add: process_car_lap_def same_replay_def\<close>)

lemma processOverallRaceGraph_replay: "same_replay p (processOverallRaceGraph cp payload p)"
  by (simp add: processOverallRaceGraph_def same_replay_def store_graph_def split: option.splits)

lemma processClassRaceGraph_replay:
  "processClassRaceGraph cp payload cc p = Some q \<Longrightarrow> same_replay p q"
  by (auto simp: processClassRaceGraph_def same_replay_def store_graph_def
      split: Option.bind_splits if_splits option.splits)

lemma ProcessStatePayload_race_replay:
  assumes "ProcessStatePayload_race cp payload p = Some q"
  shows "q = p \<or> (\<exists>r t. same_replay p r \<and> processReplayInfo payload t r = Some q)"
proof (cases "checkValidData cp payload")
  case True
  let ?p = "p\<lparr>RaceOrder := race_order cp payload\<rparr>"
  from True assms obtain q1 q2 t where q1: "processCarLaps cp payload ?p = Some q1"
    and q2: "go_for (processClassRaceGraph cp payload) (CarClasses cp)
      (processOverallRaceGraph cp payload q1) = Some q2"
    and q: "processReplayInfo payload t q2 = Some q"
    by (auto simp: ProcessStatePayload_race_def Let_def split: Option.bind_splits)
  have "same_replay ?p q1"
    by (rule go_for_preserves[OF q1[unfolded processCarLaps_def], where I = "same_replay ?p"])
      (auto simp: same_replay_def dest: process_car_lap_replay)
  moreover have "same_replay q1 q2"
    by (rule go_for_preserves[OF q2, where I = "same_replay q1"])
      (auto intro: processOverallRaceGraph_replay same_replay_trans processClassRaceGraph_replay)
  ultimately have "same_replay p q2" by (simp add: same_replay_def)
  with q show ?thesis by blast
qed (use assms in \<open>auto simp: ProcessStatePayload_race_def split: Option.bind_splits\<close>)

text \<open>Once the start of the race is found, a message keeps where the replay begins.\<close>

definition replay_fixed :: "timestamp option \<Rightarrow> f32 \<Rightarrow> RaceProcessor \<Rightarrow> bool" where
  "replay_fixed ts st p \<longleftrightarrow> raceStartMarkerFound p \<and>
     ri_MinTimestamp (ReplayInfo p) = ts \<and> ri_MinSessionTime (ReplayInfo p) = st"

lemma processReplayInfo_fixed:
  "processReplayInfo payload t r = Some q \<Longrightarrow> replay_fixed ts st r \<Longrightarrow> replay_fixed ts st q"
  by (auto simp: processReplayInfo_def replay_fixed_def Let_def split: Option.bind_splits if_splits)

lemma ProcessStatePayload_race_fixed:
  "ProcessStatePayload_race cp payload p = Some q \<Longrightarrow> replay_fixed ts st p \<Longrightarrow> replay_fixed ts st q"
proof -
  assume "ProcessStatePayload_race cp payload p = Some q" and p: "replay_fixed ts st p"
  from ProcessStatePayload_race_replay[OF this(1)] consider "q = p"
    | r t where "same_replay p r" "processReplayInfo payload t r = Some q" by blast
  then show "replay_fixed ts st q"
  proof cases
    case 2
    from 2(1) p have "replay_fixed ts st r" by (simp add: same_replay_def replay_fixed_def)
    from processReplayInfo_fixed[OF 2(2) this] show ?thesis .
  qed (use p in simp)
qed

subsection \<open>Race graphs\<close>

lemma cmp_pos_key:
  assumes "0 \<le> sint (gi_Pos a)" "0 \<le> sint (gi_Pos b)"
  shows "cmp_pos a b < 0 \<longleftrightarrow> sint (gi_Pos a) < sint (gi_Pos b)"
proof -
  have "- (2 ^ 31) \<le> sint (gi_Pos a) - sint (gi_Pos b)" "sint (gi_Pos a) - sint (gi_Pos b) < 2 ^ 31"
    using assms sint32_range[of "gi_Pos a"] sint32_range[of "gi_Pos b"] by linarith+
  then have "sint (gi_Pos a - gi_Pos b) = sint (gi_Pos a) - sint (gi_Pos b)"
    by (simp add: sint_word_ariths(2) signed_take_bit_int_eq_self)
  then show ?thesis by (simp add: cmp_pos_def)
qed

lemma sort_gaps:
  assumes "\<forall>g \<in> set gs. 0 \<le> sint (gi_Pos g)"
  shows "sort_stable_func cmp_pos gs = sort_key (\<lambda>g. sint (gi_Pos g)) gs"
  by (rule sort_stable_func_key) (use assms cmp_pos_key in auto)

subsection \<open>Properties\<close>

text \<open>
  On a message the car processor has accepted, the race processor does not panic and keeps its
  invariant: the laps of a car are distinct and start at 1, a race graph has one entry per lap.
\<close>

theorem race_safe:
  assumes "race_inv p" and "car_inv cp" and "psr_Session payload \<noteq> None" and "good_laps (psr_Cars payload)"
  shows "\<exists>q. ProcessStatePayload_race cp payload p = Some q \<and> race_inv q"
  by (rule ProcessStatePayload_race_ok) (rule assms)+

theorem race_safe_witness:
  "\<exists>q. ProcessStatePayload_race demo_cp demo_payload demo_race = Some q \<and> race_inv q"
  by (rule race_safe[OF _ demo_cp_inv demo_payload_laps(2,1)]) (simp add: demo_race_def)

lemma demo_race_run: "\<exists>q. ProcessStatePayload_race demo_cp demo_payload demo_race = Some q"
  using ProcessStatePayload_race_ok[of demo_race demo_cp demo_payload] demo_cp_inv demo_payload_laps
  by (auto simp: demo_race_def)

text \<open>
  A message with an unknown car changes nothing.  Any other message sets the race order to the
  order of its cars and updates the lap times as a table: each car that has completed a
  lap sets the time of that lap, all other entries stay.
\<close>

theorem race_message_effect:
  assumes "ProcessStatePayload_race cp payload p = Some q"
  shows "if checkValidData cp payload
    then RaceOrder q = race_order cp payload \<and>
      lap_time q = fold (table_update cp) (psr_Cars payload) (lap_time p)
    else q = p"
  using assms ProcessStatePayload_race_laps[OF assms]
  by (auto simp: ProcessStatePayload_race_def split: Option.bind_splits)

theorem race_message_effect_witness:
  "\<exists>q. ProcessStatePayload_race demo_cp demo_payload demo_race = Some q \<and>
     RaceOrder q = [''1'', ''2'', ''3''] \<and> lap_time q (''2'', 8) = Some (Fin 120)"
proof -
  obtain q where q: "ProcessStatePayload_race demo_cp demo_payload demo_race = Some q"
    using demo_race_run by blast
  from race_message_effect[OF q] demo_payload_valid q show ?thesis
    by (auto simp: race_order_def demo_payload_def demo_cars_def demo_racer_def num_by_idx_def
        table_update_def word_sless_alt)
qed

text \<open>
  C24: the overall race graph holds, for the lap of the leader, exactly the cars that are racing, in
  the order of their position; its entries for other laps stay.
\<close>

theorem race_overall_graph:
  fixes cp :: CarProcessor
  assumes "race_inv p" and "index_func (\<lambda>c. car_Pos c = 1) (psr_Cars payload) = Some k"
    and "\<forall>c \<in> set (psr_Cars payload). 0 \<le> sint (car_Pos c)"
  defines "q \<equiv> processOverallRaceGraph cp payload p" and "lap \<equiv> car_Lc (psr_Cars payload ! k)"
  shows "\<lparr>rg_LapNo = lap, rg_CarClass = ''overall'',
        rg_Gaps = sort_key (\<lambda>g. sint (gi_Pos g)) (map (overall_gap cp) (filter racing (psr_Cars payload)))\<rparr>
      \<in> set (graph_of q ''overall'') \<and>
    filter (\<lambda>e. rg_LapNo e \<noteq> lap) (graph_of q ''overall'') =
      filter (\<lambda>e. rg_LapNo e \<noteq> lap) (graph_of p ''overall'') \<and>
    distinct (map rg_LapNo (graph_of q ''overall''))"
proof -
  let ?gs = "map (overall_gap cp) (filter racing (psr_Cars payload))"
  let ?e = "\<lparr>rg_LapNo = lap, rg_CarClass = ''overall'', rg_Gaps = sort_stable_func cmp_pos ?gs\<rparr>"
  have sorted: "sort_stable_func cmp_pos ?gs = sort_key (\<lambda>g. sint (gi_Pos g)) ?gs"
    using assms(3) by (intro sort_gaps) (auto simp: overall_gap_def)
  have "graph_of q ''overall'' = put_graph ?e (graph_of p ''overall'')"
    using assms(2) by (simp add: q_def processOverallRaceGraph_def lap_def)
  moreover have "distinct (map rg_LapNo (graph_of p ''overall''))"
    using assms(1) by (simp add: race_inv_def graph_ok_def)
  ultimately show ?thesis
    using put_graph_in[of ?e] put_graph_others[of "graph_of p ''overall''" ?e] put_graph_laps[of _ ?e] sorted
    by simp
qed

theorem race_overall_graph_witness:
  "\<exists>e \<in> set (graph_of (processOverallRaceGraph demo_cp demo_payload demo_race) ''overall'').
     rg_LapNo e = 10 \<and> map gi_CarNum (rg_Gaps e) = [''1'', ''2'', ''3'']"
proof -
  note unf = demo_payload_def demo_cars_def demo_racer_def
  have "race_inv demo_race" "index_func (\<lambda>c. car_Pos c = 1) (psr_Cars demo_payload) = Some 0"
    "\<forall>c \<in> set (psr_Cars demo_payload). 0 \<le> sint (car_Pos c)"
    by (simp_all add: demo_race_def unf)
  from race_overall_graph[OF this, of demo_cp, THEN conjunct1] show ?thesis
    by (rule bexI[rotated]) (simp add: unf racing_def overall_gap_def num_by_idx_def)
qed

text \<open>
  The graph of a car class, when the class has a leader, holds the racing cars of the class in
  the order of their overall position with their gaps relative to the leader of the class.  The lap number
  of the entry is read from the car at the leader's index in the whole message.
\<close>

theorem race_class_graph:
  fixes cc :: CarClass
  assumes "car_inv cp" and "checkValidData cp payload"
    and "\<forall>c \<in> set (psr_Cars payload). 0 \<le> sint (car_Pos c)"
  defines "cars \<equiv> filter (in_class (ByCarIdx cp) (cc_Id cc)) (psr_Cars payload)"
  assumes "index_func (\<lambda>c. car_Pic c = 1) cars = Some k"
  shows "processClassRaceGraph cp payload cc p = Some (store_graph (cc_Name cc)
    \<lparr>rg_LapNo = car_Lc (psr_Cars payload ! k), rg_CarClass = cc_Name cc,
     rg_Gaps = sort_key (\<lambda>g. sint (gi_Pos g)) (map (class_gap cp (car_Gap (cars ! k))) (filter racing cars))\<rparr> p)"
proof -
  have "cars \<noteq> []" using assms(5) by auto
  moreover have "sort_stable_func cmp_pos (map (class_gap cp g) (filter racing cars)) =
      sort_key (\<lambda>g. sint (gi_Pos g)) (map (class_gap cp g) (filter racing cars))" for g
    using assms(3) by (intro sort_gaps) (auto simp: class_gap_def overall_gap_def cars_def)
  ultimately show ?thesis using assms(5)
    by (simp add: processClassRaceGraph_def filterByCarClass_eq[OF assms(1,2)] cars_def)
qed

text \<open>In the witness the leader of class B has completed 8 laps, and the entry is filed under lap 10.\<close>

theorem race_class_graph_witness:
  "\<exists>q e. processClassRaceGraph demo_cp demo_payload \<lparr>cc_Id = 2, cc_Name = ''B''\<rparr> demo_race = Some q \<and>
     graph_of q ''B'' = [e] \<and> map (\<lambda>g. (gi_CarNum g, gi_LapNo g, gi_Gap g)) (rg_Gaps e) =
       [(''2'', 8, Fin 0), (''3'', 7, Fin 10)] \<and> rg_LapNo e = 10"
  using race_class_graph[OF demo_cp_inv demo_payload_valid,
      of "\<lparr>cc_Id = 2, cc_Name = ''B''\<rparr>" 0 demo_race]
  by (simp add: demo_race_def demo_payload_def demo_cars_def demo_racer_def demo_entry_def in_class_def
      racing_def class_gap_def overall_gap_def num_by_idx_def put_graph_def store_graph_def graph_of_def
      NewRaceProcessor_def WithRaceSessions_race_def f32_sub_def f32_round_exact)

text \<open>
  Once a race start message has been seen, no later message moves the begin of the
  replay.
\<close>

theorem race_replay_start_fixed:
  assumes "raceStartMarkerFound p"
    and "go_for (\<lambda>(cp, payload). ProcessStatePayload_race cp payload) msgs p = Some q"
  shows "raceStartMarkerFound q \<and> ri_MinTimestamp (ReplayInfo q) = ri_MinTimestamp (ReplayInfo p) \<and>
    ri_MinSessionTime (ReplayInfo q) = ri_MinSessionTime (ReplayInfo p)"
proof -
  let ?I = "replay_fixed (ri_MinTimestamp (ReplayInfo p)) (ri_MinSessionTime (ReplayInfo p))"
  have "?I q"
    by (rule go_for_preserves[OF assms(2), where I = ?I])
      (use assms(1) in \<open>auto simp: replay_fixed_def[of _ _ p] dest: ProcessStatePayload_race_fixed\<close>)
  then show ?thesis by (simp add: replay_fixed_def)
qed

theorem race_replay_start_fixed_witness:
  "\<exists>q. go_for (\<lambda>(cp, payload). ProcessStatePayload_race cp payload) [(demo_cp, demo_payload)]
       (demo_race\<lparr>raceStartMarkerFound := True\<rparr>) = Some q \<and> raceStartMarkerFound q"
proof -
  let ?p = "demo_race\<lparr>raceStartMarkerFound := True\<rparr>"
  obtain q where "ProcessStatePayload_race demo_cp demo_payload ?p = Some q"
    using ProcessStatePayload_race_ok[of ?p demo_cp demo_payload] demo_cp_inv demo_payload_laps
    by (auto simp: demo_race_def)
  then have "go_for (\<lambda>(cp, payload). ProcessStatePayload_race cp payload)
    [(demo_cp, demo_payload)] ?p = Some q" by simp
  with race_replay_start_fixed[OF _ this] show ?thesis by auto
qed

end
