(* ===== verification/Processor.thy ===== *)
theory Processor
  imports Race_Properties
begin

text \<open>
  The processor of one event, pkg/grpc/processing/processor.go: it passes each incoming message to
  the car and the race processor and publishes the results on its channels.

  The channels are unbuffered and drained by the broadcast servers; a send is recorded in the list
  sent, in order.  A channel that is nil is a flag that is False, and nothing is sent on it.
  The car and the race processor are owned by the processor; the race processor's pointer to the car
  processor is the same one (EventLookup.AddEvent builds them so).
\<close>

datatype Sent =
    SentAnalysis Analysis | SentRacestate PublishStateRequest
  | SentDriverData PublishDriverDataRequest | SentSpeedmap PublishSpeedmapRequest
  | SentReplayInfo ReplayInfo | SentSnapshot SnapshotData

record Processor =
  carProcessor :: CarProcessor
  raceProcessor :: RaceProcessor
  analysisChan :: bool
  racestateChan :: bool
  driverDataChan :: bool
  speedmapChan :: bool
  replayInfoChan :: bool
  snapshotChan :: bool
  lastSnapshotTime :: timestamp
  lastSessionData :: "Session option"
  sent :: "Sent list"

definition WithCarProcessor :: "CarProcessor \<Rightarrow> Processor \<Rightarrow> Processor" where
  "WithCarProcessor cp proc = proc\<lparr>carProcessor := cp\<rparr>"

definition WithRaceProcessor :: "RaceProcessor \<Rightarrow> Processor \<Rightarrow> Processor" where
  "WithRaceProcessor rp proc = proc\<lparr>raceProcessor := rp\<rparr>"

definition WithPublishChannels ::
  "bool \<Rightarrow> bool \<Rightarrow> bool \<Rightarrow> bool \<Rightarrow> bool \<Rightarrow> bool \<Rightarrow> Processor \<Rightarrow> Processor" where
  "WithPublishChannels a rs dd sm ri sn proc = proc\<lparr>analysisChan := a, racestateChan := rs,
     driverDataChan := dd, speedmapChan := sm, replayInfoChan := ri, snapshotChan := sn\<rparr>"

definition NewProcessor :: "(Processor \<Rightarrow> Processor) list \<Rightarrow> Processor" where
  "NewProcessor opts = fold (\<lambda>opt proc. opt proc) opts
     \<lparr>carProcessor = NewCarProcessor [], raceProcessor = NewRaceProcessor [],
      analysisChan = False, racestateChan = False, driverDataChan = False, speedmapChan = False,
      replayInfoChan = False, snapshotChan = False, lastSnapshotTime = zero_time,
      lastSessionData = None, sent = []\<rparr>"

definition send_if :: "bool \<Rightarrow> Sent \<Rightarrow> Processor \<Rightarrow> Processor" where
  "send_if chan e p = (if chan then p\<lparr>sent := sent p @ [e]\<rparr> else p)"

subsection \<open>The analysis data\<close>

definition sortedMapKeys :: "(string \<times> 'e) list \<Rightarrow> string list" where
  "sortedMapKeys m = sort (map fst m)"

definition flattenRaceGraph :: "(string \<Rightarrow> 'e list) \<Rightarrow> string list \<Rightarrow> 'e list" where
  "flattenRaceGraph data sortReference = concat (map data sortReference)"

definition flattenByReference :: "(string \<Rightarrow> 'e option) \<Rightarrow> string list \<Rightarrow> 'e list" where
  "flattenByReference data sortReference =
     concat (map (\<lambda>k. case data k of Some v \<Rightarrow> [v] | None \<Rightarrow> []) sortReference)"

definition ComposeAnalysisData :: "Processor \<Rightarrow> Analysis" where
  "ComposeAnalysisData p = (
     let rp = raceProcessor p; cp = carProcessor p;
         classes = sortedMapKeys (RaceGraphs rp); carNums = sortedMapKeys (ByCarNum cp)
     in \<lparr>an_RaceOrder = RaceOrder rp,
         an_CarLaps = flattenByReference (CarLapsMap rp) carNums,
         an_CarComputeStates = flattenByReference (ComputeState cp) carNums,
         an_CarStints = flattenByReference (StintLookup cp) carNums,
         an_CarPits = flattenByReference (PitLookup cp) carNums,
         an_CarOccupancies = flattenByReference (CarOccupancyLookup cp) carNums,
         an_RaceGraph = flattenRaceGraph (graph_of rp) classes\<rparr>)"

definition composeReplayInfo :: "Processor \<Rightarrow> ReplayInfo" where
  "composeReplayInfo p = ReplayInfo (raceProcessor p)"

subsection \<open>Messages\<close>

definition ProcessState :: "PublishStateRequest \<Rightarrow> Processor \<Rightarrow> Processor run" where
  "ProcessState payload p = do {
     cp \<leftarrow> ProcessStatePayload payload (carProcessor p);
     rp \<leftarrow> ProcessStatePayload_race cp payload (raceProcessor p);
     let p = p\<lparr>carProcessor := cp, raceProcessor := rp\<rparr>;
     let p = send_if (analysisChan p) (SentAnalysis (ComposeAnalysisData p)) p;
     let p = send_if (racestateChan p) (SentRacestate payload) p;
     let p = send_if (replayInfoChan p) (SentReplayInfo (composeReplayInfo p)) p;
     Some (p\<lparr>lastSessionData := psr_Session payload\<rparr>)
   }"

definition ProcessCarData :: "PublishDriverDataRequest \<Rightarrow> Processor \<Rightarrow> Processor run" where
  "ProcessCarData payload p = do {
     cp \<leftarrow> ProcessCarPayload payload (carProcessor p);
     let p = p\<lparr>carProcessor := cp\<rparr>;
     let p = send_if (driverDataChan p) (SentDriverData payload) p;
     Some (send_if (analysisChan p) (SentAnalysis (ComposeAnalysisData p)) p)
   }"

definition ProcessSpeedmap :: "PublishSpeedmapRequest \<Rightarrow> Processor \<Rightarrow> Processor run" where
  "ProcessSpeedmap payload p = (
     let p = send_if (speedmapChan p) (SentSpeedmap payload) p;
         now = as_time (psm_Timestamp payload)
     in if snapshotChan p \<and> 2 * minute < time_sub now (lastSnapshotTime p) then do {
          data \<leftarrow> psm_Speedmap payload;
          let carClassLaptimes = map (\<lambda>(k, car). (k, csd_Laptime car)) data;
          session \<leftarrow> lastSessionData p;
          let p = send_if True (SentSnapshot
            \<lparr>sd_RecordStamp = psm_Timestamp payload,
             sd_SessionTime = ses_SessionTime session, sd_TimeOfDay = ses_TimeOfDay session,
             sd_AirTemp = ses_AirTemp session, sd_TrackTemp = ses_TrackTemp session,
             sd_TrackWetness = ses_TrackWetness session,
             sd_Precipitation = ses_Precipitation session,
             sd_CarClassLaptimes = carClassLaptimes\<rparr>) p;
          Some (p\<lparr>lastSnapshotTime := now\<rparr>)
        } else Some p)"

subsection \<open>Sequences of messages\<close>

datatype proc_msg =
    ProcState PublishStateRequest | ProcDriver PublishDriverDataRequest
  | ProcSpeedmap PublishSpeedmapRequest

fun proc_step :: "proc_msg \<Rightarrow> Processor \<Rightarrow> Processor run" where
  "proc_step (ProcState s) p = ProcessState s p"
| "proc_step (ProcDriver d) p = ProcessCarData d p"
| "proc_step (ProcSpeedmap m) p = ProcessSpeedmap m p"

subsection \<open>Safety\<close>

definition proc_inv :: "Processor \<Rightarrow> bool" where
  "proc_inv p \<longleftrightarrow> car_inv (carProcessor p) \<and> race_inv (raceProcessor p)"

text \<open>
  The recording announces its cars, carries a session and lap times, and its first state message precedes its first
  speedmap (seen tells whether there was one).
\<close>

fun good_messages :: "uint32 list \<Rightarrow> bool \<Rightarrow> proc_msg list \<Rightarrow> bool" where
  "good_messages known seen [] = True"
| "good_messages known seen (ProcDriver d # ms) =
     (let known' = map entry_idx (pdr_Entries d) @ known
      in list_all good_entry (pdr_Entries d) \<and>
         list_all (\<lambda>x. fst x \<in> set known') (pdr_CurrentDrivers d) \<and> good_messages known' seen ms)"
| "good_messages known seen (ProcState s # ms) =
     (psr_Session s \<noteq> None \<and> list_all (\<lambda>car. car_CarIdx car \<in> set known) (psr_Cars s) \<and>
      list_all (\<lambda>car. car_Lc car <s 1 \<or> car_Last car \<noteq> None) (psr_Cars s) \<and>
      good_messages known True ms)"
| "good_messages known seen (ProcSpeedmap m # ms) =
     (seen \<and> psm_Speedmap m \<noteq> None \<and> good_messages known seen ms)"

lemma send_if_fields [simp]:
  "carProcessor (send_if c e p) = carProcessor p" "raceProcessor (send_if c e p) = raceProcessor p"
  "lastSessionData (send_if c e p) = lastSessionData p" "lastSnapshotTime (send_if c e p) = lastSnapshotTime p"
  "analysisChan (send_if c e p) = analysisChan p" "racestateChan (send_if c e p) = racestateChan p"
  "driverDataChan (send_if c e p) = driverDataChan p" "speedmapChan (send_if c e p) = speedmapChan p"
  "replayInfoChan (send_if c e p) = replayInfoChan p" "snapshotChan (send_if c e p) = snapshotChan p"
  "sent (send_if c e p) = sent p @ (if c then [e] else [])"
  by (simp_all add: send_if_def)

lemma ProcessState_ok:
  assumes "proc_inv p" "psr_Session s \<noteq> None" "good_laps (psr_Cars s)"
    and "\<forall>car \<in> set (psr_Cars s). known_idx (carProcessor p) (car_CarIdx car)"
  shows "\<exists>q. ProcessState s p = Some q \<and> proc_inv q \<and> lastSessionData q \<noteq> None \<and>
    same_cars (carProcessor p) (carProcessor q)"
proof -
  obtain cp where cp: "ProcessStatePayload s (carProcessor p) = Some cp" "car_inv cp"
      "same_cars (carProcessor p) cp"
    using ProcessStatePayload_ok[OF _ assms(2,4)] assms(1) by (auto simp: proc_inv_def)
  obtain rp where rp: "ProcessStatePayload_race cp s (raceProcessor p) = Some rp" "race_inv rp"
    using ProcessStatePayload_race_ok[OF _ cp(2) assms(2,3)] assms(1) by (auto simp: proc_inv_def)
  from cp rp assms(2) show ?thesis by (auto simp: ProcessState_def proc_inv_def Let_def)
qed

lemma ProcessCarData_ok:
  assumes "proc_inv p" "good_driver_data (carProcessor p) d"
  shows "\<exists>q. ProcessCarData d p = Some q \<and> proc_inv q \<and> lastSessionData q = lastSessionData p \<and>
    (\<forall>i. known_idx (carProcessor p) i \<or> i \<in> entry_idx ` set (pdr_Entries d) \<longrightarrow> known_idx (carProcessor q) i)"
  using ProcessCarPayload_ok[OF _ assms(2)] assms(1)
  by (auto simp: ProcessCarData_def proc_inv_def entry_idx_def Let_def)

lemma ProcessSpeedmap_ok:
  assumes "lastSessionData p \<noteq> None" "psm_Speedmap m \<noteq> None"
  shows "\<exists>q. ProcessSpeedmap m p = Some q \<and> carProcessor q = carProcessor p \<and>
    raceProcessor q = raceProcessor p \<and> lastSessionData q = lastSessionData p"
  using assms by (auto simp: ProcessSpeedmap_def Let_def)

lemma good_messages_ok:
  assumes "good_messages known seen ms" "proc_inv p" "\<And>i. i \<in> set known \<Longrightarrow> known_idx (carProcessor p) i"
    and "seen \<Longrightarrow> lastSessionData p \<noteq> None"
  shows "\<exists>q. go_for proc_step ms p = Some q \<and> proc_inv q"
  using assms
proof (induction known seen ms arbitrary: p rule: good_messages.induct)
  case (2 known seen d ms)
  let ?known = "map entry_idx (pdr_Entries d) @ known"
  from 2(2) have good: "list_all good_entry (pdr_Entries d)"
    "list_all (\<lambda>x. fst x \<in> set ?known) (pdr_CurrentDrivers d)" "good_messages ?known seen ms"
    by (auto simp: Let_def)
  from good(2) 2(4) have "\<forall>x \<in> set (pdr_CurrentDrivers d). known_idx (carProcessor p) (fst x) \<or>
      fst x \<in> (\<lambda>e. ci_CarIdx (the (ce_Car e))) ` set (pdr_Entries d)"
    by (fastforce simp: list_all_iff entry_idx_def)
  with good(1) have "good_driver_data (carProcessor p) d" by (simp add: good_driver_data_def)
  from ProcessCarData_ok[OF 2(3) this] obtain q where q: "ProcessCarData d p = Some q" "proc_inv q"
    "lastSessionData q = lastSessionData p"
    "\<And>i. known_idx (carProcessor p) i \<or> i \<in> entry_idx ` set (pdr_Entries d) \<Longrightarrow> known_idx (carProcessor q) i"
    by auto
  have "\<exists>r. go_for proc_step ms q = Some r \<and> proc_inv r"
    using 2(4,5) q(3,4) by (intro 2(1)[OF refl good(3) q(2)]) auto
  with q(1) show ?case by simp
next
  case (3 known seen s ms)
  then have s: "psr_Session s \<noteq> None" "good_laps (psr_Cars s)" "good_messages known True ms"
    "\<forall>car \<in> set (psr_Cars s). known_idx (carProcessor p) (car_CarIdx car)"
    by (auto simp: list_all_iff good_laps_def)
  obtain q where q: "ProcessState s p = Some q" "proc_inv q" "lastSessionData q \<noteq> None"
      "same_cars (carProcessor p) (carProcessor q)"
    using ProcessState_ok[OF 3(3) s(1,2,4)] by blast
  have "\<exists>r. go_for proc_step ms q = Some r \<and> proc_inv r"
    using 3(4) q s(3) by (intro 3(1)) (auto simp: same_cars_known_idx)
  with q(1) show ?case by simp
next
  case (4 known seen m ms)
  then obtain q where q: "ProcessSpeedmap m p = Some q" "carProcessor q = carProcessor p"
    "raceProcessor q = raceProcessor p" "lastSessionData q = lastSessionData p"
    using ProcessSpeedmap_ok[of p m] by auto
  have "\<exists>r. go_for proc_step ms q = Some r \<and> proc_inv r"
    using 4 q by (intro 4(1)) (auto simp: proc_inv_def)
  with q(1) show ?case by simp
qed simp

subsection \<open>Snapshots\<close>

fun stamp_of :: "Sent \<Rightarrow> timestamp list" where
  "stamp_of (SentSnapshot s) = [as_time (sd_RecordStamp s)]"
| "stamp_of _ = []"

definition stamps :: "Sent list \<Rightarrow> timestamp list" where
  "stamps es = concat (map stamp_of es)"

lemma stamps_simps [simp]: "stamps [] = []" "stamps (es @ fs) = stamps es @ stamps fs" "stamps [e] = stamp_of e"
  by (simp_all add: stamps_def)

definition snap_inv :: "Processor \<Rightarrow> bool" where
  "snap_inv p \<longleftrightarrow> sorted_wrt (\<lambda>a b. 2 * minute < b - a) (stamps (sent p)) \<and>
     (\<forall>t \<in> set (stamps (sent p)). t \<le> lastSnapshotTime p)"

lemma send_if_snap: "stamp_of e = [] \<Longrightarrow> snap_inv (send_if c e p) = snap_inv p"
  by (simp add: snap_inv_def)

lemma stamps_if [simp]: "stamps (if c then [e] else []) = (if c then stamp_of e else [])"
  by simp

lemma minute_pos: "0 < minute"
  by (simp add: minute_def)

lemma two_minutes_gt: "2 * minute < time_sub a b \<longleftrightarrow> 2 * minute < a - b"
  by (rule time_sub_gt) (simp_all add: minute_def)

lemma ProcessSpeedmap_snap:
  assumes "ProcessSpeedmap m p = Some q" "snap_inv p"
  shows "snap_inv q"
proof (cases "snapshotChan p \<and> 2 * minute < time_sub (as_time (psm_Timestamp m)) (lastSnapshotTime p)")
  case True
  let ?now = "as_time (psm_Timestamp m)"
  have later: "2 * minute < ?now - lastSnapshotTime p"
    using True by (simp add: two_minutes_gt)
  from True assms(1) have q: "stamps (sent q) = stamps (sent p) @ [?now]" "lastSnapshotTime q = ?now"
    by (auto simp: ProcessSpeedmap_def Let_def split: Option.bind_splits)
  have "2 * minute < ?now - t" if "t \<in> set (stamps (sent p))" for t
    using that assms(2) later by (fastforce simp: snap_inv_def)
  moreover have "t \<le> ?now" if "t \<in> set (stamps (sent p))" for t
    using calculation[OF that] minute_pos by linarith
  ultimately show ?thesis using assms(2) q by (auto simp: snap_inv_def sorted_wrt_append)
next
  case False
  then have "(snapshotChan p \<longrightarrow> \<not> 2 * minute < time_sub (as_time (psm_Timestamp m)) (lastSnapshotTime p))" by simp
  with assms show ?thesis by (auto simp: ProcessSpeedmap_def Let_def send_if_snap split: if_splits)
qed

lemma proc_step_snap:
  assumes "proc_step m p = Some q" "snap_inv p" shows "snap_inv q"
proof (cases m)
  case (ProcState s)
  with assms show ?thesis
    by (auto simp: ProcessState_def Let_def snap_inv_def split: Option.bind_splits)
next
  case (ProcDriver d)
  with assms show ?thesis
    by (auto simp: ProcessCarData_def Let_def snap_inv_def split: Option.bind_splits)
qed (use assms ProcessSpeedmap_snap in auto)

subsection \<open>Analysis data\<close>

lemma flattenByReference_map:
  assumes "\<And>k v. data k = Some v \<Longrightarrow> f v = k"
  shows "map f (flattenByReference data ks) = filter (\<lambda>k. data k \<noteq> None) ks"
  using assms by (induction ks) (auto simp: flattenByReference_def split: option.splits)

lemma sortedMapKeys_distinct: "distinct (map fst m) \<Longrightarrow> distinct (sortedMapKeys m)"
  by (simp add: sortedMapKeys_def)

subsection \<open>Properties\<close>

definition demo_new :: Processor where
  "demo_new = NewProcessor [WithCarProcessor (NewCarProcessor [WithRaceSessions [0]]),
     WithRaceProcessor demo_race, WithPublishChannels True True True True True True]"

definition demo_speedmap :: "int \<Rightarrow> PublishSpeedmapRequest" where
  "demo_speedmap t = \<lparr>psm_Event = None, psm_Speedmap = Some [(''A'', \<lparr>csd_Laptime = Fin 90\<rparr>)],
     psm_Timestamp = Some t\<rparr>"

definition demo_msgs :: "proc_msg list" where
  "demo_msgs = [ProcDriver demo_classes_msg, ProcState demo_payload, ProcSpeedmap (demo_speedmap 0),
     ProcSpeedmap (demo_speedmap (3 * minute))]"

lemma demo_cp_cars:
  "map fst (ByCarNum demo_cp) = [''1'', ''2'', ''3'']"
  "ComputeState demo_cp ''1'' \<noteq> None" "ComputeState demo_cp ''2'' \<noteq> None" "ComputeState demo_cp ''3'' \<noteq> None"
  by (simp_all add: demo_cp_def demo_classes_msg_def demo_entry_def ProcessCarPayload_def
      register_entry_def updateCarInfo_def Let_def NewCarProcessor_def WithRaceSessions_def)

lemma demo_msgs_good: "good_messages [] False demo_msgs"
  by (simp add: demo_msgs_def demo_classes_msg_def demo_payload_def demo_cars_def demo_speedmap_def
      demo_racer_def demo_entry_def good_entry_def entry_idx_def)

lemma demo_new_inv: "proc_inv demo_new" "sent demo_new = []"
  by (simp_all add: demo_new_def NewProcessor_def WithCarProcessor_def WithRaceProcessor_def
      WithPublishChannels_def proc_inv_def demo_race_def)

text \<open>
  C29: an event's processor handles every recording without a panic when the cars are announced
  first, state messages carry their session and lap times, and a speedmap does not precede the
  first state; the invariants of its car and race processor hold afterwards.
\<close>

theorem processor_safe:
  assumes "good_messages [] False ms" and "proc_inv p"
  shows "\<exists>q. go_for proc_step ms p = Some q \<and> car_inv (carProcessor q) \<and> race_inv (raceProcessor q)"
  using good_messages_ok[OF assms] by (auto simp: proc_inv_def)

theorem processor_safe_witness:
  "\<exists>q. go_for proc_step demo_msgs demo_new = Some q \<and> car_inv (carProcessor q) \<and> race_inv (raceProcessor q)"
  by (rule processor_safe[OF demo_msgs_good demo_new_inv(1)])

text \<open>
  A speedmap that reaches a processor with a snapshot channel before its first state message
  panics, on the session data that is still nil.
\<close>

theorem processor_early_speedmap:
  assumes "snapshotChan p" and "lastSessionData p = None"
    and "2 * minute < as_time (psm_Timestamp m) - lastSnapshotTime p"
  shows "ProcessSpeedmap m p = None"
  using assms by (simp add: ProcessSpeedmap_def Let_def bind_eq_None two_minutes_gt)

theorem processor_early_speedmap_witness:
  "ProcessSpeedmap (demo_speedmap 0) demo_new = None"
  by (rule processor_early_speedmap)
    (simp_all add: demo_new_def NewProcessor_def WithCarProcessor_def WithRaceProcessor_def
      WithPublishChannels_def demo_speedmap_def as_time_def zero_time_def minute_def)

text \<open>
  The snapshots a processor publishes are in chronological order and more than two minutes
  apart, whatever the messages are.
\<close>

theorem processor_snapshots_spaced:
  assumes "go_for proc_step ms p = Some q" and "sent p = []"
  shows "sorted_wrt (\<lambda>a b. 2 * minute < b - a) (stamps (sent q))"
proof -
  have "snap_inv q"
    by (rule go_for_preserves[OF assms(1)])
      (use assms(2) proc_step_snap in \<open>auto simp: snap_inv_def[of p]\<close>)
  then show ?thesis by (simp add: snap_inv_def)
qed

theorem processor_snapshots_spaced_witness:
  "\<exists>q. go_for proc_step demo_msgs demo_new = Some q \<and>
     sorted_wrt (\<lambda>a b. 2 * minute < b - a) (stamps (sent q))"
  using good_messages_ok[OF demo_msgs_good demo_new_inv(1)]
    processor_snapshots_spaced[of demo_msgs demo_new, OF _ demo_new_inv(2)] by auto

text \<open>
  The analysis data lists the compute states and laps of the known cars, each car once, in the order of their
  numbers as strings.
\<close>

theorem analysis_sorted:
  assumes "proc_inv p"
  shows "map cs_CarNum (an_CarComputeStates (ComposeAnalysisData p)) =
      filter (\<lambda>num. ComputeState (carProcessor p) num \<noteq> None) (sort (map fst (ByCarNum (carProcessor p)))) \<and>
    map cl_CarNum (an_CarLaps (ComposeAnalysisData p)) =
      filter (\<lambda>num. CarLapsMap (raceProcessor p) num \<noteq> None) (sort (map fst (ByCarNum (carProcessor p)))) \<and>
    distinct (map fst (ByCarNum (carProcessor p)))"
proof -
  have "cs_CarNum v = k" if "ComputeState (carProcessor p) k = Some v" for k v
    using assms that car_inv_computeD(1) by (auto simp: proc_inv_def)
  moreover have "cl_CarNum v = k" if "CarLapsMap (raceProcessor p) k = Some v" for k v
    using assms that by (auto simp: proc_inv_def race_inv_def laps_ok_def)
  ultimately show ?thesis using assms
    by (simp add: ComposeAnalysisData_def Let_def flattenByReference_map sortedMapKeys_def
        proc_inv_def car_inv_def)
qed

theorem analysis_sorted_witness:
  "map cs_CarNum (an_CarComputeStates (ComposeAnalysisData (demo_new\<lparr>carProcessor := demo_cp\<rparr>))) =
     [''1'', ''2'', ''3'']"
proof -
  have "proc_inv (demo_new\<lparr>carProcessor := demo_cp\<rparr>)"
    using demo_new_inv demo_cp_inv by (simp add: proc_inv_def)
  from analysis_sorted[OF this] have "map cs_CarNum (an_CarComputeStates
      (ComposeAnalysisData (demo_new\<lparr>carProcessor := demo_cp\<rparr>))) =
    filter (\<lambda>num. ComputeState demo_cp num \<noteq> None) (sort (map fst (ByCarNum demo_cp)))" by simp
  also have "sort (map fst (ByCarNum demo_cp)) = [''1'', ''2'', ''3'']"
    unfolding demo_cp_cars by code_simp
  finally show ?thesis by (simp add: demo_cp_cars)
qed

end
