(* ===== verification/Broadcast.thy ===== *)
theory Broadcast
  imports Go_Prelude
begin

text \<open>
  The broadcast server, pkg/utils/broadcast/broadcast.go: one goroutine (serve) owns a slice of listener
  channels and serves, one at a time, new listeners, cancelled subscriptions, messages of its source and its
  end.

  A channel is a number.  The state holds the listeners, the channels closed so far and the messages delivered, and
  the counters.  Removing a listener shifts the backing array under the range loop that is walking it, so the loop is
  modelled on the array and the length of the slice.  Whether a listener takes a message within the
  50 ms it is given is a parameter of the message event.  Telemetry is not modelled.
\<close>

type_synonym chan = nat

record 'm broadcastServer =
  listeners :: "chan list"
  numRcv :: nat
  numSnd :: nat
  numSkip :: nat
  serving :: bool
  closed :: "chan list"
  delivered :: "(chan \<times> 'm) list"
  \<comment> \<open>history, for the statements: the channels ever subscribed and the messages of the source\<close>
  subscribed :: "chan list"
  received :: "'m list"

definition NewBroadcastServer :: "'m broadcastServer" where
  "NewBroadcastServer = \<lparr>listeners = [], numRcv = 0, numSnd = 0, numSkip = 0, serving = True,
     closed = [], delivered = [], subscribed = [], received = []\<rparr>"

text \<open>What the select of serve receives; Source carries which listeners accept in time.\<close>

datatype 'm serve_event =
  Done | AddListener chan | RemoveListener chan | Source 'm "chan \<Rightarrow> bool"

text \<open>The clients: Subscribe makes a channel and sends it, CancelSubscription and Close send theirs.\<close>

definition Subscribe :: "chan \<Rightarrow> 'm serve_event" where
  "Subscribe ch = AddListener ch"

definition CancelSubscription :: "chan \<Rightarrow> 'm serve_event" where
  "CancelSubscription ch = RemoveListener ch"

definition Close :: "'m serve_event" where
  "Close = Done"

subsection \<open>Removing a listener\<close>

text \<open>
  The walk reads index i of the backing array arr up to the length n the slice had at the start; len is
  the length of the slice now.  append(b.listeners[:i], b.listeners[i+1:]...) panics when i+1 is beyond len, and closing a
  closed channel panics.
\<close>

definition cut_at :: "nat \<Rightarrow> nat \<Rightarrow> chan list \<Rightarrow> chan list" where
  "cut_at i len arr = take i arr @ take (len - Suc i) (drop (Suc i) arr) @ drop (len - 1) arr"

fun remove_walk ::
  "chan \<Rightarrow> nat list \<Rightarrow> chan list \<times> nat \<times> chan list \<Rightarrow> (chan list \<times> nat \<times> chan list) run" where
  "remove_walk ch [] st = Some st"
| "remove_walk ch (i # is) (arr, len, cl) =
     (if arr ! i = ch then
        if len < Suc i \<or> ch \<in> set cl then None
        else remove_walk ch is (cut_at i len arr, len - 1, cl @ [ch])
      else remove_walk ch is (arr, len, cl))"

definition remove_listener :: "chan \<Rightarrow> 'm broadcastServer \<Rightarrow> 'm broadcastServer run" where
  "remove_listener ch s = do {
     (arr, len, cl) \<leftarrow> remove_walk ch [0..<length (listeners s)]
        (listeners s, length (listeners s), closed s);
     Some (s\<lparr>listeners := take len arr, closed := cl\<rparr>)
   }"

subsection \<open>Delivering a message\<close>

definition deliver :: "'m \<Rightarrow> (chan \<Rightarrow> bool) \<Rightarrow> chan \<Rightarrow> 'm broadcastServer \<Rightarrow> 'm broadcastServer run" where
  "deliver msg takes listener s =
     (if takes listener then
        if listener \<in> set (closed s) then None
        else Some (s\<lparr>numSnd := Suc (numSnd s), delivered := delivered s @ [(listener, msg)]\<rparr>)
      else Some (s\<lparr>numSkip := Suc (numSkip s)\<rparr>))"

text \<open>The deferred function closes every listener that is left.\<close>

definition close_listener :: "chan \<Rightarrow> 'm broadcastServer \<Rightarrow> 'm broadcastServer run" where
  "close_listener listener s =
     (if listener \<in> set (closed s) then None else Some (s\<lparr>closed := closed s @ [listener]\<rparr>))"

fun serve :: "'m serve_event \<Rightarrow> 'm broadcastServer \<Rightarrow> 'm broadcastServer run" where
  "serve Done s = go_for close_listener (listeners s) (s\<lparr>serving := False\<rparr>)"
| "serve (AddListener ch) s = Some (s\<lparr>listeners := listeners s @ [ch], subscribed := subscribed s @ [ch]\<rparr>)"
| "serve (RemoveListener ch) s = remove_listener ch s"
| "serve (Source msg takes) s =
     go_for (deliver msg takes) (listeners s)
       (s\<lparr>numRcv := Suc (numRcv s), received := received s @ [msg]\<rparr>)"

text \<open>
  The states a server can reach.  A channel is subscribed once, since Subscribe makes it; nothing is served after the
  end, and a client that calls then blocks.
\<close>

inductive reach :: "'m broadcastServer \<Rightarrow> bool" where
  start: "reach NewBroadcastServer"
| subscribe: "reach s \<Longrightarrow> serving s \<Longrightarrow> ch \<notin> set (subscribed s) \<Longrightarrow> serve (Subscribe ch) s = Some t \<Longrightarrow> reach t"
| cancel: "reach s \<Longrightarrow> serving s \<Longrightarrow> serve (CancelSubscription ch) s = Some t \<Longrightarrow> reach t"
| message: "reach s \<Longrightarrow> serving s \<Longrightarrow> serve (Source msg takes) s = Some t \<Longrightarrow> reach t"
| stop: "reach s \<Longrightarrow> serving s \<Longrightarrow> serve Close s = Some t \<Longrightarrow> reach t"

lemmas client_defs = Subscribe_def CancelSubscription_def Close_def

subsection \<open>The removal loop\<close>

text \<open>Past the listener it removed, the walk sees the shifted elements and the old last one again.\<close>

lemma remove_walk_none:
  "\<forall>i \<in> set is. arr ! i \<noteq> ch \<Longrightarrow> remove_walk ch is (arr, len, cl) = Some (arr, len, cl)"
  by (induction "is") auto

lemma cut_at_eq:
  assumes "i < length xs"
  shows "cut_at i (length xs) xs = take i xs @ drop (Suc i) xs @ [last xs]"
proof -
  have "drop (length xs - 1) xs = [last xs]"
    using assms by (cases xs rule: rev_cases) auto
  then show ?thesis using assms by (simp add: cut_at_def)
qed

lemma cut_at_nth_neq:
  assumes "distinct xs" "i < length xs" "xs ! i = ch" "j < length xs" "i < j"
  shows "cut_at i (length xs) xs ! j \<noteq> ch"
proof -
  have "cut_at i (length xs) xs ! j \<in> set (drop (Suc i) xs)"
  proof (cases "j = length xs - 1")
    case True
    have "drop (Suc i) xs \<noteq> []" using assms(4,5) by simp
    then have "last xs \<in> set (drop (Suc i) xs)" by (metis last_drop last_in_set drop_eq_Nil not_le)
    with True assms show ?thesis by (simp add: cut_at_eq nth_append)
  next
    case False
    with assms have "cut_at i (length xs) xs ! j = drop (Suc i) xs ! (j - i)"
      by (auto simp: cut_at_eq nth_append)
    moreover have "j - i < length (drop (Suc i) xs)" using False assms by auto
    ultimately show ?thesis by (metis nth_mem)
  qed
  moreover have "ch \<notin> set (drop (Suc i) xs)"
    using assms(1-3) id_take_nth_drop[OF assms(2)] by (metis distinct.simps(2) distinct_append)
  ultimately show ?thesis by metis
qed

lemma remove_walk_append:
  "remove_walk ch (is @ js) st = Option.bind (remove_walk ch is st) (remove_walk ch js)"
  by (induction ch "is" st rule: remove_walk.induct) auto

lemma remove1_nth:
  assumes "distinct xs" "i < length xs"
  shows "remove1 (xs ! i) xs = take i xs @ drop (Suc i) xs"
proof -
  have "xs = take i xs @ xs ! i # drop (Suc i) xs" using assms(2) by (rule id_take_nth_drop)
  moreover have "xs ! i \<notin> set (take i xs)"
    using assms calculation by (metis distinct_append disjoint_insert(1) list.simps(15))
  ultimately show ?thesis by (metis remove1.simps(2) remove1_append)
qed

lemma remove_walk_distinct:
  assumes "distinct xs" "ch \<notin> set cl"
  shows "\<exists>arr len. remove_walk ch [0..<length xs] (xs, length xs, cl) =
      Some (arr, len, if ch \<in> set xs then cl @ [ch] else cl) \<and> take len arr = remove1 ch xs"
proof (cases "ch \<in> set xs")
  case True
  then obtain i where i: "i < length xs" "xs ! i = ch" by (auto simp: in_set_conv_nth)
  have "[0..<length xs] = [0..<i] @ [i..<length xs]"
    using i(1) by (metis le_add1 less_imp_le upt_add_eq_append add_0 le_add_diff_inverse zero_le)
  also have "[i..<length xs] = i # [Suc i..<length xs]" using i(1) by (rule upt_conv_Cons)
  finally have split: "[0..<length xs] = [0..<i] @ i # [Suc i..<length xs]" .
  have pre: "remove_walk ch [0..<i] (xs, length xs, cl) = Some (xs, length xs, cl)"
    using i assms(1) by (intro remove_walk_none) (auto simp: nth_eq_iff_index_eq)
  have post: "remove_walk ch [Suc i..<length xs] (cut_at i (length xs) xs, length xs - 1, cl @ [ch]) =
      Some (cut_at i (length xs) xs, length xs - 1, cl @ [ch])"
    using cut_at_nth_neq[OF assms(1) i] by (intro remove_walk_none) (auto simp: Suc_le_eq)
  have "take (length xs - 1) (cut_at i (length xs) xs) = remove1 ch xs"
    using i assms(1) remove1_nth[OF assms(1) i(1)] by (simp add: cut_at_eq)
  with True i assms(2) show ?thesis unfolding split remove_walk_append pre by (simp add: post[simplified])
next
  case False
  then have "remove_walk ch [0..<length xs] (xs, length xs, cl) = Some (xs, length xs, cl)"
    by (intro remove_walk_none) auto
  with False show ?thesis by (simp add: remove1_idem)
qed

subsection \<open>Invariant\<close>

definition msgs_of :: "chan \<Rightarrow> 'm broadcastServer \<Rightarrow> 'm list" where
  "msgs_of ch s = map snd (filter (\<lambda>d. fst d = ch) (delivered s))"

definition bcast_inv :: "'m broadcastServer \<Rightarrow> bool" where
  "bcast_inv s \<longleftrightarrow> distinct (subscribed s) \<and> distinct (closed s) \<and>
     (if serving s
      then distinct (listeners s) \<and> set (listeners s) \<inter> set (closed s) = {} \<and>
        set (listeners s) \<union> set (closed s) = set (subscribed s)
      else set (closed s) = set (subscribed s)) \<and>
     numRcv s = length (received s) \<and> numSnd s = length (delivered s) \<and>
     (\<forall>ch. subseq (msgs_of ch s) (received s))"

lemma bcast_inv_new: "bcast_inv NewBroadcastServer"
  by (simp add: bcast_inv_def NewBroadcastServer_def msgs_of_def)

lemma msgs_of_other [simp]:
  "msgs_of ch (s\<lparr>listeners := a\<rparr>) = msgs_of ch s" "msgs_of ch (s\<lparr>closed := b\<rparr>) = msgs_of ch s"
  "msgs_of ch (s\<lparr>subscribed := a\<rparr>) = msgs_of ch s" "msgs_of ch (s\<lparr>serving := c\<rparr>) = msgs_of ch s"
  "msgs_of ch (s\<lparr>numSkip := n\<rparr>) = msgs_of ch s" "msgs_of ch (s\<lparr>numSnd := n\<rparr>) = msgs_of ch s"
  "msgs_of ch (s\<lparr>numRcv := n\<rparr>) = msgs_of ch s" "msgs_of ch (s\<lparr>received := ms\<rparr>) = msgs_of ch s"
  by (simp_all add: msgs_of_def)

lemma remove_listener_ok:
  assumes "bcast_inv s" "serving s"
  shows "\<exists>t. remove_listener ch s = Some t \<and> bcast_inv t \<and>
    listeners t = remove1 ch (listeners s) \<and>
    closed t = closed s @ (if ch \<in> set (listeners s) then [ch] else [])"
proof (cases "ch \<in> set (listeners s)")
  case True
  with assms have "distinct (listeners s)" "ch \<notin> set (closed s)" by (auto simp: bcast_inv_def)
  from remove_walk_distinct[OF this] obtain arr len where
    "remove_walk ch [0..<length (listeners s)] (listeners s, length (listeners s), closed s) =
      Some (arr, len, closed s @ [ch])" "take len arr = remove1 ch (listeners s)" using True by auto
  then have "remove_listener ch s = Some (s\<lparr>listeners := remove1 ch (listeners s), closed := closed s @ [ch]\<rparr>)"
    by (simp add: remove_listener_def)
  moreover have "bcast_inv (s\<lparr>listeners := remove1 ch (listeners s), closed := closed s @ [ch]\<rparr>)"
    using assms True by (auto simp: bcast_inv_def)
  ultimately show ?thesis using True by simp
next
  case False
  then have "remove_walk ch [0..<length (listeners s)] (listeners s, length (listeners s), closed s) =
      Some (listeners s, length (listeners s), closed s)"
    by (intro remove_walk_none) auto
  then have "remove_listener ch s = Some s" by (simp add: remove_listener_def)
  with False assms show ?thesis by (simp add: remove1_idem)
qed

text \<open>Delivery: which listeners get the message, and the counters.\<close>

lemma deliver_loop:
  assumes "set ls \<inter> set (closed s) = {}"
  shows "go_for (deliver msg takes) ls s = Some (s\<lparr>numSnd := numSnd s + length (filter takes ls),
    numSkip := numSkip s + length (filter (\<lambda>l. \<not> takes l) ls),
    delivered := delivered s @ map (\<lambda>l. (l, msg)) (filter takes ls)\<rparr>)"
  using assms by (induction ls arbitrary: s) (auto simp: deliver_def)

lemma filter_one:
  "distinct ls \<Longrightarrow> filter (\<lambda>l. takes l \<and> l = ch) ls = (if ch \<in> set ls \<and> takes ch then [ch] else [])"
  by (induction ls) auto

lemma serve_source_ok:
  assumes "bcast_inv s" "serving s"
  shows "\<exists>t. serve (Source msg takes) s = Some t \<and> bcast_inv t \<and> serving t \<and>
    numRcv t = Suc (numRcv s) \<and>
    numSnd t + numSkip t = numSnd s + numSkip s + length (listeners s) \<and>
    delivered t = delivered s @ map (\<lambda>l. (l, msg)) (filter takes (listeners s))"
proof -
  let ?t = "s\<lparr>numRcv := Suc (numRcv s), received := received s @ [msg],
    numSnd := numSnd s + length (filter takes (listeners s)),
    numSkip := numSkip s + length (filter (\<lambda>l. \<not> takes l) (listeners s)),
    delivered := delivered s @ map (\<lambda>l. (l, msg)) (filter takes (listeners s))\<rparr>"
  have dis: "distinct (listeners s)" "set (listeners s) \<inter> set (closed s) = {}"
    using assms by (auto simp: bcast_inv_def)
  have run: "serve (Source msg takes) s = Some ?t"
    using deliver_loop[of "listeners s" "s\<lparr>numRcv := Suc (numRcv s), received := received s @ [msg]\<rparr>" msg takes] dis
    by simp
  have msgs: "msgs_of ch ?t = msgs_of ch s @ (if ch \<in> set (listeners s) \<and> takes ch then [msg] else [])" for ch
  proof -
    show ?thesis using filter_one[OF dis(1), of takes ch] by (simp add: msgs_of_def filter_map o_def)
  qed
  have "subseq (msgs_of ch ?t) (received s @ [msg])" for ch
    using assms(1) unfolding msgs bcast_inv_def
    by (auto intro: list_emb_append_mono list_emb_prefix)
  then have "bcast_inv ?t" using assms dis by (auto simp: bcast_inv_def)
  with run assms(2) show ?thesis by (simp add: sum_length_filter_compl)
qed

lemma close_loop:
  assumes "distinct ls" "set ls \<inter> set (closed s) = {}"
  shows "go_for close_listener ls s = Some (s\<lparr>closed := closed s @ ls\<rparr>)"
  using assms by (induction ls arbitrary: s) (auto simp: close_listener_def)

lemma serve_done_ok:
  assumes "bcast_inv s" "serving s"
  shows "serve Done s = Some (s\<lparr>serving := False, closed := closed s @ listeners s\<rparr>) \<and>
    bcast_inv (s\<lparr>serving := False, closed := closed s @ listeners s\<rparr>)"
  using assms close_loop[of "listeners s" "s\<lparr>serving := False\<rparr>"] by (auto simp: bcast_inv_def)

lemma serve_add_ok:
  assumes "bcast_inv s" "serving s" "ch \<notin> set (subscribed s)" "serve (AddListener ch) s = Some t"
  shows "bcast_inv t"
  using assms by (auto simp: bcast_inv_def)

lemma reach_inv: "reach s \<Longrightarrow> bcast_inv s"
proof (induction rule: reach.induct)
  case (subscribe s ch t)
  then show ?case using serve_add_ok by (simp add: client_defs del: serve.simps)
next
  case (cancel s ch t)
  then show ?case using remove_listener_ok[of s ch] by (auto simp: client_defs)
next
  case (message s msg takes t)
  then show ?case using serve_source_ok[of s msg takes] by auto
next
  case (stop s t)
  then show ?case using serve_done_ok[of s] by (auto simp: client_defs)
qed (rule bcast_inv_new)

lemma bcast_shutdown_step:
  assumes "reach s" "serving s"
  shows "\<exists>t. serve Close s = Some t \<and> reach t \<and> \<not> serving t"
proof -
  from serve_done_ok[OF reach_inv[OF assms(1)] assms(2)] obtain t where
    "serve Close s = Some t" "\<not> serving t" by (auto simp: Close_def simp del: serve.simps)
  with reach.stop[OF assms] show ?thesis by blast
qed

subsection \<open>Properties\<close>

text \<open>
  C23: removing a listener while walking the slice removes exactly that listener, keeps the order of the
  others and closes its channel once; a channel that is not subscribed (or cancelled before) is
  ignored.
\<close>

theorem bcast_remove_is_remove1:
  assumes "reach s" and "serving s"
  shows "\<exists>t. serve (CancelSubscription ch) s = Some t \<and> listeners t = remove1 ch (listeners s) \<and>
    closed t = closed s @ (if ch \<in> set (listeners s) then [ch] else [])"
  using remove_listener_ok[OF reach_inv[OF assms(1)] assms(2), of ch] by (auto simp: client_defs)

definition demo_bcast :: "nat broadcastServer" where
  "demo_bcast = NewBroadcastServer\<lparr>listeners := [1, 2, 3], subscribed := [1, 2, 3]\<rparr>"

lemma demo_bcast_reach: "reach demo_bcast" "serving demo_bcast" "listeners demo_bcast = [1, 2, 3]"
proof -
  let ?s = "\<lambda>ls. NewBroadcastServer\<lparr>listeners := ls, subscribed := ls\<rparr> :: nat broadcastServer"
  have "reach (NewBroadcastServer :: nat broadcastServer)" by (rule start)
  from subscribe[OF this, of 1 "?s [1]"] have "reach (?s [1])"
    by (simp add: NewBroadcastServer_def client_defs)
  from subscribe[OF this, of 2 "?s [1, 2]"] have "reach (?s [1, 2])"
    by (simp add: NewBroadcastServer_def client_defs)
  from subscribe[OF this, of 3 "?s [1, 2, 3]"] show "reach demo_bcast"
    by (simp add: NewBroadcastServer_def client_defs demo_bcast_def)
qed (simp_all add: demo_bcast_def NewBroadcastServer_def)

theorem bcast_remove_is_remove1_witness:
  "\<exists>t. serve (CancelSubscription 2) demo_bcast = Some t \<and> listeners t = [1, 3]"
  using bcast_remove_is_remove1[OF demo_bcast_reach(1,2), of 2] demo_bcast_reach(3) by auto

text \<open>
  A message is offered to every listener once, in order; the listeners that take it within their time
  get it, the others are skipped, and the counters account for each of them.
\<close>

theorem bcast_delivery:
  assumes "reach s" and "serving s"
  shows "\<exists>t. serve (Source msg takes) s = Some t \<and> numRcv t = Suc (numRcv s) \<and>
    numSnd t + numSkip t = numSnd s + numSkip s + length (listeners s) \<and>
    delivered t = delivered s @ map (\<lambda>l. (l, msg)) (filter takes (listeners s))"
  using serve_source_ok[OF reach_inv[OF assms(1)] assms(2), of msg takes] by blast

theorem bcast_delivery_witness:
  "\<exists>t. serve (Source 7 (\<lambda>l. l \<noteq> 2)) demo_bcast = Some t \<and> delivered t = [(1, 7), (3, 7)]"
proof -
  have "delivered demo_bcast = []" by (simp add: demo_bcast_def NewBroadcastServer_def)
  with bcast_delivery[OF demo_bcast_reach(1,2), of 7 "\<lambda>l. l \<noteq> 2"] demo_bcast_reach(3) show ?thesis by auto
qed

text \<open>
  What a listener has received is, in order, a subsequence of what the source has sent.
\<close>

theorem bcast_order:
  assumes "reach s"
  shows "subseq (msgs_of ch s) (received s) \<and> numRcv s = length (received s) \<and>
    numSnd s = length (delivered s)"
  using reach_inv[OF assms] by (simp add: bcast_inv_def)

theorem bcast_order_witness:
  "subseq (msgs_of 1 demo_bcast) (received demo_bcast)"
  using bcast_order[OF demo_bcast_reach(1), of 1] by simp

text \<open>
  Ending the server closes every channel that was ever subscribed and not cancelled; each channel is closed
  exactly once over the life of the server.
\<close>

theorem bcast_shutdown:
  assumes "reach s" and "serving s"
  shows "\<exists>t. serve Close s = Some t \<and> \<not> serving t \<and> closed t = closed s @ listeners s \<and>
    distinct (closed t) \<and> set (closed t) = set (subscribed s)"
  using serve_done_ok[OF reach_inv[OF assms(1)] assms(2)] reach_inv[OF assms(1)] assms(2)
  by (auto simp: client_defs bcast_inv_def simp del: serve.simps)

theorem bcast_shutdown_witness:
  "\<exists>t. serve Close demo_bcast = Some t \<and> set (closed t) = {1, 2, 3} \<and> distinct (closed t)"
  using bcast_shutdown[OF demo_bcast_reach(1,2)] by (auto simp: demo_bcast_def)

end
