(* ===== verification/Event_Lookup.thy ===== *)
theory Event_Lookup
  imports Processor Broadcast
begin

text \<open>
  The registry of live events, pkg/utils/event_lookup.go.  Each event has a processor, six broadcast
  servers fed by the processor's channels, and the last data its own listeners have received.

  A message the processor has sent reaches the broadcast server of its kind with publish_sent; the
  event's own listener is channel own_chan, subscribed when the event is added.  The map lookup
  is ranged over, so it is an association list in the order of the range.  The time now is an argument, as is
  the order of interleaving: each definition is one critical section (the mutex is held in each), or one tick of the
  watchdog.
\<close>

subsection \<open>Data of an event\<close>

record EventProcessingData =
  epd_Event :: Event
  epd_Track :: Track
  epd_Owner :: string
  epd_Processor :: Processor
  AnalysisBroadcast :: "Analysis broadcastServer"
  RacestateBroadcast :: "PublishStateRequest broadcastServer"
  DriverDataBroadcast :: "PublishDriverDataRequest broadcastServer"
  SpeedmapBroadcast :: "PublishSpeedmapRequest broadcastServer"
  ReplayInfoBroadcast :: "ReplayInfo broadcastServer"
  SnapshotBroadcast :: "SnapshotData broadcastServer"
  LastDriverData :: "PublishDriverDataRequest option"
  LastRaceState :: "PublishStateRequest option"
  LastAnalysisData :: "Analysis option"
  LastReplayInfo :: "ReplayInfo option"
  epd_RecordingMode :: RecordingMode
  LastRsInfoID :: int
  LastDataEvent :: timestamp
  epd_SnapshotData :: "SnapshotData list"
  RaceSessions :: "uint32 list"

definition own_chan :: chan where
  "own_chan = 0"

definition CollectRaceSessions :: "Event \<Rightarrow> uint32 list" where
  "CollectRaceSessions e = map es_Num (filter (\<lambda>s. es_Type s = SESSION_TYPE_RACE) (ev_Sessions e))"

definition MarkDataEvent :: "timestamp \<Rightarrow> EventProcessingData \<Rightarrow> EventProcessingData" where
  "MarkDataEvent now epd = epd\<lparr>LastDataEvent := now\<rparr>"

text \<open>A broadcast server with one subscriber, as setupOwnListeners leaves it.\<close>

definition own_listener :: "'m broadcastServer" where
  "own_listener = NewBroadcastServer\<lparr>listeners := [own_chan], subscribed := [own_chan]\<rparr>"

text \<open>What the goroutines of setupOwnListeners do with a message on their channel.\<close>

fun own_receive :: "Sent \<Rightarrow> EventProcessingData \<Rightarrow> EventProcessingData" where
  "own_receive (SentRacestate d) epd = epd\<lparr>LastRaceState := Some d\<rparr>"
| "own_receive (SentDriverData d) epd = epd\<lparr>LastDriverData := Some d\<rparr>"
| "own_receive (SentAnalysis d) epd = epd\<lparr>LastAnalysisData := Some d\<rparr>"
| "own_receive (SentReplayInfo d) epd = epd\<lparr>LastReplayInfo := Some d\<rparr>"
| "own_receive (SentSnapshot d) epd = epd\<lparr>epd_SnapshotData := epd_SnapshotData epd @ [d]\<rparr>"
| "own_receive (SentSpeedmap d) epd = epd"

text \<open>A message that the broadcast server of its kind takes from the processor's channel; on a server that has ended the send never completes (None).\<close>

definition serve_source :: "'m \<Rightarrow> (chan \<Rightarrow> bool) \<Rightarrow> 'm broadcastServer \<Rightarrow> 'm broadcastServer run" where
  "serve_source d takes b = (if serving b then serve (Source d takes) b else None)"

fun broadcast_sent :: "Sent \<Rightarrow> (chan \<Rightarrow> bool) \<Rightarrow> EventProcessingData \<Rightarrow> EventProcessingData run" where
  "broadcast_sent (SentAnalysis d) takes epd =
     map_option (\<lambda>b. epd\<lparr>AnalysisBroadcast := b\<rparr>) (serve_source d takes (AnalysisBroadcast epd))"
| "broadcast_sent (SentRacestate d) takes epd =
     map_option (\<lambda>b. epd\<lparr>RacestateBroadcast := b\<rparr>) (serve_source d takes (RacestateBroadcast epd))"
| "broadcast_sent (SentDriverData d) takes epd =
     map_option (\<lambda>b. epd\<lparr>DriverDataBroadcast := b\<rparr>) (serve_source d takes (DriverDataBroadcast epd))"
| "broadcast_sent (SentSpeedmap d) takes epd =
     map_option (\<lambda>b. epd\<lparr>SpeedmapBroadcast := b\<rparr>) (serve_source d takes (SpeedmapBroadcast epd))"
| "broadcast_sent (SentReplayInfo d) takes epd =
     map_option (\<lambda>b. epd\<lparr>ReplayInfoBroadcast := b\<rparr>) (serve_source d takes (ReplayInfoBroadcast epd))"
| "broadcast_sent (SentSnapshot d) takes epd =
     map_option (\<lambda>b. epd\<lparr>SnapshotBroadcast := b\<rparr>) (serve_source d takes (SnapshotBroadcast epd))"

definition publish_sent :: "(chan \<Rightarrow> bool) \<Rightarrow> Sent \<Rightarrow> EventProcessingData \<Rightarrow> EventProcessingData run" where
  "publish_sent takes e epd = do {
     epd \<leftarrow> broadcast_sent e takes epd;
     Some (if takes own_chan then own_receive e epd else epd)
   }"

text \<open>EventProcessingData.Close ends the six servers; ending one twice has no further effect.\<close>

definition end_server :: "'m broadcastServer \<Rightarrow> 'm broadcastServer run" where
  "end_server b = (if serving b then serve Close b else Some b)"

definition epd_Close :: "EventProcessingData \<Rightarrow> EventProcessingData run" where
  "epd_Close epd = do {
     a \<leftarrow> end_server (AnalysisBroadcast epd);
     rs \<leftarrow> end_server (RacestateBroadcast epd);
     dd \<leftarrow> end_server (DriverDataBroadcast epd);
     sm \<leftarrow> end_server (SpeedmapBroadcast epd);
     ri \<leftarrow> end_server (ReplayInfoBroadcast epd);
     sn \<leftarrow> end_server (SnapshotBroadcast epd);
     Some (epd\<lparr>AnalysisBroadcast := a, RacestateBroadcast := rs, DriverDataBroadcast := dd,
               SpeedmapBroadcast := sm, ReplayInfoBroadcast := ri, SnapshotBroadcast := sn\<rparr>)
   }"

subsection \<open>The lookup\<close>

record EventLookup =
  lookup :: "(string \<times> EventProcessingData) list"
  staleDuration :: int
  hasDeleteEventCB :: bool
  deletedEvents :: "string list"
  \<comment> \<open>the arguments deleteEventCB was called with\<close>

definition WithStaleDuration :: "int \<Rightarrow> EventLookup \<Rightarrow> EventLookup" where
  "WithStaleDuration d el = el\<lparr>staleDuration := d\<rparr>"

definition SetDeleteEventCB :: "EventLookup \<Rightarrow> EventLookup" where
  "SetDeleteEventCB el = el\<lparr>hasDeleteEventCB := True\<rparr>"

definition NewEventLookup :: "(EventLookup \<Rightarrow> EventLookup) list \<Rightarrow> EventLookup" where
  "NewEventLookup opts = fold (\<lambda>opt el. opt el) opts
     \<lparr>lookup = [], staleDuration = 0, hasDeleteEventCB = False, deletedEvents = []\<rparr>"

datatype lookup_error = ErrEventNotFound

definition new_epd ::
  "Event \<Rightarrow> Track \<Rightarrow> RecordingMode \<Rightarrow> string \<Rightarrow> timestamp \<Rightarrow> EventProcessingData" where
  "new_epd event track recordingMode owner now = (
     let raceSessions = CollectRaceSessions event;
         cp = NewCarProcessor [WithRaceSessions raceSessions];
         rp = NewRaceProcessor [WithRaceSessions_race raceSessions]
     in \<lparr>epd_Event = event, epd_Track = track, epd_Owner = owner,
         epd_Processor = NewProcessor [WithCarProcessor cp, WithRaceProcessor rp,
           WithPublishChannels True True True True True True],
         AnalysisBroadcast = own_listener, RacestateBroadcast = own_listener,
         DriverDataBroadcast = own_listener, SpeedmapBroadcast = NewBroadcastServer,
         ReplayInfoBroadcast = own_listener, SnapshotBroadcast = own_listener,
         LastDriverData = None, LastRaceState = None, LastAnalysisData = None, LastReplayInfo = None,
         epd_RecordingMode = recordingMode, LastRsInfoID = 0, LastDataEvent = now,
         epd_SnapshotData = [], RaceSessions = raceSessions\<rparr>)"

definition AddEvent ::
  "Event \<Rightarrow> Track \<Rightarrow> RecordingMode \<Rightarrow> string \<Rightarrow> timestamp \<Rightarrow> EventLookup \<Rightarrow>
     EventProcessingData option \<times> EventLookup" where
  "AddEvent event track recordingMode owner now el =
     (if map_of (lookup el) (ev_Key event) \<noteq> None then (None, el)
      else let epd = new_epd event track recordingMode owner now
           in (Some epd, el\<lparr>lookup := AList.update (ev_Key event) epd (lookup el)\<rparr>))"

definition GetEvent :: "EventSelector \<Rightarrow> EventLookup \<Rightarrow> lookup_error + EventProcessingData" where
  "GetEvent selector el = (case selector of
     EventSelector_Id i \<Rightarrow>
       (case find (\<lambda>(k, v). ev_Id (epd_Event v) = i) (lookup el) of
          Some (k, v) \<Rightarrow> Inr v | None \<Rightarrow> Inl ErrEventNotFound)
   | EventSelector_Key k \<Rightarrow>
       (case map_of (lookup el) k of Some v \<Rightarrow> Inr v | None \<Rightarrow> Inl ErrEventNotFound)
   | EventSelector_None \<Rightarrow> Inl ErrEventNotFound)"

definition RemoveEvent :: "EventSelector \<Rightarrow> EventLookup \<Rightarrow> EventLookup run" where
  "RemoveEvent selector el = (case GetEvent selector el of
     Inl _ \<Rightarrow> Some el
   | Inr epd \<Rightarrow> do {
       _ \<leftarrow> epd_Close epd;
       Some (el\<lparr>lookup := AList.delete (ev_Key (epd_Event epd)) (lookup el)\<rparr>)
     })"

definition GetEvents :: "EventLookup \<Rightarrow> EventProcessingData list" where
  "GetEvents el = map snd (lookup el)"

definition ClearEvents :: "EventLookup \<Rightarrow> EventLookup" where
  "ClearEvents el = el\<lparr>lookup := []\<rparr>"

definition CloseLookup :: "EventLookup \<Rightarrow> EventLookup" where
  \<comment> \<open>e.ctx.Done() only returns a channel, so Close is Clear\<close>
  "CloseLookup el = ClearEvents el"

text \<open>The handlers change the data of an event through the pointer the lookup holds.\<close>

definition put_epd :: "EventProcessingData \<Rightarrow> EventLookup \<Rightarrow> EventLookup" where
  "put_epd epd el = el\<lparr>lookup := AList.update (ev_Key (epd_Event epd)) epd (lookup el)\<rparr>"

subsection \<open>The watchdog\<close>

definition stale :: "timestamp \<Rightarrow> EventLookup \<Rightarrow> EventProcessingData \<Rightarrow> bool" where
  "stale now el epd \<longleftrightarrow> staleDuration el < time_sub now (LastDataEvent epd)"

definition remove_stale :: "EventProcessingData \<Rightarrow> EventLookup \<Rightarrow> EventLookup run" where
  "remove_stale epd el = do {
     _ \<leftarrow> epd_Close epd;
     let el = el\<lparr>lookup := AList.delete (ev_Key (epd_Event epd)) (lookup el)\<rparr>;
     Some (if hasDeleteEventCB el
           then el\<lparr>deletedEvents := deletedEvents el @ [ev_Key (epd_Event epd)]\<rparr> else el)
   }"

text \<open>One round of the loop of setupWatchdog, at time now.\<close>

definition watchdog_tick :: "timestamp \<Rightarrow> EventLookup \<Rightarrow> EventLookup run" where
  "watchdog_tick now el =
     go_for remove_stale (filter (stale now el) (map snd (lookup el))) el"

end
