(* ===== verification/Range_Stream.thy ===== *)
theory Range_Stream
  imports Event_Lookup
begin

text \<open>
  Reading recorded data in pages: the range containers of pkg/grpc/server/state (state_util.go,
  racestates_util.go, driverdata_util.go, speedmaps_util.go), the stream handlers of state_server.go that
  loop over them, and pkg/grpc/server/util/resolve_event.go.

  A repository is a record of its load functions; its errors are of a type the model leaves open.  The three kinds
  of data (race states, driver data, speedmaps) have the same code up to the default size of a page, which is
  the argument cap of the shared definitions.
\<close>

subsection \<open>Errors\<close>

datatype Code = CodeNotFound | CodePermissionDenied | CodeAlreadyExists | CodeInvalidArgument

datatype 'e server_error =
    RepoError 'e
  | ConnectError Code
  | ErrMissingEventSelector | ErrInvalidEventSelector
  | ErrMissingStartSelector | ErrInvalidStartSelector
  | SendError

subsection \<open>Repositories\<close>

record 'm RangeContainer =
  rc_Data :: "'m list"
  rc_LastTimestamp :: timestamp
  rc_LastSessionTime :: f32
  rc_LastRsInfoID :: int

text \<open>A float64 as the code obtains it: widened from a float32, or the seconds of a duration.\<close>

datatype float64 = F64_of_f32 f32 | F64_seconds int

record ('e, 'm) range_repo =
  LoadRange :: "int \<Rightarrow> timestamp \<Rightarrow> int \<Rightarrow> 'e + 'm RangeContainer"
  LoadRangeBySessionTime :: "int \<Rightarrow> uint32 \<Rightarrow> float64 \<Rightarrow> int \<Rightarrow> 'e + 'm RangeContainer"
  LoadRangeByID :: "int \<Rightarrow> int \<Rightarrow> int \<Rightarrow> 'e + 'm RangeContainer"
  LoadRangeByIDWithinSession :: "int \<Rightarrow> uint32 \<Rightarrow> int \<Rightarrow> int \<Rightarrow> 'e + 'm RangeContainer"

record 'e event_repo =
  er_LoadByID :: "int \<Rightarrow> 'e + Event"
  er_LoadByKey :: "string \<Rightarrow> 'e + Event"
  er_isNoRows :: "'e \<Rightarrow> bool"
  \<comment> \<open>errors.Is(err, sql.ErrNoRows)\<close>

definition ResolveEvent :: "'e event_repo \<Rightarrow> EventSelector \<Rightarrow> 'e server_error + Event" where
  "ResolveEvent r sel = (
     let result = (\<lambda>res. case res of Inr ev \<Rightarrow> Inr ev
         | Inl err \<Rightarrow> if er_isNoRows r err then Inl (ConnectError CodeNotFound) else Inl (RepoError err))
     in case sel of
       EventSelector_None \<Rightarrow> Inl ErrMissingEventSelector
     | EventSelector_Id i \<Rightarrow> result (er_LoadByID r (sint i))
     | EventSelector_Key k \<Rightarrow> result (er_LoadByKey r k))"

subsection \<open>Range containers\<close>

datatype StartSelector =
    StartSelector_RecordStamp timestamp
  | StartSelector_SessionTime f32
  | StartSelector_SessionTimeSelector int32 int
    \<comment> \<open>session number and duration in nanoseconds\<close>
  | StartSelector_Id uint32
  | StartSelector_None

record StatesRequest =
  GetEventSel :: EventSelector
  GetStart :: "StartSelector option"
  GetNum :: int32

record statesContainer =
  sc_e :: Event
  sc_req :: StatesRequest
  sc_remain :: int
  sc_lastRsInfoID :: int

definition createStatesContainer ::
  "'e event_repo \<Rightarrow> StatesRequest \<Rightarrow> 'e server_error + statesContainer" where
  "createStatesContainer r req = (case ResolveEvent r (GetEventSel req) of
     Inl err \<Rightarrow> Inl err
   | Inr e \<Rightarrow>
       if GetStart req = None then Inl ErrMissingStartSelector
       else Inr \<lparr>sc_e = e, sc_req = req,
                 sc_remain = (if 0 < sint (GetNum req) then sint (GetNum req) else 2 ^ 31 - 1),
                 sc_lastRsInfoID = 0\<rparr>)"

definition toFetchEntries :: "int \<Rightarrow> statesContainer \<Rightarrow> int" where
  "toFetchEntries cap s =
     (if 0 < sint (GetNum (sc_req s)) then min (min cap (sint (GetNum (sc_req s)))) (sc_remain s) else cap)"

definition getDefaultSessionNum :: "statesContainer \<Rightarrow> uint32" where
  "getDefaultSessionNum s = (case CollectRaceSessions (sc_e s) of [] \<Rightarrow> 0 | n # _ \<Rightarrow> n)"

text \<open>The start of the request; createStatesContainer has checked that it is there.\<close>

definition start_of :: "statesContainer \<Rightarrow> StartSelector" where
  "start_of s = the (GetStart (sc_req s))"

definition event_id :: "statesContainer \<Rightarrow> int" where
  "event_id s = uint (ev_Id (sc_e s))"

definition book :: "'e server_error + 'm RangeContainer \<Rightarrow> statesContainer \<Rightarrow>
    ('e server_error + 'm RangeContainer) \<times> statesContainer" where
  "book res s = (case res of
     Inl err \<Rightarrow> (Inl err, s)
   | Inr ret \<Rightarrow> (Inr ret, s\<lparr>sc_lastRsInfoID := rc_LastRsInfoID ret,
                           sc_remain := sc_remain s - int (length (rc_Data ret))\<rparr>))"

definition repo_result :: "'e + 'a \<Rightarrow> 'e server_error + 'a" where
  "repo_result res = (case res of Inl e \<Rightarrow> Inl (RepoError e) | Inr x \<Rightarrow> Inr x)"

definition InitialRequest :: "int \<Rightarrow> ('e, 'm) range_repo \<Rightarrow> statesContainer \<Rightarrow>
    ('e server_error + 'm RangeContainer) \<times> statesContainer" where
  "InitialRequest cap repo s = book (case start_of s of
     StartSelector_RecordStamp ts \<Rightarrow>
       repo_result (LoadRange repo (event_id s) ts (toFetchEntries cap s))
   | StartSelector_SessionTime t \<Rightarrow>
       repo_result (LoadRangeBySessionTime repo (event_id s) (getDefaultSessionNum s)
         (F64_of_f32 t) (toFetchEntries cap s))
   | StartSelector_SessionTimeSelector num d \<Rightarrow>
       repo_result (LoadRangeBySessionTime repo (event_id s) num (F64_seconds d) (toFetchEntries cap s))
   | StartSelector_Id i \<Rightarrow>
       repo_result (LoadRangeByID repo (event_id s) (uint i) (toFetchEntries cap s))
   | StartSelector_None \<Rightarrow> Inl ErrInvalidStartSelector) s"

definition NextRequest :: "int \<Rightarrow> ('e, 'm) range_repo \<Rightarrow> statesContainer \<Rightarrow>
    ('e server_error + 'm RangeContainer) \<times> statesContainer" where
  "NextRequest cap repo s = book (case start_of s of
     StartSelector_SessionTimeSelector num d \<Rightarrow>
       repo_result (LoadRangeByIDWithinSession repo (event_id s) num (sc_lastRsInfoID s + 1)
         (toFetchEntries cap s))
   | _ \<Rightarrow>
       repo_result (LoadRangeByID repo (event_id s) (sc_lastRsInfoID s + 1) (toFetchEntries cap s))) s"

subsection \<open>Streams\<close>

text \<open>stream.Send of the messages of a page: send tells which message fails, given what has been sent.\<close>

fun send_all :: "('m list \<Rightarrow> 'm \<Rightarrow> bool) \<Rightarrow> 'm list \<Rightarrow> 'm list \<Rightarrow> bool \<times> 'm list" where
  "send_all send [] out = (True, out)"
| "send_all send (x # xs) out =
     (if send out x then send_all send xs (out @ [x]) else (False, out))"

partial_function (option) stream_loop ::
  "(statesContainer \<Rightarrow> ('e server_error + 'm RangeContainer) \<times> statesContainer) \<Rightarrow> ('m list \<Rightarrow> 'm \<Rightarrow> bool) \<Rightarrow>
   ('e server_error + 'm RangeContainer) \<times> statesContainer \<Rightarrow> 'm list \<Rightarrow>
   ('e server_error option \<times> 'm list) option" where
  "stream_loop next send st out = (case fst st of
     Inl err \<Rightarrow> Some (Some err, out)
   | Inr rc \<Rightarrow>
       if rc_Data rc = [] then Some (None, out)
       else (let r = send_all send (rc_Data rc) out in
         if fst r then stream_loop next send (next (snd st)) (snd r)
         else Some (Some SendError, snd r)))"

type_synonym ('e, 'm) request = "statesContainer \<Rightarrow> ('e server_error + 'm RangeContainer) \<times> statesContainer"

definition get_stream :: "('e, 'm) request \<Rightarrow> ('e, 'm) request \<Rightarrow> 'e event_repo \<Rightarrow> StatesRequest \<Rightarrow>
    ('m list \<Rightarrow> 'm \<Rightarrow> bool) \<Rightarrow> ('e server_error option \<times> 'm list) option" where
  "get_stream initial next er req send = (case createStatesContainer er req of
     Inl err \<Rightarrow> Some (Some err, [])
   | Inr sc \<Rightarrow> stream_loop next send (initial sc) [])"

definition get_page :: "('e, 'm) request \<Rightarrow> 'e event_repo \<Rightarrow> StatesRequest \<Rightarrow> 'e server_error + 'm RangeContainer" where
  "get_page initial er req = (case createStatesContainer er req of
     Inl err \<Rightarrow> Inl err
   | Inr sc \<Rightarrow> fst (initial sc))"

text \<open>The containers: race states come in pages of 2000, driver data and speedmaps of 1000.\<close>

definition racestates_toFetchEntries :: "statesContainer \<Rightarrow> int" where
  "racestates_toFetchEntries = toFetchEntries 2000"

definition racestates_InitialRequest :: "('e, PublishStateRequest) range_repo \<Rightarrow> ('e, PublishStateRequest) request" where
  "racestates_InitialRequest = InitialRequest 2000"

definition racestates_NextRequest :: "('e, PublishStateRequest) range_repo \<Rightarrow> ('e, PublishStateRequest) request" where
  "racestates_NextRequest = NextRequest 2000"

definition driverdata_InitialRequest ::
  "('e, PublishDriverDataRequest) range_repo \<Rightarrow> ('e, PublishDriverDataRequest) request" where
  "driverdata_InitialRequest = InitialRequest 1000"

definition driverdata_NextRequest ::
  "('e, PublishDriverDataRequest) range_repo \<Rightarrow> ('e, PublishDriverDataRequest) request" where
  "driverdata_NextRequest = NextRequest 1000"

definition speedmap_InitialRequest ::
  "('e, PublishSpeedmapRequest) range_repo \<Rightarrow> ('e, PublishSpeedmapRequest) request" where
  "speedmap_InitialRequest = InitialRequest 1000"

definition speedmap_NextRequest ::
  "('e, PublishSpeedmapRequest) range_repo \<Rightarrow> ('e, PublishSpeedmapRequest) request" where
  "speedmap_NextRequest = NextRequest 1000"

text \<open>The handlers.\<close>

definition GetStates :: "'e event_repo \<Rightarrow> ('e, PublishStateRequest) range_repo \<Rightarrow> StatesRequest \<Rightarrow>
    'e server_error + PublishStateRequest RangeContainer" where
  "GetStates er repo = get_page (racestates_InitialRequest repo) er"

definition GetStateStream :: "'e event_repo \<Rightarrow> ('e, PublishStateRequest) range_repo \<Rightarrow> StatesRequest \<Rightarrow>
    (PublishStateRequest list \<Rightarrow> PublishStateRequest \<Rightarrow> bool) \<Rightarrow>
    ('e server_error option \<times> PublishStateRequest list) option" where
  "GetStateStream er repo = get_stream (racestates_InitialRequest repo) (racestates_NextRequest repo) er"

definition GetDriverData :: "'e event_repo \<Rightarrow> ('e, PublishDriverDataRequest) range_repo \<Rightarrow> StatesRequest \<Rightarrow>
    'e server_error + PublishDriverDataRequest RangeContainer" where
  "GetDriverData er repo = get_page (driverdata_InitialRequest repo) er"

definition GetDriverDataStream :: "'e event_repo \<Rightarrow> ('e, PublishDriverDataRequest) range_repo \<Rightarrow> StatesRequest \<Rightarrow>
    (PublishDriverDataRequest list \<Rightarrow> PublishDriverDataRequest \<Rightarrow> bool) \<Rightarrow>
    ('e server_error option \<times> PublishDriverDataRequest list) option" where
  "GetDriverDataStream er repo = get_stream (driverdata_InitialRequest repo) (driverdata_NextRequest repo) er"

definition GetSpeedmaps :: "'e event_repo \<Rightarrow> ('e, PublishSpeedmapRequest) range_repo \<Rightarrow> StatesRequest \<Rightarrow>
    'e server_error + PublishSpeedmapRequest RangeContainer" where
  "GetSpeedmaps er repo = get_page (speedmap_InitialRequest repo) er"

definition GetSpeedmapStream :: "'e event_repo \<Rightarrow> ('e, PublishSpeedmapRequest) range_repo \<Rightarrow> StatesRequest \<Rightarrow>
    (PublishSpeedmapRequest list \<Rightarrow> PublishSpeedmapRequest \<Rightarrow> bool) \<Rightarrow>
    ('e server_error option \<times> PublishSpeedmapRequest list) option" where
  "GetSpeedmapStream er repo = get_stream (speedmap_InitialRequest repo) (speedmap_NextRequest repo) er"

subsection \<open>The interface of a recorded table\<close>

text \<open>
  What the streams rely on: the rows of an event are a sequence with increasing ids, each with its session
  number and message, and a load function returns the next rows that qualify, up to the limit, with the
  id of the last one.
\<close>

type_synonym 'm table_row = "int \<times> uint32 \<times> 'm"

definition page_of :: "'m table_row list \<Rightarrow> 'm RangeContainer \<Rightarrow> bool" where
  "page_of xs rc \<longleftrightarrow> rc_Data rc = map (snd \<circ> snd) xs \<and>
     rc_LastRsInfoID rc = (if xs = [] then 0 else fst (last xs))"

text \<open>The rows after the last one read, within the session if the request names one.\<close>

definition in_session :: "StartSelector \<Rightarrow> 'm table_row \<Rightarrow> bool" where
  "in_session sel r = (case sel of StartSelector_SessionTimeSelector num d \<Rightarrow> fst (snd r) = num | _ \<Rightarrow> True)"

definition later_rows :: "statesContainer \<Rightarrow> 'm table_row list \<Rightarrow> 'm table_row list" where
  "later_rows s xs = filter (\<lambda>r. sc_lastRsInfoID s < fst r \<and> in_session (start_of s) r) xs"

text \<open>At most as many rows as the request still wants.\<close>

definition wanted :: "statesContainer \<Rightarrow> 'a list \<Rightarrow> 'a list" where
  "wanted s xs = (if 0 < sint (GetNum (sc_req s)) then take (nat (sc_remain s)) xs else xs)"

lemma filter_after_take:
  assumes "sorted_wrt (<) (map fst xs)" "take n xs \<noteq> []"
  shows "filter (\<lambda>r. fst (last (take n xs)) < fst r) xs = drop n (xs :: ('i::linorder \<times> 'b) list)"
proof -
  have split: "xs = take n xs @ drop n xs" by simp
  have w: "sorted_wrt (<) (map fst (take n xs) @ map fst (drop n xs))"
    using assms(1) by (simp flip: map_append)
  have "\<not> fst (last (take n xs)) < fst r" if "r \<in> set (take n xs)" for r
  proof -
    obtain ys y where ys: "take n xs = ys @ [y]" using assms(2) by (metis rev_exhaust)
    then have "sorted_wrt (<) (map fst ys @ [fst y])" using w by (simp add: sorted_wrt_append)
    with that ys show ?thesis by (auto simp: sorted_wrt_append dest: less_imp_not_less)
  qed
  moreover have "fst (last (take n xs)) < fst r" if "r \<in> set (drop n xs)" for r
    using w that assms(2) by (auto simp: sorted_wrt_append)
  ultimately have "filter (\<lambda>r. fst (last (take n xs)) < fst r) (take n xs @ drop n xs) = drop n xs"
    by (simp only: filter_append) (simp add: filter_empty_conv)
  then show ?thesis by simp
qed

lemma less_iff_add1: "(a < b) = (a + 1 \<le> (b :: int))"
  by arith

text \<open>A page is the first part of what is wanted; what is wanted after it has been booked is the rest.\<close>

lemma wanted_split:
  assumes "f = toFetchEntries cap s" "0 < sint (GetNum (sc_req s)) \<longrightarrow> 0 \<le> sc_remain s"
    "rc_Data rc = take (nat f) ys"
  shows "wanted s ys = rc_Data rc @ wanted (snd (book (Inr rc :: 'e server_error + _) s)) (drop (nat f) ys)"
proof (cases "0 < sint (GetNum (sc_req s))")
  case True
  let ?r = "sc_remain s - int (length (rc_Data rc))"
  have f: "nat f \<le> nat (sc_remain s)" using assms(1) True by (simp add: toFetchEntries_def)
  have "take (nat (sc_remain s)) ys = take (nat f + (nat (sc_remain s) - nat f)) ys" using f by simp
  also have "\<dots> = take (nat f) ys @ take (nat (sc_remain s) - nat f) (drop (nat f) ys)" by (rule take_add)
  also have "take (nat (sc_remain s) - nat f) (drop (nat f) ys) = take (nat ?r) (drop (nat f) ys)"
  proof (cases "nat f \<le> length ys")
    case True
    then have "nat ?r = nat (sc_remain s) - nat f" using assms(3) by simp arith
    then show ?thesis by simp
  qed simp
  finally show ?thesis using True assms(3) by (simp add: wanted_def book_def)
qed (simp add: wanted_def book_def assms(3))

lemma wanted_empty: "take (nat (toFetchEntries cap s)) xs = [] \<Longrightarrow> 0 < cap \<Longrightarrow> wanted s xs = []"
  by (auto simp: wanted_def toFetchEntries_def split: if_splits)

lemma send_all_ok: "send_all (\<lambda>_ _. True) xs out = (True, out @ xs)"
  by (induction xs arbitrary: out) simp_all

locale range_source =
  fixes ok :: "'db \<Rightarrow> bool"
    and repo :: "'db \<Rightarrow> ('e, 'm) range_repo"
    and rows :: "'db \<Rightarrow> int \<Rightarrow> 'm table_row list"
  assumes rows_sorted: "ok db \<Longrightarrow> sorted_wrt (<) (map fst (rows db e))"
    and rows_bounded: "ok db \<Longrightarrow> r \<in> set (rows db e) \<Longrightarrow> 0 \<le> fst r \<and> fst r < 2 ^ 31 - 1"
    and load_by_id: "ok db \<Longrightarrow> 0 \<le> n \<Longrightarrow> 0 \<le> i \<Longrightarrow> i < 2 ^ 31 \<Longrightarrow> \<exists>rc.
        LoadRangeByID (repo db) e i n = Inr rc \<and>
        page_of (take (nat n) (filter (\<lambda>r. i \<le> fst r) (rows db e))) rc"
    and load_within: "ok db \<Longrightarrow> 0 \<le> n \<Longrightarrow> 0 \<le> i \<Longrightarrow> i < 2 ^ 31 \<Longrightarrow> \<exists>rc.
        LoadRangeByIDWithinSession (repo db) e num i n = Inr rc \<and>
        page_of (take (nat n) (filter (\<lambda>r. i \<le> fst r \<and> fst (snd r) = num) (rows db e))) rc"
begin

lemma rows_ids: "ok db \<Longrightarrow> take n xs \<noteq> [] \<Longrightarrow> set xs \<subseteq> set (rows db e) \<Longrightarrow>
    0 \<le> fst (last (take n xs)) \<and> fst (last (take n xs)) < 2 ^ 31 - 1"
  by (meson in_set_takeD last_in_set rows_bounded subsetD)

lemma next_request:
  assumes "ok db" "0 \<le> toFetchEntries cap s" "0 \<le> sc_lastRsInfoID s" "sc_lastRsInfoID s < 2 ^ 31 - 1"
  shows "\<exists>rc. NextRequest cap (repo db) s = book (Inr rc) s \<and>
    page_of (take (nat (toFetchEntries cap s)) (later_rows s (rows db (event_id s)))) rc"
proof (cases "start_of s")
  case (StartSelector_SessionTimeSelector num d)
  with load_within[OF assms(1,2), of "sc_lastRsInfoID s + 1" "event_id s" num] assms(3,4) show ?thesis
    by (auto simp: NextRequest_def repo_result_def later_rows_def in_session_def less_iff_add1)
qed (use load_by_id[OF assms(1,2), of "sc_lastRsInfoID s + 1" "event_id s"] assms(3,4) in
    \<open>auto simp: NextRequest_def repo_result_def later_rows_def in_session_def less_iff_add1\<close>)

lemma later_rows_sorted: "ok db \<Longrightarrow> sorted_wrt (<) (map fst (later_rows s (rows db e)))"
  using rows_sorted[of db e] unfolding later_rows_def
  by (simp add: sorted_wrt_map sorted_wrt_filter)

text \<open>After a page has been booked the rows that are left are the rest.\<close>

lemma later_rows_book:
  assumes "ok db" "page_of (take n (later_rows s (rows db e))) rc" "rc_Data rc \<noteq> []"
  shows "later_rows (snd (book (Inr rc :: 'e server_error + _) s)) (rows db e) = drop n (later_rows s (rows db e))"
proof -
  let ?xs = "later_rows s (rows db e)"
  have ne: "take n ?xs \<noteq> []" using assms(2,3) by (auto simp: page_of_def)
  then have last: "rc_LastRsInfoID rc = fst (last (take n ?xs))" using assms(2) by (simp add: page_of_def)
  have "last (take n ?xs) \<in> set ?xs" using ne by (meson in_set_takeD last_in_set)
  then have "sc_lastRsInfoID s < rc_LastRsInfoID rc" using last by (auto simp: later_rows_def)
  then have "later_rows (snd (book (Inr rc :: 'e server_error + _) s)) (rows db e) =
      filter (\<lambda>r. rc_LastRsInfoID rc < fst r) ?xs"
    by (auto simp: book_def later_rows_def start_of_def intro!: filter_cong)
  also have "\<dots> = drop n ?xs"
    unfolding last by (rule filter_after_take[OF later_rows_sorted[OF assms(1)] ne])
  finally show ?thesis .
qed

text \<open>From any page on, the stream sends the page and then all rows that are left and wanted.\<close>

lemma stream_from:
  assumes "ok db" "0 < cap" "0 < sint (GetNum (sc_req s)) \<longrightarrow> 0 \<le> sc_remain s"
    "rc_Data rc \<noteq> []" "0 \<le> sc_lastRsInfoID s \<and> sc_lastRsInfoID s < 2 ^ 31 - 1"
  shows "stream_loop (NextRequest cap (repo db)) (\<lambda>_ _. True) (Inr rc, s) out =
    Some (None, out @ rc_Data rc @ wanted s (map (snd \<circ> snd) (later_rows s (rows db (event_id s)))))"
  using assms(3-)
proof (induction "length (later_rows s (rows db (event_id s)))" arbitrary: s rc out rule: less_induct)
  case less
  let ?xs = "later_rows s (rows db (event_id s))" and ?f = "toFetchEntries cap s"
  have f: "0 \<le> ?f" using assms(2) less.prems(1) by (simp add: toFetchEntries_def)
  obtain rc' where rc': "NextRequest cap (repo db) s = book (Inr rc') s" "page_of (take (nat ?f) ?xs) rc'"
    using next_request[OF assms(1) f] less.prems(3) by blast
  let ?s = "snd (book (Inr rc' :: 'e server_error + _) s)"
  have step: "stream_loop (NextRequest cap (repo db)) (\<lambda>_ _. True) (Inr rc, s) out =
      stream_loop (NextRequest cap (repo db)) (\<lambda>_ _. True) (Inr rc', ?s) (out @ rc_Data rc)"
    using less.prems(2) rc'(1) by (subst stream_loop.simps) (simp add: send_all_ok Let_def book_def)
  show ?case
  proof (cases "rc_Data rc' = []")
    case True
    then have "take (nat ?f) ?xs = []" using rc'(2) by (simp add: page_of_def)
    then have "wanted s ?xs = []" using wanted_empty assms(2) by blast
    then have "wanted s (map (snd \<circ> snd) ?xs) = []" by (auto simp: wanted_def split: if_splits)
    with True step show ?thesis by (simp add: stream_loop.simps)
  next
    case False
    have rest: "later_rows ?s (rows db (event_id s)) = drop (nat ?f) ?xs"
      using later_rows_book[OF assms(1) rc'(2) False] .
    have ev: "event_id ?s = event_id s" by (simp add: book_def event_id_def)
    have len: "length (rc_Data rc') = min (nat ?f) (length ?xs)" using rc'(2) by (simp add: page_of_def)
    have pos: "0 < ?f" "?xs \<noteq> []" using False len f by (cases "?f = 0"; auto)+
    have shorter: "length (later_rows ?s (rows db (event_id ?s))) < length ?xs"
      using pos by (simp add: ev rest)
    have remain: "0 < sint (GetNum (sc_req ?s)) \<longrightarrow> 0 \<le> sc_remain ?s"
      using len f by (auto simp: book_def toFetchEntries_def)
    have ids: "0 \<le> sc_lastRsInfoID ?s \<and> sc_lastRsInfoID ?s < 2 ^ 31 - 1"
      using rc'(2) False rows_ids[OF assms(1), of "nat ?f" ?xs "event_id s"]
      by (auto simp: book_def page_of_def later_rows_def)
    have "stream_loop (NextRequest cap (repo db)) (\<lambda>_ _. True) (Inr rc', ?s) (out @ rc_Data rc) =
        Some (None, out @ rc_Data rc @ rc_Data rc' @ wanted ?s (map (snd \<circ> snd) (drop (nat ?f) ?xs)))"
      using less.hyps[OF shorter remain False ids] by (simp add: ev rest)
    moreover have "wanted s (map (snd \<circ> snd) ?xs) =
        rc_Data rc' @ wanted ?s (map (snd \<circ> snd) (drop (nat ?f) ?xs))"
      using wanted_split[OF refl less.prems(1), of rc' cap "map (snd \<circ> snd) ?xs"] rc'(2)
      by (simp add: page_of_def take_map drop_map)
    ultimately show ?thesis using step by simp
  qed
qed

text \<open>A stream that starts at an id sends all rows of the event from that id on that are wanted.\<close>

lemma stream_by_id:
  assumes "ok db" "0 < cap" "start_of s = StartSelector_Id i" "uint i < 2 ^ 31"
    "0 < sint (GetNum (sc_req s)) \<longrightarrow> 0 \<le> sc_remain s"
  shows "stream_loop (NextRequest cap (repo db)) (\<lambda>_ _. True) (InitialRequest cap (repo db) s) [] =
    Some (None, wanted s (map (snd \<circ> snd) (filter (\<lambda>r. uint i \<le> fst r) (rows db (event_id s)))))"
proof -
  let ?xs = "filter (\<lambda>r. uint i \<le> fst r) (rows db (event_id s))" and ?f = "toFetchEntries cap s"
  have f: "0 \<le> ?f" using assms(2,5) by (simp add: toFetchEntries_def)
  obtain rc where rc: "LoadRangeByID (repo db) (event_id s) (uint i) ?f = Inr rc"
    "page_of (take (nat ?f) ?xs) rc"
    using load_by_id[OF assms(1) f _ assms(4)] by auto
  let ?s = "snd (book (Inr rc :: 'e server_error + _) s)"
  have init: "InitialRequest cap (repo db) s = (Inr rc, ?s)"
    using rc(1) assms(3) by (simp add: InitialRequest_def repo_result_def book_def)
  show ?thesis
  proof (cases "rc_Data rc = []")
    case True
    then have "wanted s ?xs = []" using rc(2) wanted_empty assms(2) by (auto simp: page_of_def)
    then have "wanted s (map (snd \<circ> snd) ?xs) = []" by (auto simp: wanted_def split: if_splits)
    with True init show ?thesis by (simp add: stream_loop.simps)
  next
    case False
    have ne: "take (nat ?f) ?xs \<noteq> []" using False rc(2) by (auto simp: page_of_def)
    have last: "rc_LastRsInfoID rc = fst (last (take (nat ?f) ?xs))" using rc(2) ne by (simp add: page_of_def)
    have ids: "0 \<le> sc_lastRsInfoID ?s \<and> sc_lastRsInfoID ?s < 2 ^ 31 - 1"
      using rows_ids[OF assms(1) ne, of "event_id s"] last by (simp add: book_def)
    have "last (take (nat ?f) ?xs) \<in> set ?xs" using ne by (meson in_set_takeD last_in_set)
    then have "uint i \<le> rc_LastRsInfoID rc" using last by simp
    then have "later_rows ?s (rows db (event_id ?s)) = filter (\<lambda>r. rc_LastRsInfoID rc < fst r) ?xs"
      using assms(3) by (auto simp: book_def later_rows_def start_of_def event_id_def in_session_def intro!: filter_cong)
    also have "\<dots> = drop (nat ?f) ?xs" unfolding last
      by (rule filter_after_take[OF _ ne]) (use rows_sorted[OF assms(1)] in \<open>simp add: sorted_wrt_map sorted_wrt_filter\<close>)
    finally have rest: "later_rows ?s (rows db (event_id ?s)) = drop (nat ?f) ?xs" .
    have remain: "0 < sint (GetNum (sc_req ?s)) \<longrightarrow> 0 \<le> sc_remain ?s"
      using rc(2)[unfolded page_of_def, THEN conjunct1] f by (auto simp: book_def toFetchEntries_def)
    show ?thesis
      using stream_from[OF assms(1,2) remain False ids, of "[]"]
        wanted_split[OF refl assms(5), of rc cap "map (snd \<circ> snd) ?xs", where ?'e = 'e] rc(2)
      by (simp add: init rest page_of_def take_map drop_map)
  qed
qed

end

end
