(* ===== verification/Permission.thy ===== *)
theory Permission
  imports Go_Prelude
begin

text \<open>
  Authorisation: the policy pkg/grpc/permission/policy.rego over data.json and the evaluator that asks it
  (opa.go), on the authentications of pkg/grpc/auth/auth.go and auth/impl/auth_impl.go.

  The policy is translated rule by rule; the engine that evaluates it is third-party code, and
  its built-in functions used here are modelled as documented (graph.reachable gives the nodes of
  the graph that are reachable from the roles, sprintf joins with an underscore).
\<close>

subsection \<open>Roles and permissions\<close>

type_synonym Role = string
type_synonym Permission = string

definition RoleAdmin :: Role where "RoleAdmin = ''admin''"
definition RoleRaceDataProvider :: Role where "RoleRaceDataProvider = ''racedata-provider''"
definition RoleEditor :: Role where "RoleEditor = ''editor''"
definition RoleTenantManager :: Role where "RoleTenantManager = ''tenant-manager''"
definition RoleTrackManager :: Role where "RoleTrackManager = ''track-manager''"

definition PermissionRegisterEvent :: Permission where "PermissionRegisterEvent = ''register-event''"
definition PermissionDeleteEvent :: Permission where "PermissionDeleteEvent = ''delete-event''"
definition PermissionUpdateEvent :: Permission where "PermissionUpdateEvent = ''update-event''"
definition PermissionUnregisterEvent :: Permission where "PermissionUnregisterEvent = ''unregister-event''"
definition PermissionPostRacedata :: Permission where "PermissionPostRacedata = ''post-racedata''"
definition PermissionCreateTenant :: Permission where "PermissionCreateTenant = ''create-tenant''"
definition PermissionDeleteTenant :: Permission where "PermissionDeleteTenant = ''delete-tenant''"
definition PermissionUpdateTenant :: Permission where "PermissionUpdateTenant = ''update-tenant''"
definition PermissionReadTenant :: Permission where "PermissionReadTenant = ''read-tenant''"
definition PermissionCreateTrack :: Permission where "PermissionCreateTrack = ''create-track''"
definition PermissionDeleteTrack :: Permission where "PermissionDeleteTrack = ''delete-track''"
definition PermissionUpdateTrack :: Permission where "PermissionUpdateTrack = ''update-track''"
definition PermissionAdminUnregisterAllEvents :: Permission where
  "PermissionAdminUnregisterAllEvents = ''unregister-all-events''"

text \<open>data.json\<close>

definition data_permissions :: "(Role \<times> Permission list) list" where
  "data_permissions =
    [(''admin'', [''unregister-all-events'']),
     (''editor'', [''update-event'', ''delete-event'']),
     (''racedata-provider'', [''register-event'', ''update-event'', ''delete-event'',
        ''unregister-event'', ''post-racedata'']),
     (''tenant-manager'', [''create-tenant'', ''update-tenant'', ''delete-tenant'', ''read-tenant'']),
     (''track-manager'', [''create-track'', ''update-track'', ''delete-track''])]"

definition data_roles_graph :: "(Role \<times> Role list) list" where
  "data_roles_graph =
    [(''admin'', [''racedata-provider'', ''track-manager'', ''tenant-manager'']),
     (''editor'', []), (''racedata-provider'', []), (''tenant-manager'', []), (''track-manager'', [])]"

definition permissions_of :: "Role \<Rightarrow> Permission list" where
  "permissions_of role = map_get [] (map_of data_permissions) role"

subsection \<open>Authentications\<close>

record ScopedRole =
  sr_Role :: Role
  sr_Scopes :: "string list"

datatype Authentication =
    SimpleAuth string "Role list" "ScopedRole list"
  | TenantAuth string "Role list" "ScopedRole list" "32 word"
    \<comment> \<open>the last field is the tenant id\<close>
  | SessionAuth string string string "Role list" "ScopedRole list" "32 word"
    \<comment> \<open>session id, user id, name of the principal, roles, scoped roles, tenant id\<close>

fun Principal :: "Authentication \<Rightarrow> string" where
  "Principal (SimpleAuth n _ _) = n"
| "Principal (TenantAuth n _ _ _) = n"
| "Principal (SessionAuth _ _ n _ _ _) = n"

fun Roles :: "Authentication \<Rightarrow> Role list" where
  "Roles (SimpleAuth _ r _) = r"
| "Roles (TenantAuth _ r _ _) = r"
| "Roles (SessionAuth _ _ _ r _ _) = r"

fun ScopedRoles :: "Authentication \<Rightarrow> ScopedRole list" where
  "ScopedRoles (SimpleAuth _ _ s) = s"
| "ScopedRoles (TenantAuth _ _ s _) = s"
| "ScopedRoles (SessionAuth _ _ _ _ s _) = s"

text \<open>The type assertion a.(auth.TenantAuthentication), and its GetTenantID.\<close>

fun TenantID :: "Authentication \<Rightarrow> 32 word option" where
  "TenantID (SimpleAuth _ _ _) = None"
| "TenantID (TenantAuth _ _ _ i) = Some i"
| "TenantID (SessionAuth _ _ _ _ _ i) = Some i"

fun CombinedRoles :: "Authentication \<Rightarrow> Role list" where
  "CombinedRoles a = Roles a @ map sr_Role (ScopedRoles a)"

subsection \<open>Decimal numerals\<close>

text \<open>fmt.Sprintf of an unsigned number with the verb d\<close>

fun decimal :: "nat \<Rightarrow> string" where
  "decimal n = (if n < 10 then [char_of (48 + n)] else decimal (n div 10) @ [char_of (48 + n mod 10)])"

declare decimal.simps [simp del]

definition sprint_u32 :: "32 word \<Rightarrow> string" where
  "sprint_u32 w = decimal (unat w)"

fun undecimal :: "nat \<Rightarrow> string \<Rightarrow> nat" where
  "undecimal acc [] = acc"
| "undecimal acc (c # cs) = undecimal (10 * acc + (of_char c - 48)) cs"

lemma undecimal_append: "undecimal acc (xs @ ys) = undecimal (undecimal acc xs) ys"
  by (induction xs arbitrary: acc) simp_all

lemma digit_char: "n < 10 \<Longrightarrow> of_char (char_of (48 + n) :: char) = (48 + n :: nat)"
  by simp

lemma undecimal_decimal: "undecimal 0 (decimal n) = n"
proof (induction n rule: decimal.induct)
  case (1 n)
  then show ?case
    by (cases "n < 10") (simp_all add: decimal.simps[of n] undecimal_append)
qed

lemma decimal_inj: "decimal m = decimal n \<Longrightarrow> m = n"
  by (metis undecimal_decimal)

lemma sprint_u32_inj: "sprint_u32 v = sprint_u32 w \<longleftrightarrow> v = w"
  unfolding sprint_u32_def by (metis decimal_inj word_unat_eq_iff)

lemma decimal_nonempty [simp]: "decimal n \<noteq> []"
  by (subst decimal.simps) simp

lemma sprint_u32_nonempty [simp]: "sprint_u32 w \<noteq> []"
  by (simp add: sprint_u32_def)

subsection \<open>The policy\<close>

record EvalRequest =
  er_Roles :: "Role list"
  er_Scoped :: "(Role \<times> string list) list"
  er_Action :: Permission
  er_ObjectOwner :: string

text \<open>
  graph.reachable over the roles graph.  A role that is not a node is not reached; every node of data.json is
  reached in at most two steps, and closing once per node of the graph is enough for any graph.
\<close>

definition graph_step :: "(Role \<times> Role list) list \<Rightarrow> Role list \<Rightarrow> Role list" where
  "graph_step g rs = remdups (rs @ concat (map (\<lambda>r. map_get [] (map_of g) r) rs))"

definition graph_reachable :: "(Role \<times> Role list) list \<Rightarrow> Role list \<Rightarrow> Role list" where
  "graph_reachable g rs = filter (\<lambda>r. r \<in> set (map fst g)) ((graph_step g ^^ length g) rs)"

definition reachable_roles :: "EvalRequest \<Rightarrow> Role list" where
  "reachable_roles input = graph_reachable data_roles_graph (er_Roles input)"

definition scoped_roles :: "EvalRequest \<Rightarrow> Role list" where
  "scoped_roles input = map fst (er_Scoped input)"

definition rr_scoped :: "EvalRequest \<Rightarrow> Role list" where
  "rr_scoped input = graph_reachable data_roles_graph (scoped_roles input)"

definition user_permissions :: "EvalRequest \<Rightarrow> Permission list" where
  "user_permissions input = concat (map permissions_of (reachable_roles input))"

definition join_scope :: "string \<Rightarrow> string \<Rightarrow> string" where
  "join_scope perm scope = perm @ ''_'' @ scope"

definition scoped_user_permissions :: "EvalRequest \<Rightarrow> string list" where
  "scoped_user_permissions input = concat (map (\<lambda>role. concat (map (\<lambda>perm.
     map (join_scope perm) (map_get [] (map_of (er_Scoped input)) role)) (permissions_of role)))
     (rr_scoped input))"

definition has_admin_role :: "EvalRequest \<Rightarrow> bool" where
  "has_admin_role input = (''admin'' \<in> set (reachable_roles input))"

definition has_scoped_permission :: "EvalRequest \<Rightarrow> bool" where
  "has_scoped_permission input =
     (join_scope (er_Action input) (er_ObjectOwner input) \<in> set (scoped_user_permissions input))"

text \<open>
  An empty object owner is left out of the input (omitempty), so the first of the two rules on the object owner
  applies; sprintf on an input without it is undefined, hence the condition in the scoped rule.
\<close>

definition policy_allow :: "EvalRequest \<Rightarrow> bool" where
  "policy_allow input \<longleftrightarrow>
     has_admin_role input \<or>
     (er_ObjectOwner input = [] \<and> er_Action input \<in> set (user_permissions input)) \<or>
     (er_ObjectOwner input \<noteq> [] \<and> has_scoped_permission input)"

subsection \<open>The evaluator\<close>

text \<open>lo.Associate: the last scoped role of a name wins.\<close>

definition associate :: "ScopedRole list \<Rightarrow> (Role \<times> string list) list" where
  "associate srs = fold (\<lambda>sr m. AList.update (sr_Role sr) (sr_Scopes sr) m) srs []"

definition HasPermission :: "Authentication \<Rightarrow> Permission \<Rightarrow> bool" where
  "HasPermission a perm = policy_allow
     \<lparr>er_Roles = Roles a, er_Scoped = [], er_Action = perm, er_ObjectOwner = []\<rparr>"

definition HasObjectPermission :: "Authentication \<Rightarrow> Permission \<Rightarrow> string \<Rightarrow> bool" where
  "HasObjectPermission a perm objectOwner = policy_allow
     \<lparr>er_Roles = Roles a, er_Scoped = associate (ScopedRoles a), er_Action = perm,
      er_ObjectOwner = objectOwner\<rparr>"

definition HasTenantPermission :: "Authentication \<Rightarrow> Permission \<Rightarrow> 32 word \<Rightarrow> bool" where
  "HasTenantPermission a perm tenantID = HasObjectPermission a perm (sprint_u32 tenantID)"

subsection \<open>What the policy allows\<close>

definition admin_edges :: "Role list" where
  "admin_edges = [''racedata-provider'', ''track-manager'', ''tenant-manager'']"

definition expand_roles :: "Role set \<Rightarrow> Role set" where
  "expand_roles R = R \<union> (if ''admin'' \<in> R then set admin_edges else {})"

lemma expand_roles_idem: "expand_roles (expand_roles R) = expand_roles R"
  by (auto simp: expand_roles_def)

lemma data_edges: "map_get [] (map_of data_roles_graph) r = (if r = ''admin'' then admin_edges else [])"
  by (simp add: map_get_def data_roles_graph_def admin_edges_def)

lemma graph_step_set: "set (graph_step data_roles_graph rs) = expand_roles (set rs)"
  by (auto simp: graph_step_def data_edges expand_roles_def split: if_splits)

lemma graph_steps_set:
  "set ((graph_step data_roles_graph ^^ Suc n) rs) = expand_roles (set rs)"
  by (induction n) (simp_all add: graph_step_set expand_roles_idem)

lemma reachable_set:
  "set (graph_reachable data_roles_graph rs) = expand_roles (set rs) \<inter> set (map fst data_permissions)"
proof -
  have len: "length data_roles_graph = Suc 4" by (simp add: data_roles_graph_def)
  have nodes: "set (map fst data_roles_graph) = set (map fst data_permissions)"
    by (auto simp: data_roles_graph_def data_permissions_def)
  show ?thesis unfolding graph_reachable_def len
    using graph_steps_set[of 4 rs] nodes by (simp only: set_filter) blast
qed

lemma permissions_of_unknown: "role \<notin> set (map fst data_permissions) \<Longrightarrow> permissions_of role = []"
  by (simp add: permissions_of_def map_get_def map_of_eq_None_iff[symmetric])

text \<open>The permissions of a role, with those of the roles the administrator inherits.\<close>

definition grants :: "Role \<Rightarrow> Permission \<Rightarrow> bool" where
  "grants role perm \<longleftrightarrow> perm \<in> set (permissions_of role)"

lemma user_permissions_set:
  "perm \<in> set (user_permissions input) \<longleftrightarrow> (\<exists>r \<in> expand_roles (set (er_Roles input)). grants r perm)"
  using permissions_of_unknown
  by (fastforce simp: user_permissions_def reachable_roles_def reachable_set grants_def)

lemma has_admin_role_iff: "has_admin_role input \<longleftrightarrow> RoleAdmin \<in> set (er_Roles input)"
  by (auto simp: has_admin_role_def reachable_roles_def reachable_set expand_roles_def admin_edges_def
      data_permissions_def RoleAdmin_def)

text \<open>No permission of data.json contains an underscore, so the joined strings do not collide.\<close>

lemma split_underscore:
  "p @ CHR ''_'' # s = q @ CHR ''_'' # t \<Longrightarrow> CHR ''_'' \<notin> set p \<Longrightarrow> CHR ''_'' \<notin> set q \<Longrightarrow> p = q \<and> s = t"
  by (induction p arbitrary: q; case_tac q) auto

lemma granted_no_underscore: "grants role perm \<Longrightarrow> CHR ''_'' \<notin> set perm"
proof -
  assume "grants role perm"
  then have "role \<in> set (map fst data_permissions)" using permissions_of_unknown by (force simp: grants_def)
  with \<open>grants role perm\<close> show ?thesis
    by (auto simp: grants_def permissions_of_def data_permissions_def map_get_def)
qed

lemma has_scoped_permission_iff:
  assumes "CHR ''_'' \<notin> set (er_Action input)"
  shows "has_scoped_permission input \<longleftrightarrow>
    (\<exists>role scopes. map_of (er_Scoped input) role = Some scopes \<and> grants role (er_Action input) \<and>
       er_ObjectOwner input \<in> set scopes)"
proof
  assume "has_scoped_permission input"
  then obtain role perm s where role: "grants role perm"
    "s \<in> set (map_get [] (map_of (er_Scoped input)) role)"
    "join_scope (er_Action input) (er_ObjectOwner input) = join_scope perm s"
    by (auto simp: has_scoped_permission_def scoped_user_permissions_def grants_def)
  from role(3) granted_no_underscore[OF role(1)] assms have "er_Action input = perm" "er_ObjectOwner input = s"
    by (auto simp: join_scope_def dest: split_underscore)
  with role(1,2) show "\<exists>role scopes. map_of (er_Scoped input) role = Some scopes \<and>
      grants role (er_Action input) \<and> er_ObjectOwner input \<in> set scopes"
    by (cases "map_of (er_Scoped input) role") auto
next
  assume "\<exists>role scopes. map_of (er_Scoped input) role = Some scopes \<and>
      grants role (er_Action input) \<and> er_ObjectOwner input \<in> set scopes"
  then obtain role scopes where role: "map_of (er_Scoped input) role = Some scopes"
    "grants role (er_Action input)" "er_ObjectOwner input \<in> set scopes" by blast
  have "role \<in> set (map fst data_permissions)"
    using role(2) permissions_of_unknown by (force simp: grants_def)
  moreover have "role \<in> set (scoped_roles input)"
    using role(1) by (force simp: scoped_roles_def dest: map_of_SomeD)
  ultimately have "role \<in> set (rr_scoped input)"
    by (simp add: rr_scoped_def reachable_set expand_roles_def)
  with role show "has_scoped_permission input"
    unfolding has_scoped_permission_def scoped_user_permissions_def grants_def by force
qed

text \<open>The scopes of a role in the authentication: the last entry of that role.\<close>

lemma find_append_None: "find P xs = None \<Longrightarrow> find P (xs @ ys) = find P ys"
  by (induction xs) (auto split: if_splits)

lemma find_append_Some: "find P xs = Some x \<Longrightarrow> find P (xs @ ys) = Some x"
  by (induction xs) (auto split: if_splits)

lemma associate_map_of:
  "map_of (associate srs) role = map_option sr_Scopes (find (\<lambda>sr. sr_Role sr = role) (rev srs))"
proof -
  have "map_of (fold (\<lambda>sr m. AList.update (sr_Role sr) (sr_Scopes sr) m) srs m0) role =
      (case find (\<lambda>sr. sr_Role sr = role) (rev srs) of Some sr \<Rightarrow> Some (sr_Scopes sr) | None \<Rightarrow> map_of m0 role)"
    for m0
  proof (induction srs arbitrary: m0)
    case (Cons sr srs)
    then show ?case
      by (cases "find (\<lambda>sr. sr_Role sr = role) (rev srs)")
        (auto simp: update_conv' find_append_None find_append_Some)
  qed simp
  then show ?thesis by (simp add: associate_def option.case_eq_if map_option_case)
qed

end
