(* ===== verification/Loader_Cache.thy ===== *)
theory Loader_Cache
  imports Go_Prelude
begin

text \<open>
  The loading cache, pkg/utils/cache/cache.go and loadercache/loadercache.go: an entry is loaded on demand,
  served until it expires, and dropped on invalidation.  The loader is a client's function, an argument
  of the operations; the clock is read once per call, so that the time is an argument too.
\<close>

datatype 'e cache_error = ErrCacheMiss | LoadError 'e

record 'v item =
  item_data :: 'v
  item_expires :: "int option"

record ('k, 'v) loaderCache =
  items :: "'k \<Rightarrow> 'v item option"
  expiration :: int

definition WithExpiration :: "int \<Rightarrow> ('k, 'v) loaderCache \<Rightarrow> ('k, 'v) loaderCache" where
  "WithExpiration d c = c\<lparr>expiration := d\<rparr>"

definition NewCache :: "(('k, 'v) loaderCache \<Rightarrow> ('k, 'v) loaderCache) list \<Rightarrow> ('k, 'v) loaderCache" where
  "NewCache opts = fold (\<lambda>opt c. opt c) opts \<lparr>items = Map.empty, expiration = 5 * 60 * 1000000000\<rparr>"

type_synonym ('k, 'v, 'e) loaderFunc = "('k \<Rightarrow> 'e + 'v) option"

definition load ::
  "('k, 'v, 'e) loaderFunc \<Rightarrow> int \<Rightarrow> 'k \<Rightarrow> ('k, 'v) loaderCache \<Rightarrow>
     ('e cache_error + 'v) \<times> ('k, 'v) loaderCache" where
  "load loader now key c = (case loader of
     None \<Rightarrow> (Inl ErrCacheMiss, c)
   | Some f \<Rightarrow> (case f key of
       Inl e \<Rightarrow> (Inl (LoadError e), c)
     | Inr v \<Rightarrow> (Inr v, c\<lparr>items := (items c)(key \<mapsto>
         \<lparr>item_data = v, item_expires = Some (now + expiration c)\<rparr>)\<rparr>)))"

definition Get ::
  "('k, 'v, 'e) loaderFunc \<Rightarrow> int \<Rightarrow> 'k \<Rightarrow> ('k, 'v) loaderCache \<Rightarrow>
     ('e cache_error + 'v) \<times> ('k, 'v) loaderCache" where
  "Get loader now key c = (case items c key of
     None \<Rightarrow> load loader now key c
   | Some it \<Rightarrow>
       (case item_expires it of
          Some t \<Rightarrow> if t < now then load loader now key (c\<lparr>items := (items c)(key := None)\<rparr>)
                    else (Inr (item_data it), c)
        | None \<Rightarrow> (Inr (item_data it), c)))"

definition Invalidate :: "'k \<Rightarrow> ('k, 'v) loaderCache \<Rightarrow> ('k, 'v) loaderCache" where
  "Invalidate key c = c\<lparr>items := (items c)(key := None)\<rparr>"

text \<open>
  Bounded staleness.  src s k is what the loader gives for k at time s.  Every entry was loaded at most ttl ago
  and not before the key's last invalidation.
\<close>

definition fresh :: "(int \<Rightarrow> 'k \<Rightarrow> 'c \<Rightarrow> 'v option) \<Rightarrow> ('c \<Rightarrow> int) \<Rightarrow>
    (int \<Rightarrow> 'k \<Rightarrow> 'e + 'v) \<Rightarrow> ('k \<Rightarrow> int) \<Rightarrow> int \<Rightarrow> 'c \<Rightarrow> bool" where
  "fresh peek ttl src since now c \<longleftrightarrow> (\<forall>t k v. now \<le> t \<longrightarrow> peek t k c = Some v \<longrightarrow>
     (\<exists>s. since k \<le> s \<and> s \<le> now \<and> t \<le> s + ttl c \<and> src s k = Inr v))"

subsection \<open>The interface\<close>

text \<open>
  What a client of a cache relies on: peek is the entry that would be served at a time; a call answers with it or with what
  the loader gives now, an entry lives for ttl, and an invalidated key has no entry.
\<close>

locale cache =
  fixes peek :: "int \<Rightarrow> 'k \<Rightarrow> 'c \<Rightarrow> 'v option"
    and get :: "('k \<Rightarrow> 'e + 'v) \<Rightarrow> int \<Rightarrow> 'k \<Rightarrow> 'c \<Rightarrow> ('e cache_error + 'v) \<times> 'c"
    and invalidate :: "'k \<Rightarrow> 'c \<Rightarrow> 'c"
    and ttl :: "'c \<Rightarrow> int"
  assumes get_result: "fst (get f t k c) = (case peek t k c of Some v \<Rightarrow> Inr v
        | None \<Rightarrow> (case f k of Inl e \<Rightarrow> Inl (LoadError e) | Inr v \<Rightarrow> Inr v))"
    and get_loaded: "peek t k c = None \<Longrightarrow> f k = Inr v \<Longrightarrow>
        peek t' k (snd (get f t k c)) = (if t' \<le> t + ttl c then Some v else None)"
    and get_failed: "peek t k c = None \<Longrightarrow> f k = Inl e \<Longrightarrow> peek t' k (snd (get f t k c)) = None"
    and get_hit: "peek t k c \<noteq> None \<Longrightarrow> snd (get f t k c) = c"
    and get_other: "k' \<noteq> k \<Longrightarrow> peek t' k' (snd (get f t k c)) = peek t' k' c"
    and get_ttl: "ttl (snd (get f t k c)) = ttl c"
    and invalidate_peek: "peek t k' (invalidate k c) = (if k' = k then None else peek t k' c)"
    and invalidate_ttl: "ttl (invalidate k c) = ttl c"
begin

text \<open>After an invalidation the next answer comes from the loader.\<close>

lemma get_after_invalidate:
  "fst (get f t k (invalidate k c)) = (case f k of Inl e \<Rightarrow> Inl (LoadError e) | Inr v \<Rightarrow> Inr v)"
  by (simp add: get_result invalidate_peek)

lemma fresh_later: "fresh peek ttl src since now c \<Longrightarrow> now \<le> now' \<Longrightarrow> fresh peek ttl src since now' c"
  unfolding fresh_def by (meson order_trans)

lemma fresh_get:
  assumes "fresh peek ttl src since now c" "since k \<le> now"
  shows "fresh peek ttl src since now (snd (get (src now) now k c))"
proof (cases "peek now k c")
  case None
  show ?thesis unfolding fresh_def get_ttl
  proof (intro allI impI)
    fix t k' v
    assume t: "now \<le> t" and v: "peek t k' (snd (get (src now) now k c)) = Some v"
    show "\<exists>s. since k' \<le> s \<and> s \<le> now \<and> t \<le> s + ttl c \<and> src s k' = Inr v"
    proof (cases "k' = k")
      case True
      show ?thesis
      proof (cases "src now k")
        case (Inl e)
        with get_failed[OF None, of "src now" e t] v True show ?thesis by simp
      next
        case (Inr w)
        with get_loaded[OF None, of "src now" w t] v True assms(2) show ?thesis
          by (auto split: if_splits)
      qed
    next
      case False
      with get_other[OF False, of t "src now" now c] v t assms(1) show ?thesis by (auto simp: fresh_def)
    qed
  qed
next
  case (Some v)
  then show ?thesis using get_hit[of now k c "src now"] assms(1) by simp
qed

lemma fresh_invalidate:
  "fresh peek ttl src since now c \<Longrightarrow> fresh peek ttl src (since(k := now)) now (invalidate k c)"
  by (auto simp: fresh_def invalidate_peek invalidate_ttl split: if_splits)

lemma fresh_answer:
  assumes "fresh peek ttl src since now c" "fst (get (src now) now k c) = Inr v" "since k \<le> now" "0 \<le> ttl c"
  shows "\<exists>s. since k \<le> s \<and> s \<le> now \<and> now \<le> s + ttl c \<and> src s k = Inr v"
proof (cases "peek now k c")
  case None
  with assms show ?thesis by (auto simp: get_result split: sum.splits intro!: exI[of _ now])
next
  case (Some w)
  with assms show ?thesis by (auto simp: get_result fresh_def)
qed

end

subsection \<open>The loading cache has the interface\<close>

definition cached :: "int \<Rightarrow> 'k \<Rightarrow> ('k, 'v) loaderCache \<Rightarrow> 'v option" where
  "cached t k c = (case items c k of None \<Rightarrow> None
     | Some it \<Rightarrow> (case item_expires it of None \<Rightarrow> Some (item_data it)
         | Some e \<Rightarrow> if e < t then None else Some (item_data it)))"

interpretation lc: cache cached "\<lambda>f. Get (Some f)" Invalidate expiration
  by unfold_locales
    (auto simp: cached_def Get_def load_def Invalidate_def split: option.splits sum.splits if_splits)

subsection \<open>Sequences of calls\<close>

datatype 'k cache_call = CGet 'k | CInvalidate 'k

text \<open>The calls with their times, and the answers of the lookups.\<close>

fun run_calls :: "(int \<Rightarrow> 'k \<Rightarrow> 'e + 'v) \<Rightarrow> (int \<times> 'k cache_call) list \<Rightarrow> ('k, 'v) loaderCache \<Rightarrow>
    (int \<times> 'k \<times> ('e cache_error + 'v)) list \<times> ('k, 'v) loaderCache" where
  "run_calls src [] c = ([], c)"
| "run_calls src ((t, CGet k) # cs) c =
     (let (r, c') = Get (Some (src t)) t k c; (rs, c'') = run_calls src cs c' in ((t, k, r) # rs, c''))"
| "run_calls src ((t, CInvalidate k) # cs) c = run_calls src cs (Invalidate k c)"

abbreviation (input) lc_fresh ::
  "(int \<Rightarrow> 'k \<Rightarrow> 'e + 'v) \<Rightarrow> ('k \<Rightarrow> int) \<Rightarrow> int \<Rightarrow> ('k, 'v) loaderCache \<Rightarrow> bool" where
  "lc_fresh \<equiv> fresh cached expiration"

text \<open>The last invalidation of each key among the calls up to a time.\<close>

fun last_after :: "(int \<times> 'k cache_call) list \<Rightarrow> 'k \<Rightarrow> int \<Rightarrow> int" where
  "last_after [] k t0 = t0"
| "last_after ((t, CInvalidate j) # cs) k t0 = last_after cs k (if j = k then t else t0)"
| "last_after ((t, CGet j) # cs) k t0 = last_after cs k t0"

lemma Get_expiration [simp]: "expiration (snd (Get (Some f) t k c)) = expiration c"
  by (rule lc.get_ttl)

lemma Invalidate_expiration [simp]: "expiration (Invalidate k c) = expiration c"
  by (rule lc.invalidate_ttl)

text \<open>A Get after the calls cs: its answer was loaded within the expiration, after the last invalidation of the key.\<close>

lemma run_calls_fresh:
  assumes "sorted (now # map fst cs @ [t])" "lc_fresh src since now c" "\<And>k. since k \<le> now" "0 \<le> expiration c"
    and "fst (Get (Some (src t)) t k (snd (run_calls src cs c))) = Inr v"
  shows "\<exists>s. last_after cs k (since k) \<le> s \<and> s \<le> t \<and> t \<le> s + expiration c \<and> src s k = Inr v"
  using assms
proof (induction src cs c arbitrary: now since rule: run_calls.induct)
  case (1 src c)
  have "lc_fresh src since t c" using 1(1) by (intro lc.fresh_later[OF 1(2)]) simp
  moreover have "since k \<le> t" using 1(1) 1(3)[of k] by simp
  ultimately show ?case using lc.fresh_answer[of src since t c k v] 1(4,5) by simp
next
  case (2 src u j cs c)
  obtain r c' where g: "Get (Some (src u)) u j c = (r, c')" by force
  have le: "now \<le> u" using 2(2) by simp
  have since: "\<And>k. since k \<le> u" using 2(4) le order_trans by blast
  have "lc_fresh src since u c" using lc.fresh_later[OF 2(3) le] .
  from lc.fresh_get[OF this since, of j] have fresh: "lc_fresh src since u c'" by (simp add: g)
  have ttl: "expiration c' = expiration c" using Get_expiration[of "src u" u j c] by (simp add: g)
  have "fst (Get (Some (src t)) t k (snd (run_calls src cs c'))) = Inr v"
    using 2(6) by (simp add: g split_def Let_def)
  from 2(1)[OF g[symmetric] refl _ fresh since _ this] 2(2,5) ttl show ?case by simp
next
  case (3 src u j cs c)
  have le: "now \<le> u" using 3(2) by simp
  have "lc_fresh src since u c" using lc.fresh_later[OF 3(3) le] .
  from lc.fresh_invalidate[OF this, of j] have fresh: "lc_fresh src (since(j := u)) u (Invalidate j c)" .
  have since: "\<And>k. (since(j := u)) k \<le> u" using 3(4) le order_trans by fastforce
  have "fst (Get (Some (src t)) t k (snd (run_calls src cs (Invalidate j c)))) = Inr v" using 3(6) by simp
  from 3(1)[OF _ fresh since _ this] 3(2,5) show ?case by (simp split: if_splits)
qed

subsection \<open>Properties\<close>

text \<open>
  Whatever lookups and invalidations precede it, a lookup answers with a value that the loader gave
  for the key at most the expiration ago and not before the last invalidation of the key.
\<close>

theorem cache_bounded_staleness:
  assumes "sorted (map fst cs @ [t])" and "\<forall>x \<in> set (map fst cs @ [t]). t0 \<le> x" and "0 \<le> expiration c"
    and "items c = Map.empty"
    and "fst (Get (Some (src t)) t k (snd (run_calls src cs c))) = Inr v"
  shows "\<exists>s. last_after cs k t0 \<le> s \<and> s \<le> t \<and> t \<le> s + expiration c \<and> src s k = Inr v"
proof -
  have "lc_fresh src (\<lambda>_. t0) t0 c" using assms(4) by (simp add: fresh_def cached_def)
  moreover have "sorted (t0 # map fst cs @ [t])" using assms(1,2) by simp
  ultimately show ?thesis using run_calls_fresh[of t0 cs t src "\<lambda>_. t0" c k v] assms(3,5) by simp
qed

theorem cache_bounded_staleness_witness:
  "\<exists>s. 7 \<le> s \<and> s \<le> 9 \<and> (\<lambda>t k. Inr t :: nat + int) s ''x'' = Inr 9"
  using cache_bounded_staleness[of "[(5, CGet ''x''), (7, CInvalidate ''x'')]" 9 0
      "NewCache [WithExpiration 100] :: (string, int) loaderCache" "\<lambda>t k. Inr t :: nat + int" "''x''" 9]
  by (simp add: NewCache_def WithExpiration_def Get_def load_def Invalidate_def)

end
