(* ===== verification/Auth.thy ===== *)
theory Auth
  imports Permission Loader_Cache
begin

text \<open>
  Authentication of a request, pkg/grpc/auth/impl/auth_impl.go and grpc/cache/tenant_cache.go: the
  providers are asked in order (API key, session, anonymous) and the first that knows the caller decides.

  The hash of an API key and the repository behind the tenant cache are arguments; the session is the one the session
  interceptor has put into the context.
\<close>

record TenantMsg =
  tm_Name :: string
  tm_IsActive :: bool
  tm_ExternalId :: string

record TenantModel =
  mt_ID :: "32 word"
  mt_APIKey :: string
  mt_Tenant :: TenantMsg

record SessionInfo =
  sess_ID :: string
  sess_UserID :: string
  sess_Name :: string
  sess_Roles :: "Role list"
  sess_ScopedRoles :: "ScopedRole list"
  sess_TenantID :: "32 word"

text \<open>
  What the authenticators see: the api-token header (empty when it is absent), the session in the context and
  the time.
\<close>

record Request =
  rq_Token :: string
  rq_Session :: "SessionInfo option"
  rq_Now :: int

record 'e AuthConfig =
  adminToken :: string
  hashAPIKey :: "string \<Rightarrow> string"
  loadTenant :: "string \<Rightarrow> 'e + TenantModel"

type_synonym tenant_cache = "(string, TenantModel) loaderCache"

definition NewTenantCache :: tenant_cache where
  "NewTenantCache = NewCache []"

definition anon :: Authentication where
  "anon = SimpleAuth ''anon'' [] []"

definition anonymous_Authenticate :: "Authentication option" where
  "anonymous_Authenticate = Some anon"

definition tenant_auth :: "TenantModel \<Rightarrow> Authentication" where
  "tenant_auth t = TenantAuth (tm_Name (mt_Tenant t)) []
     [\<lparr>sr_Role = RoleRaceDataProvider, sr_Scopes = [sprint_u32 (mt_ID t)]\<rparr>] (mt_ID t)"

text \<open>Of the error result only its presence matters: handleAuth logs it and goes on.\<close>

definition apiKey_Authenticate ::
  "'e AuthConfig \<Rightarrow> Request \<Rightarrow> tenant_cache \<Rightarrow> Authentication option \<times> tenant_cache" where
  "apiKey_Authenticate cfg rq c =
     (if rq_Token rq = [] then (None, c)
      else if rq_Token rq = adminToken cfg then (Some (SimpleAuth ''admin'' [RoleAdmin] []), c)
      else case Get (Some (loadTenant cfg)) (rq_Now rq) (hashAPIKey cfg (rq_Token rq)) c of
        (Inr t, c') \<Rightarrow> (if tm_IsActive (mt_Tenant t) then Some (tenant_auth t) else None, c')
      | (Inl _, c') \<Rightarrow> (None, c'))"

definition session_Authenticate :: "Request \<Rightarrow> Authentication option" where
  "session_Authenticate rq = (case rq_Session rq of
     None \<Rightarrow> None
   | Some s \<Rightarrow> Some (SessionAuth (sess_ID s) (sess_UserID s) (sess_Name s) (sess_Roles s)
                       (sess_ScopedRoles s) 0))"

definition handleAuth ::
  "'e AuthConfig \<Rightarrow> Request \<Rightarrow> tenant_cache \<Rightarrow> Authentication option \<times> tenant_cache" where
  "handleAuth cfg rq c = (case apiKey_Authenticate cfg rq c of
     (Some a, c') \<Rightarrow> (Some a, c')
   | (None, c') \<Rightarrow> (case session_Authenticate rq of
       Some a \<Rightarrow> (Some a, c')
     | None \<Rightarrow> (anonymous_Authenticate, c')))"

subsection \<open>Scoped permissions\<close>

lemma graph_reachable_none: "graph_reachable data_roles_graph [] = []"
  using reachable_set[of "[]"] by (simp add: expand_roles_def)

lemma permission_by_scope_iff:
  assumes "objectOwner \<noteq> []" and "CHR ''_'' \<notin> set perm"
  shows "HasObjectPermission a perm objectOwner \<longleftrightarrow> RoleAdmin \<in> set (Roles a) \<or>
    (\<exists>role sr. find (\<lambda>sr. sr_Role sr = role) (rev (ScopedRoles a)) = Some sr \<and> grants role perm \<and>
       objectOwner \<in> set (sr_Scopes sr))"
proof -
  let ?in = "\<lparr>er_Roles = Roles a, er_Scoped = associate (ScopedRoles a), er_Action = perm,
    er_ObjectOwner = objectOwner\<rparr>"
  have "has_scoped_permission ?in \<longleftrightarrow>
      (\<exists>role scopes. map_of (associate (ScopedRoles a)) role = Some scopes \<and> grants role perm \<and>
        objectOwner \<in> set scopes)"
    using has_scoped_permission_iff[of ?in] assms(2) by simp
  then show ?thesis using assms(1)
    by (auto simp: HasObjectPermission_def policy_allow_def has_admin_role_iff associate_map_of)
qed

subsection \<open>Properties\<close>

text \<open>
  A permission that does not concern an object is granted exactly to the administrator and to the roles
  that list it; scoped roles do not count.
\<close>

theorem permission_by_role:
  "HasPermission a perm \<longleftrightarrow> RoleAdmin \<in> set (Roles a) \<or> (\<exists>r \<in> set (Roles a). grants r perm)"
  by (auto simp: HasPermission_def policy_allow_def has_admin_role_iff user_permissions_set
      expand_roles_def RoleAdmin_def split: if_splits)

text \<open>
  A permission on an object with an owner is granted exactly to the administrator and to the scoped roles that list the
  permission and whose scopes contain the owner.
\<close>

theorem permission_by_scope:
  assumes "objectOwner \<noteq> []" and "CHR ''_'' \<notin> set perm"
  shows "HasObjectPermission a perm objectOwner \<longleftrightarrow> RoleAdmin \<in> set (Roles a) \<or>
    (\<exists>role sr. find (\<lambda>sr. sr_Role sr = role) (rev (ScopedRoles a)) = Some sr \<and> grants role perm \<and>
       objectOwner \<in> set (sr_Scopes sr))"
  by (rule permission_by_scope_iff) (rule assms)+

theorem permission_by_scope_witness:
  "HasObjectPermission (SimpleAuth ''p'' [] [\<lparr>sr_Role = RoleEditor, sr_Scopes = [''A'']\<rparr>])
     PermissionUpdateEvent ''A''"
proof -
  have "CHR ''_'' \<notin> set PermissionUpdateEvent" "(''A'' :: string) \<noteq> []"
    "grants RoleEditor PermissionUpdateEvent"
    by (simp_all add: PermissionUpdateEvent_def grants_def permissions_of_def RoleEditor_def data_permissions_def)
  from permission_by_scope[OF this(2,1), of "SimpleAuth ''p'' [] [\<lparr>sr_Role = RoleEditor, sr_Scopes = [''A'']\<rparr>]"] this(3)
  show ?thesis by auto
qed

text \<open>
  A caller who is authenticated by the API key of a tenant holds a permission for a tenant exactly when it is that tenant
  and the permission is one of a race data provider.
\<close>

theorem tenant_isolation:
  assumes "CHR ''_'' \<notin> set perm"
  shows "HasTenantPermission (tenant_auth t) perm i \<longleftrightarrow> i = mt_ID t \<and> grants RoleRaceDataProvider perm"
  using permission_by_scope_iff[OF sprint_u32_nonempty assms, of "tenant_auth t" i]
  by (auto simp: HasTenantPermission_def tenant_auth_def sprint_u32_inj)


theorem tenant_isolation_witness:
  "HasTenantPermission (tenant_auth \<lparr>mt_ID = 7, mt_APIKey = [], mt_Tenant = \<lparr>tm_Name = ''t'', tm_IsActive = True, tm_ExternalId = []\<rparr>\<rparr>)
     PermissionPostRacedata 7 \<and>
   \<not> HasTenantPermission (tenant_auth \<lparr>mt_ID = 7, mt_APIKey = [], mt_Tenant = \<lparr>tm_Name = ''t'', tm_IsActive = True, tm_ExternalId = []\<rparr>\<rparr>)
     PermissionPostRacedata 8"
proof -
  have "CHR ''_'' \<notin> set PermissionPostRacedata" "grants RoleRaceDataProvider PermissionPostRacedata"
    by (simp_all add: PermissionPostRacedata_def grants_def permissions_of_def RoleRaceDataProvider_def
        data_permissions_def)
  with tenant_isolation[OF this(1)] show ?thesis by simp
qed


end
