(* ===== verification/Event_Store.thy ===== *)
theory Event_Store
  imports Event_Lookup
begin

text \<open>
  The interface of the event registry as its clients (the provider service, the local proxy) rely on it, with
  what they derive from it, and its interpretation on the event lookup.  Also the watchdog and the
  data an event's own listeners collect.
\<close>

locale event_store =
  fixes inv :: "'s \<Rightarrow> bool"
    and get :: "string \<Rightarrow> 's \<Rightarrow> 'd option"
    and add :: "'a \<Rightarrow> 's \<Rightarrow> 'd option \<times> 's"
    and remove :: "string \<Rightarrow> 's \<Rightarrow> 's run"
    and key :: "'a \<Rightarrow> string"
  assumes add_new: "inv s \<Longrightarrow> get (key a) s = None \<Longrightarrow>
      \<exists>d s'. add a s = (Some d, s') \<and> inv s' \<and> get (key a) s' = Some d \<and>
        (\<forall>k. k \<noteq> key a \<longrightarrow> get k s' = get k s)"
    and add_dup: "inv s \<Longrightarrow> get (key a) s \<noteq> None \<Longrightarrow> add a s = (None, s)"
    and remove_ok: "inv s \<Longrightarrow> \<exists>s'. remove k s = Some s' \<and> inv s' \<and> get k s' = None \<and>
        (\<forall>k'. k' \<noteq> k \<longrightarrow> get k' s' = get k' s)"
begin

lemma add_inv: "inv s \<Longrightarrow> inv (snd (add a s))"
  using add_new[of s a] add_dup[of s a] by (cases "get (key a) s") fastforce+

lemma add_present: "inv s \<Longrightarrow> get (key a) (snd (add a s)) \<noteq> None"
  using add_new[of s a] add_dup[of s a] by (cases "get (key a) s") fastforce+

text \<open>The first of two additions of a key wins.\<close>

lemma add_twice:
  assumes "inv s" "key b = key a"
  shows "add b (snd (add a s)) = (None, snd (add a s))"
  using add_dup[OF add_inv[OF assms(1)], of b] add_present[OF assms(1), of a] assms(2) by simp

text \<open>After a removal the key can be added again, and everything else is as before.\<close>

lemma remove_add:
  assumes "inv s" "remove (key a) s = Some t"
  shows "\<exists>d u. add a t = (Some d, u) \<and> get (key a) u = Some d \<and>
    (\<forall>k. k \<noteq> key a \<longrightarrow> get k u = get k s)"
proof -
  have t: "inv t" "get (key a) t = None" "\<forall>k. k \<noteq> key a \<longrightarrow> get k t = get k s"
    using remove_ok[OF assms(1), of "key a"] assms(2) by auto
  from add_new[OF t(1,2)] t(3) show ?thesis by metis
qed

lemma add_remove_get:
  assumes "inv s" "get (key a) s = None"
  shows "\<exists>t. remove (key a) (snd (add a s)) = Some t \<and> (\<forall>k. get k t = get k s)"
proof -
  obtain d s' where s': "add a s = (Some d, s')" "inv s'" "\<forall>k. k \<noteq> key a \<longrightarrow> get k s' = get k s"
    using add_new[OF assms] by blast
  obtain t where t: "remove (key a) s' = Some t" "get (key a) t = None"
      "\<forall>k. k \<noteq> key a \<longrightarrow> get k t = get k s'"
    using remove_ok[OF s'(2), of "key a"] by blast
  have "get k t = get k s" for k using s'(3) t(2,3) assms(2) by (cases "k = key a") auto
  with s'(1) t(1) show ?thesis by auto
qed

end

subsection \<open>Events and their servers\<close>

definition epd_ok :: "EventProcessingData \<Rightarrow> bool" where
  "epd_ok epd \<longleftrightarrow> reach (AnalysisBroadcast epd) \<and> reach (RacestateBroadcast epd) \<and>
     reach (DriverDataBroadcast epd) \<and> reach (SpeedmapBroadcast epd) \<and>
     reach (ReplayInfoBroadcast epd) \<and> reach (SnapshotBroadcast epd)"

lemma own_listener_reach: "reach own_listener"
proof -
  have "serve (Subscribe own_chan) NewBroadcastServer = Some own_listener"
    by (simp add: client_defs own_listener_def NewBroadcastServer_def)
  moreover have "own_chan \<notin> set (subscribed NewBroadcastServer)" "serving NewBroadcastServer"
    by (simp_all add: NewBroadcastServer_def)
  ultimately show ?thesis using subscribe[OF start] by blast
qed

lemma new_epd_ok [simp]: "epd_ok (new_epd event track mode owner now)"
  by (simp add: epd_ok_def new_epd_def Let_def own_listener_reach start)

lemma new_epd_event [simp]: "epd_Event (new_epd event track mode owner now) = event"
  by (simp add: new_epd_def Let_def)

lemma end_server_ok: "reach b \<Longrightarrow> \<exists>t. end_server b = Some t \<and> reach t \<and> \<not> serving t"
  using bcast_shutdown_step by (auto simp: end_server_def)

lemma epd_Close_ok: "epd_ok epd \<Longrightarrow> \<exists>t. epd_Close epd = Some t \<and> epd_ok t"
proof -
  assume "epd_ok epd"
  then have r: "reach (AnalysisBroadcast epd)" "reach (RacestateBroadcast epd)" "reach (DriverDataBroadcast epd)"
    "reach (SpeedmapBroadcast epd)" "reach (ReplayInfoBroadcast epd)" "reach (SnapshotBroadcast epd)"
    by (simp_all add: epd_ok_def)
  from end_server_ok[OF r(1)] end_server_ok[OF r(2)] end_server_ok[OF r(3)] end_server_ok[OF r(4)]
    end_server_ok[OF r(5)] end_server_ok[OF r(6)]
  show ?thesis by (auto simp: epd_Close_def epd_ok_def)
qed

subsection \<open>Invariant of the lookup\<close>

definition entries_ok :: "(string \<Rightarrow> EventProcessingData option) \<Rightarrow> bool" where
  "entries_ok m \<longleftrightarrow> (\<forall>k epd. m k = Some epd \<longrightarrow> ev_Key (epd_Event epd) = k \<and> epd_ok epd)"

definition lookup_inv :: "EventLookup \<Rightarrow> bool" where
  "lookup_inv el \<longleftrightarrow> distinct (map fst (lookup el)) \<and> entries_ok (map_of (lookup el))"

lemma entries_ok_simps:
  "entries_ok m \<Longrightarrow> ev_Key (epd_Event epd) = k \<Longrightarrow> epd_ok epd \<Longrightarrow> entries_ok (m(k \<mapsto> epd))"
  "entries_ok m \<Longrightarrow> entries_ok (m(k := None))"
  "entries_ok (\<lambda>k. None)"
  by (auto simp: entries_ok_def)

lemma entries_okD: "entries_ok m \<Longrightarrow> m k = Some epd \<Longrightarrow> ev_Key (epd_Event epd) = k \<and> epd_ok epd"
  by (simp add: entries_ok_def)

lemma lookup_inv_new [simp]: "lookup_inv (NewEventLookup [WithStaleDuration d])"
  by (simp add: lookup_inv_def NewEventLookup_def WithStaleDuration_def entries_ok_simps)

definition get_by_key :: "string \<Rightarrow> EventLookup \<Rightarrow> EventProcessingData option" where
  "get_by_key k el = (case GetEvent (EventSelector_Key k) el of Inr epd \<Rightarrow> Some epd | Inl _ \<Rightarrow> None)"

lemma get_by_key_map: "get_by_key k el = map_of (lookup el) k"
  by (simp add: get_by_key_def GetEvent_def split: option.splits)

text \<open>The arguments of AddEvent as one value.\<close>

record add_args =
  aa_event :: Event
  aa_track :: Track
  aa_mode :: RecordingMode
  aa_owner :: string
  aa_now :: timestamp

definition add_event :: "add_args \<Rightarrow> EventLookup \<Rightarrow> EventProcessingData option \<times> EventLookup" where
  "add_event a = AddEvent (aa_event a) (aa_track a) (aa_mode a) (aa_owner a) (aa_now a)"

definition remove_by_key :: "string \<Rightarrow> EventLookup \<Rightarrow> EventLookup run" where
  "remove_by_key k = RemoveEvent (EventSelector_Key k)"

lemma AddEvent_inv: "lookup_inv el \<Longrightarrow> lookup_inv (snd (AddEvent e t m own now el))"
  by (simp add: lookup_inv_def AddEvent_def Let_def distinct_update update_conv' entries_ok_simps)

lemma delete_inv:
  "lookup_inv el \<Longrightarrow> lookup_inv (el\<lparr>lookup := AList.delete k (lookup el)\<rparr>)"
  by (simp add: lookup_inv_def distinct_delete delete_conv' entries_ok_simps)

lemma RemoveEvent_key:
  assumes "lookup_inv el"
  shows "RemoveEvent (EventSelector_Key k) el = Some (el\<lparr>lookup := AList.delete k (lookup el)\<rparr>)"
proof (cases "map_of (lookup el) k")
  case None
  then have "AList.delete k (lookup el) = lookup el"
    by (simp add: map_of_eq_None_iff)
  with None show ?thesis by (simp add: RemoveEvent_def GetEvent_def)
next
  case (Some epd)
  then have epd: "ev_Key (epd_Event epd) = k" "epd_ok epd"
    using assms entries_okD unfolding lookup_inv_def by blast+
  obtain t where "epd_Close epd = Some t" using epd_Close_ok[OF epd(2)] by blast
  with Some epd(1) show ?thesis by (simp add: RemoveEvent_def GetEvent_def)
qed

interpretation event_reg: event_store lookup_inv get_by_key add_event remove_by_key "\<lambda>a. ev_Key (aa_event a)"
proof unfold_locales
  fix el a
  assume inv: "lookup_inv el"
  show "\<exists>d s'. add_event a el = (Some d, s') \<and> lookup_inv s' \<and> get_by_key (ev_Key (aa_event a)) s' = Some d \<and>
      (\<forall>k. k \<noteq> ev_Key (aa_event a) \<longrightarrow> get_by_key k s' = get_by_key k el)"
    if "get_by_key (ev_Key (aa_event a)) el = None"
    using that AddEvent_inv[OF inv, of "aa_event a" "aa_track a" "aa_mode a" "aa_owner a" "aa_now a"]
    by (simp add: add_event_def AddEvent_def Let_def get_by_key_map update_conv')
  show "add_event a el = (None, el)" if "get_by_key (ev_Key (aa_event a)) el \<noteq> None"
    using that by (simp add: add_event_def AddEvent_def get_by_key_map)
next
  fix el k
  assume inv: "lookup_inv el"
  show "\<exists>s'. remove_by_key k el = Some s' \<and> lookup_inv s' \<and> get_by_key k s' = None \<and>
      (\<forall>k'. k' \<noteq> k \<longrightarrow> get_by_key k' s' = get_by_key k' el)"
    using RemoveEvent_key[OF inv, of k] delete_inv[OF inv, of k]
    by (simp add: remove_by_key_def get_by_key_map delete_conv')
qed

subsection \<open>Watchdog\<close>

lemma remove_stale_ok:
  assumes "epd_ok epd"
  shows "remove_stale epd el = Some (el\<lparr>lookup := AList.delete (ev_Key (epd_Event epd)) (lookup el),
    deletedEvents := deletedEvents el @ (if hasDeleteEventCB el then [ev_Key (epd_Event epd)] else [])\<rparr>)"
  using epd_Close_ok[OF assms] by (auto simp: remove_stale_def Let_def)

definition key_of :: "EventProcessingData \<Rightarrow> string" where
  "key_of epd = ev_Key (epd_Event epd)"

lemma remove_stale_loop:
  assumes "\<forall>epd \<in> set es. epd_ok epd"
  shows "go_for remove_stale es el = Some (el\<lparr>lookup := filter (\<lambda>x. fst x \<notin> set (map key_of es)) (lookup el),
    deletedEvents := deletedEvents el @ (if hasDeleteEventCB el then map key_of es else [])\<rparr>)"
  using assms
proof (induction es arbitrary: el)
  case (Cons epd es)
  have "filter (\<lambda>x. fst x \<notin> set (map key_of es)) (AList.delete (key_of epd) xs) =
      filter (\<lambda>x. fst x \<notin> set (map key_of (epd # es))) xs" for xs :: "(string \<times> EventProcessingData) list"
    by (auto simp: AList.delete_eq intro!: filter_cong)
  with Cons show ?case by (simp add: remove_stale_ok key_of_def[symmetric])
qed simp

lemma lookup_key_of: "lookup_inv el \<Longrightarrow> (k, epd) \<in> set (lookup el) \<Longrightarrow> key_of epd = k \<and> epd_ok epd"
  unfolding lookup_inv_def key_of_def by (metis entries_okD map_of_is_SomeI)

subsection \<open>What the event's own listeners collect\<close>

text \<open>The messages the processor has sent, published in order, each with the listeners that take it.\<close>

definition publish_all :: "(Sent \<times> (chan \<Rightarrow> bool)) list \<Rightarrow> EventProcessingData \<Rightarrow> EventProcessingData run" where
  "publish_all es epd = go_for (\<lambda>(e, takes). publish_sent takes e) es epd"

definition epd_serving :: "EventProcessingData \<Rightarrow> bool" where
  "epd_serving epd \<longleftrightarrow> epd_ok epd \<and> serving (AnalysisBroadcast epd) \<and> serving (RacestateBroadcast epd) \<and>
     serving (DriverDataBroadcast epd) \<and> serving (SpeedmapBroadcast epd) \<and>
     serving (ReplayInfoBroadcast epd) \<and> serving (SnapshotBroadcast epd)"

text \<open>The data of an event apart from its servers.\<close>

definition own_data :: "EventProcessingData \<Rightarrow> EventProcessingData" where
  "own_data epd = epd\<lparr>AnalysisBroadcast := NewBroadcastServer, RacestateBroadcast := NewBroadcastServer,
     DriverDataBroadcast := NewBroadcastServer, SpeedmapBroadcast := NewBroadcastServer,
     ReplayInfoBroadcast := NewBroadcastServer, SnapshotBroadcast := NewBroadcastServer\<rparr>"

lemma serve_source_step:
  assumes "reach b" "serving b"
  shows "\<exists>t. serve_source d takes b = Some t \<and> reach t \<and> serving t"
  using serve_source_ok[OF reach_inv[OF assms(1)] assms(2), of d takes] message[OF assms] assms(2)
  by (auto simp: serve_source_def simp del: serve.simps)

lemma broadcast_sent_ok:
  assumes "epd_serving epd"
  shows "\<exists>t. broadcast_sent e takes epd = Some t \<and> epd_serving t \<and> own_data t = own_data epd"
proof (cases e)
  case (SentAnalysis d)
  from serve_source_step[of "AnalysisBroadcast epd" d takes] assms SentAnalysis show ?thesis
    by (auto simp: epd_serving_def epd_ok_def own_data_def)
next
  case (SentRacestate d)
  from serve_source_step[of "RacestateBroadcast epd" d takes] assms SentRacestate show ?thesis
    by (auto simp: epd_serving_def epd_ok_def own_data_def)
next
  case (SentDriverData d)
  from serve_source_step[of "DriverDataBroadcast epd" d takes] assms SentDriverData show ?thesis
    by (auto simp: epd_serving_def epd_ok_def own_data_def)
next
  case (SentSpeedmap d)
  from serve_source_step[of "SpeedmapBroadcast epd" d takes] assms SentSpeedmap show ?thesis
    by (auto simp: epd_serving_def epd_ok_def own_data_def)
next
  case (SentReplayInfo d)
  from serve_source_step[of "ReplayInfoBroadcast epd" d takes] assms SentReplayInfo show ?thesis
    by (auto simp: epd_serving_def epd_ok_def own_data_def)
next
  case (SentSnapshot d)
  from serve_source_step[of "SnapshotBroadcast epd" d takes] assms SentSnapshot show ?thesis
    by (auto simp: epd_serving_def epd_ok_def own_data_def)
qed

lemma own_receive_ok:
  "epd_serving (own_receive e epd) = epd_serving epd"
  "own_data (own_receive e epd) = own_receive e (own_data epd)"
  by (cases e; simp add: epd_serving_def epd_ok_def own_data_def)+

lemma publish_all_ok:
  assumes "epd_serving epd"
  shows "\<exists>t. publish_all es epd = Some t \<and> epd_serving t \<and>
    own_data t = fold own_receive (map fst (filter (\<lambda>(e, takes). takes own_chan) es)) (own_data epd)"
  using assms
proof (induction es arbitrary: epd)
  case Nil
  then show ?case by (simp add: publish_all_def)
next
  case (Cons x es)
  obtain e takes where x: "x = (e, takes)" by force
  obtain t where t: "broadcast_sent e takes epd = Some t" "epd_serving t" "own_data t = own_data epd"
    using broadcast_sent_ok[OF Cons.prems] by blast
  let ?t = "if takes own_chan then own_receive e t else t"
  have "epd_serving ?t" "own_data ?t = (if takes own_chan then own_receive e (own_data epd) else own_data epd)"
    using t by (simp_all add: own_receive_ok)
  with Cons.IH[of ?t] t(1) x show ?case
    by (auto simp: publish_all_def publish_sent_def)
qed

subsection \<open>Properties\<close>

definition demo_event :: "uint32 \<Rightarrow> string \<Rightarrow> Event" where
  "demo_event i k = \<lparr>ev_Id = i, ev_Key = k, ev_Name = k, ev_Description = [], ev_RaceloggerVersion = [],
     ev_EventTime = 0, ev_TrackId = 1, ev_Sessions = [\<lparr>es_Num = 0, es_Type = SESSION_TYPE_RACE\<rparr>],
     ev_ReplayInfo = None, ev_TeamRacing = False, ev_MultiClass = False, ev_NumCarTypes = 1,
     ev_NumCarClasses = 1, ev_IrSessionId = 0, ev_IrSubSessionId = 0, ev_PitSpeed = f32_of_int 80, ev_TireInfos = []\<rparr>"

definition demo_track :: Track where
  "demo_track = \<lparr>tr_Id = 1, tr_Name = ''track'', tr_PitInfo = None, tr_ShortName = [], tr_Config = [],
     tr_Length = f32_zero, tr_PitSpeed = f32_zero, tr_Sectors = []\<rparr>"

definition demo_lookup :: EventLookup where
  "demo_lookup = snd (AddEvent (demo_event 1 ''a'') demo_track (RECORDING_MODE_OTHER 1) ''1'' 0
     (snd (AddEvent (demo_event 2 ''b'') demo_track (RECORDING_MODE_OTHER 1) ''2'' 100
       (SetDeleteEventCB (NewEventLookup [WithStaleDuration 50])))))"

lemma demo_lookup_entries:
  "lookup demo_lookup =
     [(''b'', new_epd (demo_event 2 ''b'') demo_track (RECORDING_MODE_OTHER 1) ''2'' 100),
      (''a'', new_epd (demo_event 1 ''a'') demo_track (RECORDING_MODE_OTHER 1) ''1'' 0)]"
  "staleDuration demo_lookup = 50" "hasDeleteEventCB demo_lookup" "deletedEvents demo_lookup = []"
  by (simp_all add: demo_lookup_def AddEvent_def SetDeleteEventCB_def NewEventLookup_def
      WithStaleDuration_def demo_event_def Let_def)

lemma demo_lookup_inv: "lookup_inv demo_lookup"
proof -
  have "lookup_inv (SetDeleteEventCB (NewEventLookup [WithStaleDuration 50]))"
    by (simp add: lookup_inv_def SetDeleteEventCB_def NewEventLookup_def WithStaleDuration_def entries_ok_simps)
  then show ?thesis unfolding demo_lookup_def by (intro AddEvent_inv)
qed

text \<open>
  An event key is registered once: a second registration is refused and leaves the lookup alone, until
  the event is removed, after which the key is free again; all other events are untouched throughout.
\<close>

theorem lookup_register_once:
  assumes "lookup_inv el" and "ev_Key (aa_event b) = ev_Key (aa_event a)"
  defines "el1 \<equiv> snd (add_event a el)"
  shows "add_event b el1 = (None, el1) \<and>
    (\<exists>el2 d el3. remove_by_key (ev_Key (aa_event a)) el1 = Some el2 \<and> add_event b el2 = (Some d, el3) \<and>
      (\<forall>k. k \<noteq> ev_Key (aa_event a) \<longrightarrow> get_by_key k el3 = get_by_key k el1))"
proof -
  have inv: "lookup_inv el1" using event_reg.add_inv[OF assms(1)] by (simp add: el1_def)
  obtain el2 where el2: "remove_by_key (ev_Key (aa_event b)) el1 = Some el2"
    using event_reg.remove_ok[OF inv] by blast
  from event_reg.remove_add[OF inv el2] event_reg.add_twice[OF assms(1,2)] el2 assms(2)
  show ?thesis by (auto simp: el1_def)
qed

theorem lookup_register_once_witness:
  "let a = \<lparr>aa_event = demo_event 3 ''c'', aa_track = demo_track, aa_mode = RECORDING_MODE_OTHER 1,
       aa_owner = ''1'', aa_now = 0\<rparr>
   in add_event a (snd (add_event a demo_lookup)) = (None, snd (add_event a demo_lookup))"
  unfolding Let_def by (rule lookup_register_once[OF demo_lookup_inv refl, THEN conjunct1])

text \<open>
  When the ids of the live events are distinct, looking an event up by its id gives the event that its key
  gives, and an unknown id is an error.
\<close>

theorem lookup_by_id:
  assumes "lookup_inv el" and "distinct (map (\<lambda>epd. ev_Id (epd_Event epd)) (GetEvents el))"
    and "epd \<in> set (GetEvents el)"
  shows "GetEvent (EventSelector_Id (ev_Id (epd_Event epd))) el = Inr epd \<and>
    GetEvent (EventSelector_Key (ev_Key (epd_Event epd))) el = Inr epd"
proof -
  obtain k where k: "(k, epd) \<in> set (lookup el)" using assms(3) by (auto simp: GetEvents_def)
  have key: "ev_Key (epd_Event epd) = k" using lookup_key_of[OF assms(1) k] by (simp add: key_of_def)
  have "map_of (lookup el) k = Some epd" using assms(1) k by (simp add: lookup_inv_def)
  moreover have "find (\<lambda>(k, v). ev_Id (epd_Event v) = ev_Id (epd_Event epd)) xs = Some (k, epd)"
    if "(k, epd) \<in> set xs" "distinct (map (\<lambda>x. ev_Id (epd_Event (snd x))) xs)" for xs
    using that by (induction xs) force+
  ultimately show ?thesis using assms(2) k key
    by (simp add: GetEvent_def GetEvents_def o_def)
qed

theorem lookup_by_id_witness:
  "\<exists>epd. GetEvent (EventSelector_Id 1) demo_lookup = Inr epd \<and> GetEvent (EventSelector_Key ''a'') demo_lookup = Inr epd"
proof -
  let ?e = "new_epd (demo_event 1 ''a'') demo_track (RECORDING_MODE_OTHER 1) ''1'' 0"
  have "?e \<in> set (GetEvents demo_lookup)"
    "distinct (map (\<lambda>epd. ev_Id (epd_Event epd)) (GetEvents demo_lookup))"
    by (simp_all add: GetEvents_def demo_lookup_entries demo_event_def)
  from lookup_by_id[OF demo_lookup_inv this(2,1)] show ?thesis by (simp add: demo_event_def)
qed



text \<open>
  The event's own listeners see the published messages in order: from those they take in time they
  keep the last of each kind and all snapshots, whatever the other listeners do, and
  nothing blocks or panics while the servers of the event serve.
\<close>

theorem event_collects_data:
  assumes "epd_serving epd"
  shows "\<exists>t. publish_all es epd = Some t \<and> epd_serving t \<and>
    own_data t = fold own_receive (map fst (filter (\<lambda>(e, takes). takes own_chan) es)) (own_data epd)"
  by (rule publish_all_ok) (rule assms)

theorem event_collects_data_witness:
  "\<exists>t. publish_all [(SentReplayInfo ReplayInfo0, \<lambda>_. True), (SentRacestate demo_payload, \<lambda>_. False)]
       (new_epd (demo_event 1 ''a'') demo_track (RECORDING_MODE_OTHER 1) ''1'' 0) = Some t \<and>
     LastReplayInfo t = Some ReplayInfo0 \<and> LastRaceState t = None"
proof -
  let ?e = "new_epd (demo_event 1 ''a'') demo_track (RECORDING_MODE_OTHER 1) ''1'' 0"
  have "epd_serving ?e" using new_epd_ok
    by (simp add: epd_serving_def) (simp add: new_epd_def Let_def own_listener_def NewBroadcastServer_def)
  from event_collects_data[OF this, of "[(SentReplayInfo ReplayInfo0, \<lambda>_. True),
      (SentRacestate demo_payload, \<lambda>_. False)]"]
  obtain t where t: "publish_all [(SentReplayInfo ReplayInfo0, \<lambda>_. True), (SentRacestate demo_payload, \<lambda>_. False)] ?e
      = Some t" "own_data t = own_receive (SentReplayInfo ReplayInfo0) (own_data ?e)" by auto
  have "LastReplayInfo (own_data t) = Some ReplayInfo0" "LastRaceState (own_data t) = None"
    unfolding t(2) by (simp_all add: own_data_def new_epd_def Let_def)
  with t(1) show ?thesis by (auto simp: own_data_def)
qed

end
