(* ===== verification/State_Server.thy ===== *)
theory State_Server
  imports Range_Stream Auth Event_Store
begin

text \<open>
  The publishing handlers of pkg/grpc/server/state/state_server.go, over the repository interface of
  pkg/grpc/repository/api/api.go and its transactions.

  The database is a state of any type: the repositories are functions on it and so is the transaction
  manager, which runs a function that may fail and may set one variable of its caller (the id of a created row).
  What the handlers give to the data proxy is kept in a list.  A panic is None.  The handlers get the
  authentication and the time as arguments; logging and tracing are left out.
\<close>

subsection \<open>The repositories and transactions\<close>

record ExtraInfo =
  ei_PitInfo :: "TrackPitInfo option"

record PublishEventExtraInfoRequest =
  pxr_Event :: "EventSelector option"
  pxr_ExtraInfo :: "ExtraInfo option"

record ('db, 'e) Repositories =
  Racestate_CreateRacestate :: "int \<Rightarrow> PublishStateRequest \<Rightarrow> 'db \<Rightarrow> (('e + int) \<times> 'db) run"
  Racestate_CreateDummyRacestateInfo :: "int \<Rightarrow> timestamp \<Rightarrow> f32 \<Rightarrow> uint32 \<Rightarrow> 'db \<Rightarrow> ('e + int) \<times> 'db"
  CarProto_Create :: "int \<Rightarrow> PublishDriverDataRequest \<Rightarrow> 'db \<Rightarrow> ('e + unit) \<times> 'db"
  Car_Create :: "int \<Rightarrow> PublishDriverDataRequest \<Rightarrow> 'db \<Rightarrow> ('e + unit) \<times> 'db"
  Speedmap_Create :: "int \<Rightarrow> PublishSpeedmapRequest \<Rightarrow> 'db \<Rightarrow> ('e + unit) \<times> 'db"
  EventExt_Upsert :: "int \<Rightarrow> ExtraInfo option \<Rightarrow> 'db \<Rightarrow> ('e + unit) \<times> 'db"
  Track_LoadByID :: "int \<Rightarrow> 'db \<Rightarrow> 'e + Track"
  Track_UpdatePitInfo :: "int \<Rightarrow> TrackPitInfo option \<Rightarrow> 'db \<Rightarrow> ('e + int) \<times> 'db"
  Track_EnsureTrack :: "Track \<Rightarrow> 'db \<Rightarrow> ('e + unit) \<times> 'db"
  Event_Create :: "Event \<Rightarrow> uint32 \<Rightarrow> 'db \<Rightarrow> ('e + uint32) \<times> 'db"
  \<comment> \<open>with the id it gives to the event\<close>
  Event_UpdateReplayInfo :: "int \<Rightarrow> ReplayInfo option \<Rightarrow> 'db \<Rightarrow> ('e + unit) \<times> 'db"
  Analysis_Upsert :: "int \<Rightarrow> Analysis option \<Rightarrow> 'db \<Rightarrow> ('e + unit) \<times> 'db"

text \<open>A function run in a transaction: its error, the variable it sets, and the database.\<close>

type_synonym ('db, 'e) txFunc = "'db \<Rightarrow> ('e option \<times> int option \<times> 'db) run"

record ('db, 'e) ServerEnv =
  env_repos :: "('db, 'e) Repositories"
  env_RunInTx :: "('db, 'e) txFunc \<Rightarrow> ('db, 'e) txFunc"

text \<open>
  The documented behaviour of a transaction: it cannot begin, or it runs the function and ends with a rollback (an
  error of the function or of the commit) or with its commit.
\<close>

definition transactional :: "(('db, 'e) txFunc \<Rightarrow> ('db, 'e) txFunc) \<Rightarrow> bool" where
  "transactional runInTx \<longleftrightarrow> (\<forall>fn db. (\<exists>e. runInTx fn db = Some (Some e, None, db)) \<or>
     (case fn db of
        None \<Rightarrow> runInTx fn db = None
      | Some (Some e, v, db') \<Rightarrow> runInTx fn db = Some (Some e, v, db)
      | Some (None, v, db') \<Rightarrow> runInTx fn db = Some (None, v, db') \<or> (\<exists>e. runInTx fn db = Some (Some e, v, db))))"

definition stored :: "('e + unit) \<times> 'db \<Rightarrow> 'e option \<times> int option \<times> 'db" where
  "stored r = (case fst r of Inl e \<Rightarrow> Some e | Inr _ \<Rightarrow> None, None, snd r)"

subsection \<open>The server\<close>

datatype Published =
    PubState PublishStateRequest
  | PubSpeedmap PublishSpeedmapRequest
  | PubDriverData PublishDriverDataRequest
  | PubRegistered string
  | PubUnregistered string

record 'db Server =
  srv_lookup :: EventLookup
  srv_db :: 'db
  srv_published :: "Published list"

definition publish :: "Published \<Rightarrow> 'db Server \<Rightarrow> 'db Server" where
  "publish m srv = srv\<lparr>srv_published := srv_published srv @ [m]\<rparr>"

text \<open>Writing through the pointer to the data of an event.\<close>

definition put_event :: "EventProcessingData \<Rightarrow> 'db Server \<Rightarrow> 'db Server" where
  "put_event epd srv = srv\<lparr>srv_lookup := put_epd epd (srv_lookup srv)\<rparr>"

definition validateEventAccess :: "Authentication \<Rightarrow> EventSelector \<Rightarrow> EventLookup \<Rightarrow>
    Code + EventProcessingData" where
  "validateEventAccess a eventSel el = (case GetEvent eventSel el of
     Inl _ \<Rightarrow> if \<not> HasPermission a PermissionPostRacedata then Inl CodePermissionDenied else Inl CodeNotFound
   | Inr epd \<Rightarrow> if \<not> HasObjectPermission a PermissionPostRacedata (epd_Owner epd)
       then Inl CodePermissionDenied else Inr epd)"

definition isRaceSession :: "EventProcessingData \<Rightarrow> PublishStateRequest \<Rightarrow> bool run" where
  "isRaceSession epd req = do {
     session \<leftarrow> psr_Session req;
     Some (slices_contains (RaceSessions epd) (ses_SessionNum session))
   }"

definition storeData :: "('db, 'e) ServerEnv \<Rightarrow> RecordingMode \<Rightarrow> ('db, 'e) txFunc \<Rightarrow> ('db, 'e) txFunc" where
  "storeData env mode storeFunc db =
     (if mode = RECORDING_MODE_DO_NOT_PERSIST then Some (None, None, db)
      else env_RunInTx env storeFunc db)"

definition event_num :: "EventProcessingData \<Rightarrow> int" where
  "event_num epd = uint (ev_Id (epd_Event epd))"

definition store_state :: "('db, 'e) ServerEnv \<Rightarrow> EventProcessingData \<Rightarrow> PublishStateRequest \<Rightarrow> ('db, 'e) txFunc" where
  "store_state env epd req db = do {
     (res, db) \<leftarrow> Racestate_CreateRacestate (env_repos env) (event_num epd) req db;
     Some (case res of Inl err \<Rightarrow> (Some err, None, db) | Inr i \<Rightarrow> (None, Some i, db))
   }"

definition PublishState :: "('db, 'e) ServerEnv \<Rightarrow> timestamp \<Rightarrow> Authentication \<Rightarrow> PublishStateRequest \<Rightarrow>
    'db Server \<Rightarrow> ((Code + unit) \<times> 'db Server) run" where
  "PublishState env now a req srv = do {
     sel \<leftarrow> psr_Event req;
     case validateEventAccess a sel (srv_lookup srv) of
       Inl err \<Rightarrow> Some (Inl err, srv)
     | Inr epd \<Rightarrow> do {
         let srv = publish (PubState req) srv;
         race \<leftarrow> isRaceSession epd req;
         (err, rsInfoID, db) \<leftarrow> (if race
           then storeData env (epd_RecordingMode epd) (store_state env epd req) (srv_db srv)
           else Some (None, None, srv_db srv));
         let epd = (case rsInfoID of Some i \<Rightarrow> epd\<lparr>LastRsInfoID := i\<rparr> | None \<Rightarrow> epd);
         let epd = MarkDataEvent now epd;
         p \<leftarrow> ProcessState req (epd_Processor epd);
         Some (Inr (), put_event (epd\<lparr>epd_Processor := p\<rparr>) (srv\<lparr>srv_db := db\<rparr>))
       }
   }"

definition store_speedmap :: "('db, 'e) ServerEnv \<Rightarrow> EventProcessingData \<Rightarrow> PublishSpeedmapRequest \<Rightarrow>
    ('db, 'e) txFunc" where
  "store_speedmap env epd req db = Some (stored (Speedmap_Create (env_repos env) (LastRsInfoID epd) req db))"

definition PublishSpeedmap :: "('db, 'e) ServerEnv \<Rightarrow> Authentication \<Rightarrow> PublishSpeedmapRequest \<Rightarrow>
    'db Server \<Rightarrow> ((Code + unit) \<times> 'db Server) run" where
  "PublishSpeedmap env a req srv = do {
     sel \<leftarrow> psm_Event req;
     case validateEventAccess a sel (srv_lookup srv) of
       Inl err \<Rightarrow> Some (Inl err, srv)
     | Inr epd \<Rightarrow> do {
         let srv = publish (PubSpeedmap req) srv;
         (err, _, db) \<leftarrow> storeData env (epd_RecordingMode epd) (store_speedmap env epd req) (srv_db srv);
         p \<leftarrow> ProcessSpeedmap req (epd_Processor epd);
         Some (Inr (), put_event (epd\<lparr>epd_Processor := p\<rparr>) (srv\<lparr>srv_db := db\<rparr>))
       }
   }"

text \<open>Driver data that come before the first race state get an rs_info row of their own.\<close>

definition store_driver_data :: "('db, 'e) ServerEnv \<Rightarrow> EventProcessingData \<Rightarrow> PublishDriverDataRequest \<Rightarrow>
    ('db, 'e) txFunc" where
  "store_driver_data env epd req db = (
     let (_, db) = Car_Create (env_repos env) (event_num epd) req db
     in if LastRsInfoID epd = 0
        then (case Racestate_CreateDummyRacestateInfo (env_repos env) (event_num epd)
                     (as_time (pdr_Timestamp req)) (pdr_SessionTime req) (pdr_SessionNum req) db of
            (Inl rsErr, db) \<Rightarrow> Some (Some rsErr, None, db)
          | (Inr rsInfoID, db) \<Rightarrow> Some (stored (CarProto_Create (env_repos env) rsInfoID req db)))
        else Some (stored (CarProto_Create (env_repos env) (LastRsInfoID epd) req db)))"

definition PublishDriverData :: "('db, 'e) ServerEnv \<Rightarrow> Authentication \<Rightarrow> PublishDriverDataRequest \<Rightarrow>
    'db Server \<Rightarrow> ((Code + unit) \<times> 'db Server) run" where
  "PublishDriverData env a req srv = do {
     sel \<leftarrow> pdr_Event req;
     case validateEventAccess a sel (srv_lookup srv) of
       Inl err \<Rightarrow> Some (Inl err, srv)
     | Inr epd \<Rightarrow> do {
         let srv = publish (PubDriverData req) srv;
         (err, _, db) \<leftarrow> storeData env (epd_RecordingMode epd) (store_driver_data env epd req) (srv_db srv);
         p \<leftarrow> ProcessCarData req (epd_Processor epd);
         Some (Inr (), put_event (epd\<lparr>epd_Processor := p\<rparr>) (srv\<lparr>srv_db := db\<rparr>))
       }
   }"

definition handlePitInfoUpdate :: "('db, 'e) Repositories \<Rightarrow> int \<Rightarrow> TrackPitInfo option \<Rightarrow> 'db \<Rightarrow> 'db" where
  "handlePitInfoUpdate repos trackID pitInfo db = (case pitInfo of
     None \<Rightarrow> db
   | Some pit \<Rightarrow>
       if f32_eq (tpi_Entry pit) f32_zero \<and> f32_eq (tpi_Exit pit) f32_zero \<and> f32_eq (tpi_LaneLength pit) f32_zero
       then db
       else (case Track_LoadByID repos trackID db of
         Inl _ \<Rightarrow> db
       | Inr t \<Rightarrow>
           if (case tr_PitInfo t of None \<Rightarrow> False | Some old \<Rightarrow> \<not> f32_eq (tpi_LaneLength old) f32_zero)
           then db
           else snd (Track_UpdatePitInfo repos trackID
             (Some \<lparr>tpi_Entry = tpi_Entry pit, tpi_Exit = tpi_Exit pit, tpi_LaneLength = tpi_LaneLength pit\<rparr>) db)))"

definition store_extra_info :: "('db, 'e) ServerEnv \<Rightarrow> EventProcessingData \<Rightarrow> PublishEventExtraInfoRequest \<Rightarrow>
    ('db, 'e) txFunc" where
  "store_extra_info env epd req db = do {
     extra \<leftarrow> pxr_ExtraInfo req;
     let db = handlePitInfoUpdate (env_repos env) (uint (ev_TrackId (epd_Event epd))) (ei_PitInfo extra) db;
     Some (stored (EventExt_Upsert (env_repos env) (event_num epd) (Some extra) db))
   }"

definition PublishEventExtraInfo :: "('db, 'e) ServerEnv \<Rightarrow> Authentication \<Rightarrow> PublishEventExtraInfoRequest \<Rightarrow>
    'db Server \<Rightarrow> ((Code + unit) \<times> 'db Server) run" where
  "PublishEventExtraInfo env a req srv = do {
     sel \<leftarrow> pxr_Event req;
     case validateEventAccess a sel (srv_lookup srv) of
       Inl err \<Rightarrow> Some (Inl err, srv)
     | Inr epd \<Rightarrow> do {
         (err, _, db) \<leftarrow> storeData env (epd_RecordingMode epd) (store_extra_info env epd req) (srv_db srv);
         Some (Inr (), srv\<lparr>srv_db := db\<rparr>)
       }
   }"

text \<open>The requests of the service that publish, and the handler of each.\<close>

datatype PublishRequest =
    ReqState PublishStateRequest
  | ReqSpeedmap PublishSpeedmapRequest
  | ReqDriverData PublishDriverDataRequest
  | ReqExtraInfo PublishEventExtraInfoRequest

fun request_event :: "PublishRequest \<Rightarrow> EventSelector option" where
  "request_event (ReqState req) = psr_Event req"
| "request_event (ReqSpeedmap req) = psm_Event req"
| "request_event (ReqDriverData req) = pdr_Event req"
| "request_event (ReqExtraInfo req) = pxr_Event req"

fun handle_publish :: "('db, 'e) ServerEnv \<Rightarrow> timestamp \<Rightarrow> Authentication \<Rightarrow> PublishRequest \<Rightarrow> 'db Server \<Rightarrow>
    ((Code + unit) \<times> 'db Server) run" where
  "handle_publish env now a (ReqState req) srv = PublishState env now a req srv"
| "handle_publish env now a (ReqSpeedmap req) srv = PublishSpeedmap env a req srv"
| "handle_publish env now a (ReqDriverData req) srv = PublishDriverData env a req srv"
| "handle_publish env now a (ReqExtraInfo req) srv = PublishEventExtraInfo env a req srv"

lemmas publish_defs = PublishState_def PublishSpeedmap_def PublishDriverData_def PublishEventExtraInfo_def

end
