(* ===== verification/Local_Proxy.thy ===== *)
theory Local_Proxy
  imports Event_Store
begin

text \<open>
  The data proxy on the local event lookup, pkg/grpc/server/util/proxy/local/local.go, with
  helper/helper.go: what the live services read and subscribe to when the events are processed by this
  instance.

  A subscription takes the fresh channel it makes as an argument.  Its quit goroutine is the operation that is run
  when the client closes the quit channel.  The driver data subscription has goroutines of its own, which are a step
  relation.
\<close>

record LiveDriverDataResponse =
  ld_Timestamp :: "timestamp option"
  ld_Entries :: "CarEntry list"
  ld_CarClasses :: "CarClass list"
  ld_SessionTime :: f32
  ld_CurrentDrivers :: "(uint32 \<times> string) list"

definition ComposeLiveDriverDataResponse :: "PublishDriverDataRequest \<Rightarrow> LiveDriverDataResponse" where
  "ComposeLiveDriverDataResponse a =
     \<lparr>ld_Timestamp = pdr_Timestamp a, ld_Entries = pdr_Entries a, ld_CarClasses = pdr_CarClasses a,
      ld_SessionTime = pdr_SessionTime a, ld_CurrentDrivers = pdr_CurrentDrivers a\<rparr>"

subsection \<open>Reading\<close>

definition container_of :: "EventProcessingData \<Rightarrow> EventContainer" where
  "container_of v = \<lparr>ec_Event = epd_Event v, ec_Track = epd_Track v, ec_Owner = epd_Owner v\<rparr>"

definition LiveEvents :: "EventLookup \<Rightarrow> EventContainer list" where
  "LiveEvents el = map container_of (GetEvents el)"

definition local_GetEvent :: "EventSelector \<Rightarrow> EventLookup \<Rightarrow> lookup_error + EventContainer" where
  "local_GetEvent sel el = (case GetEvent sel el of Inl e \<Rightarrow> Inl e | Inr epd \<Rightarrow> Inr (container_of epd))"

definition HistorySnapshotData :: "EventSelector \<Rightarrow> EventLookup \<Rightarrow> SnapshotData list" where
  "HistorySnapshotData sel el = (case GetEvent sel el of Inl e \<Rightarrow> [] | Inr epd \<Rightarrow> epd_SnapshotData epd)"

subsection \<open>Publishing\<close>

text \<open>The local processors publish on their own channels, so the proxy has nothing to do.\<close>

definition local_Publish :: "EventLookup \<Rightarrow> EventLookup" where
  "local_Publish el = el"

subsection \<open>Subscriptions\<close>

text \<open>A client's call on a server that has ended blocks (None).\<close>

definition client_call :: "'m serve_event \<Rightarrow> 'm broadcastServer \<Rightarrow> 'm broadcastServer run" where
  "client_call e b = (if serving b then serve e b else None)"

text \<open>The common shape of the subscriptions: get is the broadcast server of the event, put stores it.\<close>

definition subscribe_with ::
  "(EventProcessingData \<Rightarrow> 'm broadcastServer) \<Rightarrow>
   ('m broadcastServer \<Rightarrow> EventProcessingData \<Rightarrow> EventProcessingData) \<Rightarrow>
   chan \<Rightarrow> EventSelector \<Rightarrow> EventLookup \<Rightarrow> (lookup_error + chan \<times> EventLookup) run" where
  "subscribe_with get put ch sel el = (case GetEvent sel el of
     Inl e \<Rightarrow> Some (Inl e)
   | Inr epd \<Rightarrow> do {
       b \<leftarrow> client_call (Subscribe ch) (get epd);
       Some (Inr (ch, put_epd (put b epd) el))
     })"

definition quit_with ::
  "(EventProcessingData \<Rightarrow> 'm broadcastServer) \<Rightarrow>
   ('m broadcastServer \<Rightarrow> EventProcessingData \<Rightarrow> EventProcessingData) \<Rightarrow>
   chan \<Rightarrow> EventProcessingData \<Rightarrow> EventProcessingData run" where
  "quit_with get put ch epd = do {
     b \<leftarrow> client_call (CancelSubscription ch) (get epd);
     Some (put b epd)
   }"

definition SubscribeRaceStateData ::
  "chan \<Rightarrow> EventSelector \<Rightarrow> EventLookup \<Rightarrow> (lookup_error + chan \<times> EventLookup) run" where
  "SubscribeRaceStateData = subscribe_with RacestateBroadcast (\<lambda>b epd. epd\<lparr>RacestateBroadcast := b\<rparr>)"

definition SubscribeSpeedmapData ::
  "chan \<Rightarrow> EventSelector \<Rightarrow> EventLookup \<Rightarrow> (lookup_error + chan \<times> EventLookup) run" where
  "SubscribeSpeedmapData = subscribe_with SpeedmapBroadcast (\<lambda>b epd. epd\<lparr>SpeedmapBroadcast := b\<rparr>)"

definition SubscribeAnalysisData ::
  "chan \<Rightarrow> EventSelector \<Rightarrow> EventLookup \<Rightarrow> (lookup_error + chan \<times> EventLookup) run" where
  "SubscribeAnalysisData = subscribe_with AnalysisBroadcast (\<lambda>b epd. epd\<lparr>AnalysisBroadcast := b\<rparr>)"

definition SubscribeSnapshotData ::
  "chan \<Rightarrow> EventSelector \<Rightarrow> EventLookup \<Rightarrow> (lookup_error + chan \<times> EventLookup) run" where
  "SubscribeSnapshotData = subscribe_with SnapshotBroadcast (\<lambda>b epd. epd\<lparr>SnapshotBroadcast := b\<rparr>)"

definition QuitRaceStateData :: "chan \<Rightarrow> EventProcessingData \<Rightarrow> EventProcessingData run" where
  "QuitRaceStateData = quit_with RacestateBroadcast (\<lambda>b epd. epd\<lparr>RacestateBroadcast := b\<rparr>)"

subsection \<open>Driver data\<close>

text \<open>
  SubscribeDriverData sends the last driver data, if there is one, from a goroutine of its own, forwards the source
  channel from a second one and closes the data channel when the source closes.  The state
  of a subscription: the initial data not yet sent, what the source still delivers, whether the data channel is closed,
  what the client has received, and whether a goroutine has panicked.
\<close>

record driver_sub =
  ds_initial :: "LiveDriverDataResponse option"
  ds_source :: "PublishDriverDataRequest list"
  ds_source_closed :: bool
  ds_closed :: bool
  ds_out :: "LiveDriverDataResponse list"
  ds_panic :: bool

definition SubscribeDriverData ::
  "chan \<Rightarrow> EventSelector \<Rightarrow> EventLookup \<Rightarrow> (lookup_error + driver_sub \<times> EventLookup) run" where
  "SubscribeDriverData ch sel el = (case GetEvent sel el of
     Inl e \<Rightarrow> Some (Inl e)
   | Inr epd \<Rightarrow> do {
       b \<leftarrow> client_call (Subscribe ch) (DriverDataBroadcast epd);
       Some (Inr (\<lparr>ds_initial = map_option ComposeLiveDriverDataResponse (LastDriverData epd),
                   ds_source = [], ds_source_closed = False, ds_closed = False, ds_out = [],
                   ds_panic = False\<rparr>,
                  put_epd (epd\<lparr>DriverDataBroadcast := b\<rparr>) el))
     })"

inductive driver_step :: "driver_sub \<Rightarrow> driver_sub \<Rightarrow> bool" where
  source: "\<not> ds_source_closed s \<Longrightarrow> driver_step s (s\<lparr>ds_source := ds_source s @ [d]\<rparr>)"
| source_end: "\<not> ds_source_closed s \<Longrightarrow> driver_step s (s\<lparr>ds_source_closed := True\<rparr>)"
| initial: "ds_initial s = Some r \<Longrightarrow> \<not> ds_closed s \<Longrightarrow>
    driver_step s (s\<lparr>ds_initial := None, ds_out := ds_out s @ [r]\<rparr>)"
| forward: "ds_source s = d # ds \<Longrightarrow> \<not> ds_closed s \<Longrightarrow>
    driver_step s (s\<lparr>ds_source := ds, ds_out := ds_out s @ [ComposeLiveDriverDataResponse d]\<rparr>)"
| close_data: "ds_source s = [] \<Longrightarrow> ds_source_closed s \<Longrightarrow> \<not> ds_closed s \<Longrightarrow>
    driver_step s (s\<lparr>ds_closed := True\<rparr>)"
| initial_panic: "ds_initial s = Some r \<Longrightarrow> ds_closed s \<Longrightarrow>
    driver_step s (s\<lparr>ds_initial := None, ds_panic := True\<rparr>)"

inductive_cases driver_stepE: "driver_step s t"

inductive driver_steps :: "driver_sub \<Rightarrow> driver_sub \<Rightarrow> bool" where
  none: "driver_steps s s"
| more: "driver_steps s t \<Longrightarrow> driver_step t u \<Longrightarrow> driver_steps s u"

subsection \<open>Subscribing and quitting\<close>

lemma subscribe_ok:
  assumes "reach b" "serving b" "ch \<notin> set (subscribed b)"
  shows "client_call (Subscribe ch) b =
      Some (b\<lparr>listeners := listeners b @ [ch], subscribed := subscribed b @ [ch]\<rparr>) \<and>
    reach (b\<lparr>listeners := listeners b @ [ch], subscribed := subscribed b @ [ch]\<rparr>)"
proof -
  have "serve (Subscribe ch) b = Some (b\<lparr>listeners := listeners b @ [ch], subscribed := subscribed b @ [ch]\<rparr>)"
    by (simp add: Subscribe_def)
  with reach.subscribe[OF assms this] assms(2) show ?thesis by (simp add: client_call_def)
qed

lemma subscribe_cancel:
  assumes "reach b" "serving b" "ch \<notin> set (subscribed b)"
  shows "\<exists>t u. client_call (Subscribe ch) b = Some t \<and> client_call (CancelSubscription ch) t = Some u \<and>
    listeners u = listeners b \<and> closed u = closed b @ [ch] \<and> delivered u = delivered b"
proof -
  let ?t = "b\<lparr>listeners := listeners b @ [ch], subscribed := subscribed b @ [ch]\<rparr>"
  have t: "client_call (Subscribe ch) b = Some ?t" "reach ?t" using subscribe_ok[OF assms] by simp_all
  obtain u where u: "serve (CancelSubscription ch) ?t = Some u" "listeners u = remove1 ch (listeners ?t)"
      "closed u = closed ?t @ [ch]"
    using remove_listener_ok[OF reach_inv[OF t(2)], of ch] assms(2) by (auto simp: CancelSubscription_def)
  have "ch \<notin> set (listeners b)" using reach_inv[OF assms(1)] assms(2,3) by (auto simp: bcast_inv_def)
  then have "listeners u = listeners b" using u(2) by (simp add: remove1_append)
  moreover have "delivered u = delivered b"
    using u(1) by (auto simp: CancelSubscription_def remove_listener_def split: Option.bind_splits)
  ultimately show ?thesis using t(1) u assms(2) by (auto simp: client_call_def)
qed

text \<open>While nothing has panicked the data channel is closed only after the source, and its messages keep their order.\<close>

definition driver_sub_inv :: "LiveDriverDataResponse option \<Rightarrow> driver_sub \<Rightarrow> bool" where
  "driver_sub_inv ini s \<longleftrightarrow> (ds_closed s \<longrightarrow> ds_source_closed s \<and> ds_source s = []) \<and>
     (ds_panic s \<longrightarrow> ds_closed s \<and> ini \<noteq> None) \<and> (ds_initial s = ini \<or> ds_initial s = None)"

lemma driver_step_inv: "driver_step s t \<Longrightarrow> driver_sub_inv ini s \<Longrightarrow> driver_sub_inv ini t"
  by (auto elim!: driver_stepE simp: driver_sub_inv_def)

lemma driver_steps_inv: "driver_steps s t \<Longrightarrow> driver_sub_inv ini s \<Longrightarrow> driver_sub_inv ini t"
  by (induction rule: driver_steps.induct) (auto intro: driver_step_inv)

subsection \<open>Properties\<close>

text \<open>
  Subscribing to the race states of an event and quitting again leaves the other listeners of the event as they were
  and closes the client's channel; an unknown event is an error and changes nothing.
\<close>

theorem local_subscribe_quit:
  assumes "lookup_inv el" and "GetEvent sel el = Inr epd" and "epd_serving epd"
    and "ch \<notin> set (subscribed (RacestateBroadcast epd))"
  shows "\<exists>epd1 epd2. SubscribeRaceStateData ch sel el = Some (Inr (ch, put_epd epd1 el)) \<and>
    listeners (RacestateBroadcast epd1) = listeners (RacestateBroadcast epd) @ [ch] \<and>
    QuitRaceStateData ch epd1 = Some epd2 \<and>
    listeners (RacestateBroadcast epd2) = listeners (RacestateBroadcast epd) \<and>
    ch \<in> set (closed (RacestateBroadcast epd2))"
proof -
  have b: "reach (RacestateBroadcast epd)" "serving (RacestateBroadcast epd)"
    using assms(3) by (auto simp: epd_serving_def epd_ok_def)
  from subscribe_cancel[OF b assms(4)] subscribe_ok[OF b assms(4)] assms(2)
  show ?thesis
    by (auto simp: SubscribeRaceStateData_def subscribe_with_def QuitRaceStateData_def quit_with_def)
qed

lemma demo_epd_serving:
  "epd_serving (new_epd e t m ow now)" "subscribed (RacestateBroadcast (new_epd e t m ow now)) = [own_chan]"
  using new_epd_ok[of e t m ow now]
  by (simp_all add: epd_serving_def) (simp_all add: new_epd_def Let_def own_listener_def NewBroadcastServer_def)

theorem local_subscribe_quit_witness:
  "\<exists>epd. SubscribeRaceStateData 5 (EventSelector_Key ''a'') demo_lookup = Some (Inr (5, put_epd epd demo_lookup)) \<and>
     listeners (RacestateBroadcast epd) = [0, 5]"
proof -
  let ?e = "new_epd (demo_event 1 ''a'') demo_track (RECORDING_MODE_OTHER 1) ''1'' 0"
  have "GetEvent (EventSelector_Key ''a'') demo_lookup = Inr ?e"
    by (simp add: GetEvent_def demo_lookup_entries)
  moreover have "5 \<notin> set (subscribed (RacestateBroadcast ?e))"
    by (simp add: demo_epd_serving own_chan_def)
  moreover have "listeners (RacestateBroadcast ?e) = [0]"
    by (simp add: new_epd_def Let_def own_listener_def own_chan_def)
  ultimately show ?thesis
    using local_subscribe_quit[OF demo_lookup_inv _ demo_epd_serving(1), of "EventSelector_Key ''a''"] by fastforce
qed

text \<open>
  A driver data subscription with initial data can panic: when the source ends before the client
  has received the initial data, the data channel is closed under the goroutine that is still sending.
\<close>

theorem local_driver_sub_panics:
  assumes "ds_initial s = Some r" and "\<not> ds_source_closed s" and "\<not> ds_closed s" and "ds_source s = []"
  shows "\<exists>t. driver_steps s t \<and> ds_panic t \<and> ds_out t = ds_out s"
proof -
  let ?s1 = "s\<lparr>ds_source_closed := True\<rparr>" and ?s2 = "s\<lparr>ds_source_closed := True, ds_closed := True\<rparr>"
  have "driver_step s ?s1" using assms by (rule_tac source_end)
  moreover have "driver_step ?s1 ?s2" using assms close_data[of ?s1] by simp
  moreover have "driver_step ?s2 (?s2\<lparr>ds_initial := None, ds_panic := True\<rparr>)"
    using assms by (intro initial_panic) auto
  ultimately have "driver_steps s (?s2\<lparr>ds_initial := None, ds_panic := True\<rparr>)"
    using driver_steps.intros by blast
  then show ?thesis by force
qed

definition demo_driver_sub :: driver_sub where
  "demo_driver_sub = \<lparr>ds_initial = Some (ComposeLiveDriverDataResponse demo_driver_msg), ds_source = [],
     ds_source_closed = False, ds_closed = False, ds_out = [], ds_panic = False\<rparr>"

theorem local_driver_sub_panics_witness:
  "\<exists>t. driver_steps demo_driver_sub t \<and> ds_panic t \<and> ds_out t = []"
  using local_driver_sub_panics[of demo_driver_sub] by (simp add: demo_driver_sub_def)

text \<open>
  A driver data subscription that starts without initial data never panics.
\<close>

theorem local_driver_sub_safe:
  assumes "driver_steps s t" and "ds_initial s = None" and "\<not> ds_closed s" and "\<not> ds_panic s"
  shows "\<not> ds_panic t"
proof -
  have "driver_sub_inv None s" using assms(2-4) by (simp add: driver_sub_inv_def)
  from driver_steps_inv[OF assms(1) this] show ?thesis by (simp add: driver_sub_inv_def)
qed

theorem local_driver_sub_safe_witness:
  "\<not> ds_panic (demo_driver_sub\<lparr>ds_initial := None, ds_source_closed := True\<rparr>)"
proof (rule local_driver_sub_safe)
  let ?s = "demo_driver_sub\<lparr>ds_initial := None\<rparr>"
  have "driver_step ?s (?s\<lparr>ds_source_closed := True\<rparr>)" by (rule source_end) (simp add: demo_driver_sub_def)
  then show "driver_steps ?s (demo_driver_sub\<lparr>ds_initial := None, ds_source_closed := True\<rparr>)"
    using more[OF none] by simp
qed (simp_all add: demo_driver_sub_def)

end
