(* ===== verification/Provider_Server.thy ===== *)
theory Provider_Server
  imports State_Server Local_Proxy
begin

text \<open>
  The provider service (pkg/grpc/server/provider/provider_server.go), which registers and unregisters events,
  with pkg/grpc/server/util/resolve_tenant.go and pkg/grpc/util/version_check.go.

  The data proxy is part of the environment: local_env has the one of the local mode.  A nil dereference is
  None; the goroutines that persist data from a broadcast are functions of what arrives on their channel.
\<close>

subsection \<open>Environment and requests\<close>

record ('db, 'e) ProviderEnv = "('db, 'e) ServerEnv" +
  env_GetEvent :: "EventSelector \<Rightarrow> 'db Server \<Rightarrow> lookup_error + EventContainer"
  env_LiveEvents :: "'db Server \<Rightarrow> EventContainer list"

definition local_env :: "('db, 'e) Repositories \<Rightarrow> (('db, 'e) txFunc \<Rightarrow> ('db, 'e) txFunc) \<Rightarrow> ('db, 'e) ProviderEnv" where
  "local_env repos tx = \<lparr>env_repos = repos, env_RunInTx = tx,
     env_GetEvent = (\<lambda>sel srv. local_GetEvent sel (srv_lookup srv)),
     env_LiveEvents = (\<lambda>srv. LiveEvents (srv_lookup srv))\<rparr>"

text \<open>A registration with its event and track; one without them is outside the model.\<close>

record RegisterEventRequest =
  rer_Key :: string
  rer_Event :: Event
  rer_Track :: Track
  rer_RecordingMode :: RecordingMode

definition provider_storeData :: "('db, 'e) ProviderEnv \<Rightarrow> RecordingMode \<Rightarrow> ('db, 'e) txFunc \<Rightarrow> ('db, 'e) txFunc" where
  "provider_storeData env recordingMode storeFunc db =
     (if recordingMode = RECORDING_MODE_DO_NOT_PERSIST then Some (None, None, db)
      else env_RunInTx env storeFunc db)"

subsection \<open>Tenants\<close>

datatype TenantSelector = TenantSelector_ExternalId string | TenantSelector_Name string | TenantSelector_Other

record 'e TenantRepository =
  tr_LoadByExternalID :: "string \<Rightarrow> 'e + TenantModel"
  tr_LoadByName :: "string \<Rightarrow> 'e + TenantModel"
  tr_isNoRows :: "'e \<Rightarrow> bool"

text \<open>The configuration is None when the context has none; it tells whether tenants are supported.\<close>

definition ResolveTenant :: "bool option \<Rightarrow> 'e TenantRepository \<Rightarrow> TenantSelector option \<Rightarrow>
    'e server_error + TenantModel option" where
  "ResolveTenant supportTenants r sel = (
     if supportTenants \<noteq> Some True then Inr None
     else case sel of
       None \<Rightarrow> Inl (ConnectError CodeInvalidArgument)
     | Some s \<Rightarrow>
         let result = (\<lambda>res. case res of Inr data \<Rightarrow> Inr (Some data)
               | Inl err \<Rightarrow> if tr_isNoRows r err then Inl (ConnectError CodeNotFound) else Inl (RepoError err))
         in (case s of
               TenantSelector_ExternalId i \<Rightarrow> result (tr_LoadByExternalID r i)
             | TenantSelector_Name n \<Rightarrow> result (tr_LoadByName r n)
             | TenantSelector_Other \<Rightarrow> Inr None))"

definition ListLiveEvents :: "('db, 'e) ProviderEnv \<Rightarrow> bool option \<Rightarrow> 'e TenantRepository \<Rightarrow> TenantSelector option \<Rightarrow>
    'db Server \<Rightarrow> 'e server_error + (Event \<times> Track) list" where
  "ListLiveEvents env supportTenants r sel srv = (case ResolveTenant supportTenants r sel of
     Inl err \<Rightarrow> Inl err
   | Inr t \<Rightarrow> Inr (map (\<lambda>v. (ec_Event v, ec_Track v))
       (filter (\<lambda>v. case t of None \<Rightarrow> True | Some t \<Rightarrow> sprint_u32 (mt_ID t) = ec_Owner v)
         (env_LiveEvents env srv))))"

subsection \<open>Registering an event\<close>

text \<open>Event().Create writes the id of the new row into the event of the request.\<close>

definition store_event :: "('db, 'e) ProviderEnv \<Rightarrow> RegisterEventRequest \<Rightarrow> uint32 \<Rightarrow> ('db, 'e) txFunc" where
  "store_event env req tenantID db = (case Track_EnsureTrack (env_repos env) (rer_Track req) db of
     (Inl err, db) \<Rightarrow> Some (Some err, None, db)
   | (Inr _, db) \<Rightarrow> (case Event_Create (env_repos env) (rer_Event req) tenantID db of
       (Inl err, db) \<Rightarrow> Some (Some err, None, db)
     | (Inr i, db) \<Rightarrow> Some (None, Some (uint i), db)))"

definition RegisterEvent :: "('db, 'e) ProviderEnv \<Rightarrow> timestamp \<Rightarrow> Authentication \<Rightarrow> RegisterEventRequest \<Rightarrow>
    'db Server \<Rightarrow> (('e server_error + Event \<times> Track) \<times> 'db Server) run" where
  "RegisterEvent env now a req srv = (case TenantID a of
     None \<Rightarrow> Some (Inl (ConnectError CodePermissionDenied), srv)
   | Some tenantID \<Rightarrow>
       if \<not> HasTenantPermission a PermissionRegisterEvent tenantID
       then Some (Inl (ConnectError CodePermissionDenied), srv)
       else case env_GetEvent env (EventSelector_Key (rer_Key req)) srv of
         Inr _ \<Rightarrow> Some (Inl (ConnectError CodeAlreadyExists), srv)
       | Inl _ \<Rightarrow> do {
           (err, newId, db) \<leftarrow> provider_storeData env (rer_RecordingMode req) (store_event env req tenantID) (srv_db srv);
           let event = (case newId of Some i \<Rightarrow> (rer_Event req)\<lparr>ev_Id := word_of_int i\<rparr> | None \<Rightarrow> rer_Event req);
           case err of
             Some e \<Rightarrow> Some (Inl (RepoError e), srv\<lparr>srv_db := db\<rparr>)
           | None \<Rightarrow> do {
               let dbTrack = (case Track_LoadByID (env_repos env) (uint (ev_TrackId event)) db of
                   Inl _ \<Rightarrow> rer_Track req | Inr t \<Rightarrow> t);
               let (epd, el) = AddEvent event dbTrack (rer_RecordingMode req) (sprint_u32 tenantID) now (srv_lookup srv);
               _ \<leftarrow> epd;
               Some (Inr (event, dbTrack),
                     publish (PubRegistered (ev_Key event)) (srv\<lparr>srv_db := db, srv_lookup := el\<rparr>))
             }
         })"

text \<open>AddEvent gives nil for a key it knows, which the workers that are started next dereference.\<close>

subsection \<open>Unregistering\<close>

definition provider_validateEventAccess :: "('db, 'e) ProviderEnv \<Rightarrow> Authentication \<Rightarrow> EventSelector \<Rightarrow> 'db Server \<Rightarrow>
    Code + EventContainer" where
  "provider_validateEventAccess env a eventSel srv = (case env_GetEvent env eventSel srv of
     Inl _ \<Rightarrow> (case TenantID a of
         Some tenantID \<Rightarrow> if HasTenantPermission a PermissionPostRacedata tenantID then Inl CodeNotFound
           else Inl CodePermissionDenied
       | None \<Rightarrow> Inl CodePermissionDenied)
   | Inr ed \<Rightarrow> if \<not> HasObjectPermission a PermissionPostRacedata (ec_Owner ed)
       then Inl CodePermissionDenied else Inr ed)"

definition storeAnalysisData :: "('db, 'e) ProviderEnv \<Rightarrow> EventProcessingData \<Rightarrow> 'db \<Rightarrow> 'db run" where
  "storeAnalysisData env epd db = do {
     (err, _, db) \<leftarrow> provider_storeData env (epd_RecordingMode epd)
       (\<lambda>db. Some (stored (Analysis_Upsert (env_repos env) (event_num epd) (LastAnalysisData epd) db))) db;
     Some db
   }"

definition storeReplayInfo :: "('db, 'e) ProviderEnv \<Rightarrow> EventProcessingData \<Rightarrow> 'db \<Rightarrow> 'db run" where
  "storeReplayInfo env epd db = do {
     (err, _, db) \<leftarrow> provider_storeData env (epd_RecordingMode epd)
       (\<lambda>db. Some (stored (Event_UpdateReplayInfo (env_repos env) (event_num epd) (LastReplayInfo epd) db))) db;
     Some db
   }"

definition UnregisterEvent :: "('db, 'e) ProviderEnv \<Rightarrow> Authentication \<Rightarrow> EventSelector \<Rightarrow> 'db Server \<Rightarrow>
    ((Code + unit) \<times> 'db Server) run" where
  "UnregisterEvent env a sel srv = (case provider_validateEventAccess env a sel srv of
     Inl err \<Rightarrow> Some (Inl err, srv)
   | Inr ed \<Rightarrow> do {
       srv \<leftarrow> (case GetEvent sel (srv_lookup srv) of
           Inl _ \<Rightarrow> Some srv
         | Inr epd \<Rightarrow> do {
             db \<leftarrow> storeAnalysisData env epd (srv_db srv);
             db \<leftarrow> storeReplayInfo env epd db;
             el \<leftarrow> RemoveEvent sel (srv_lookup srv);
             Some (srv\<lparr>srv_db := db, srv_lookup := el\<rparr>)
           });
       Some (Inr (), publish (PubUnregistered (ev_Key (ec_Event ed))) srv)
     })"

definition UnregisterAll :: "('db, 'e) ProviderEnv \<Rightarrow> Authentication \<Rightarrow> 'db Server \<Rightarrow>
    ((Code + (Event \<times> Track) list) \<times> 'db Server) run" where
  "UnregisterAll env a srv =
     (if \<not> HasPermission a PermissionAdminUnregisterAllEvents then Some (Inl CodePermissionDenied, srv)
      else do {
        db \<leftarrow> go_for (storeAnalysisData env) (GetEvents (srv_lookup srv)) (srv_db srv);
        Some (Inr (map (\<lambda>v. (epd_Event v, epd_Track v)) (GetEvents (srv_lookup srv))),
              srv\<lparr>srv_db := db, srv_lookup := ClearEvents (srv_lookup srv)\<rparr>)
      })"

subsection \<open>Workers\<close>

definition second :: int where
  "second = 1000000000"

text \<open>One message at time now; the state is the time of the last attempt and the database.\<close>

definition persist_step :: "int \<Rightarrow> ('a \<Rightarrow> 'db \<Rightarrow> 'db run) \<Rightarrow> timestamp \<times> 'a \<Rightarrow> timestamp \<times> 'db \<Rightarrow> (timestamp \<times> 'db) run" where
  "persist_step interval persist m st = (
     if interval < time_sub (fst m) (fst st) then do {
       db \<leftarrow> persist (snd m) (snd st);
       Some (fst m, db)
     } else Some st)"

definition storeAnalysisDataWorker :: "('db, 'e) ProviderEnv \<Rightarrow> EventProcessingData \<Rightarrow> timestamp \<Rightarrow>
    (timestamp \<times> Analysis) list \<Rightarrow> 'db \<Rightarrow> (timestamp \<times> 'db) run" where
  "storeAnalysisDataWorker env epd start ch db =
     (if epd_RecordingMode epd = RECORDING_MODE_DO_NOT_PERSIST then Some (start, db)
      else go_for (persist_step (15 * second) (\<lambda>data db. do {
        (err, _, db) \<leftarrow> env_RunInTx env
          (\<lambda>db. Some (stored (Analysis_Upsert (env_repos env) (event_num epd) (Some data) db))) db;
        Some db
      })) ch (start, db))"

definition storeReplayInfoWorker :: "('db, 'e) ProviderEnv \<Rightarrow> EventProcessingData \<Rightarrow> timestamp \<Rightarrow>
    (timestamp \<times> ReplayInfo) list \<Rightarrow> 'db \<Rightarrow> (timestamp \<times> 'db) run" where
  "storeReplayInfoWorker env epd start ch db =
     (if epd_RecordingMode epd = RECORDING_MODE_DO_NOT_PERSIST then Some (start, db)
      else go_for (persist_step (5 * second) (\<lambda>data db. do {
        (err, _, db) \<leftarrow> env_RunInTx env
          (\<lambda>db. Some (stored (Event_UpdateReplayInfo (env_repos env) (event_num epd) (Some data) db))) db;
        Some db
      })) ch (start, db))"

subsection \<open>Version check\<close>

definition RequiredClientVersion :: string where
  "RequiredClientVersion = ''v0.20.0''"

text \<open>compare is semver.Compare.\<close>

definition CheckRaceloggerVersion :: "(string \<Rightarrow> string \<Rightarrow> int) \<Rightarrow> string \<Rightarrow> bool" where
  "CheckRaceloggerVersion compare toCheck = (
     let toCheck = (case toCheck of CHR ''v'' # _ \<Rightarrow> toCheck | _ \<Rightarrow> CHR ''v'' # toCheck)
     in 0 \<le> compare toCheck RequiredClientVersion)"

record VersionCheckResponse =
  vc_ProvidedRaceloggerVersion :: string
  vc_SupportedRaceloggerVersion :: string
  vc_RaceloggerCompatible :: bool
  vc_ValidCredentials :: bool

definition VersionCheck :: "(string \<Rightarrow> string \<Rightarrow> int) \<Rightarrow> Authentication \<Rightarrow> string \<Rightarrow> VersionCheckResponse" where
  "VersionCheck compare a raceloggerVersion = (
     let tenantID = (case TenantID a of Some i \<Rightarrow> i | None \<Rightarrow> 0) in
     \<lparr>vc_ProvidedRaceloggerVersion = raceloggerVersion,
      vc_SupportedRaceloggerVersion = RequiredClientVersion,
      vc_RaceloggerCompatible = CheckRaceloggerVersion compare raceloggerVersion,
      vc_ValidCredentials = HasTenantPermission a PermissionPostRacedata tenantID\<rparr>)"

end
