(* ===== verification/State_Properties.thy ===== *)
theory State_Properties
  imports State_Server
begin

text \<open>
  What the publishing handlers promise: who may publish, what of the server a request can change, when
  something is recorded and what it is attached to.
\<close>

subsection \<open>The lookup under a handler\<close>

lemma find_in_set: "find P xs = Some x \<Longrightarrow> x \<in> set xs \<and> P x"
  by (auto simp: find_Some_iff)

lemma find_update:
  assumes "find (\<lambda>(k, v). P v) xs = Some (k, v)" "P v'" "distinct (map fst xs)"
  shows "find (\<lambda>(k, v). P v) (AList.update k v' xs) = Some (k, v')"
  using assms
proof (induction xs)
  case (Cons x xs)
  show ?case
  proof (cases "P (snd x)")
    case False
    then have "find (\<lambda>(k, v). P v) xs = Some (k, v)" using Cons.prems(1) by (cases x) simp
    moreover from this have "k \<in> fst ` set xs" by (force dest: find_in_set)
    ultimately show ?thesis using Cons False by (cases x) auto
  qed (use Cons.prems in \<open>cases x; auto\<close>)
qed simp

lemma GetEvent_map_of:
  assumes "lookup_inv el" "GetEvent sel el = Inr epd"
  shows "map_of (lookup el) (ev_Key (epd_Event epd)) = Some epd"
proof -
  have ok: "map_of (lookup el) k = Some v \<Longrightarrow> ev_Key (epd_Event v) = k" for k v
    using assms(1) by (auto simp: lookup_inv_def dest: entries_okD)
  show ?thesis
  proof (cases sel)
    case (EventSelector_Id i)
    with assms(2) obtain k where "find (\<lambda>(k, v). ev_Id (epd_Event v) = i) (lookup el) = Some (k, epd)"
      by (auto simp: GetEvent_def split: option.splits prod.splits)
    then have "(k, epd) \<in> set (lookup el)" by (blast dest: find_in_set)
    then have "map_of (lookup el) k = Some epd" using assms(1) by (simp add: lookup_inv_def)
    then show ?thesis using ok by simp
  qed (use assms(2) ok in \<open>auto simp: GetEvent_def split: option.splits\<close>)
qed

lemma GetEvent_put:
  assumes "lookup_inv el" "GetEvent sel el = Inr epd" "epd_Event epd' = epd_Event epd"
  shows "GetEvent sel (put_epd epd' el) = Inr epd'"
proof (cases sel)
  case (EventSelector_Id i)
  with assms(2) obtain k where k: "find (\<lambda>(k, v). ev_Id (epd_Event v) = i) (lookup el) = Some (k, epd)"
    by (auto simp: GetEvent_def split: option.splits prod.splits)
  then have "(k, epd) \<in> set (lookup el)" by (blast dest: find_in_set)
  then have key: "k = ev_Key (epd_Event epd')" using lookup_key_of[OF assms(1)] assms(3) by (fastforce simp: key_of_def)
  have "ev_Id (epd_Event epd') = i" using find_in_set[OF k] assms(3) by simp
  from find_update[OF k this] assms(1) have
    "find (\<lambda>(k, v). ev_Id (epd_Event v) = i) (lookup (put_epd epd' el)) = Some (k, epd')"
    by (simp add: put_epd_def key lookup_inv_def)
  then show ?thesis using EventSelector_Id by (simp add: GetEvent_def)
next
  case (EventSelector_Key k)
  have "ev_Key (epd_Event epd') = k"
    using GetEvent_map_of[OF assms(1,2)] assms EventSelector_Key
    by (auto simp: GetEvent_def lookup_inv_def dest: entries_okD split: option.splits)
  then show ?thesis using EventSelector_Key by (auto simp: GetEvent_def put_epd_def update_conv')
qed (use assms(2) in \<open>simp add: GetEvent_def\<close>)

text \<open>What a handler may change of the data of an event.\<close>

definition progress :: "EventProcessingData \<Rightarrow> EventProcessingData \<Rightarrow> bool" where
  "progress epd epd' \<longleftrightarrow> (\<exists>p i t. epd' = epd\<lparr>epd_Processor := p, LastRsInfoID := i, LastDataEvent := t\<rparr>)"

lemma progressI: "progress epd (epd\<lparr>epd_Processor := p, LastRsInfoID := i, LastDataEvent := t\<rparr>)"
  by (auto simp: progress_def)

lemma progress_same: "progress epd epd"
  unfolding progress_def
  by (intro exI[of _ "epd_Processor epd"] exI[of _ "LastRsInfoID epd"] exI[of _ "LastDataEvent epd"]) simp

lemma progress_ident: "progress epd epd' \<Longrightarrow> epd_Event epd' = epd_Event epd \<and> epd_Owner epd' = epd_Owner epd \<and>
    epd_RecordingMode epd' = epd_RecordingMode epd \<and> RaceSessions epd' = RaceSessions epd"
  by (auto simp: progress_def)

lemma put_epd_map: "map_of (lookup (put_epd epd el)) = (map_of (lookup el))(ev_Key (epd_Event epd) \<mapsto> epd)"
  by (simp add: put_epd_def update_conv')

subsection \<open>One request\<close>

text \<open>The function the handler of a request stores its data with.\<close>

fun store_func :: "('db, 'e) ServerEnv \<Rightarrow> EventProcessingData \<Rightarrow> PublishRequest \<Rightarrow> ('db, 'e) txFunc" where
  "store_func env epd (ReqState req) = store_state env epd req"
| "store_func env epd (ReqSpeedmap req) = store_speedmap env epd req"
| "store_func env epd (ReqDriverData req) = store_driver_data env epd req"
| "store_func env epd (ReqExtraInfo req) = store_extra_info env epd req"

definition recorded :: "EventProcessingData \<Rightarrow> PublishRequest \<Rightarrow> bool" where
  "recorded epd req \<longleftrightarrow> epd_RecordingMode epd \<noteq> RECORDING_MODE_DO_NOT_PERSIST \<and>
     (case req of ReqState r \<Rightarrow> isRaceSession epd r = Some True | _ \<Rightarrow> True)"

lemma handle_denied:
  assumes "handle_publish env now a req srv = Some (res, srv')" "request_event req = Some sel"
    "validateEventAccess a sel (srv_lookup srv) = Inl c"
  shows "res = Inl c \<and> srv' = srv"
  using assms by (cases req) (simp_all add: publish_defs)

lemma handle_has_event:
  "handle_publish env now a req srv = Some (res, srv') \<Longrightarrow> \<exists>sel. request_event req = Some sel"
  by (cases req) (auto simp: publish_defs bind_eq_Some_conv)

text \<open>An accepted request: the store function runs if the request is recorded, and only the event's data change.\<close>

lemma handle_accepted:
  assumes "handle_publish env now a req srv = Some (res, srv')" "request_event req = Some sel"
    "validateEventAccess a sel (srv_lookup srv) = Inr epd"
  shows "res = Inr () \<and>
    (if recorded epd req
     then \<exists>err v. env_RunInTx env (store_func env epd req) (srv_db srv) = Some (err, v, srv_db srv')
     else srv_db srv' = srv_db srv) \<and>
    (srv_lookup srv' = srv_lookup srv \<or> (\<exists>epd'. progress epd epd' \<and> srv_lookup srv' = put_epd epd' (srv_lookup srv)))"
proof (cases req)
  case (ReqState r)
  from assms obtain race err rid db p where run: "isRaceSession epd r = Some race"
    "(if race then storeData env (epd_RecordingMode epd) (store_state env epd r) (srv_db srv)
      else Some (None, None, srv_db srv)) = Some (err, rid, db)"
    "res = Inr ()"
    "srv' = put_event (MarkDataEvent now (case rid of Some i \<Rightarrow> epd\<lparr>LastRsInfoID := i\<rparr> | None \<Rightarrow> epd)
        \<lparr>epd_Processor := p\<rparr>) (publish (PubState r) srv\<lparr>srv_db := db\<rparr>)"
    by (auto simp: ReqState PublishState_def publish_def bind_eq_Some_conv Let_def cong: if_cong)
  have "progress epd (MarkDataEvent now (case rid of Some i \<Rightarrow> epd\<lparr>LastRsInfoID := i\<rparr> | None \<Rightarrow> epd)\<lparr>epd_Processor := p\<rparr>)"
    using progressI[where epd = epd and p = p and t = now] by (cases rid; cases epd) (simp_all add: MarkDataEvent_def)
  with run show ?thesis
    by (auto simp: ReqState recorded_def storeData_def put_event_def publish_def split: if_splits)
next
  case (ReqSpeedmap r)
  from assms obtain err v db p where run:
    "storeData env (epd_RecordingMode epd) (store_speedmap env epd r) (srv_db srv) = Some (err, v, db)" "res = Inr ()"
    "srv' = put_event (epd\<lparr>epd_Processor := p\<rparr>) (publish (PubSpeedmap r) srv\<lparr>srv_db := db\<rparr>)"
    by (auto simp: ReqSpeedmap PublishSpeedmap_def publish_def bind_eq_Some_conv Let_def)
  have "progress epd (epd\<lparr>epd_Processor := p\<rparr>)"
    using progressI[where epd = epd and p = p and i = "LastRsInfoID epd" and t = "LastDataEvent epd"] by simp
  with run show ?thesis
    by (auto simp: ReqSpeedmap recorded_def storeData_def put_event_def publish_def split: if_splits)
next
  case (ReqDriverData r)
  from assms obtain err v db p where run:
    "storeData env (epd_RecordingMode epd) (store_driver_data env epd r) (srv_db srv) = Some (err, v, db)" "res = Inr ()"
    "srv' = put_event (epd\<lparr>epd_Processor := p\<rparr>) (publish (PubDriverData r) srv\<lparr>srv_db := db\<rparr>)"
    by (auto simp: ReqDriverData PublishDriverData_def publish_def bind_eq_Some_conv Let_def)
  have "progress epd (epd\<lparr>epd_Processor := p\<rparr>)"
    using progressI[where epd = epd and p = p and i = "LastRsInfoID epd" and t = "LastDataEvent epd"] by simp
  with run show ?thesis
    by (auto simp: ReqDriverData recorded_def storeData_def put_event_def publish_def split: if_splits)
next
  case (ReqExtraInfo r)
  from assms obtain err v db where
    "storeData env (epd_RecordingMode epd) (store_extra_info env epd r) (srv_db srv) = Some (err, v, db)" "res = Inr ()"
    "srv' = srv\<lparr>srv_db := db\<rparr>"
    by (auto simp: ReqExtraInfo PublishEventExtraInfo_def bind_eq_Some_conv)
  then show ?thesis by (auto simp: ReqExtraInfo recorded_def storeData_def split: if_splits)
qed

lemma validate_access:
  "validateEventAccess a sel el = Inr epd \<longleftrightarrow>
     GetEvent sel el = Inr epd \<and> HasObjectPermission a PermissionPostRacedata (epd_Owner epd)"
  by (auto simp: validateEventAccess_def split: sum.splits if_splits)

text \<open>A handler that returns has either refused, or found an event the caller may post to.\<close>

lemma handle_publish_result:
  assumes "handle_publish env now a req srv = Some (res, srv')"
  obtains (denied) c where "res = Inl c" "srv' = srv"
  | (accepted) sel epd where "request_event req = Some sel" "GetEvent sel (srv_lookup srv) = Inr epd"
      "HasObjectPermission a PermissionPostRacedata (epd_Owner epd)" "res = Inr ()"
      "validateEventAccess a sel (srv_lookup srv) = Inr epd"
proof -
  obtain sel where sel: "request_event req = Some sel" using handle_has_event[OF assms] by blast
  show thesis
  proof (cases "validateEventAccess a sel (srv_lookup srv)")
    case (Inl c)
    with handle_denied[OF assms sel] denied show thesis by blast
  next
    case (Inr epd)
    with handle_accepted[OF assms sel] have "res = Inr ()" by blast
    with Inr accepted[OF sel _ _ _ Inr] show thesis by (simp add: validate_access)
  qed
qed

subsection \<open>A concrete server\<close>

text \<open>The database is the list of what has been created: the event of a race state, and the rs_info id of a speedmap.\<close>

datatype demo_row = DemoState int | DemoSpeedmap int | DemoOther

definition demo_created :: "demo_row \<Rightarrow> demo_row list \<Rightarrow> (unit + unit) \<times> demo_row list" where
  "demo_created r db = (Inr (), db @ [r])"

definition demo_repos :: "(demo_row list, unit) Repositories" where
  "demo_repos = \<lparr>
     Racestate_CreateRacestate = (\<lambda>e r db. Some (Inr (int (length db) + 1), db @ [DemoState e])),
     Racestate_CreateDummyRacestateInfo = (\<lambda>e ts t n db. (Inr (int (length db) + 1), db @ [DemoState e])),
     CarProto_Create = (\<lambda>i r. demo_created DemoOther), Car_Create = (\<lambda>i r. demo_created DemoOther),
     Speedmap_Create = (\<lambda>i r. demo_created (DemoSpeedmap i)), EventExt_Upsert = (\<lambda>i x. demo_created DemoOther),
     Track_LoadByID = (\<lambda>i db. Inl ()), Track_UpdatePitInfo = (\<lambda>i x db. (Inl (), db)),
     Track_EnsureTrack = (\<lambda>t. demo_created DemoOther),
     Event_Create = (\<lambda>e n db. (Inr 5, db @ [DemoOther])),
     Event_UpdateReplayInfo = (\<lambda>i x. demo_created DemoOther), Analysis_Upsert = (\<lambda>i x. demo_created DemoOther)\<rparr>"

definition demo_tx :: "('db, 'e) txFunc \<Rightarrow> ('db, 'e) txFunc" where
  "demo_tx fn db = (case fn db of
     None \<Rightarrow> None | Some (Some e, v, db') \<Rightarrow> Some (Some e, v, db) | Some (None, v, db') \<Rightarrow> Some (None, v, db'))"

definition demo_env :: "(demo_row list, unit) ServerEnv" where
  "demo_env = \<lparr>env_repos = demo_repos, env_RunInTx = demo_tx\<rparr>"

lemma demo_tx_transactional: "transactional demo_tx"
  unfolding transactional_def by (auto simp: demo_tx_def split: option.splits prod.splits)

lemma demo_env_tx: "transactional (env_RunInTx demo_env)"
  by (simp add: demo_env_def demo_tx_transactional)

definition demo_server :: "demo_row list Server" where
  "demo_server = \<lparr>srv_lookup = demo_lookup, srv_db = [], srv_published = []\<rparr>"

definition demo_tenant :: TenantModel where
  "demo_tenant = \<lparr>mt_ID = 1, mt_APIKey = [], mt_Tenant = \<lparr>tm_Name = ''t'', tm_IsActive = True, tm_ExternalId = []\<rparr>\<rparr>"

text \<open>A race state without cars and a speedmap, both for event ''a'', which tenant 1 owns.\<close>

definition demo_empty_state :: PublishStateRequest where
  "demo_empty_state = \<lparr>psr_Event = Some (EventSelector_Key ''a''),
     psr_Session = Some \<lparr>ses_SessionNum = 0, ses_SessionTime = f32_zero, ses_TimeOfDay = 0, ses_AirTemp = f32_zero,
       ses_TrackTemp = f32_zero, ses_TrackWetness = 0, ses_Precipitation = f32_zero,
       ses_TimeRemain = f32_zero\<rparr>,
     psr_Cars = [], psr_Messages = [], psr_Timestamp = Some 0\<rparr>"

definition demo_empty_speedmap :: PublishSpeedmapRequest where
  "demo_empty_speedmap = \<lparr>psm_Event = Some (EventSelector_Key ''a''), psm_Speedmap = Some [], psm_Timestamp = Some 0\<rparr>"

lemma demo_car_run: "ProcessStatePayload demo_empty_state cp = Some cp"
  by (simp add: ProcessStatePayload_def ensureCarOccupancy_def demo_empty_state_def Let_def)

lemma demo_race_state_run: "CarClasses cp = [] \<Longrightarrow> \<exists>rq. ProcessStatePayload_race cp demo_empty_state rp = Some rq"
  by (simp add: ProcessStatePayload_race_def processCarLaps_def processOverallRaceGraph_def index_func_def
      processReplayInfo_def demo_empty_state_def Let_def checkValidData_def)

lemma demo_state_run:
  assumes "CarClasses (carProcessor p) = []"
  shows "\<exists>q. ProcessState demo_empty_state p = Some q \<and> lastSessionData q = psr_Session demo_empty_state"
  using demo_race_state_run[OF assms, of "raceProcessor p"] by (auto simp: ProcessState_def demo_car_run Let_def)

lemma demo_speedmap_run:
  "lastSessionData p = psr_Session demo_empty_state \<Longrightarrow> \<exists>q. ProcessSpeedmap demo_empty_speedmap p = Some q"
  by (simp add: ProcessSpeedmap_def demo_empty_speedmap_def demo_empty_state_def send_if_def Let_def)

definition demo_epd :: EventProcessingData where
  "demo_epd = new_epd (demo_event 1 ''a'') demo_track (RECORDING_MODE_OTHER 1) ''1'' 0"

lemma demo_get: "GetEvent (EventSelector_Key ''a'') demo_lookup = Inr demo_epd"
  by (simp add: GetEvent_def demo_lookup_entries demo_epd_def)

lemma demo_permission: "HasObjectPermission (tenant_auth demo_tenant) PermissionPostRacedata ''1''"
proof -
  have "sprint_u32 1 = ''1''" by code_simp
  moreover have "grants RoleRaceDataProvider PermissionPostRacedata"
    by (simp add: grants_def permissions_of_def data_permissions_def map_get_def RoleRaceDataProvider_def PermissionPostRacedata_def)
  ultimately show ?thesis
    by (simp add: permission_by_scope_iff tenant_auth_def demo_tenant_def PermissionPostRacedata_def)
qed

lemma demo_validate: "validateEventAccess (tenant_auth demo_tenant) (EventSelector_Key ''a'') demo_lookup = Inr demo_epd"
  using demo_permission by (simp add: validateEventAccess_def demo_get) (simp add: demo_epd_def new_epd_def Let_def)

lemma demo_epd_fields: "epd_RecordingMode demo_epd = RECORDING_MODE_OTHER 1" "RaceSessions demo_epd = [0]"
  "epd_Event demo_epd = demo_event 1 ''a''" "CarClasses (carProcessor (epd_Processor demo_epd)) = []"
  by (simp_all add: demo_epd_def new_epd_def Let_def CollectRaceSessions_def demo_event_def NewProcessor_def
      WithCarProcessor_def WithRaceProcessor_def WithPublishChannels_def NewCarProcessor_def WithRaceSessions_def)

lemma demo_recorded: "recorded demo_epd (ReqState demo_empty_state)"
  "env_RunInTx demo_env (store_state demo_env demo_epd demo_empty_state) [] = Some (None, Some 1, [DemoState 1])"
  by (simp_all add: recorded_def demo_epd_fields isRaceSession_def demo_empty_state_def slices_contains_def
      demo_env_def demo_tx_def store_state_def demo_repos_def event_num_def demo_event_def)

lemma demo_publish_state:
  "\<exists>srv1 p. PublishState demo_env 7 (tenant_auth demo_tenant) demo_empty_state demo_server = Some (Inr (), srv1) \<and>
     lastSessionData p = psr_Session demo_empty_state \<and> srv_db srv1 = [DemoState 1] \<and>
     srv_lookup srv1 = put_epd (MarkDataEvent 7 (demo_epd\<lparr>LastRsInfoID := 1\<rparr>)\<lparr>epd_Processor := p\<rparr>) demo_lookup"
proof -
  obtain p where p: "ProcessState demo_empty_state (epd_Processor demo_epd) = Some p"
    "lastSessionData p = psr_Session demo_empty_state"
    using demo_state_run demo_epd_fields(4) by blast
  have "psr_Event demo_empty_state = Some (EventSelector_Key ''a'')" "isRaceSession demo_epd demo_empty_state = Some True"
    using demo_recorded(1) by (simp_all add: demo_empty_state_def recorded_def)
  with p demo_recorded(2) show ?thesis
    by (intro exI[of _ "put_event (MarkDataEvent 7 (demo_epd\<lparr>LastRsInfoID := 1\<rparr>)\<lparr>epd_Processor := p\<rparr>)
        (publish (PubState demo_empty_state) demo_server\<lparr>srv_db := [DemoState 1]\<rparr>)"] exI[of _ p])
      (simp add: PublishState_def demo_server_def demo_validate publish_def storeData_def demo_epd_fields(1)
        MarkDataEvent_def put_event_def)
qed

lemma demo_publish_speedmap:
  assumes "srv_lookup srv1 = put_epd (MarkDataEvent 7 (demo_epd\<lparr>LastRsInfoID := 1\<rparr>)\<lparr>epd_Processor := p\<rparr>) demo_lookup"
    "lastSessionData p = psr_Session demo_empty_state" "srv_db srv1 = [DemoState 1]"
  shows "\<exists>srv2. PublishSpeedmap demo_env (tenant_auth demo_tenant) demo_empty_speedmap srv1 = Some (Inr (), srv2)"
proof -
  let ?epd = "MarkDataEvent 7 (demo_epd\<lparr>LastRsInfoID := 1\<rparr>)\<lparr>epd_Processor := p\<rparr>"
  have "GetEvent (EventSelector_Key ''a'') (srv_lookup srv1) = Inr ?epd"
    unfolding assms(1) by (rule GetEvent_put[OF demo_lookup_inv demo_get]) (simp add: MarkDataEvent_def)
  then have "validateEventAccess (tenant_auth demo_tenant) (EventSelector_Key ''a'') (srv_lookup srv1) = Inr ?epd"
    using demo_permission by (simp add: validate_access MarkDataEvent_def) (simp add: demo_epd_def new_epd_def Let_def)
  moreover have "psm_Event demo_empty_speedmap = Some (EventSelector_Key ''a'')" by (simp add: demo_empty_speedmap_def)
  ultimately show ?thesis using demo_speedmap_run[OF assms(2)]
    by (auto simp: PublishSpeedmap_def storeData_def MarkDataEvent_def demo_epd_fields(1) demo_env_def demo_tx_def
        store_speedmap_def stored_def demo_repos_def demo_created_def Let_def)
qed

subsection \<open>Properties\<close>

text \<open>
  C7: A publish request that returns leaves the database as it was, or its event exists, the caller may post to
  the event's owner, the event is recorded (and a race state belongs to a race session), and the database is what
  the store function of that request made of it without an error: nothing is stored in parts.
\<close>

theorem publish_recorded:
  assumes "transactional (env_RunInTx env)" "handle_publish env now a req srv = Some (res, srv')"
  shows "srv_db srv' = srv_db srv \<or>
    (\<exists>sel epd v. request_event req = Some sel \<and> GetEvent sel (srv_lookup srv) = Inr epd \<and>
       HasObjectPermission a PermissionPostRacedata (epd_Owner epd) \<and> recorded epd req \<and>
       store_func env epd req (srv_db srv) = Some (None, v, srv_db srv'))"
  using assms(2)
proof (cases rule: handle_publish_result)
  case (accepted sel epd)
  show ?thesis
  proof (cases "recorded epd req")
    case True
    with handle_accepted[OF assms(2) accepted(1,5)] obtain err v where
      run: "env_RunInTx env (store_func env epd req) (srv_db srv) = Some (err, v, srv_db srv')" by auto
    have "srv_db srv' = srv_db srv \<or> store_func env epd req (srv_db srv) = Some (None, v, srv_db srv')"
      using assms(1)[unfolded transactional_def, rule_format, of "store_func env epd req" "srv_db srv"] run
      by (auto split: option.splits prod.splits)
    with True accepted show ?thesis by blast
  qed (use handle_accepted[OF assms(2) accepted(1,5)] in simp)
qed simp

theorem publish_recorded_witness:
  "\<exists>srv'. handle_publish demo_env 7 (tenant_auth demo_tenant) (ReqState demo_empty_state) demo_server = Some (Inr (), srv') \<and>
    (\<exists>sel epd v. recorded epd (ReqState demo_empty_state) \<and>
       store_func demo_env epd (ReqState demo_empty_state) [] = Some (None, v, srv_db srv') \<and> GetEvent sel demo_lookup = Inr epd)"
proof -
  obtain srv1 where "handle_publish demo_env 7 (tenant_auth demo_tenant) (ReqState demo_empty_state) demo_server =
      Some (Inr (), srv1)" "srv_db srv1 = [DemoState 1]" using demo_publish_state by auto
  with publish_recorded[OF demo_env_tx this(1)] show ?thesis by (fastforce simp: demo_server_def)
qed

text \<open>
  An accepted publish request changes, of all live events, only the processor, the last id and the
  time of the event it names; every other event, and who owns and records this one, stay as they are.
\<close>

theorem publish_own_event_only:
  assumes "lookup_inv (srv_lookup srv)" "handle_publish env now a req srv = Some (Inr (), srv')"
  shows "\<exists>sel epd epd'. request_event req = Some sel \<and> GetEvent sel (srv_lookup srv) = Inr epd \<and> progress epd epd' \<and>
    map_of (lookup (srv_lookup srv')) = (map_of (lookup (srv_lookup srv)))(ev_Key (epd_Event epd) \<mapsto> epd')"
  using assms(2)
proof (cases rule: handle_publish_result)
  case (accepted sel epd)
  consider "srv_lookup srv' = srv_lookup srv"
    | epd' where "progress epd epd'" "srv_lookup srv' = put_epd epd' (srv_lookup srv)"
    using handle_accepted[OF assms(2) accepted(1,5)] by blast
  then show ?thesis
  proof cases
    case 1
    then show ?thesis using accepted(1,2) GetEvent_map_of[OF assms(1) accepted(2)] progress_same
      by (metis map_upd_triv)
  next
    case 2
    then show ?thesis using accepted(1,2) progress_ident[OF 2(1)] by (metis put_epd_map)
  qed
qed simp

theorem publish_own_event_only_witness:
  "\<exists>srv' epd'. handle_publish demo_env 7 (tenant_auth demo_tenant) (ReqState demo_empty_state) demo_server = Some (Inr (), srv') \<and>
    map_of (lookup (srv_lookup srv')) = (map_of (lookup demo_lookup))(''a'' \<mapsto> epd')"
proof -
  obtain srv1 where run: "handle_publish demo_env 7 (tenant_auth demo_tenant) (ReqState demo_empty_state) demo_server =
      Some (Inr (), srv1)" using demo_publish_state by auto
  moreover have "lookup_inv (srv_lookup demo_server)" by (simp add: demo_server_def demo_lookup_inv)
  ultimately show ?thesis using publish_own_event_only[of demo_server demo_env 7 "tenant_auth demo_tenant"
      "ReqState demo_empty_state" srv1] demo_get
    by (auto simp: demo_server_def demo_empty_state_def demo_epd_fields(3) demo_event_def)
qed

text \<open>
  A speedmap published after a recorded race state is stored with the id of that state's rs_info row.
\<close>

theorem speedmap_follows_state:
  assumes "lookup_inv (srv_lookup srv)"
    "PublishState env now a req srv = Some (Inr (), srv1)" "PublishSpeedmap env b sm srv1 = Some (Inr (), srv2)"
    "psr_Event req = Some sel" "psm_Event sm = Some sel" "GetEvent sel (srv_lookup srv) = Inr epd"
    "recorded epd (ReqState req)" "env_RunInTx env (store_state env epd req) (srv_db srv) = Some (None, Some i, db1)"
  shows "\<exists>err v. env_RunInTx env (\<lambda>db. Some (stored (Speedmap_Create (env_repos env) i sm db))) db1 =
    Some (err, v, srv_db srv2)"
proof -
  let ?epd = "MarkDataEvent now (epd\<lparr>LastRsInfoID := i\<rparr>)"
  have val: "validateEventAccess a sel (srv_lookup srv) = Inr epd"
    using assms(2,4,6) by (auto simp: PublishState_def validateEventAccess_def split: if_splits)
  then obtain p where p: "srv_lookup srv1 = put_epd (?epd\<lparr>epd_Processor := p\<rparr>) (srv_lookup srv)" "srv_db srv1 = db1"
    using assms(2,4,7,8)
    by (auto simp: PublishState_def recorded_def storeData_def bind_eq_Some_conv Let_def put_event_def publish_def)
  have get: "GetEvent sel (srv_lookup srv1) = Inr (?epd\<lparr>epd_Processor := p\<rparr>)"
    unfolding p(1) by (rule GetEvent_put[OF assms(1,6)]) (simp add: MarkDataEvent_def)
  then have val2: "validateEventAccess b sel (srv_lookup srv1) = Inr (?epd\<lparr>epd_Processor := p\<rparr>)"
    using assms(3,5) by (auto simp: PublishSpeedmap_def validateEventAccess_def split: if_splits)
  have "epd_RecordingMode epd \<noteq> RECORDING_MODE_DO_NOT_PERSIST" using assms(7) by (simp add: recorded_def)
  with handle_accepted[of env now b "ReqSpeedmap sm" srv1 "Inr ()" srv2 sel, OF _ _ val2] assms(3,5) p(2)
  show ?thesis by (simp add: recorded_def MarkDataEvent_def store_speedmap_def[abs_def])
qed

theorem speedmap_follows_state_witness:
  "\<exists>srv1 srv2. PublishState demo_env 7 (tenant_auth demo_tenant) demo_empty_state demo_server = Some (Inr (), srv1) \<and>
    PublishSpeedmap demo_env (tenant_auth demo_tenant) demo_empty_speedmap srv1 = Some (Inr (), srv2) \<and>
    srv_db srv2 = [DemoState 1, DemoSpeedmap 1]"
proof -
  obtain srv1 p where srv1: "PublishState demo_env 7 (tenant_auth demo_tenant) demo_empty_state demo_server = Some (Inr (), srv1)"
    "lastSessionData p = psr_Session demo_empty_state" "srv_db srv1 = [DemoState 1]"
    "srv_lookup srv1 = put_epd (MarkDataEvent 7 (demo_epd\<lparr>LastRsInfoID := 1\<rparr>)\<lparr>epd_Processor := p\<rparr>) demo_lookup"
    using demo_publish_state by blast
  obtain srv2 where srv2: "PublishSpeedmap demo_env (tenant_auth demo_tenant) demo_empty_speedmap srv1 = Some (Inr (), srv2)"
    using demo_publish_speedmap[OF srv1(4,2,3)] by blast
  have ev: "psr_Event demo_empty_state = Some (EventSelector_Key ''a'')" "psm_Event demo_empty_speedmap = Some (EventSelector_Key ''a'')"
    by (simp_all add: demo_empty_state_def demo_empty_speedmap_def)
  have start: "lookup_inv (srv_lookup demo_server)" "GetEvent (EventSelector_Key ''a'') (srv_lookup demo_server) = Inr demo_epd"
    "srv_db demo_server = []" by (simp_all add: demo_server_def demo_lookup_inv demo_get)
  from speedmap_follows_state[OF start(1) srv1(1) srv2 ev start(2) demo_recorded(1)] demo_recorded(2) start(3)
  have "\<exists>err v. env_RunInTx demo_env (\<lambda>db. Some (stored (Speedmap_Create (env_repos demo_env) 1 demo_empty_speedmap db))) [DemoState 1] =
    Some (err, v, srv_db srv2)" by simp
  then have "srv_db srv2 = [DemoState 1, DemoSpeedmap 1]"
    by (simp add: demo_env_def demo_tx_def stored_def demo_repos_def demo_created_def)
  with srv1(1) srv2 show ?thesis by blast
qed

end
