(* ===== verification/Provider_Properties.thy ===== *)
theory Provider_Properties
  imports Provider_Server State_Properties "HOL-Library.Sublist"
begin

text \<open>
  What the provider service promises in the local mode: who can register and unregister which events, and how
  often the workers write.
\<close>

subsection \<open>Registration\<close>

abbreviation event_at :: "'db Server \<Rightarrow> string \<Rightarrow> EventProcessingData option" where
  "event_at srv \<equiv> map_of (lookup (srv_lookup srv))"

lemma register_accepted:
  assumes "RegisterEvent env now a req srv = Some (Inr (ev, tr), srv')"
  obtains tid epd el db where "TenantID a = Some tid" "HasTenantPermission a PermissionRegisterEvent tid"
    "env_GetEvent env (EventSelector_Key (rer_Key req)) srv = Inl ErrEventNotFound"
    "AddEvent ev tr (rer_RecordingMode req) (sprint_u32 tid) now (srv_lookup srv) = (Some epd, el)"
    "ev_Key ev = ev_Key (rer_Event req)" "srv_lookup srv' = el" "srv_db srv' = db"
proof -
  obtain tid where tid: "TenantID a = Some tid" using assms by (cases "TenantID a") (simp_all add: RegisterEvent_def)
  have perm: "HasTenantPermission a PermissionRegisterEvent tid"
    using assms tid by (cases "HasTenantPermission a PermissionRegisterEvent tid") (simp_all add: RegisterEvent_def)
  obtain e where get: "env_GetEvent env (EventSelector_Key (rer_Key req)) srv = Inl e"
    using assms tid perm by (cases "env_GetEvent env (EventSelector_Key (rer_Key req)) srv") (simp_all add: RegisterEvent_def)
  obtain err newId db where store:
    "provider_storeData env (rer_RecordingMode req) (store_event env req tid) (srv_db srv) = Some (err, newId, db)"
    using assms tid perm get
    by (cases "provider_storeData env (rer_RecordingMode req) (store_event env req tid) (srv_db srv)")
      (auto simp: RegisterEvent_def)
  have err: "err = None" using assms tid perm get store by (cases err) (simp_all add: RegisterEvent_def Let_def)
  let ?ev = "case newId of Some i \<Rightarrow> (rer_Event req)\<lparr>ev_Id := word_of_int i\<rparr> | None \<Rightarrow> rer_Event req"
  have "ev = ?ev" "\<exists>epd el. AddEvent ev tr (rer_RecordingMode req) (sprint_u32 tid) now (srv_lookup srv) = (Some epd, el) \<and>
      srv_lookup srv' = el"
    using assms tid perm get store err
    by (auto simp: RegisterEvent_def Let_def bind_eq_Some_conv publish_def split: prod.splits)
  moreover from this(1) have "ev_Key ev = ev_Key (rer_Event req)" by (simp split: option.splits)
  moreover have "e = ErrEventNotFound" by (cases e) simp
  ultimately show thesis using that tid perm get by blast
qed

lemma register_lookup:
  assumes "RegisterEvent env now a req srv = Some (res, srv')"
  shows "srv_lookup srv' = srv_lookup srv \<or>
    (\<exists>ev tr mode own epd. AddEvent ev tr mode own now (srv_lookup srv) = (Some epd, srv_lookup srv'))"
proof (cases res)
  case (Inr et)
  then obtain ev tr where "RegisterEvent env now a req srv = Some (Inr (ev, tr), srv')" using assms by (cases et) simp
  from register_accepted[OF this] show ?thesis by metis
next
  case (Inl e)
  show ?thesis
  proof (cases "TenantID a")
    case None
    with assms show ?thesis by (simp add: RegisterEvent_def)
  next
    case (Some tid)
    show ?thesis
    proof (cases "HasTenantPermission a PermissionRegisterEvent tid \<and>
        (\<exists>n. env_GetEvent env (EventSelector_Key (rer_Key req)) srv = Inl n)")
      case False
      with assms Some show ?thesis
        by (cases "env_GetEvent env (EventSelector_Key (rer_Key req)) srv") (auto simp: RegisterEvent_def split: if_splits)
    next
      case True
      with assms Some obtain err newId db where store:
        "provider_storeData env (rer_RecordingMode req) (store_event env req tid) (srv_db srv) = Some (err, newId, db)"
        by (cases "provider_storeData env (rer_RecordingMode req) (store_event env req tid) (srv_db srv)")
          (auto simp: RegisterEvent_def)
      show ?thesis
      proof (cases err)
        case (Some e')
        with assms \<open>TenantID a = Some tid\<close> True store show ?thesis by (auto simp: RegisterEvent_def)
      next
        case None
        with assms Inl \<open>TenantID a = Some tid\<close> True store show ?thesis
          by (auto simp: RegisterEvent_def Let_def bind_eq_Some_conv split: prod.splits)
      qed
    qed
  qed
qed

lemma add_event_new:
  assumes "AddEvent ev tr mode own now el = (Some epd, el')"
  shows "map_of (lookup el) (ev_Key ev) = None \<and> epd = new_epd ev tr mode own now \<and>
    map_of (lookup el') = (map_of (lookup el))(ev_Key ev \<mapsto> epd)"
  using assms by (auto simp: AddEvent_def Let_def update_conv' split: if_splits)

lemma new_epd_fields [simp]: "epd_Owner (new_epd ev tr mode own now) = own"
    "epd_RecordingMode (new_epd ev tr mode own now) = mode" "epd_Track (new_epd ev tr mode own now) = tr"
  by (simp_all add: new_epd_def Let_def)

subsection \<open>Unregistering\<close>

lemma unregister_cases:
  assumes "lookup_inv (srv_lookup srv)" "UnregisterEvent (local_env repos tx) a sel srv = Some (res, srv')"
  obtains (denied) c where "res = Inl c" "srv' = srv"
  | (accepted) epd where "res = Inr ()" "GetEvent sel (srv_lookup srv) = Inr epd"
      "HasObjectPermission a PermissionPostRacedata (epd_Owner epd)"
      "RemoveEvent sel (srv_lookup srv) = Some (srv_lookup srv')"
proof (cases "provider_validateEventAccess (local_env repos tx) a sel srv")
  case (Inl c)
  with assms(2) have "res = Inl c" "srv' = srv" by (simp_all add: UnregisterEvent_def)
  with denied show thesis by blast
next
  case (Inr ed)
  then obtain epd where epd: "GetEvent sel (srv_lookup srv) = Inr epd"
    "HasObjectPermission a PermissionPostRacedata (epd_Owner epd)"
    by (auto simp: provider_validateEventAccess_def local_env_def local_GetEvent_def container_of_def
        split: sum.splits option.splits if_splits)
  have "res = Inr ()" "RemoveEvent sel (srv_lookup srv) = Some (srv_lookup srv')"
    using assms(2) Inr epd(1) by (auto simp: UnregisterEvent_def publish_def bind_eq_Some_conv)
  with epd accepted show thesis by blast
qed

lemma remove_event_map:
  assumes "lookup_inv el" "GetEvent sel el = Inr epd" "RemoveEvent sel el = Some el'"
  shows "map_of (lookup el') = (map_of (lookup el))(ev_Key (epd_Event epd) := None) \<and> lookup_inv el'"
  using assms(2,3) delete_inv[OF assms(1)]
  by (auto simp: RemoveEvent_def bind_eq_Some_conv delete_conv')

subsection \<open>Workers\<close>

text \<open>The messages of a worker's channel that it writes: each more than the interval after the one before.\<close>

fun spaced :: "int \<Rightarrow> timestamp \<Rightarrow> (timestamp \<times> 'a) list \<Rightarrow> bool" where
  "spaced d t [] \<longleftrightarrow> True"
| "spaced d t (m # ms) \<longleftrightarrow> d < time_sub (fst m) t \<and> spaced d (fst m) ms"

lemma persist_loop:
  assumes "go_for (persist_step d persist) ch (t, db) = Some (t', db')"
  shows "\<exists>ws. subseq ws ch \<and> spaced d t ws \<and> go_for (\<lambda>m. persist (snd m)) ws db = Some db'"
  using assms
proof (induction ch arbitrary: t db)
  case (Cons m ch)
  show ?case
  proof (cases "d < time_sub (fst m) t")
    case True
    then have "persist_step d persist m (t, db) = map_option (Pair (fst m)) (persist (snd m) db)"
      by (cases "persist (snd m) db") (simp_all add: persist_step_def)
    with Cons.prems obtain db1 where db1: "persist (snd m) db = Some db1"
      "go_for (persist_step d persist) ch (fst m, db1) = Some (t', db')"
      by (auto simp: bind_eq_Some_conv)
    from Cons.IH[OF db1(2)] obtain ws where "subseq ws ch" "spaced d (fst m) ws"
      "go_for (\<lambda>m. persist (snd m)) ws db1 = Some db'" by blast
    with True db1(1) show ?thesis by (intro exI[of _ "m # ws"]) simp
  next
    case False
    then have "persist_step d persist m (t, db) = Some (t, db)" by (simp add: persist_step_def)
    with Cons.prems Cons.IH[of t db] show ?thesis by (auto intro: subseq_Cons')
  qed
qed auto

subsection \<open>A concrete registration\<close>

definition demo_local :: "(demo_row list, unit) ProviderEnv" where
  "demo_local = local_env demo_repos demo_tx"

definition demo_register :: "string \<Rightarrow> string \<Rightarrow> RegisterEventRequest" where
  "demo_register k k' = \<lparr>rer_Key = k, rer_Event = demo_event 0 k', rer_Track = demo_track,
     rer_RecordingMode = RECORDING_MODE_OTHER 1\<rparr>"

lemma demo_register_permission: "HasTenantPermission (tenant_auth demo_tenant) PermissionRegisterEvent 1"
proof -
  have "grants RoleRaceDataProvider PermissionRegisterEvent"
    by (simp add: grants_def permissions_of_def data_permissions_def map_get_def RoleRaceDataProvider_def PermissionRegisterEvent_def)
  then show ?thesis
    by (simp add: HasTenantPermission_def permission_by_scope_iff tenant_auth_def demo_tenant_def PermissionRegisterEvent_def)
qed

lemma demo_tenant_id: "TenantID (tenant_auth demo_tenant) = Some 1"
  by (simp add: tenant_auth_def demo_tenant_def)

lemma demo_local_simps: "env_repos (local_env repos tx) = repos" "env_RunInTx (local_env repos tx) = tx"
    "Track_LoadByID demo_repos i db = Inl ()"
  by (simp_all add: local_env_def demo_repos_def)

lemma demo_stores: "\<exists>db'. storeAnalysisData (local_env demo_repos demo_tx) epd db = Some db'"
    "\<exists>db'. storeReplayInfo (local_env demo_repos demo_tx) epd db = Some db'"
  by (auto simp: storeAnalysisData_def storeReplayInfo_def provider_storeData_def local_env_def demo_tx_def stored_def
      demo_repos_def demo_created_def)

lemma demo_store_event:
  "provider_storeData (local_env demo_repos demo_tx) (rer_RecordingMode (demo_register k k'))
     (store_event (local_env demo_repos demo_tx) (demo_register k k') 1) (srv_db demo_server) =
     Some (None, Some 5, [DemoOther, DemoOther])"
  by (simp add: provider_storeData_def demo_register_def local_env_def demo_tx_def store_event_def demo_repos_def
      demo_created_def demo_server_def)

lemma demo_registered:
  "\<exists>ev tr srv'. RegisterEvent (local_env demo_repos demo_tx) 9 (tenant_auth demo_tenant) (demo_register ''c'' ''c'') demo_server =
     Some (Inr (ev, tr), srv')"
proof -
  have "env_GetEvent (local_env demo_repos demo_tx) (EventSelector_Key ''c'') demo_server = Inl ErrEventNotFound"
    by (simp add: local_env_def local_GetEvent_def GetEvent_def demo_server_def demo_lookup_entries)
  moreover have "rer_Key (demo_register ''c'' ''c'') = ''c''" by (simp add: demo_register_def)
  moreover have "map_of (lookup (srv_lookup demo_server)) (ev_Key ((rer_Event (demo_register ''c'' ''c''))\<lparr>ev_Id := 5\<rparr>)) = None"
    by (simp add: demo_register_def demo_server_def demo_lookup_entries demo_event_def)
  then obtain epd el where "AddEvent ((rer_Event (demo_register ''c'' ''c''))\<lparr>ev_Id := 5\<rparr>) (rer_Track (demo_register ''c'' ''c''))
      (rer_RecordingMode (demo_register ''c'' ''c'')) (sprint_u32 1) 9 (srv_lookup demo_server) = (Some epd, el)"
    unfolding AddEvent_def Let_def by (simp only: if_False simp_thms)
  ultimately have "RegisterEvent (local_env demo_repos demo_tx) 9 (tenant_auth demo_tenant) (demo_register ''c'' ''c'') demo_server =
      Some (Inr ((rer_Event (demo_register ''c'' ''c''))\<lparr>ev_Id := 5\<rparr>, rer_Track (demo_register ''c'' ''c'')),
        publish (PubRegistered (ev_Key ((rer_Event (demo_register ''c'' ''c''))\<lparr>ev_Id := 5\<rparr>)))
          (demo_server\<lparr>srv_db := [DemoOther, DemoOther], srv_lookup := el\<rparr>))"
    by (simp only: RegisterEvent_def demo_tenant_id demo_register_permission demo_store_event demo_local_simps
        option.case sum.case simp_thms if_False bind.bind_lunit prod.case Let_def word_of_int_numeral Option.bind.simps)
  then show ?thesis by blast
qed

lemma demo_server_inv: "lookup_inv (srv_lookup demo_server)"
  by (simp add: demo_server_def demo_lookup_inv)

subsection \<open>Properties\<close>

text \<open>
  A registration that succeeds is a tenant's, who may register events; the key was not known before; afterwards
  the event is live, owned by that tenant and with the requested recording mode, and all other events are as
  they were.
\<close>

theorem register_event:
  assumes "lookup_inv (srv_lookup srv)" "rer_Key req = ev_Key (rer_Event req)"
    "RegisterEvent (local_env repos tx) now a req srv = Some (Inr (ev, tr), srv')"
  shows "\<exists>tid epd. TenantID a = Some tid \<and> HasTenantPermission a PermissionRegisterEvent tid \<and>
    event_at srv (rer_Key req) = None \<and> epd_Event epd = ev \<and> epd_Owner epd = sprint_u32 tid \<and>
    epd_RecordingMode epd = rer_RecordingMode req \<and> lookup_inv (srv_lookup srv') \<and>
    event_at srv' = (event_at srv)(rer_Key req \<mapsto> epd)"
proof -
  obtain tid epd el db where r: "TenantID a = Some tid" "HasTenantPermission a PermissionRegisterEvent tid"
    "AddEvent ev tr (rer_RecordingMode req) (sprint_u32 tid) now (srv_lookup srv) = (Some epd, el)"
    "ev_Key ev = ev_Key (rer_Event req)" "srv_lookup srv' = el"
    using register_accepted[OF assms(3)] by blast
  from add_event_new[OF r(3)] AddEvent_inv[OF assms(1), of ev tr "rer_RecordingMode req" "sprint_u32 tid" now] r assms(2)
  show ?thesis by (intro exI[of _ tid] exI[of _ epd]) simp
qed

theorem register_event_witness:
  "\<exists>ev tr epd srv'. RegisterEvent (local_env demo_repos demo_tx) 9 (tenant_auth demo_tenant) (demo_register ''c'' ''c'') demo_server =
      Some (Inr (ev, tr), srv') \<and> event_at srv' = (event_at demo_server)(''c'' \<mapsto> epd) \<and> epd_Owner epd = sprint_u32 1"
proof -
  obtain ev tr srv' where run: "RegisterEvent (local_env demo_repos demo_tx) 9 (tenant_auth demo_tenant) (demo_register ''c'' ''c'')
      demo_server = Some (Inr (ev, tr), srv')" using demo_registered by blast
  have keys: "rer_Key (demo_register ''c'' ''c'') = ev_Key (rer_Event (demo_register ''c'' ''c''))"
    "rer_Key (demo_register ''c'' ''c'') = ''c''" by (simp_all add: demo_register_def demo_event_def)
  obtain tid epd where "TenantID (tenant_auth demo_tenant) = Some tid" "epd_Owner epd = sprint_u32 tid"
    "event_at srv' = (event_at demo_server)(rer_Key (demo_register ''c'' ''c'') \<mapsto> epd)"
    using register_event[OF demo_server_inv keys(1) run] by blast
  then have "event_at srv' = (event_at demo_server)(''c'' \<mapsto> epd)" "epd_Owner epd = sprint_u32 1"
    by (simp_all add: keys(2) demo_tenant_id)
  with run show ?thesis by blast
qed

text \<open>
  The check for a registered event asks for the key of the request, but the event is added under its own
  key: if they differ and the event's key is live, the registration panics after its data have been stored.
\<close>

theorem register_other_key_panics:
  assumes "TenantID a = Some tid" "HasTenantPermission a PermissionRegisterEvent tid"
    "event_at srv (rer_Key req) = None" "event_at srv (ev_Key (rer_Event req)) \<noteq> None"
    "provider_storeData (local_env repos tx) (rer_RecordingMode req) (store_event (local_env repos tx) req tid) (srv_db srv) =
       Some (None, newId, db)"
  shows "RegisterEvent (local_env repos tx) now a req srv = None"
proof -
  have "env_GetEvent (local_env repos tx) (EventSelector_Key (rer_Key req)) srv = Inl ErrEventNotFound"
    using assms(3) by (simp add: local_env_def local_GetEvent_def GetEvent_def)
  with assms(1,2,4,5) show ?thesis
    by (auto simp: RegisterEvent_def Let_def AddEvent_def split: option.splits)
qed

theorem register_other_key_panics_witness:
  "RegisterEvent (local_env demo_repos demo_tx) 9 (tenant_auth demo_tenant) (demo_register ''c'' ''a'') demo_server = None"
  by (rule register_other_key_panics[OF demo_tenant_id demo_register_permission _ _ demo_store_event])
    (simp_all add: demo_register_def demo_server_def demo_lookup_entries demo_event_def)



text \<open>
  The analysis worker of a recorded event writes a subsequence of what arrives on its channel, each more
  than 15 seconds after the start or the write before it.
\<close>

theorem analysis_worker_spaced:
  assumes "epd_RecordingMode epd \<noteq> RECORDING_MODE_DO_NOT_PERSIST"
    "storeAnalysisDataWorker env epd start ch db = Some (t, db')"
  shows "\<exists>ws. subseq ws ch \<and> spaced (15 * second) start ws \<and>
    go_for (\<lambda>m db. do {
      (err, _, db) \<leftarrow> env_RunInTx env
        (\<lambda>db. Some (stored (Analysis_Upsert (env_repos env) (event_num epd) (Some (snd m)) db))) db;
      Some db
    }) ws db = Some db'"
  using persist_loop[of "15 * second" "\<lambda>data db. do {
      (err, _, db) \<leftarrow> env_RunInTx env
        (\<lambda>db. Some (stored (Analysis_Upsert (env_repos env) (event_num epd) (Some data) db))) db;
      Some db
    }" ch start db t db'] assms
  by (simp add: storeAnalysisDataWorker_def)

definition demo_analysis :: Analysis where
  "demo_analysis = \<lparr>an_RaceOrder = [], an_CarLaps = [], an_CarComputeStates = [], an_CarStints = [], an_CarPits = [],
     an_CarOccupancies = [], an_RaceGraph = []\<rparr>"

theorem analysis_worker_spaced_witness:
  "\<exists>t db' ws. storeAnalysisDataWorker demo_local demo_epd 0
       [(20 * second, demo_analysis), (30 * second, demo_analysis), (36 * second, demo_analysis)] [] = Some (t, db') \<and>
     db' = [DemoOther, DemoOther] \<and> spaced (15 * second) 0 ws \<and>
     subseq ws [(20 * second, demo_analysis), (30 * second, demo_analysis), (36 * second, demo_analysis)]"
proof -
  have "epd_RecordingMode demo_epd \<noteq> RECORDING_MODE_DO_NOT_PERSIST" by (simp add: demo_epd_fields)
  moreover have "storeAnalysisDataWorker demo_local demo_epd 0
      [(20 * second, demo_analysis), (30 * second, demo_analysis), (36 * second, demo_analysis)] [] =
      Some (36 * second, [DemoOther, DemoOther])"
    by (simp add: storeAnalysisDataWorker_def demo_epd_fields persist_step_def demo_local_def local_env_def demo_tx_def
        stored_def demo_repos_def demo_created_def time_sub_def clamp64_def second_def)
  ultimately show ?thesis using analysis_worker_spaced[of demo_epd demo_local 0] by blast
qed

end
