(* ===== verification/Repositories.thy ===== *)
theory Repositories
  imports Range_Stream
begin

text \<open>
  The repositories of recorded race data (pkg/grpc/repository/bob: racestate, car/proto, speedmap): the queries
  they build, the rows they write and how they decode what they read.

  The database is not part of the repository: an executor (bob.Executor) is a record of functions on
  the tables, and the documented behaviour of SQL it is used for is the predicate sql_executor.  The protobuf codec
  and the conversions to and from decimals are parameters as well; decimals of a NaN or an infinity, for
  which the decimal library panics, are outside the model.
\<close>

subsection \<open>Tables and queries\<close>

datatype proto_table = RaceStateProtos | MSGStateProtos | CarStateProtos | SpeedmapProtos

record 'd RSInfoSetter =
  rsi_EventID :: int32
  rsi_RecordStamp :: timestamp
  rsi_SessionTime :: 'd
  rsi_SessionNum :: int32
  rsi_TimeOfDay :: int32
  rsi_AirTemp :: 'd
  rsi_TrackTemp :: 'd
  rsi_TrackWetness :: int32
  rsi_Precipitation :: 'd

record 'd RSInfo = "'d RSInfoSetter" +
  rsi_ID :: int

text \<open>The tables; a row of a proto table is the id of its rs_info row with the protodata.\<close>

record ('d, 'b) database =
  db_RSInfos :: "'d RSInfo list"
  db_Protos :: "proto_table \<Rightarrow> (int \<times> 'b) list"

datatype 'd condition =
    EventID_EQ int32
  | ID_GTE int32
  | RecordStamp_GTE timestamp
  | SessionNum_EQ int32
  | SessionTime_GTE 'd
  | SessionTime_LTE 'd

datatype order = ID_Asc | ID_Desc | RecordStamp_Asc | SessionTime_Asc | SessionTime_Desc

record 'd Query =
  q_Where :: "'d condition list"
  q_Limit :: "int option"
  q_OrderBy :: "order list"

record ('d, 'b, 'e) Executor =
  ex_SelectRSInfos :: "('d, 'b) database \<Rightarrow> 'd Query \<Rightarrow> 'e + 'd RSInfo list"
  ex_SelectProtos :: "('d, 'b) database \<Rightarrow> proto_table \<Rightarrow> 'd Query \<Rightarrow> 'e + ('d RSInfo \<times> 'b) list"
  \<comment> \<open>the table joined with its rs_info rows\<close>
  ex_InsertRSInfo :: "('d, 'b) database \<Rightarrow> 'd RSInfoSetter \<Rightarrow> ('e + int) \<times> ('d, 'b) database"
  ex_InsertProto :: "('d, 'b) database \<Rightarrow> proto_table \<Rightarrow> int32 \<Rightarrow> 'b \<Rightarrow> ('e + unit) \<times> ('d, 'b) database"
  ex_DeleteProtos :: "('d, 'b) database \<Rightarrow> proto_table \<Rightarrow> int32 \<Rightarrow> ('e + int) \<times> ('d, 'b) database"
  \<comment> \<open>of the rs_info rows of an event\<close>
  ex_DeleteRSInfos :: "('d, 'b) database \<Rightarrow> int32 \<Rightarrow> ('e + int) \<times> ('d, 'b) database"

record ('m, 'b, 'e) codec =
  Marshal :: "'m \<Rightarrow> 'e + 'b"
  Unmarshal :: "'b \<Rightarrow> 'e + 'm"

record 'd decimals =
  NewFromFloat32 :: "f32 \<Rightarrow> 'd"
  NewFromFloat :: "float64 \<Rightarrow> 'd"
  ScanFloat32 :: "'d \<Rightarrow> f32"

text \<open>The executor of the context, which RunInTx puts there, or else the connection of the repository.\<close>

definition getExecutor :: "('d, 'b, 'e) Executor \<Rightarrow> ('d, 'b, 'e) Executor option \<Rightarrow> ('d, 'b, 'e) Executor" where
  "getExecutor conn ctx = (case ctx of Some executor \<Rightarrow> executor | None \<Rightarrow> conn)"

subsection \<open>Race states\<close>

definition racestate_setter :: "'d decimals \<Rightarrow> int \<Rightarrow> timestamp option \<Rightarrow> Session \<Rightarrow> 'd RSInfoSetter" where
  "racestate_setter nm eventID ts s = \<lparr>
     rsi_EventID = word_of_int eventID,
     rsi_RecordStamp = as_time ts,
     rsi_SessionTime = NewFromFloat32 nm (ses_SessionTime s),
     rsi_SessionNum = ses_SessionNum s,
     rsi_TimeOfDay = ses_TimeOfDay s,
     rsi_AirTemp = NewFromFloat32 nm (ses_AirTemp s),
     rsi_TrackTemp = NewFromFloat32 nm (ses_TrackTemp s),
     rsi_TrackWetness = word_of_int (ses_TrackWetness s),
     rsi_Precipitation = NewFromFloat32 nm (ses_Precipitation s)\<rparr>"

definition insert_message :: "('d, 'b, 'e) Executor \<Rightarrow> ('m, 'b, 'e) codec \<Rightarrow> proto_table \<Rightarrow> int \<Rightarrow> 'm \<Rightarrow>
    ('d, 'b) database \<Rightarrow> ('e + unit) \<times> ('d, 'b) database" where
  "insert_message ex cd tab rsInfoID m db = (case Marshal cd m of
     Inl err \<Rightarrow> (Inl err, db)
   | Inr binaryMessage \<Rightarrow> ex_InsertProto ex db tab (word_of_int rsInfoID) binaryMessage)"

fun insert_messages :: "('d, 'b, 'e) Executor \<Rightarrow> (Message, 'b, 'e) codec \<Rightarrow> int \<Rightarrow> Message list \<Rightarrow>
    ('d, 'b) database \<Rightarrow> ('e + int) \<times> ('d, 'b) database" where
  "insert_messages ex cd rsInfoID [] db = (Inr rsInfoID, db)"
| "insert_messages ex cd rsInfoID (m # ms) db = (case insert_message ex cd MSGStateProtos rsInfoID m db of
     (Inl err, db') \<Rightarrow> (Inl err, db')
   | (Inr _, db') \<Rightarrow> insert_messages ex cd rsInfoID ms db')"

definition CreateRacestate :: "('d, 'b, 'e) Executor \<Rightarrow> (PublishStateRequest, 'b, 'e) codec \<Rightarrow>
    (Message, 'b, 'e) codec \<Rightarrow> 'd decimals \<Rightarrow> int \<Rightarrow> PublishStateRequest \<Rightarrow> ('d, 'b) database \<Rightarrow>
    (('e + int) \<times> ('d, 'b) database) run" where
  "CreateRacestate ex cd mcd nm eventID racestate db = do {
     session \<leftarrow> psr_Session racestate;
     Some (case ex_InsertRSInfo ex db (racestate_setter nm eventID (psr_Timestamp racestate) session) of
       (Inl err, db1) \<Rightarrow> (Inl err, db1)
     | (Inr rsInfoID, db1) \<Rightarrow> (case insert_message ex cd RaceStateProtos rsInfoID racestate db1 of
         (Inl err, db2) \<Rightarrow> (Inl err, db2)
       | (Inr _, db2) \<Rightarrow> insert_messages ex mcd rsInfoID (psr_Messages racestate) db2))
   }"

definition CreateDummyRacestateInfo :: "('d, 'b, 'e) Executor \<Rightarrow> 'd decimals \<Rightarrow> int \<Rightarrow> timestamp \<Rightarrow> f32 \<Rightarrow>
    uint32 \<Rightarrow> ('d, 'b) database \<Rightarrow> ('e + int) \<times> ('d, 'b) database" where
  "CreateDummyRacestateInfo ex nm eventID ts sessionTime sessionNum db =
     ex_InsertRSInfo ex db \<lparr>
       rsi_EventID = word_of_int eventID,
       rsi_RecordStamp = ts,
       rsi_SessionTime = NewFromFloat32 nm sessionTime,
       rsi_SessionNum = sessionNum,
       rsi_TimeOfDay = 0,
       rsi_AirTemp = NewFromFloat32 nm f32_zero,
       rsi_TrackTemp = NewFromFloat32 nm f32_zero,
       rsi_TrackWetness = 0,
       rsi_Precipitation = NewFromFloat32 nm f32_zero\<rparr>"

datatype 'e find_error = DbError 'e | NoRaceStateFound

definition FindNearestRacestate :: "('d, 'b, 'e) Executor \<Rightarrow> 'd decimals \<Rightarrow> int \<Rightarrow> f32 \<Rightarrow> ('d, 'b) database \<Rightarrow>
    'e find_error + int" where
  "FindNearestRacestate ex nm eventID sessionTime db =
     (case ex_SelectRSInfos ex db \<lparr>
         q_Where = [EventID_EQ (word_of_int eventID), SessionTime_LTE (NewFromFloat32 nm sessionTime)],
         q_Limit = Some 1, q_OrderBy = [SessionTime_Desc]\<rparr> of
       Inl err \<Rightarrow> Inl (DbError err)
     | Inr (row # _) \<Rightarrow> Inr (rsi_ID row)
     | Inr [] \<Rightarrow> (case ex_SelectRSInfos ex db \<lparr>
           q_Where = [EventID_EQ (word_of_int eventID)],
           q_Limit = Some 1, q_OrderBy = [SessionTime_Asc]\<rparr> of
         Inl err \<Rightarrow> Inl (DbError err)
       | Inr [] \<Rightarrow> Inl NoRaceStateFound
       | Inr (row # _) \<Rightarrow> Inr (rsi_ID row)))"

text \<open>The latest message of a table; the code reads the first row without asking whether there is one.\<close>

definition load_latest :: "('d, 'b, 'e) Executor \<Rightarrow> ('m, 'b, 'e) codec \<Rightarrow> proto_table \<Rightarrow> int \<Rightarrow>
    ('d, 'b) database \<Rightarrow> ('e + 'm) run" where
  "load_latest ex cd tab eventID db =
     (case ex_SelectProtos ex db tab \<lparr>
         q_Where = [EventID_EQ (word_of_int eventID)], q_Limit = Some 1, q_OrderBy = [ID_Desc]\<rparr> of
       Inl err \<Rightarrow> Some (Inl err)
     | Inr [] \<Rightarrow> None
     | Inr (row # _) \<Rightarrow> Some (Unmarshal cd (snd row)))"

definition racestate_LoadLatest :: "('d, 'b, 'e) Executor \<Rightarrow> (PublishStateRequest, 'b, 'e) codec \<Rightarrow> int \<Rightarrow>
    ('d, 'b) database \<Rightarrow> ('e + PublishStateRequest) run" where
  "racestate_LoadLatest ex cd = load_latest ex cd RaceStateProtos"

record MessageContainer =
  mc_SessionTime :: f32
  mc_Timestamp :: "timestamp option"
  mc_Message :: Message

fun message_containers :: "(Message, 'b, 'e) codec \<Rightarrow> 'd decimals \<Rightarrow> ('d RSInfo \<times> 'b) list \<Rightarrow>
    MessageContainer list \<Rightarrow> 'e + MessageContainer list" where
  "message_containers cd nm [] ret = Inr ret"
| "message_containers cd nm (row # rows) ret = (case Unmarshal cd (snd row) of
     Inl err \<Rightarrow> Inl err
   | Inr msg \<Rightarrow> message_containers cd nm rows (ret @ [
       \<lparr>mc_SessionTime = ScanFloat32 nm (rsi_SessionTime (fst row)),
        mc_Timestamp = Some (rsi_RecordStamp (fst row)), mc_Message = msg\<rparr>]))"

definition CollectMessages :: "('d, 'b, 'e) Executor \<Rightarrow> (Message, 'b, 'e) codec \<Rightarrow> 'd decimals \<Rightarrow> int \<Rightarrow>
    ('d, 'b) database \<Rightarrow> 'e + MessageContainer list" where
  "CollectMessages ex cd nm eventID db =
     (case ex_SelectProtos ex db MSGStateProtos \<lparr>
         q_Where = [EventID_EQ (word_of_int eventID)], q_Limit = None, q_OrderBy = [ID_Asc]\<rparr> of
       Inl err \<Rightarrow> Inl err
     | Inr res \<Rightarrow> message_containers cd nm res [])"

text \<open>loadRange: the loop over the rows, the same in the three repositories.\<close>

fun range_of :: "('m, 'b, 'e) codec \<Rightarrow> 'd decimals \<Rightarrow> ('d RSInfo \<times> 'b) list \<Rightarrow> 'm RangeContainer \<Rightarrow>
    'e + 'm RangeContainer" where
  "range_of cd nm [] ret = Inr ret"
| "range_of cd nm (row # rows) ret = (case Unmarshal cd (snd row) of
     Inl err \<Rightarrow> Inl err
   | Inr m \<Rightarrow> range_of cd nm rows (ret\<lparr>
       rc_Data := rc_Data ret @ [m],
       rc_LastTimestamp := rsi_RecordStamp (fst row),
       rc_LastSessionTime := ScanFloat32 nm (rsi_SessionTime (fst row)),
       rc_LastRsInfoID := rsi_ID (fst row)\<rparr>))"

definition load_range :: "('d, 'b, 'e) Executor \<Rightarrow> ('m, 'b, 'e) codec \<Rightarrow> 'd decimals \<Rightarrow> ('d, 'b) database \<Rightarrow>
    proto_table \<Rightarrow> 'd Query \<Rightarrow> 'e + 'm RangeContainer" where
  "load_range ex cd nm db tab q = (case ex_SelectProtos ex db tab q of
     Inl err \<Rightarrow> Inl err
   | Inr res \<Rightarrow> range_of cd nm res
       \<lparr>rc_Data = [], rc_LastTimestamp = zero_time, rc_LastSessionTime = f32_zero, rc_LastRsInfoID = 0\<rparr>)"

definition racestate_LoadRange :: "int \<Rightarrow> timestamp \<Rightarrow> int \<Rightarrow> 'd Query" where
  "racestate_LoadRange eventID startTS limit = \<lparr>
     q_Where = [EventID_EQ (word_of_int eventID), RecordStamp_GTE startTS],
     q_Limit = Some limit, q_OrderBy = [ID_Asc]\<rparr>"

definition racestate_LoadRangeBySessionTime :: "'d decimals \<Rightarrow> int \<Rightarrow> uint32 \<Rightarrow> float64 \<Rightarrow> int \<Rightarrow> 'd Query" where
  "racestate_LoadRangeBySessionTime nm eventID sessionNum sessionTime limit = \<lparr>
     q_Where = [EventID_EQ (word_of_int eventID), SessionNum_EQ sessionNum,
       SessionTime_GTE (NewFromFloat nm sessionTime)],
     q_Limit = Some limit, q_OrderBy = [ID_Asc]\<rparr>"

definition racestate_LoadRangeByID :: "int \<Rightarrow> int \<Rightarrow> int \<Rightarrow> 'd Query" where
  "racestate_LoadRangeByID eventID rsInfoID limit = \<lparr>
     q_Where = [EventID_EQ (word_of_int eventID), ID_GTE (word_of_int rsInfoID)],
     q_Limit = Some limit, q_OrderBy = [ID_Asc]\<rparr>"

definition racestate_LoadRangeByIDWithinSession :: "int \<Rightarrow> uint32 \<Rightarrow> int \<Rightarrow> int \<Rightarrow> 'd Query" where
  "racestate_LoadRangeByIDWithinSession eventID sessionNum rsInfoID limit = \<lparr>
     q_Where = [EventID_EQ (word_of_int eventID), ID_GTE (word_of_int rsInfoID), SessionNum_EQ sessionNum],
     q_Limit = Some limit, q_OrderBy = [ID_Asc]\<rparr>"

definition RacestateRepository :: "('d, 'b, 'e) Executor \<Rightarrow> (PublishStateRequest, 'b, 'e) codec \<Rightarrow> 'd decimals \<Rightarrow>
    ('d, 'b) database \<Rightarrow> ('e, PublishStateRequest) range_repo" where
  "RacestateRepository ex cd nm db = (let loadRange = load_range ex cd nm db RaceStateProtos in \<lparr>
     LoadRange = (\<lambda>e ts n. loadRange (racestate_LoadRange e ts n)),
     LoadRangeBySessionTime = (\<lambda>e num t n. loadRange (racestate_LoadRangeBySessionTime nm e num t n)),
     LoadRangeByID = (\<lambda>e i n. loadRange (racestate_LoadRangeByID e i n)),
     LoadRangeByIDWithinSession =
       (\<lambda>e num i n. loadRange (racestate_LoadRangeByIDWithinSession e num i n))\<rparr>)"

definition racestate_DeleteByEventID :: "('d, 'b, 'e) Executor \<Rightarrow> int \<Rightarrow> ('d, 'b) database \<Rightarrow>
    ('e + int) \<times> ('d, 'b) database" where
  "racestate_DeleteByEventID ex eventID db = (case ex_DeleteProtos ex db RaceStateProtos (word_of_int eventID) of
     (Inl err, db1) \<Rightarrow> (Inl err, db1)
   | (Inr _, db1) \<Rightarrow> (case ex_DeleteProtos ex db1 MSGStateProtos (word_of_int eventID) of
       (Inl err, db2) \<Rightarrow> (Inl err, db2)
     | (Inr _, db2) \<Rightarrow> ex_DeleteRSInfos ex db2 (word_of_int eventID)))"

subsection \<open>Driver data\<close>

definition carproto_Create :: "('d, 'b, 'e) Executor \<Rightarrow> (PublishDriverDataRequest, 'b, 'e) codec \<Rightarrow> int \<Rightarrow>
    PublishDriverDataRequest \<Rightarrow> ('d, 'b) database \<Rightarrow> ('e + unit) \<times> ('d, 'b) database" where
  "carproto_Create ex cd = insert_message ex cd CarStateProtos"

definition carproto_LoadLatest :: "('d, 'b, 'e) Executor \<Rightarrow> (PublishDriverDataRequest, 'b, 'e) codec \<Rightarrow> int \<Rightarrow>
    ('d, 'b) database \<Rightarrow> ('e + PublishDriverDataRequest) run" where
  "carproto_LoadLatest ex cd = load_latest ex cd CarStateProtos"

definition carproto_LoadRange :: "int \<Rightarrow> timestamp \<Rightarrow> int \<Rightarrow> 'd Query" where
  "carproto_LoadRange eventID startTS limit = \<lparr>
     q_Where = [EventID_EQ (word_of_int eventID), RecordStamp_GTE startTS],
     q_Limit = Some limit, q_OrderBy = [ID_Asc]\<rparr>"

definition carproto_LoadRangeBySessionTime :: "'d decimals \<Rightarrow> int \<Rightarrow> uint32 \<Rightarrow> float64 \<Rightarrow> int \<Rightarrow> 'd Query" where
  "carproto_LoadRangeBySessionTime nm eventID sessionNum sessionTime limit = \<lparr>
     q_Where = [EventID_EQ (word_of_int eventID), SessionNum_EQ sessionNum,
       SessionTime_GTE (NewFromFloat nm sessionTime)],
     q_Limit = Some limit, q_OrderBy = [ID_Asc]\<rparr>"

definition carproto_LoadRangeByID :: "int \<Rightarrow> int \<Rightarrow> int \<Rightarrow> 'd Query" where
  "carproto_LoadRangeByID eventID rsInfoID limit = \<lparr>
     q_Where = [EventID_EQ (word_of_int eventID), ID_GTE (word_of_int rsInfoID)],
     q_Limit = Some limit, q_OrderBy = [ID_Asc, RecordStamp_Asc]\<rparr>"

definition carproto_LoadRangeByIDWithinSession :: "int \<Rightarrow> uint32 \<Rightarrow> int \<Rightarrow> int \<Rightarrow> 'd Query" where
  "carproto_LoadRangeByIDWithinSession eventID sessionNum rsInfoID limit = \<lparr>
     q_Where = [EventID_EQ (word_of_int eventID), ID_GTE (word_of_int rsInfoID), SessionNum_EQ sessionNum],
     q_Limit = Some limit, q_OrderBy = [ID_Asc, RecordStamp_Asc]\<rparr>"

definition CarProtoRepository :: "('d, 'b, 'e) Executor \<Rightarrow> (PublishDriverDataRequest, 'b, 'e) codec \<Rightarrow>
    'd decimals \<Rightarrow> ('d, 'b) database \<Rightarrow> ('e, PublishDriverDataRequest) range_repo" where
  "CarProtoRepository ex cd nm db = (let loadRange = load_range ex cd nm db CarStateProtos in \<lparr>
     LoadRange = (\<lambda>e ts n. loadRange (carproto_LoadRange e ts n)),
     LoadRangeBySessionTime = (\<lambda>e num t n. loadRange (carproto_LoadRangeBySessionTime nm e num t n)),
     LoadRangeByID = (\<lambda>e i n. loadRange (carproto_LoadRangeByID e i n)),
     LoadRangeByIDWithinSession =
       (\<lambda>e num i n. loadRange (carproto_LoadRangeByIDWithinSession e num i n))\<rparr>)"

definition carproto_DeleteByEventID :: "('d, 'b, 'e) Executor \<Rightarrow> int \<Rightarrow> ('d, 'b) database \<Rightarrow>
    ('e + int) \<times> ('d, 'b) database" where
  "carproto_DeleteByEventID ex eventID db = ex_DeleteProtos ex db CarStateProtos (word_of_int eventID)"

subsection \<open>Speedmaps\<close>

definition speedmap_Create :: "('d, 'b, 'e) Executor \<Rightarrow> (PublishSpeedmapRequest, 'b, 'e) codec \<Rightarrow> int \<Rightarrow>
    PublishSpeedmapRequest \<Rightarrow> ('d, 'b) database \<Rightarrow> ('e + unit) \<times> ('d, 'b) database" where
  "speedmap_Create ex cd = insert_message ex cd SpeedmapProtos"

definition speedmap_LoadLatest :: "('d, 'b, 'e) Executor \<Rightarrow> (PublishSpeedmapRequest, 'b, 'e) codec \<Rightarrow> int \<Rightarrow>
    ('d, 'b) database \<Rightarrow> ('e + PublishSpeedmapRequest) run" where
  "speedmap_LoadLatest ex cd = load_latest ex cd SpeedmapProtos"

definition speedmap_LoadRange :: "int \<Rightarrow> timestamp \<Rightarrow> int \<Rightarrow> 'd Query" where
  "speedmap_LoadRange eventID startTS limit = \<lparr>
     q_Where = [EventID_EQ (word_of_int eventID), RecordStamp_GTE startTS],
     q_Limit = Some limit, q_OrderBy = [ID_Asc]\<rparr>"

definition speedmap_LoadRangeBySessionTime :: "'d decimals \<Rightarrow> int \<Rightarrow> uint32 \<Rightarrow> float64 \<Rightarrow> int \<Rightarrow> 'd Query" where
  "speedmap_LoadRangeBySessionTime nm eventID sessionNum sessionTime limit = \<lparr>
     q_Where = [EventID_EQ (word_of_int eventID), SessionNum_EQ sessionNum,
       SessionTime_GTE (NewFromFloat nm sessionTime)],
     q_Limit = Some limit, q_OrderBy = [ID_Asc]\<rparr>"

definition speedmap_LoadRangeByID :: "int \<Rightarrow> int \<Rightarrow> int \<Rightarrow> 'd Query" where
  "speedmap_LoadRangeByID eventID rsInfoID limit = \<lparr>
     q_Where = [EventID_EQ (word_of_int eventID), ID_GTE (word_of_int rsInfoID)],
     q_Limit = Some limit, q_OrderBy = [ID_Asc]\<rparr>"

definition speedmap_LoadRangeByIDWithinSession :: "int \<Rightarrow> uint32 \<Rightarrow> int \<Rightarrow> int \<Rightarrow> 'd Query" where
  "speedmap_LoadRangeByIDWithinSession eventID sessionNum rsInfoID limit = \<lparr>
     q_Where = [EventID_EQ (word_of_int eventID), ID_GTE (word_of_int rsInfoID), SessionNum_EQ sessionNum],
     q_Limit = Some limit, q_OrderBy = [ID_Asc]\<rparr>"

definition SpeedmapRepository :: "('d, 'b, 'e) Executor \<Rightarrow> (PublishSpeedmapRequest, 'b, 'e) codec \<Rightarrow>
    'd decimals \<Rightarrow> ('d, 'b) database \<Rightarrow> ('e, PublishSpeedmapRequest) range_repo" where
  "SpeedmapRepository ex cd nm db = (let loadRange = load_range ex cd nm db SpeedmapProtos in \<lparr>
     LoadRange = (\<lambda>e ts n. loadRange (speedmap_LoadRange e ts n)),
     LoadRangeBySessionTime = (\<lambda>e num t n. loadRange (speedmap_LoadRangeBySessionTime nm e num t n)),
     LoadRangeByID = (\<lambda>e i n. loadRange (speedmap_LoadRangeByID e i n)),
     LoadRangeByIDWithinSession =
       (\<lambda>e num i n. loadRange (speedmap_LoadRangeByIDWithinSession e num i n))\<rparr>)"

definition speedmap_DeleteByEventID :: "('d, 'b, 'e) Executor \<Rightarrow> int \<Rightarrow> ('d, 'b) database \<Rightarrow>
    ('e + int) \<times> ('d, 'b) database" where
  "speedmap_DeleteByEventID ex eventID db = ex_DeleteProtos ex db SpeedmapProtos (word_of_int eventID)"

text \<open>
  findStartingPoint: the rs_info row of the first speedmap in which a car class has a laptime.  A message
  without a speedmap is a nil dereference.
\<close>

definition has_laptime :: "(string \<times> ClassSpeedmapData) list \<Rightarrow> bool" where
  "has_laptime entries = fold (\<lambda>(k, car) found. found \<or> f32_gt (csd_Laptime car) f32_zero) entries False"

fun starting_point :: "(PublishSpeedmapRequest, 'b, 'e) codec \<Rightarrow> ('d RSInfo \<times> 'b) list \<Rightarrow>
    ('e + (int \<times> timestamp) option) run" where
  "starting_point cd [] = Some (Inr None)"
| "starting_point cd (row # rows) = (case Unmarshal cd (snd row) of
     Inl err \<Rightarrow> Some (Inl err)
   | Inr speedmap \<Rightarrow> do {
       entries \<leftarrow> psm_Speedmap speedmap;
       if has_laptime entries
       then Some (Inr (Some (rsi_ID (fst row), rsi_RecordStamp (fst row))))
       else starting_point cd rows
     })"

definition findStartingPoint :: "('d, 'b, 'e) Executor \<Rightarrow> (PublishSpeedmapRequest, 'b, 'e) codec \<Rightarrow> int \<Rightarrow>
    ('d, 'b) database \<Rightarrow> ('e + (int \<times> timestamp) option) run" where
  "findStartingPoint ex cd eventID db =
     (case ex_SelectProtos ex db SpeedmapProtos \<lparr>
         q_Where = [EventID_EQ (word_of_int eventID)], q_Limit = None, q_OrderBy = [RecordStamp_Asc]\<rparr> of
       Inl err \<Rightarrow> Some (Inl err)
     | Inr res \<Rightarrow> starting_point cd res)"

text \<open>A row of the snapshot query; the time of day is scanned into a float32 and converted to uint32 by u32.\<close>

record 'b snapRaw =
  sr_RecordStamp :: timestamp
  sr_SessionTime :: f32
  sr_TimeOfDay :: f32
  sr_AirTemp :: f32
  sr_TrackTemp :: f32
  sr_TrackWetness :: int
  sr_Precipitation :: f32
  sr_Protodata :: 'b

fun snapRowToSnapshotData :: "(f32 \<Rightarrow> uint32) \<Rightarrow> (PublishSpeedmapRequest, 'b, 'e) codec \<Rightarrow> 'b snapRaw list \<Rightarrow>
    SnapshotData list \<Rightarrow> ('e + SnapshotData list) run" where
  "snapRowToSnapshotData u32 cd [] ret = Some (Inr ret)"
| "snapRowToSnapshotData u32 cd (raw # rows) ret = (case Unmarshal cd (sr_Protodata raw) of
     Inl err \<Rightarrow> Some (Inl err)
   | Inr speedmap \<Rightarrow> do {
       entries \<leftarrow> psm_Speedmap speedmap;
       snapRowToSnapshotData u32 cd rows (ret @ [\<lparr>
         sd_RecordStamp = Some (sr_RecordStamp raw),
         sd_SessionTime = sr_SessionTime raw,
         sd_TimeOfDay = u32 (sr_TimeOfDay raw),
         sd_AirTemp = sr_AirTemp raw,
         sd_TrackTemp = sr_TrackTemp raw,
         sd_TrackWetness = sint (word_of_int (sr_TrackWetness raw) :: int32),
         sd_Precipitation = sr_Precipitation raw,
         sd_CarClassLaptimes = map (\<lambda>(k, car). (k, csd_Laptime car)) entries\<rparr>])
     })"

text \<open>The query of LoadSnapshots itself (date bins in a window function) is the database's: snapshots.\<close>

definition LoadSnapshots :: "('d, 'b, 'e) Executor \<Rightarrow>
    (('d, 'b) database \<Rightarrow> int32 \<Rightarrow> timestamp \<Rightarrow> int \<Rightarrow> 'e + 'b snapRaw list) \<Rightarrow> (f32 \<Rightarrow> uint32) \<Rightarrow>
    (PublishSpeedmapRequest, 'b, 'e) codec \<Rightarrow> int \<Rightarrow> int \<Rightarrow> ('d, 'b) database \<Rightarrow> ('e + SnapshotData list) run" where
  "LoadSnapshots ex snapshots u32 cd eventID intervalSecs db = do {
     start \<leftarrow> findStartingPoint ex cd eventID db;
     (case start of
        Inl err \<Rightarrow> Some (Inl err)
      | Inr None \<Rightarrow> Some (Inr [])
      | Inr (Some (rsID, startTS)) \<Rightarrow>
          (case snapshots db (word_of_int eventID) startTS intervalSecs of
             Inl err \<Rightarrow> Some (Inl err)
           | Inr res \<Rightarrow> snapRowToSnapshotData u32 cd res []))
   }"

end
