(* ===== verification/Repository_Properties.thy ===== *)
theory Repository_Properties
  imports Repositories "HOL-Library.Multiset"
begin

text \<open>
  What the repositories promise, on an executor that answers queries as SQL does: the load functions return
  the next rows of an event in the order of their ids, so that the streams of Range_Stream send
  all of them, and what has been created is read back.
\<close>

subsection \<open>What SQL answers\<close>

fun satisfies :: "('d::linorder) condition \<Rightarrow> 'd RSInfo \<Rightarrow> bool" where
  "satisfies (EventID_EQ e) r \<longleftrightarrow> rsi_EventID r = e"
| "satisfies (ID_GTE i) r \<longleftrightarrow> sint i \<le> rsi_ID r"
| "satisfies (RecordStamp_GTE t) r \<longleftrightarrow> t \<le> rsi_RecordStamp r"
| "satisfies (SessionNum_EQ n) r \<longleftrightarrow> rsi_SessionNum r = n"
| "satisfies (SessionTime_GTE t) r \<longleftrightarrow> t \<le> rsi_SessionTime r"
| "satisfies (SessionTime_LTE t) r \<longleftrightarrow> rsi_SessionTime r \<le> t"

text \<open>ORDER BY: r may come before r'.\<close>

fun row_le :: "order list \<Rightarrow> ('d::linorder) RSInfo \<Rightarrow> 'd RSInfo \<Rightarrow> bool" where
  "row_le [] r r' \<longleftrightarrow> True"
| "row_le (ID_Asc # os) r r' \<longleftrightarrow> rsi_ID r < rsi_ID r' \<or> rsi_ID r = rsi_ID r' \<and> row_le os r r'"
| "row_le (ID_Desc # os) r r' \<longleftrightarrow> rsi_ID r' < rsi_ID r \<or> rsi_ID r = rsi_ID r' \<and> row_le os r r'"
| "row_le (RecordStamp_Asc # os) r r' \<longleftrightarrow> rsi_RecordStamp r < rsi_RecordStamp r' \<or>
     rsi_RecordStamp r = rsi_RecordStamp r' \<and> row_le os r r'"
| "row_le (SessionTime_Asc # os) r r' \<longleftrightarrow> rsi_SessionTime r < rsi_SessionTime r' \<or>
     rsi_SessionTime r = rsi_SessionTime r' \<and> row_le os r r'"
| "row_le (SessionTime_Desc # os) r r' \<longleftrightarrow> rsi_SessionTime r' < rsi_SessionTime r \<or>
     rsi_SessionTime r = rsi_SessionTime r' \<and> row_le os r r'"

definition limit_rows :: "int option \<Rightarrow> 'a list \<Rightarrow> 'a list" where
  "limit_rows lim xs = (case lim of None \<Rightarrow> xs | Some n \<Rightarrow> take (nat n) xs)"

text \<open>
  The rows that satisfy the conditions in some order that ORDER BY allows, up to the limit; info is the rs_info
  part of a row.
\<close>

definition answer :: "('d::linorder) Query \<Rightarrow> ('r \<Rightarrow> 'd RSInfo) \<Rightarrow> 'r list \<Rightarrow> 'r list \<Rightarrow> bool" where
  "answer q info xs ys \<longleftrightarrow> (\<exists>zs. mset zs = mset (filter (\<lambda>r. \<forall>c \<in> set (q_Where q). satisfies c (info r)) xs) \<and>
     sorted_wrt (\<lambda>r r'. row_le (q_OrderBy q) (info r) (info r')) zs \<and> ys = limit_rows (q_Limit q) zs)"

lemma answer_subset:
  assumes "answer q f xs ys"
  shows "set ys \<subseteq> set xs"
proof -
  obtain zs where zs: "mset zs = mset (filter (\<lambda>r. \<forall>c \<in> set (q_Where q). satisfies c (f r)) xs)"
    "ys = limit_rows (q_Limit q) zs" using assms by (auto simp: answer_def)
  from zs(1) have "set zs = set (filter (\<lambda>r. \<forall>c \<in> set (q_Where q). satisfies c (f r)) xs)" by (rule mset_eq_setD)
  with zs(2) show ?thesis by (auto simp: limit_rows_def split: option.splits dest: in_set_takeD)
qed

definition join :: "('d, 'b) database \<Rightarrow> proto_table \<Rightarrow> ('d RSInfo \<times> 'b) list" where
  "join db tab = concat (map (\<lambda>(i, b). map (\<lambda>r. (r, b)) (filter (\<lambda>r. rsi_ID r = i) (db_RSInfos db)))
     (db_Protos db tab))"

definition insert_info :: "('d, 'b) database \<Rightarrow> 'd RSInfo \<Rightarrow> ('d, 'b) database" where
  "insert_info db r = db\<lparr>db_RSInfos := db_RSInfos db @ [r]\<rparr>"

definition insert_proto :: "('d, 'b) database \<Rightarrow> proto_table \<Rightarrow> int \<Rightarrow> 'b \<Rightarrow> ('d, 'b) database" where
  "insert_proto db tab i b = db\<lparr>db_Protos := (db_Protos db)(tab := db_Protos db tab @ [(i, b)])\<rparr>"

text \<open>
  A select returns an answer.  An insert fails, and then changes nothing, or it appends a row: to rs_info with
  a fresh id above all others (a serial of four bytes) and the columns as they are stored, to a proto table only
  with the id of an rs_info row (a foreign key).
\<close>

definition sql_executor :: "('d::linorder, 'b, 'e) Executor \<Rightarrow> bool" where
  "sql_executor ex \<longleftrightarrow>
     (\<forall>db q. \<exists>rows. ex_SelectRSInfos ex db q = Inr rows \<and> answer q id (db_RSInfos db) rows) \<and>
     (\<forall>db tab q. \<exists>rows. ex_SelectProtos ex db tab q = Inr rows \<and> answer q fst (join db tab) rows) \<and>
     (\<forall>db s i db'. ex_InsertRSInfo ex db s = (Inr i, db') \<longrightarrow>
        (\<exists>r. db' = insert_info db r \<and> rsi_ID r = i \<and> rsi_EventID r = rsi_EventID s \<and>
           0 < i \<and> i < 2 ^ 31 \<and> (\<forall>r' \<in> set (db_RSInfos db). rsi_ID r' < i))) \<and>
     (\<forall>db tab i b db'. ex_InsertProto ex db tab i b = (Inr (), db') \<longrightarrow>
        sint i \<in> rsi_ID ` set (db_RSInfos db) \<and> db' = insert_proto db tab (sint i) b)"

lemma select_infos:
  assumes "sql_executor ex"
  obtains rows where "ex_SelectRSInfos ex db q = Inr rows" "answer q id (db_RSInfos db) rows"
  using assms unfolding sql_executor_def by blast

lemma select_protos:
  assumes "sql_executor ex"
  obtains rows where "ex_SelectProtos ex db tab q = Inr rows" "answer q fst (join db tab) rows"
  using assms unfolding sql_executor_def by blast

lemma insert_info_exec:
  assumes "sql_executor ex" "ex_InsertRSInfo ex db s = (Inr i, db')"
  obtains r where "db' = insert_info db r" "rsi_ID r = i" "rsi_EventID r = rsi_EventID s" "0 < i" "i < 2 ^ 31"
    "\<forall>r' \<in> set (db_RSInfos db). rsi_ID r' < i"
  using assms unfolding sql_executor_def by blast

lemma insert_proto_exec:
  assumes "sql_executor ex" "ex_InsertProto ex db tab i b = (Inr (), db')"
  shows "sint i \<in> rsi_ID ` set (db_RSInfos db) \<and> db' = insert_proto db tab (sint i) b"
  using assms unfolding sql_executor_def by blast

lemma sint_word_of_int_i32: "0 \<le> i \<Longrightarrow> i < 2 ^ 31 \<Longrightarrow> sint (word_of_int i :: int32) = i"
  by (simp add: int_word_sint)

subsection \<open>Rows of an event\<close>

definition table_ok :: "('m, 'b, 'e) codec \<Rightarrow> proto_table \<Rightarrow> ('d, 'b) database \<Rightarrow> bool" where
  "table_ok cd tab db \<longleftrightarrow> distinct (map rsi_ID (db_RSInfos db)) \<and> distinct (map fst (db_Protos db tab)) \<and>
     (\<forall>r \<in> set (db_RSInfos db). 0 \<le> rsi_ID r \<and> rsi_ID r < 2 ^ 31 - 1) \<and>
     (\<forall>p \<in> set (db_Protos db tab). \<exists>m. Unmarshal cd (snd p) = Inr m)"

definition row_of :: "('m, 'b, 'e) codec \<Rightarrow> 'd RSInfo \<times> 'b \<Rightarrow> 'm table_row" where
  "row_of cd r = (rsi_ID (fst r), rsi_SessionNum (fst r), projr (Unmarshal cd (snd r)))"

text \<open>The recorded messages of an event with their ids and session numbers, by id.\<close>

definition event_rows :: "('m, 'b, 'e) codec \<Rightarrow> proto_table \<Rightarrow> ('d, 'b) database \<Rightarrow> int \<Rightarrow> 'm table_row list" where
  "event_rows cd tab db e = map (row_of cd) (sort_key (\<lambda>r. rsi_ID (fst r))
     (filter (\<lambda>r. rsi_EventID (fst r) = word_of_int e) (join db tab)))"

lemma filter_id_singleton:
  "distinct (map rsi_ID rs) \<Longrightarrow> map rsi_ID (filter (\<lambda>r. rsi_ID r = i) rs) = (if i \<in> rsi_ID ` set rs then [i] else [])"
  by (induction rs) (auto simp: filter_empty_conv)

lemma join_ids:
  assumes "distinct (map rsi_ID (db_RSInfos db))"
  shows "map (\<lambda>r. rsi_ID (fst r)) (join db tab) =
    filter (\<lambda>i. i \<in> rsi_ID ` set (db_RSInfos db)) (map fst (db_Protos db tab))"
proof -
  have "map (\<lambda>r. rsi_ID (fst r)) (concat (map (\<lambda>(i, b). map (\<lambda>r. (r, b)) (filter (\<lambda>r. rsi_ID r = i) rs)) ps)) =
      filter (\<lambda>i. i \<in> rsi_ID ` set rs) (map fst ps)"
    if "distinct (map rsi_ID rs)" for rs :: "'a RSInfo list" and ps :: "(int \<times> 'b) list"
    by (induction ps) (auto simp: o_def filter_id_singleton[OF that] filter_empty_conv)
  with assms show ?thesis by (simp add: join_def)
qed

lemma join_distinct_ids: "table_ok cd tab db \<Longrightarrow> distinct (map (\<lambda>r. rsi_ID (fst r)) (join db tab))"
  by (simp add: join_ids table_ok_def)

lemma join_in: "r \<in> set (join db tab) \<Longrightarrow> fst r \<in> set (db_RSInfos db) \<and> (rsi_ID (fst r), snd r) \<in> set (db_Protos db tab)"
  by (auto simp: join_def)

lemma row_of_simps [simp]: "fst (row_of cd r) = rsi_ID (fst r)" "fst (snd (row_of cd r)) = rsi_SessionNum (fst r)"
  by (simp_all add: row_of_def)

lemma event_rows_sorted:
  assumes "table_ok cd tab db"
  shows "sorted_wrt (<) (map fst (event_rows cd tab db e))"
proof -
  have "distinct (map (\<lambda>r. rsi_ID (fst r)) (filter P (join db tab)))" for P
    using join_distinct_ids[OF assms] by (rule distinct_map_filter)
  then have "sorted_wrt (<) (map (\<lambda>r. rsi_ID (fst r)) (sort_key (\<lambda>r. rsi_ID (fst r)) (filter P (join db tab))))" for P
    by (simp add: strict_sorted_iff distinct_map)
  then show ?thesis by (simp add: event_rows_def o_def)
qed

lemma event_rows_bounded:
  "table_ok cd tab db \<Longrightarrow> r \<in> set (event_rows cd tab db e) \<Longrightarrow> 0 \<le> fst r \<and> fst r < 2 ^ 31 - 1"
  by (auto simp: event_rows_def table_ok_def dest!: join_in)

lemma row_le_id: "row_le (ID_Asc # os) r r' \<Longrightarrow> rsi_ID r \<le> rsi_ID r'"
  by auto

text \<open>With distinct ids there is one answer to a query ordered by id.\<close>

lemma answer_by_id:
  assumes "answer q fst xs ys" "q_OrderBy q = ID_Asc # os" "q_Limit q = Some n"
    "distinct (map (\<lambda>r. rsi_ID (fst r)) xs)"
  shows "ys = take (nat n) (sort_key (\<lambda>r. rsi_ID (fst r)) (filter (\<lambda>r. \<forall>c \<in> set (q_Where q). satisfies c (fst r)) xs))"
proof -
  let ?f = "\<lambda>r. rsi_ID (fst r)" and ?ys = "filter (\<lambda>r. \<forall>c \<in> set (q_Where q). satisfies c (fst r)) xs"
  obtain zs where zs: "mset zs = mset ?ys" "sorted_wrt (\<lambda>r r'. row_le (q_OrderBy q) (fst r) (fst r')) zs"
    "ys = take (nat n) zs" using assms(1,3) by (auto simp: answer_def limit_rows_def)
  have "sorted (map ?f zs)"
    using zs(2) unfolding sorted_map assms(2) by (rule sorted_wrt_mono_rel[rotated]) (rule row_le_id)
  moreover have "inj_on ?f (set ?ys)" using assms(4) by (auto simp: distinct_map inj_on_def)
  ultimately have "sort_key ?f ?ys = zs" using zs(1) by (intro sort_key_inj_key_eq) auto
  with zs(3) show ?thesis by simp
qed

lemma range_of_all:
  assumes "\<forall>r \<in> set rs. \<exists>m. Unmarshal cd (snd r) = Inr m"
  shows "\<exists>rc. range_of cd nm rs ret = Inr rc \<and> rc_Data rc = rc_Data ret @ map (\<lambda>r. projr (Unmarshal cd (snd r))) rs \<and>
    rc_LastRsInfoID rc = (if rs = [] then rc_LastRsInfoID ret else rsi_ID (fst (last rs)))"
  using assms
proof (induction rs arbitrary: ret)
  case (Cons r rs)
  then obtain m where m: "Unmarshal cd (snd r) = Inr m" by auto
  let ?ret = "ret\<lparr>rc_Data := rc_Data ret @ [m], rc_LastTimestamp := rsi_RecordStamp (fst r),
    rc_LastSessionTime := ScanFloat32 nm (rsi_SessionTime (fst r)), rc_LastRsInfoID := rsi_ID (fst r)\<rparr>"
  from Cons.IH[of ?ret] Cons.prems obtain rc where "range_of cd nm rs ?ret = Inr rc"
    "rc_Data rc = rc_Data ?ret @ map (\<lambda>r. projr (Unmarshal cd (snd r))) rs"
    "rc_LastRsInfoID rc = (if rs = [] then rc_LastRsInfoID ?ret else rsi_ID (fst (last rs)))" by auto
  with m show ?case by (intro exI[of _ rc]) simp
qed simp

text \<open>A load by id with conditions cs returns the next rows that satisfy them.\<close>

lemma load_range_page:
  assumes "sql_executor ex" "table_ok cd tab db"
    "q = \<lparr>q_Where = EventID_EQ (word_of_int e) # cs, q_Limit = Some n, q_OrderBy = ID_Asc # os\<rparr>"
    "\<And>r. r \<in> set (join db tab) \<Longrightarrow> (\<forall>c \<in> set cs. satisfies c (fst r)) \<longleftrightarrow> P (rsi_ID (fst r)) (rsi_SessionNum (fst r))"
  shows "\<exists>rc. load_range ex cd nm db tab q = Inr rc \<and>
    page_of (take (nat n) (filter (\<lambda>r. P (fst r) (fst (snd r))) (event_rows cd tab db e))) rc"
proof -
  obtain ys where ys: "ex_SelectProtos ex db tab q = Inr ys" "answer q fst (join db tab) ys"
    using select_protos[OF assms(1)] by blast
  have "ys = take (nat n) (sort_key (\<lambda>r. rsi_ID (fst r)) (filter (\<lambda>r. \<forall>c \<in> set (q_Where q). satisfies c (fst r)) (join db tab)))"
    by (rule answer_by_id[OF ys(2)]) (simp_all add: assms(3) join_distinct_ids[OF assms(2)])
  also have "filter (\<lambda>r. \<forall>c \<in> set (q_Where q). satisfies c (fst r)) (join db tab) =
      filter (\<lambda>r. P (rsi_ID (fst r)) (rsi_SessionNum (fst r)))
        (filter (\<lambda>r. rsi_EventID (fst r) = word_of_int e) (join db tab))"
    using assms(4) by (auto simp: assms(3) intro!: filter_cong)
  finally have rows: "map (row_of cd) ys =
      take (nat n) (filter (\<lambda>r. P (fst r) (fst (snd r))) (event_rows cd tab db e))"
    by (simp add: event_rows_def filter_map o_def filter_sort[symmetric] take_map)
  have "set ys \<subseteq> set (join db tab)"
    by (rule answer_subset[OF ys(2)])
  then have "\<forall>r \<in> set ys. \<exists>m. Unmarshal cd (snd r) = Inr m"
    using assms(2) by (fastforce simp: table_ok_def dest!: join_in)
  from range_of_all[OF this] obtain rc where rc: "load_range ex cd nm db tab q = Inr rc"
    "rc_Data rc = map (\<lambda>r. projr (Unmarshal cd (snd r))) ys"
    "rc_LastRsInfoID rc = (if ys = [] then 0 else rsi_ID (fst (last ys)))"
    unfolding load_range_def ys(1) by (force split: if_splits)
  have "page_of (map (row_of cd) ys) rc"
    using rc(2,3) by (auto simp: page_of_def last_map row_of_def o_def)
  with rc(1) rows show ?thesis by auto
qed

interpretation racestates: range_source "\<lambda>db. sql_executor ex \<and> table_ok cd RaceStateProtos db"
    "RacestateRepository ex cd nm" "event_rows cd RaceStateProtos" for ex cd nm
proof (unfold_locales, goal_cases)
  case (3 db n i e)
  have "sint (word_of_int i :: int32) = i" using 3 by (simp add: sint_word_of_int_i32)
  then show ?case using load_range_page[of ex cd RaceStateProtos db "racestate_LoadRangeByID e i n" e
      "[ID_GTE (word_of_int i)]" n "[]" "\<lambda>j _. i \<le> j"] 3
    by (simp add: RacestateRepository_def Let_def racestate_LoadRangeByID_def)
next
  case (4 db n i e num)
  have "sint (word_of_int i :: int32) = i" using 4 by (simp add: sint_word_of_int_i32)
  then show ?case using load_range_page[of ex cd RaceStateProtos db "racestate_LoadRangeByIDWithinSession e num i n" e
      "[ID_GTE (word_of_int i), SessionNum_EQ num]" n "[]" "\<lambda>j k. i \<le> j \<and> k = num"] 4
    by (simp add: RacestateRepository_def Let_def racestate_LoadRangeByIDWithinSession_def)
qed (auto dest: event_rows_sorted event_rows_bounded)

interpretation driver_data: range_source "\<lambda>db. sql_executor ex \<and> table_ok cd CarStateProtos db"
    "CarProtoRepository ex cd nm" "event_rows cd CarStateProtos" for ex cd nm
proof (unfold_locales, goal_cases)
  case (3 db n i e)
  have "sint (word_of_int i :: int32) = i" using 3 by (simp add: sint_word_of_int_i32)
  then show ?case using load_range_page[of ex cd CarStateProtos db "carproto_LoadRangeByID e i n" e
      "[ID_GTE (word_of_int i)]" n "[RecordStamp_Asc]" "\<lambda>j _. i \<le> j"] 3
    by (simp add: CarProtoRepository_def Let_def carproto_LoadRangeByID_def)
next
  case (4 db n i e num)
  have "sint (word_of_int i :: int32) = i" using 4 by (simp add: sint_word_of_int_i32)
  then show ?case using load_range_page[of ex cd CarStateProtos db "carproto_LoadRangeByIDWithinSession e num i n" e
      "[ID_GTE (word_of_int i), SessionNum_EQ num]" n "[RecordStamp_Asc]" "\<lambda>j k. i \<le> j \<and> k = num"] 4
    by (simp add: CarProtoRepository_def Let_def carproto_LoadRangeByIDWithinSession_def)
qed (auto dest: event_rows_sorted event_rows_bounded)

interpretation speedmaps: range_source "\<lambda>db. sql_executor ex \<and> table_ok cd SpeedmapProtos db"
    "SpeedmapRepository ex cd nm" "event_rows cd SpeedmapProtos" for ex cd nm
proof (unfold_locales, goal_cases)
  case (3 db n i e)
  have "sint (word_of_int i :: int32) = i" using 3 by (simp add: sint_word_of_int_i32)
  then show ?case using load_range_page[of ex cd SpeedmapProtos db "speedmap_LoadRangeByID e i n" e
      "[ID_GTE (word_of_int i)]" n "[]" "\<lambda>j _. i \<le> j"] 3
    by (simp add: SpeedmapRepository_def Let_def speedmap_LoadRangeByID_def)
next
  case (4 db n i e num)
  have "sint (word_of_int i :: int32) = i" using 4 by (simp add: sint_word_of_int_i32)
  then show ?case using load_range_page[of ex cd SpeedmapProtos db "speedmap_LoadRangeByIDWithinSession e num i n" e
      "[ID_GTE (word_of_int i), SessionNum_EQ num]" n "[]" "\<lambda>j k. i \<le> j \<and> k = num"] 4
    by (simp add: SpeedmapRepository_def Let_def speedmap_LoadRangeByIDWithinSession_def)
qed (auto dest: event_rows_sorted event_rows_bounded)

subsection \<open>An executor in memory\<close>

text \<open>A small executor that answers as SQL does: the documented behaviour can hold.\<close>

fun insert_by :: "('a \<Rightarrow> 'a \<Rightarrow> bool) \<Rightarrow> 'a \<Rightarrow> 'a list \<Rightarrow> 'a list" where
  "insert_by le x [] = [x]"
| "insert_by le x (y # ys) = (if le x y then x # y # ys else y # insert_by le x ys)"

fun sort_by :: "('a \<Rightarrow> 'a \<Rightarrow> bool) \<Rightarrow> 'a list \<Rightarrow> 'a list" where
  "sort_by le [] = []"
| "sort_by le (x # xs) = insert_by le x (sort_by le xs)"

lemma mset_insert_by [simp]: "mset (insert_by le x ys) = add_mset x (mset ys)"
  by (induction ys) auto

lemma mset_sort_by [simp]: "mset (sort_by le xs) = mset xs"
  by (induction xs) auto

lemma sorted_insert_by:
  assumes "\<And>a b c. le a b \<Longrightarrow> le b c \<Longrightarrow> le a c" "\<And>a b. le a b \<or> le b a"
  shows "sorted_wrt le ys \<Longrightarrow> sorted_wrt le (insert_by le x ys)"
proof (induction ys)
  case (Cons y ys)
  have "set (insert_by le x ys) = insert x (set ys)"
    using mset_eq_setD[OF trans[OF mset_insert_by mset.simps(2)[symmetric]]] by simp
  with Cons show ?case by (auto dest: assms(1) intro: assms(2)[THEN disjE])
qed simp

lemma sorted_sort_by:
  assumes "\<And>a b c. le a b \<Longrightarrow> le b c \<Longrightarrow> le a c" "\<And>a b. le a b \<or> le b a"
  shows "sorted_wrt le (sort_by le xs)"
  by (induction xs) (simp_all add: sorted_insert_by[of le, OF assms])

lemma row_le_trans: "row_le os a b \<Longrightarrow> row_le os b c \<Longrightarrow> row_le os a c"
  by (induction os a b rule: row_le.induct) auto

lemma row_le_total: "row_le os a b \<or> row_le os b a"
  by (induction os a b rule: row_le.induct) auto

definition mem_select :: "('d::linorder) Query \<Rightarrow> ('r \<Rightarrow> 'd RSInfo) \<Rightarrow> 'r list \<Rightarrow> 'r list" where
  "mem_select q info xs = limit_rows (q_Limit q) (sort_by (\<lambda>r r'. row_le (q_OrderBy q) (info r) (info r'))
     (filter (\<lambda>r. list_all (\<lambda>c. satisfies c (info r)) (q_Where q)) xs))"

lemma mem_select_answer: "answer q info xs (mem_select q info xs)"
  unfolding answer_def mem_select_def
  by (intro exI[of _ "sort_by (\<lambda>r r'. row_le (q_OrderBy q) (info r) (info r'))
       (filter (\<lambda>r. list_all (\<lambda>c. satisfies c (info r)) (q_Where q)) xs)"] conjI sorted_sort_by)
    (simp_all add: list_all_iff row_le_total, erule (1) row_le_trans)

definition mem_executor :: "(int, 'b, unit) Executor" where
  "mem_executor = \<lparr>
     ex_SelectRSInfos = (\<lambda>db q. Inr (mem_select q id (db_RSInfos db))),
     ex_SelectProtos = (\<lambda>db tab q. Inr (mem_select q fst (join db tab))),
     ex_InsertRSInfo = (\<lambda>db s. let i = fold max (map rsi_ID (db_RSInfos db)) 0 + 1 in
       if i < 2 ^ 31
       then (Inr i, insert_info db (RSInfoSetter.extend (RSInfoSetter.truncate s) (RSInfo.fields i)))
       else (Inl (), db)),
     ex_InsertProto = (\<lambda>db tab i b. if list_ex (\<lambda>r. rsi_ID r = sint i) (db_RSInfos db)
       then (Inr (), insert_proto db tab (sint i) b) else (Inl (), db)),
     ex_DeleteProtos = (\<lambda>db tab e. (Inl (), db)),
     ex_DeleteRSInfos = (\<lambda>db e. (Inl (), db))\<rparr>"

lemma fold_max_ge: "(n::int) \<le> fold max xs n \<and> (\<forall>x \<in> set xs. x \<le> fold max xs n)"
  by (induction xs arbitrary: n) (auto, (metis max.bounded_iff)+)

lemma mem_executor_sql: "sql_executor mem_executor"
  unfolding sql_executor_def
proof (intro conjI allI impI, goal_cases)
  case (3 db s i db')
  let ?i = "fold max (map rsi_ID (db_RSInfos db)) 0 + 1"
  have i: "i = ?i" "i < 2 ^ 31" "db' = insert_info db (RSInfoSetter.extend (RSInfoSetter.truncate s) (RSInfo.fields i))"
    using 3 by (auto simp: mem_executor_def Let_def split: if_splits)
  have "0 < i \<and> (\<forall>r \<in> set (db_RSInfos db). rsi_ID r < i)"
    using fold_max_ge[of 0 "map rsi_ID (db_RSInfos db)"] i(1) by auto
  with i show ?case
    by (intro exI[of _ "RSInfoSetter.extend (RSInfoSetter.truncate s) (RSInfo.fields i)"])
      (simp add: RSInfoSetter.defs RSInfo.defs)
qed (auto simp: mem_executor_def mem_select_answer list_ex_iff split: if_splits, metis imageI)

end
