(* ===== verification/Recording_Properties.thy ===== *)
theory Recording_Properties
  imports Repository_Properties
begin

text \<open>
  The properties of recording and reading back: what CreateRacestate does to the tables, and the
  streams of the state server over the repositories.
\<close>

text \<open>Every row of a proto table belongs to an rs_info row.\<close>

definition fk_ok :: "proto_table \<Rightarrow> ('d, 'b) database \<Rightarrow> bool" where
  "fk_ok tab db \<longleftrightarrow> (\<forall>p \<in> set (db_Protos db tab). fst p \<in> rsi_ID ` set (db_RSInfos db))"

subsection \<open>A concrete database\<close>

text \<open>Two race states of event 7 and one of event 8; the codec stores the message itself.\<close>

definition rec_decimals :: "int decimals" where
  "rec_decimals = \<lparr>NewFromFloat32 = (\<lambda>x. case x of Fin n \<Rightarrow> n | _ \<Rightarrow> 0), NewFromFloat = (\<lambda>x. 0),
     ScanFloat32 = Fin\<rparr>"

definition rec_info :: "int \<Rightarrow> int32 \<Rightarrow> int \<Rightarrow> int RSInfo" where
  "rec_info i e t = \<lparr>rsi_EventID = e, rsi_RecordStamp = t, rsi_SessionTime = t, rsi_SessionNum = 0,
     rsi_TimeOfDay = 0, rsi_AirTemp = 0, rsi_TrackTemp = 0, rsi_TrackWetness = 0, rsi_Precipitation = 0, rsi_ID = i\<rparr>"

definition rec_codec :: "('m, 'm, unit) codec" where
  "rec_codec = \<lparr>Marshal = Inr, Unmarshal = Inr\<rparr>"

definition rec_state :: "int \<Rightarrow> PublishStateRequest" where
  "rec_state t = \<lparr>psr_Event = None,
     psr_Session = Some \<lparr>ses_SessionNum = 0, ses_SessionTime = Fin t, ses_TimeOfDay = 0, ses_AirTemp = f32_zero,
       ses_TrackTemp = f32_zero, ses_TrackWetness = 0, ses_Precipitation = f32_zero,
       ses_TimeRemain = f32_zero\<rparr>,
     psr_Cars = [], psr_Messages = [], psr_Timestamp = Some t\<rparr>"

definition rec_db :: "(int, PublishStateRequest) database" where
  "rec_db = \<lparr>db_RSInfos = [rec_info 1 7 10, rec_info 2 8 20, rec_info 3 7 30],
     db_Protos = (\<lambda>tab. if tab = RaceStateProtos then [(1, rec_state 10), (2, rec_state 20), (3, rec_state 30)] else [])\<rparr>"

definition rec_driver :: "int \<Rightarrow> PublishDriverDataRequest" where
  "rec_driver t = \<lparr>pdr_Event = None, pdr_Entries = [], pdr_CarClasses = [], pdr_CurrentDrivers = [],
     pdr_SessionNum = 0, pdr_SessionTime = Fin t, pdr_Timestamp = Some t, pdr_Cars = []\<rparr>"

definition rec_driver_db :: "(int, PublishDriverDataRequest) database" where
  "rec_driver_db = \<lparr>db_RSInfos = [rec_info 1 7 10, rec_info 2 8 20, rec_info 3 7 30],
     db_Protos = (\<lambda>tab. if tab = CarStateProtos then [(1, rec_driver 10), (3, rec_driver 30)] else [])\<rparr>"

definition rec_event :: Event where
  "rec_event = \<lparr>ev_Id = 7, ev_Key = ''k'', ev_Name = ''k'', ev_Description = [], ev_RaceloggerVersion = [],
     ev_EventTime = 0, ev_TrackId = 1, ev_Sessions = [], ev_ReplayInfo = None, ev_TeamRacing = False, ev_MultiClass = False, ev_NumCarTypes = 1,
     ev_NumCarClasses = 1, ev_IrSessionId = 0, ev_IrSubSessionId = 0, ev_PitSpeed = f32_of_int 80, ev_TireInfos = []\<rparr>"

definition rec_events :: "unit event_repo" where
  "rec_events = \<lparr>er_LoadByID = (\<lambda>_. Inr rec_event), er_LoadByKey = (\<lambda>_. Inl ()), er_isNoRows = (\<lambda>_. True)\<rparr>"

definition rec_request :: StatesRequest where
  "rec_request = \<lparr>GetEventSel = EventSelector_Id 7, GetStart = Some (StartSelector_Id 2), GetNum = 5\<rparr>"

lemma rec_tables_ok:
  "table_ok rec_codec RaceStateProtos rec_db \<and> fk_ok RaceStateProtos rec_db"
  "table_ok rec_codec CarStateProtos rec_driver_db"
  by (simp_all add: table_ok_def fk_ok_def rec_db_def rec_driver_db_def rec_info_def rec_codec_def)

lemma rec_created: "\<exists>db'. CreateRacestate mem_executor rec_codec (mcd :: (Message, PublishStateRequest, unit) codec) rec_decimals 7 (rec_state 40) rec_db =
    Some (Inr 4, db')"
  by (simp add: CreateRacestate_def mem_executor_def rec_state_def rec_db_def rec_info_def rec_codec_def
      insert_message_def insert_info_def RSInfoSetter.defs RSInfo.defs Let_def)

subsection \<open>Streams\<close>

definition wanted_num :: "int32 \<Rightarrow> 'a list \<Rightarrow> 'a list" where
  "wanted_num n xs = (if 0 < sint n then take (nat (sint n)) xs else xs)"

definition from_id :: "int \<Rightarrow> 'm table_row list \<Rightarrow> 'm list" where
  "from_id i rows = map (snd \<circ> snd) (filter (\<lambda>r. i \<le> fst r) rows)"

lemma create_container:
  assumes "ResolveEvent er (GetEventSel req) = Inr e" "GetStart req = Some st"
  obtains s where "createStatesContainer er req = Inr s" "sc_e s = e" "sc_req s = req" "start_of s = st"
    "0 < sint (GetNum (sc_req s)) \<longrightarrow> 0 \<le> sc_remain s" "\<And>xs :: 'a list. wanted s xs = wanted_num (GetNum req) xs"
proof
  let ?s = "\<lparr>sc_e = e, sc_req = req,
    sc_remain = (if 0 < sint (GetNum req) then sint (GetNum req) else 2 ^ 31 - 1), sc_lastRsInfoID = 0\<rparr>"
  show "createStatesContainer er req = Inr ?s" using assms by (simp add: createStatesContainer_def)
qed (use assms in \<open>auto simp: start_of_def wanted_def wanted_num_def\<close>)

text \<open>
  C6: The stream of race states that starts at an id ends without an error and sends every recorded
  state of the event from that id on, in the order of the ids and each once, up to the number the request asks
  for, however many pages that takes.
\<close>

lemma state_stream_complete:
  assumes "sql_executor ex" "table_ok cd RaceStateProtos db"
    "ResolveEvent er (GetEventSel req) = Inr e" "GetStart req = Some (StartSelector_Id i)" "uint i < 2 ^ 31"
  shows "GetStateStream er (RacestateRepository ex cd nm db) req (\<lambda>_ _. True) =
    Some (None, wanted_num (GetNum req) (from_id (uint i) (event_rows cd RaceStateProtos db (uint (ev_Id e)))))"
proof -
  obtain s where "createStatesContainer er req = Inr s" "sc_e s = e" "sc_req s = req" "start_of s = StartSelector_Id i"
    "0 < sint (GetNum (sc_req s)) \<longrightarrow> 0 \<le> sc_remain s"
    "\<And>xs :: PublishStateRequest list. wanted s xs = wanted_num (GetNum req) xs"
    using create_container[OF assms(3,4)] by blast
  with racestates.stream_by_id[of ex cd db 2000 s i nm] assms(1,2,5) show ?thesis
    by (simp add: GetStateStream_def get_stream_def racestates_InitialRequest_def racestates_NextRequest_def
        from_id_def event_id_def)
qed

lemma state_stream_complete_witness:
  "GetStateStream rec_events (RacestateRepository mem_executor rec_codec rec_decimals rec_db) rec_request (\<lambda>_ _. True) =
    Some (None, [rec_state 30])"
  using state_stream_complete[OF mem_executor_sql rec_tables_ok(1)[THEN conjunct1], of rec_events rec_request
      rec_event 2 rec_decimals]
  by (simp add: rec_request_def rec_events_def ResolveEvent_def wanted_num_def from_id_def event_rows_def join_def
      rec_db_def rec_info_def rec_event_def row_of_def rec_codec_def)

text \<open>The stream of driver data, when no two recordings of the event share an rs_info row.\<close>

lemma driver_data_stream_complete:
  assumes "sql_executor ex" "table_ok cd CarStateProtos db"
    "ResolveEvent er (GetEventSel req) = Inr e" "GetStart req = Some (StartSelector_Id i)" "uint i < 2 ^ 31"
  shows "GetDriverDataStream er (CarProtoRepository ex cd nm db) req (\<lambda>_ _. True) =
    Some (None, wanted_num (GetNum req) (from_id (uint i) (event_rows cd CarStateProtos db (uint (ev_Id e)))))"
proof -
  obtain s where "createStatesContainer er req = Inr s" "sc_e s = e" "sc_req s = req" "start_of s = StartSelector_Id i"
    "0 < sint (GetNum (sc_req s)) \<longrightarrow> 0 \<le> sc_remain s"
    "\<And>xs :: PublishDriverDataRequest list. wanted s xs = wanted_num (GetNum req) xs"
    using create_container[OF assms(3,4)] by blast
  with driver_data.stream_by_id[of ex cd db 1000 s i nm] assms(1,2,5) show ?thesis
    by (simp add: GetDriverDataStream_def get_stream_def driverdata_InitialRequest_def driverdata_NextRequest_def
        from_id_def event_id_def)
qed

lemma driver_data_stream_complete_witness:
  "GetDriverDataStream rec_events (CarProtoRepository mem_executor rec_codec rec_decimals rec_driver_db) rec_request
    (\<lambda>_ _. True) = Some (None, [rec_driver 30])"
  using driver_data_stream_complete[OF mem_executor_sql rec_tables_ok(2), of rec_events rec_request
      rec_event 2 rec_decimals]
  by (simp add: rec_request_def rec_events_def ResolveEvent_def wanted_num_def from_id_def event_rows_def join_def
      rec_driver_db_def rec_info_def rec_event_def row_of_def rec_codec_def)

subsection \<open>Recording a race state\<close>

lemma insert_messages_tables:
  assumes "sql_executor ex" "insert_messages ex mcd i ms db = (Inr j, db')"
  shows "j = i \<and> db_RSInfos db' = db_RSInfos db \<and> (\<forall>tab. tab \<noteq> MSGStateProtos \<longrightarrow> db_Protos db' tab = db_Protos db tab)"
  using assms(2)
proof (induction ms arbitrary: db)
  case (Cons m ms)
  from Cons.prems obtain db1 where db1: "insert_message ex mcd MSGStateProtos i m db = (Inr (), db1)"
    "insert_messages ex mcd i ms db1 = (Inr j, db')" by (auto split: prod.splits sum.splits)
  then obtain b where "ex_InsertProto ex db MSGStateProtos (word_of_int i) b = (Inr (), db1)"
    by (auto simp: insert_message_def split: sum.splits)
  from insert_proto_exec[OF assms(1) this] Cons.IH[OF db1(2)] show ?case by (simp add: insert_proto_def)
qed simp

lemma create_racestate_tables:
  assumes "sql_executor ex" "CreateRacestate ex cd mcd nm e rs db = Some (Inr i, db')"
  obtains r b where "rsi_ID r = i" "rsi_EventID r = word_of_int e" "\<forall>r' \<in> set (db_RSInfos db). rsi_ID r' < i"
    "0 < i" "i < 2 ^ 31" "Marshal cd rs = Inr b" "db_RSInfos db' = db_RSInfos db @ [r]"
    "db_Protos db' RaceStateProtos = db_Protos db RaceStateProtos @ [(i, b)]"
proof -
  from assms(2) obtain session i1 db1 db2 where run: "psr_Session rs = Some session"
    "ex_InsertRSInfo ex db (racestate_setter nm e (psr_Timestamp rs) session) = (Inr i1, db1)"
    "insert_message ex cd RaceStateProtos i1 rs db1 = (Inr (), db2)"
    "insert_messages ex mcd i1 (psr_Messages rs) db2 = (Inr i, db')"
  proof -
    from assms(2) obtain session where s: "psr_Session rs = Some session"
      by (auto simp: CreateRacestate_def bind_eq_Some_conv)
    let ?set = "racestate_setter nm e (psr_Timestamp rs) session"
    obtain res1 db1 where db1: "ex_InsertRSInfo ex db ?set = (res1, db1)" by fastforce
    obtain i1 where i1: "res1 = Inr i1"
      using assms(2) by (cases res1) (simp_all add: CreateRacestate_def s db1)
    obtain res2 db2 where db2: "insert_message ex cd RaceStateProtos i1 rs db1 = (res2, db2)" by fastforce
    obtain u where "res2 = Inr u"
      using assms(2) by (cases res2) (simp_all add: CreateRacestate_def s db1 i1 db2)
    with assms(2) s db1 i1 db2 show thesis by (intro that[of session i1 db1 db2]) (simp_all add: CreateRacestate_def)
  qed
  obtain r where r: "db1 = insert_info db r" "rsi_ID r = i1"
    "rsi_EventID r = rsi_EventID (racestate_setter nm e (psr_Timestamp rs) session)" "0 < i1" "i1 < 2 ^ 31"
    "\<forall>r' \<in> set (db_RSInfos db). rsi_ID r' < i1"
    using insert_info_exec[OF assms(1) run(2)] by blast
  obtain b where b: "Marshal cd rs = Inr b" "ex_InsertProto ex db1 RaceStateProtos (word_of_int i1) b = (Inr (), db2)"
    using run(3) by (auto simp: insert_message_def split: sum.splits)
  have "sint (word_of_int i1 :: int32) = i1" using r(4,5) by (simp add: sint_word_of_int_i32)
  with insert_proto_exec[OF assms(1) b(2)] insert_messages_tables[OF assms(1) run(4)] r b(1)
  show thesis by (intro that[of r b]) (simp_all add: insert_proto_def insert_info_def racestate_setter_def)
qed

lemma answer_first_desc:
  assumes "answer q fst xs ys" "q_OrderBy q = [ID_Desc]" "q_Limit q = Some 1" "r \<in> set xs"
    "\<forall>c \<in> set (q_Where q). satisfies c (fst r)" "\<And>r'. r' \<in> set xs \<Longrightarrow> rsi_ID (fst r) \<le> rsi_ID (fst r') \<Longrightarrow> r' = r"
  shows "ys = [r]"
proof -
  obtain zs where zs: "mset zs = mset (filter (\<lambda>r. \<forall>c \<in> set (q_Where q). satisfies c (fst r)) xs)"
    "sorted_wrt (\<lambda>r r'. row_le [ID_Desc] (fst r) (fst r')) zs" "ys = take 1 zs"
    using assms(1-3) by (auto simp: answer_def limit_rows_def)
  have set: "set zs = set (filter (\<lambda>r. \<forall>c \<in> set (q_Where q). satisfies c (fst r)) xs)"
    using zs(1) by (rule mset_eq_setD)
  then have "r \<in> set zs" using assms(4,5) by simp
  then obtain z zs' where z: "zs = z # zs'" by (cases zs) auto
  then have "rsi_ID (fst r) \<le> rsi_ID (fst z)" using \<open>r \<in> set zs\<close> zs(2) by auto
  moreover have "z \<in> set xs" using set z by auto
  ultimately show ?thesis using assms(6) zs(3) z by simp
qed

text \<open>
  C26: After a race state has been recorded, LoadLatest of the event returns it, if the codec reads back
  what it wrote.
\<close>

lemma recorded_state_is_latest:
  assumes "sql_executor ex" "fk_ok RaceStateProtos db"
    "CreateRacestate ex cd mcd nm e rs db = Some (Inr i, db')"
    "\<And>b. Marshal cd rs = Inr b \<Longrightarrow> Unmarshal cd b = Inr rs"
  shows "racestate_LoadLatest ex cd e db' = Some (Inr rs)"
proof -
  obtain r b where r: "rsi_ID r = i" "rsi_EventID r = word_of_int e" "\<forall>r' \<in> set (db_RSInfos db). rsi_ID r' < i"
    "0 < i" "i < 2 ^ 31" "Marshal cd rs = Inr b" "db_RSInfos db' = db_RSInfos db @ [r]"
    "db_Protos db' RaceStateProtos = db_Protos db RaceStateProtos @ [(i, b)]"
    using create_racestate_tables[OF assms(1,3)] by blast
  let ?q = "\<lparr>q_Where = [EventID_EQ (word_of_int e)], q_Limit = Some 1, q_OrderBy = [ID_Desc]\<rparr>"
  obtain ys where ys: "ex_SelectProtos ex db' RaceStateProtos ?q = Inr ys" "answer ?q fst (join db' RaceStateProtos) ys"
    using select_protos[OF assms(1)] by blast
  have newest: "r' = (r, b)" if "r' \<in> set (join db' RaceStateProtos)" "i \<le> rsi_ID (fst r')" for r'
  proof -
    have old: "i \<noteq> fst p" if "p \<in> set (db_Protos db RaceStateProtos)" for p
      using assms(2) that r(3) by (force simp: fk_ok_def)
    have "fst r' = r" using join_in[OF that(1)] that(2) r(3,7) by auto
    then show ?thesis using join_in[OF that(1)] old[of "(i, snd r')"] r(1,8) by (cases r') auto
  qed
  have "(r, b) \<in> set (join db' RaceStateProtos)" using r(1,7,8) by (auto simp: join_def)
  from answer_first_desc[OF ys(2) _ _ this] r(1,2) newest have "ys = [(r, b)]" by simp
  then show ?thesis using ys(1) assms(4)[OF r(6)] by (simp add: racestate_LoadLatest_def load_latest_def)
qed

lemma recorded_state_is_latest_witness:
  "\<exists>db'. CreateRacestate mem_executor rec_codec \<lparr>Marshal = \<lambda>m. Inl (), Unmarshal = \<lambda>m. Inl ()\<rparr> rec_decimals 7 (rec_state 40) rec_db =
      Some (Inr 4, db') \<and> racestate_LoadLatest mem_executor rec_codec 7 db' = Some (Inr (rec_state 40))"
  using rec_created recorded_state_is_latest[OF mem_executor_sql rec_tables_ok(1)[THEN conjunct2]]
  by (fastforce simp: rec_codec_def)

text \<open>
  Recording a race state keeps the table of race states well formed: ids stay distinct, so the streams
  stay complete.
\<close>

lemma recorded_state_table_ok:
  assumes "sql_executor ex" "table_ok cd RaceStateProtos db \<and> fk_ok RaceStateProtos db"
    "CreateRacestate ex cd mcd nm e rs db = Some (Inr i, db')" "i < 2 ^ 31 - 1"
    "\<And>b. Marshal cd rs = Inr b \<Longrightarrow> Unmarshal cd b = Inr rs"
  shows "table_ok cd RaceStateProtos db' \<and> fk_ok RaceStateProtos db'"
proof -
  obtain r b where r: "rsi_ID r = i" "rsi_EventID r = word_of_int e" "\<forall>r' \<in> set (db_RSInfos db). rsi_ID r' < i"
    "0 < i" "i < 2 ^ 31" "Marshal cd rs = Inr b" "db_RSInfos db' = db_RSInfos db @ [r]"
    "db_Protos db' RaceStateProtos = db_Protos db RaceStateProtos @ [(i, b)]"
    using create_racestate_tables[OF assms(1,3)] by blast
  have "i \<notin> rsi_ID ` set (db_RSInfos db)" using r(3) by auto
  with r assms(2,4) assms(5)[OF r(6)] show ?thesis
    unfolding table_ok_def fk_ok_def by auto
qed

lemma recorded_state_table_ok_witness:
  "\<exists>db'. CreateRacestate mem_executor rec_codec \<lparr>Marshal = \<lambda>m. Inl (), Unmarshal = \<lambda>m. Inl ()\<rparr> rec_decimals 7 (rec_state 40) rec_db =
      Some (Inr 4, db') \<and> table_ok rec_codec RaceStateProtos db' \<and> fk_ok RaceStateProtos db'"
  using rec_created recorded_state_table_ok[OF mem_executor_sql rec_tables_ok(1)]
  by (fastforce simp: rec_codec_def)

subsection \<open>The nearest race state\<close>

definition event_infos :: "('d, 'b) database \<Rightarrow> int \<Rightarrow> 'd RSInfo set" where
  "event_infos db e = {r \<in> set (db_RSInfos db). rsi_EventID r = word_of_int e}"

definition nearest :: "('d::linorder) \<Rightarrow> 'd RSInfo set \<Rightarrow> 'd RSInfo \<Rightarrow> bool" where
  "nearest t rows r \<longleftrightarrow> r \<in> rows \<and>
     (if \<exists>r' \<in> rows. rsi_SessionTime r' \<le> t
      then rsi_SessionTime r \<le> t \<and> (\<forall>r' \<in> rows. rsi_SessionTime r' \<le> t \<longrightarrow> rsi_SessionTime r' \<le> rsi_SessionTime r)
      else \<forall>r' \<in> rows. rsi_SessionTime r \<le> rsi_SessionTime r')"

lemma answer_first:
  assumes "answer q id xs ys" "q_Limit q = Some 1"
  shows "(ys = [] \<longrightarrow> (\<forall>r \<in> set xs. \<exists>c \<in> set (q_Where q). \<not> satisfies c r)) \<and>
    (\<forall>r rs. ys = r # rs \<longrightarrow> r \<in> set xs \<and> (\<forall>c \<in> set (q_Where q). satisfies c r) \<and>
       (\<forall>r' \<in> set xs. (\<forall>c \<in> set (q_Where q). satisfies c r') \<longrightarrow> r' = r \<or> row_le (q_OrderBy q) r r'))"
proof -
  obtain zs where zs: "mset zs = mset (filter (\<lambda>r. \<forall>c \<in> set (q_Where q). satisfies c r) xs)"
    "sorted_wrt (row_le (q_OrderBy q)) zs" "ys = take 1 zs"
    using assms by (auto simp: answer_def limit_rows_def)
  have "set zs = set (filter (\<lambda>r. \<forall>c \<in> set (q_Where q). satisfies c r) xs)" using zs(1) by (rule mset_eq_setD)
  with zs(2,3) show ?thesis by (cases zs) auto
qed

text \<open>
  FindNearestRacestate returns the id of a row of the event whose session time is the greatest not above
  the given one, or, if all rows are later, of one with the smallest; it fails just if the event has no row.
\<close>

lemma find_nearest_racestate:
  assumes "sql_executor ex"
  shows "if event_infos db e = {} then FindNearestRacestate ex nm e t db = Inl NoRaceStateFound
    else \<exists>r. FindNearestRacestate ex nm e t db = Inr (rsi_ID r) \<and> nearest (NewFromFloat32 nm t) (event_infos db e) r"
proof -
  let ?q = "\<lparr>q_Where = [EventID_EQ (word_of_int e), SessionTime_LTE (NewFromFloat32 nm t)],
    q_Limit = Some 1, q_OrderBy = [SessionTime_Desc]\<rparr>"
  let ?q' = "\<lparr>q_Where = [EventID_EQ (word_of_int e)], q_Limit = Some 1, q_OrderBy = [SessionTime_Asc]\<rparr>"
  obtain ys where ys: "ex_SelectRSInfos ex db ?q = Inr ys" "answer ?q id (db_RSInfos db) ys"
    using select_infos[OF assms] by blast
  obtain ys' where ys': "ex_SelectRSInfos ex db ?q' = Inr ys'" "answer ?q' id (db_RSInfos db) ys'"
    using select_infos[OF assms] by blast
  note first = answer_first[OF ys(2)] answer_first[OF ys'(2)]
  show ?thesis
  proof (cases ys)
    case (Cons r rs)
    then have "nearest (NewFromFloat32 nm t) (event_infos db e) r" "event_infos db e \<noteq> {}"
      using first(1) by (fastforce simp: nearest_def event_infos_def)+
    with Cons ys(1) show ?thesis by (auto simp: FindNearestRacestate_def)
  next
    case Nil
    then have later: "\<not> rsi_SessionTime r \<le> NewFromFloat32 nm t" if "r \<in> event_infos db e" for r
      using first(1) that by (fastforce simp: event_infos_def)
    show ?thesis
    proof (cases ys')
      case Nil': Nil
      then have "event_infos db e = {}" using first(2) by (fastforce simp: event_infos_def)
      with Nil Nil' ys(1) ys'(1) show ?thesis by (simp add: FindNearestRacestate_def)
    next
      case (Cons r rs)
      then have "nearest (NewFromFloat32 nm t) (event_infos db e) r" "event_infos db e \<noteq> {}"
        using first(2) later by (fastforce simp: nearest_def event_infos_def)+
      with Nil Cons ys(1) ys'(1) show ?thesis by (auto simp: FindNearestRacestate_def)
    qed
  qed
qed

lemma find_nearest_racestate_witness:
  "\<exists>r. FindNearestRacestate mem_executor rec_decimals 7 (Fin 25) rec_db = Inr (rsi_ID r) \<and>
    nearest 25 (event_infos rec_db 7) r"
proof -
  have "rec_info 1 7 10 \<in> event_infos rec_db 7" by (simp add: event_infos_def rec_db_def rec_info_def)
  then have "event_infos rec_db 7 \<noteq> {}" by blast
  moreover have "NewFromFloat32 rec_decimals (Fin 25) = 25" by (simp add: rec_decimals_def)
  ultimately show ?thesis using find_nearest_racestate[OF mem_executor_sql, of rec_db 7 rec_decimals "Fin 25"] by simp
qed

end
