(* ===== verification/Replay.thy ===== *)
theory Replay
  imports Range_Stream
begin

text \<open>
  Replaying a recorded event: the fetchers that read pages (pkg/grpc/server/analysis/data_fetcher.go), the merge of
  the streams by their timestamps (replay_task.go of pkg/grpc/server/analysis and of pkg/cmd/replay/util, with
  their peek.go), and the recomputation of an analysis (analysis_recompute.go).

  The two fetchers share their code up to the loader, which asks a range container here and a repository there.
  A goroutine that provides data sends what its fetcher gives until there is nothing more, then closes its channel: a stream
  is the list of what it sends.  The two replay tasks have the same loop up to what they do with a message.
\<close>

subsection \<open>Fetchers\<close>

text \<open>commonFetcher: the buffer, and what its loader asks for the next page.  A loader that fails dereferences nil.\<close>

type_synonym ('m, 'c) fetcher = "'m list \<times> 'c"
type_synonym ('e, 'm, 'c) loader = "'c \<Rightarrow> ('e + 'm RangeContainer) \<times> 'c"

definition fetch :: "('e, 'm, 'c) loader \<Rightarrow> 'c \<Rightarrow> ('m, 'c) fetcher run" where
  "fetch loader sc = (case loader sc of
     (Inl err, _) \<Rightarrow> None
   | (Inr data, sc) \<Rightarrow> Some (rc_Data data, sc))"

definition fetcher_next :: "('e, 'm, 'c) loader \<Rightarrow> ('m, 'c) fetcher \<Rightarrow> ('m option \<times> ('m, 'c) fetcher) run" where
  "fetcher_next loader f = do {
     (buffer, sc) \<leftarrow> (if fst f = [] then fetch loader (snd f) else Some f);
     Some (case buffer of [] \<Rightarrow> (None, (buffer, sc)) | ret # rest \<Rightarrow> (Some ret, (rest, sc)))
   }"

text \<open>provideDriverData, provideStateData: everything the fetcher gives.\<close>

partial_function (option) provide :: "('e, 'm, 'c) loader \<Rightarrow> ('m, 'c) fetcher \<Rightarrow> 'm list run" where
  "provide loader f = do {
     (item, f) \<leftarrow> fetcher_next loader f;
     (case item of
        None \<Rightarrow> Some []
      | Some m \<Rightarrow> do { ms \<leftarrow> provide loader f; Some (m # ms) })
   }"

subsection \<open>Merging streams\<close>

text \<open>A peek: the message read last from its channel (None is nil), and what is still to come.\<close>

record 'm peek =
  pk_dataReq :: "'m option"
  pk_dataChan :: "'m list"

definition refill :: "'m peek \<Rightarrow> bool \<times> 'm peek" where
  "refill p = (case pk_dataChan p of
     [] \<Rightarrow> (False, p\<lparr>pk_dataReq := None\<rparr>)
   | x # xs \<Rightarrow> (True, p\<lparr>pk_dataReq := Some x, pk_dataChan := xs\<rparr>))"

definition max_time :: timestamp where
  \<comment> \<open>time.Unix(0, 0).Add(1 shl 63 - 1)\<close>
  "max_time = 2 ^ 63 - 1"

text \<open>One step of the selection: the first provider with the earliest message.\<close>

definition select_step :: "('m \<Rightarrow> timestamp) \<Rightarrow> nat \<times> nat \<times> 'm peek \<Rightarrow> timestamp \<times> nat option \<times> nat \<Rightarrow>
    (timestamp \<times> nat option \<times> nat) run" where
  "select_step ts x sel = (case x of (i, k, p) \<Rightarrow> case sel of (nextTS, current, currentIdx) \<Rightarrow> do {
     m \<leftarrow> pk_dataReq p;
     Some (if ts m < nextTS then (ts m, Some k, i) else sel)
   })"

text \<open>
  The loop: pData holds the providers that are not exhausted, by number; current is the number of the provider
  selected last (nil at first), which a round may leave as it is.  An exhausted provider holds nil, which
  processing dereferences.  The argument process gives False when it fails.  The result tells what the providers
  are left with.
\<close>

partial_function (option) merge_loop :: "('m \<Rightarrow> timestamp) \<Rightarrow> (timestamp \<Rightarrow> 'm \<Rightarrow> 's \<Rightarrow> (bool \<times> 's) run) \<Rightarrow>
    (nat \<times> 'm peek) list \<Rightarrow> nat option \<Rightarrow> 's \<Rightarrow> ((nat \<times> 'm peek) list \<times> 's) run" where
  "merge_loop ts process pData current s = do {
     (nextTS, current, currentIdx) \<leftarrow> go_for (select_step ts) (enumerate 0 pData) (max_time, current, 0);
     k \<leftarrow> current;
     p \<leftarrow> map_of pData k;
     m \<leftarrow> pk_dataReq p;
     (ok, s) \<leftarrow> process nextTS m s;
     if \<not> ok then Some (pData, s)
     else (let (more, p) = refill p; pData = AList.update k p pData in
       if more then merge_loop ts process pData current s
       else let pData = take currentIdx pData @ drop (Suc currentIdx) pData in
         if pData = [] then Some ([], s) else merge_loop ts process pData current s)
   }"

text \<open>The first refill of each provider; one that is empty stays.\<close>

definition merge_streams :: "('m \<Rightarrow> timestamp) \<Rightarrow> (timestamp \<Rightarrow> 'm \<Rightarrow> 's \<Rightarrow> (bool \<times> 's) run) \<Rightarrow>
    'm list list \<Rightarrow> 's \<Rightarrow> ((nat \<times> 'm peek) list \<times> 's) run" where
  "merge_streams ts process streams s = merge_loop ts process
     (enumerate 0 (map (\<lambda>xs. snd (refill \<lparr>pk_dataReq = None, pk_dataChan = xs\<rparr>)) streams)) None s"

subsection \<open>Recomputing an analysis\<close>

fun msg_time :: "proc_msg \<Rightarrow> timestamp" where
  "msg_time (ProcDriver d) = as_time (pdr_Timestamp d)"
| "msg_time (ProcState d) = as_time (psr_Timestamp d)"
| "msg_time (ProcSpeedmap d) = as_time (psm_Timestamp d)"

definition processData :: "PublishStateRequest list \<Rightarrow> PublishDriverDataRequest list \<Rightarrow> Processor \<Rightarrow> Processor run" where
  "processData states driverData p = map_option snd (merge_streams msg_time
     (\<lambda>nextTS m p. map_option (Pair True) (proc_step m p)) [map ProcState states, map ProcDriver driverData] p)"

text \<open>The request of myStateSelector: everything of the event, from id 0.\<close>

definition all_of_event :: "Event \<Rightarrow> StatesRequest" where
  "all_of_event e = \<lparr>GetEventSel = EventSelector_Id (ev_Id e), GetStart = Some (StartSelector_Id 0), GetNum = 0\<rparr>"

definition init_fetcher :: "'e event_repo \<Rightarrow> ('e, 'm) request \<Rightarrow> Event \<Rightarrow> 'e server_error + ('m, statesContainer) fetcher" where
  "init_fetcher er initial e = (case createStatesContainer er (all_of_event e) of
     Inl err \<Rightarrow> Inl err
   | Inr container \<Rightarrow> (case initial container of
       (Inl err, _) \<Rightarrow> Inl err
     | (Inr rc, container) \<Rightarrow> Inr (rc_Data rc, container)))"

definition recompute_processor :: "Event \<Rightarrow> Processor" where
  "recompute_processor e = (let raceSessions = CollectRaceSessions e in
     NewProcessor [WithCarProcessor (NewCarProcessor [WithRaceSessions raceSessions]),
       WithRaceProcessor (NewRaceProcessor [WithRaceSessions_race raceSessions])])"

definition RecomputeAnalysis :: "'e event_repo \<Rightarrow> ('e, PublishStateRequest) range_repo \<Rightarrow>
    ('e, PublishDriverDataRequest) range_repo \<Rightarrow> Event \<Rightarrow> ('e server_error + Analysis) run" where
  "RecomputeAnalysis er srepo drepo e = (case init_fetcher er (driverdata_InitialRequest drepo) e of
     Inl err \<Rightarrow> Some (Inl err)
   | Inr df \<Rightarrow> (case init_fetcher er (racestates_InitialRequest srepo) e of
       Inl err \<Rightarrow> Some (Inl err)
     | Inr sf \<Rightarrow> do {
         driverData \<leftarrow> provide (driverdata_NextRequest drepo) df;
         states \<leftarrow> provide (racestates_NextRequest srepo) sf;
         p \<leftarrow> processData states driverData (recompute_processor e);
         Some (Inr (ComposeAnalysisData p))
       }))"

end
