(* ===== verification/Replay_Properties.thy ===== *)
theory Replay_Properties
  imports Replay Recording_Properties
begin

text \<open>
  The merge of a replay is a stable sort by time, a fetcher gives what a stream would send, and so the
  recomputed analysis of an event is that of its recorded messages in the order of their timestamps.
\<close>

subsection \<open>The merge\<close>

definition view :: "'m peek \<Rightarrow> 'm list" where
  "view p = (case pk_dataReq p of Some m \<Rightarrow> m # pk_dataChan p | None \<Rightarrow> [])"

abbreviation head :: "'m peek \<Rightarrow> 'm" where
  "head p \<equiv> the (pk_dataReq p)"

lemma select_loop:
  assumes "\<forall>x \<in> set pData. pk_dataReq (snd x) \<noteq> None"
  shows "(\<forall>x \<in> set pData. t \<le> ts (head (snd x))) \<and>
      (\<forall>c j. go_for (select_step ts) (enumerate i pData) (t, c, j) = Some (t, c, j)) \<or>
    (\<exists>as k p bs. pData = as @ (k, p) # bs \<and> ts (head p) < t \<and> (\<forall>x \<in> set as. ts (head p) < ts (head (snd x))) \<and>
       (\<forall>x \<in> set bs. ts (head p) \<le> ts (head (snd x))) \<and>
       (\<forall>c j. go_for (select_step ts) (enumerate i pData) (t, c, j) = Some (ts (head p), Some k, i + length as)))"
  using assms
proof (induction pData arbitrary: i t)
  case (Cons x pData)
  obtain k p where x: "x = (k, p)" by fastforce
  obtain m where m: "pk_dataReq p = Some m" using Cons.prems x by auto
  have step: "go_for (select_step ts) (enumerate i (x # pData)) (t, c, j) =
      go_for (select_step ts) (enumerate (Suc i) pData) (if ts m < t then (ts m, Some k, i) else (t, c, j))" for c j
    by (simp add: x m select_step_def)
  have rest: "\<forall>x \<in> set pData. pk_dataReq (snd x) \<noteq> None" using Cons.prems by simp
  from Cons.IH[OF rest, of "if ts m < t then ts m else t" "Suc i"] show ?case
  proof (elim disjE conjE exE)
    assume all: "\<forall>x \<in> set pData. (if ts m < t then ts m else t) \<le> ts (head (snd x))"
      "\<forall>c j. go_for (select_step ts) (enumerate (Suc i) pData) (if ts m < t then ts m else t, c, j) =
        Some (if ts m < t then ts m else t, c, j)"
    show ?case
    proof (cases "ts m < t")
      case True
      with all m x step show ?thesis
        by (intro disjI2 exI[of _ "[]"] exI[of _ k] exI[of _ p] exI[of _ pData]) (simp del: enumerate_simps)
    next
      case False
      with all m x step show ?thesis by (intro disjI1) (simp del: enumerate_simps)
    qed
  next
    fix as k' p' bs
    assume "pData = as @ (k', p') # bs" "ts (head p') < (if ts m < t then ts m else t)"
      "\<forall>x \<in> set as. ts (head p') < ts (head (snd x))" "\<forall>x \<in> set bs. ts (head p') \<le> ts (head (snd x))"
      "\<forall>c j. go_for (select_step ts) (enumerate (Suc i) pData) (if ts m < t then ts m else t, c, j) =
        Some (ts (head p'), Some k', Suc i + length as)"
    with m x step show ?case
      by (intro disjI2 exI[of _ "x # as"] exI[of _ k'] exI[of _ p'] exI[of _ bs])
        (auto simp del: enumerate_simps split: if_splits)
  qed
qed simp

lemma sort_key_first:
  assumes "\<forall>a \<in> set as. f x < f a" "\<forall>b \<in> set bs. f x \<le> f b"
  shows "sort_key f (as @ x # bs) = x # sort_key f (as @ bs)"
  using assms(1)
proof (induction as)
  case Nil
  have "insort_key f x (sort_key f bs) = x # sort_key f bs" using assms(2) by (intro insort_is_Cons) auto
  then show ?case by simp
next
  case (Cons a as)
  then have "\<not> f a \<le> f x" by auto
  with Cons show ?case by simp
qed

text \<open>The providers of a round: numbered differently, each with a message, sorted, before the maximal time.\<close>

definition providers_ok :: "('m \<Rightarrow> timestamp) \<Rightarrow> (nat \<times> 'm peek) list \<Rightarrow> bool" where
  "providers_ok ts pData \<longleftrightarrow> distinct (map fst pData) \<and> (\<forall>x \<in> set pData. pk_dataReq (snd x) \<noteq> None \<and>
     sorted (map ts (view (snd x))) \<and> (\<forall>m \<in> set (view (snd x)). ts m < max_time))"

abbreviation all_views :: "(nat \<times> 'm peek) list \<Rightarrow> 'm list" where
  "all_views pData \<equiv> concat (map (\<lambda>x. view (snd x)) pData)"

lemma view_ge_head: "pk_dataReq p \<noteq> None \<Longrightarrow> sorted (map ts (view p)) \<Longrightarrow> m \<in> set (view p) \<Longrightarrow> ts (head p) \<le> ts m"
  by (auto simp: view_def split: option.splits)

lemma update_middle:
  "k \<notin> fst ` set as \<Longrightarrow> AList.update k v (as @ (k, w) # bs) = as @ (k, v) # bs"
  by (induction as) auto

text \<open>A round takes the first message in time, and leaves providers whose messages are the others.\<close>

lemma merge_round:
  assumes "providers_ok ts pData" "pData \<noteq> []"
  obtains m k pData' where "sort_key ts (all_views pData) = m # sort_key ts (all_views pData')" "providers_ok ts pData'"
    "length (all_views pData') < length (all_views pData)" "length pData' \<le> length pData"
    "\<And>process c s. merge_loop ts process pData c s = do {
       (ok, s) \<leftarrow> process (ts m) m s;
       if \<not> ok then Some (pData, s) else if pData' = [] then Some ([], s) else merge_loop ts process pData' (Some k) s }"
proof -
  have heads: "\<forall>x \<in> set pData. pk_dataReq (snd x) \<noteq> None" using assms(1) by (simp add: providers_ok_def)
  have early: "\<not> (\<forall>x \<in> set pData. max_time \<le> ts (head (snd x)))"
  proof -
    have "hd pData \<in> set pData" using assms(2) by simp
    moreover from this heads have "head (snd (hd pData)) \<in> set (view (snd (hd pData)))"
      by (auto simp: view_def split: option.splits)
    ultimately show ?thesis using assms(1) by (force simp: providers_ok_def not_le)
  qed
  from select_loop[OF heads, of max_time ts 0] early obtain as k p bs where
    split: "pData = as @ (k, p) # bs" and first: "\<forall>x \<in> set as. ts (head p) < ts (head (snd x))"
      "\<forall>x \<in> set bs. ts (head p) \<le> ts (head (snd x))"
    and sel: "\<And>c. go_for (select_step ts) (enumerate 0 pData) (max_time, c, 0) = Some (ts (head p), Some k, length as)"
    by auto
  obtain m where m: "pk_dataReq p = Some m" using heads split by auto
  define pData' where "pData' = (if pk_dataChan p = [] then as @ bs else as @ (k, snd (refill p)) # bs)"
  have views: "all_views pData = all_views as @ (m # pk_dataChan p) @ all_views bs"
    "all_views pData' = all_views as @ pk_dataChan p @ all_views bs"
    by (auto simp: split pData'_def view_def m refill_def split: list.splits)
  have ge: "ts (head (snd x)) \<le> ts y" if "x \<in> set pData" "y \<in> set (view (snd x))" for x y
    using that assms(1) view_ge_head[of "snd x" ts y] by (simp add: providers_ok_def)
  have "sort_key ts (all_views pData) = m # sort_key ts (all_views pData')"
    unfolding views append.append_Cons
  proof (rule sort_key_first)
    show "\<forall>a \<in> set (all_views as). ts m < ts a" using first(1) ge m by (fastforce simp: split)
    have "\<forall>a \<in> set (all_views bs). ts m \<le> ts a" using first(2) ge m by (fastforce simp: split)
    moreover have "\<forall>a \<in> set (pk_dataChan p). ts m \<le> ts a" using ge[of "(k, p)"] m by (simp add: split view_def)
    ultimately show "\<forall>a \<in> set (pk_dataChan p @ all_views bs). ts m \<le> ts a" by auto
  qed
  moreover have "providers_ok ts pData'"
    using assms(1) by (auto simp: providers_ok_def pData'_def split view_def m refill_def split: list.splits)
  moreover have "length (all_views pData') < length (all_views pData)" by (simp add: views)
  moreover have "merge_loop ts process pData c s = do {
       (ok, s) \<leftarrow> process (ts m) m s;
       if \<not> ok then Some (pData, s) else if pData' = [] then Some ([], s) else merge_loop ts process pData' (Some k) s }" for process c s
  proof -
    have "k \<notin> fst ` set as" "distinct (map fst pData)" "(k, p) \<in> set pData"
      using assms(1) split by (auto simp: providers_ok_def)
    moreover from this have "map_of pData k = Some p" by simp
    ultimately have at: "map_of pData k = Some p" and new: "k \<notin> fst ` set as" by blast+
    have upd: "AList.update k v pData = as @ (k, v) # bs" for v by (simp add: split update_middle new)
    show ?thesis
      by (subst merge_loop.simps, cases "pk_dataChan p")
        (simp_all add: sel at m upd refill_def pData'_def cong: if_cong)
  qed
  moreover have "length pData' \<le> length pData" by (simp add: pData'_def split)
  ultimately show thesis using that by blast
qed

text \<open>What the loop amounts to: the messages in order, up to the first that fails, and those left then.\<close>

primrec feed :: "('m \<Rightarrow> timestamp) \<Rightarrow> (timestamp \<Rightarrow> 'm \<Rightarrow> 's \<Rightarrow> (bool \<times> 's) run) \<Rightarrow> 'm list \<Rightarrow> 's \<Rightarrow> ('m list \<times> 's) run" where
  "feed ts process [] s = Some ([], s)"
| "feed ts process (m # ms) s = do {
     (ok, s) \<leftarrow> process (ts m) m s;
     if \<not> ok then Some (m # ms, s) else feed ts process ms s
   }"

lemma feed_go_for:
  "feed ts (\<lambda>t m s. map_option (Pair True) (body t m s)) ms s = map_option (Pair []) (go_for (\<lambda>m. body (ts m) m) ms s)"
proof (induction ms arbitrary: s)
  case (Cons m ms)
  then show ?case by (cases "body (ts m) m s") simp_all
qed simp

text \<open>The loop processes the messages in the stable order of their times.\<close>

lemma merge_feed:
  fixes process :: "timestamp \<Rightarrow> 'm \<Rightarrow> 's \<Rightarrow> (bool \<times> 's) run"
  assumes "providers_ok ts pData" "pData \<noteq> []"
  shows "\<exists>r. merge_loop ts process pData c s = r \<and>
    map_option (map_prod (\<lambda>rest. sort_key ts (all_views rest)) id) r = feed ts process (sort_key ts (all_views pData)) s \<and>
    (\<forall>rest s'. r = Some (rest, s') \<longrightarrow> length rest \<le> length pData \<and> providers_ok ts rest)"
  using assms
proof (induction "length (all_views pData)" arbitrary: pData c s rule: less_induct)
  case less
  from less.prems obtain m k pData' where round: "sort_key ts (all_views pData) = m # sort_key ts (all_views pData')"
    "providers_ok ts pData'" "length (all_views pData') < length (all_views pData)" "length pData' \<le> length pData"
    "\<And>process c (s :: 's). merge_loop ts process pData c s = do {
       (ok, s) \<leftarrow> process (ts m) m s;
       if \<not> ok then Some (pData, s) else if pData' = [] then Some ([], s) else merge_loop ts process pData' (Some k) s }"
    by (rule merge_round) blast
  show ?case
  proof (cases "process (ts m) m s")
    case (Some r)
    obtain ok s1 where r: "r = (ok, s1)" by fastforce
    show ?thesis
    proof (cases "ok \<and> pData' \<noteq> []")
      case True
      then show ?thesis using less.hyps[OF round(3,2), of "Some k" s1] round(4) by (auto simp: round(1,5) Some r)
    next
      case False
      then show ?thesis using round(1)[symmetric] less.prems(1) by (auto simp: round(1,5) Some r providers_ok_def)
    qed
  qed (simp add: round(1,5))
qed

text \<open>Starting with streams that are not empty.\<close>

lemma merge_streams_feed:
  assumes "streams \<noteq> []" "\<forall>xs \<in> set streams. xs \<noteq> [] \<and> sorted (map ts xs) \<and> (\<forall>m \<in> set xs. ts m < max_time)"
  shows "\<exists>r. merge_streams ts process streams s = r \<and>
    map_option (map_prod (\<lambda>rest. sort_key ts (all_views rest)) id) r = feed ts process (sort_key ts (concat streams)) s \<and>
    (\<forall>rest s'. r = Some (rest, s') \<longrightarrow> length rest \<le> length streams \<and> providers_ok ts rest)"
proof -
  let ?peek = "\<lambda>xs. snd (refill \<lparr>pk_dataReq = None, pk_dataChan = xs\<rparr>)"
  let ?pData = "enumerate 0 (map ?peek streams)"
  have view: "view (?peek xs) = xs" for xs by (cases xs) (simp_all add: refill_def view_def)
  have views: "map (\<lambda>x. view (snd x)) ?pData = streams"
  proof -
    have "map (\<lambda>x. view (snd x)) ?pData = map view (map snd ?pData)" by (simp only: map_map o_def)
    also have "\<dots> = map view (map ?peek streams)" by (simp only: map_snd_enumerate)
    finally show ?thesis by (simp add: o_def view)
  qed
  have "providers_ok ts ?pData"
    unfolding providers_ok_def
  proof (intro conjI ballI)
    fix x
    assume "x \<in> set ?pData"
    then have "streams ! fst x \<in> set streams" "snd x = ?peek (streams ! fst x)"
      by (auto simp: in_set_enumerate_eq)
    then obtain xs where xs: "xs \<in> set streams" "snd x = ?peek xs" by blast
    show "pk_dataReq (snd x) \<noteq> None" using assms(2) xs by (cases xs) (auto simp: refill_def)
    show "sorted (map ts (view (snd x)))" unfolding xs(2) view using assms(2) xs(1) by blast
    show "ts m < max_time" if "m \<in> set (view (snd x))" for m
      using that assms(2) xs(1) unfolding xs(2) view by blast
  qed simp
  moreover have "?pData \<noteq> []" using assms(1) by (cases streams) simp_all
  ultimately show ?thesis
    using merge_feed[of ts ?pData process None s] unfolding merge_streams_def views by simp
qed

lemma merge_streams_sorted:
  assumes "streams \<noteq> []" "\<forall>xs \<in> set streams. xs \<noteq> [] \<and> sorted (map ts xs) \<and> (\<forall>m \<in> set xs. ts m < max_time)"
  shows "map_option snd (merge_streams ts (\<lambda>t m s. map_option (Pair True) (body t m s)) streams s) =
    go_for (\<lambda>m. body (ts m) m) (sort_key ts (concat streams)) s"
proof -
  obtain r where r: "merge_streams ts (\<lambda>t m s. map_option (Pair True) (body t m s)) streams s = r"
    "map_option (map_prod (\<lambda>rest. sort_key ts (all_views rest)) id) r =
      map_option (Pair []) (go_for (\<lambda>m. body (ts m) m) (sort_key ts (concat streams)) s)"
    using merge_streams_feed[OF assms, of "\<lambda>t m s. map_option (Pair True) (body t m s)" s]
    unfolding feed_go_for by blast
  from arg_cong[OF r(2), of "map_option snd"] show ?thesis
    by (simp add: r(1) option.map_comp o_def option.map_ident)
qed

subsection \<open>The fetchers\<close>

lemma provide_buffer: "provide next (xs @ ys, sc) = map_option (append xs) (provide next (ys, sc))"
proof (induction xs)
  case (Cons x xs)
  have "provide next ((x # xs) @ ys, sc) = do { ms \<leftarrow> provide next (xs @ ys, sc); Some (x # ms) }"
    by (subst provide.simps) (simp add: fetcher_next_def)
  with Cons show ?case by (cases "provide next (ys, sc)") simp_all
qed (simp add: option.map_id0[unfolded id_def] option.map_ident)

lemma provide_empty:
  "provide next ([], sc) = (case next sc of (Inl err, _) \<Rightarrow> None
     | (Inr rc, sc) \<Rightarrow> if rc_Data rc = [] then Some [] else provide next (rc_Data rc, sc))"
proof (cases "next sc")
  case (Pair r sc')
  show ?thesis
  proof (cases r)
    case (Inr rc)
    show ?thesis
    proof (cases "rc_Data rc")
      case (Cons x xs)
      have "provide next (x # xs, sc') = do { ms \<leftarrow> provide next (xs, sc'); Some (x # ms) }"
        by (subst provide.simps) (simp add: fetcher_next_def)
      then show ?thesis
        by (subst provide.simps) (simp add: fetcher_next_def fetch_def Pair Inr Cons)
    qed (subst provide.simps, simp add: fetcher_next_def fetch_def Pair Inr)
  qed (subst provide.simps, simp add: fetcher_next_def fetch_def Pair)
qed

text \<open>A fetcher gives what a stream sends that takes every message.\<close>

lemma stream_provide:
  assumes "stream_loop nxt send st out = Some r"
  shows "send = (\<lambda>_ _. True) \<longrightarrow> fst r = None \<longrightarrow>
    (case fst st of Inl _ \<Rightarrow> False | Inr rc \<Rightarrow>
      if rc_Data rc = [] then snd r = out
      else \<exists>ms. provide nxt (rc_Data rc, snd st) = Some ms \<and> snd r = out @ ms)"
proof (rule stream_loop.raw_induct[OF _ assms], goal_cases)
  case (1 loop nxt send st out r)
  have "case fst st of Inl _ \<Rightarrow> False | Inr rc \<Rightarrow>
      if rc_Data rc = [] then snd r = out
      else \<exists>ms. provide nxt (rc_Data rc, snd st) = Some ms \<and> snd r = out @ ms"
    if all: "send = (\<lambda>_ _. True)" "fst r = None"
  proof (cases "fst st")
    case (Inl err)
    with 1(2) all(2) show ?thesis by auto
  next
    case (Inr rc)
    show ?thesis
    proof (cases "rc_Data rc = []")
      case False
      have run: "loop nxt send (nxt (snd st)) (out @ rc_Data rc) = Some r"
        using 1(2) Inr False all(1) by (simp add: send_all_ok Let_def)
      from 1(1)[OF run] all have IH: "case fst (nxt (snd st)) of Inl x \<Rightarrow> False | Inr rca \<Rightarrow>
          if rc_Data rca = [] then snd r = out @ rc_Data rc
          else \<exists>ms. provide nxt (rc_Data rca, snd (nxt (snd st))) = Some ms \<and> snd r = (out @ rc_Data rc) @ ms" by blast
      then obtain rc' where rc': "fst (nxt (snd st)) = Inr rc'" by (cases "fst (nxt (snd st))") auto
      have "provide nxt (rc_Data rc, snd st) = map_option (append (rc_Data rc)) (provide nxt ([], snd st))"
        using provide_buffer[of nxt "rc_Data rc" "[]"] by simp
      with IH rc' Inr False show ?thesis
        by (cases "nxt (snd st)") (auto simp: provide_empty split: if_splits)
    qed (use 1(2) Inr in auto)
  qed
  then show ?case by blast
qed


context range_source
begin

text \<open>A fetcher that starts with the first page gives every row of the event.\<close>

lemma provide_all:
  assumes "ok db" "0 < cap" "start_of s = StartSelector_Id 0" "\<not> 0 < sint (GetNum (sc_req s))"
  shows "\<exists>rc s'. InitialRequest cap (repo db) s = (Inr rc, s') \<and>
    provide (NextRequest cap (repo db)) (rc_Data rc, s') = Some (map (snd \<circ> snd) (rows db (event_id s)))"
proof -
  let ?rows = "rows db (event_id s)"
  have all: "filter (\<lambda>r. 0 \<le> fst r) ?rows = ?rows"
    using rows_bounded[OF assms(1)] by (simp add: filter_id_conv)
  have stream: "stream_loop (NextRequest cap (repo db)) (\<lambda>_ _. True) (InitialRequest cap (repo db) s) [] =
      Some (None, map (snd \<circ> snd) ?rows)"
    using stream_by_id[OF assms(1-3)] assms(4) by (simp add: wanted_def all)
  from stream_provide[OF stream] obtain rc where rc: "fst (InitialRequest cap (repo db) s) = Inr rc"
    "if rc_Data rc = [] then ?rows = [] else
      provide (NextRequest cap (repo db)) (rc_Data rc, snd (InitialRequest cap (repo db) s)) = Some (map (snd \<circ> snd) ?rows)"
    by (auto split: sum.splits if_splits)
  show ?thesis
  proof (cases "rc_Data rc = []")
    case True
    obtain s' where s': "InitialRequest cap (repo db) s = (Inr rc, s')" using rc(1) by (metis prod.collapse)
    have f: "0 \<le> toFetchEntries cap s" "0 < toFetchEntries cap s"
      using assms(2,4) by (simp_all add: toFetchEntries_def)
    obtain rc0 where rc0: "LoadRangeByID (repo db) (event_id s) 0 (toFetchEntries cap s) = Inr rc0"
      "page_of (take (nat (toFetchEntries cap s)) ?rows) rc0"
      using load_by_id[OF assms(1) f(1), of 0 "event_id s"] by (auto simp: all)
    have book: "book (Inr rc0 :: 'e server_error + _) s = (Inr rc, s')"
      using s' rc0(1) assms(3) by (simp add: InitialRequest_def repo_result_def)
    have "rows db (event_id s) = []" using rc0(2) f(2) True book by (auto simp: page_of_def book_def)
    with rc0(2) have "rc_LastRsInfoID rc0 = 0" by (simp add: page_of_def)
    with book True have fields: "sc_lastRsInfoID s' = 0" "sc_req s' = sc_req s" "event_id s' = event_id s"
      by (auto simp: book_def event_id_def)
    have "0 \<le> toFetchEntries cap s'" using assms(2,4) fields(2) by (simp add: toFetchEntries_def)
    from next_request[OF assms(1) this] obtain rc1 where rc1: "NextRequest cap (repo db) s' = book (Inr rc1) s'"
      "page_of (take (nat (toFetchEntries cap s')) (later_rows s' (rows db (event_id s')))) rc1"
      by (auto simp: fields(1))
    then have "rc_Data rc1 = []"
      by (simp add: page_of_def later_rows_def fields(3) \<open>rows db (event_id s) = []\<close>)
    with rc1(1) s' True \<open>rows db (event_id s) = []\<close> show ?thesis
      by (simp add: provide_empty book_def)
  qed (use rc in \<open>auto simp: prod_eq_iff\<close>)
qed

end

subsection \<open>Recomputing\<close>

lemma container_all_of_event:
  assumes "ResolveEvent er (EventSelector_Id (ev_Id e)) = Inr e"
  obtains s where "createStatesContainer er (all_of_event e) = Inr s" "start_of s = StartSelector_Id 0"
    "\<not> 0 < sint (GetNum (sc_req s))" "event_id s = uint (ev_Id e)"
  using assms that by (simp add: createStatesContainer_def all_of_event_def start_of_def event_id_def)

lemma init_fetcher_states:
  assumes "sql_executor ex" "table_ok cd RaceStateProtos db" "ResolveEvent er (EventSelector_Id (ev_Id e)) = Inr e"
  shows "\<exists>f. init_fetcher er (racestates_InitialRequest (RacestateRepository ex cd nm db)) e = Inr f \<and>
    provide (racestates_NextRequest (RacestateRepository ex cd nm db)) f =
      Some (map (snd \<circ> snd) (event_rows cd RaceStateProtos db (uint (ev_Id e))))"
proof -
  obtain s where "createStatesContainer er (all_of_event e) = Inr s" "start_of s = StartSelector_Id 0"
    "\<not> 0 < sint (GetNum (sc_req s))" "event_id s = uint (ev_Id e)"
    by (rule container_all_of_event[OF assms(3)])
  with racestates.provide_all[of ex cd db 2000 s nm] assms(1,2) show ?thesis
    by (auto simp: init_fetcher_def racestates_InitialRequest_def racestates_NextRequest_def)
qed

lemma init_fetcher_driver_data:
  assumes "sql_executor ex" "table_ok cd CarStateProtos db" "ResolveEvent er (EventSelector_Id (ev_Id e)) = Inr e"
  shows "\<exists>f. init_fetcher er (driverdata_InitialRequest (CarProtoRepository ex cd nm db)) e = Inr f \<and>
    provide (driverdata_NextRequest (CarProtoRepository ex cd nm db)) f =
      Some (map (snd \<circ> snd) (event_rows cd CarStateProtos db (uint (ev_Id e))))"
proof -
  obtain s where "createStatesContainer er (all_of_event e) = Inr s" "start_of s = StartSelector_Id 0"
    "\<not> 0 < sint (GetNum (sc_req s))" "event_id s = uint (ev_Id e)"
    by (rule container_all_of_event[OF assms(3)])
  with driver_data.provide_all[of ex cd db 1000 s nm] assms(1,2) show ?thesis
    by (auto simp: init_fetcher_def driverdata_InitialRequest_def driverdata_NextRequest_def)
qed

text \<open>Both together: what RecomputeAnalysis does with the recorded messages.\<close>

definition recorded :: "('m, 'b, 'e) codec \<Rightarrow> proto_table \<Rightarrow> ('d, 'b) database \<Rightarrow> Event \<Rightarrow> 'm list" where
  "recorded cd tab db e = map (snd \<circ> snd) (event_rows cd tab db (uint (ev_Id e)))"

lemma recompute_recorded:
  assumes "sql_executor ex" "table_ok scd RaceStateProtos db" "table_ok dcd CarStateProtos db"
    "ResolveEvent er (EventSelector_Id (ev_Id e)) = Inr e"
  shows "RecomputeAnalysis er (RacestateRepository ex scd nm db) (CarProtoRepository ex dcd nm db) e =
    map_option (\<lambda>p. Inr (ComposeAnalysisData p))
      (processData (recorded scd RaceStateProtos db e) (recorded dcd CarStateProtos db e) (recompute_processor e))"
proof -
  obtain df where "init_fetcher er (driverdata_InitialRequest (CarProtoRepository ex dcd nm db)) e = Inr df"
    "provide (driverdata_NextRequest (CarProtoRepository ex dcd nm db)) df = Some (recorded dcd CarStateProtos db e)"
    using init_fetcher_driver_data[OF assms(1,3,4), of nm] by (auto simp: recorded_def)
  moreover obtain sf where "init_fetcher er (racestates_InitialRequest (RacestateRepository ex scd nm db)) e = Inr sf"
    "provide (racestates_NextRequest (RacestateRepository ex scd nm db)) sf = Some (recorded scd RaceStateProtos db e)"
    using init_fetcher_states[OF assms(1,2,4), of nm] by (auto simp: recorded_def)
  ultimately show ?thesis
    by (simp add: RecomputeAnalysis_def map_conv_bind_option o_def)
qed

text \<open>The messages of a recording in order: each kind recorded, and in the order of its timestamps.\<close>

definition in_order :: "'m list \<Rightarrow> ('m \<Rightarrow> proc_msg) \<Rightarrow> bool" where
  "in_order ms wrap \<longleftrightarrow> ms \<noteq> [] \<and> sorted (map (msg_time \<circ> wrap) ms) \<and> (\<forall>m \<in> set ms. msg_time (wrap m) < max_time)"

lemma recompute_merged:
  assumes "sql_executor ex" "table_ok scd RaceStateProtos db" "table_ok dcd CarStateProtos db"
    "ResolveEvent er (EventSelector_Id (ev_Id e)) = Inr e"
    "in_order (recorded scd RaceStateProtos db e) ProcState" "in_order (recorded dcd CarStateProtos db e) ProcDriver"
  shows "RecomputeAnalysis er (RacestateRepository ex scd nm db) (CarProtoRepository ex dcd nm db) e =
    map_option (\<lambda>p. Inr (ComposeAnalysisData p)) (go_for proc_step
      (sort_key msg_time (map ProcState (recorded scd RaceStateProtos db e) @
        map ProcDriver (recorded dcd CarStateProtos db e))) (recompute_processor e))"
proof -
  let ?streams = "[map ProcState (recorded scd RaceStateProtos db e), map ProcDriver (recorded dcd CarStateProtos db e)]"
  have "map_option snd (merge_streams msg_time (\<lambda>t m p. map_option (Pair True) (proc_step m p)) ?streams p) =
      go_for proc_step (sort_key msg_time (concat ?streams)) p" for p
    by (rule merge_streams_sorted[of ?streams msg_time "\<lambda>_. proc_step"]) (use assms(5,6) in \<open>auto simp: in_order_def o_def\<close>)
  then show ?thesis by (simp add: recompute_recorded[OF assms(1-4)] processData_def)
qed


text \<open>A kind of which nothing was recorded.\<close>

lemma go_for_panic: "x \<in> set xs \<Longrightarrow> (\<And>s. body x s = None) \<Longrightarrow> go_for body xs s = None"
proof (induction xs arbitrary: s)
  case (Cons y ys)
  then show ?case by (cases "body y s") auto
qed simp

lemma merge_streams_empty:
  assumes "[] \<in> set streams"
  shows "merge_streams ts process streams s = None"
proof -
  let ?pData = "enumerate 0 (map (\<lambda>xs. snd (refill \<lparr>pk_dataReq = None, pk_dataChan = xs\<rparr>)) streams)"
  obtain i where i: "i < length streams" "streams ! i = []" using assms by (metis in_set_conv_nth)
  then have "(i, i, snd (refill \<lparr>pk_dataReq = None, pk_dataChan = [] :: 'a list\<rparr>)) \<in> set (enumerate 0 ?pData)"
    by (simp add: in_set_enumerate_eq nth_enumerate_eq)
  then have "go_for (select_step ts) (enumerate 0 ?pData) x = None" for x
    by (rule go_for_panic) (simp add: select_step_def refill_def split: prod.splits)
  then show ?thesis unfolding merge_streams_def by (subst merge_loop.simps) simp
qed

text \<open>
  When no race state or no driver data was recorded for the event, recomputing its analysis panics: the merge of the
  two streams reads the timestamp of a message that is nil.
\<close>

lemma recompute_needs_both:
  assumes "sql_executor ex" "table_ok scd RaceStateProtos db" "table_ok dcd CarStateProtos db"
    "ResolveEvent er (EventSelector_Id (ev_Id e)) = Inr e"
    "recorded scd RaceStateProtos db e = [] \<or> recorded dcd CarStateProtos db e = []"
  shows "RecomputeAnalysis er (RacestateRepository ex scd nm db) (CarProtoRepository ex dcd nm db) e = None"
  using assms(5) by (auto simp: recompute_recorded[OF assms(1-4)] processData_def merge_streams_empty)

text \<open>
  C34: recomputing an analysis ends and gives an analysis, when both kinds of messages are recorded in the order
  of their timestamps and merged make a recording that announces its cars before they appear.
\<close>

lemma recompute_terminates:
  assumes "sql_executor ex" "table_ok scd RaceStateProtos db" "table_ok dcd CarStateProtos db"
    "ResolveEvent er (EventSelector_Id (ev_Id e)) = Inr e"
    "in_order (recorded scd RaceStateProtos db e) ProcState" "in_order (recorded dcd CarStateProtos db e) ProcDriver"
    "good_messages [] False (sort_key msg_time (map ProcState (recorded scd RaceStateProtos db e) @
        map ProcDriver (recorded dcd CarStateProtos db e)))"
  shows "\<exists>a. RecomputeAnalysis er (RacestateRepository ex scd nm db) (CarProtoRepository ex dcd nm db) e = Some (Inr a)"
proof -
  have "proc_inv (recompute_processor e)"
    by (simp add: proc_inv_def recompute_processor_def NewProcessor_def WithCarProcessor_def WithRaceProcessor_def Let_def)
  from good_messages_ok[OF assms(7) this]
  show ?thesis by (auto simp: recompute_merged[OF assms(1-6)])
qed

subsection \<open>A recording of both kinds\<close>

definition both_state_codec :: "(PublishStateRequest, proc_msg, unit) codec" where
  "both_state_codec = \<lparr>Marshal = (\<lambda>m. Inr (ProcState m)), Unmarshal = (\<lambda>b. case b of ProcState m \<Rightarrow> Inr m | _ \<Rightarrow> Inl ())\<rparr>"

definition both_driver_codec :: "(PublishDriverDataRequest, proc_msg, unit) codec" where
  "both_driver_codec = \<lparr>Marshal = (\<lambda>m. Inr (ProcDriver m)), Unmarshal = (\<lambda>b. case b of ProcDriver m \<Rightarrow> Inr m | _ \<Rightarrow> Inl ())\<rparr>"

definition both_db :: "(int, proc_msg) database" where
  "both_db = \<lparr>db_RSInfos = [rec_info 1 7 10, rec_info 2 8 20, rec_info 3 7 30],
     db_Protos = (\<lambda>tab. if tab = RaceStateProtos then [(1, ProcState (rec_state 10)), (3, ProcState (rec_state 30))]
       else if tab = CarStateProtos then [(1, ProcDriver (rec_driver 10)), (3, ProcDriver (rec_driver 20))] else [])\<rparr>"

lemmas both_defs = both_db_def both_state_codec_def both_driver_codec_def rec_info_def

lemma both_recorded:
  "table_ok both_state_codec RaceStateProtos both_db" "table_ok both_driver_codec CarStateProtos both_db"
  "ResolveEvent rec_events (EventSelector_Id (ev_Id rec_event)) = Inr rec_event"
  "recorded both_state_codec RaceStateProtos both_db rec_event = [rec_state 10, rec_state 30]"
  "recorded both_driver_codec CarStateProtos both_db rec_event = [rec_driver 10, rec_driver 20]"
  by (simp_all add: table_ok_def both_defs ResolveEvent_def rec_events_def rec_event_def recorded_def event_rows_def
      join_def row_of_def)

lemma both_in_order:
  "in_order [rec_state 10, rec_state 30] ProcState" "in_order [rec_driver 10, rec_driver 20] ProcDriver"
  by (simp_all add: in_order_def rec_state_def rec_driver_def as_time_def max_time_def)

lemma both_sorted: "sort_key msg_time (map ProcState [rec_state 10, rec_state 30] @ map ProcDriver [rec_driver 10, rec_driver 20]) =
    [ProcState (rec_state 10), ProcDriver (rec_driver 10), ProcDriver (rec_driver 20), ProcState (rec_state 30)]"
  by (simp add: rec_state_def rec_driver_def as_time_def)


lemma recompute_terminates_witness:
  "\<exists>a. RecomputeAnalysis rec_events (RacestateRepository mem_executor both_state_codec rec_decimals both_db)
      (CarProtoRepository mem_executor both_driver_codec rec_decimals both_db) rec_event = Some (Inr a)"
proof (rule recompute_terminates[OF mem_executor_sql both_recorded(1,2,3)])
  show "good_messages [] False (sort_key msg_time (map ProcState (recorded both_state_codec RaceStateProtos both_db rec_event) @
      map ProcDriver (recorded both_driver_codec CarStateProtos both_db rec_event)))"
    unfolding both_recorded(4,5) both_sorted by (simp add: rec_state_def rec_driver_def)
qed (simp_all only: both_recorded(4,5) both_in_order)

lemma recompute_needs_both_witness:
  "RecomputeAnalysis rec_events
      (RacestateRepository mem_executor both_state_codec rec_decimals (both_db\<lparr>db_Protos := \<lambda>_. []\<rparr>))
      (CarProtoRepository mem_executor both_driver_codec rec_decimals (both_db\<lparr>db_Protos := \<lambda>_. []\<rparr>)) rec_event = None"
  by (rule recompute_needs_both[OF mem_executor_sql])
    (simp_all add: both_recorded(3) table_ok_def recorded_def event_rows_def join_def both_defs)

end
