(* ===== verification/Replay_Client.thy ===== *)
theory Replay_Client
  imports Replay_Properties Provider_Server "HOL-Library.Signed_Division"
begin

text \<open>
  The replay command, which sends a recorded event to a server again: the task of pkg/cmd/replay/util/replay_task.go
  with its merge (theory Replay), and the data provider over the database of pkg/cmd/replay/grpc (replay.go,
  data_fetchers.go).

  The services of the server are functions on a world.  The log of a task holds what it does, sleeps and
  publications, in order.  A run that does not return is None: a panic, an endless loop, or a wait for goroutines that are
  blocked.
\<close>

subsection \<open>The task\<close>

record ('w, 'e) replay_services =
  svc_RegisterEvent :: "RegisterEventRequest \<Rightarrow> 'w \<Rightarrow> ('e + Event) \<times> 'w"
  svc_UnregisterEvent :: "EventSelector \<Rightarrow> 'w \<Rightarrow> 'e option \<times> 'w"
  svc_PublishState :: "PublishStateRequest \<Rightarrow> 'w \<Rightarrow> 'e option \<times> 'w"
  svc_PublishDriverData :: "PublishDriverDataRequest \<Rightarrow> 'w \<Rightarrow> 'e option \<times> 'w"
  svc_PublishSpeedmap :: "PublishSpeedmapRequest \<Rightarrow> 'w \<Rightarrow> 'e option \<times> 'w"

datatype replay_action = Sleep int | Publish proc_msg

record 'w ReplayTask =
  rt_fastForward :: int
  rt_ffStopTime :: timestamp
  rt_lastTS :: timestamp
  rt_log :: "replay_action list"
  rt_world :: 'w

text \<open>peekStateData.publish, peekDriverData.publish, peekSpeedmapData.publish.\<close>

fun publish :: "('w, 'e) replay_services \<Rightarrow> proc_msg \<Rightarrow> 'w \<Rightarrow> 'e option \<times> 'w" where
  "publish svc (ProcState req) w = svc_PublishState svc req w"
| "publish svc (ProcDriver req) w = svc_PublishDriverData svc req w"
| "publish svc (ProcSpeedmap req) w = svc_PublishSpeedmap svc req w"

definition computeFastForwardStop :: "timestamp \<Rightarrow> 'w ReplayTask \<Rightarrow> 'w ReplayTask" where
  "computeFastForwardStop cur r =
     (if 0 < rt_fastForward r \<and> rt_ffStopTime r = zero_time then r\<lparr>rt_ffStopTime := cur + rt_fastForward r\<rparr> else r)"

definition calcWaitTime :: "int \<Rightarrow> timestamp \<Rightarrow> timestamp \<Rightarrow> 'w ReplayTask \<Rightarrow> int" where
  "calcWaitTime Speed nextTS lastTS r = (
     let delta = time_sub nextTS lastTS in
     if nextTS < rt_ffStopTime r then 0
     else if 0 < Speed then delta sdiv Speed
     else delta)"

text \<open>What sendData does with the message it has selected; lastTS is a variable of the loop.\<close>

definition send_step :: "int \<Rightarrow> ('w, 'e) replay_services \<Rightarrow> timestamp \<Rightarrow> proc_msg \<Rightarrow> 'w ReplayTask \<Rightarrow>
    (bool \<times> 'w ReplayTask) run" where
  "send_step Speed svc nextTS m r = (
     let r = computeFastForwardStop nextTS r;
         wait = (if rt_lastTS r \<noteq> zero_time then calcWaitTime Speed nextTS (rt_lastTS r) r else 0);
         (err, w) = publish svc m (rt_world r)
     in Some (err = None, r\<lparr>rt_lastTS := nextTS,
          rt_log := rt_log r @ (if 0 < wait then [Sleep wait] else []) @ [Publish m], rt_world := w\<rparr>))"

definition sendData :: "int \<Rightarrow> ('w, 'e) replay_services \<Rightarrow> PublishStateRequest list \<Rightarrow> PublishDriverDataRequest list \<Rightarrow>
    PublishSpeedmapRequest list \<Rightarrow> 'w ReplayTask \<Rightarrow> ((nat \<times> proc_msg peek) list \<times> 'w ReplayTask) run" where
  "sendData Speed svc states driverData speedmaps = merge_streams msg_time (send_step Speed svc)
     [map ProcState states, map ProcDriver driverData, map ProcSpeedmap speedmaps]"

text \<open>A goroutine is blocked when it has another message for a channel nobody reads.\<close>

definition blocked :: "(nat \<times> 'm peek) list \<Rightarrow> bool" where
  "blocked rest = list_ex (\<lambda>x. pk_dataChan (snd x) \<noteq> []) rest"

text \<open>Replay: registers the event, waits for the goroutines, and unregisters it.\<close>

definition Replay :: "int \<Rightarrow> int \<Rightarrow> ('w, 'e) replay_services \<Rightarrow> RegisterEventRequest \<Rightarrow> PublishStateRequest list run \<Rightarrow>
    PublishDriverDataRequest list run \<Rightarrow> PublishSpeedmapRequest list run \<Rightarrow> 'w \<Rightarrow>
    ('e option \<times> replay_action list \<times> 'w) run" where
  "Replay Speed fastForward svc registerReq nextStates nextDriverData nextSpeedmaps w =
     (case svc_RegisterEvent svc registerReq w of
        (Inl err, w) \<Rightarrow> Some (Some err, [], w)
      | (Inr event, w) \<Rightarrow> do {
          states \<leftarrow> nextStates;
          driverData \<leftarrow> nextDriverData;
          speedmaps \<leftarrow> nextSpeedmaps;
          (rest, r) \<leftarrow> sendData Speed svc states driverData speedmaps
            \<lparr>rt_fastForward = fastForward, rt_ffStopTime = zero_time, rt_lastTS = zero_time, rt_log = [], rt_world = w\<rparr>;
          guard_run (\<not> blocked rest);
          (let (err, w) = svc_UnregisterEvent svc (EventSelector_Key (ev_Key event)) (rt_world r)
           in Some (err, rt_log r, w))
        })"

subsection \<open>The data provider over the database\<close>

text \<open>
  initStateDataFetcher and its siblings: a fetcher whose loader asks for the messages from lastTS on.  Nothing updates lastTS.
  An error of the loader ends the program.
\<close>

definition initDataFetcher :: "('e, 'm) range_repo \<Rightarrow> int \<Rightarrow> int \<Rightarrow> ('e, 'm, timestamp) loader" where
  "initDataFetcher repo eventID limit lastTS = (LoadRange repo eventID lastTS limit, lastTS)"

definition initDriverDataFetcher :: "('e, PublishDriverDataRequest) range_repo \<Rightarrow> int \<Rightarrow> int \<Rightarrow>
    ('e, PublishDriverDataRequest, timestamp) loader" where
  "initDriverDataFetcher = initDataFetcher"

definition initStateDataFetcher :: "('e, PublishStateRequest) range_repo \<Rightarrow> int \<Rightarrow> int \<Rightarrow>
    ('e, PublishStateRequest, timestamp) loader" where
  "initStateDataFetcher = initDataFetcher"

definition initSpeedmapDataFetcher :: "('e, PublishSpeedmapRequest) range_repo \<Rightarrow> int \<Rightarrow> int \<Rightarrow>
    ('e, PublishSpeedmapRequest, timestamp) loader" where
  "initSpeedmapDataFetcher = initDataFetcher"

definition NextStateData :: "('e, PublishStateRequest) range_repo \<Rightarrow> int \<Rightarrow> EventSelector \<Rightarrow> PublishStateRequest list run" where
  "NextStateData repo eventID eventSelector = map_option (map (\<lambda>item. item\<lparr>psr_Event := Some eventSelector\<rparr>))
     (provide (initStateDataFetcher repo eventID 100) ([], zero_time))"

definition NextDriverData :: "('e, PublishDriverDataRequest) range_repo \<Rightarrow> int \<Rightarrow> EventSelector \<Rightarrow>
    PublishDriverDataRequest list run" where
  "NextDriverData repo eventID eventSelector = map_option (map (\<lambda>item. item\<lparr>pdr_Event := Some eventSelector\<rparr>))
     (provide (initDriverDataFetcher repo eventID 50) ([], zero_time))"

definition NextSpeedmapData :: "('e, PublishSpeedmapRequest) range_repo \<Rightarrow> int \<Rightarrow> EventSelector \<Rightarrow>
    PublishSpeedmapRequest list run" where
  "NextSpeedmapData repo eventID eventSelector = map_option (map (\<lambda>item. item\<lparr>psm_Event := Some eventSelector\<rparr>))
     (provide (initSpeedmapDataFetcher repo eventID 100) ([], zero_time))"

record grpcReplayTask =
  gt_eventID :: int
  gt_sourceEvent :: Event
  gt_sourceTrack :: Track

definition newGrpcReplayTask :: "'e event_repo \<Rightarrow> (int \<Rightarrow> 'e + Track) \<Rightarrow> int \<Rightarrow> 'e + grpcReplayTask" where
  "newGrpcReplayTask er loadTrack eventID = (case er_LoadByID er eventID of
     Inl err \<Rightarrow> Inl err
   | Inr event \<Rightarrow> (case loadTrack (uint (ev_TrackId event)) of
       Inl err \<Rightarrow> Inl err
     | Inr track \<Rightarrow> Inr \<lparr>gt_eventID = eventID, gt_sourceEvent = event, gt_sourceTrack = track\<rparr>))"

text \<open>A key given on the command line replaces that of the event, else a new one (uuid); the mode PERSIST is 1.\<close>

definition ProvideEventData :: "bool \<Rightarrow> string \<Rightarrow> string \<Rightarrow> grpcReplayTask \<Rightarrow> RegisterEventRequest \<times> EventSelector" where
  "ProvideEventData DoNotPersist EventKey uuid r = (
     let key = (if EventKey = [] then uuid else EventKey) in
     (\<lparr>rer_Key = [], rer_Event = (gt_sourceEvent r)\<lparr>ev_Key := key\<rparr>, rer_Track = gt_sourceTrack r,
        rer_RecordingMode = (if DoNotPersist then RECORDING_MODE_DO_NOT_PERSIST else RECORDING_MODE_OTHER 1)\<rparr>,
      EventSelector_Key key))"

definition startReplay :: "int \<Rightarrow> int \<Rightarrow> bool \<Rightarrow> string \<Rightarrow> string \<Rightarrow> 'e event_repo \<Rightarrow> (int \<Rightarrow> 'e + Track) \<Rightarrow>
    ('e, PublishStateRequest) range_repo \<Rightarrow> ('e, PublishDriverDataRequest) range_repo \<Rightarrow>
    ('e, PublishSpeedmapRequest) range_repo \<Rightarrow> ('w, 'e) replay_services \<Rightarrow> int \<Rightarrow> 'w \<Rightarrow>
    ('e option \<times> replay_action list \<times> 'w) run" where
  "startReplay Speed fastForward DoNotPersist EventKey uuid er loadTrack srepo drepo mrepo svc eventID w =
     (case newGrpcReplayTask er loadTrack eventID of
        Inl err \<Rightarrow> Some (Some err, [], w)
      | Inr r \<Rightarrow> (case ProvideEventData DoNotPersist EventKey uuid r of
          (req, sel) \<Rightarrow> Replay Speed fastForward svc req (NextStateData srepo eventID sel)
            (NextDriverData drepo eventID sel) (NextSpeedmapData mrepo eventID sel) w))"

subsection \<open>Pace and order\<close>

fun published :: "replay_action list \<Rightarrow> proc_msg list" where
  "published [] = []"
| "published (Publish m # as) = m # published as"
| "published (Sleep d # as) = published as"

fun slept :: "replay_action list \<Rightarrow> int" where
  "slept [] = 0"
| "slept (Publish m # as) = slept as"
| "slept (Sleep d # as) = d + slept as"

lemma published_append [simp]: "published (as @ bs) = published as @ published bs"
  by (induction as rule: published.induct) simp_all

lemma slept_append [simp]: "slept (as @ bs) = slept as + slept bs"
  by (induction as rule: slept.induct) simp_all

text \<open>The state of a task between two messages, t being the time of the last one.\<close>

definition on_pace :: "int \<Rightarrow> timestamp \<Rightarrow> 'w ReplayTask \<Rightarrow> bool" where
  "on_pace ff t r \<longleftrightarrow> rt_lastTS r = t \<and> rt_fastForward r = ff \<and> (ff \<le> 0 \<longrightarrow> rt_ffStopTime r = zero_time)"

lemma time_sub_small: "0 \<le> a - b \<Longrightarrow> a - b < 2 ^ 63 \<Longrightarrow> time_sub a b = a - b"
  by (simp add: time_sub_def clamp64_def)

lemma sdiv_pos: "0 \<le> a \<Longrightarrow> 0 < b \<Longrightarrow> (a :: int) sdiv b = a div b"
  by (simp add: signed_divide_int_def sgn_if)

lemma calcWaitTime_bounds:
  assumes "0 \<le> t" "t \<le> t'" "t' < max_time" "0 < Speed"
  shows "0 \<le> calcWaitTime Speed t' t r" "Speed * calcWaitTime Speed t' t r \<le> t' - t"
    "Speed = 1 \<Longrightarrow> rt_ffStopTime r = zero_time \<Longrightarrow> calcWaitTime Speed t' t r = t' - t"
proof -
  have d: "time_sub t' t = t' - t" using assms by (intro time_sub_small) (simp_all add: max_time_def)
  have "0 \<le> (t' - t) div Speed" "Speed * ((t' - t) div Speed) \<le> t' - t"
    using assms by (simp_all add: pos_imp_zdiv_nonneg_iff minus_mod_eq_mult_div[symmetric])
  with d assms show "0 \<le> calcWaitTime Speed t' t r" "Speed * calcWaitTime Speed t' t r \<le> t' - t"
    "Speed = 1 \<Longrightarrow> rt_ffStopTime r = zero_time \<Longrightarrow> calcWaitTime Speed t' t r = t' - t"
    by (auto simp: calcWaitTime_def Let_def sdiv_pos zero_time_def)
qed

text \<open>A service that accepts every message.\<close>

definition accepts :: "('w, 'e) replay_services \<Rightarrow> proc_msg \<Rightarrow> bool" where
  "accepts svc m \<longleftrightarrow> (\<forall>w. fst (publish svc m w) = None)"

lemma send_step_pace:
  assumes "on_pace ff t r" "accepts svc m" "0 \<le> t" "t \<le> msg_time m" "msg_time m < max_time" "0 < Speed"
  shows "\<exists>r' d. send_step Speed svc (msg_time m) m r = Some (True, r') \<and> on_pace ff (msg_time m) r' \<and>
    published (rt_log r') = published (rt_log r) @ [m] \<and> slept (rt_log r') = slept (rt_log r) + d \<and>
    0 \<le> d \<and> Speed * d \<le> msg_time m - t \<and> (Speed = 1 \<and> ff \<le> 0 \<longrightarrow> d = msg_time m - t)"
proof -
  define r0 where "r0 = computeFastForwardStop (msg_time m) r"
  define d where "d = calcWaitTime Speed (msg_time m) t r0"
  obtain w where w: "publish svc m (rt_world r0) = (None, w)"
    using assms(2) by (metis accepts_def prod.collapse)
  have r0: "on_pace ff t r0" "rt_log r0 = rt_log r"
    using assms(1) by (auto simp: r0_def computeFastForwardStop_def on_pace_def)
  have "t \<noteq> zero_time" using assms(3) by (simp add: zero_time_def)
  then have "send_step Speed svc (msg_time m) m r = Some (True, r0\<lparr>rt_lastTS := msg_time m,
      rt_log := rt_log r @ (if 0 < d then [Sleep d] else []) @ [Publish m], rt_world := w\<rparr>)"
    using r0 w by (simp add: send_step_def Let_def flip: r0_def) (simp add: on_pace_def d_def)
  moreover note calcWaitTime_bounds[OF assms(3-6), of r0, folded d_def]
  ultimately show ?thesis using r0(1) by (intro exI conjI) (auto simp: on_pace_def)
qed

lemma feed_pace:
  assumes "on_pace ff t r" "\<forall>m \<in> set ms. accepts svc m \<and> msg_time m < max_time" "0 \<le> t" "sorted (t # map msg_time ms)" "0 < Speed"
  shows "\<exists>r' d. feed msg_time (send_step Speed svc) ms r = Some ([], r') \<and>
    published (rt_log r') = published (rt_log r) @ ms \<and> slept (rt_log r') = slept (rt_log r) + d \<and>
    0 \<le> d \<and> Speed * d \<le> last (t # map msg_time ms) - t \<and> (Speed = 1 \<and> ff \<le> 0 \<longrightarrow> d = last (t # map msg_time ms) - t)"
  using assms(1-4)
proof (induction ms arbitrary: t r)
  case (Cons m ms)
  from Cons.prems have m: "accepts svc m" "t \<le> msg_time m" "msg_time m < max_time" by simp_all
  from send_step_pace[OF Cons.prems(1) m(1) Cons.prems(3) m(2,3) assms(5)] obtain r' d where
    step: "send_step Speed svc (msg_time m) m r = Some (True, r')" "on_pace ff (msg_time m) r'"
    "published (rt_log r') = published (rt_log r) @ [m]" "slept (rt_log r') = slept (rt_log r) + d"
    "0 \<le> d" "Speed * d \<le> msg_time m - t" "Speed = 1 \<and> ff \<le> 0 \<longrightarrow> d = msg_time m - t" by blast
  from Cons.IH[OF step(2)] Cons.prems m obtain r'' d' where
    rest: "feed msg_time (send_step Speed svc) ms r' = Some ([], r'')"
    "published (rt_log r'') = published (rt_log r') @ ms" "slept (rt_log r'') = slept (rt_log r') + d'"
    "0 \<le> d'" "Speed * d' \<le> last (msg_time m # map msg_time ms) - msg_time m"
    "Speed = 1 \<and> ff \<le> 0 \<longrightarrow> d' = last (msg_time m # map msg_time ms) - msg_time m" by auto
  have sum: "Speed * (d + d') \<le> last (msg_time m # map msg_time ms) - t"
    using step(6) rest(5) by (simp only: distrib_left)
  show ?case
    by (rule exI[of _ r''], rule exI[of _ "d + d'"]) (use step rest sum in auto)
qed simp

text \<open>The messages of a replay in the order of their times.\<close>

definition replayed :: "PublishStateRequest list \<Rightarrow> PublishDriverDataRequest list \<Rightarrow> PublishSpeedmapRequest list \<Rightarrow>
    proc_msg list" where
  "replayed states driverData speedmaps =
     sort_key msg_time (map ProcState states @ map ProcDriver driverData @ map ProcSpeedmap speedmaps)"

definition new_task :: "int \<Rightarrow> 'w \<Rightarrow> 'w ReplayTask" where
  "new_task fastForward w = \<lparr>rt_fastForward = fastForward, rt_ffStopTime = zero_time, rt_lastTS = zero_time,
     rt_log = [], rt_world = w\<rparr>"

lemma sendData_feed:
  assumes "in_order states ProcState" "in_order driverData ProcDriver" "in_order speedmaps ProcSpeedmap"
  shows "map_option (map_prod (\<lambda>rest. sort_key msg_time (all_views rest)) id) (sendData Speed svc states driverData speedmaps r) =
      feed msg_time (send_step Speed svc) (replayed states driverData speedmaps) r"
    "sendData Speed svc states driverData speedmaps r = Some (rest, r') \<Longrightarrow>
      length rest \<le> 3 \<and> providers_ok msg_time rest"
proof -
  let ?streams = "[map ProcState states, map ProcDriver driverData, map ProcSpeedmap speedmaps]"
  have "?streams \<noteq> []" "\<forall>xs \<in> set ?streams. xs \<noteq> [] \<and> sorted (map msg_time xs) \<and> (\<forall>m \<in> set xs. msg_time m < max_time)"
    using assms by (auto simp: in_order_def o_def)
  from merge_streams_feed[OF this, of "send_step Speed svc" r]
  show "map_option (map_prod (\<lambda>rest. sort_key msg_time (all_views rest)) id) (sendData Speed svc states driverData speedmaps r) =
      feed msg_time (send_step Speed svc) (replayed states driverData speedmaps) r"
    "sendData Speed svc states driverData speedmaps r = Some (rest, r') \<Longrightarrow>
      length rest \<le> 3 \<and> providers_ok msg_time rest"
    by (auto simp: sendData_def replayed_def)
qed

lemma blocked_views: "\<not> blocked rest \<Longrightarrow> length (all_views rest) \<le> length rest"
proof (induction rest)
  case (Cons x rest)
  moreover have "length (view (snd x)) \<le> Suc (length (pk_dataChan (snd x)))" by (simp add: view_def split: option.splits)
  ultimately show ?case by (auto simp: blocked_def)
qed simp

lemma replayed_set:
  "set (replayed states driverData speedmaps) = ProcState ` set states \<union> ProcDriver ` set driverData \<union> ProcSpeedmap ` set speedmaps"
  by (auto simp: replayed_def)

text \<open>The messages of a replay: all three kinds, in order, from the epoch on.\<close>

definition replayable :: "PublishStateRequest list \<Rightarrow> PublishDriverDataRequest list \<Rightarrow> PublishSpeedmapRequest list \<Rightarrow> bool" where
  "replayable states driverData speedmaps \<longleftrightarrow> in_order states ProcState \<and> in_order driverData ProcDriver \<and>
     in_order speedmaps ProcSpeedmap \<and> (\<forall>m \<in> set (replayed states driverData speedmaps). 0 \<le> msg_time m)"

lemma sendData_pace:
  assumes "replayable states driverData speedmaps" "\<forall>m \<in> set (replayed states driverData speedmaps). accepts svc m" "0 < Speed"
  shows "\<exists>rest r. sendData Speed svc states driverData speedmaps (new_task ff w) = Some (rest, r) \<and> \<not> blocked rest \<and>
    published (rt_log r) = replayed states driverData speedmaps \<and> 0 \<le> slept (rt_log r) \<and>
    Speed * slept (rt_log r) \<le> msg_time (last (published (rt_log r))) - msg_time (hd (published (rt_log r))) \<and>
    (Speed = 1 \<and> ff \<le> 0 \<longrightarrow>
      slept (rt_log r) = msg_time (last (published (rt_log r))) - msg_time (hd (published (rt_log r))))"
proof -
  let ?all = "replayed states driverData speedmaps"
  note ord = assms(1)[unfolded replayable_def]
  have "set ?all \<noteq> {}" using ord by (auto simp: replayed_set in_order_def)
  then obtain m ms where all: "?all = m # ms" by (cases ?all) auto
  have "sorted (map msg_time ?all)" by (simp add: replayed_def)
  with all have sorted: "sorted (msg_time m # map msg_time ms)" by simp
  have bounds: "0 \<le> msg_time x \<and> msg_time x < max_time" if "x \<in> set ?all" for x
    using that ord by (auto simp: replayed_set in_order_def)
  obtain r1 where r1: "send_step Speed svc (msg_time m) m (new_task ff w) = Some (True, r1)" "on_pace ff (msg_time m) r1"
    "rt_log r1 = [Publish m]"
  proof -
    let ?r0 = "computeFastForwardStop (msg_time m) (new_task ff w)"
    have "accepts svc m" using assms(2) all by simp
    then obtain w' where "publish svc m (rt_world ?r0) = (None, w')" by (metis accepts_def prod.collapse)
    moreover have "rt_lastTS ?r0 = zero_time" "rt_log ?r0 = []" "rt_fastForward ?r0 = ff"
      "ff \<le> 0 \<longrightarrow> rt_ffStopTime ?r0 = zero_time"
      by (auto simp: new_task_def computeFastForwardStop_def)
    ultimately show thesis using that by (simp add: send_step_def Let_def on_pace_def)
  qed
  have run: "\<exists>r' d. feed msg_time (send_step Speed svc) ms r1 = Some ([], r') \<and>
      published (rt_log r') = published (rt_log r1) @ ms \<and> slept (rt_log r') = slept (rt_log r1) + d \<and>
      0 \<le> d \<and> Speed * d \<le> last (msg_time m # map msg_time ms) - msg_time m \<and>
      (Speed = 1 \<and> ff \<le> 0 \<longrightarrow> d = last (msg_time m # map msg_time ms) - msg_time m)"
    using bounds assms(2) all by (intro feed_pace[OF r1(2) _ _ sorted assms(3)]) auto
  have lst: "last (msg_time m # map msg_time ms) = msg_time (last ?all)" by (simp add: all last_map)
  from run obtain r d where feed: "feed msg_time (send_step Speed svc) ?all (new_task ff w) = Some ([], r)"
    "published (rt_log r) = ?all" "slept (rt_log r) = d" "0 \<le> d" "Speed * d \<le> msg_time (last ?all) - msg_time (hd ?all)"
    "Speed = 1 \<and> ff \<le> 0 \<longrightarrow> d = msg_time (last ?all) - msg_time (hd ?all)"
    using r1 unfolding lst by (auto simp: all)
  obtain rest where rest: "sendData Speed svc states driverData speedmaps (new_task ff w) = Some (rest, r)"
    "sort_key msg_time (all_views rest) = []"
    using sendData_feed(1)[of states driverData speedmaps Speed svc "new_task ff w"] ord feed(1)
    by (cases "sendData Speed svc states driverData speedmaps (new_task ff w)") auto
  have "all_views rest = []" using arg_cong[OF rest(2), of length] by simp
  moreover have "providers_ok msg_time rest" using sendData_feed(2) ord rest(1) by blast
  ultimately have "rest = []" by (cases rest) (auto simp: providers_ok_def view_def)
  with rest(1) feed show ?thesis by (intro exI[of _ rest] exI[of _ r]) (simp add: blocked_def)
qed

lemma feed_accepted:
  assumes "\<forall>x \<in> set pre. accepts svc x"
  shows "\<exists>r'. feed msg_time (send_step Speed svc) (pre @ ms) r = feed msg_time (send_step Speed svc) ms r'"
  using assms
proof (induction pre arbitrary: r)
  case (Cons x pre)
  then obtain w where "publish svc x (rt_world (computeFastForwardStop (msg_time x) r)) = (None, w)"
    by (metis accepts_def list.set_intros(1) prod.collapse)
  then obtain r' where "send_step Speed svc (msg_time x) x r = Some (True, r')"
    by (simp add: send_step_def Let_def)
  with Cons show ?case by simp
qed auto

lemma sendData_blocked:
  assumes "replayable states driverData speedmaps" "replayed states driverData speedmaps = pre @ m # post"
    "\<forall>x \<in> set pre. accepts svc x" "\<forall>w. fst (publish svc m w) \<noteq> None" "3 \<le> length post"
  shows "\<exists>rest r'. sendData Speed svc states driverData speedmaps r = Some (rest, r') \<and> blocked rest"
proof -
  from feed_accepted[OF assms(3)] obtain r1 where
    "feed msg_time (send_step Speed svc) (pre @ m # post) r = feed msg_time (send_step Speed svc) (m # post) r1" by blast
  moreover obtain err w where "publish svc m (rt_world (computeFastForwardStop (msg_time m) r1)) = (Some err, w)"
    using assms(4) by (metis not_None_eq prod.collapse)
  ultimately obtain r' where "feed msg_time (send_step Speed svc) (replayed states driverData speedmaps) r = Some (m # post, r')"
    by (simp add: assms(2) send_step_def Let_def)
  then obtain rest where rest: "sendData Speed svc states driverData speedmaps r = Some (rest, r')"
    "sort_key msg_time (all_views rest) = m # post"
    using sendData_feed(1)[of states driverData speedmaps Speed svc r] assms(1)
    by (cases "sendData Speed svc states driverData speedmaps r") (auto simp: replayable_def)
  have "length (all_views rest) = Suc (length post)" using arg_cong[OF rest(2), of length] by simp
  moreover have "length rest \<le> 3" using sendData_feed(2) assms(1) rest(1) by (fastforce simp: replayable_def)
  ultimately have "blocked rest" using blocked_views[of rest] assms(5) by linarith
  with rest(1) show ?thesis by blast
qed

text \<open>A loader that gives the same page again and again.\<close>

lemma provide_same_page:
  assumes "loader c = (Inr rc, c)" "rc_Data rc \<noteq> []"
  shows "provide loader ([], c) = None"
proof (cases "provide loader ([], c)")
  case (Some ms)
  have "provide loader ([], c) = map_option (append (rc_Data rc)) (provide loader ([], c))"
    using provide_buffer[of loader "rc_Data rc" "[]" c] assms by (simp add: provide_empty)
  with Some assms(2) show ?thesis by simp
qed

subsection \<open>Properties\<close>


text \<open>
  When the server refuses a message and more than two others are still to come, the replay never returns: the
  goroutines that provide data wait for a reader of their channels, Replay waits for them, and the event stays registered.
\<close>

lemma replay_publish_error_hangs:
  assumes "replayable states driverData speedmaps" "replayed states driverData speedmaps = pre @ m # post"
    "\<forall>x \<in> set pre. accepts svc x" "\<forall>w. fst (publish svc m w) \<noteq> None" "3 \<le> length post"
    "svc_RegisterEvent svc req w = (Inr event, w1)"
  shows "Replay Speed ff svc req (Some states) (Some driverData) (Some speedmaps) w = None"
  using sendData_blocked[OF assms(1-5), of Speed "new_task ff w1"]
  by (auto simp: Replay_def assms(6) new_task_def)

text \<open>
  Replaying an event from the database never ends once a race state was recorded for it: the fetchers ask for the
  messages from the same time again and again, and get their first page.
\<close>

lemma replay_from_database_endless:
  assumes "er_LoadByID er eventID = Inr event" "loadTrack (uint (ev_TrackId event)) = Inr track"
    "\<forall>req. \<exists>ev w1. svc_RegisterEvent svc req w = (Inr ev, w1)"
    "LoadRange srepo eventID zero_time 100 = Inr rc" "rc_Data rc \<noteq> []"
  shows "startReplay Speed ff dnp key uuid er loadTrack srepo drepo mrepo svc eventID w = None"
proof -
  have "provide (initDataFetcher srepo eventID 100) ([], zero_time) = None"
    by (rule provide_same_page[of _ _ rc]) (simp_all add: initDataFetcher_def assms(4,5))
  then have "NextStateData srepo eventID sel = None" for sel by (simp add: NextStateData_def initStateDataFetcher_def)
  moreover have "\<exists>ev w1. svc_RegisterEvent svc req w = (Inr ev, w1)" for req using assms(3) by blast
  ultimately have "Replay Speed ff svc req (NextStateData srepo eventID sel) ds ms w = None" for req sel ds ms
    by (metis (mono_tags, lifting) Replay_def bind.bind_lzero old.prod.case sum.case(2))
  then show ?thesis
    by (simp add: startReplay_def newGrpcReplayTask_def assms(1,2) split: prod.splits)
qed

subsection \<open>Witnesses\<close>

definition demo_svc :: "proc_msg list \<Rightarrow> (nat, unit) replay_services" where
  "demo_svc bad = (let answer = (\<lambda>m w. if m \<in> set bad then (Some (), w) else (None, Suc w)) in
     \<lparr>svc_RegisterEvent = (\<lambda>req w. (Inr (rer_Event req), w)), svc_UnregisterEvent = (\<lambda>sel w. (None, w)),
      svc_PublishState = (\<lambda>m. answer (ProcState m)), svc_PublishDriverData = (\<lambda>m. answer (ProcDriver m)),
      svc_PublishSpeedmap = (\<lambda>m. answer (ProcSpeedmap m))\<rparr>)"

lemma demo_svc_publish: "fst (publish (demo_svc bad) m w) = (if m \<in> set bad then Some () else None)"
  by (cases m) (simp_all add: demo_svc_def Let_def)

lemma demo_svc_register: "svc_RegisterEvent (demo_svc bad) req w = (Inr (rer_Event req), w)"
  by (simp add: demo_svc_def Let_def)

lemma demo_replayed: "replayed [rec_state 10, rec_state 30] [rec_driver 10, rec_driver 20] [demo_speedmap 40] =
    [ProcState (rec_state 10), ProcDriver (rec_driver 10), ProcDriver (rec_driver 20), ProcState (rec_state 30),
     ProcSpeedmap (demo_speedmap 40)]"
  by (simp add: replayed_def rec_state_def rec_driver_def demo_speedmap_def as_time_def)

lemma demo_replayable: "replayable [rec_state 10, rec_state 30] [rec_driver 10, rec_driver 20] [demo_speedmap 40]"
  unfolding replayable_def demo_replayed
  by (simp add: both_in_order in_order_def) (simp add: rec_state_def rec_driver_def demo_speedmap_def as_time_def max_time_def)

definition demo_request :: RegisterEventRequest where
  "demo_request = \<lparr>rer_Key = [], rer_Event = rec_event, rer_Track = demo_track,
     rer_RecordingMode = RECORDING_MODE_DO_NOT_PERSIST\<rparr>"


lemma replay_publish_error_hangs_witness:
  "Replay 1 0 (demo_svc [ProcDriver (rec_driver 10)]) demo_request (Some [rec_state 10, rec_state 30])
    (Some [rec_driver 10, rec_driver 20]) (Some [demo_speedmap 40]) 0 = None"
  by (rule replay_publish_error_hangs[OF demo_replayable, of "[ProcState (rec_state 10)]" "ProcDriver (rec_driver 10)"
        "[ProcDriver (rec_driver 20), ProcState (rec_state 30), ProcSpeedmap (demo_speedmap 40)]"])
    (simp_all add: demo_replayed accepts_def demo_svc_publish demo_svc_register del: publish.simps)

lemma replay_from_database_endless_witness:
  "\<forall>drepo mrepo. startReplay 1 0 True [] [] rec_events (\<lambda>_. Inr demo_track)
    (RacestateRepository mem_executor rec_codec rec_decimals rec_db) drepo mrepo (demo_svc []) 7 0 = None"
proof -
  have "\<exists>rc. LoadRange (RacestateRepository mem_executor rec_codec rec_decimals rec_db) 7 zero_time 100 = Inr rc \<and>
      rc_Data rc = [rec_state 10, rec_state 30]"
    by (simp add: RacestateRepository_def Let_def racestate_LoadRange_def load_range_def mem_executor_def mem_select_def
        join_def rec_db_def rec_info_def rec_codec_def limit_rows_def zero_time_def)
  then obtain rc where "LoadRange (RacestateRepository mem_executor rec_codec rec_decimals rec_db) 7 zero_time 100 = Inr rc"
    "rc_Data rc = [rec_state 10, rec_state 30]" by blast
  then show ?thesis
    by (intro allI replay_from_database_endless[where event = rec_event and track = demo_track and rc = rc])
      (simp_all add: rec_events_def demo_svc_register)
qed

end
