(* ===== verification/Go_Float64.thy ===== *)
theory Go_Float64
  imports Go_Float32 Complex_Main
begin

text \<open>
  The floating point arithmetic of the prediction: products and quotients of float32 values, and the quotient of two
  durations in seconds as float64, rounded up.

  A float64 is here, like a float32, an integer multiple of the smallest positive one, which is 2^-1074.  Every result is
  computed exactly and rounded to 53 (24) significant bits, ties to even.
\<close>

subsection \<open>Rounding a quotient\<close>

definition round_div :: "nat \<Rightarrow> nat \<Rightarrow> nat \<Rightarrow> nat" where
  "round_div p n d = (let e = 2 ^ (bit_length (n div d) - p) in div_half_even n (d * e) * e)"

lemma div_half_even_error:
  assumes "0 < d"
  shows "\<bar>real (div_half_even n d) * real d - real n\<bar> \<le> real d / 2"
proof -
  let ?q = "n div d" and ?r = "n mod d"
  have n: "real n = real ?q * real d + real ?r" by (metis div_mult_mod_eq of_nat_add of_nat_mult)
  have r: "real ?r < real d" using assms by simp
  consider "2 * ?r < d" | "2 * ?r = d" | "d < 2 * ?r" by linarith
  then show ?thesis
  proof cases
    case 1
    then have "2 * real ?r < real d" by (metis of_nat_less_iff of_nat_mult of_nat_numeral)
    then show ?thesis using 1 n by (simp add: div_half_even_def)
  next
    case 2
    then have "2 * real ?r = real d" by (metis of_nat_mult of_nat_numeral)
    then show ?thesis using 2 n by (auto simp: div_half_even_def Let_def algebra_simps)
  next
    case 3
    then have "real d < 2 * real ?r" by (metis of_nat_less_iff of_nat_mult of_nat_numeral)
    then show ?thesis using 3 n r by (simp add: div_half_even_def Let_def algebra_simps)
  qed
qed

text \<open>The relative error of a rounded quotient, when the exact one has the significant bits.\<close>

lemma round_div_error:
  assumes "0 < d" "2 ^ p \<le> n div d" "0 < p"
  shows "\<bar>real (round_div p n d) - real n / real d\<bar> \<le> real n / real d / 2 ^ p"
proof -
  let ?m = "n div d"
  obtain k where e: "bit_length ?m - p = k" by blast
  have m: "0 < ?m" using assms(2) by (metis gr0I not_exp_less_eq_0_int of_nat_0 power_not_zero le_zero_eq zero_neq_numeral)
  have "p + k \<le> bit_length ?m - 1 + 1"
  proof -
    have "p < bit_length ?m"
      using bit_length_bounds[OF m] assms(2) by (meson le_less_trans nat_power_less_imp_less pos2)
    then show ?thesis using e by linarith
  qed
  moreover have "2 ^ (bit_length ?m - 1) \<le> ?m" using bit_length_bounds[OF m] by blast
  moreover have "p < bit_length ?m"
    using bit_length_bounds[OF m] assms(2) by (meson le_less_trans nat_power_less_imp_less pos2)
  ultimately have "2 ^ (p + k - 1) \<le> ?m" using e by (metis (no_types, lifting) le_add_diff_inverse less_imp_le_nat)
  then have "2 ^ (p + k) \<le> 2 * ?m" using assms(3) by (metis Suc_diff_1 add_gr_0 mult_le_mono2 power_Suc)
  then have half: "(2::real) ^ p * 2 ^ k \<le> 2 * (real n / real d)"
  proof -
    assume "2 ^ (p + k) \<le> 2 * ?m"
    then have "real (2 ^ (p + k)) \<le> real (2 * ?m)" by (simp only: of_nat_le_iff)
    moreover have "real ?m \<le> real n / real d" using of_nat_div_le_of_nat by blast
    ultimately show ?thesis by (simp add: power_add)
  qed
  let ?h = "div_half_even n (d * 2 ^ k)"
  have "\<bar>real ?h * real (d * 2 ^ k) - real n\<bar> \<le> real (d * 2 ^ k) / 2"
    using assms(1) by (intro div_half_even_error) simp
  then have "\<bar>real ?h * 2 ^ k * real d - real n\<bar> \<le> real d * (2 ^ k / 2)" by (simp add: mult.assoc mult.commute)
  then have "\<bar>real ?h * 2 ^ k - real n / real d\<bar> \<le> 2 ^ k / 2"
  proof -
    assume a: "\<bar>real ?h * 2 ^ k * real d - real n\<bar> \<le> real d * (2 ^ k / 2)"
    have "real ?h * 2 ^ k * real d - real n = real d * (real ?h * 2 ^ k - real n / real d)"
      using assms(1) by (simp add: right_diff_distrib)
    then have "real d * \<bar>real ?h * 2 ^ k - real n / real d\<bar> = \<bar>real ?h * 2 ^ k * real d - real n\<bar>"
      by (simp only: abs_mult abs_of_nat)
    with a have "real d * \<bar>real ?h * 2 ^ k - real n / real d\<bar> \<le> real d * (2 ^ k / 2)" by simp
    then show ?thesis using assms(1) by (simp only: mult_le_cancel_left_pos of_nat_0_less_iff)
  qed
  also have "(2::real) ^ k / 2 \<le> real n / real d / 2 ^ p"
  proof -
    have "2 ^ k / 2 * 2 ^ p \<le> real n / real d" using half by (simp add: mult.commute)
    then show ?thesis by (simp only: pos_le_divide_eq zero_less_power zero_less_numeral)
  qed
  finally show ?thesis by (simp add: round_div_def Let_def e)
qed

subsection \<open>Durations in seconds\<close>

definition f64_unit :: nat where
  "f64_unit = 2 ^ 1074"

text \<open>Duration.Seconds of d nanoseconds, for d not negative: float64(sec) + float64(nsec)/1e9.\<close>

definition seconds_mag :: "nat \<Rightarrow> nat" where
  "seconds_mag d = round_div 53 (d div 1000000000 * f64_unit +
     round_div 53 (d mod 1000000000 * f64_unit) 1000000000) 1"

text \<open>math.Ceil(a.Seconds() / b.Seconds()), None when b is 0: the quotient is then not finite.\<close>

definition ceil_quot :: "int \<Rightarrow> int \<Rightarrow> int option" where
  "ceil_quot a b = (
     let q = round_div 53 (seconds_mag (nat \<bar>a\<bar>) * f64_unit) (seconds_mag (nat \<bar>b\<bar>)) in
     if b = 0 then None
     else if 0 < sgn a * sgn b then Some (int ((q + f64_unit - 1) div f64_unit))
     else Some (- int (q div f64_unit)))"

text \<open>The conversion to int32; outside the range Go leaves it to the machine, here that of amd64.\<close>

definition int32_of_float :: "int option \<Rightarrow> int32" where
  "int32_of_float v = (case v of
     Some n \<Rightarrow> if - (2 ^ 31) \<le> n \<and> n < 2 ^ 31 then word_of_int n else word_of_int (- (2 ^ 31))
   | None \<Rightarrow> word_of_int (- (2 ^ 31)))"

lemma f64_unit_pos [simp]: "0 < f64_unit" "real f64_unit \<noteq> 0"
  by (simp_all add: f64_unit_def)

lemma f64_unit_big: "k \<le> 1074 \<Longrightarrow> 2 ^ k \<le> f64_unit"
  unfolding f64_unit_def by (rule power_increasing) simp_all

lemma round_div_0 [simp]: "round_div p 0 d = 0"
  by (simp add: round_div_def div_half_even_def Let_def)

lemma big_quotient:
  assumes "0 < n" "0 < d" "d \<le> 2 ^ k" "k + p \<le> 1074"
  shows "2 ^ p \<le> n * f64_unit div d"
proof -
  have "2 ^ p * d \<le> 2 ^ p * 2 ^ k" using assms(3) by simp
  also have "\<dots> = 2 ^ (k + p)" by (simp add: power_add)
  also have "\<dots> \<le> f64_unit" using assms(4) by (rule f64_unit_big)
  also have "\<dots> \<le> n * f64_unit" using assms(1) by simp
  finally have "2 ^ p * d div d \<le> n * f64_unit div d" by (rule div_le_mono)
  then show ?thesis using assms(2) by simp
qed

lemma seconds_mag_error:
  "\<bar>real (seconds_mag d) - real d / 10 ^ 9 * real f64_unit\<bar> \<le> real d / 10 ^ 9 * real f64_unit / 2 ^ 51"
proof (cases "d = 0")
  case False
  let ?U = "real f64_unit" and ?s = "d div 1000000000" and ?n = "d mod 1000000000"
  define f where "f = round_div 53 (?n * f64_unit) 1000000000"
  define S where "S = ?s * f64_unit + f"
  define X where "X = real d / 10 ^ 9 * ?U"
  define N where "N = real ?n * ?U / 10 ^ 9"
  have "real d = real (?s * 1000000000 + ?n)" by (simp only: div_mult_mod_eq)
  then have split: "real d = real ?s * 10 ^ 9 + real ?n"
    by (simp only: of_nat_add of_nat_mult of_nat_numeral) simp
  have f: "\<bar>real f - N\<bar> \<le> N / 2 ^ 53"
  proof (cases "?n = 0")
    case False
    have "2 ^ 53 \<le> ?n * f64_unit div 1000000000" by (rule big_quotient[where k = 30]) (use False in simp_all)
    from round_div_error[OF _ this] show ?thesis by (simp add: f_def N_def)
  qed (simp add: f_def N_def)
  have X: "X = real ?s * ?U + N" by (simp add: X_def N_def split field_simps)
  have "0 \<le> N" by (simp add: N_def)
  then have NX: "N \<le> X" "0 \<le> X" by (simp_all add: X)
  have "real S - X = real f - N" by (simp add: S_def X)
  with f NX have S: "\<bar>real S - X\<bar> \<le> X / 2 ^ 53" by simp
  have "X / 2 ^ 53 \<le> X / 2" using NX(2) by simp
  with S have "\<bar>real S - X\<bar> \<le> X / 2" by linarith
  with NX(2) have S2: "X / 2 \<le> real S" "real S \<le> 2 * X" by (simp_all only: abs_le_iff) linarith+
  have "2 ^ 53 \<le> S div 1"
  proof -
    have "2 ^ 54 \<le> X"
    proof -
      have "(2::real) ^ 54 * 10 ^ 9 \<le> 2 ^ 1074" by simp
      also have "(2::real) ^ 1074 = ?U" by (simp add: f64_unit_def)
      also have "?U \<le> real d * ?U" using False by simp
      finally show ?thesis by (simp add: X_def field_simps)
    qed
    with S2(1) have "real (2 ^ 53) \<le> real S" by simp
    then show ?thesis by (simp only: of_nat_le_iff div_by_1)
  qed
  from round_div_error[OF _ this] have "\<bar>real (round_div 53 S 1) - real S\<bar> \<le> real S / 2 ^ 53" by simp
  with S2(2) have "\<bar>real (round_div 53 S 1) - real S\<bar> \<le> X / 2 ^ 52" by simp
  with S have "\<bar>real (round_div 53 S 1) - X\<bar> \<le> X / 2 ^ 52 + X / 2 ^ 53" by linarith
  also have "\<dots> \<le> X / 2 ^ 51" using NX(2) by simp
  finally show ?thesis by (simp add: seconds_mag_def S_def f_def X_def)
qed (simp add: seconds_mag_def)

lemma scale_error:
  fixes q r u k :: real
  assumes "\<bar>q - r * u\<bar> \<le> r * u / k" "0 < u"
  shows "\<bar>q / u - r\<bar> \<le> r / k"
proof -
  have "q / u - r = (q - r * u) / u" using assms(2) by (simp add: diff_divide_distrib)
  then have "\<bar>q / u - r\<bar> = \<bar>q - r * u\<bar> / u" using assms(2) by (simp add: abs_divide)
  also have "\<dots> \<le> r * u / k / u" using assms by (intro divide_right_mono) simp_all
  finally show ?thesis using assms(2) by simp
qed

definition seconds_real :: "nat \<Rightarrow> real" where
  "seconds_real d = real (seconds_mag d) / (real f64_unit / 10 ^ 9)"

lemma seconds_real_error: "\<bar>seconds_real d - real d\<bar> \<le> real d / 2 ^ 51"
proof -
  have "\<bar>real (seconds_mag d) - real d * (real f64_unit / 10 ^ 9)\<bar> \<le> real d * (real f64_unit / 10 ^ 9) / 2 ^ 51"
    using seconds_mag_error[of d] by simp
  moreover have "0 < real f64_unit / 10 ^ 9" by (simp add: f64_unit_def)
  ultimately show ?thesis unfolding seconds_real_def by (rule scale_error)
qed

text \<open>The number of laps is enough, and at most one too many: for durations up to six days.\<close>

lemma ceil_quot_bounds:
  assumes "0 < a" "a < 2 ^ 49" "0 < b" "b < 2 ^ 49"
  shows "\<exists>n. ceil_quot a b = Some n \<and> a \<le> n * b \<and> n * b \<le> a + b"
proof -
  let ?U = "real f64_unit"
  define x y where "x = seconds_mag (nat \<bar>a\<bar>)" and "y = seconds_mag (nat \<bar>b\<bar>)"
  define q where "q = round_div 53 (x * f64_unit) y"
  define A B where "A = real_of_int a" and "B = real_of_int b"
  have AB: "1 \<le> A" "A < 2 ^ 49" "1 \<le> B" "B < 2 ^ 49"
    using assms by (simp_all add: A_def B_def)
  have U: "2 ^ 200 \<le> ?U" 
  proof -
    have "real (2 ^ 200) \<le> real f64_unit" by (simp only: of_nat_le_iff) (rule f64_unit_big, simp)
    then show ?thesis by simp
  qed
  have nat_ab: "real (nat \<bar>a\<bar>) = A" "real (nat \<bar>b\<bar>) = B" using assms by (simp_all add: A_def B_def)
  define X Y e where "X = seconds_real (nat \<bar>a\<bar>)" and "Y = seconds_real (nat \<bar>b\<bar>)" and "e = (1::real) / 2 ^ 51"
  have XY: "\<bar>X - A\<bar> \<le> A * e" "\<bar>Y - B\<bar> \<le> B * e"
    using seconds_real_error[of "nat \<bar>a\<bar>"] seconds_real_error[of "nat \<bar>b\<bar>"] by (simp_all add: X_def Y_def e_def nat_ab)
  have "A * e \<le> A / 2" "B * e \<le> B / 2" using AB by (simp_all add: e_def)
  with XY AB have pos: "A / 2 \<le> X" "X \<le> 2 * A" "B / 2 \<le> Y" "Y \<le> 2 * B" by (simp_all only: abs_le_iff) linarith+
  then have "0 < X" "0 < Y" using AB by linarith+
  then have x: "0 < x" "0 < y" by (simp_all add: X_def Y_def x_def y_def seconds_real_def zero_less_divide_iff)
  have quot: "real x / real y = X / Y" by (simp add: X_def Y_def x_def y_def seconds_real_def)
  have "2 ^ 53 * y \<le> x * f64_unit"
  proof -
    have "Y / X \<le> 2 ^ 52"
    proof -
      have "Y \<le> 2 ^ 50" using pos(4) AB(4) by simp
      moreover have "1 / 2 \<le> X" using pos(1) AB(1) by simp
      ultimately have "Y \<le> 2 ^ 52 * X" by simp
      then show ?thesis using \<open>0 < X\<close> by (simp add: divide_le_eq)
    qed
    then have "real y / real x \<le> 2 ^ 52" using quot by (metis inverse_divide)
    then have "2 ^ 53 * (real y / real x) \<le> ?U" using U by simp
    then have "2 ^ 53 * real y \<le> real x * ?U" using x(1) by (simp add: divide_le_eq mult.commute)
    then have "real (2 ^ 53 * y) \<le> real (x * f64_unit)" by simp
    then show ?thesis by (simp only: of_nat_le_iff)
  qed
  then have "2 ^ 53 \<le> x * f64_unit div y" using x(2) by (simp add: less_eq_div_iff_mult_less_eq)
  from round_div_error[OF x(2) this] have "\<bar>real q - X / Y * ?U\<bar> \<le> X / Y * ?U / 2 ^ 53"
    by (simp add: q_def quot[symmetric])
  with scale_error[OF this] have Q: "\<bar>real q / ?U - X / Y\<bar> \<le> X / Y * (e / 4)" by (simp add: e_def)
  define Z where "Z = X / Y * B"
  have "A * (1 - 2 * e) \<le> Z" "Z \<le> A * (1 + 3 * e)"
  proof -
    have e: "0 < e" "e \<le> 1 / 8" by (simp_all add: e_def)
    have XY': "A * (1 - e) \<le> X" "X \<le> A * (1 + e)" "B * (1 - e) \<le> Y" "Y \<le> B * (1 + e)"
      using XY by (simp_all add: abs_le_iff algebra_simps)
    have "A * (1 - 2 * e) * Y \<le> A * (1 - 2 * e) * (B * (1 + e))" using XY'(4) AB e by (intro mult_left_mono) simp_all
    also have "\<dots> = A * B * (1 - e - 2 * e * e)" by (simp add: algebra_simps)
    also have "\<dots> \<le> A * B * (1 - e)" using AB e by (intro mult_left_mono) simp_all
    also have "\<dots> = A * (1 - e) * B" by simp
    also have "\<dots> \<le> X * B" using XY'(1) AB by (intro mult_right_mono) simp_all
    finally show "A * (1 - 2 * e) \<le> Z" using \<open>0 < Y\<close> by (simp add: Z_def le_divide_eq)
    have "X * B \<le> A * (1 + e) * B" using XY'(2) AB by (intro mult_right_mono) simp_all
    also have "\<dots> = A * B * (1 + e)" by simp
    also have "\<dots> \<le> A * B * (1 + 2 * e - 3 * e * e)"
    proof (intro mult_left_mono)
      have "3 * e * e \<le> 1 * e" using e by (intro mult_right_mono) simp_all
      then show "1 + e \<le> 1 + 2 * e - 3 * e * e" by simp
    qed (use AB in simp)
    also have "\<dots> = A * (1 + 3 * e) * (B * (1 - e))" by (simp add: algebra_simps)
    also have "\<dots> \<le> A * (1 + 3 * e) * Y" using XY'(3) AB e by (intro mult_left_mono) simp_all
    finally show "Z \<le> A * (1 + 3 * e)" using \<open>0 < Y\<close> by (simp add: Z_def divide_le_eq)
  qed
  note Z = this
  have "\<bar>real q / ?U - X / Y\<bar> * B \<le> X / Y * (e / 4) * B" using Q AB by (intro mult_right_mono) simp_all
  moreover have "\<bar>real q / ?U - X / Y\<bar> * B = \<bar>real q / ?U * B - Z\<bar>"
  proof -
    have "\<bar>real q / ?U - X / Y\<bar> * B = \<bar>(real q / ?U - X / Y) * B\<bar>" using AB by (simp add: abs_mult)
    then show ?thesis unfolding Z_def by (simp only: left_diff_distrib)
  qed
  ultimately have QB: "\<bar>real q / ?U * B - Z\<bar> \<le> Z * (e / 4)" by (simp add: Z_def mult.commute mult.left_commute)
  have small: "4 * (A * e) < 1" using AB by (simp add: e_def)
  have "Z * (e / 4) \<le> 2 * A * (e / 4)"
    by (rule mult_right_mono) (use Z(2) small AB in \<open>simp_all add: e_def algebra_simps\<close>)
  then have Ze: "Z * (e / 4) \<le> A * e / 2" by simp
  have Z': "A - 2 * (A * e) \<le> Z" "Z \<le> A + 3 * (A * e)" using Z by (simp_all add: algebra_simps)
  have "real q / ?U * B - Z \<le> A * e / 2" "Z - real q / ?U * B \<le> A * e / 2" using QB Ze by linarith+
  with Z' small AB have QB2: "A - 1 < real q / ?U * B" "real q / ?U * B < A + 1" by linarith+
  define n where "n = (q + f64_unit - 1) div f64_unit"
  have "n * f64_unit \<le> q + f64_unit - 1" "q + f64_unit - 1 < n * f64_unit + f64_unit"
    using div_times_less_eq_dividend[of "q + f64_unit - 1" f64_unit] dividend_less_div_times[OF f64_unit_pos(1), of "q + f64_unit - 1"]
    by (simp_all add: n_def)
  then have "q \<le> n * f64_unit" "n * f64_unit < q + f64_unit" using f64_unit_pos(1) by linarith+
  then have "real q \<le> real (n * f64_unit)" "real (n * f64_unit) < real (q + f64_unit)" by (simp_all only: of_nat_le_iff of_nat_less_iff)
  then have "real q / ?U \<le> real n" "real n < real q / ?U + 1"
    using U by (simp_all add: divide_le_eq) (simp add: field_simps)
  then have "real q / ?U * B \<le> real n * B" "real n * B \<le> (real q / ?U + 1) * B"
    using AB by (intro mult_right_mono; simp)+
  with QB2 have "A - 1 < real n * B" "real n * B < A + B + 1" by (simp_all add: distrib_right)
  then have "a - 1 < int n * b" "int n * b < a + b + 1"
    unfolding A_def B_def by (metis (mono_tags) of_int_1 of_int_add of_int_diff of_int_less_iff of_int_mult of_int_of_nat_eq)+
  moreover have "ceil_quot a b = Some (int n)"
    using assms by (simp add: ceil_quot_def n_def q_def x_def y_def Let_def sgn_if)
  ultimately show ?thesis by (intro exI[of _ "int n"]) simp
qed

subsection \<open>Evaluation\<close>

text \<open>The quotients are rounded alike in any unit that leaves enough digits, so that small numbers do.\<close>

lemma bit_length_eq:
  assumes "2 ^ k \<le> n" "n < 2 ^ Suc k"
  shows "bit_length n = Suc k"
proof -
  have "0 < n" using assms(1) by (metis less_le_trans pos2 zero_less_power)
  then have "2 ^ k < (2 :: nat) ^ bit_length n" using bit_length_bounds[of n] assms(1) by linarith
  then have "k < bit_length n" by simp
  with bit_length_le[OF assms(2)] show ?thesis by simp
qed

lemma div_half_even_scale: "0 < c \<Longrightarrow> div_half_even (n * c) (d * c) = div_half_even n d"
  by (simp add: div_half_even_def Let_def flip: mult_mod_left)

lemma round_div_scale:
  assumes "p \<le> bit_length (n div d)" "0 < n div d"
  shows "round_div p (n * 2 ^ i) d = round_div p n d * 2 ^ i"
proof -
  let ?m = "n div d"
  have d: "0 < d" using assms(2) by (cases "d = 0") simp_all
  obtain b where b: "bit_length ?m = Suc b" "2 ^ b \<le> ?m" "?m < 2 ^ Suc b"
    using bit_length_bounds[OF assms(2)] by (cases "bit_length ?m") auto
  have "2 ^ (b + i) * d \<le> n * 2 ^ i"
    using b(2) by (simp add: power_add less_eq_div_iff_mult_less_eq[OF d] mult.commute mult.left_commute)
  then have 1: "2 ^ (b + i) \<le> n * 2 ^ i div d" by (simp add: less_eq_div_iff_mult_less_eq[OF d])
  have "n * 2 ^ i < 2 ^ Suc (b + i) * d"
    using b(3) by (simp add: power_add div_less_iff_less_mult[OF d] mult.commute mult.left_commute)
  then have "n * 2 ^ i div d < 2 ^ Suc (b + i)" by (simp add: div_less_iff_less_mult[OF d])
  from bit_length_eq[OF 1 this] have "bit_length (n * 2 ^ i div d) - p = (bit_length ?m - p) + i"
    using assms(1) b(1) by simp
  then show ?thesis
    using div_half_even_scale[of "2 ^ i" n "d * 2 ^ (bit_length ?m - p)"]
    by (simp add: round_div_def Let_def power_add mult.assoc mult.commute mult.left_commute)
qed

lemma round_div_eval:
  "bit_length (n div d) = b \<Longrightarrow> b = p + e \<Longrightarrow> div_half_even n (d * 2 ^ e) = q \<Longrightarrow> round_div p n d = q * 2 ^ e"
  by (simp add: round_div_def Let_def)

lemma round_div_common: "0 < c \<Longrightarrow> round_div p (n * c) (d * c) = round_div p n d"
  using div_half_even_scale[of c n "d * 2 ^ (bit_length (n div d) - p)"]
  by (simp add: round_div_def Let_def ac_simps)

lemma seconds_mag_scaled:
  assumes "round_div 53 (d mod 1000000000 * 2 ^ 100) 1000000000 = A" "53 \<le> bit_length (d mod 1000000000 * 2 ^ 100 div 1000000000)"
    "round_div 53 (d div 1000000000 * 2 ^ 100 + A) 1 = B" "53 \<le> bit_length ((d div 1000000000 * 2 ^ 100 + A) div 1)"
  shows "seconds_mag d = B * 2 ^ 974"
proof -
  have unit: "f64_unit = 2 ^ 100 * 2 ^ 974" by (simp only: f64_unit_def flip: power_add) simp
  have "0 < n" if "53 \<le> bit_length n" for n using that by (cases "n = 0") (simp_all add: bit_length.simps)
  with round_div_scale[of 53 "d mod 1000000000 * 2 ^ 100" 1000000000 974] assms(1,2)
  have "round_div 53 (d mod 1000000000 * f64_unit) 1000000000 = A * 2 ^ 974" by (simp only: unit mult.assoc)
  then have "seconds_mag d = round_div 53 ((d div 1000000000 * 2 ^ 100 + A) * 2 ^ 974) 1"
    by (simp only: seconds_mag_def unit distrib_right mult.assoc)
  also have "\<dots> = B * 2 ^ 974"
    using round_div_scale[OF assms(4), of 974] \<open>\<And>n. 53 \<le> bit_length n \<Longrightarrow> 0 < n\<close>[OF assms(4)] assms(3) by simp
  finally show ?thesis .
qed

lemma ceil_quot_scaled:
  assumes "0 < a" "0 < b" "seconds_mag (nat a) = A * 2 ^ 974" "seconds_mag (nat b) = B * 2 ^ 974"
    "round_div 53 (A * 2 ^ 100) B = Q" "53 \<le> bit_length (A * 2 ^ 100 div B)"
  shows "ceil_quot a b = Some (int ((Q + 2 ^ 100 - 1) div 2 ^ 100))"
proof -
  let ?c = "2 ^ 974 :: nat"
  have unit: "f64_unit = 2 ^ 100 * ?c" by (simp only: f64_unit_def flip: power_add) simp
  have pos: "0 < A * 2 ^ 100 div B" using assms(6) by (cases "A * 2 ^ 100 div B = 0") (simp_all add: bit_length.simps)
  have "A * ?c * f64_unit = A * 2 ^ 100 * ?c * ?c" by (simp only: unit ac_simps)
  then have "round_div 53 (A * ?c * f64_unit) (B * ?c) = round_div 53 (A * 2 ^ 100 * ?c) B"
    using round_div_common[of ?c 53 "A * 2 ^ 100 * ?c" B] by (simp only: zero_less_power pos2 simp_thms)
  also have "\<dots> = Q * ?c" using round_div_scale[OF assms(6) pos, of 974] assms(5) by simp
  finally have "ceil_quot a b = Some (int ((Q * ?c + f64_unit - 1) div f64_unit))"
    using assms(1,2) by (simp add: ceil_quot_def Let_def assms(3,4) sgn_if)
  also have "(Q * ?c + f64_unit - 1) div f64_unit = ((Q + 2 ^ 100 - 1) * ?c + (?c - 1)) div (2 ^ 100 * ?c)"
    unfolding unit by (intro arg_cong2[of _ _ _ _ "(div)"] refl) (simp add: algebra_simps diff_mult_distrib)
  also have "\<dots> = (Q + 2 ^ 100 - 1) div 2 ^ 100"
    by (simp add: div_mult2_eq mult.commute[of "2 ^ 100"])
  finally show ?thesis .
qed
end
