(* ===== verification/Race_Stints.thy ===== *)
theory Race_Stints
  imports Messages Go_Float64
begin

text \<open>
  The prediction of the stints and pit stops of a car until the end of the race, pkg/grpc/racestints/racestints_grpc.go.

  A duration is its number of nanoseconds, an int64: sums and products wrap around (i64).  A Duration message is what
  AsDuration reads from it, with None for a nil message; durationpb.New and AsDuration are inverse to each other on
  durations.  A nil dereference is None, as is a computation that does not end.
\<close>

subsection \<open>Messages\<close>

definition i64 :: "int \<Rightarrow> int" where
  "i64 n = (n + 2 ^ 63) mod 2 ^ 64 - 2 ^ 63"

definition AsDuration :: "int option \<Rightarrow> int" where
  "AsDuration d = (case d of None \<Rightarrow> 0 | Some n \<Rightarrow> n)"

record RaceParam =
  rp_Duration :: "int option"
  rp_Lc :: int32
  rp_Session :: "int option"

record StintParam =
  sp_AvgLaptime :: "int option"
  sp_Lps :: int32

record PitParam =
  pp_Overall :: "int option"
  pp_Lane :: "int option"

record CarParam =
  car_CurrentTrackPos :: f32
  car_InPit :: bool
  car_ParamStintLap :: int32
  car_RemainLapTime :: "int option"

record PredictParam =
  prm_Race :: "RaceParam option"
  prm_Stint :: "StintParam option"
  prm_Pit :: "PitParam option"
  prm_Car :: "CarParam option"

datatype PartType = Part_Stint (pt_Laps: int32) (pt_LapStart: int32) (pt_LapEnd: int32) | Part_Pit

record Part =
  part_Start :: int
  part_End :: int
  part_Duration :: int
  part_Type :: PartType

subsection \<open>Parts\<close>

text \<open>The variables of Calc that stay the same; the parts are appended to a list that is passed along.\<close>

record calc =
  c_avgLap :: int
  c_stintTime :: int
  c_pitTime :: int
  c_lps :: int32
  c_duration :: int
  c_sessionOffset :: int

definition createPart :: "calc \<Rightarrow> int \<Rightarrow> int \<Rightarrow> PartType \<Rightarrow> Part" where
  "createPart c start duration ty = \<lparr>part_Start = i64 (start + c_sessionOffset c),
     part_End = i64 (i64 (start + c_sessionOffset c) + duration), part_Duration = duration, part_Type = ty\<rparr>"

definition createStint :: "calc \<Rightarrow> int \<Rightarrow> int32 \<Rightarrow> int32 \<Rightarrow> Part" where
  "createStint c start laps startLap =
     createPart c start (i64 (sint laps * c_avgLap c)) (Part_Stint laps startLap (startLap + laps - 1))"

definition createPit :: "calc \<Rightarrow> int \<Rightarrow> int \<Rightarrow> Part" where
  "createPit c start pitTime = createPart c start pitTime Part_Pit"

definition addStint :: "calc \<Rightarrow> int \<Rightarrow> int32 \<Rightarrow> int32 \<Rightarrow> Part list \<Rightarrow> int \<times> Part list" where
  "addStint c start laps startLap parts = (let p = createStint c start laps startLap in
     (i64 (start + part_Duration p), parts @ [p]))"

definition addPitstop :: "calc \<Rightarrow> int \<Rightarrow> int \<Rightarrow> Part list \<Rightarrow> int \<times> Part list" where
  "addPitstop c start pitTime parts = (let p = createPit c start pitTime in
     (i64 (start + part_Duration p), parts @ [p]))"

subsection \<open>Calc\<close>

text \<open>int32(math.Ceil(d.Seconds() / avgLap.Seconds()))\<close>

definition laps_in :: "int \<Rightarrow> calc \<Rightarrow> int32" where
  "laps_in d c = int32_of_float (ceil_quot d (c_avgLap c))"

text \<open>The loop to the end of the race.\<close>

partial_function (option) calc_loop :: "calc \<Rightarrow> int \<Rightarrow> int32 \<Rightarrow> Part list \<Rightarrow> Part list run" where
  "calc_loop c curDur curLap parts = (
     if \<not> curDur < c_duration c then Some parts
     else if i64 (curDur + c_stintTime c) < c_duration c then
       (let (curDur, parts) = addStint c curDur (c_lps c) curLap parts;
            (curDur, parts) = addPitstop c curDur (c_pitTime c) parts;
            curLap = curLap + c_lps c;
            (curDur, parts) = (if c_duration c \<le> curDur then addStint c curDur 1 curLap parts else (curDur, parts))
        in calc_loop c curDur curLap parts)
     else
       (let laps = laps_in (i64 (c_duration c - curDur)) c;
            (curDur, parts) = addStint c curDur laps curLap parts
        in calc_loop c curDur curLap parts))"

text \<open>The stint the car is in, when it is not in the pits.\<close>

definition calc_current :: "calc \<Rightarrow> CarParam \<Rightarrow> int \<Rightarrow> int32 \<Rightarrow> Part list run" where
  "calc_current c car curDur curLap = (
     let remain = c_lps c - car_ParamStintLap car in
     if 0 <s remain then
       if i64 (curDur + i64 (sint remain * c_avgLap c)) < c_duration c then
         (let (curDur, parts) = addStint c curDur remain curLap [];
              (curDur, parts) = addPitstop c curDur (c_pitTime c) parts
          in calc_loop c curDur (curLap + remain) parts)
       else
         (let remain = laps_in (i64 (c_duration c - curDur)) c in
          if remain = 0 then Some [] else Some (snd (addStint c curDur remain curLap [])))
     else
       (let (curDur, parts) = addPitstop c curDur (c_pitTime c) [] in
        if c_duration c \<le> curDur then Some (snd (addStint c curDur 1 curLap parts))
        else calc_loop c curDur curLap parts))"

definition Calc :: "PredictParam \<Rightarrow> Part list run" where
  "Calc p = do {
     stint \<leftarrow> prm_Stint p;
     pit \<leftarrow> prm_Pit p;
     race \<leftarrow> prm_Race p;
     car \<leftarrow> prm_Car p;
     (let avgLap = AsDuration (sp_AvgLaptime stint);
          raceStarted = (rp_Lc race \<noteq> 0 \<or> car_ParamStintLap car \<noteq> 0);
          curLap = (if raceStarted then rp_Lc race + 2 else 1);
          c = \<lparr>c_avgLap = avgLap, c_stintTime = i64 (avgLap * sint (sp_Lps stint)), c_pitTime = AsDuration (pp_Overall pit),
               c_lps = sp_Lps stint, c_duration = AsDuration (rp_Duration race),
               c_sessionOffset = AsDuration (rp_Session race)\<rparr>
      in if car_InPit car then calc_loop c 0 curLap []
         else if car_RemainLapTime car \<noteq> None \<and> raceStarted then
           calc_current (if rp_Lc race = 0 then c\<lparr>c_sessionOffset := 0\<rparr> else c) car
             (if 0 < AsDuration (car_RemainLapTime car) then AsDuration (car_RemainLapTime car) else avgLap) curLap
         else calc_current c car 0 curLap)
   }"

end
