(* ===== verification/Race_Stints_Properties.thy ===== *)
theory Race_Stints_Properties
  imports Race_Stints
begin

text \<open>
  The prediction ends, and its parts are a timeline from now to the end of the race: without gaps, stints and pit stops in
  turn, laps numbered one after the other.
\<close>

subsection \<open>Arithmetic without wrap-around\<close>

lemma i64_id: "- (2 ^ 63) \<le> n \<Longrightarrow> n < 2 ^ 63 \<Longrightarrow> i64 n = n"
  by (simp add: i64_def)

lemma sint_int32: "- (2 ^ 31) \<le> n \<Longrightarrow> n < 2 ^ 31 \<Longrightarrow> sint (word_of_int n :: int32) = n"
  by (simp add: int_word_sint)

lemma sint_plus32:
  assumes "- (2 ^ 31) \<le> sint x + sint y" "sint x + sint y < 2 ^ 31"
  shows "sint (x + y :: int32) = sint x + sint y"
proof -
  have "x + y = word_of_int (sint x + sint y)" by simp
  then show ?thesis using sint_int32[OF assms] by simp
qed

lemma sint_minus32:
  assumes "- (2 ^ 31) \<le> sint x - sint y" "sint x - sint y < 2 ^ 31"
  shows "sint (x - y :: int32) = sint x - sint y"
proof -
  have "x - y = word_of_int (sint x - sint y)" by simp
  then show ?thesis using sint_int32[OF assms] by simp
qed

subsection \<open>Timelines\<close>

text \<open>The parts follow each other without a gap, from t to t' of the race.\<close>

fun timeline :: "int \<Rightarrow> int \<Rightarrow> Part list \<Rightarrow> int \<Rightarrow> bool" where
  "timeline off t [] t' \<longleftrightarrow> t = t'"
| "timeline off t (p # ps) t' \<longleftrightarrow> part_Start p = t + off \<and> part_End p = part_Start p + part_Duration p \<and>
     0 \<le> part_Duration p \<and> timeline off (t + part_Duration p) ps t'"

text \<open>The laps of the stints are numbered from l on, up to l' - 1.\<close>

fun laps_numbered :: "int \<Rightarrow> Part list \<Rightarrow> int \<Rightarrow> bool" where
  "laps_numbered l [] l' \<longleftrightarrow> l = l'"
| "laps_numbered l (p # ps) l' \<longleftrightarrow> (case part_Type p of
     Part_Pit \<Rightarrow> laps_numbered l ps l'
   | Part_Stint n a b \<Rightarrow> 1 \<le> sint n \<and> sint a = l \<and> sint b = l + sint n - 1 \<and> laps_numbered (l + sint n) ps l')"

text \<open>Stints and pit stops in turn, pit telling whether the first is a pit stop; fin asks the last one to be a stint.\<close>

fun in_turn :: "bool \<Rightarrow> bool \<Rightarrow> Part list \<Rightarrow> bool" where
  "in_turn fin pit [] \<longleftrightarrow> (fin \<longrightarrow> pit)"
| "in_turn fin pit (p # ps) \<longleftrightarrow> (part_Type p = Part_Pit) = pit \<and> in_turn fin (\<not> pit) ps"

text \<open>No stint is longer than the fuel lasts, but for one lap.\<close>

definition stints_within :: "int \<Rightarrow> Part list \<Rightarrow> bool" where
  "stints_within n ps \<longleftrightarrow> (\<forall>p \<in> set ps. part_Type p \<noteq> Part_Pit \<longrightarrow> sint (pt_Laps (part_Type p)) \<le> n)"

definition plan :: "calc \<Rightarrow> bool \<Rightarrow> bool \<Rightarrow> int \<Rightarrow> int \<Rightarrow> Part list \<Rightarrow> bool" where
  "plan c fin pit t l ps \<longleftrightarrow> (\<exists>t' l'. timeline (c_sessionOffset c) t ps t' \<and> laps_numbered l ps l' \<and> c_duration c \<le> t') \<and>
     in_turn fin pit ps \<and> stints_within (sint (c_lps c) + 1) ps"

lemma plan_stint:
  assumes "part_Start p = t + c_sessionOffset c" "part_End p = part_Start p + part_Duration p" "0 \<le> part_Duration p"
    "part_Type p = Part_Stint n a b" "1 \<le> sint n" "sint n \<le> sint (c_lps c) + 1" "sint a = l" "sint b = l + sint n - 1"
    "plan c fin True (t + part_Duration p) (l + sint n) ps"
  shows "plan c fin False t l (p # ps)"
  using assms by (fastforce simp: plan_def stints_within_def)

lemma plan_pit:
  assumes "part_Start p = t + c_sessionOffset c" "part_End p = part_Start p + part_Duration p" "0 \<le> part_Duration p"
    "part_Type p = Part_Pit" "plan c fin False (t + part_Duration p) l ps"
  shows "plan c fin True t l (p # ps)"
  using assms by (fastforce simp: plan_def stints_within_def)

lemma plan_done: "c_duration c \<le> t \<Longrightarrow> plan c fin True t l []"
  by (simp add: plan_def stints_within_def)

subsection \<open>Parameters in range\<close>

text \<open>Lap times, stints and the race are positive and below three days, and the race has less than 2^29 laps.\<close>

definition calc_ok :: "calc \<Rightarrow> bool" where
  "calc_ok c \<longleftrightarrow> 0 < c_avgLap c \<and> 0 < sint (c_lps c) \<and> c_stintTime c = c_avgLap c * sint (c_lps c) \<and>
     c_stintTime c < 2 ^ 48 \<and> 0 \<le> c_pitTime c \<and> c_pitTime c < 2 ^ 48 \<and> c_duration c < 2 ^ 48 \<and>
     c_duration c < c_avgLap c * 2 ^ 29 \<and> 0 \<le> c_sessionOffset c \<and> c_sessionOffset c < 2 ^ 48"

lemma calc_ok_avgLap: "calc_ok c \<Longrightarrow> c_avgLap c < 2 ^ 48"
proof -
  assume c: "calc_ok c"
  then have "c_avgLap c * 1 \<le> c_avgLap c * sint (c_lps c)" by (intro mult_left_mono) (auto simp: calc_ok_def)
  with c show ?thesis unfolding calc_ok_def by linarith
qed

text \<open>A part that is appended, when nothing wraps around.\<close>

lemma addStint_ok:
  assumes "calc_ok c" "0 \<le> t" "t < 2 ^ 50" "1 \<le> sint laps" "sint laps * c_avgLap c < 2 ^ 50"
  shows "addStint c t laps l parts = (t + sint laps * c_avgLap c, parts @ [createStint c t laps l])"
    "part_Start (createStint c t laps l) = t + c_sessionOffset c"
    "part_End (createStint c t laps l) = part_Start (createStint c t laps l) + part_Duration (createStint c t laps l)"
    "part_Duration (createStint c t laps l) = sint laps * c_avgLap c" "0 \<le> sint laps * c_avgLap c"
    "part_Type (createStint c t laps l) = Part_Stint laps l (l + laps - 1)"
proof -
  show pos: "0 \<le> sint laps * c_avgLap c" using assms by (auto simp: calc_ok_def)
  have off: "0 \<le> c_sessionOffset c" "c_sessionOffset c < 2 ^ 48" using assms(1) by (simp_all add: calc_ok_def)
  have "i64 (sint laps * c_avgLap c) = sint laps * c_avgLap c" "i64 (t + sint laps * c_avgLap c) = t + sint laps * c_avgLap c"
    "i64 (t + c_sessionOffset c) = t + c_sessionOffset c"
    "i64 (t + c_sessionOffset c + sint laps * c_avgLap c) = t + c_sessionOffset c + sint laps * c_avgLap c"
    by (rule i64_id; use pos off assms in simp)+
  then show "addStint c t laps l parts = (t + sint laps * c_avgLap c, parts @ [createStint c t laps l])"
    "part_Start (createStint c t laps l) = t + c_sessionOffset c"
    "part_End (createStint c t laps l) = part_Start (createStint c t laps l) + part_Duration (createStint c t laps l)"
    "part_Duration (createStint c t laps l) = sint laps * c_avgLap c"
    "part_Type (createStint c t laps l) = Part_Stint laps l (l + laps - 1)"
    by (simp_all add: addStint_def createStint_def createPart_def Let_def)
qed

lemma addPitstop_ok:
  assumes "calc_ok c" "0 \<le> t" "t < 2 ^ 51"
  shows "addPitstop c t (c_pitTime c) parts = (t + c_pitTime c, parts @ [createPit c t (c_pitTime c)])"
    "part_Start (createPit c t (c_pitTime c)) = t + c_sessionOffset c"
    "part_End (createPit c t (c_pitTime c)) = part_Start (createPit c t (c_pitTime c)) + part_Duration (createPit c t (c_pitTime c))"
    "part_Duration (createPit c t (c_pitTime c)) = c_pitTime c" "part_Type (createPit c t (c_pitTime c)) = Part_Pit"
proof -
  have off: "0 \<le> c_sessionOffset c" "c_sessionOffset c < 2 ^ 48" "0 \<le> c_pitTime c" "c_pitTime c < 2 ^ 48"
    using assms(1) by (simp_all add: calc_ok_def)
  have "i64 (t + c_pitTime c) = t + c_pitTime c" "i64 (t + c_sessionOffset c) = t + c_sessionOffset c"
    "i64 (t + c_sessionOffset c + c_pitTime c) = t + c_sessionOffset c + c_pitTime c"
    by (rule i64_id; use off assms in simp)+
  then show "addPitstop c t (c_pitTime c) parts = (t + c_pitTime c, parts @ [createPit c t (c_pitTime c)])"
    "part_Start (createPit c t (c_pitTime c)) = t + c_sessionOffset c"
    "part_End (createPit c t (c_pitTime c)) = part_Start (createPit c t (c_pitTime c)) + part_Duration (createPit c t (c_pitTime c))"
    "part_Duration (createPit c t (c_pitTime c)) = c_pitTime c" "part_Type (createPit c t (c_pitTime c)) = Part_Pit"
    by (simp_all add: addPitstop_def createPit_def createPart_def Let_def)
qed

text \<open>The laps to the end of the race.\<close>

lemma laps_in_ok:
  assumes "calc_ok c" "0 < d" "d \<le> c_duration c"
  shows "d \<le> sint (laps_in d c) * c_avgLap c" "sint (laps_in d c) * c_avgLap c \<le> d + c_avgLap c"
    "1 \<le> sint (laps_in d c)" "sint (laps_in d c) \<le> 2 ^ 29 + 1"
proof -
  have avg: "0 < c_avgLap c" "c_avgLap c < 2 ^ 48" "d < 2 ^ 48" "d < c_avgLap c * 2 ^ 29"
    using assms calc_ok_avgLap[OF assms(1)] by (simp_all add: calc_ok_def)
  obtain n where n: "ceil_quot d (c_avgLap c) = Some n" "d \<le> n * c_avgLap c" "n * c_avgLap c \<le> d + c_avgLap c"
    using ceil_quot_bounds[of d "c_avgLap c"] assms(2) avg by auto
  have "0 < n * c_avgLap c" using n(2) assms(2) by linarith
  then have n1: "1 \<le> n" using avg(1) by (simp add: zero_less_mult_iff)
  have "n * c_avgLap c \<le> (2 ^ 29 + 1) * c_avgLap c" using n(3) avg(4) by (simp add: distrib_right mult.commute)
  then have n2: "n \<le> 2 ^ 29 + 1" using avg(1) by simp
  have "sint (laps_in d c) = n" using n(1) n1 n2 by (simp add: laps_in_def int32_of_float_def sint_int32)
  with n n1 n2 show "d \<le> sint (laps_in d c) * c_avgLap c" "sint (laps_in d c) * c_avgLap c \<le> d + c_avgLap c"
    "1 \<le> sint (laps_in d c)" "sint (laps_in d c) \<le> 2 ^ 29 + 1" by simp_all
qed

subsection \<open>The loop\<close>

lemma calc_loop_done: "c_duration c \<le> t \<Longrightarrow> calc_loop c t l parts = Some parts"
  by (subst calc_loop.simps) simp

text \<open>The number of the lap is bounded by the time that has gone.\<close>

definition lap_bound :: "calc \<Rightarrow> int \<Rightarrow> int32 \<Rightarrow> bool" where
  "lap_bound c t l \<longleftrightarrow> 1 \<le> sint l \<and> (sint l - 2 ^ 29) * c_avgLap c \<le> t"

lemma lap_bound_add:
  assumes "calc_ok c" "lap_bound c t l" "1 \<le> sint n" "t + sint n * c_avgLap c < c_duration c"
  shows "sint (l + n) = sint l + sint n" "lap_bound c (t + sint n * c_avgLap c) (l + n)"
proof -
  have avg: "0 < c_avgLap c" "c_duration c < c_avgLap c * 2 ^ 29" using assms(1) by (simp_all add: calc_ok_def)
  have "(sint l + sint n - 2 ^ 29) * c_avgLap c \<le> t + sint n * c_avgLap c"
    using assms(2) by (simp add: lap_bound_def algebra_simps)
  also have "\<dots> < 2 ^ 29 * c_avgLap c" using assms(4) avg(2) by (simp add: mult.commute)
  finally have "sint l + sint n - 2 ^ 29 < 2 ^ 29" using avg(1) by simp
  then show "sint (l + n) = sint l + sint n" using assms(2,3) by (intro sint_plus32) (simp_all add: lap_bound_def)
  then show "lap_bound c (t + sint n * c_avgLap c) (l + n)"
    using assms(2,3) by (simp add: lap_bound_def algebra_simps)
qed

lemma lap_end:
  assumes "calc_ok c" "lap_bound c t l" "t \<le> c_duration c" "1 \<le> sint n" "sint n \<le> 2 ^ 29 + 1"
  shows "sint (l + n - 1) = sint l + sint n - 1"
proof -
  have avg: "0 < c_avgLap c" "c_duration c < c_avgLap c * 2 ^ 29" using assms(1) by (simp_all add: calc_ok_def)
  have "(sint l - 2 ^ 29) * c_avgLap c < 2 ^ 29 * c_avgLap c"
    using assms(2,3) avg(2) by (simp add: lap_bound_def mult.commute)
  then have "sint l < 2 ^ 30" using avg(1) by simp
  then have "sint (l + n) = sint l + sint n" using assms(2,4,5) by (intro sint_plus32) (simp_all add: lap_bound_def)
  then show ?thesis using assms(2,4,5) \<open>sint l < 2 ^ 30\<close> by (subst sint_minus32) (simp_all add: lap_bound_def)
qed

text \<open>The last stint, when the race is over before the tank is empty.\<close>

lemma last_stint:
  assumes "calc_ok c" "0 \<le> t" "t < c_duration c" "lap_bound c t l" "c_duration c - t \<le> n * c_avgLap c" "0 < n" "n \<le> sint (c_lps c)"
  shows "\<exists>q. addStint c t (laps_in (i64 (c_duration c - t)) c) l parts = (t + part_Duration q, parts @ [q]) \<and>
    c_duration c \<le> t + part_Duration q \<and> plan c True False t (sint l) [q]"
proof -
  let ?n = "laps_in (c_duration c - t) c"
  have avg: "0 < c_avgLap c" "c_avgLap c < 2 ^ 48" "c_duration c < 2 ^ 48"
    using assms(1) calc_ok_avgLap by (simp_all add: calc_ok_def)
  have i64: "i64 (c_duration c - t) = c_duration c - t" by (rule i64_id) (use assms(2,3) avg(3) in simp_all)
  note laps = laps_in_ok[OF assms(1), of "c_duration c - t"]
  have n: "c_duration c \<le> t + sint ?n * c_avgLap c" "sint ?n * c_avgLap c \<le> c_duration c - t + c_avgLap c"
    "1 \<le> sint ?n" "sint ?n \<le> 2 ^ 29 + 1" using laps assms(2,3) by simp_all
  have "sint ?n * c_avgLap c \<le> (n + 1) * c_avgLap c" using n(2) assms(5) by (simp add: distrib_right)
  then have few: "sint ?n \<le> sint (c_lps c) + 1" using avg(1) assms(7) by simp
  have "sint ?n * c_avgLap c < 2 ^ 50" using n(2) avg assms(2) by simp
  note part = addStint_ok[OF assms(1,2) _ n(3) this]
  have "plan c True False t (sint l) [createStint c t ?n l]"
    using part(2-6) n few avg assms(3) lap_end[OF assms(1,4) _ n(3,4)]
    by (intro plan_stint[of _ t c ?n l "l + ?n - 1"] plan_done) auto
  with part(1,4) n(1) avg assms(3) show ?thesis unfolding i64 by (intro exI[of _ "createStint c t ?n l"]) auto
qed

lemma one_lap_stint:
  assumes "calc_ok c" "0 \<le> t" "t < 2 ^ 50" "1 \<le> sint l" "sint l < 2 ^ 30" "c_duration c \<le> t"
  shows "\<exists>q. addStint c t 1 l parts = (t + part_Duration q, parts @ [q]) \<and> plan c True False t (sint l) [q] \<and>
    0 \<le> part_Duration q"
proof -
  have avg: "0 < c_avgLap c" "c_avgLap c < 2 ^ 48" "0 < sint (c_lps c)"
    using assms(1) calc_ok_avgLap by (simp_all add: calc_ok_def)
  have one: "1 \<le> sint (1 :: int32)" "sint (1 :: int32) * c_avgLap c < 2 ^ 50" using avg by simp_all
  note part = addStint_ok[OF assms(1-3) one]
  have "plan c True False t (sint l) [createStint c t 1 l]"
    using part(2-6) avg assms(4-6) by (intro plan_stint[of _ t c 1 l "l + 1 - 1"] plan_done) auto
  with part(1,4,5) show ?thesis by (intro exI[of _ "createStint c t 1 l"]) auto
qed

lemma lap_bound_small:
  assumes "calc_ok c" "lap_bound c t l" "t < c_duration c"
  shows "sint l < 2 ^ 30"
proof -
  have avg: "0 < c_avgLap c" "c_duration c < c_avgLap c * 2 ^ 29" using assms(1) by (simp_all add: calc_ok_def)
  have "(sint l - 2 ^ 29) * c_avgLap c < 2 ^ 29 * c_avgLap c"
    using assms(2,3) avg(2) by (simp add: lap_bound_def mult.commute)
  then show ?thesis using avg(1) by simp
qed

text \<open>A full stint and the pit stop after it; the race may end in the pits.\<close>

lemma stint_and_pit:
  assumes "calc_ok c" "0 \<le> t" "lap_bound c t l" "1 \<le> sint n" "sint n \<le> sint (c_lps c)" "t + sint n * c_avgLap c < c_duration c"
  shows "\<exists>q r. addStint c t n l parts = (t + sint n * c_avgLap c, parts @ [q]) \<and>
    addPitstop c (t + sint n * c_avgLap c) (c_pitTime c) (parts @ [q]) = (t + sint n * c_avgLap c + c_pitTime c, parts @ [q, r]) \<and>
    (\<forall>fin qs. plan c fin False (t + sint n * c_avgLap c + c_pitTime c) (sint l + sint n) qs \<longrightarrow> plan c fin False t (sint l) (q # r # qs)) \<and>
    (\<forall>fin qs. plan c fin False (t + sint n * c_avgLap c + c_pitTime c) (sint l + sint n) qs \<longrightarrow>
      plan c fin True (t + sint n * c_avgLap c) (sint l + sint n) (r # qs))"
proof -
  let ?t = "t + sint n * c_avgLap c"
  have c: "0 < c_avgLap c" "c_duration c < 2 ^ 48" "0 \<le> c_pitTime c" using assms(1) by (simp_all add: calc_ok_def)
  have "0 \<le> sint n * c_avgLap c" using assms(4) c(1) by simp
  then have t: "t < 2 ^ 50" "0 \<le> ?t" "?t < 2 ^ 51" "sint n * c_avgLap c < 2 ^ 50" "t < c_duration c \<or> sint n * c_avgLap c = 0"
    using assms(2,6) c by simp_all
  then have "t < c_duration c" using assms(4,6) c(1) by simp
  note stint = addStint_ok[OF assms(1,2) t(1) assms(4) t(4)]
  note pit = addPitstop_ok[OF assms(1) t(2,3)]
  have "c_duration c < 2 ^ 29 * c_avgLap c" using assms(1) by (simp add: calc_ok_def)
  then have "sint n * c_avgLap c < 2 ^ 29 * c_avgLap c" using assms(2,6) by linarith
  then have "sint n \<le> 2 ^ 29 + 1" using c(1) by simp
  note lapend = lap_end[OF assms(1,3) _ assms(4) this]
  have 1: "plan c fin True ?t (sint l + sint n) (createPit c ?t (c_pitTime c) # qs)"
    if "plan c fin False (?t + c_pitTime c) (sint l + sint n) qs" for fin qs
    using that pit(2-5) c by (intro plan_pit) auto
  have "plan c fin False t (sint l) (createStint c t n l # createPit c ?t (c_pitTime c) # qs)"
    if "plan c fin False (?t + c_pitTime c) (sint l + sint n) qs" for fin qs
    using 1[OF that] stint(2-6) assms(4,5) lapend \<open>t < c_duration c\<close>
    by (intro plan_stint[of _ t c n l "l + n - 1"]) auto
  with 1 show ?thesis
    by (intro exI[of _ "createStint c t n l"] exI[of _ "createPit c ?t (c_pitTime c)"]) (simp add: stint(1) pit(1))
qed

lemma calc_loop_plan:
  assumes "calc_ok c" "0 \<le> t" "t < c_duration c" "lap_bound c t l"
  shows "\<exists>qs. calc_loop c t l parts = Some (parts @ qs) \<and> plan c True False t (sint l) qs"
  using assms(2-)
proof (induction "nat (c_duration c - t)" arbitrary: t l parts rule: less_induct)
  case less
  have c: "0 < c_avgLap c" "0 < sint (c_lps c)" "c_stintTime c = sint (c_lps c) * c_avgLap c" "c_stintTime c < 2 ^ 48"
    "c_duration c < 2 ^ 48" "0 \<le> c_pitTime c" "c_pitTime c < 2 ^ 48"
    using assms(1) by (simp_all add: calc_ok_def mult.commute)
  have pos: "0 < sint (c_lps c) * c_avgLap c" using c by simp
  have i64: "i64 (t + c_stintTime c) = t + c_stintTime c" 
  proof (rule i64_id)
    have "0 \<le> t + c_stintTime c" using less.prems(1) pos unfolding c(3) by linarith
    then show "- (2 ^ 63) \<le> t + c_stintTime c" by simp
    show "t + c_stintTime c < 2 ^ 63" using less.prems(2) c(4,5) by simp
  qed
  show ?case
  proof (cases "t + c_stintTime c < c_duration c")
    case True
    let ?t = "t + sint (c_lps c) * c_avgLap c + c_pitTime c" and ?l = "l + c_lps c"
    have one: "1 \<le> sint (c_lps c)" "sint (c_lps c) \<le> sint (c_lps c)" "t + sint (c_lps c) * c_avgLap c < c_duration c"
      using c True by simp_all
    from stint_and_pit[OF assms(1) less.prems(1,3) one, of parts] obtain q r where qr:
      "addStint c t (c_lps c) l parts = (t + sint (c_lps c) * c_avgLap c, parts @ [q])"
      "addPitstop c (t + sint (c_lps c) * c_avgLap c) (c_pitTime c) (parts @ [q]) = (?t, parts @ [q, r])"
      "\<And>qs. plan c True False ?t (sint l + sint (c_lps c)) qs \<Longrightarrow> plan c True False t (sint l) (q # r # qs)"
      by blast
    note bound = lap_bound_add[OF assms(1) less.prems(3) one(1,3)]
    have step: "calc_loop c t l parts = (case (if c_duration c \<le> ?t then addStint c ?t 1 ?l (parts @ [q, r]) else (?t, parts @ [q, r])) of
        (curDur, parts) \<Rightarrow> calc_loop c curDur ?l parts)"
      using less.prems(2) True i64 by (subst calc_loop.simps) (simp add: qr(1,2) Let_def)
    show ?thesis
    proof (cases "c_duration c \<le> ?t")
      case True
      have t: "0 \<le> ?t" "?t < 2 ^ 50" using less.prems(1) one(3) c pos by simp_all
      have l: "1 \<le> sint ?l" "sint ?l < 2 ^ 30"
        using bound lap_bound_small[OF assms(1) bound(2) one(3)] by (simp_all add: lap_bound_def)
      from one_lap_stint[OF assms(1) t l True, of "parts @ [q, r]"] obtain s where s:
        "addStint c ?t 1 ?l (parts @ [q, r]) = (?t + part_Duration s, parts @ [q, r, s])"
        "plan c True False ?t (sint ?l) [s]" "0 \<le> part_Duration s" by auto
      have "calc_loop c t l parts = Some (parts @ [q, r, s])"
        using True s(1,3) by (simp add: step calc_loop_done)
      with qr(3) s(2) bound(1) show ?thesis by (intro exI[of _ "[q, r, s]"]) simp
    next
      case False
      have "lap_bound c ?t ?l" using bound(2) c(6) by (simp add: lap_bound_def)
      moreover have "nat (c_duration c - ?t) < nat (c_duration c - t)" using less.prems(2) pos c(6) by simp
      ultimately obtain qs where "calc_loop c ?t ?l (parts @ [q, r]) = Some ((parts @ [q, r]) @ qs)"
        "plan c True False ?t (sint ?l) qs"
        using less.hyps[of ?t ?l "parts @ [q, r]"] less.prems(1) False pos c(6) by auto
      with qr(3) step bound(1) False show ?thesis by (intro exI[of _ "q # r # qs"]) simp
    qed
  next
    case False
    then have "c_duration c - t \<le> sint (c_lps c) * c_avgLap c" using c(3) by simp
    from last_stint[OF assms(1) less.prems this c(2) order_refl, of parts] obtain q where q:
      "addStint c t (laps_in (i64 (c_duration c - t)) c) l parts = (t + part_Duration q, parts @ [q])"
      "c_duration c \<le> t + part_Duration q" "plan c True False t (sint l) [q]" by blast
    have "calc_loop c t l parts = Some (parts @ [q])"
      using less.prems(2) False i64 by (subst calc_loop.simps) (simp add: q(1) Let_def calc_loop_done[OF q(2)])
    with q(3) show ?thesis by blast
  qed
qed

subsection \<open>The whole prediction\<close>

lemma calc_current_plan:
  assumes "calc_ok c" "0 \<le> t" "t < c_duration c" "1 \<le> sint l" "sint l \<le> 2 ^ 29" "0 \<le> sint (car_ParamStintLap car)"
  defines "remain \<equiv> sint (c_lps c) - sint (car_ParamStintLap car)"
  shows "\<exists>ps fin. calc_current c car t l = Some ps \<and> plan c fin (remain \<le> 0) t (sint l) ps \<and>
    (fin \<or> 0 < remain \<and> c_duration c \<le> t + remain * c_avgLap c + c_pitTime c)"
proof -
  have c: "0 < c_avgLap c" "0 < sint (c_lps c)" "c_stintTime c = sint (c_lps c) * c_avgLap c" "c_stintTime c < 2 ^ 48"
    "c_duration c < 2 ^ 48" "0 \<le> c_pitTime c" "c_pitTime c < 2 ^ 48"
    using assms(1) by (simp_all add: calc_ok_def mult.commute)
  have remain: "sint (c_lps c - car_ParamStintLap car) = remain"
    using assms(6) c(2) sint32_range[of "c_lps c"] sint32_range[of "car_ParamStintLap car"]
    unfolding remain_def by (intro sint_minus32) linarith+
  have "(sint l - 2 ^ 29) * c_avgLap c \<le> 0" using assms(5) c(1) by (simp add: mult_le_0_iff)
  then have bound: "lap_bound c t l" using assms(2,4) by (simp add: lap_bound_def)
  show ?thesis
  proof (cases "0 < remain")
    case True
    have few: "remain \<le> sint (c_lps c)" using assms(6) by (simp add: remain_def)
    have "remain * c_avgLap c \<le> sint (c_lps c) * c_avgLap c" using few c(1) by (intro mult_right_mono) simp_all
    moreover have "0 < remain * c_avgLap c" using True c(1) by simp
    ultimately have "remain * c_avgLap c < 2 ^ 48" "0 < remain * c_avgLap c" using c(3,4) by linarith+
    then have i64: "i64 (t + i64 (remain * c_avgLap c)) = t + remain * c_avgLap c"
      using assms(2,3) c(5) by (simp add: i64_id)
    show ?thesis
    proof (cases "t + remain * c_avgLap c < c_duration c")
      case in_race: True
      let ?n = "c_lps c - car_ParamStintLap car" and ?t = "t + remain * c_avgLap c + c_pitTime c"
      have n: "1 \<le> sint ?n" "sint ?n \<le> sint (c_lps c)" "t + sint ?n * c_avgLap c < c_duration c"
        using True few in_race by (simp_all add: remain)
      from stint_and_pit[OF assms(1,2) bound n, of "[]"] obtain q r where qr:
        "addStint c t ?n l [] = (t + remain * c_avgLap c, [q])"
        "addPitstop c (t + remain * c_avgLap c) (c_pitTime c) [q] = (?t, [q, r])"
        "\<And>fin qs. plan c fin False ?t (sint l + remain) qs \<Longrightarrow> plan c fin False t (sint l) (q # r # qs)"
        unfolding remain by auto
      note bound' = lap_bound_add[OF assms(1) bound n(1,3)]
      have step: "calc_current c car t l = calc_loop c ?t (l + ?n) [q, r]"
        using True in_race i64 qr(1,2) by (simp add: calc_current_def Let_def word_sless_alt remain)
      show ?thesis
      proof (cases "c_duration c \<le> ?t")
        case True
        then have "plan c False False ?t (sint l + remain) []" by (auto simp: plan_def stints_within_def)
        with qr(3) step True \<open>0 < remain\<close> show ?thesis by (auto simp: calc_loop_done)
      next
        case False
        have "lap_bound c ?t (l + ?n)" using bound'(2) c(6) by (simp add: lap_bound_def remain)
        with calc_loop_plan[OF assms(1) _ _ this, of "[q, r]"] obtain qs where
          "calc_loop c ?t (l + ?n) [q, r] = Some (q # r # qs)" "plan c True False ?t (sint (l + ?n)) qs"
          using False assms(2) c(6) \<open>0 < remain * c_avgLap c\<close> by auto
        with qr(3) step bound'(1) \<open>0 < remain\<close> show ?thesis by (auto simp: remain)
      qed
    next
      case False
      from last_stint[OF assms(1-3) bound _ True few, of "[]"] False obtain q where q:
        "addStint c t (laps_in (i64 (c_duration c - t)) c) l [] = (t + part_Duration q, [q])"
        "plan c True False t (sint l) [q]" by auto
      have "i64 (c_duration c - t) = c_duration c - t" by (rule i64_id) (use assms(2,3) c(5) in simp_all)
      then have "laps_in (i64 (c_duration c - t)) c \<noteq> 0"
        using laps_in_ok(3)[OF assms(1), of "c_duration c - t"] assms(2,3) by auto
      with False True i64 q show ?thesis by (auto simp: calc_current_def Let_def word_sless_alt remain)
    qed
  next
    case False
    let ?t = "t + c_pitTime c" and ?r = "createPit c t (c_pitTime c)"
    note pit = addPitstop_ok[OF assms(1,2)]
    have t: "t < 2 ^ 51" "0 \<le> ?t" "?t < 2 ^ 50" using assms(2,3) c by simp_all
    have plan: "plan c True True t (sint l) (?r # qs)" if "plan c True False ?t (sint l) qs" for qs
      using that pit(2-5)[OF t(1)] c(6) by (intro plan_pit) auto
    have step: "calc_current c car t l = (if c_duration c \<le> ?t then Some (snd (addStint c ?t 1 l [?r])) else calc_loop c ?t l [?r])"
      using False pit(1)[OF t(1)] by (simp add: calc_current_def Let_def word_sless_alt remain)
    show ?thesis
    proof (cases "c_duration c \<le> ?t")
      case True
      from one_lap_stint[OF assms(1) t(2,3) assms(4) _ True, of "[?r]"] assms(5) obtain s where
        "addStint c ?t 1 l [?r] = (?t + part_Duration s, [?r, s])" "plan c True False ?t (sint l) [s]" by auto
      with plan step True False show ?thesis by auto
    next
      case late: False
      have "lap_bound c ?t l" using bound c(6) by (simp add: lap_bound_def)
      with calc_loop_plan[OF assms(1) t(2) _ this, of "[?r]"] late obtain qs where
        "calc_loop c ?t l [?r] = Some (?r # qs)" "plan c True False ?t (sint l) qs" by auto
      with plan step late False show ?thesis by auto
    qed
  qed
qed

text \<open>Parameters in range: the race is longer than a lap and shorter than three days and 2^29 laps.\<close>

definition param_ok :: "RaceParam \<Rightarrow> StintParam \<Rightarrow> PitParam \<Rightarrow> CarParam \<Rightarrow> bool" where
  "param_ok race stint pit car \<longleftrightarrow> (
     let avg = AsDuration (sp_AvgLaptime stint); lps = sint (sp_Lps stint); dur = AsDuration (rp_Duration race) in
     0 < avg \<and> 0 < lps \<and> avg * lps < 2 ^ 48 \<and> 0 \<le> AsDuration (pp_Overall pit) \<and> AsDuration (pp_Overall pit) < 2 ^ 48 \<and>
     avg < dur \<and> dur < 2 ^ 48 \<and> dur < avg * 2 ^ 29 \<and>
     0 \<le> AsDuration (rp_Session race) \<and> AsDuration (rp_Session race) < 2 ^ 48 \<and>
     0 \<le> sint (rp_Lc race) \<and> sint (rp_Lc race) \<le> 2 ^ 29 - 2 \<and> 0 \<le> sint (car_ParamStintLap car) \<and>
     AsDuration (car_RemainLapTime car) \<le> avg)"

abbreviation predict_param :: "RaceParam \<Rightarrow> StintParam \<Rightarrow> PitParam \<Rightarrow> CarParam \<Rightarrow> PredictParam" where
  "predict_param race stint pit car \<equiv>
     \<lparr>prm_Race = Some race, prm_Stint = Some stint, prm_Pit = Some pit, prm_Car = Some car\<rparr>"

text \<open>What the calculation works with for given parameters, and what is shown of a plan that it makes with them.\<close>

definition calc_of :: "RaceParam \<Rightarrow> StintParam \<Rightarrow> PitParam \<Rightarrow> calc" where
  "calc_of race stint pit = \<lparr>c_avgLap = AsDuration (sp_AvgLaptime stint),
    c_stintTime = i64 (AsDuration (sp_AvgLaptime stint) * sint (sp_Lps stint)), c_pitTime = AsDuration (pp_Overall pit),
    c_lps = sp_Lps stint, c_duration = AsDuration (rp_Duration race), c_sessionOffset = AsDuration (rp_Session race)\<rparr>"

definition race_plan :: "RaceParam \<Rightarrow> StintParam \<Rightarrow> PitParam \<Rightarrow> CarParam \<Rightarrow> calc \<Rightarrow> bool \<Rightarrow> bool \<Rightarrow> int \<Rightarrow> int32 \<Rightarrow> Part list \<Rightarrow> bool" where
  "race_plan race stint pit car c fin first t l ps \<longleftrightarrow> plan c fin first t (sint l) ps \<and>
    c_duration c = AsDuration (rp_Duration race) \<and> c_lps c = sp_Lps stint \<and> 0 \<le> t \<and> t \<le> AsDuration (sp_AvgLaptime stint) \<and>
    (first \<longleftrightarrow> \<not> car_InPit car \<and> sint (sp_Lps stint) \<le> sint (car_ParamStintLap car)) \<and>
    (fin \<or> \<not> car_InPit car \<and> c_duration c \<le> t + (sint (sp_Lps stint) - sint (car_ParamStintLap car)) *
      AsDuration (sp_AvgLaptime stint) + AsDuration (pp_Overall pit))"

lemma calc_of_ok:
  assumes "param_ok race stint pit car"
  shows "calc_ok (calc_of race stint pit)" and "calc_ok (calc_of race stint pit\<lparr>c_sessionOffset := 0\<rparr>)"
proof -
  define prod where "prod = AsDuration (sp_AvgLaptime stint) * sint (sp_Lps stint)"
  note p = assms[unfolded param_ok_def Let_def]
  have prod: "0 \<le> prod" "prod < 2 ^ 48" using p by (simp_all add: prod_def)
  have "i64 prod = prod"
  proof (rule i64_id)
    show "- (2 ^ 63) \<le> prod" by (rule order_trans[OF _ prod(1)]) simp
  qed (use prod(2) in simp)
  with p show "calc_ok (calc_of race stint pit)" by (simp add: calc_ok_def calc_of_def prod_def)
  then show "calc_ok (calc_of race stint pit\<lparr>c_sessionOffset := 0\<rparr>)" by (simp add: calc_ok_def)
qed

lemma current_race_plan:
  assumes "param_ok race stint pit car" "c = calc_of race stint pit \<or> c = calc_of race stint pit\<lparr>c_sessionOffset := 0\<rparr>"
    "0 \<le> t" "t \<le> AsDuration (sp_AvgLaptime stint)" "\<not> car_InPit car" "1 \<le> sint l" "sint l \<le> 2 ^ 29"
  shows "\<exists>ps fin first. calc_current c car t l = Some ps \<and> race_plan race stint pit car c fin first t l ps"
proof -
  note p = assms(1)[unfolded param_ok_def Let_def]
  have c: "calc_ok c" "c_duration c = AsDuration (rp_Duration race)" "c_avgLap c = AsDuration (sp_AvgLaptime stint)"
    "c_lps c = sp_Lps stint" "c_pitTime c = AsDuration (pp_Overall pit)"
    using assms(2) calc_of_ok[OF assms(1)] by (auto simp: calc_of_def)
  have "t < c_duration c" using assms(4) p c by simp
  from calc_current_plan[OF c(1) assms(3) this assms(6,7), of car] p obtain ps fin where
    "calc_current c car t l = Some ps" "plan c fin (sint (c_lps c) - sint (car_ParamStintLap car) \<le> 0) t (sint l) ps"
    "fin \<or> 0 < sint (c_lps c) - sint (car_ParamStintLap car) \<and>
      c_duration c \<le> t + (sint (c_lps c) - sint (car_ParamStintLap car)) * c_avgLap c + c_pitTime c" by blast
  with c assms(3-5) show ?thesis
    by (intro exI[of _ ps] exI[of _ fin] exI[of _ "sint (c_lps c) - sint (car_ParamStintLap car) \<le> 0"]) (auto simp: race_plan_def)
qed

text \<open>
  C9: for parameters in range the prediction ends, and its parts lead without a gap from the end of the current lap to
  the end of the race or beyond it: stints and pit stops in turn, the laps numbered one after the other, and no stint
  longer than the tank lasts but for one lap.  The last part is a stint, unless the race ends during the pit stop
  after the current stint.
\<close>

lemma calc_plans_race:
  assumes "param_ok race stint pit car"
  shows "\<exists>ps c t (l :: int32) fin first_pit. Calc (predict_param race stint pit car) = Some ps \<and> plan c fin first_pit t (sint l) ps \<and>
    c_duration c = AsDuration (rp_Duration race) \<and> c_lps c = sp_Lps stint \<and>
    0 \<le> t \<and> t \<le> AsDuration (sp_AvgLaptime stint) \<and>
    sint l = (if rp_Lc race = 0 \<and> car_ParamStintLap car = 0 then 1 else sint (rp_Lc race) + 2) \<and>
    (first_pit \<longleftrightarrow> \<not> car_InPit car \<and> sint (sp_Lps stint) \<le> sint (car_ParamStintLap car)) \<and>
    (fin \<or> \<not> car_InPit car \<and> c_duration c \<le> t + (sint (sp_Lps stint) - sint (car_ParamStintLap car)) *
      AsDuration (sp_AvgLaptime stint) + AsDuration (pp_Overall pit))"
proof -
  define started where "started = (rp_Lc race \<noteq> 0 \<or> car_ParamStintLap car \<noteq> 0)"
  define l where "l = (if started then rp_Lc race + 2 else 1)"
  define avg where "avg = AsDuration (sp_AvgLaptime stint)"
  define c where "c = calc_of race stint pit"
  note p = assms[unfolded param_ok_def Let_def, folded avg_def]
  note ok = calc_of_ok(1)[OF assms, folded c_def]
  have "sint (rp_Lc race + 2) = sint (rp_Lc race) + 2" using p by (subst sint_plus32) simp_all
  then have l: "1 \<le> sint l" "sint l \<le> 2 ^ 29"
    "sint l = (if rp_Lc race = 0 \<and> car_ParamStintLap car = 0 then 1 else sint (rp_Lc race) + 2)"
    using p by (auto simp: l_def started_def)
  have dur: "0 < c_duration c" "avg < c_duration c" "c_avgLap c = avg" "0 < avg" using p by (simp_all add: c_def calc_of_def avg_def)
  have "\<exists>ps c t fin first. Calc (predict_param race stint pit car) = Some ps \<and> race_plan race stint pit car c fin first t l ps"
  proof (cases "car_InPit car")
    case True
    have "(sint l - 2 ^ 29) * c_avgLap c \<le> 0" using l(2) dur by (simp add: mult_le_0_iff)
    then have "lap_bound c 0 l" using l(1) by (simp add: lap_bound_def)
    from calc_loop_plan[OF ok _ dur(1) this, of "[]"] obtain ps where "calc_loop c 0 l [] = Some ps" "plan c True False 0 (sint l) ps" by auto
    moreover have "Calc (predict_param race stint pit car) = calc_loop c 0 l []"
      using True by (simp add: Calc_def Let_def c_def calc_of_def l_def started_def)
    ultimately show ?thesis using True dur
      by (intro exI[of _ ps] exI[of _ c] exI[of _ 0] exI[of _ True] exI[of _ False]) (simp add: race_plan_def c_def calc_of_def avg_def)
  next
    case False
    define t where "t = (if car_RemainLapTime car \<noteq> None \<and> started then
        (if 0 < AsDuration (car_RemainLapTime car) then AsDuration (car_RemainLapTime car) else avg) else 0)"
    define c' where "c' = (if car_RemainLapTime car \<noteq> None \<and> started \<and> rp_Lc race = 0 then c\<lparr>c_sessionOffset := 0\<rparr> else c)"
    have calc: "Calc (predict_param race stint pit car) = calc_current c' car t l"
      using False by (simp add: Calc_def Let_def c_def calc_of_def c'_def t_def avg_def l_def started_def)
    have "c' = calc_of race stint pit \<or> c' = calc_of race stint pit\<lparr>c_sessionOffset := 0\<rparr>" "0 \<le> t" "t \<le> AsDuration (sp_AvgLaptime stint)"
      using p dur by (auto simp: c'_def c_def t_def avg_def)
    from current_race_plan[OF assms this False l(1,2)] show ?thesis unfolding calc by blast
  qed
  with l(3) show ?thesis unfolding race_plan_def by blast
qed

subsection \<open>A race of two hours\<close>

definition demo_race_param :: "int \<Rightarrow> int32 \<Rightarrow> RaceParam" where
  "demo_race_param dur lc = \<lparr>rp_Duration = Some dur, rp_Lc = lc, rp_Session = Some 0\<rparr>"

definition demo_stint_param :: "int \<Rightarrow> int32 \<Rightarrow> StintParam" where
  "demo_stint_param avg lps = \<lparr>sp_AvgLaptime = Some avg, sp_Lps = lps\<rparr>"

definition demo_pit_param :: "int \<Rightarrow> PitParam" where
  "demo_pit_param d = \<lparr>pp_Overall = Some d, pp_Lane = None\<rparr>"

definition demo_car_param :: "bool \<Rightarrow> int32 \<Rightarrow> CarParam" where
  "demo_car_param inPit lap = \<lparr>car_CurrentTrackPos = f32_zero, car_InPit = inPit, car_ParamStintLap = lap, car_RemainLapTime = Some 0\<rparr>"

lemmas demo_param_defs = demo_race_param_def demo_stint_param_def demo_pit_param_def demo_car_param_def AsDuration_def

lemma calc_plans_race_witness:
  "\<exists>ps. Calc (predict_param (demo_race_param 7200000000000 0) (demo_stint_param 90000000000 20)
      (demo_pit_param 60000000000) (demo_car_param False 0)) = Some ps \<and> in_turn True False ps \<and> ps \<noteq> []"
proof -
  have "param_ok (demo_race_param 7200000000000 0) (demo_stint_param 90000000000 20) (demo_pit_param 60000000000)
      (demo_car_param False 0)" by (simp add: param_ok_def demo_param_defs)
  from calc_plans_race[OF this] show ?thesis
    by (elim exE conjE) (auto simp: demo_param_defs plan_def intro!: exI)
qed

subsection \<open>Inputs the prediction does not handle\<close>

text \<open>The current stint and the pit stop after it take the car to the end of the race: there is no lap after the pit stop.\<close>

text \<open>
  When the race ends during the pit stop after the current stint, the prediction ends in the pits, where the other
  branches of the code add a lap that finishes the race.
\<close>

lemma calc_ends_in_pits:
  "\<exists>q r. Calc (predict_param (demo_race_param 100000000000 0) (demo_stint_param 30000000000 3) (demo_pit_param 60000000000)
      (demo_car_param False 0)) = Some [q, r] \<and> part_Type q = Part_Stint 3 1 3 \<and> part_End q = 90000000000 \<and>
    part_Type r = Part_Pit \<and> part_End r = 150000000000"
  by (simp add: Calc_def Let_def demo_param_defs calc_current_def i64_def addStint_def addPitstop_def createStint_def
      createPit_def createPart_def calc_loop_done word_sless_alt)

text \<open>The loop does not move when a stint and a pit stop take no time.\<close>

lemma calc_loop_endless:
  assumes "calc_loop c t l parts = Some r" "t < c_duration c" "c_stintTime c = 0" "i64 (sint (c_lps c) * c_avgLap c) = 0"
    "c_pitTime c = 0" "i64 t = t"
  shows False
proof -
  have "t < c_duration c \<longrightarrow> c_stintTime c = 0 \<longrightarrow> i64 (sint (c_lps c) * c_avgLap c) = 0 \<longrightarrow> c_pitTime c = 0 \<longrightarrow> i64 t = t \<longrightarrow> False"
  proof (rule calc_loop.raw_induct[OF _ assms(1)], goal_cases)
    case (1 loop c t l parts r)
    show ?case
    proof (intro impI)
      assume a: "t < c_duration c" "c_stintTime c = 0" "i64 (sint (c_lps c) * c_avgLap c) = 0" "c_pitTime c = 0" "i64 t = t"
      with 1(2) obtain ps where "loop c t (l + c_lps c) ps = Some r"
        by (auto simp: addStint_def addPitstop_def createStint_def createPit_def createPart_def Let_def)
      with 1(1) a show False by blast
    qed
  qed
  with assms(2-) show False by blast
qed

text \<open>
  A request whose stints and pit stops take no time (no laps per stint, or an average lap time of zero, and no pit time)
  makes the prediction loop for ever.
\<close>

lemma calc_never_ends:
  assumes "car_InPit car" "0 < AsDuration (rp_Duration race)"
    "i64 (AsDuration (sp_AvgLaptime stint) * sint (sp_Lps stint)) = 0" "AsDuration (pp_Overall pit) = 0"
  shows "Calc (predict_param race stint pit car) = None"
proof (cases "Calc (predict_param race stint pit car)")
  case (Some r)
  with assms(1) have "\<exists>l. calc_loop \<lparr>c_avgLap = AsDuration (sp_AvgLaptime stint),
      c_stintTime = i64 (AsDuration (sp_AvgLaptime stint) * sint (sp_Lps stint)), c_pitTime = AsDuration (pp_Overall pit),
      c_lps = sp_Lps stint, c_duration = AsDuration (rp_Duration race), c_sessionOffset = AsDuration (rp_Session race)\<rparr> 0 l [] = Some r"
    by (auto simp: Calc_def Let_def)
  then obtain l where "calc_loop \<lparr>c_avgLap = AsDuration (sp_AvgLaptime stint),
      c_stintTime = i64 (AsDuration (sp_AvgLaptime stint) * sint (sp_Lps stint)), c_pitTime = AsDuration (pp_Overall pit),
      c_lps = sp_Lps stint, c_duration = AsDuration (rp_Duration race), c_sessionOffset = AsDuration (rp_Session race)\<rparr> 0 l [] = Some r" ..
  from calc_loop_endless[OF this] assms(2-) show ?thesis by (simp add: mult.commute i64_def)
qed

lemma calc_never_ends_witness:
  "Calc (predict_param (demo_race_param 7200000000000 0) (demo_stint_param 90000000000 0) (demo_pit_param 0) (demo_car_param True 0)) = None"
  by (rule calc_never_ends) (simp_all add: demo_param_defs i64_def)

subsection \<open>One lap too many\<close>

lemma frac_60:
  "round_div 53 (300000000 * 2 ^ 100) 1000000000 = 5404319552844595 * 2 ^ 46" "bit_length ((300000000 * 2 ^ 100) div 1000000000) = 99"
proof -
  have "(300000000 * 2 ^ 100) div 1000000000 = (380295180068468820449010961612 :: nat)" by simp
  moreover have "bit_length 380295180068468820449010961612 = 99" using bit_length_eq[of 98 380295180068468820449010961612] by simp
  ultimately show "bit_length ((300000000 * 2 ^ 100) div 1000000000) = 99" by simp
  then show "round_div 53 (300000000 * 2 ^ 100) 1000000000 = 5404319552844595 * 2 ^ 46"
    by (rule round_div_eval) (simp_all add: div_half_even_def)
qed

lemma sum_60:
  "round_div 53 (60 * 2 ^ 100 + 5404319552844595 * 2 ^ 46) 1 = 8486470547826278 * 2 ^ 53" "bit_length ((60 * 2 ^ 100 + 5404319552844595 * 2 ^ 46) div 1) = 106"
proof -
  have "(60 * 2 ^ 100 + 5404319552844595 * 2 ^ 46) div 1 = (76439331193762232896177454448640 :: nat)" by simp
  moreover have "bit_length 76439331193762232896177454448640 = 106" using bit_length_eq[of 105 76439331193762232896177454448640] by simp
  ultimately show "bit_length ((60 * 2 ^ 100 + 5404319552844595 * 2 ^ 46) div 1) = 106" by simp
  then show "round_div 53 (60 * 2 ^ 100 + 5404319552844595 * 2 ^ 46) 1 = 8486470547826278 * 2 ^ 53"
    by (rule round_div_eval) (simp_all add: div_half_even_def)
qed

lemma frac_723:
  "round_div 53 (600000000 * 2 ^ 100) 1000000000 = 5404319552844595 * 2 ^ 47" "bit_length ((600000000 * 2 ^ 100) div 1000000000) = 100"
proof -
  have "(600000000 * 2 ^ 100) div 1000000000 = (760590360136937640898021923225 :: nat)" by simp
  moreover have "bit_length 760590360136937640898021923225 = 100" using bit_length_eq[of 99 760590360136937640898021923225] by simp
  ultimately show "bit_length ((600000000 * 2 ^ 100) div 1000000000) = 100" by simp
  then show "round_div 53 (600000000 * 2 ^ 100) 1000000000 = 5404319552844595 * 2 ^ 47"
    by (rule round_div_eval) (simp_all add: div_half_even_def)
qed

lemma sum_723:
  "round_div 53 (723 * 2 ^ 100 + 5404319552844595 * 2 ^ 47) 1 = 6364852910869709 * 2 ^ 57" "bit_length ((723 * 2 ^ 100 + 5404319552844595 * 2 ^ 47) div 1) = 110"
proof -
  have "(723 * 2 ^ 100 + 5404319552844595 * 2 ^ 47) div 1 = (917271974325146794894866941739008 :: nat)" by simp
  moreover have "bit_length 917271974325146794894866941739008 = 110" using bit_length_eq[of 109 917271974325146794894866941739008] by simp
  ultimately show "bit_length ((723 * 2 ^ 100 + 5404319552844595 * 2 ^ 47) div 1) = 110" by simp
  then show "round_div 53 (723 * 2 ^ 100 + 5404319552844595 * 2 ^ 47) 1 = 6364852910869709 * 2 ^ 57"
    by (rule round_div_eval) (simp_all add: div_half_even_def)
qed

lemma quot_723_60:
  "round_div 53 (6364852910869709 * 2 ^ 57 * 2 ^ 100) (8486470547826278 * 2 ^ 53) = 6755399441055745 * 2 ^ 51" "bit_length ((6364852910869709 * 2 ^ 57 * 2 ^ 100) div (8486470547826278 * 2 ^ 53)) = 104"
proof -
  have "(6364852910869709 * 2 ^ 57 * 2 ^ 100) div (8486470547826278 * 2 ^ 53) = (15211807202738754012945414217877 :: nat)" by simp
  moreover have "bit_length 15211807202738754012945414217877 = 104" using bit_length_eq[of 103 15211807202738754012945414217877] by simp
  ultimately show "bit_length ((6364852910869709 * 2 ^ 57 * 2 ^ 100) div (8486470547826278 * 2 ^ 53)) = 104" by simp
  then show "round_div 53 (6364852910869709 * 2 ^ 57 * 2 ^ 100) (8486470547826278 * 2 ^ 53) = 6755399441055745 * 2 ^ 51"
    by (rule round_div_eval) (simp_all add: div_half_even_def)
qed

text \<open>The quotient of 723.6 s and 60.3 s as float64 is more than 12.\<close>

lemma ceil_quot_723_60: "ceil_quot 723600000000 60300000000 = Some 13"
proof -
  have "seconds_mag (nat 60300000000) = 8486470547826278 * 2 ^ 53 * 2 ^ 974"
    by (rule seconds_mag_scaled[where A = "5404319552844595 * 2 ^ 46"]) (use frac_60 sum_60 in simp_all)
  moreover have "seconds_mag (nat 723600000000) = 6364852910869709 * 2 ^ 57 * 2 ^ 974"
    by (rule seconds_mag_scaled[where A = "5404319552844595 * 2 ^ 47"]) (use frac_723 sum_723 in simp_all)
  ultimately have "ceil_quot 723600000000 60300000000 = Some (int ((6755399441055745 * 2 ^ 51 + 2 ^ 100 - 1) div 2 ^ 100))"
    by (intro ceil_quot_scaled[of _ _ "6364852910869709 * 2 ^ 57" "8486470547826278 * 2 ^ 53"]) (use quot_723_60 in simp_all)
  then show ?thesis by simp
qed

text \<open>
  The rounding of the float64 quotient can add a lap: with twelve laps per stint of 60.3 s and 723.6 s, exactly twelve laps,
  to go, the prediction is a stint of thirteen laps.
\<close>

lemma calc_extra_lap:
  "\<exists>q. Calc (predict_param (demo_race_param 723600000000 0) (demo_stint_param 60300000000 12) (demo_pit_param 60000000000)
      (demo_car_param False 0)) = Some [q] \<and> part_Type q = Part_Stint 13 1 13"
  by (simp add: Calc_def Let_def demo_param_defs calc_current_def i64_def addStint_def createStint_def createPart_def
      word_sless_alt laps_in_def ceil_quot_723_60 int32_of_float_def)

end
