(* ===== verification/Predict.thy ===== *)
theory Predict
  imports Race_Stints Range_Stream
begin

text \<open>
  The prediction service: pkg/grpc/server/predict/data_provider.go collects the parameters of a prediction from the
  analysis and the race state of an event, recorded or live, and predict_server.go answers the requests.

  The loops over stints and pit stops are go_for over the slices; None is a panic (a nil dereference or an index out of
  range).  Durations are nanoseconds, as in Race_Stints.
\<close>

subsection \<open>Arithmetic of float32\<close>

text \<open>
  The product and the quotient of two float32, rounded to 24 bits; subnormal results are multiples of 2^-149 as well.  The sign of a zero divisor is lost in the
  model: it only decides the sign of an infinity, which toDur converts to the same number.
\<close>

definition f32_of_quot :: "int \<Rightarrow> nat \<Rightarrow> f32" where
  "f32_of_quot n d = (let r = round_div 24 (nat \<bar>n\<bar>) d in if 2 ^ 277 \<le> r then Inf (n < 0) else Fin (sgn n * int r))"

fun f32_mul :: "f32 \<Rightarrow> f32 \<Rightarrow> f32" where
  "f32_mul (Fin a) (Fin b) = f32_of_quot (a * b) (2 ^ 149)"
| "f32_mul (Inf s) (Inf t) = Inf (s \<noteq> t)"
| "f32_mul (Inf s) (Fin b) = (if b = 0 then NaN else Inf (s \<noteq> (b < 0)))"
| "f32_mul (Fin a) (Inf t) = (if a = 0 then NaN else Inf ((a < 0) \<noteq> t))"
| "f32_mul NaN _ = NaN"
| "f32_mul _ NaN = NaN"

fun f32_div :: "f32 \<Rightarrow> f32 \<Rightarrow> f32" where
  "f32_div (Fin a) (Fin b) = (if b = 0 then if a = 0 then NaN else Inf (a < 0)
     else f32_of_quot (a * sgn b * 2 ^ 149) (nat \<bar>b\<bar>))"
| "f32_div (Inf s) (Inf t) = NaN"
| "f32_div (Inf s) (Fin b) = Inf (s \<noteq> (b < 0))"
| "f32_div (Fin a) (Inf t) = Fin 0"
| "f32_div NaN _ = NaN"
| "f32_div _ NaN = NaN"

text \<open>The conversion to int64, which truncates; out of range Go leaves the result to the machine, here that of amd64.\<close>

fun f32_to_int64 :: "f32 \<Rightarrow> int" where
  "f32_to_int64 (Fin m) = (let n = sgn m * (\<bar>m\<bar> div 2 ^ 149) in if - (2 ^ 63) \<le> n \<and> n < 2 ^ 63 then n else - (2 ^ 63))"
| "f32_to_int64 _ = - (2 ^ 63)"

definition f32_3_6 :: f32 where
  \<comment> \<open>the constant 3.6\<close>
  "f32_3_6 = f32_of_quot (36 * 2 ^ 149) 10"

definition duration_of_f32 :: "f32 \<Rightarrow> int" where
  \<comment> \<open>time.Duration(sec * float32(time.Second))\<close>
  "duration_of_f32 sec = f32_to_int64 (f32_mul sec (f32_of_int 1000000000))"

definition toDur :: "f32 \<Rightarrow> int option" where
  "toDur sec = Some (duration_of_f32 sec)"

definition DurationSeconds :: "int option \<Rightarrow> int" where
  \<comment> \<open>the field Seconds of a Duration message: durationpb.New divides by time.Second, truncating\<close>
  "DurationSeconds d = sgn (AsDuration d) * (\<bar>AsDuration d\<bar> div 1000000000)"

definition time_Minute :: "int option" where
  "time_Minute = Some (60 * 1000000000)"

subsection \<open>Data\<close>

datatype LaptimeSelector = LAPTIME_SELECTOR_UNSPECIFIED | LAPTIME_SELECTOR_LAST
  | LAPTIME_SELECTOR_PREVIOUS_STINT_AVG | LAPTIME_SELECTOR_CURRENT_STINT_AVG | LAPTIME_SELECTOR_OTHER int

datatype 'e predict_error = ServerError "'e server_error" | ErrUnsupportedStartSelector | ErrNoData | NoDataFound

record stintStats =
  st_numLaps :: int
  st_rAvg :: f32

record driveData =
  dd_stints :: "stintStats list"
  dd_pits :: "f32 list"
  dd_stateData :: Car

record predictData =
  pd_analysis :: "Analysis option"
  pd_carInfo :: "PublishDriverDataRequest option"
  pd_curState :: "PublishStateRequest option"
  pd_event :: Event
  pd_track :: Track
  pd_carNum :: string
  pd_laptimeSel :: LaptimeSelector

subsection \<open>Stints and pit stops\<close>

text \<open>The body of the loop over the laps of a stint: i is the index of the lap.\<close>

definition stint_lap :: "nat \<Rightarrow> nat \<Rightarrow> Lap \<Rightarrow> f32 \<times> int \<Rightarrow> f32 \<times> int" where
  "stint_lap n i l acc = (case acc of (lapSum, calcLaps) \<Rightarrow>
     let info = (\<lambda>mode. case lap_LapInfo l of
         Some li \<Rightarrow> if li_Mode li = mode then (f32_add lapSum (li_Time li), calcLaps + 1) else (lapSum, calcLaps)
       | None \<Rightarrow> (lapSum, calcLaps))
     in if i = 0 then info LAP_MODE_OUTLAP
        else if i = n - 1 then info LAP_MODE_INLAP
        else (f32_add lapSum (lap_LapTime l), calcLaps + 1))"

definition createStintStats :: "int32 \<Rightarrow> int32 \<Rightarrow> Lap list \<Rightarrow> stintStats option" where
  "createStintStats lapFrom lapTo lapData = (
     let laps = filter (\<lambda>l. lapFrom <=s lap_LapNo l \<and> lap_LapNo l <=s lapTo) lapData;
         (lapSum, calcLaps) = fold (\<lambda>(i, l). stint_lap (length laps) i l) (enumerate 0 laps) (f32_zero, 0)
     in if calcLaps = 0 then None
        else Some \<lparr>st_numLaps = int (length laps), st_rAvg = f32_div lapSum (f32_of_int calcLaps)\<rparr>)"

definition slice_at :: "'a list \<Rightarrow> nat option \<Rightarrow> 'a run" where
  \<comment> \<open>xs[i], which panics at the index -1 of IndexFunc\<close>
  "slice_at xs i = map_option ((!) xs) i"

definition min32 :: "int32 \<Rightarrow> int32 \<Rightarrow> int32" where
  "min32 a b = (if b <s a then b else a)"

definition collectStints :: "predictData \<Rightarrow> string \<Rightarrow> int32 \<Rightarrow> stintStats list run" where
  "collectStints pd carNum lc = do {
     an \<leftarrow> pd_analysis pd;
     let laps = map_option cl_Laps (slice_at (an_CarLaps an) (index_func (\<lambda>c. cl_CarNum c = carNum) (an_CarLaps an)));
     let body = (\<lambda>cs sts. if si_LapExit cs <s lc then do {
             laps \<leftarrow> laps;
             Some (case createStintStats (si_LapExit cs) (min32 lc (si_LapEnter cs)) laps of
               Some st \<Rightarrow> sts @ [st] | None \<Rightarrow> sts)
           } else Some sts);
     cst \<leftarrow> slice_at (an_CarStints an) (index_func (\<lambda>c. cst_CarNum c = carNum) (an_CarStints an));
     sts \<leftarrow> go_for body (cst_History cst) [];
     cur \<leftarrow> cst_Current cst;
     body cur sts
   }"

definition collectPitstops :: "predictData \<Rightarrow> string \<Rightarrow> int32 \<Rightarrow> f32 list run" where
  "collectPitstops pd carNum lc = do {
     an \<leftarrow> pd_analysis pd;
     Some (case index_func (\<lambda>c. cp_CarNum c = carNum) (an_CarPits an) of
       None \<Rightarrow> []
     | Some i \<Rightarrow> map pi_LaneTime (filter (\<lambda>cp. pi_LapExit cp <s lc) (cp_History (an_CarPits an ! i))))
   }"

subsection \<open>init\<close>

definition carIdxByCarNum :: "PublishDriverDataRequest \<Rightarrow> (string \<Rightarrow> int32 option) run" where
  "carIdxByCarNum carInfo = go_for (\<lambda>c m. do { car \<leftarrow> ce_Car c; Some (m(ci_CarNumber car \<mapsto> ci_CarIdx car)) })
     (pdr_Entries carInfo) Map.empty"

definition init :: "predictData \<Rightarrow> ('e predict_error + driveData) run" where
  "init pd = do {
     carInfo \<leftarrow> pd_carInfo pd;
     byNum \<leftarrow> carIdxByCarNum carInfo;
     curState \<leftarrow> pd_curState pd;
     (if psr_Cars curState = [] then Some (Inl ErrNoData)
      else let myCarIdx = map_get 0 byNum (pd_carNum pd)
      in case index_func (\<lambda>c. car_CarIdx c = myCarIdx) (psr_Cars curState) of
           None \<Rightarrow> Some (Inl NoDataFound)
         | Some myIdx \<Rightarrow> do {
             let lc = car_Lc (hd (psr_Cars curState));
             stints \<leftarrow> collectStints pd (pd_carNum pd) lc;
             pits \<leftarrow> collectPitstops pd (pd_carNum pd) lc;
             Some (Inr \<lparr>dd_stints = stints, dd_pits = pits, dd_stateData = psr_Cars curState ! myIdx\<rparr>)
           })
   }"

subsection \<open>PredictParam\<close>

text \<open>The last lap up to the current one that was neither an outlap nor an inlap.\<close>

definition lastFullLap :: "predictData \<Rightarrow> driveData \<Rightarrow> int option run" where
  "lastFullLap pd dd = do {
     an \<leftarrow> pd_analysis pd;
     Some (case index_func (\<lambda>c. cl_CarNum c = pd_carNum pd) (an_CarLaps an) of
       Some myLapsIdx \<Rightarrow>
         if 0 < myLapsIdx then
           (let laps = cl_Laps (an_CarLaps an ! myLapsIdx) in
            case index_func (\<lambda>l. car_Lc (dd_stateData dd) = lap_LapNo l) laps of
              Some lapsIdx \<Rightarrow>
                if 0 < lapsIdx then
                  (case find (\<lambda>l. lap_LapInfo l = None) (rev (take (Suc lapsIdx) laps)) of
                     Some l \<Rightarrow> toDur (lap_LapTime l) | None \<Rightarrow> time_Minute)
                else time_Minute
            | None \<Rightarrow> time_Minute)
         else time_Minute
     | None \<Rightarrow> time_Minute)
   }"

definition stint_avg :: "stintStats list \<Rightarrow> nat \<Rightarrow> int option" where
  \<comment> \<open>stints[len(stints)-k].rAvg\<close>
  "stint_avg sts k = toDur (st_rAvg (sts ! (length sts - k)))"

definition avgLaptime :: "predictData \<Rightarrow> driveData \<Rightarrow> int option run" where
  "avgLaptime pd dd = (let n = length (dd_stints dd) in case pd_laptimeSel pd of
     LAPTIME_SELECTOR_LAST \<Rightarrow> lastFullLap pd dd
   | LAPTIME_SELECTOR_CURRENT_STINT_AVG \<Rightarrow> Some (if 0 < n then stint_avg (dd_stints dd) 1 else time_Minute)
   | LAPTIME_SELECTOR_OTHER _ \<Rightarrow> Some time_Minute
   | _ \<Rightarrow> if 1 < n then Some (stint_avg (dd_stints dd) 2)
          else if 0 < n then Some (stint_avg (dd_stints dd) 1)
          else lastFullLap pd dd)"

definition lps :: "driveData \<Rightarrow> int32" where
  "lps dd = (let sts = dd_stints dd; n = length sts in
     if 1 < n then word_of_int (st_numLaps (sts ! (n - 2)))
     else if 0 < n then word_of_int (st_numLaps (sts ! (n - 1)))
     else 20)"

definition raceParam :: "predictData \<Rightarrow> driveData \<Rightarrow> RaceParam run" where
  "raceParam pd dd = do {
     curState \<leftarrow> pd_curState pd;
     session \<leftarrow> psr_Session curState;
     Some \<lparr>rp_Duration = toDur (ses_TimeRemain session), rp_Lc = car_Lc (dd_stateData dd),
           rp_Session = toDur (ses_SessionTime session)\<rparr>
   }"

definition calcPitLaneTime :: "predictData \<Rightarrow> f32" where
  "calcPitLaneTime pd = (case tr_PitInfo (pd_track pd) of None \<Rightarrow> f32_zero
     | Some pitInfo \<Rightarrow> f32_div (tpi_LaneLength pitInfo) (f32_div (ev_PitSpeed (pd_event pd)) f32_3_6))"

definition pitTime :: "driveData \<Rightarrow> int option" where
  "pitTime dd = (if dd_pits dd \<noteq> [] then toDur (last (dd_pits dd)) else time_Minute)"

definition PredictParam :: "predictData \<Rightarrow> driveData \<Rightarrow> PredictParam run" where
  "PredictParam pd dd = do {
     race \<leftarrow> raceParam pd dd;
     avg \<leftarrow> avgLaptime pd dd;
     (let car = dd_stateData dd in
      Some \<lparr>prm_Race = Some race,
        prm_Stint = Some \<lparr>sp_AvgLaptime = avg, sp_Lps = lps dd\<rparr>,
        prm_Pit = Some \<lparr>pp_Overall = pitTime dd, pp_Lane = toDur (calcPitLaneTime pd)\<rparr>,
        prm_Car = Some \<lparr>car_CurrentTrackPos = car_TrackPos car, car_InPit = (car_State car = CAR_STATE_PIT),
          car_ParamStintLap = car_StintLap car,
          car_RemainLapTime = toDur (f32_mul (f32_sub (f32_of_int 1) (car_TrackPos car))
            (f32_of_int (DurationSeconds avg)))\<rparr>\<rparr>)
   }"

definition predict :: "predictData \<Rightarrow> ('e predict_error + PredictParam) run" where
  "predict pd = do {
     r \<leftarrow> init pd;
     (case r of Inl err \<Rightarrow> Some (Inl err) | Inr dd \<Rightarrow> map_option Inr (PredictParam pd dd))
   }"

subsection \<open>Recorded events\<close>

record 'e predict_repos =
  pr_Event :: "'e event_repo"
  pr_Track :: "int \<Rightarrow> 'e + Track"
  pr_Analysis :: "int \<Rightarrow> 'e + Analysis"
  pr_CarProto :: "int \<Rightarrow> 'e + PublishDriverDataRequest"
  pr_Racestate :: "('e, PublishStateRequest) range_repo"

text \<open>Without a race state at the session time it returns nil and no error.\<close>

definition GetPredictParam :: "'e predict_repos \<Rightarrow> int \<Rightarrow> int \<Rightarrow> string \<Rightarrow> LaptimeSelector \<Rightarrow>
    ('e predict_error + PredictParam option) run" where
  "GetPredictParam repos eventID sessionTime carNum laptimeSel = (
     let fail = (\<lambda>err. Some (Inl (ServerError (RepoError err)))) in
     case er_LoadByID (pr_Event repos) eventID of
       Inl err \<Rightarrow> fail err
     | Inr event \<Rightarrow> (case pr_Track repos (uint (ev_TrackId event)) of
         Inl err \<Rightarrow> fail err
       | Inr track \<Rightarrow> (case pr_Analysis repos eventID of
           Inl err \<Rightarrow> fail err
         | Inr analysis \<Rightarrow> (case pr_CarProto repos eventID of
             Inl err \<Rightarrow> fail err
           | Inr carInfo \<Rightarrow> (case CollectRaceSessions event of
               [] \<Rightarrow> None
             | session # _ \<Rightarrow>
                 (case LoadRangeBySessionTime (pr_Racestate repos) eventID session (F64_seconds sessionTime) 1 of
                    Inl err \<Rightarrow> fail err
                  | Inr states \<Rightarrow> (case rc_Data states of
                      [] \<Rightarrow> Some (Inr None)
                    | state # _ \<Rightarrow> map_option (map_sum id Some) (predict
                        \<lparr>pd_analysis = Some analysis, pd_carInfo = Some carInfo, pd_curState = Some state,
                         pd_event = event, pd_track = track, pd_carNum = carNum, pd_laptimeSel = laptimeSel\<rparr>))))))))"

record GetPredictParamRequest =
  gpr_EventSelector :: EventSelector
  gpr_StartSelector :: "StartSelector option"
  gpr_CarNum :: string
  gpr_LaptimeSelector :: LaptimeSelector

definition server_GetPredictParam :: "'e predict_repos \<Rightarrow> GetPredictParamRequest \<Rightarrow>
    ('e predict_error + PredictParam option) run" where
  "server_GetPredictParam repos req = (case ResolveEvent (pr_Event repos) (gpr_EventSelector req) of
     Inl err \<Rightarrow> Some (Inl (ServerError err))
   | Inr e \<Rightarrow> (case gpr_StartSelector req of
       None \<Rightarrow> Some (Inl (ServerError ErrInvalidStartSelector))
     | Some (StartSelector_SessionTime t) \<Rightarrow>
         GetPredictParam repos (uint (ev_Id e)) (duration_of_f32 t) (gpr_CarNum req) (gpr_LaptimeSelector req)
     | Some _ \<Rightarrow> Some (Inl ErrUnsupportedStartSelector)))"

subsection \<open>Live events\<close>

definition live_data :: "EventProcessingData \<Rightarrow> string \<Rightarrow> LaptimeSelector \<Rightarrow> predictData" where
  "live_data epd carNum laptimeSel = \<lparr>pd_analysis = LastAnalysisData epd, pd_carInfo = LastDriverData epd,
     pd_curState = LastRaceState epd, pd_event = epd_Event epd, pd_track = epd_Track epd, pd_carNum = carNum,
     pd_laptimeSel = laptimeSel\<rparr>"

definition GetLivePredictParam :: "EventProcessingData \<Rightarrow> string \<Rightarrow> LaptimeSelector \<Rightarrow>
    ('e predict_error + PredictParam) run" where
  "GetLivePredictParam epd carNum laptimeSel = predict (live_data epd carNum laptimeSel)"

definition server_GetLivePredictParam :: "EventLookup \<Rightarrow> EventSelector \<Rightarrow> string \<Rightarrow> LaptimeSelector \<Rightarrow>
    ('e predict_error + PredictParam) run" where
  "server_GetLivePredictParam el sel carNum laptimeSel = (case GetEvent sel el of
     Inl _ \<Rightarrow> Some (Inl (ServerError (ConnectError CodeNotFound)))
   | Inr epd \<Rightarrow> GetLivePredictParam epd carNum laptimeSel)"

definition PredictRace :: "PredictParam option \<Rightarrow> Part list run" where
  "PredictRace param = do { p \<leftarrow> param; Calc p }"

end
