(* ===== verification/Predict_Properties.thy ===== *)
theory Predict_Properties
  imports Predict Event_Store Car_Properties
begin

text \<open>
  What the prediction service makes of an event: the stints of a car are those of its analysis, the parameters are those of its own stints,
  pit stops and state, and the inputs for which the code panics.
\<close>

subsection \<open>Stints\<close>

text \<open>The stint statistics without the loop: the stints that began before the lap lc of the leader, in order.\<close>

definition stints_of :: "Lap list \<Rightarrow> CarStint \<Rightarrow> StintInfo \<Rightarrow> int32 \<Rightarrow> stintStats list" where
  "stints_of laps cst cur lc = List.map_filter (\<lambda>cs. createStintStats (si_LapExit cs) (min32 lc (si_LapEnter cs)) laps)
     (filter (\<lambda>cs. si_LapExit cs <s lc) (cst_History cst @ [cur]))"

lemma map_filter_snoc: "List.map_filter f (xs @ [x]) = List.map_filter f xs @ (case f x of Some y \<Rightarrow> [y] | None \<Rightarrow> [])"
  by (simp add: List.map_filter_def split: option.splits)

lemma go_for_collect:
  "go_for (\<lambda>cs sts. if P cs then Some (case f cs of Some st \<Rightarrow> sts @ [st] | None \<Rightarrow> sts) else Some sts) xs acc =
     Some (acc @ List.map_filter f (filter P xs))"
proof (induction xs arbitrary: acc)
  case (Cons x xs)
  then show ?case by (auto simp: List.map_filter_def split: option.splits)
qed (simp add: List.map_filter_def)

lemma index_func_find: "map_option ((!) xs) (index_func P xs) = find P xs"
  by (induction xs) (auto simp: option.map_comp comp_def)

lemma collectStints_eq:
  assumes "pd_analysis pd = Some an" "find (\<lambda>c. cl_CarNum c = num) (an_CarLaps an) = Some cl"
    "find (\<lambda>c. cst_CarNum c = num) (an_CarStints an) = Some cst" "cst_Current cst = Some cur"
  shows "collectStints pd num lc = Some (stints_of (cl_Laps cl) cst cur lc)"
  using assms by (simp add: collectStints_def slice_at_def index_func_find go_for_collect stints_of_def map_filter_snoc
      cong: if_cong split: option.splits)

lemma index_func_Some_nth: "index_func P xs = Some i \<Longrightarrow> find P xs = Some (xs ! i)"
  using index_func_find[of xs P] by (metis option.simps(9))

lemma collectPitstops_eq:
  assumes "pd_analysis pd = Some an"
  shows "collectPitstops pd num lc = Some (case find (\<lambda>c. cp_CarNum c = num) (an_CarPits an) of None \<Rightarrow> []
    | Some cp \<Rightarrow> map pi_LaneTime (filter (\<lambda>p. pi_LapExit p <s lc) (cp_History cp)))"
  using assms index_func_find[of "an_CarPits an" "\<lambda>c. cp_CarNum c = num"]
  by (auto simp: collectPitstops_def split: option.splits)

text \<open>The times a stint's average is taken over: the time of the outlap, the full laps, the time of the inlap.\<close>

definition counted :: "Lap list \<Rightarrow> f32 list" where
  "counted laps = (
     let marked = (\<lambda>mode l. case lap_LapInfo l of Some li \<Rightarrow> if li_Mode li = mode then [li_Time li] else [] | None \<Rightarrow> []) in
     case laps of [] \<Rightarrow> []
     | l # ls \<Rightarrow> marked LAP_MODE_OUTLAP l @ (if ls = [] then [] else map lap_LapTime (butlast ls) @ marked LAP_MODE_INLAP (last ls)))"

lemma stint_lap_full: "0 < k \<Longrightarrow> Suc k < n \<Longrightarrow> stint_lap n k l (s, c) = (f32_add s (lap_LapTime l), c + 1)"
  by (auto simp: stint_lap_def Let_def)

lemma fold_full_laps:
  assumes "0 < k" "k + length ls < n"
  shows "fold (\<lambda>(i, l). stint_lap n i l) (enumerate k ls) (s, c) =
    (fold (\<lambda>t s. f32_add s t) (map lap_LapTime ls) s, c + int (length ls))"
  using assms
proof (induction ls arbitrary: k s c)
  case (Cons l ls)
  then show ?case using Cons.IH[of "Suc k"] by (simp add: stint_lap_full)
qed simp

lemma stint_laps_counted:
  "fold (\<lambda>(i, l). stint_lap (length laps) i l) (enumerate 0 laps) (s, 0) =
     (fold (\<lambda>t s. f32_add s t) (counted laps) s, int (length (counted laps)))"
proof (cases laps)
  case (Cons l ls)
  show ?thesis
  proof (cases ls rule: rev_cases)
    case Nil
    with Cons show ?thesis by (auto simp: counted_def Let_def stint_lap_def split: option.splits)
  next
    case (snoc ms z)
    have full: "fold (\<lambda>(i, l). stint_lap (Suc (Suc (length ms))) i l) (enumerate (Suc 0) ms) (s', c) =
        (fold (\<lambda>t s. f32_add s t) (map lap_LapTime ms) s', c + int (length ms))" for s' c
      by (rule fold_full_laps) simp_all
    show ?thesis
      using Cons snoc full
      by (auto simp: counted_def Let_def stint_lap_def enumerate_append_eq split: option.splits)
  qed
qed (simp add: counted_def)

lemma createStintStats_counted:
  "createStintStats a b lapData = (
     let laps = filter (\<lambda>l. a <=s lap_LapNo l \<and> lap_LapNo l <=s b) lapData in
     if counted laps = [] then None
     else Some \<lparr>st_numLaps = int (length laps), st_rAvg = f32_div (fold (\<lambda>t s. f32_add s t) (counted laps) f32_zero)
       (f32_of_int (int (length (counted laps))))\<rparr>)"
  by (simp add: createStintStats_def Let_def stint_laps_counted)

subsection \<open>Live predictions\<close>

text \<open>An event whose last data know the car: its analysis, its entry, a state that it is in.\<close>

definition car_of :: "PublishDriverDataRequest \<Rightarrow> PublishStateRequest \<Rightarrow> string \<Rightarrow> Car option" where
  "car_of ci st num = (case find (\<lambda>c. \<exists>car. ce_Car c = Some car \<and> ci_CarNumber car = num) (rev (pdr_Entries ci)) of
     Some c \<Rightarrow> find (\<lambda>car. car_CarIdx car = ci_CarIdx (the (ce_Car c))) (psr_Cars st) | None \<Rightarrow> None)"

lemma carIdxByCarNum_rev:
  assumes "\<forall>c \<in> set es. ce_Car c \<noteq> None"
  shows "\<exists>m. go_for (\<lambda>c m. do { car \<leftarrow> ce_Car c; Some (m(ci_CarNumber car \<mapsto> ci_CarIdx car)) }) es Map.empty = Some m \<and>
    (\<forall>num. m num = map_option (\<lambda>c. ci_CarIdx (the (ce_Car c)))
      (find (\<lambda>c. \<exists>car. ce_Car c = Some car \<and> ci_CarNumber car = num) (rev es)))"
  using assms
proof (induction es rule: rev_induct)
  case (snoc c es)
  have "\<forall>c \<in> set es. ce_Car c \<noteq> None" using snoc.prems by simp
  from snoc.IH[OF this] obtain m where m: "go_for (\<lambda>c m. do { car \<leftarrow> ce_Car c; Some (m(ci_CarNumber car \<mapsto> ci_CarIdx car)) }) es Map.empty = Some m"
    "\<forall>num. m num = map_option (\<lambda>c. ci_CarIdx (the (ce_Car c)))
      (find (\<lambda>c. \<exists>car. ce_Car c = Some car \<and> ci_CarNumber car = num) (rev es))" by blast
  obtain car where "ce_Car c = Some car" using snoc.prems by auto
  then have "go_for (\<lambda>c m. do { car \<leftarrow> ce_Car c; Some (m(ci_CarNumber car \<mapsto> ci_CarIdx car)) }) (es @ [c]) Map.empty =
      Some (m(ci_CarNumber car \<mapsto> ci_CarIdx car))"
    unfolding go_for_append m(1) by simp
  moreover have "(m(ci_CarNumber car \<mapsto> ci_CarIdx car)) num = map_option (\<lambda>c. ci_CarIdx (the (ce_Car c)))
      (find (\<lambda>c. \<exists>car. ce_Car c = Some car \<and> ci_CarNumber car = num) (rev (es @ [c])))" for num
    using m(2) \<open>ce_Car c = Some car\<close> by simp
  ultimately show ?case by blast
qed simp

lemma init_ok:
  assumes "pd_carInfo pd = Some ci" "\<forall>c \<in> set (pdr_Entries ci). ce_Car c \<noteq> None" "pd_curState pd = Some st"
    "car_of ci st (pd_carNum pd) = Some car"
    "collectStints pd (pd_carNum pd) (car_Lc (hd (psr_Cars st))) = Some sts"
    "collectPitstops pd (pd_carNum pd) (car_Lc (hd (psr_Cars st))) = Some pits"
  shows "init pd = Some (Inr \<lparr>dd_stints = sts, dd_pits = pits, dd_stateData = car\<rparr>)"
proof -
  obtain m where m: "carIdxByCarNum ci = Some m"
    "\<forall>num. m num = map_option (\<lambda>c. ci_CarIdx (the (ce_Car c)))
      (find (\<lambda>c. \<exists>car. ce_Car c = Some car \<and> ci_CarNumber car = num) (rev (pdr_Entries ci)))"
    using carIdxByCarNum_rev[OF assms(2)] by (auto simp: carIdxByCarNum_def)
  obtain c where c: "find (\<lambda>c. \<exists>car. ce_Car c = Some car \<and> ci_CarNumber car = pd_carNum pd) (rev (pdr_Entries ci)) = Some c"
    and f: "find (\<lambda>car. car_CarIdx car = ci_CarIdx (the (ce_Car c))) (psr_Cars st) = Some car"
    using assms(4) by (auto simp: car_of_def split: option.splits)
  then have idx: "m (pd_carNum pd) = Some (ci_CarIdx (the (ce_Car c)))" using m(2) by simp
  obtain i where "index_func (\<lambda>car. car_CarIdx car = ci_CarIdx (the (ce_Car c))) (psr_Cars st) = Some i" "psr_Cars st ! i = car"
    using f index_func_find[of "psr_Cars st" "\<lambda>car. car_CarIdx car = ci_CarIdx (the (ce_Car c))"]
    by (auto simp: map_option_eq_Some)
  moreover have "psr_Cars st \<noteq> []" using f by auto
  ultimately show ?thesis using assms m(1) idx by (simp add: init_def)
qed

text \<open>The average lap time the selector asks for, given the stints.\<close>

definition selected_avg :: "LaptimeSelector \<Rightarrow> stintStats list \<Rightarrow> int option \<Rightarrow> int option" where
  "selected_avg sel sts full = (case (sel, rev sts) of
     (LAPTIME_SELECTOR_LAST, _) \<Rightarrow> full
   | (LAPTIME_SELECTOR_OTHER _, _) \<Rightarrow> time_Minute
   | (LAPTIME_SELECTOR_CURRENT_STINT_AVG, cur # _) \<Rightarrow> toDur (st_rAvg cur)
   | (LAPTIME_SELECTOR_CURRENT_STINT_AVG, []) \<Rightarrow> time_Minute
   | (_, cur # prev # _) \<Rightarrow> toDur (st_rAvg prev)
   | (_, [cur]) \<Rightarrow> toDur (st_rAvg cur)
   | (_, []) \<Rightarrow> full)"

lemma avgLaptime_selected:
  assumes "lastFullLap pd dd = Some full"
  shows "avgLaptime pd dd = Some (selected_avg (pd_laptimeSel pd) (dd_stints dd) full)"
proof -
  consider "dd_stints dd = []" | c where "dd_stints dd = [c]" | ss p c where "dd_stints dd = ss @ [p, c]"
  proof (cases "dd_stints dd" rule: rev_cases)
    case (snoc ys c)
    then show ?thesis using that by (cases ys rule: rev_cases) auto
  qed
  then show ?thesis
    using assms
    by cases (auto simp: avgLaptime_def selected_avg_def Let_def stint_avg_def nth_append split: LaptimeSelector.splits)
qed

definition laps_per_stint :: "stintStats list \<Rightarrow> int32" where
  "laps_per_stint sts = (case rev sts of _ # prev # _ \<Rightarrow> word_of_int (st_numLaps prev) | [cur] \<Rightarrow> word_of_int (st_numLaps cur) | [] \<Rightarrow> 20)"

lemma lps_eq: "lps dd = laps_per_stint (dd_stints dd)"
proof -
  consider "dd_stints dd = []" | c where "dd_stints dd = [c]" | ss p c where "dd_stints dd = ss @ [p, c]"
  proof (cases "dd_stints dd" rule: rev_cases)
    case (snoc ys c)
    then show ?thesis using that by (cases ys rule: rev_cases) auto
  qed
  then show ?thesis by cases (auto simp: lps_def laps_per_stint_def Let_def nth_append)
qed

lemma lastFullLap_cases:
  assumes "pd_analysis pd = Some an" "find (\<lambda>c. cl_CarNum c = pd_carNum pd) (an_CarLaps an) = Some cl"
  shows "\<exists>full. lastFullLap pd dd = Some full \<and>
    (full = time_Minute \<or> (\<exists>l \<in> set (cl_Laps cl). lap_LapInfo l = None \<and> full = toDur (lap_LapTime l)))"
proof -
  have full: "x \<in> set ls \<and> lap_LapInfo x = None"
    if "find (\<lambda>l. lap_LapInfo l = None) (rev (take k ls)) = Some x" for k ls x
  proof -
    from that have "x \<in> set (rev (take k ls))" "lap_LapInfo x = None" unfolding find_Some_iff by (metis nth_mem)+
    then show ?thesis by (auto dest: in_set_takeD)
  qed
  then show ?thesis
    using assms index_func_find[of "an_CarLaps an" "\<lambda>c. cl_CarNum c = pd_carNum pd"]
    by (auto simp: lastFullLap_def Let_def dest!: full split: option.splits)
qed

text \<open>
  A live prediction for a car that the event's last data know returns, without an error, the remaining time of the
  session, the lap count and the position of the car itself, the laps and the average lap time of the stint the selector means
  (those of the stint before the current one, if there was one), and the time of its last pit stop.
\<close>

lemma live_predict_ok:
  assumes "LastAnalysisData epd = Some an" "LastDriverData epd = Some ci" "LastRaceState epd = Some st"
    "\<forall>c \<in> set (pdr_Entries ci). ce_Car c \<noteq> None" "psr_Session st = Some session" "car_of ci st num = Some car"
    "find (\<lambda>c. cl_CarNum c = num) (an_CarLaps an) = Some cl"
    "find (\<lambda>c. cst_CarNum c = num) (an_CarStints an) = Some cst" "cst_Current cst = Some cur"
  shows "\<exists>race stint pit cp full. GetLivePredictParam epd num sel = Some (Inr
      \<lparr>prm_Race = Some race, prm_Stint = Some stint, prm_Pit = Some pit, prm_Car = Some cp\<rparr>) \<and>
    race = \<lparr>rp_Duration = toDur (ses_TimeRemain session), rp_Lc = car_Lc car, rp_Session = toDur (ses_SessionTime session)\<rparr> \<and>
    (let sts = stints_of (cl_Laps cl) cst cur (car_Lc (hd (psr_Cars st))) in
      stint = \<lparr>sp_AvgLaptime = selected_avg sel sts full, sp_Lps = laps_per_stint sts\<rparr>) \<and>
    (full = time_Minute \<or> (\<exists>l \<in> set (cl_Laps cl). lap_LapInfo l = None \<and> full = toDur (lap_LapTime l))) \<and>
    (pp_Overall pit = time_Minute \<or> (\<exists>p \<in> set (an_CarPits an). cp_CarNum p = num \<and>
      (\<exists>i \<in> set (cp_History p). pi_LapExit i <s car_Lc (hd (psr_Cars st)) \<and> pp_Overall pit = toDur (pi_LaneTime i)))) \<and>
    car_CurrentTrackPos cp = car_TrackPos car \<and> (car_InPit cp \<longleftrightarrow> car_State car = CAR_STATE_PIT) \<and>
    car_ParamStintLap cp = car_StintLap car"
proof -
  let ?pd = "live_data epd num sel" and ?lc = "car_Lc (hd (psr_Cars st))"
  let ?sts = "stints_of (cl_Laps cl) cst cur ?lc"
  let ?own = "find (\<lambda>c. cp_CarNum c = num) (an_CarPits an)"
  define pits where "pits = (case ?own of None \<Rightarrow> []
    | Some cp \<Rightarrow> map pi_LaneTime (filter (\<lambda>p. pi_LapExit p <s ?lc) (cp_History cp)))"
  define dd where "dd = \<lparr>dd_stints = ?sts, dd_pits = pits, dd_stateData = car\<rparr>"
  have an: "pd_analysis ?pd = Some an" using assms(1) by (simp add: live_data_def)
  have i: "init ?pd = Some (Inr dd)"
    unfolding dd_def
  proof (rule init_ok[where ci = ci and st = st])
    show "collectStints ?pd (pd_carNum ?pd) ?lc = Some ?sts"
      using collectStints_eq[OF an assms(7-9)] by (simp add: live_data_def)
    show "collectPitstops ?pd (pd_carNum ?pd) ?lc = Some pits"
      using collectPitstops_eq[OF an] by (simp add: live_data_def pits_def)
  qed (use assms in \<open>simp_all add: live_data_def\<close>)
  obtain full where full: "lastFullLap ?pd dd = Some full"
    "full = time_Minute \<or> (\<exists>l \<in> set (cl_Laps cl). lap_LapInfo l = None \<and> full = toDur (lap_LapTime l))"
    using lastFullLap_cases[OF an, of cl dd] assms(7) by (auto simp: live_data_def)
  have r: "raceParam ?pd dd = Some \<lparr>rp_Duration = toDur (ses_TimeRemain session), rp_Lc = car_Lc car,
      rp_Session = toDur (ses_SessionTime session)\<rparr>"
    using assms(3,5) by (simp add: raceParam_def live_data_def dd_def)
  have pit: "pitTime dd = time_Minute \<or> (\<exists>p \<in> set (an_CarPits an). cp_CarNum p = num \<and>
      (\<exists>i \<in> set (cp_History p). pi_LapExit i <s ?lc \<and> pitTime dd = toDur (pi_LaneTime i)))"
  proof (cases "pits = []")
    case False
    then obtain cp where cp: "?own = Some cp" and "last pits \<in> pi_LaneTime ` {i \<in> set (cp_History cp). pi_LapExit i <s ?lc}"
      using last_in_set[of pits] by (auto simp: pits_def split: option.splits)
    moreover from cp have "cp \<in> set (an_CarPits an)" "cp_CarNum cp = num" by (auto simp: find_Some_iff)
    ultimately show ?thesis using False by (force simp: pitTime_def dd_def)
  qed (simp add: pitTime_def dd_def)
  have g: "GetLivePredictParam epd num sel = Some (Inr
      \<lparr>prm_Race = Some \<lparr>rp_Duration = toDur (ses_TimeRemain session), rp_Lc = car_Lc car, rp_Session = toDur (ses_SessionTime session)\<rparr>,
       prm_Stint = Some \<lparr>sp_AvgLaptime = selected_avg sel ?sts full, sp_Lps = laps_per_stint ?sts\<rparr>,
       prm_Pit = Some \<lparr>pp_Overall = pitTime dd, pp_Lane = toDur (calcPitLaneTime ?pd)\<rparr>,
       prm_Car = Some \<lparr>car_CurrentTrackPos = car_TrackPos car, car_InPit = (car_State car = CAR_STATE_PIT),
         car_ParamStintLap = car_StintLap car, car_RemainLapTime = toDur (f32_mul (f32_sub (f32_of_int 1) (car_TrackPos car))
           (f32_of_int (DurationSeconds (selected_avg sel ?sts full))))\<rparr>\<rparr>)"
    unfolding GetLivePredictParam_def predict_def PredictParam_def i
    by (simp add: r avgLaptime_selected[OF full(1)] lps_eq) (simp add: dd_def live_data_def)
  show ?thesis
    by (intro exI, rule conjI, rule g, unfold Let_def, intro conjI) (use full(2) pit in simp_all)
qed

subsection \<open>Panics and defaults\<close>

text \<open>Before the first driver data of an event, or for a car it does not know while the car with index 0 is in the state, the request crashes.\<close>

lemma live_predict_without_data:
  "LastDriverData epd = None \<Longrightarrow> GetLivePredictParam epd num sel = None"
  by (simp add: GetLivePredictParam_def predict_def init_def live_data_def)

lemma live_predict_unknown_car:
  assumes "LastAnalysisData epd = Some an" "LastDriverData epd = Some ci" "LastRaceState epd = Some st"
    "\<forall>c \<in> set (pdr_Entries ci). \<exists>car. ce_Car c = Some car \<and> ci_CarNumber car \<noteq> num"
    "\<exists>car \<in> set (psr_Cars st). car_CarIdx car = 0" "\<forall>c \<in> set (an_CarStints an). cst_CarNum c \<noteq> num"
  shows "GetLivePredictParam epd num sel = None"
proof -
  have "\<forall>c \<in> set (pdr_Entries ci). ce_Car c \<noteq> None" using assms(4) by auto
  from carIdxByCarNum_rev[OF this] obtain m where m: "carIdxByCarNum ci = Some m" "\<forall>num. m num = map_option (\<lambda>c. ci_CarIdx (the (ce_Car c)))
      (find (\<lambda>c. \<exists>car. ce_Car c = Some car \<and> ci_CarNumber car = num) (rev (pdr_Entries ci)))"
    by (auto simp: carIdxByCarNum_def)
  have "find (\<lambda>c. \<exists>car. ce_Car c = Some car \<and> ci_CarNumber car = num) (rev (pdr_Entries ci)) = None"
    using assms(4) by (auto simp: find_None_iff)
  then have num: "m num = None" using m(2) by simp
  have "index_func (\<lambda>c. car_CarIdx c = 0) (psr_Cars st) \<noteq> None" using assms(5) by (auto simp: index_func_None)
  moreover have "psr_Cars st \<noteq> []" using assms(5) by auto
  moreover have "index_func (\<lambda>c. cst_CarNum c = num) (an_CarStints an) = None" using assms(6) by (simp add: index_func_None)
  ultimately show ?thesis
    using assms(1-3) m(1) num
    by (auto simp: GetLivePredictParam_def predict_def init_def live_data_def collectStints_def slice_at_def)
qed

text \<open>The last full lap of the first car of the analysis is never used, whatever its laps.\<close>

lemma first_car_has_no_full_lap:
  assumes "pd_analysis pd = Some an" "an_CarLaps an = cl # cls" "cl_CarNum cl = pd_carNum pd"
  shows "lastFullLap pd dd = Some time_Minute"
  using assms by (simp add: lastFullLap_def)

subsection \<open>An example\<close>

definition demo_lap :: "int32 \<Rightarrow> int \<Rightarrow> LapInfo option \<Rightarrow> Lap" where
  "demo_lap n t info = \<lparr>lap_LapNo = n, lap_LapTime = f32_of_int t, lap_LapInfo = info\<rparr>"

definition demo_laps :: CarLaps where
  "demo_laps = \<lparr>cl_CarNum = ''77'', cl_Laps = [demo_lap 1 70 (Some \<lparr>li_Mode = LAP_MODE_OUTLAP, li_Time = f32_of_int 65\<rparr>),
     demo_lap 2 60 None, demo_lap 3 62 None, demo_lap 4 61 None]\<rparr>"

definition demo_stint :: StintInfo where
  "demo_stint = StintInfo0\<lparr>si_LapExit := 1, si_LapEnter := 4, si_IsCurrentStint := True\<rparr>"

definition demo_laps_analysis :: Analysis where
  "demo_laps_analysis = \<lparr>an_RaceOrder = [''77''], an_CarLaps = [demo_laps], an_CarComputeStates = [],
     an_CarStints = [\<lparr>cst_CarNum = ''77'', cst_Current = Some demo_stint, cst_History = []\<rparr>],
     an_CarPits = [\<lparr>cp_CarNum = ''77'', cp_Current = None, cp_History = []\<rparr>], an_CarOccupancies = [], an_RaceGraph = []\<rparr>"

definition demo_live :: EventProcessingData where
  "demo_live = (new_epd (demo_event 1 ''a'') demo_track (RECORDING_MODE_OTHER 1) ''1'' 0)
     \<lparr>LastAnalysisData := Some demo_laps_analysis, LastDriverData := Some demo_driver_msg,
      LastRaceState := Some (demo_state_msg 100 CAR_STATE_RUN 6)\<rparr>"

text \<open>The average of the stint is taken over its outlap and its full laps.\<close>

lemma demo_stints:
  "stints_of (cl_Laps demo_laps) \<lparr>cst_CarNum = ''77'', cst_Current = Some demo_stint, cst_History = []\<rparr> demo_stint 5 =
     [\<lparr>st_numLaps = 4, st_rAvg = f32_div (f32_add (f32_add (f32_add f32_zero (f32_of_int 65)) (f32_of_int 60)) (f32_of_int 62)) (f32_of_int 3)\<rparr>]"
  by (simp add: stints_of_def List.map_filter_def createStintStats_counted counted_def demo_laps_def demo_lap_def demo_stint_def
      StintInfo0_def min32_def word_sless_alt word_sle_eq)

lemma demo_live_data:
  "LastAnalysisData demo_live = Some demo_laps_analysis" "LastDriverData demo_live = Some demo_driver_msg"
  "LastRaceState demo_live = Some (demo_state_msg 100 CAR_STATE_RUN 6)"
  "\<forall>c \<in> set (pdr_Entries demo_driver_msg). ce_Car c \<noteq> None"
  "psr_Session (demo_state_msg 100 CAR_STATE_RUN 6) = Some (demo_session 100)"
  "car_of demo_driver_msg (demo_state_msg 100 CAR_STATE_RUN 6) ''77'' = Some (demo_car CAR_STATE_RUN 6)"
  "find (\<lambda>c. cl_CarNum c = ''77'') (an_CarLaps demo_laps_analysis) = Some demo_laps"
  "find (\<lambda>c. cst_CarNum c = ''77'') (an_CarStints demo_laps_analysis) =
     Some \<lparr>cst_CarNum = ''77'', cst_Current = Some demo_stint, cst_History = []\<rparr>"
  "cst_Current \<lparr>cst_CarNum = ''77'', cst_Current = Some demo_stint, cst_History = []\<rparr> = Some demo_stint"
  by (simp_all add: demo_live_def demo_laps_analysis_def demo_driver_msg_def demo_state_msg_def car_of_def demo_car_def demo_laps_def)

lemma live_predict_ok_witness:
  "\<exists>race stint pit cp. GetLivePredictParam demo_live ''77'' LAPTIME_SELECTOR_CURRENT_STINT_AVG = Some (Inr
      \<lparr>prm_Race = Some race, prm_Stint = Some stint, prm_Pit = Some pit, prm_Car = Some cp\<rparr>) \<and> sp_Lps stint = 4"
proof -
  have "car_Lc (hd (psr_Cars (demo_state_msg 100 CAR_STATE_RUN 6))) = 5" by (simp add: demo_state_msg_def demo_car_def)
  then show ?thesis
    using live_predict_ok[OF demo_live_data, of LAPTIME_SELECTOR_CURRENT_STINT_AVG]
    by (simp only: demo_stints Let_def) (elim exE conjE, intro exI conjI, assumption, simp add: laps_per_stint_def)
qed

end
