(* ===== verification/Live_Data.thy ===== *)
theory Live_Data
  imports Local_Proxy Range_Stream
begin

text \<open>
  The live data service, pkg/grpc/server/livedata/livedata_server.go, on the local data proxy: its streams send what arrives on the
  data channel of a subscription until the channel is closed or the client is gone.

  What a channel ch has delivered so far is msgs_of ch of the broadcast server, and it is closed once ch is in closed.
  A stream is a function of these: its status and the responses it has sent.  now i is the time at which the response i is made, and send out r tells
  whether stream.Send succeeds after the responses out.  When the handler has returned the goroutine it has started closes the quit channel.
\<close>

subsection \<open>Streams\<close>

datatype live_status = Waiting | Finished | Failed Live_error
and Live_error = LiveNotFound | LiveSendError | NoAnalysisData

definition live_loop :: "chan \<Rightarrow> 'm broadcastServer \<Rightarrow> nat \<Rightarrow> (nat \<Rightarrow> 'm \<Rightarrow> 'r) \<Rightarrow> ('r list \<Rightarrow> 'r \<Rightarrow> bool) \<Rightarrow> 'r list \<Rightarrow>
    live_status \<times> 'r list" where
  \<comment> \<open>range over the data channel; skip messages have been read before\<close>
  "live_loop ch b skip conv send out = (
     let (sent, out) = send_all send (map (\<lambda>(i, m). conv i m) (enumerate (length out) (drop skip (msgs_of ch b)))) out
     in (if \<not> sent then Failed LiveSendError else if ch \<in> set (closed b) then Finished else Waiting, out))"

text \<open>A subscription to a broadcast server that has ended blocks; then the handler waits for ever.\<close>

definition live_stream :: "(lookup_error + chan \<times> EventLookup) run \<Rightarrow> (chan \<Rightarrow> live_status \<times> 'r list) \<Rightarrow> live_status \<times> 'r list" where
  "live_stream subscription body = (case subscription of
     None \<Rightarrow> (Waiting, [])
   | Some (Inl _) \<Rightarrow> (Failed LiveNotFound, [])
   | Some (Inr (dataChan, _)) \<Rightarrow> body dataChan)"

record LiveRaceStateResponse =
  lrs_Timestamp :: "timestamp option"
  lrs_Session :: "Session option"
  lrs_Cars :: "Car list"
  lrs_Messages :: "Message list"

definition LiveRaceState :: "chan \<Rightarrow> EventSelector \<Rightarrow> EventLookup \<Rightarrow>
    (LiveRaceStateResponse list \<Rightarrow> LiveRaceStateResponse \<Rightarrow> bool) \<Rightarrow> PublishStateRequest broadcastServer \<Rightarrow>
    live_status \<times> LiveRaceStateResponse list" where
  "LiveRaceState ch sel el send b = live_stream (SubscribeRaceStateData ch sel el) (\<lambda>dataChan. live_loop dataChan b 0
     (\<lambda>i d. \<lparr>lrs_Timestamp = psr_Timestamp d, lrs_Session = psr_Session d, lrs_Cars = psr_Cars d,
             lrs_Messages = psr_Messages d\<rparr>) send [])"

record LiveAnalysisResponse =
  la_Timestamp :: timestamp
  la_Analysis :: Analysis

definition LiveAnalysis :: "chan \<Rightarrow> EventSelector \<Rightarrow> EventLookup \<Rightarrow> (nat \<Rightarrow> timestamp) \<Rightarrow>
    (LiveAnalysisResponse list \<Rightarrow> LiveAnalysisResponse \<Rightarrow> bool) \<Rightarrow> Analysis broadcastServer \<Rightarrow>
    live_status \<times> LiveAnalysisResponse list" where
  "LiveAnalysis ch sel el now send b = live_stream (SubscribeAnalysisData ch sel el) (\<lambda>dataChan. live_loop dataChan b 0
     (\<lambda>i a. \<lparr>la_Timestamp = now i, la_Analysis = a\<rparr>) send [])"

record LiveSpeedmapResponse =
  lsm_Timestamp :: "timestamp option"
  lsm_Speedmap :: "(string \<times> ClassSpeedmapData) list option"

definition LiveSpeedmap :: "chan \<Rightarrow> EventSelector \<Rightarrow> EventLookup \<Rightarrow>
    (LiveSpeedmapResponse list \<Rightarrow> LiveSpeedmapResponse \<Rightarrow> bool) \<Rightarrow> PublishSpeedmapRequest broadcastServer \<Rightarrow>
    live_status \<times> LiveSpeedmapResponse list" where
  "LiveSpeedmap ch sel el send b = live_stream (SubscribeSpeedmapData ch sel el) (\<lambda>dataChan. live_loop dataChan b 0
     (\<lambda>i a. \<lparr>lsm_Timestamp = psm_Timestamp a, lsm_Speedmap = psm_Speedmap a\<rparr>) send [])"

record LiveSnapshotDataResponse =
  lsd_Timestamp :: timestamp
  lsd_SnapshotData :: SnapshotData

datatype SnapshotStartMode = SNAPSHOT_START_MODE_BEGIN | SNAPSHOT_START_MODE_OTHER int

definition LiveSnapshotData :: "chan \<Rightarrow> EventSelector \<Rightarrow> SnapshotStartMode \<Rightarrow> EventLookup \<Rightarrow> (nat \<Rightarrow> timestamp) \<Rightarrow>
    (LiveSnapshotDataResponse list \<Rightarrow> LiveSnapshotDataResponse \<Rightarrow> bool) \<Rightarrow> SnapshotData broadcastServer \<Rightarrow>
    live_status \<times> LiveSnapshotDataResponse list" where
  "LiveSnapshotData ch sel startFrom el now send b = live_stream (SubscribeSnapshotData ch sel el) (\<lambda>dataChan.
     let resp = (\<lambda>i a. \<lparr>lsd_Timestamp = now i, lsd_SnapshotData = a\<rparr>);
         history = (if startFrom = SNAPSHOT_START_MODE_BEGIN then HistorySnapshotData sel el else []);
         (sent, out) = send_all send (map (\<lambda>(i, a). resp i a) (enumerate 0 history)) []
     in if sent then live_loop dataChan b 0 resp send out else (Failed LiveSendError, out))"

text \<open>The driver data arrive composed: as what the subscription has put on its data channel.\<close>

definition LiveDriverData :: "chan \<Rightarrow> EventSelector \<Rightarrow> EventLookup \<Rightarrow>
    (LiveDriverDataResponse list \<Rightarrow> LiveDriverDataResponse \<Rightarrow> bool) \<Rightarrow> driver_sub \<Rightarrow> live_status \<times> LiveDriverDataResponse list" where
  "LiveDriverData ch sel el send sub = (case SubscribeDriverData ch sel el of
     None \<Rightarrow> (Waiting, [])
   | Some (Inl _) \<Rightarrow> (Failed LiveNotFound, [])
   | Some (Inr _) \<Rightarrow> (let (sent, out) = send_all send (ds_out sub) [] in
       (if \<not> sent then Failed LiveSendError else if ds_closed sub then Finished else Waiting, out)))"

definition LiveCarOccupancies :: "chan \<Rightarrow> EventSelector \<Rightarrow> EventLookup \<Rightarrow>
    (CarOccupancy list list \<Rightarrow> CarOccupancy list \<Rightarrow> bool) \<Rightarrow> Analysis broadcastServer \<Rightarrow>
    live_status \<times> CarOccupancy list list" where
  "LiveCarOccupancies ch sel el send b = live_stream (SubscribeAnalysisData ch sel el) (\<lambda>dataChan.
     live_loop dataChan b 0 (\<lambda>i a. an_CarOccupancies a) send [])"

subsection \<open>Selected analysis data\<close>

datatype AnalysisComponent =
    ANALYSIS_COMPONENT_UNSPECIFIED | ANALYSIS_COMPONENT_CAR_COMPUTE_STATES | ANALYSIS_COMPONENT_CAR_OCCUPANCIES
  | ANALYSIS_COMPONENT_CAR_LAPS | ANALYSIS_COMPONENT_CAR_PITS | ANALYSIS_COMPONENT_CAR_STINTS
  | ANALYSIS_COMPONENT_RACE_ORDER | ANALYSIS_COMPONENT_RACE_GRAPH | ANALYSIS_COMPONENT_OTHER int

record AnalysisSelector =
  as_Components :: "AnalysisComponent list"
  as_CarLapsNumTail :: uint32
  as_RaceGraphNumTail :: uint32

record LiveAnalysisSelResponse =
  ls_Timestamp :: timestamp
  ls_CarOccupancies :: "CarOccupancy list"
  ls_CarLaps :: "CarLaps list"
  ls_CarPits :: "CarPit list"
  ls_CarStints :: "CarStint list"
  ls_RaceOrder :: "string list"
  ls_RaceGraph :: "RaceGraph list"
  ls_CarComputeStates :: "CarComputeState list"
  ls_Snapshots :: "SnapshotData list"

definition tail_of :: "uint32 \<Rightarrow> 'a list \<Rightarrow> 'a list" where
  \<comment> \<open>xs, or its last elements xs[len(xs)-int(tail):] when there are that many\<close>
  "tail_of tail xs = (if length xs < unat tail then xs else drop (length xs - unat tail) xs)"

definition tailedCarlaps :: "CarLaps list \<Rightarrow> uint32 \<Rightarrow> CarLaps list" where
  "tailedCarlaps cls tail = map (\<lambda>r. \<lparr>cl_CarNum = cl_CarNum r, cl_Laps = tail_of tail (cl_Laps r)\<rparr>) cls"

text \<open>The map from car classes to graphs is an association list with distinct keys.\<close>

definition add_graph :: "RaceGraph \<Rightarrow> (string \<times> RaceGraph list) list \<Rightarrow> (string \<times> RaceGraph list) list" where
  "add_graph r ret = (
     let ret = (if map_of ret (rg_CarClass r) = None then AList.update (rg_CarClass r) [] ret else ret)
     in AList.update (rg_CarClass r) (map_get [] (map_of ret) (rg_CarClass r) @ [r]) ret)"

definition toMap :: "RaceGraph list \<Rightarrow> (string \<times> RaceGraph list) list" where
  "toMap gs = fold add_graph gs []"

definition tailedRaceGraph :: "RaceGraph list \<Rightarrow> uint32 \<Rightarrow> RaceGraph list" where
  "tailedRaceGraph gs tail = (let source = toMap gs; keys = sort (map fst source) in
     concat (map (\<lambda>k. tail_of tail (map_get [] (map_of source) k)) keys))"

fun compose_component :: "Analysis \<Rightarrow> AnalysisSelector \<Rightarrow> AnalysisComponent \<Rightarrow> LiveAnalysisSelResponse \<Rightarrow> LiveAnalysisSelResponse" where
  "compose_component a sel ANALYSIS_COMPONENT_CAR_COMPUTE_STATES ret = ret\<lparr>ls_CarComputeStates := an_CarComputeStates a\<rparr>"
| "compose_component a sel ANALYSIS_COMPONENT_CAR_OCCUPANCIES ret = ret\<lparr>ls_CarOccupancies := an_CarOccupancies a\<rparr>"
| "compose_component a sel ANALYSIS_COMPONENT_CAR_LAPS ret = ret\<lparr>ls_CarLaps := tailedCarlaps (an_CarLaps a) (as_CarLapsNumTail sel)\<rparr>"
| "compose_component a sel ANALYSIS_COMPONENT_CAR_PITS ret = ret\<lparr>ls_CarPits := an_CarPits a\<rparr>"
| "compose_component a sel ANALYSIS_COMPONENT_CAR_STINTS ret = ret\<lparr>ls_CarStints := an_CarStints a\<rparr>"
| "compose_component a sel ANALYSIS_COMPONENT_RACE_ORDER ret = ret\<lparr>ls_RaceOrder := an_RaceOrder a\<rparr>"
| "compose_component a sel ANALYSIS_COMPONENT_RACE_GRAPH ret = ret\<lparr>ls_RaceGraph := tailedRaceGraph (an_RaceGraph a) (as_RaceGraphNumTail sel)\<rparr>"
| "compose_component a sel ANALYSIS_COMPONENT_UNSPECIFIED ret = ret"
| "compose_component a sel (ANALYSIS_COMPONENT_OTHER _) ret = ret"

definition empty_response :: "timestamp \<Rightarrow> LiveAnalysisSelResponse" where
  "empty_response t = \<lparr>ls_Timestamp = t, ls_CarOccupancies = [], ls_CarLaps = [], ls_CarPits = [], ls_CarStints = [],
     ls_RaceOrder = [], ls_RaceGraph = [], ls_CarComputeStates = [], ls_Snapshots = []\<rparr>"

definition composeAnalysisResponse :: "timestamp \<Rightarrow> Analysis \<Rightarrow> AnalysisSelector \<Rightarrow> LiveAnalysisSelResponse" where
  "composeAnalysisResponse t a sel = fold (compose_component a sel) (as_Components sel) (empty_response t)"

definition first_response :: "timestamp \<Rightarrow> Analysis \<Rightarrow> SnapshotData list \<Rightarrow> LiveAnalysisSelResponse" where
  "first_response t a snapshots = \<lparr>ls_Timestamp = t, ls_CarOccupancies = an_CarOccupancies a, ls_CarLaps = an_CarLaps a,
     ls_CarPits = an_CarPits a, ls_CarStints = an_CarStints a, ls_RaceOrder = an_RaceOrder a, ls_RaceGraph = an_RaceGraph a,
     ls_CarComputeStates = an_CarComputeStates a, ls_Snapshots = snapshots\<rparr>"

text \<open>
  The first message is sent as a whole, the ones after it as selected.  A request without a selector is a nil dereference
  (None) as soon as a second message arrives.
\<close>

definition LiveAnalysisSel :: "chan \<Rightarrow> EventSelector \<Rightarrow> AnalysisSelector option \<Rightarrow> EventLookup \<Rightarrow> (nat \<Rightarrow> timestamp) \<Rightarrow>
    (LiveAnalysisSelResponse list \<Rightarrow> LiveAnalysisSelResponse \<Rightarrow> bool) \<Rightarrow> Analysis broadcastServer \<Rightarrow>
    (live_status \<times> LiveAnalysisSelResponse list) run" where
  "LiveAnalysisSel ch ev sel el now send b = (case SubscribeAnalysisData ch ev el of
     None \<Rightarrow> Some (Waiting, [])
   | Some (Inl _) \<Rightarrow> Some (Failed LiveNotFound, [])
   | Some (Inr (dataChan, _)) \<Rightarrow> (case msgs_of dataChan b of
       [] \<Rightarrow> Some (if dataChan \<in> set (closed b) then Failed NoAnalysisData else Waiting, [])
     | a # rest \<Rightarrow>
         (let resp = first_response (now 0) a (HistorySnapshotData ev el) in
          if \<not> send [] resp then Some (Failed LiveSendError, [])
          else case sel of
            None \<Rightarrow> if rest = [] then Some (if dataChan \<in> set (closed b) then Finished else Waiting, [resp]) else None
          | Some sel \<Rightarrow> Some (live_loop dataChan b 1 (\<lambda>i a. composeAnalysisResponse (now i) a sel) send [resp]))))"

end
