(* ===== verification/Live_Properties.thy ===== *)
theory Live_Properties
  imports Live_Data
begin

text \<open>
  What a live client receives: messages of the broadcast server in order, the first analysis as a whole and then the selected parts,
  the laps and race graphs cut to their tails.
\<close>

subsection \<open>Tails\<close>

lemma tail_of_drop: "tail_of n xs = drop (length xs - unat n) xs"
  by (simp add: tail_of_def)

lemma map_of_add_graph:
  "map_of (add_graph g m) = (map_of m)(rg_CarClass g \<mapsto> map_get [] (map_of m) (rg_CarClass g) @ [g])"
  by (auto simp: add_graph_def Let_def update_conv' map_get_def fun_eq_iff)

lemma keys_add_graph: "distinct (map fst m) \<Longrightarrow>
    distinct (map fst (add_graph g m)) \<and> set (map fst (add_graph g m)) = insert (rg_CarClass g) (set (map fst m))"
  by (auto simp: add_graph_def Let_def distinct_update dom_update)

lemma toMap_class: "map_get [] (map_of (fold add_graph gs m)) k =
    map_get [] (map_of m) k @ filter (\<lambda>g. rg_CarClass g = k) gs"
  by (induction gs arbitrary: m) (auto simp: map_of_add_graph map_get_def)

lemma toMap_keys: "distinct (map fst m) \<Longrightarrow> distinct (map fst (fold add_graph gs m)) \<and>
    set (map fst (fold add_graph gs m)) = set (map fst m) \<union> rg_CarClass ` set gs"
proof (induction gs arbitrary: m)
  case (Cons g gs)
  from keys_add_graph[OF Cons.prems, of g] Cons.IH[of "add_graph g m"] show ?case by auto
qed simp

lemma filter_concat_classes:
  assumes "distinct ks" "\<And>k g. g \<in> set (f k) \<Longrightarrow> c g = k"
  shows "filter (\<lambda>g. c g = k) (concat (map f ks)) = (if k \<in> set ks then f k else [])"
  using assms
proof (induction ks)
  case (Cons l ks)
  have "filter (\<lambda>g. c g = k) (f l) = (if l = k then f k else [])"
    using Cons.prems(2) by (auto simp: filter_id_conv filter_empty_conv)
  with Cons show ?case by auto
qed simp

lemma sorted_concat_classes:
  fixes c :: "'a \<Rightarrow> 'k::linorder"
  assumes "sorted ks" "\<And>k g. g \<in> set (f k) \<Longrightarrow> c g = k"
  shows "sorted (map c (concat (map f ks)))"
  using assms
proof (induction ks)
  case (Cons l ks)
  have "map c (f l) = replicate (length (f l)) l" using Cons.prems(2) by (simp add: map_replicate_const[symmetric] cong: map_cong)
  moreover have "\<forall>g \<in> set (concat (map f ks)). l \<le> c g" using Cons.prems by fastforce
  ultimately show ?case using Cons by (auto simp: sorted_append sorted_replicate)
qed simp

lemma tailedRaceGraph_spec:
  "filter (\<lambda>g. rg_CarClass g = k) (tailedRaceGraph gs n) = tail_of n (filter (\<lambda>g. rg_CarClass g = k) gs)"
  "sorted (map rg_CarClass (tailedRaceGraph gs n))"
proof -
  let ?f = "\<lambda>k. tail_of n (filter (\<lambda>g. rg_CarClass g = k) gs)" and ?ks = "sort (map fst (toMap gs))"
  have eq: "tailedRaceGraph gs n = concat (map ?f ?ks)"
    using toMap_class[of gs "[]"] by (simp add: tailedRaceGraph_def Let_def toMap_def)
  have cls: "g \<in> set (?f k) \<Longrightarrow> rg_CarClass g = k" for g k by (auto simp: tail_of_drop dest: in_set_dropD)
  have keys: "distinct ?ks" "set ?ks = rg_CarClass ` set gs" using toMap_keys[of "[]" gs] by (simp_all add: toMap_def)
  have "?f k = []" if "k \<notin> set ?ks"
  proof -
    have "filter (\<lambda>g. rg_CarClass g = k) gs = []" using that unfolding keys(2) by (auto simp: filter_empty_conv)
    then show ?thesis by (simp add: tail_of_drop)
  qed
  then show "filter (\<lambda>g. rg_CarClass g = k) (tailedRaceGraph gs n) = ?f k"
    unfolding eq using filter_concat_classes[of ?ks ?f rg_CarClass k, OF keys(1) cls] by simp
  show "sorted (map rg_CarClass (tailedRaceGraph gs n))"
    unfolding eq by (rule sorted_concat_classes[OF sorted_sort cls])
qed

subsection \<open>Selection\<close>

definition selected :: "AnalysisSelector \<Rightarrow> AnalysisComponent \<Rightarrow> 'a list \<Rightarrow> 'a list" where
  "selected sel c xs = (if c \<in> set (as_Components sel) then xs else [])"

definition selection_of :: "AnalysisSelector \<Rightarrow> Analysis \<Rightarrow> timestamp \<Rightarrow> LiveAnalysisSelResponse" where
  "selection_of sel a t = \<lparr>ls_Timestamp = t,
     ls_CarOccupancies = selected sel ANALYSIS_COMPONENT_CAR_OCCUPANCIES (an_CarOccupancies a),
     ls_CarLaps = selected sel ANALYSIS_COMPONENT_CAR_LAPS (tailedCarlaps (an_CarLaps a) (as_CarLapsNumTail sel)),
     ls_CarPits = selected sel ANALYSIS_COMPONENT_CAR_PITS (an_CarPits a),
     ls_CarStints = selected sel ANALYSIS_COMPONENT_CAR_STINTS (an_CarStints a),
     ls_RaceOrder = selected sel ANALYSIS_COMPONENT_RACE_ORDER (an_RaceOrder a),
     ls_RaceGraph = selected sel ANALYSIS_COMPONENT_RACE_GRAPH (tailedRaceGraph (an_RaceGraph a) (as_RaceGraphNumTail sel)),
     ls_CarComputeStates = selected sel ANALYSIS_COMPONENT_CAR_COMPUTE_STATES (an_CarComputeStates a),
     ls_Snapshots = []\<rparr>"

lemma compose_components:
  "fold (compose_component a sel) cs ret = ret\<lparr>
     ls_CarOccupancies := if ANALYSIS_COMPONENT_CAR_OCCUPANCIES \<in> set cs then an_CarOccupancies a else ls_CarOccupancies ret,
     ls_CarLaps := if ANALYSIS_COMPONENT_CAR_LAPS \<in> set cs then tailedCarlaps (an_CarLaps a) (as_CarLapsNumTail sel) else ls_CarLaps ret,
     ls_CarPits := if ANALYSIS_COMPONENT_CAR_PITS \<in> set cs then an_CarPits a else ls_CarPits ret,
     ls_CarStints := if ANALYSIS_COMPONENT_CAR_STINTS \<in> set cs then an_CarStints a else ls_CarStints ret,
     ls_RaceOrder := if ANALYSIS_COMPONENT_RACE_ORDER \<in> set cs then an_RaceOrder a else ls_RaceOrder ret,
     ls_RaceGraph := if ANALYSIS_COMPONENT_RACE_GRAPH \<in> set cs then tailedRaceGraph (an_RaceGraph a) (as_RaceGraphNumTail sel) else ls_RaceGraph ret,
     ls_CarComputeStates := if ANALYSIS_COMPONENT_CAR_COMPUTE_STATES \<in> set cs then an_CarComputeStates a else ls_CarComputeStates ret\<rparr>"
proof (induction cs arbitrary: ret)
  case (Cons c cs)
  show ?case by (cases c) (simp_all add: Cons.IH)
qed simp

lemma composeAnalysisResponse_selection: "composeAnalysisResponse t a sel = selection_of sel a t"
  by (simp add: composeAnalysisResponse_def compose_components selection_of_def selected_def empty_response_def)

subsection \<open>Streams\<close>

lemma live_loop_ok: "live_loop ch b skip conv (\<lambda>_ _. True) out =
    (if ch \<in> set (closed b) then Finished else Waiting,
     out @ map (\<lambda>(i, m). conv i m) (enumerate (length out) (drop skip (msgs_of ch b))))"
  by (simp add: live_loop_def send_all_ok)


text \<open>
  A live race state stream sends the states its channel has got in order, a subsequence of what the event broadcast since the
  subscription; an unknown event is an error and nothing is sent.
\<close>

lemma live_states_in_order:
  assumes "reach b" "SubscribeRaceStateData ch sel el = Some r"
  shows "case r of
      Inl _ \<Rightarrow> LiveRaceState ch sel el send b = (Failed LiveNotFound, [])
    | Inr (dataChan, _) \<Rightarrow> \<exists>ms. LiveRaceState ch sel el (\<lambda>_ _. True) b =
        (if dataChan \<in> set (closed b) then Finished else Waiting,
         map (\<lambda>d. \<lparr>lrs_Timestamp = psr_Timestamp d, lrs_Session = psr_Session d, lrs_Cars = psr_Cars d, lrs_Messages = psr_Messages d\<rparr>) ms) \<and>
        subseq ms (received b)"
proof (cases r)
  case (Inr p)
  then obtain dataChan el' where p: "r = Inr (dataChan, el')" by (cases p) auto
  have conv: "map (\<lambda>(i, m). f m) (enumerate n ms) = map f ms" for n f and ms :: "PublishStateRequest list"
    by (induction ms arbitrary: n) simp_all
  have "subseq (msgs_of dataChan b) (received b)" using reach_inv[OF assms(1)] by (simp add: bcast_inv_def)
  then show ?thesis
    using assms(2) by (auto simp: p LiveRaceState_def live_stream_def live_loop_ok conv)
qed (use assms(2) in \<open>simp add: LiveRaceState_def live_stream_def\<close>)

text \<open>A request without a selector crashes when the second analysis arrives.\<close>

lemma live_analysis_without_selector:
  assumes "SubscribeAnalysisData ch ev el = Some (Inr (ch, el'))" "msgs_of ch b = a # a' # rest"
  shows "LiveAnalysisSel ch ev None el now (\<lambda>_ _. True) b = None"
  using assms by (simp add: LiveAnalysisSel_def Let_def)

subsection \<open>Examples\<close>

text \<open>A broadcast server with one listener that has taken every message.\<close>

definition played :: "chan \<Rightarrow> 'm list \<Rightarrow> 'm broadcastServer" where
  "played ch ms = NewBroadcastServer\<lparr>listeners := [ch], subscribed := [ch], numRcv := length ms, numSnd := length ms,
     received := ms, delivered := map (Pair ch) ms\<rparr>"

lemma played_reach: "reach (played ch ms)"
proof (induction ms rule: rev_induct)
  case Nil
  show ?case by (rule subscribe[OF start, of ch]) (simp_all add: NewBroadcastServer_def client_defs played_def)
next
  case (snoc m ms)
  show ?case
    by (rule message[OF snoc, of m "\<lambda>_. True"]) (simp_all add: played_def NewBroadcastServer_def deliver_def)
qed

lemma played_msgs: "msgs_of ch (played ch ms) = ms" "ch \<notin> set (closed (played ch ms))"
  by (induction ms) (simp_all add: msgs_of_def played_def NewBroadcastServer_def)

definition demo_graph :: "string \<Rightarrow> int32 \<Rightarrow> RaceGraph" where
  "demo_graph c n = \<lparr>rg_LapNo = n, rg_CarClass = c, rg_Gaps = []\<rparr>"

definition demo_graphs :: "int32 \<Rightarrow> Analysis" where
  "demo_graphs n = \<lparr>an_RaceOrder = [''1''], an_CarLaps = [], an_CarComputeStates = [], an_CarStints = [], an_CarPits = [],
     an_CarOccupancies = [], an_RaceGraph = [demo_graph ''B'' (n - 1), demo_graph ''A'' (n - 1), demo_graph ''B'' n, demo_graph ''A'' n]\<rparr>"

definition demo_selector :: AnalysisSelector where
  "demo_selector = \<lparr>as_Components = [ANALYSIS_COMPONENT_RACE_GRAPH], as_CarLapsNumTail = 0, as_RaceGraphNumTail = 1\<rparr>"

lemma demo_subscription:
  "\<exists>el. SubscribeAnalysisData 5 (EventSelector_Key ''a'') demo_lookup = Some (Inr (5, el))"
  "\<exists>el. SubscribeRaceStateData 5 (EventSelector_Key ''a'') demo_lookup = Some (Inr (5, el))"
  by (simp_all add: SubscribeAnalysisData_def SubscribeRaceStateData_def subscribe_with_def GetEvent_def demo_lookup_entries
      client_call_def new_epd_def Let_def own_listener_def NewBroadcastServer_def Subscribe_def)


lemma live_states_in_order_witness:
  "\<exists>r. LiveRaceState 5 (EventSelector_Key ''a'') demo_lookup (\<lambda>_ _. True) (played 5 []) = (Waiting, r)"
proof -
  obtain el where "SubscribeRaceStateData 5 (EventSelector_Key ''a'') demo_lookup = Some (Inr (5, el))"
    using demo_subscription(2) by blast
  from live_states_in_order[OF played_reach[of 5 "[]"] this] show ?thesis
    using played_msgs(2)[of 5 "[] :: PublishStateRequest list"] by (auto split: if_splits)
qed

end
