(* ===== verification/Tables.thy ===== *)
theory Tables
  imports Repository_Properties Auth
begin

text \<open>
  The tables of the database besides the recorded messages, and the statements the repositories run on them through
  the query builder: a select of the rows with a condition, an insert that returns the new row, an update and a delete of the
  rows with a condition.

  The database system is not part of the repository.  A table is a record of functions that run a statement on the
  database, and what SQL promises of them is the locale sql_table: the order of selected rows is left open, and a
  statement that fails changes nothing.  A condition is a predicate on rows; an insert gets the row as a function of the id the
  database chooses (a column of type serial).  Columns that hold JSON are their decoded values.
\<close>

subsection \<open>Statements\<close>

record ('db, 'r, 'e) Table =
  tb_All :: "'db \<Rightarrow> ('r \<Rightarrow> bool) \<Rightarrow> 'e + 'r list"
  tb_Insert :: "'db \<Rightarrow> (int32 \<Rightarrow> 'r) \<Rightarrow> ('e + 'r) \<times> 'db"
  tb_Update :: "'db \<Rightarrow> ('r \<Rightarrow> 'r) \<Rightarrow> ('r \<Rightarrow> bool) \<Rightarrow> ('e + int) \<times> 'db"
  tb_Delete :: "'db \<Rightarrow> ('r \<Rightarrow> bool) \<Rightarrow> ('e + int) \<times> 'db"

text \<open>Query.One: the first row, or the error sql.ErrNoRows.\<close>

definition one_row :: "'e \<Rightarrow> 'e + 'r list \<Rightarrow> 'e + 'r" where
  "one_row noRows res = (case res of Inl err \<Rightarrow> Inl err | Inr [] \<Rightarrow> Inl noRows | Inr (r # _) \<Rightarrow> Inr r)"

text \<open>The error and the database after a statement, and the next statement of a function that returns on an error.\<close>

definition andThen :: "('e + 'a) \<times> 'db \<Rightarrow> ('a \<Rightarrow> 'db \<Rightarrow> ('e + 'b) \<times> 'db) \<Rightarrow> ('e + 'b) \<times> 'db" where
  "andThen r k = (case r of (Inl err, db) \<Rightarrow> (Inl err, db) | (Inr x, db) \<Rightarrow> k x db)"

lemma andThen_simps [simp]: "andThen (Inl err, db) k = (Inl err, db)" "andThen (Inr x, db) k = k x db"
  by (simp_all add: andThen_def)

lemma andThen_Inr: "andThen r k = (Inr y, db') \<longleftrightarrow> (\<exists>x db. r = (Inr x, db) \<and> k x db = (Inr y, db'))"
  by (cases r; cases "fst r") auto

text \<open>A range loop whose body may panic or return an error.\<close>

primrec for_each :: "('a \<Rightarrow> 's \<Rightarrow> 'db \<Rightarrow> (('e + 's) \<times> 'db) run) \<Rightarrow> 'a list \<Rightarrow> 's \<Rightarrow> 'db \<Rightarrow> (('e + 's) \<times> 'db) run" where
  "for_each body [] s db = Some (Inr s, db)"
| "for_each body (x # xs) s db = Option.bind (body x s db) (\<lambda>r. case r of
     (Inl err, db) \<Rightarrow> Some (Inl err, db) | (Inr s, db) \<Rightarrow> for_each body xs s db)"

lemma for_each_prefix_inv:
  assumes "for_each body xs s db = Some (Inr s', db')" "I [] s db"
    and "\<And>pre x post s db s1 db1. xs = pre @ x # post \<Longrightarrow> I pre s db \<Longrightarrow> body x s db = Some (Inr s1, db1) \<Longrightarrow> I (pre @ [x]) s1 db1"
  shows "I xs s' db'"
proof -
  have "I (ys @ xs) s' db'" if "for_each body xs s db = Some (Inr s', db')" "I ys s db"
    and "\<And>pre x post s db s1 db1. ys @ xs = pre @ x # post \<Longrightarrow> I pre s db \<Longrightarrow> body x s db = Some (Inr s1, db1) \<Longrightarrow> I (pre @ [x]) s1 db1" for ys s db xs
    using that
  proof (induction xs arbitrary: ys s db)
    case (Cons x xs)
    then obtain s1 db1 where s1: "body x s db = Some (Inr s1, db1)" "for_each body xs s1 db1 = Some (Inr s', db')"
      by (auto split: Option.bind_splits sum.splits prod.splits)
    have "I (ys @ [x]) s1 db1" using Cons.prems(2,3) s1(1) by blast
    with Cons.IH[of s1 db1 "ys @ [x]"] Cons.prems(3) s1(2) show ?case by simp
  qed simp
  from this[OF assms(1), of "[]"] assms(2,3) show ?thesis by simp
qed

lemma for_each_inv:
  assumes "for_each body xs s db = Some (Inr s', db')" "I [] s db"
    and "\<And>pre x s db s1 db1. x \<in> set xs \<Longrightarrow> I pre s db \<Longrightarrow> body x s db = Some (Inr s1, db1) \<Longrightarrow> I (pre @ [x]) s1 db1"
  shows "I xs s' db'"
  by (rule for_each_prefix_inv[where I = I, OF assms(1,2)]) (use assms(3) in simp)

lemma for_each_skip: "\<forall>x \<in> set xs. body x s db = Some (Inr s, db) \<Longrightarrow> for_each body xs s db = Some (Inr s, db)"
  by (induction xs) auto

subsection \<open>What SQL promises\<close>

text \<open>
  rows are the rows of the table in the database, put stores them, key is the primary key of a row and stored the row as the columns
  hold it (a timestamp column, for one, keeps microseconds).
\<close>

locale sql_table =
  fixes rows :: "'db \<Rightarrow> 'r list"
    and put :: "'r list \<Rightarrow> 'db \<Rightarrow> 'db"
    and key :: "'r \<Rightarrow> int32"
    and stored :: "'r \<Rightarrow> 'r"
    and tb :: "('db, 'r, 'e) Table"
  assumes rows_put: "rows (put rs db) = rs"
    and put_rows: "put (rows db) db = db"
    and put_put: "put rs (put rs' db) = put rs db"
    and select: "tb_All tb db P = Inr rs \<Longrightarrow> mset rs = mset (filter P (rows db))"
    and insert_ok: "tb_Insert tb db f = (Inr r, db') \<Longrightarrow> \<exists>i rs. r = stored (f i) \<and> key r \<notin> key ` set (rows db) \<and>
      db' = put rs db \<and> mset rs = add_mset r (mset (rows db))"
    and insert_err: "tb_Insert tb db f = (Inl err, db') \<Longrightarrow> db' = db"
    and update_ok: "tb_Update tb db g P = (Inr n, db') \<Longrightarrow> \<exists>rs. db' = put rs db \<and>
      mset rs = mset (map (\<lambda>r. if P r then stored (g r) else r) (rows db)) \<and> n = int (length (filter P (rows db)))"
    and update_err: "tb_Update tb db g P = (Inl err, db') \<Longrightarrow> db' = db"
    and delete_ok: "tb_Delete tb db P = (Inr n, db') \<Longrightarrow> \<exists>rs. db' = put rs db \<and>
      mset rs = mset (filter (\<lambda>r. \<not> P r) (rows db)) \<and> n = int (length (filter P (rows db)))"
    and delete_err: "tb_Delete tb db P = (Inl err, db') \<Longrightarrow> db' = db"
begin

lemma select_set: "tb_All tb db P = Inr rs \<Longrightarrow> set rs = {r \<in> set (rows db). P r}"
  using mset_eq_setD[OF select] by fastforce

lemma one_Inr:
  assumes "one_row noRows (tb_All tb db P) = Inr r"
  shows "r \<in> set (rows db) \<and> P r"
proof -
  obtain rs where "tb_All tb db P = Inr rs" "r \<in> set rs"
    using assms by (auto simp: one_row_def split: sum.splits list.splits)
  with select_set[of db P rs] show ?thesis by auto
qed

text \<open>Of one row there is one answer.\<close>

lemma one_unique:
  assumes "tb_All tb db P = Inr rs" "r \<in> set (rows db)" "P r" "\<And>r'. r' \<in> set (rows db) \<Longrightarrow> P r' \<Longrightarrow> r' = r"
  shows "one_row noRows (tb_All tb db P) = Inr r"
proof -
  have "{r \<in> set (rows db). P r} = {r}" using assms(2,3) by (blast intro: assms(4))
  then have "set rs = {r}" using select_set[OF assms(1)] by simp
  with assms(1) show ?thesis by (cases rs) (auto simp: one_row_def)
qed

lemma insert_rows:
  assumes "tb_Insert tb db f = (Inr r, db')"
  shows "set (rows db') = insert r (set (rows db)) \<and> mset (rows db') = add_mset r (mset (rows db)) \<and> (\<exists>i. r = stored (f i))"
proof -
  obtain i rs where i: "r = stored (f i)" and rs: "db' = put rs db" "mset rs = add_mset r (mset (rows db))"
    using insert_ok[OF assms] by blast
  from rs(2) have "set rs = insert r (set (rows db))" using mset_eq_setD[of rs "r # rows db"] by simp
  then show ?thesis using i rs by (simp add: rows_put) blast
qed

lemma insert_fresh: "tb_Insert tb db f = (Inr r, db') \<Longrightarrow> key r \<notin> key ` set (rows db)"
  using insert_ok[of db f r db'] by blast

lemma delete_rows:
  assumes "tb_Delete tb db P = (Inr n, db')"
  shows "set (rows db') = {r \<in> set (rows db). \<not> P r} \<and> mset (rows db') = mset (filter (\<lambda>r. \<not> P r) (rows db))"
proof -
  obtain rs where rs: "db' = put rs db" "mset rs = mset (filter (\<lambda>r. \<not> P r) (rows db))" using delete_ok[OF assms] by blast
  show ?thesis using mset_eq_setD[OF rs(2)] rs by (simp add: rows_put)
qed

lemma update_rows:
  assumes "tb_Update tb db g P = (Inr n, db')"
  shows "set (rows db') = (\<lambda>r. if P r then stored (g r) else r) ` set (rows db)"
proof -
  obtain rs where rs: "db' = put rs db" "mset rs = mset (map (\<lambda>r. if P r then stored (g r) else r) (rows db))"
    using update_ok[OF assms] by blast
  show ?thesis using mset_eq_setD[OF rs(2)] rs(1) by (simp add: rows_put)
qed

text \<open>A loop that inserts a row for every element, threading a state.\<close>

lemma insert_each:
  assumes "for_each (\<lambda>x s db. Some (andThen (tb_Insert tb db (f s x)) (\<lambda>r db. (Inr (g x r s), db)))) xs s db = Some (Inr s', db')"
  shows "\<exists>rs. db' = put rs db \<and> set (rows db) \<subseteq> set rs \<and>
    (\<forall>r \<in> set rs - set (rows db). \<exists>x \<in> set xs. \<exists>s i. r = stored (f s x i)) \<and>
    (\<forall>x \<in> set xs. \<exists>r \<in> set rs. \<exists>s i. r = stored (f s x i))"
proof (rule for_each_inv[OF assms, where I = "\<lambda>pre _ d. \<exists>rs. d = put rs db \<and> set (rows db) \<subseteq> set rs \<and>
    (\<forall>r \<in> set rs - set (rows db). \<exists>x \<in> set xs. \<exists>s i. r = stored (f s x i)) \<and>
    (\<forall>x \<in> set pre. \<exists>r \<in> set rs. \<exists>s i. r = stored (f s x i))"])
  show "\<exists>rs. db = put rs db \<and> set (rows db) \<subseteq> set rs \<and>
      (\<forall>r \<in> set rs - set (rows db). \<exists>x \<in> set xs. \<exists>s i. r = stored (f s x i)) \<and>
      (\<forall>x \<in> set []. \<exists>r \<in> set rs. \<exists>s i. r = stored (f s x i))"
    by (rule exI[of _ "rows db"]) (simp add: put_rows)
next
  fix pre x s d s1 d1
  assume x: "x \<in> set xs"
    and "\<exists>rs. d = put rs db \<and> set (rows db) \<subseteq> set rs \<and>
      (\<forall>r \<in> set rs - set (rows db). \<exists>x \<in> set xs. \<exists>s i. r = stored (f s x i)) \<and>
      (\<forall>x \<in> set pre. \<exists>r \<in> set rs. \<exists>s i. r = stored (f s x i))"
    and body: "Some (andThen (tb_Insert tb d (f s x)) (\<lambda>r db. (Inr (g x r s), db))) = Some (Inr s1, d1)"
  then obtain rs where rs: "d = put rs db" "set (rows db) \<subseteq> set rs"
    "\<forall>r \<in> set rs - set (rows db). \<exists>x \<in> set xs. \<exists>s i. r = stored (f s x i)"
    "\<forall>x \<in> set pre. \<exists>r \<in> set rs. \<exists>s i. r = stored (f s x i)" by blast
  from body obtain r where ins: "tb_Insert tb d (f s x) = (Inr r, d1)" by (auto simp: andThen_Inr)
  from insert_ok[OF ins] obtain i rs1 where r: "r = stored (f s x i)" and d1: "d1 = put rs1 d" by blast
  have "set rs1 = insert r (set rs)" using insert_rows[OF ins] d1 rs(1) by (simp add: rows_put)
  then show "\<exists>rs. d1 = put rs db \<and> set (rows db) \<subseteq> set rs \<and>
      (\<forall>r \<in> set rs - set (rows db). \<exists>x \<in> set xs. \<exists>s i. r = stored (f s x i)) \<and>
      (\<forall>x \<in> set (pre @ [x]). \<exists>r \<in> set rs. \<exists>s i. r = stored (f s x i))"
    using rs d1 r x by (intro exI[of _ rs1]) (auto simp: put_put)
qed

text \<open>Whatever a statement of this table does, another part of the database stays.\<close>

lemma frame:
  assumes "\<And>rs db. other (put rs db) = other db"
  shows "other (snd (tb_Insert tb db f)) = other db" "other (snd (tb_Update tb db g P)) = other db"
    "other (snd (tb_Delete tb db P)) = other db"
proof -
  show "other (snd (tb_Insert tb db f)) = other db"
    using insert_ok[of db f] insert_err[of db f] assms by (cases "tb_Insert tb db f"; cases "fst (tb_Insert tb db f)") auto
  show "other (snd (tb_Update tb db g P)) = other db"
    using update_ok[of db g P] update_err[of db g P] assms
    by (cases "tb_Update tb db g P"; cases "fst (tb_Update tb db g P)") auto
  show "other (snd (tb_Delete tb db P)) = other db"
    using delete_ok[of db P] delete_err[of db P] assms
    by (cases "tb_Delete tb db P"; cases "fst (tb_Delete tb db P)") auto
qed

end

subsection \<open>A table in memory\<close>

text \<open>It keeps the rows in the order of insertion, numbers them one after the other and refuses a key that is there.\<close>

definition mem_table :: "('db \<Rightarrow> 'r list) \<Rightarrow> ('r list \<Rightarrow> 'db \<Rightarrow> 'db) \<Rightarrow> ('r \<Rightarrow> int32) \<Rightarrow> 'e \<Rightarrow> ('db, 'r, 'e) Table" where
  "mem_table rows put key err = \<lparr>
     tb_All = (\<lambda>db P. Inr (filter P (rows db))),
     tb_Insert = (\<lambda>db f. let r = f (word_of_nat (Suc (length (rows db)))) in
       if key r \<in> set (map key (rows db)) then (Inl err, db) else (Inr r, put (rows db @ [r]) db)),
     tb_Update = (\<lambda>db g P. (Inr (int (length (filter P (rows db)))), put (map (\<lambda>r. if P r then g r else r) (rows db)) db)),
     tb_Delete = (\<lambda>db P. (Inr (int (length (filter P (rows db)))), put (filter (\<lambda>r. \<not> P r) (rows db)) db))\<rparr>"

lemma mem_table_sql:
  assumes "\<And>rs db. rows (put rs db) = rs" "\<And>db. put (rows db) db = db" "\<And>rs rs' db. put rs (put rs' db) = put rs db"
  shows "sql_table rows put key id (mem_table rows put key err)"
proof unfold_locales
  fix db g P n db'
  assume "tb_Update (mem_table rows put key err) db g P = (Inr n, db')"
  then show "\<exists>rs. db' = put rs db \<and> mset rs = mset (map (\<lambda>r. if P r then id (g r) else r) (rows db)) \<and>
      n = int (length (filter P (rows db)))"
    by (intro exI[of _ "map (\<lambda>r. if P r then g r else r) (rows db)"]) (simp add: mem_table_def cong: if_cong)
qed (auto simp: mem_table_def Let_def assms split: if_splits)

end
