(* ===== verification/Master_Data.thy ===== *)
theory Master_Data
  imports Tables State_Server Provider_Server
begin

text \<open>
  The repositories of tenants, tracks, events, stored analyses and extra information
  (pkg/grpc/repository/bob: tenant, track, event, event/ext, analysis), which map messages to rows and back.

  The context's transaction is left out of the operations: a database state is passed along, and the caller decides with
  RunInTx what becomes of it.  Decimals, uuids and the protobuf codec are parameters; a decimal of a NaN or an infinity
  is outside the model.
\<close>

subsection \<open>Rows\<close>

record 'u TenantRow =
  tn_ID :: int32
  tn_ExternalID :: 'u
  tn_Name :: string
  tn_APIKey :: string
  tn_Active :: bool

record 'd TrackRow =
  tk_ID :: int32
  tk_Name :: string
  tk_ShortName :: string
  tk_Config :: string
  tk_TrackLength :: 'd
  tk_Sectors :: "Sector list"
  tk_PitSpeed :: 'd
  tk_PitEntry :: 'd
  tk_PitExit :: 'd
  tk_PitLaneLength :: 'd

text \<open>A column that may be NULL is an option; columns the setter omits have their default.\<close>

record 'd EventRow =
  evr_ID :: int32
  evr_EventKey :: string
  evr_Name :: string
  evr_Description :: "string option"
  evr_EventTime :: timestamp
  evr_RaceloggerVersion :: string
  evr_TeamRacing :: bool
  evr_MultiClass :: bool
  evr_NumCarTypes :: int32
  evr_NumCarClasses :: int32
  evr_IrSessionID :: "int32 option"
  evr_TrackID :: int32
  evr_PitSpeed :: 'd
  evr_ReplayMinTimestamp :: timestamp
  evr_ReplayMinSessionTime :: 'd
  evr_ReplayMaxSessionTime :: 'd
  evr_Sessions :: "EventSession list"
  evr_IrSubSessionID :: int32
  evr_TenantID :: int32
  evr_TireInfos :: "TireInfo list option"

record 'b AnalysisRow =
  anr_EventID :: int32
  anr_Protodata :: 'b
  anr_RecordStamp :: timestamp

record EventExtRow =
  exr_EventID :: int32
  exr_PitInfo :: "TrackPitInfo option"

record 'd decimal_ops = "'d decimals" +
  dec_Abs :: "'d \<Rightarrow> 'd"
  InexactFloat32 :: "'d \<Rightarrow> f32"
  \<comment> \<open>float32(d.InexactFloat64())\<close>

record 'u uuid_ops =
  FromStringOrNil :: "string \<Rightarrow> 'u"
  uuid_String :: "'u \<Rightarrow> string"

subsection \<open>Tenants\<close>

record CreateTenantRequest =
  ctr_Name :: string
  ctr_ApiKey :: string
  ctr_IsActive :: bool

record UpdateTenantRequest =
  utr_Tenant :: "TenantSelector option"
  utr_Name :: string
  utr_ApiKey :: string
  utr_IsActive :: bool

definition tenant_toModel :: "'u uuid_ops \<Rightarrow> 'u TenantRow \<Rightarrow> TenantModel" where
  "tenant_toModel uu r = \<lparr>mt_ID = tn_ID r, mt_APIKey = tn_APIKey r,
     mt_Tenant = \<lparr>tm_Name = tn_Name r, tm_IsActive = tn_Active r, tm_ExternalId = uuid_String uu (tn_ExternalID r)\<rparr>\<rparr>"

text \<open>extID is the result of uuid.NewV4.\<close>

definition tenant_Create :: "('db, 'u TenantRow, 'e) Table \<Rightarrow> 'u uuid_ops \<Rightarrow> 'e + 'u \<Rightarrow> CreateTenantRequest \<Rightarrow> 'db \<Rightarrow>
    ('e + TenantModel) \<times> 'db" where
  "tenant_Create tb uu extID req db = (case extID of
     Inl err \<Rightarrow> (Inl err, db)
   | Inr u \<Rightarrow> andThen (tb_Insert tb db (\<lambda>i. \<lparr>tn_ID = i, tn_ExternalID = u, tn_Name = ctr_Name req,
         tn_APIKey = ctr_ApiKey req, tn_Active = ctr_IsActive req\<rparr>))
       (\<lambda>r db. (Inr (tenant_toModel uu r), db)))"

definition load_tenant :: "('db, 'u TenantRow, 'e) Table \<Rightarrow> 'u uuid_ops \<Rightarrow> 'e \<Rightarrow> ('u TenantRow \<Rightarrow> bool) \<Rightarrow> 'db \<Rightarrow> 'e + TenantModel" where
  "load_tenant tb uu noRows P db = map_sum id (tenant_toModel uu) (one_row noRows (tb_All tb db P))"

definition tenant_LoadByID :: "('db, 'u TenantRow, 'e) Table \<Rightarrow> 'u uuid_ops \<Rightarrow> 'e \<Rightarrow> uint32 \<Rightarrow> 'db \<Rightarrow> 'e + TenantModel" where
  "tenant_LoadByID tb uu noRows i = load_tenant tb uu noRows (\<lambda>r. tn_ID r = i)"

definition tenant_LoadByExternalID :: "('db, 'u TenantRow, 'e) Table \<Rightarrow> 'u uuid_ops \<Rightarrow> 'e \<Rightarrow> string \<Rightarrow> 'db \<Rightarrow> 'e + TenantModel" where
  "tenant_LoadByExternalID tb uu noRows x = load_tenant tb uu noRows (\<lambda>r. tn_ExternalID r = FromStringOrNil uu x)"

definition tenant_LoadByAPIKey :: "('db, 'u TenantRow, 'e) Table \<Rightarrow> 'u uuid_ops \<Rightarrow> 'e \<Rightarrow> string \<Rightarrow> 'db \<Rightarrow> 'e + TenantModel" where
  "tenant_LoadByAPIKey tb uu noRows k = load_tenant tb uu noRows (\<lambda>r. tn_APIKey r = k)"

definition tenant_LoadByName :: "('db, 'u TenantRow, 'e) Table \<Rightarrow> 'u uuid_ops \<Rightarrow> 'e \<Rightarrow> string \<Rightarrow> 'db \<Rightarrow> 'e + TenantModel" where
  "tenant_LoadByName tb uu noRows n = load_tenant tb uu noRows (\<lambda>r. tn_Name r = n)"

text \<open>The subquery is the tenant id of the event's row, NULL (equal to nothing) when there is none.\<close>

definition tenant_LoadByEventID :: "('db, 'u TenantRow, 'e) Table \<Rightarrow> ('db \<Rightarrow> 'd EventRow list) \<Rightarrow> 'u uuid_ops \<Rightarrow> 'e \<Rightarrow> int \<Rightarrow> 'db \<Rightarrow>
    'e + TenantModel" where
  "tenant_LoadByEventID tb events uu noRows eventID db = load_tenant tb uu noRows
     (\<lambda>r. \<exists>e \<in> set (events db). evr_ID e = word_of_int eventID \<and> evr_TenantID e = tn_ID r) db"

text \<open>An unknown selector is an error; a nil selector is a nil dereference (None).\<close>

definition tenant_LoadBySelector :: "('db, 'u TenantRow, 'e) Table \<Rightarrow> 'u uuid_ops \<Rightarrow> 'e \<Rightarrow> 'e \<Rightarrow> TenantSelector option \<Rightarrow> 'db \<Rightarrow>
    ('e + TenantModel) run" where
  "tenant_LoadBySelector tb uu noRows unknownSelector sel db = (case sel of
     None \<Rightarrow> None
   | Some (TenantSelector_ExternalId x) \<Rightarrow> Some (tenant_LoadByExternalID tb uu noRows x db)
   | Some (TenantSelector_Name n) \<Rightarrow> Some (tenant_LoadByName tb uu noRows n db)
   | Some TenantSelector_Other \<Rightarrow> Some (Inl unknownSelector))"

text \<open>ORDER BY id ASC of the rows a query returns.\<close>

definition order_by_id :: "('r \<Rightarrow> int32) \<Rightarrow> 'e + 'r list \<Rightarrow> 'e + 'r list" where
  "order_by_id key = map_sum id (sort_key (\<lambda>r. sint (key r)))"

definition tenant_LoadAll :: "('db, 'u TenantRow, 'e) Table \<Rightarrow> 'u uuid_ops \<Rightarrow> 'db \<Rightarrow> 'e + TenantModel list" where
  "tenant_LoadAll tb uu db = map_sum id (map (tenant_toModel uu)) (order_by_id tn_ID (tb_All tb db (\<lambda>_. True)))"

definition tenant_Update :: "('db, 'u TenantRow, 'e) Table \<Rightarrow> 'u uuid_ops \<Rightarrow> 'e \<Rightarrow> uint32 \<Rightarrow> UpdateTenantRequest \<Rightarrow> 'db \<Rightarrow>
    ('e + TenantModel) \<times> 'db" where
  "tenant_Update tb uu noRows i req db = (
     let set_name = (\<lambda>r. if utr_Name req \<noteq> [] then r\<lparr>tn_Name := utr_Name req\<rparr> else r);
         set_key = (\<lambda>r. if utr_ApiKey req \<noteq> [] then r\<lparr>tn_APIKey := utr_ApiKey req\<rparr> else r)
     in andThen (tb_Update tb db (\<lambda>r. set_key (set_name (r\<lparr>tn_Active := utr_IsActive req\<rparr>))) (\<lambda>r. tn_ID r = i))
          (\<lambda>_ db. (tenant_LoadByID tb uu noRows i db, db)))"

definition tenant_DeleteByID :: "('db, 'u TenantRow, 'e) Table \<Rightarrow> uint32 \<Rightarrow> 'db \<Rightarrow> ('e + int) \<times> 'db" where
  "tenant_DeleteByID tb i db = tb_Delete tb db (\<lambda>r. tn_ID r = i)"

subsection \<open>Tracks\<close>

definition PitInfo_zero :: TrackPitInfo where
  "PitInfo_zero = \<lparr>tpi_Entry = f32_zero, tpi_Exit = f32_zero, tpi_LaneLength = f32_zero\<rparr>"

definition track_setter :: "'d decimal_ops \<Rightarrow> Track \<Rightarrow> 'd TrackRow" where
  "track_setter nm track = (let workPitInfo = (case tr_PitInfo track of None \<Rightarrow> PitInfo_zero | Some p \<Rightarrow> p) in
     \<lparr>tk_ID = tr_Id track, tk_Name = tr_Name track, tk_ShortName = tr_ShortName track, tk_Config = tr_Config track,
      tk_TrackLength = NewFromFloat32 nm (tr_Length track), tk_Sectors = tr_Sectors track,
      tk_PitSpeed = NewFromFloat32 nm (tr_PitSpeed track), tk_PitEntry = NewFromFloat32 nm (tpi_Entry workPitInfo),
      tk_PitExit = NewFromFloat32 nm (tpi_Exit workPitInfo), tk_PitLaneLength = NewFromFloat32 nm (tpi_LaneLength workPitInfo)\<rparr>)"

definition track_Create :: "('db, 'd TrackRow, 'e) Table \<Rightarrow> 'd decimal_ops \<Rightarrow> Track \<Rightarrow> 'db \<Rightarrow> ('e + unit) \<times> 'db" where
  "track_Create tb nm track db = andThen (tb_Insert tb db (\<lambda>_. track_setter nm track)) (\<lambda>_ db. (Inr (), db))"

definition track_toPBMessage :: "'d decimal_ops \<Rightarrow> 'd TrackRow \<Rightarrow> Track" where
  "track_toPBMessage nm r = \<lparr>tr_Id = tk_ID r, tr_Name = tk_Name r,
     tr_PitInfo = Some \<lparr>tpi_Entry = InexactFloat32 nm (tk_PitEntry r), tpi_Exit = InexactFloat32 nm (tk_PitExit r),
       tpi_LaneLength = InexactFloat32 nm (tk_PitLaneLength r)\<rparr>,
     tr_ShortName = tk_ShortName r, tr_Config = tk_Config r,
     tr_Length = InexactFloat32 nm (dec_Abs nm (tk_TrackLength r)),
     tr_PitSpeed = InexactFloat32 nm (dec_Abs nm (tk_PitSpeed r)), tr_Sectors = tk_Sectors r\<rparr>"

definition track_LoadByID :: "('db, 'd TrackRow, 'e) Table \<Rightarrow> 'd decimal_ops \<Rightarrow> 'e \<Rightarrow> int \<Rightarrow> 'db \<Rightarrow> 'e + Track" where
  "track_LoadByID tb nm noRows i db =
     map_sum id (track_toPBMessage nm) (one_row noRows (tb_All tb db (\<lambda>r. tk_ID r = word_of_int i)))"

definition track_LoadAll :: "('db, 'd TrackRow, 'e) Table \<Rightarrow> 'd decimal_ops \<Rightarrow> 'db \<Rightarrow> 'e + Track list" where
  "track_LoadAll tb nm db = map_sum id (map (track_toPBMessage nm)) (order_by_id tk_ID (tb_All tb db (\<lambda>_. True)))"

text \<open>Any other error of the load is passed over.\<close>

definition track_EnsureTrack :: "('db, 'd TrackRow, 'e) Table \<Rightarrow> 'd decimal_ops \<Rightarrow> 'e \<Rightarrow> Track \<Rightarrow> 'db \<Rightarrow> ('e + unit) \<times> 'db" where
  "track_EnsureTrack tb nm noRows track db =
     (if track_LoadByID tb nm noRows (uint (tr_Id track)) db = Inl noRows then track_Create tb nm track db else (Inr (), db))"

definition track_UpdatePitInfo :: "('db, 'd TrackRow, 'e) Table \<Rightarrow> 'd decimal_ops \<Rightarrow> int \<Rightarrow> TrackPitInfo option \<Rightarrow> 'db \<Rightarrow>
    ('e + int) \<times> 'db" where
  "track_UpdatePitInfo tb nm i pitInfo db = (case pitInfo of
     None \<Rightarrow> (Inr 0, db)
   | Some p \<Rightarrow> tb_Update tb db (\<lambda>r. r\<lparr>tk_PitEntry := NewFromFloat32 nm (tpi_Entry p), tk_PitExit := NewFromFloat32 nm (tpi_Exit p),
       tk_PitLaneLength := NewFromFloat32 nm (tpi_LaneLength p)\<rparr>) (\<lambda>r. tk_ID r = word_of_int i))"

definition track_DeleteByID :: "('db, 'd TrackRow, 'e) Table \<Rightarrow> int \<Rightarrow> 'db \<Rightarrow> ('e + int) \<times> 'db" where
  "track_DeleteByID tb i db = tb_Delete tb db (\<lambda>r. tk_ID r = word_of_int i)"

subsection \<open>Events\<close>

text \<open>now is the default of the column replay_min_timestamp, zero that of the session times.\<close>

definition event_setter :: "'d decimal_ops \<Rightarrow> timestamp \<Rightarrow> Event \<Rightarrow> uint32 \<Rightarrow> int32 \<Rightarrow> 'd EventRow" where
  "event_setter nm now event tenantID i = (
     let r = \<lparr>evr_ID = i, evr_EventKey = ev_Key event, evr_Name = ev_Name event, evr_Description = Some (ev_Description event),
         evr_EventTime = ev_EventTime event, evr_RaceloggerVersion = ev_RaceloggerVersion event,
         evr_TeamRacing = ev_TeamRacing event, evr_MultiClass = ev_MultiClass event,
         evr_NumCarTypes = ev_NumCarTypes event, evr_NumCarClasses = ev_NumCarClasses event,
         evr_IrSessionID = Some (ev_IrSessionId event), evr_TrackID = ev_TrackId event,
         evr_PitSpeed = NewFromFloat32 nm (ev_PitSpeed event), evr_ReplayMinTimestamp = now,
         evr_ReplayMinSessionTime = NewFromFloat32 nm f32_zero, evr_ReplayMaxSessionTime = NewFromFloat32 nm f32_zero,
         evr_Sessions = ev_Sessions event, evr_IrSubSessionID = ev_IrSubSessionId event, evr_TenantID = tenantID,
         evr_TireInfos = Some (ev_TireInfos event)\<rparr>
     in case ev_ReplayInfo event of
       None \<Rightarrow> r
     | Some ri \<Rightarrow> r\<lparr>evr_ReplayMinTimestamp := as_time (ri_MinTimestamp ri),
         evr_ReplayMinSessionTime := NewFromFloat32 nm (ri_MinSessionTime ri),
         evr_ReplayMaxSessionTime := NewFromFloat32 nm (ri_MaxSessionTime ri)\<rparr>)"

text \<open>The id of the new row is written into the event, here it is the result.\<close>

definition event_Create :: "('db, 'd EventRow, 'e) Table \<Rightarrow> 'd decimal_ops \<Rightarrow> timestamp \<Rightarrow> Event \<Rightarrow> uint32 \<Rightarrow> 'db \<Rightarrow>
    ('e + uint32) \<times> 'db" where
  "event_Create tb nm now event tenantID db =
     andThen (tb_Insert tb db (event_setter nm now event tenantID)) (\<lambda>r db. (Inr (evr_ID r), db))"

definition event_toPBMessage :: "'d decimal_ops \<Rightarrow> 'd EventRow \<Rightarrow> Event" where
  "event_toPBMessage nm r = \<lparr>ev_Id = evr_ID r, ev_Key = evr_EventKey r, ev_Name = evr_Name r,
     ev_Description = (case evr_Description r of Some d \<Rightarrow> d | None \<Rightarrow> []),
     ev_RaceloggerVersion = evr_RaceloggerVersion r, ev_EventTime = evr_EventTime r, ev_TrackId = evr_TrackID r,
     ev_Sessions = evr_Sessions r,
     ev_ReplayInfo = Some \<lparr>ri_MinTimestamp = Some (evr_ReplayMinTimestamp r),
       ri_MinSessionTime = InexactFloat32 nm (evr_ReplayMinSessionTime r),
       ri_MaxSessionTime = InexactFloat32 nm (evr_ReplayMaxSessionTime r)\<rparr>,
     ev_TeamRacing = evr_TeamRacing r, ev_MultiClass = evr_MultiClass r, ev_NumCarTypes = evr_NumCarTypes r,
     ev_NumCarClasses = evr_NumCarClasses r,
     ev_IrSessionId = (case evr_IrSessionID r of Some i \<Rightarrow> i | None \<Rightarrow> 0), ev_IrSubSessionId = evr_IrSubSessionID r,
     ev_PitSpeed = InexactFloat32 nm (dec_Abs nm (evr_PitSpeed r)),
     ev_TireInfos = (case evr_TireInfos r of Some ts \<Rightarrow> ts | None \<Rightarrow> [])\<rparr>"

definition event_LoadByID :: "('db, 'd EventRow, 'e) Table \<Rightarrow> 'd decimal_ops \<Rightarrow> 'e \<Rightarrow> int \<Rightarrow> 'db \<Rightarrow> 'e + Event" where
  "event_LoadByID tb nm noRows i db =
     map_sum id (event_toPBMessage nm) (one_row noRows (tb_All tb db (\<lambda>r. evr_ID r = word_of_int i)))"

definition event_LoadByKey :: "('db, 'd EventRow, 'e) Table \<Rightarrow> 'd decimal_ops \<Rightarrow> 'e \<Rightarrow> string \<Rightarrow> 'db \<Rightarrow> 'e + Event" where
  "event_LoadByKey tb nm noRows k db =
     map_sum id (event_toPBMessage nm) (one_row noRows (tb_All tb db (\<lambda>r. evr_EventKey r = k)))"

text \<open>ORDER BY event_time DESC.\<close>

definition event_LoadAll :: "('db, 'd EventRow, 'e) Table \<Rightarrow> 'd decimal_ops \<Rightarrow> uint32 option \<Rightarrow> 'db \<Rightarrow> 'e + Event list" where
  "event_LoadAll tb nm tenantID db = map_sum id (\<lambda>rs. map (event_toPBMessage nm) (sort_key (\<lambda>r. - evr_EventTime r) rs))
     (tb_All tb db (\<lambda>r. case tenantID of None \<Rightarrow> True | Some t \<Rightarrow> evr_TenantID r = t))"

definition addReplayInfo :: "'d decimal_ops \<Rightarrow> ReplayInfo \<Rightarrow> 'd EventRow \<Rightarrow> 'd EventRow" where
  "addReplayInfo nm ri r = (
     let r = r\<lparr>evr_ReplayMinSessionTime := NewFromFloat32 nm (ri_MinSessionTime ri),
               evr_ReplayMaxSessionTime := NewFromFloat32 nm (ri_MaxSessionTime ri)\<rparr>
     in case ri_MinTimestamp ri of None \<Rightarrow> r | Some t \<Rightarrow> r\<lparr>evr_ReplayMinTimestamp := t\<rparr>)"

record UpdateEventRequest =
  uer_EventSelector :: EventSelector
  uer_Name :: string
  uer_Description :: string
  uer_Key :: string
  uer_ReplayInfo :: "ReplayInfo option"

definition event_UpdateEvent :: "('db, 'd EventRow, 'e) Table \<Rightarrow> 'd decimal_ops \<Rightarrow> int \<Rightarrow> UpdateEventRequest \<Rightarrow> 'db \<Rightarrow>
    ('e + unit) \<times> 'db" where
  "event_UpdateEvent tb nm i req db = (
     let set_name = (\<lambda>r. if uer_Name req \<noteq> [] then r\<lparr>evr_Name := uer_Name req\<rparr> else r);
         set_desc = (\<lambda>r. r\<lparr>evr_Description := Some (uer_Description req)\<rparr>);
         set_key = (\<lambda>r. if uer_Key req \<noteq> [] then r\<lparr>evr_EventKey := uer_Key req\<rparr> else r);
         set_replay = (\<lambda>r. case uer_ReplayInfo req of None \<Rightarrow> r | Some ri \<Rightarrow> addReplayInfo nm ri r)
     in andThen (tb_Update tb db (\<lambda>r. set_replay (set_key (set_desc (set_name r)))) (\<lambda>r. evr_ID r = word_of_int i))
          (\<lambda>_ db. (Inr (), db)))"

definition event_UpdateReplayInfo :: "('db, 'd EventRow, 'e) Table \<Rightarrow> 'd decimal_ops \<Rightarrow> int \<Rightarrow> ReplayInfo option \<Rightarrow> 'db \<Rightarrow>
    ('e + unit) \<times> 'db" where
  "event_UpdateReplayInfo tb nm i replayInfo db = (case replayInfo of
     None \<Rightarrow> (Inr (), db)
   | Some ri \<Rightarrow> andThen (tb_Update tb db (addReplayInfo nm ri) (\<lambda>r. evr_ID r = word_of_int i)) (\<lambda>_ db. (Inr (), db)))"

definition event_DeleteByID :: "('db, 'd EventRow, 'e) Table \<Rightarrow> int \<Rightarrow> 'db \<Rightarrow> ('e + int) \<times> 'db" where
  "event_DeleteByID tb i db = tb_Delete tb db (\<lambda>r. evr_ID r = word_of_int i)"

subsection \<open>Analyses and extra information\<close>

text \<open>
  INSERT ... ON CONFLICT (event_id) DO UPDATE: the row of the event is updated when there is one, and inserted otherwise.
\<close>

definition upsert :: "('db, 'r, 'e) Table \<Rightarrow> ('r \<Rightarrow> bool) \<Rightarrow> 'r \<Rightarrow> ('r \<Rightarrow> 'r) \<Rightarrow> 'db \<Rightarrow> ('db \<Rightarrow> 'r list) \<Rightarrow> ('e + unit) \<times> 'db" where
  "upsert tb P r g db rows = (if \<exists>r \<in> set (rows db). P r
     then andThen (tb_Update tb db g P) (\<lambda>_ db. (Inr (), db))
     else andThen (tb_Insert tb db (\<lambda>_. r)) (\<lambda>_ db. (Inr (), db)))"

definition analysis_Upsert :: "('db, 'b AnalysisRow, 'e) Table \<Rightarrow> ('db \<Rightarrow> 'b AnalysisRow list) \<Rightarrow> (Analysis, 'b, 'e) codec \<Rightarrow>
    timestamp \<Rightarrow> int \<Rightarrow> Analysis \<Rightarrow> 'db \<Rightarrow> ('e + unit) \<times> 'db" where
  "analysis_Upsert tb rows cd now eventID analysis db = (case Marshal cd analysis of
     Inl err \<Rightarrow> (Inl err, db)
   | Inr binaryMessage \<Rightarrow> upsert tb (\<lambda>r. anr_EventID r = word_of_int eventID)
       \<lparr>anr_EventID = word_of_int eventID, anr_Protodata = binaryMessage, anr_RecordStamp = now\<rparr>
       (\<lambda>r. r\<lparr>anr_Protodata := binaryMessage, anr_RecordStamp := now\<rparr>) db rows)"

definition bind_sum :: "'e + 'a \<Rightarrow> ('a \<Rightarrow> 'e + 'b) \<Rightarrow> 'e + 'b" where
  "bind_sum r f = (case r of Inl e \<Rightarrow> Inl e | Inr x \<Rightarrow> f x)"

definition analysis_LoadByEventID :: "('db, 'b AnalysisRow, 'e) Table \<Rightarrow> (Analysis, 'b, 'e) codec \<Rightarrow> 'e \<Rightarrow> int \<Rightarrow> 'db \<Rightarrow>
    'e + Analysis" where
  "analysis_LoadByEventID tb cd noRows eventID db = bind_sum
     (one_row noRows (tb_All tb db (\<lambda>r. anr_EventID r = word_of_int eventID))) (\<lambda>r. Unmarshal cd (anr_Protodata r))"

definition analysis_LoadByEventKey :: "('db, 'b AnalysisRow, 'e) Table \<Rightarrow> ('db \<Rightarrow> 'd EventRow list) \<Rightarrow> (Analysis, 'b, 'e) codec \<Rightarrow>
    'e \<Rightarrow> string \<Rightarrow> 'db \<Rightarrow> 'e + Analysis" where
  "analysis_LoadByEventKey tb events cd noRows eventKey db = bind_sum
     (one_row noRows (tb_All tb db (\<lambda>r. \<exists>e \<in> set (events db). evr_EventKey e = eventKey \<and> evr_ID e = anr_EventID r)))
     (\<lambda>r. Unmarshal cd (anr_Protodata r))"

definition analysis_DeleteByEventID :: "('db, 'b AnalysisRow, 'e) Table \<Rightarrow> int \<Rightarrow> 'db \<Rightarrow> ('e + int) \<times> 'db" where
  "analysis_DeleteByEventID tb eventID db = tb_Delete tb db (\<lambda>r. anr_EventID r = word_of_int eventID)"

text \<open>A nil extra info is a nil dereference.  An update stores the message as JSON, whose field pit_info is that of the column.\<close>

definition eventext_Upsert :: "('db, EventExtRow, 'e) Table \<Rightarrow> ('db \<Rightarrow> EventExtRow list) \<Rightarrow> int \<Rightarrow> ExtraInfo option \<Rightarrow> 'db \<Rightarrow>
    (('e + unit) \<times> 'db) run" where
  "eventext_Upsert tb rows eventID extra db = map_option (\<lambda>x. upsert tb (\<lambda>r. exr_EventID r = word_of_int eventID)
     \<lparr>exr_EventID = word_of_int eventID, exr_PitInfo = ei_PitInfo x\<rparr> (\<lambda>r. r\<lparr>exr_PitInfo := ei_PitInfo x\<rparr>) db rows) extra"

definition eventext_LoadByEventID :: "('db, EventExtRow, 'e) Table \<Rightarrow> 'e \<Rightarrow> int \<Rightarrow> 'db \<Rightarrow> 'e + ExtraInfo" where
  "eventext_LoadByEventID tb noRows eventID db = map_sum id (\<lambda>r. \<lparr>ei_PitInfo = exr_PitInfo r\<rparr>)
     (one_row noRows (tb_All tb db (\<lambda>r. exr_EventID r = word_of_int eventID)))"

definition eventext_DeleteByEventID :: "('db, EventExtRow, 'e) Table \<Rightarrow> int \<Rightarrow> 'db \<Rightarrow> ('e + int) \<times> 'db" where
  "eventext_DeleteByEventID tb eventID db = tb_Delete tb db (\<lambda>r. exr_EventID r = word_of_int eventID)"

end
