(* ===== verification/Car_Repository.thy ===== *)
theory Car_Repository
  imports Master_Data
begin

text \<open>
  The repository that distributes driver data over the tables of cars, pkg/grpc/repository/bob/car/car_repos.go: car classes, cars,
  entries, teams and drivers.  Create adds what the database does not know yet; DeleteByEventID removes everything of an event.

  The result of a method is its error, or the persister, with the database.  None is a nil dereference.
\<close>

subsection \<open>Rows and tables\<close>

record CarClassRow =
  ccr_ID :: int32
  ccr_EventID :: int32
  ccr_Name :: string
  ccr_CarClassID :: int32

record 'd CarRow =
  cr_ID :: int32
  cr_EventID :: int32
  cr_Name :: string
  cr_NameShort :: string
  cr_CarID :: int32
  cr_CCarClassID :: int32
  cr_FuelPCT :: 'd
  cr_PowerAdjust :: 'd
  cr_WeightPenalty :: 'd
  cr_DryTireSets :: int32

record CarEntryRow =
  cer_ID :: int32
  cer_EventID :: int32
  cer_CCarID :: int32
  cer_CarIdx :: int32
  cer_CarNumber :: string
  cer_CarNumberRaw :: int32

record CarTeamRow =
  ctr_ID :: int32
  ctr_CCarEntryID :: int32
  ctr_TeamID :: int32
  ctr_TeamName :: string

record CarDriverRow =
  cdr_ID :: int32
  cdr_CCarEntryID :: int32
  cdr_DriverID :: int32
  cdr_Name :: string
  cdr_Initials :: string
  cdr_AbbrevName :: string
  cdr_Irating :: int32
  cdr_LicLevel :: int32
  cdr_LicSubLevel :: int32
  cdr_LicString :: string

record 'd car_db =
  cdb_Classes :: "CarClassRow list"
  cdb_Cars :: "'d CarRow list"
  cdb_Entries :: "CarEntryRow list"
  cdb_Teams :: "CarTeamRow list"
  cdb_Drivers :: "CarDriverRow list"

record ('db, 'd, 'e) CarTables =
  ct_Classes :: "('db, CarClassRow, 'e) Table"
  ct_Cars :: "('db, 'd CarRow, 'e) Table"
  ct_Entries :: "('db, CarEntryRow, 'e) Table"
  ct_Teams :: "('db, CarTeamRow, 'e) Table"
  ct_Drivers :: "('db, CarDriverRow, 'e) Table"

subsection \<open>The persister\<close>

text \<open>The lookups of the persister; its other fields are arguments.\<close>

record persister =
  carLookup :: "uint32 \<Rightarrow> int32 option"
  carClassLookup :: "uint32 \<Rightarrow> int32 option"
  entryLookup :: "uint32 \<Rightarrow> int32 option"

definition newPersister :: persister where
  "newPersister = \<lparr>carLookup = Map.empty, carClassLookup = Map.empty, entryLookup = Map.empty\<rparr>"

text \<open>The lookup of the rows of a query, and the elements it does not hold; an error of the query is taken for no rows and no new elements.\<close>

definition fill :: "('r \<Rightarrow> uint32) \<Rightarrow> ('r \<Rightarrow> int32) \<Rightarrow> 'r list \<Rightarrow> (uint32 \<Rightarrow> int32 option) \<Rightarrow> (uint32 \<Rightarrow> int32 option)" where
  "fill k v = fold (\<lambda>r m. m(k r \<mapsto> v r))"

definition newCarClasses :: "('db, 'd, 'e) CarTables \<Rightarrow> int \<Rightarrow> PublishDriverDataRequest \<Rightarrow> persister \<Rightarrow> 'db \<Rightarrow>
    CarClass list \<times> persister" where
  "newCarClasses T eventID req p db = (case tb_All (ct_Classes T) db (\<lambda>r. ccr_EventID r = word_of_int eventID) of
     Inl _ \<Rightarrow> ([], p)
   | Inr res \<Rightarrow> (let p = p\<lparr>carClassLookup := fill ccr_CarClassID ccr_ID res (carClassLookup p)\<rparr>
       in (filter (\<lambda>c. carClassLookup p (cc_Id c) = None) (pdr_CarClasses req), p)))"

definition newCars :: "('db, 'd, 'e) CarTables \<Rightarrow> int \<Rightarrow> PublishDriverDataRequest \<Rightarrow> persister \<Rightarrow> 'db \<Rightarrow>
    CarModel list \<times> persister" where
  "newCars T eventID req p db = (case tb_All (ct_Cars T) db (\<lambda>r. cr_EventID r = word_of_int eventID) of
     Inl _ \<Rightarrow> ([], p)
   | Inr res \<Rightarrow> (let p = p\<lparr>carLookup := fill cr_CarID cr_ID res (carLookup p)\<rparr>
       in (filter (\<lambda>c. carLookup p (cm_CarId c) = None) (pdr_Cars req), p)))"

text \<open>An entry without a car is a nil dereference.\<close>

definition newEntries :: "('db, 'd, 'e) CarTables \<Rightarrow> int \<Rightarrow> PublishDriverDataRequest \<Rightarrow> persister \<Rightarrow> 'db \<Rightarrow>
    (CarEntry list \<times> persister) run" where
  "newEntries T eventID req p db = (case tb_All (ct_Entries T) db (\<lambda>r. cer_EventID r = word_of_int eventID) of
     Inl _ \<Rightarrow> Some ([], p)
   | Inr res \<Rightarrow> (let p = p\<lparr>entryLookup := fill cer_CarIdx cer_ID res (entryLookup p)\<rparr>
       in if \<exists>c \<in> set (pdr_Entries req). ce_Car c = None then None
          else Some (filter (\<lambda>c. entryLookup p (ci_CarIdx (the (ce_Car c))) = None) (pdr_Entries req), p)))"

definition newDrivers :: "('db, 'd, 'e) CarTables \<Rightarrow> int32 \<Rightarrow> DriverInfo list \<Rightarrow> 'db \<Rightarrow> DriverInfo list" where
  "newDrivers T carEntryID drivers db = (case tb_All (ct_Drivers T) db (\<lambda>r. cdr_CCarEntryID r = carEntryID) of
     Inl _ \<Rightarrow> []
   | Inr res \<Rightarrow> (let lookup = fill cdr_DriverID cdr_ID res Map.empty in filter (\<lambda>d. lookup (dri_Id d) = None) drivers))"

definition class_setter :: "int \<Rightarrow> CarClass \<Rightarrow> int32 \<Rightarrow> CarClassRow" where
  "class_setter eventID c i = \<lparr>ccr_ID = i, ccr_EventID = word_of_int eventID, ccr_Name = cc_Name c, ccr_CarClassID = cc_Id c\<rparr>"

definition persistCarClass :: "('db, 'd, 'e) CarTables \<Rightarrow> int \<Rightarrow> PublishDriverDataRequest \<Rightarrow> persister \<Rightarrow> 'db \<Rightarrow>
    (('e + persister) \<times> 'db) run" where
  "persistCarClass T eventID req p db = (let (newCarClasses, p) = newCarClasses T eventID req p db in
     for_each (\<lambda>c p db. Some (andThen (tb_Insert (ct_Classes T) db (class_setter eventID c))
         (\<lambda>res db. (Inr (p\<lparr>carClassLookup := (carClassLookup p)(cc_Id c \<mapsto> ccr_ID res)\<rparr>), db))))
       newCarClasses p db)"

definition car_setter :: "'d decimals \<Rightarrow> int \<Rightarrow> persister \<Rightarrow> CarModel \<Rightarrow> int32 \<Rightarrow> 'd CarRow" where
  "car_setter nm eventID p c i = \<lparr>cr_ID = i, cr_EventID = word_of_int eventID, cr_Name = cm_Name c, cr_NameShort = cm_NameShort c,
     cr_CarID = cm_CarId c, cr_CCarClassID = map_get 0 (carClassLookup p) (cm_CarClassId c),
     cr_FuelPCT = NewFromFloat32 nm (cm_FuelPct c), cr_PowerAdjust = NewFromFloat32 nm (cm_PowerAdjust c),
     cr_WeightPenalty = NewFromFloat32 nm (cm_WeightPenalty c), cr_DryTireSets = cm_DryTireSets c\<rparr>"

definition persistCar :: "('db, 'd, 'e) CarTables \<Rightarrow> 'd decimals \<Rightarrow> int \<Rightarrow> PublishDriverDataRequest \<Rightarrow> persister \<Rightarrow> 'db \<Rightarrow>
    (('e + persister) \<times> 'db) run" where
  "persistCar T nm eventID req p db = (let (newCars, p) = newCars T eventID req p db in
     for_each (\<lambda>c p db. Some (andThen (tb_Insert (ct_Cars T) db (car_setter nm eventID p c))
         (\<lambda>res db. (Inr (p\<lparr>carLookup := (carLookup p)(cm_CarId c \<mapsto> cr_ID res)\<rparr>), db))))
       newCars p db)"

definition entry_setter :: "int \<Rightarrow> persister \<Rightarrow> CarInfo \<Rightarrow> int32 \<Rightarrow> CarEntryRow" where
  "entry_setter eventID p car i = \<lparr>cer_ID = i, cer_EventID = word_of_int eventID,
     cer_CCarID = map_get 0 (carLookup p) (ci_CarId car), cer_CarIdx = ci_CarIdx car, cer_CarNumber = ci_CarNumber car,
     cer_CarNumberRaw = ci_CarNumberRaw car\<rparr>"

definition team_setter :: "int32 \<Rightarrow> Team \<Rightarrow> int32 \<Rightarrow> CarTeamRow" where
  "team_setter ceID team i = \<lparr>ctr_ID = i, ctr_CCarEntryID = ceID, ctr_TeamID = team_Id team, ctr_TeamName = team_Name team\<rparr>"

definition driver_setter :: "int32 \<Rightarrow> DriverInfo \<Rightarrow> int32 \<Rightarrow> CarDriverRow" where
  "driver_setter ceID d i = \<lparr>cdr_ID = i, cdr_CCarEntryID = ceID, cdr_DriverID = dri_Id d, cdr_Name = dri_Name d,
     cdr_Initials = dri_Initials d, cdr_AbbrevName = dri_AbbrevName d, cdr_Irating = dri_IRating d,
     cdr_LicLevel = dri_LicLevel d, cdr_LicSubLevel = dri_LicSubLevel d, cdr_LicString = dri_LicString d\<rparr>"

text \<open>The body of the loop over the new entries; the team is read after the entry has been inserted.\<close>

definition persist_entry :: "('db, 'd, 'e) CarTables \<Rightarrow> int \<Rightarrow> CarEntry \<Rightarrow> persister \<Rightarrow> 'db \<Rightarrow> (('e + persister) \<times> 'db) run" where
  "persist_entry T eventID c p db = Option.bind (ce_Car c) (\<lambda>car.
     case tb_Insert (ct_Entries T) db (entry_setter eventID p car) of
       (Inl err, db) \<Rightarrow> Some (Inl err, db)
     | (Inr res, db) \<Rightarrow> Option.bind (ce_Team c) (\<lambda>team.
         Some (andThen (tb_Insert (ct_Teams T) db (team_setter (cer_ID res) team))
           (\<lambda>_ db. (Inr (p\<lparr>entryLookup := (entryLookup p)(ci_CarIdx car \<mapsto> cer_ID res)\<rparr>), db)))))"

text \<open>The body of the loop over all entries, for their drivers.\<close>

definition persist_drivers :: "('db, 'd, 'e) CarTables \<Rightarrow> persister \<Rightarrow> CarEntry \<Rightarrow> unit \<Rightarrow> 'db \<Rightarrow> (('e + unit) \<times> 'db) run" where
  "persist_drivers T p c _ db = Option.bind (ce_Car c) (\<lambda>car.
     let ceID = map_get 0 (entryLookup p) (ci_CarIdx car) in
     for_each (\<lambda>d _ db. Some (andThen (tb_Insert (ct_Drivers T) db (driver_setter ceID d)) (\<lambda>_ db. (Inr (), db))))
       (newDrivers T ceID (ce_Drivers c) db) () db)"

definition persistEntries :: "('db, 'd, 'e) CarTables \<Rightarrow> int \<Rightarrow> PublishDriverDataRequest \<Rightarrow> persister \<Rightarrow> 'db \<Rightarrow>
    (('e + unit) \<times> 'db) run" where
  "persistEntries T eventID req p db = Option.bind (newEntries T eventID req p db) (\<lambda>(newEntries, p).
     Option.bind (for_each (persist_entry T eventID) newEntries p db) (\<lambda>r. case r of
       (Inl err, db) \<Rightarrow> Some (Inl err, db)
     | (Inr p, db) \<Rightarrow> for_each (persist_drivers T p) (pdr_Entries req) () db))"

definition car_Create :: "('db, 'd, 'e) CarTables \<Rightarrow> 'd decimals \<Rightarrow> int \<Rightarrow> PublishDriverDataRequest \<Rightarrow> 'db \<Rightarrow>
    (('e + unit) \<times> 'db) run" where
  "car_Create T nm eventID driverstate db =
     Option.bind (persistCarClass T eventID driverstate newPersister db) (\<lambda>r. case r of
       (Inl err, db) \<Rightarrow> Some (Inl err, db)
     | (Inr p, db) \<Rightarrow> Option.bind (persistCar T nm eventID driverstate p db) (\<lambda>r. case r of
         (Inl err, db) \<Rightarrow> Some (Inl err, db)
       | (Inr p, db) \<Rightarrow> persistEntries T eventID driverstate p db))"

subsection \<open>Deleting\<close>

text \<open>The subquery: the ids of the entries of the event, as they are when the statement runs.\<close>

definition entry_ids :: "('db \<Rightarrow> CarEntryRow list) \<Rightarrow> int \<Rightarrow> 'db \<Rightarrow> int32 set" where
  "entry_ids entries eventID db = cer_ID ` {r \<in> set (entries db). cer_EventID r = word_of_int eventID}"

definition car_DeleteByEventID :: "('db, 'd, 'e) CarTables \<Rightarrow> ('db \<Rightarrow> CarEntryRow list) \<Rightarrow> int \<Rightarrow> 'db \<Rightarrow> ('e + int) \<times> 'db" where
  "car_DeleteByEventID T entries eventID db =
     andThen (tb_Delete (ct_Teams T) db (\<lambda>r. ctr_CCarEntryID r \<in> entry_ids entries eventID db)) (\<lambda>_ db.
     andThen (tb_Delete (ct_Drivers T) db (\<lambda>r. cdr_CCarEntryID r \<in> entry_ids entries eventID db)) (\<lambda>_ db.
     andThen (tb_Delete (ct_Entries T) db (\<lambda>r. cer_EventID r = word_of_int eventID)) (\<lambda>num db.
     andThen (tb_Delete (ct_Cars T) db (\<lambda>r. cr_EventID r = word_of_int eventID)) (\<lambda>_ db.
     andThen (tb_Delete (ct_Classes T) db (\<lambda>r. ccr_EventID r = word_of_int eventID)) (\<lambda>_ db. (Inr num, db))))))"

end
