(* ===== verification/Event_Service.thy ===== *)
theory Event_Service
  imports Car_Repository
begin

text \<open>
  The administration of stored events: pkg/grpc/service/event/event_service.go, which updates an event and deletes all that belongs to
  it in a transaction, and the handlers of pkg/grpc/server/event/event_server.go.

  The database is the record of all tables; the repositories are those of Master_Data, Car_Repository and Repositories on it.
  A handler returns an error or its response; what it leaves of the database is in the result where it writes.  None is a panic.
\<close>

subsection \<open>The database and the repositories\<close>

record ('d, 'b, 'u) admin_db = "'d car_db" +
  adb_Tenants :: "'u TenantRow list"
  adb_Tracks :: "'d TrackRow list"
  adb_Events :: "'d EventRow list"
  adb_EventExts :: "EventExtRow list"
  adb_Analyses :: "'b AnalysisRow list"
  adb_Race :: "('d, 'b) database"

text \<open>
  api.Repositories: the tables and the executor of the recorded messages, the decimals, uuids and codecs, the query of LoadSnapshots and
  the error sql.ErrNoRows.
\<close>

record ('db, 'd, 'b, 'u, 'e) AdminRepos =
  ar_Tenants :: "('db, 'u TenantRow, 'e) Table"
  ar_Tracks :: "('db, 'd TrackRow, 'e) Table"
  ar_Events :: "('db, 'd EventRow, 'e) Table"
  ar_EventExts :: "('db, EventExtRow, 'e) Table"
  ar_Analyses :: "('db, 'b AnalysisRow, 'e) Table"
  ar_Cars :: "('db, 'd, 'e) CarTables"
  ar_Race :: "('d, 'b, 'e) Executor"
  ar_nm :: "'d decimal_ops"
  ar_uu :: "'u uuid_ops"
  ar_noRows :: 'e
  ar_unknownSelector :: 'e
  ar_AnalysisCodec :: "(Analysis, 'b, 'e) codec"
  ar_StateCodec :: "(PublishStateRequest, 'b, 'e) codec"
  ar_DriverCodec :: "(PublishDriverDataRequest, 'b, 'e) codec"
  ar_SpeedmapCodec :: "(PublishSpeedmapRequest, 'b, 'e) codec"
  ar_MessageCodec :: "(Message, 'b, 'e) codec"
  ar_snapshots :: "('d, 'b) database \<Rightarrow> int32 \<Rightarrow> timestamp \<Rightarrow> int \<Rightarrow> 'e + 'b snapRaw list"
  ar_u32 :: "f32 \<Rightarrow> uint32"

type_synonym ('d, 'b, 'u, 'e) repos = "(('d, 'b, 'u) admin_db, 'd, 'b, 'u, 'e) AdminRepos"

definition event_repo_of :: "('d, 'b, 'u, 'e) repos \<Rightarrow> ('d, 'b, 'u) admin_db \<Rightarrow> 'e event_repo" where
  "event_repo_of R db = \<lparr>er_LoadByID = (\<lambda>i. event_LoadByID (ar_Events R) (ar_nm R) (ar_noRows R) i db),
     er_LoadByKey = (\<lambda>k. event_LoadByKey (ar_Events R) (ar_nm R) (ar_noRows R) k db),
     er_isNoRows = (\<lambda>err. err = ar_noRows R)\<rparr>"

definition tenant_repo_of :: "('d, 'b, 'u, 'e) repos \<Rightarrow> ('d, 'b, 'u) admin_db \<Rightarrow> 'e TenantRepository" where
  "tenant_repo_of R db = \<lparr>tr_LoadByExternalID = (\<lambda>x. tenant_LoadByExternalID (ar_Tenants R) (ar_uu R) (ar_noRows R) x db),
     tr_LoadByName = (\<lambda>n. tenant_LoadByName (ar_Tenants R) (ar_uu R) (ar_noRows R) n db),
     tr_isNoRows = (\<lambda>err. err = ar_noRows R)\<rparr>"

text \<open>A statement on the recorded messages.\<close>

definition on_race :: "(('d, 'b) database \<Rightarrow> ('e + 'a) \<times> ('d, 'b) database) \<Rightarrow> ('d, 'b, 'u) admin_db \<Rightarrow>
    ('e + 'a) \<times> ('d, 'b, 'u) admin_db" where
  "on_race f db = (case f (adb_Race db) of (r, rdb) \<Rightarrow> (r, db\<lparr>adb_Race := rdb\<rparr>))"

subsection \<open>The event service\<close>

text \<open>The function DeleteEvent runs in a transaction.\<close>

definition delete_event :: "('d, 'b, 'u, 'e) repos \<Rightarrow> int \<Rightarrow> ('d, 'b, 'u) admin_db \<Rightarrow> ('e + unit) \<times> ('d, 'b, 'u) admin_db" where
  "delete_event R eventID db =
     andThen (analysis_DeleteByEventID (ar_Analyses R) eventID db) (\<lambda>_ db.
     andThen (on_race (speedmap_DeleteByEventID (ar_Race R) eventID) db) (\<lambda>_ db.
     andThen (on_race (carproto_DeleteByEventID (ar_Race R) eventID) db) (\<lambda>_ db.
     andThen (on_race (racestate_DeleteByEventID (ar_Race R) eventID) db) (\<lambda>_ db.
     andThen (car_DeleteByEventID (ar_Cars R) cdb_Entries eventID db) (\<lambda>_ db.
     andThen (eventext_DeleteByEventID (ar_EventExts R) eventID db) (\<lambda>_ db.
     andThen (event_DeleteByID (ar_Events R) eventID db) (\<lambda>_ db. (Inr (), db))))))))"

text \<open>The error of RunInTx, and the database.\<close>

definition in_tx :: "(('db, 'e) txFunc \<Rightarrow> ('db, 'e) txFunc) \<Rightarrow> ('db \<Rightarrow> ('e + unit) \<times> 'db) \<Rightarrow> 'db \<Rightarrow> ('e option \<times> 'db) run" where
  "in_tx runInTx f db = map_option (\<lambda>(err, _, db). (err, db)) (runInTx (\<lambda>db. Some (stored (f db))) db)"

definition service_DeleteEvent :: "('d, 'b, 'u, 'e) repos \<Rightarrow> ((('d, 'b, 'u) admin_db, 'e) txFunc \<Rightarrow> (('d, 'b, 'u) admin_db, 'e) txFunc) \<Rightarrow>
    int \<Rightarrow> ('d, 'b, 'u) admin_db \<Rightarrow> ('e option \<times> ('d, 'b, 'u) admin_db) run" where
  "service_DeleteEvent R runInTx eventID = in_tx runInTx (delete_event R eventID)"

definition service_UpdateEvent :: "('d, 'b, 'u, 'e) repos \<Rightarrow> ((('d, 'b, 'u) admin_db, 'e) txFunc \<Rightarrow> (('d, 'b, 'u) admin_db, 'e) txFunc) \<Rightarrow>
    int \<Rightarrow> UpdateEventRequest \<Rightarrow> ('d, 'b, 'u) admin_db \<Rightarrow> (('e + Event) \<times> ('d, 'b, 'u) admin_db) run" where
  "service_UpdateEvent R runInTx eventID req db =
     map_option (\<lambda>(err, db). (case err of Some e \<Rightarrow> Inl e
        | None \<Rightarrow> event_LoadByID (ar_Events R) (ar_nm R) (ar_noRows R) eventID db, db))
       (in_tx runInTx (event_UpdateEvent (ar_Events R) (ar_nm R) eventID req) db)"

subsection \<open>The handlers\<close>

text \<open>Without the event, only who may act on the tenant it calls for is told that it does not exist.\<close>

definition event_validateEventAccess :: "('d, 'b, 'u, 'e) repos \<Rightarrow> Authentication \<Rightarrow> Permission \<Rightarrow> EventSelector \<Rightarrow>
    ('d, 'b, 'u) admin_db \<Rightarrow> 'e server_error + Event" where
  "event_validateEventAccess R a perm sel db = (case ResolveEvent (event_repo_of R db) sel of
     Inl err \<Rightarrow> (case TenantID a of
         Some t \<Rightarrow> if HasTenantPermission a perm t then Inl (ConnectError CodeNotFound) else Inl (ConnectError CodePermissionDenied)
       | None \<Rightarrow> Inl (ConnectError CodePermissionDenied))
   | Inr data \<Rightarrow>
       (case tenant_LoadByEventID (ar_Tenants R) adb_Events (ar_uu R) (ar_noRows R) (uint (ev_Id data)) db of
          Inl err \<Rightarrow> Inl (RepoError err)
        | Inr t \<Rightarrow> if HasTenantPermission a perm (mt_ID t) then Inr data else Inl (ConnectError CodePermissionDenied)))"

definition event_DeleteEvent :: "('d, 'b, 'u, 'e) repos \<Rightarrow> ((('d, 'b, 'u) admin_db, 'e) txFunc \<Rightarrow> (('d, 'b, 'u) admin_db, 'e) txFunc) \<Rightarrow>
    Authentication \<Rightarrow> EventSelector \<Rightarrow> ('d, 'b, 'u) admin_db \<Rightarrow> (('e server_error + unit) \<times> ('d, 'b, 'u) admin_db) run" where
  "event_DeleteEvent R runInTx a sel db = (case event_validateEventAccess R a PermissionDeleteEvent sel db of
     Inl err \<Rightarrow> Some (Inl err, db)
   | Inr data \<Rightarrow> map_option (\<lambda>(err, db). (case err of Some e \<Rightarrow> Inl (RepoError e) | None \<Rightarrow> Inr (), db))
       (service_DeleteEvent R runInTx (uint (ev_Id data)) db))"

definition event_UpdateEvent_handler :: "('d, 'b, 'u, 'e) repos \<Rightarrow> ((('d, 'b, 'u) admin_db, 'e) txFunc \<Rightarrow> (('d, 'b, 'u) admin_db, 'e) txFunc) \<Rightarrow>
    Authentication \<Rightarrow> UpdateEventRequest \<Rightarrow> ('d, 'b, 'u) admin_db \<Rightarrow> (('e server_error + Event) \<times> ('d, 'b, 'u) admin_db) run" where
  "event_UpdateEvent_handler R runInTx a req db = (case event_validateEventAccess R a PermissionUpdateEvent (uer_EventSelector req) db of
     Inl err \<Rightarrow> Some (Inl err, db)
   | Inr data \<Rightarrow> map_option (\<lambda>(r, db). (repo_result r, db)) (service_UpdateEvent R runInTx (uint (ev_Id data)) req db))"

text \<open>The stream of GetEvents; the tenant of the selector is None when tenants are not supported.\<close>

definition GetLatestEvents :: "('d, 'b, 'u, 'e) repos \<Rightarrow> bool option \<Rightarrow> TenantSelector option \<Rightarrow> ('d, 'b, 'u) admin_db \<Rightarrow>
    'e server_error + Event list" where
  "GetLatestEvents R supportTenants sel db = (case ResolveTenant supportTenants (tenant_repo_of R db) sel of
     Inl err \<Rightarrow> Inl err
   | Inr t \<Rightarrow> repo_result (event_LoadAll (ar_Events R) (ar_nm R) (map_option mt_ID t) db))"

definition event_GetEvents :: "('d, 'b, 'u, 'e) repos \<Rightarrow> bool option \<Rightarrow> TenantSelector option \<Rightarrow> (Event list \<Rightarrow> Event \<Rightarrow> bool) \<Rightarrow>
    ('d, 'b, 'u) admin_db \<Rightarrow> 'e server_error option \<times> Event list" where
  "event_GetEvents R supportTenants sel send db = (case ResolveTenant supportTenants (tenant_repo_of R db) sel of
     Inl err \<Rightarrow> (Some err, [])
   | Inr t \<Rightarrow> (case event_LoadAll (ar_Events R) (ar_nm R) (map_option mt_ID t) db of
       Inl err \<Rightarrow> (Some (RepoError err), [])
     | Inr data \<Rightarrow> (let (sent, out) = send_all send data [] in (if sent then None else Some SendError, out))))"

record GetEventResponse =
  ger_Event :: Event
  ger_Track :: Track
  ger_Analysis :: Analysis
  ger_Cars :: "CarModel list"
  ger_Entries :: "CarEntry list"
  ger_CarClasses :: "CarClass list"
  ger_CurrentDrivers :: "(uint32 \<times> string) list"
  ger_Session :: "Session option"
  ger_StateCars :: "Car list"
  ger_Messages :: "MessageContainer list"
  ger_Speedmap :: "(string \<times> ClassSpeedmapData) list option"
  ger_Snapshots :: "SnapshotData list"

text \<open>The next load of a handler that returns on an error.\<close>

definition load_next :: "('e + 'a) run \<Rightarrow> ('a \<Rightarrow> ('e server_error + 'b) run) \<Rightarrow> ('e server_error + 'b) run" where
  "load_next r k = Option.bind r (\<lambda>r. case r of Inl err \<Rightarrow> Some (Inl (RepoError err)) | Inr x \<Rightarrow> k x)"

definition event_GetEvent :: "('d, 'b, 'u, 'e) repos \<Rightarrow> EventSelector \<Rightarrow> ('d, 'b, 'u) admin_db \<Rightarrow>
    ('e server_error + GetEventResponse) run" where
  "event_GetEvent R sel db = (case ResolveEvent (event_repo_of R db) sel of
     Inl err \<Rightarrow> Some (Inl err)
   | Inr e \<Rightarrow> (let i = uint (ev_Id e); race = adb_Race db in
       load_next (Some (analysis_LoadByEventID (ar_Analyses R) (ar_AnalysisCodec R) (ar_noRows R) i db)) (\<lambda>a.
       load_next (Some (track_LoadByID (ar_Tracks R) (ar_nm R) (ar_noRows R) (uint (ev_TrackId e)) db)) (\<lambda>t.
       load_next (carproto_LoadLatest (ar_Race R) (ar_DriverCodec R) i race) (\<lambda>cd.
       load_next (racestate_LoadLatest (ar_Race R) (ar_StateCodec R) i race) (\<lambda>sd.
       load_next (Some (CollectMessages (ar_Race R) (ar_MessageCodec R) (decimals.truncate (ar_nm R)) i race)) (\<lambda>m.
       load_next (map_option (\<lambda>r. if r = Inl (ar_noRows R)
           then Inr \<lparr>psm_Event = None, psm_Speedmap = None, psm_Timestamp = None\<rparr> else r)
         (speedmap_LoadLatest (ar_Race R) (ar_SpeedmapCodec R) i race)) (\<lambda>sm.
       load_next (LoadSnapshots (ar_Race R) (ar_snapshots R) (ar_u32 R) (ar_SpeedmapCodec R) i 120 race) (\<lambda>snapshots.
         Some (Inr \<lparr>ger_Event = e, ger_Track = t, ger_Analysis = a, ger_Cars = pdr_Cars cd, ger_Entries = pdr_Entries cd,
           ger_CarClasses = pdr_CarClasses cd, ger_CurrentDrivers = pdr_CurrentDrivers cd, ger_Session = psr_Session sd,
           ger_StateCars = psr_Cars sd, ger_Messages = m, ger_Speedmap = psm_Speedmap sm, ger_Snapshots = snapshots\<rparr>))))))))))"

end
