(* ===== verification/Car_Repository_Properties.thy ===== *)
theory Car_Repository_Properties
  imports Car_Repository Car_Properties Recording_Properties
begin

text \<open>
  What Create of the car repository promises: afterwards the database knows everything of the message, what was there
  before is still there, new rows are of the event, and creating the same message again changes nothing.
\<close>

subsection \<open>The tables in a database\<close>

text \<open>Each of the five tables behaves as SQL promises, on its own part of the database, and can be read.\<close>

definition car_sql :: "(('d, 'z) car_db_scheme, 'd, 'e) CarTables \<Rightarrow> bool" where
  "car_sql T \<longleftrightarrow>
     sql_table cdb_Classes (\<lambda>rs db. db\<lparr>cdb_Classes := rs\<rparr>) ccr_ID id (ct_Classes T) \<and>
     sql_table cdb_Cars (\<lambda>rs db. db\<lparr>cdb_Cars := rs\<rparr>) cr_ID id (ct_Cars T) \<and>
     sql_table cdb_Entries (\<lambda>rs db. db\<lparr>cdb_Entries := rs\<rparr>) cer_ID id (ct_Entries T) \<and>
     sql_table cdb_Teams (\<lambda>rs db. db\<lparr>cdb_Teams := rs\<rparr>) ctr_ID id (ct_Teams T) \<and>
     sql_table cdb_Drivers (\<lambda>rs db. db\<lparr>cdb_Drivers := rs\<rparr>) cdr_ID id (ct_Drivers T)"

definition car_readable :: "(('d, 'z) car_db_scheme, 'd, 'e) CarTables \<Rightarrow> bool" where
  "car_readable T \<longleftrightarrow> (\<forall>db P. \<not> isl (tb_All (ct_Classes T) db P)) \<and> (\<forall>db P. \<not> isl (tb_All (ct_Cars T) db P)) \<and>
     (\<forall>db P. \<not> isl (tb_All (ct_Entries T) db P)) \<and> (\<forall>db P. \<not> isl (tb_All (ct_Drivers T) db P))"

definition mem_cars :: "'e \<Rightarrow> (('d, 'z) car_db_scheme, 'd, 'e) CarTables" where
  "mem_cars err = \<lparr>ct_Classes = mem_table cdb_Classes (\<lambda>rs db. db\<lparr>cdb_Classes := rs\<rparr>) ccr_ID err,
     ct_Cars = mem_table cdb_Cars (\<lambda>rs db. db\<lparr>cdb_Cars := rs\<rparr>) cr_ID err,
     ct_Entries = mem_table cdb_Entries (\<lambda>rs db. db\<lparr>cdb_Entries := rs\<rparr>) cer_ID err,
     ct_Teams = mem_table cdb_Teams (\<lambda>rs db. db\<lparr>cdb_Teams := rs\<rparr>) ctr_ID err,
     ct_Drivers = mem_table cdb_Drivers (\<lambda>rs db. db\<lparr>cdb_Drivers := rs\<rparr>) cdr_ID err\<rparr>"

lemma mem_cars_sql: "car_sql (mem_cars err)" "car_readable (mem_cars err)"
proof -
  show "car_sql (mem_cars err)" unfolding car_sql_def mem_cars_def by (simp, intro conjI mem_table_sql) simp_all
qed (simp add: car_readable_def mem_cars_def mem_table_def)

subsection \<open>Lookups\<close>

lemma fill_None: "fill k v rs m x = None \<longleftrightarrow> m x = None \<and> x \<notin> k ` set rs"
  by (induction rs arbitrary: m) (auto simp: fill_def)

lemma fill_Some: "fill k v rs m x = Some i \<Longrightarrow> m x = Some i \<or> (\<exists>r \<in> set rs. k r = x \<and> v r = i)"
proof (induction rs arbitrary: m)
  case (Cons r rs)
  then show ?case by (fastforce simp: fill_def split: if_splits)
qed (simp add: fill_def)

subsection \<open>What the database knows\<close>

definition knows :: "int \<Rightarrow> PublishDriverDataRequest \<Rightarrow> ('d, 'z) car_db_scheme \<Rightarrow> bool" where
  "knows eventID req db \<longleftrightarrow> (let e = word_of_int eventID in
     (\<forall>c \<in> set (pdr_CarClasses req). \<exists>r \<in> set (cdb_Classes db). ccr_EventID r = e \<and> ccr_CarClassID r = cc_Id c) \<and>
     (\<forall>c \<in> set (pdr_Cars req). \<exists>r \<in> set (cdb_Cars db). cr_EventID r = e \<and> cr_CarID r = cm_CarId c) \<and>
     (\<forall>c \<in> set (pdr_Entries req). \<exists>car. ce_Car c = Some car \<and>
        (\<exists>r \<in> set (cdb_Entries db). cer_EventID r = e \<and> cer_CarIdx r = ci_CarIdx car \<and>
           (\<forall>d \<in> set (ce_Drivers c). \<exists>dr \<in> set (cdb_Drivers db). cdr_CCarEntryID dr = cer_ID r \<and> cdr_DriverID dr = dri_Id d))))"

text \<open>The rows of another event, and what a database has got since another one.\<close>

definition grown :: "int \<Rightarrow> ('d, 'z) car_db_scheme \<Rightarrow> ('d, 'z) car_db_scheme \<Rightarrow> bool" where
  "grown eventID db db' \<longleftrightarrow> (let e = word_of_int eventID in
     set (cdb_Classes db) \<subseteq> set (cdb_Classes db') \<and> (\<forall>r \<in> set (cdb_Classes db') - set (cdb_Classes db). ccr_EventID r = e) \<and>
     set (cdb_Cars db) \<subseteq> set (cdb_Cars db') \<and> (\<forall>r \<in> set (cdb_Cars db') - set (cdb_Cars db). cr_EventID r = e) \<and>
     set (cdb_Entries db) \<subseteq> set (cdb_Entries db') \<and> (\<forall>r \<in> set (cdb_Entries db') - set (cdb_Entries db). cer_EventID r = e) \<and>
     set (cdb_Teams db) \<subseteq> set (cdb_Teams db') \<and> set (cdb_Drivers db) \<subseteq> set (cdb_Drivers db'))"

lemma grown_trans: "grown e db db1 \<Longrightarrow> grown e db1 db2 \<Longrightarrow> grown e db db2"
  by (auto simp: grown_def Let_def)

subsection \<open>The phases of Create\<close>

text \<open>What a readable table of SQL answers.\<close>

lemma read_table:
  assumes "sql_table rows put key st tb" "\<forall>db P. \<not> isl (tb_All tb db P)"
  obtains rs where "tb_All tb db P = Inr rs" "set rs = {r \<in> set (rows db). P r}"
  using assms(2) sql_table.select_set[OF assms(1), of db P] by (metis sum.collapse(2))

lemma car_readable_tables:
  assumes "car_readable T"
  shows "\<forall>db P. \<not> isl (tb_All (ct_Classes T) db P)" "\<forall>db P. \<not> isl (tb_All (ct_Cars T) db P)"
    "\<forall>db P. \<not> isl (tb_All (ct_Entries T) db P)" "\<forall>db P. \<not> isl (tb_All (ct_Drivers T) db P)"
  using assms by (simp_all add: car_readable_def)

lemma persistCarClass_ok:
  assumes T: "car_sql T" "car_readable T" and p: "carClassLookup p = Map.empty"
    and run: "persistCarClass T eventID req p db = Some (Inr p', db')"
  shows "\<exists>rs. db' = db\<lparr>cdb_Classes := rs\<rparr> \<and> set (cdb_Classes db) \<subseteq> set rs \<and>
      (\<forall>r \<in> set rs - set (cdb_Classes db). ccr_EventID r = word_of_int eventID) \<and>
      (\<forall>c \<in> set (pdr_CarClasses req). \<exists>r \<in> set rs. ccr_EventID r = word_of_int eventID \<and> ccr_CarClassID r = cc_Id c)"
proof -
  let ?e = "word_of_int eventID :: int32"
  have t: "sql_table cdb_Classes (\<lambda>rs db. db\<lparr>cdb_Classes := rs\<rparr>) ccr_ID id (ct_Classes T)"
    using T(1) by (simp add: car_sql_def)
  obtain res where res: "tb_All (ct_Classes T) db (\<lambda>r. ccr_EventID r = ?e) = Inr res"
    "set res = {r \<in> set (cdb_Classes db). ccr_EventID r = ?e}"
    by (rule read_table[OF t car_readable_tables(1)[OF T(2)]])
  let ?new = "filter (\<lambda>c. fill ccr_CarClassID ccr_ID res Map.empty (cc_Id c) = None) (pdr_CarClasses req)"
  have "for_each (\<lambda>c p db. Some (andThen (tb_Insert (ct_Classes T) db ((\<lambda>p c. class_setter eventID c) p c))
      (\<lambda>res db. (Inr (p\<lparr>carClassLookup := (carClassLookup p)(cc_Id c \<mapsto> ccr_ID res)\<rparr>), db)))) ?new
      (p\<lparr>carClassLookup := fill ccr_CarClassID ccr_ID res Map.empty\<rparr>) db = Some (Inr p', db')"
    using run p by (simp add: persistCarClass_def newCarClasses_def res(1) Let_def)
  from sql_table.insert_each[OF t this] obtain rs where rs: "db' = db\<lparr>cdb_Classes := rs\<rparr>" "set (cdb_Classes db) \<subseteq> set rs"
    "\<forall>r \<in> set rs - set (cdb_Classes db). \<exists>c \<in> set ?new. \<exists>(p :: persister) i. r = id (class_setter eventID c i)"
    "\<forall>c \<in> set ?new. \<exists>r \<in> set rs. \<exists>(p :: persister) i. r = id (class_setter eventID c i)" by blast
  have "\<exists>r \<in> set rs. ccr_EventID r = ?e \<and> ccr_CarClassID r = cc_Id c" if c: "c \<in> set (pdr_CarClasses req)" for c
  proof (cases "c \<in> set ?new")
    case True
    with rs(4) obtain r i where "r \<in> set rs" "r = class_setter eventID c i" by auto
    then show ?thesis by (auto simp: class_setter_def intro!: bexI[of _ r])
  next
    case False
    then have "cc_Id c \<in> ccr_CarClassID ` set res" using c by (auto simp: fill_None)
    then show ?thesis using rs(2) res(2) by fastforce
  qed
  moreover have "\<forall>r \<in> set rs - set (cdb_Classes db). ccr_EventID r = ?e"
  proof
    fix r
    assume "r \<in> set rs - set (cdb_Classes db)"
    with rs(3) obtain c i where "r = class_setter eventID c i" unfolding id_apply by blast
    then show "ccr_EventID r = ?e" by (simp add: class_setter_def)
  qed
  ultimately show ?thesis using rs(1,2) by blast
qed

lemma persistCar_ok:
  assumes T: "car_sql T" "car_readable T" and p: "carLookup p = Map.empty"
    and run: "persistCar T nm eventID req p db = Some (Inr p', db')"
  shows "\<exists>rs. db' = db\<lparr>cdb_Cars := rs\<rparr> \<and> set (cdb_Cars db) \<subseteq> set rs \<and>
      (\<forall>r \<in> set rs - set (cdb_Cars db). cr_EventID r = word_of_int eventID) \<and>
      (\<forall>c \<in> set (pdr_Cars req). \<exists>r \<in> set rs. cr_EventID r = word_of_int eventID \<and> cr_CarID r = cm_CarId c)"
proof -
  let ?e = "word_of_int eventID :: int32"
  have t: "sql_table cdb_Cars (\<lambda>rs db. db\<lparr>cdb_Cars := rs\<rparr>) cr_ID id (ct_Cars T)"
    using T(1) by (simp add: car_sql_def)
  obtain res where res: "tb_All (ct_Cars T) db (\<lambda>r. cr_EventID r = ?e) = Inr res"
    "set res = {r \<in> set (cdb_Cars db). cr_EventID r = ?e}"
    by (rule read_table[OF t car_readable_tables(2)[OF T(2)]])
  let ?new = "filter (\<lambda>c. fill cr_CarID cr_ID res Map.empty (cm_CarId c) = None) (pdr_Cars req)"
  have "for_each (\<lambda>c p db. Some (andThen (tb_Insert (ct_Cars T) db (car_setter nm eventID p c))
      (\<lambda>res db. (Inr (p\<lparr>carLookup := (carLookup p)(cm_CarId c \<mapsto> cr_ID res)\<rparr>), db)))) ?new
      (p\<lparr>carLookup := fill cr_CarID cr_ID res Map.empty\<rparr>) db = Some (Inr p', db')"
    using run p by (simp add: persistCar_def newCars_def res(1) Let_def)
  from sql_table.insert_each[OF t this] obtain rs where rs: "db' = db\<lparr>cdb_Cars := rs\<rparr>" "set (cdb_Cars db) \<subseteq> set rs"
    "\<forall>r \<in> set rs - set (cdb_Cars db). \<exists>c \<in> set ?new. \<exists>p i. r = id (car_setter nm eventID p c i)"
    "\<forall>c \<in> set ?new. \<exists>r \<in> set rs. \<exists>p i. r = id (car_setter nm eventID p c i)" by blast
  have "\<exists>r \<in> set rs. cr_EventID r = ?e \<and> cr_CarID r = cm_CarId c" if c: "c \<in> set (pdr_Cars req)" for c
  proof (cases "c \<in> set ?new")
    case True
    with rs(4) obtain r p i where "r \<in> set rs" "r = car_setter nm eventID p c i" by auto
    then show ?thesis by (auto simp: car_setter_def intro!: bexI[of _ r])
  next
    case False
    then have "cm_CarId c \<in> cr_CarID ` set res" using c by (auto simp: fill_None)
    then show ?thesis using rs(2) res(2) by fastforce
  qed
  moreover have "\<forall>r \<in> set rs - set (cdb_Cars db). cr_EventID r = ?e"
  proof
    fix r
    assume "r \<in> set rs - set (cdb_Cars db)"
    with rs(3) obtain c p i where "r = car_setter nm eventID p c i" unfolding id_apply by blast
    then show "cr_EventID r = ?e" by (simp add: car_setter_def)
  qed
  ultimately show ?thesis using rs(1,2) by blast
qed

text \<open>The entries: the lookup holds the ids of rows, and an id for every entry of the message.\<close>

definition entry_of :: "int \<Rightarrow> (uint32 \<Rightarrow> int32 option) \<Rightarrow> CarEntryRow list \<Rightarrow> CarInfo \<Rightarrow> CarEntryRow \<Rightarrow> bool" where
  "entry_of eventID m es car r \<longleftrightarrow> r \<in> set es \<and> cer_EventID r = word_of_int eventID \<and> cer_CarIdx r = ci_CarIdx car \<and>
     m (ci_CarIdx car) = Some (cer_ID r)"

definition lookup_sound :: "int \<Rightarrow> (uint32 \<Rightarrow> int32 option) \<Rightarrow> CarEntryRow list \<Rightarrow> bool" where
  "lookup_sound eventID m es \<longleftrightarrow> (\<forall>idx i. m idx = Some i \<longrightarrow>
     (\<exists>r \<in> set es. cer_EventID r = word_of_int eventID \<and> cer_CarIdx r = idx \<and> cer_ID r = i))"

lemma lookup_sound_entry:
  assumes "lookup_sound eventID m es" "m (ci_CarIdx car) \<noteq> None"
  shows "\<exists>r. entry_of eventID m es car r"
  using assms by (auto simp: lookup_sound_def entry_of_def)

lemma persist_entry_ok:
  assumes T: "car_sql T" and run: "persist_entry T eventID c p d = Some (Inr p1, d1)"
  shows "\<exists>car r es ts. ce_Car c = Some car \<and> d1 = d\<lparr>cdb_Entries := es, cdb_Teams := ts\<rparr> \<and>
    set es = insert r (set (cdb_Entries d)) \<and> set (cdb_Teams d) \<subseteq> set ts \<and>
    cer_EventID r = word_of_int eventID \<and> cer_CarIdx r = ci_CarIdx car \<and>
    p1 = p\<lparr>entryLookup := (entryLookup p)(ci_CarIdx car \<mapsto> cer_ID r)\<rparr>"
proof -
  have te: "sql_table cdb_Entries (\<lambda>rs db. db\<lparr>cdb_Entries := rs\<rparr>) cer_ID id (ct_Entries T)"
    and tt: "sql_table cdb_Teams (\<lambda>rs db. db\<lparr>cdb_Teams := rs\<rparr>) ctr_ID id (ct_Teams T)"
    using T by (simp_all add: car_sql_def)
  obtain car where car: "ce_Car c = Some car" using run by (auto simp: persist_entry_def split: Option.bind_splits)
  obtain r d2 where r: "tb_Insert (ct_Entries T) d (entry_setter eventID p car) = (Inr r, d2)"
    using run car by (cases "tb_Insert (ct_Entries T) d (entry_setter eventID p car)"; cases "fst (tb_Insert (ct_Entries T) d (entry_setter eventID p car))")
      (auto simp: persist_entry_def)
  then obtain team t where t: "tb_Insert (ct_Teams T) d2 (team_setter (cer_ID r) team) = (Inr t, d1)"
    and p1: "p1 = p\<lparr>entryLookup := (entryLookup p)(ci_CarIdx car \<mapsto> cer_ID r)\<rparr>"
    using run car by (auto simp: persist_entry_def andThen_Inr split: Option.bind_splits)
  obtain i es where es: "r = entry_setter eventID p car i" "d2 = d\<lparr>cdb_Entries := es\<rparr>"
    using sql_table.insert_ok[OF te r] by auto
  obtain ts where ts: "d1 = d2\<lparr>cdb_Teams := ts\<rparr>" using sql_table.insert_ok[OF tt t] by blast
  have "set es = insert r (set (cdb_Entries d))" using sql_table.insert_rows[OF te r] es(2) by simp
  moreover have "set (cdb_Teams d) \<subseteq> set ts" using sql_table.insert_rows[OF tt t] es(2) ts by auto
  moreover have "d1 = d\<lparr>cdb_Entries := es, cdb_Teams := ts\<rparr>" using es(2) ts by simp
  moreover have "cer_EventID r = word_of_int eventID" "cer_CarIdx r = ci_CarIdx car" by (simp_all add: es(1) entry_setter_def)
  ultimately show ?thesis using car p1 by blast
qed

definition entries_inv :: "int \<Rightarrow> persister \<Rightarrow> ('d, 'z) car_db_scheme \<Rightarrow> CarEntry list \<Rightarrow> persister \<Rightarrow> ('d, 'z) car_db_scheme \<Rightarrow> bool" where
  "entries_inv eventID p db pre p' d \<longleftrightarrow> (\<exists>es ts. d = db\<lparr>cdb_Entries := es, cdb_Teams := ts\<rparr> \<and>
     set (cdb_Entries db) \<subseteq> set es \<and> set (cdb_Teams db) \<subseteq> set ts \<and>
     (\<forall>r \<in> set es - set (cdb_Entries db). cer_EventID r = word_of_int eventID) \<and> lookup_sound eventID (entryLookup p') es \<and>
     (\<forall>idx. entryLookup p idx \<noteq> None \<longrightarrow> entryLookup p' idx \<noteq> None) \<and>
     (\<forall>c \<in> set pre. \<exists>car. ce_Car c = Some car \<and> entryLookup p' (ci_CarIdx car) \<noteq> None))"

lemma entries_inv_step:
  assumes T: "car_sql T" and run: "persist_entry T eventID c q d = Some (Inr q1, d1)" and I: "entries_inv eventID p db pre q d"
  shows "entries_inv eventID p db (pre @ [c]) q1 d1"
proof -
  from persist_entry_ok[OF T run] obtain car r es1 ts1 where b: "ce_Car c = Some car" "d1 = d\<lparr>cdb_Entries := es1, cdb_Teams := ts1\<rparr>"
    "set es1 = insert r (set (cdb_Entries d))" "set (cdb_Teams d) \<subseteq> set ts1" "cer_EventID r = word_of_int eventID"
    "cer_CarIdx r = ci_CarIdx car" "q1 = q\<lparr>entryLookup := (entryLookup q)(ci_CarIdx car \<mapsto> cer_ID r)\<rparr>" by blast
  from I obtain es ts where i: "d = db\<lparr>cdb_Entries := es, cdb_Teams := ts\<rparr>"
    "set (cdb_Entries db) \<subseteq> set es" "set (cdb_Teams db) \<subseteq> set ts"
    "\<forall>r \<in> set es - set (cdb_Entries db). cer_EventID r = word_of_int eventID" "lookup_sound eventID (entryLookup q) es"
    "\<forall>idx. entryLookup p idx \<noteq> None \<longrightarrow> entryLookup q idx \<noteq> None"
    "\<forall>c \<in> set pre. \<exists>car. ce_Car c = Some car \<and> entryLookup q (ci_CarIdx car) \<noteq> None"
    unfolding entries_inv_def by blast
  have es: "set es1 = insert r (set es)" using b(3) i(1) by simp
  show ?thesis
    unfolding entries_inv_def
  proof (intro exI[of _ es1] exI[of _ ts1] conjI)
    show "lookup_sound eventID (entryLookup q1) es1"
      using i(5) b(5-7) unfolding lookup_sound_def by (auto simp: es)
    show "\<forall>r \<in> set es1 - set (cdb_Entries db). cer_EventID r = word_of_int eventID" using i(4) b(5) es by auto
    show "\<forall>c' \<in> set (pre @ [c]). \<exists>car. ce_Car c' = Some car \<and> entryLookup q1 (ci_CarIdx car) \<noteq> None"
    proof
      fix c'
      assume "c' \<in> set (pre @ [c])"
      then consider "c' \<in> set pre" | "c' = c" by auto
      then show "\<exists>car. ce_Car c' = Some car \<and> entryLookup q1 (ci_CarIdx car) \<noteq> None"
      proof cases
        case 1
        with i(7) obtain car' where "ce_Car c' = Some car'" "entryLookup q (ci_CarIdx car') \<noteq> None" by blast
        then show ?thesis using b(7) by (intro exI[of _ car']) simp
      next
        case 2
        then show ?thesis using b(1,7) by simp
      qed
    qed
  qed (use b i es in auto)
qed

lemma persist_entry_loop:
  assumes T: "car_sql T" and run: "for_each (persist_entry T eventID) new p db = Some (Inr p', db')"
    and sound: "lookup_sound eventID (entryLookup p) (cdb_Entries db)"
  shows "entries_inv eventID p db new p' db'"
proof (rule for_each_inv[OF run])
  show "entries_inv eventID p db [] p db"
    using sound unfolding entries_inv_def by (intro exI[of _ "cdb_Entries db"] exI[of _ "cdb_Teams db"]) simp
qed (rule entries_inv_step[OF T])

text \<open>The drivers of one entry, and of all.\<close>

definition has_drivers :: "int32 \<Rightarrow> DriverInfo list \<Rightarrow> CarDriverRow list \<Rightarrow> bool" where
  "has_drivers ceID drivers ds \<longleftrightarrow> (\<forall>d \<in> set drivers. \<exists>dr \<in> set ds. cdr_CCarEntryID dr = ceID \<and> cdr_DriverID dr = dri_Id d)"

lemma has_drivers_mono: "has_drivers ceID drivers ds \<Longrightarrow> set ds \<subseteq> set ds' \<Longrightarrow> has_drivers ceID drivers ds'"
  unfolding has_drivers_def by blast

lemma newDrivers_eq:
  assumes "car_sql T" "car_readable T"
  shows "newDrivers T ceID drivers db =
    filter (\<lambda>d. \<not> (\<exists>dr \<in> set (cdb_Drivers db). cdr_CCarEntryID dr = ceID \<and> cdr_DriverID dr = dri_Id d)) drivers"
proof -
  have t: "sql_table cdb_Drivers (\<lambda>rs db. db\<lparr>cdb_Drivers := rs\<rparr>) cdr_ID id (ct_Drivers T)"
    using assms(1) by (simp add: car_sql_def)
  obtain res where res: "tb_All (ct_Drivers T) db (\<lambda>r. cdr_CCarEntryID r = ceID) = Inr res"
    "set res = {r \<in> set (cdb_Drivers db). cdr_CCarEntryID r = ceID}"
    by (rule read_table[OF t car_readable_tables(4)[OF assms(2)]])
  show ?thesis by (auto simp: newDrivers_def res fill_None Let_def image_iff intro!: filter_cong)
qed

lemma persist_drivers_ok:
  assumes T: "car_sql T" "car_readable T" and run: "persist_drivers T p c u d = Some (Inr u', d1)"
  shows "\<exists>car ds. ce_Car c = Some car \<and> d1 = d\<lparr>cdb_Drivers := ds\<rparr> \<and> set (cdb_Drivers d) \<subseteq> set ds \<and>
    has_drivers (map_get 0 (entryLookup p) (ci_CarIdx car)) (ce_Drivers c) ds"
proof -
  have t: "sql_table cdb_Drivers (\<lambda>rs db. db\<lparr>cdb_Drivers := rs\<rparr>) cdr_ID id (ct_Drivers T)"
    using T(1) by (simp add: car_sql_def)
  obtain car where car: "ce_Car c = Some car" using run by (auto simp: persist_drivers_def split: Option.bind_splits)
  let ?i = "map_get 0 (entryLookup p) (ci_CarIdx car)" and ?new = "newDrivers T (map_get 0 (entryLookup p) (ci_CarIdx car)) (ce_Drivers c) d"
  have "for_each (\<lambda>dr _ db. Some (andThen (tb_Insert (ct_Drivers T) db ((\<lambda>_. driver_setter ?i) () dr)) (\<lambda>_ db. (Inr (), db)))) ?new () d = Some (Inr u', d1)"
    using run car by (simp add: persist_drivers_def Let_def)
  from sql_table.insert_each[OF t, of "\<lambda>_. driver_setter ?i" "\<lambda>_ _ _. ()" ?new "()" d u' d1] this obtain ds where ds: "d1 = d\<lparr>cdb_Drivers := ds\<rparr>"
    "set (cdb_Drivers d) \<subseteq> set ds" "\<forall>x \<in> set ?new. \<exists>r \<in> set ds. \<exists>(s :: unit) i. r = id (driver_setter ?i x i)" by blast
  have "\<exists>r \<in> set ds. cdr_CCarEntryID r = ?i \<and> cdr_DriverID r = dri_Id x" if x: "x \<in> set (ce_Drivers c)" for x
  proof (cases "x \<in> set ?new")
    case True
    with ds(3) obtain r i where "r \<in> set ds" "r = driver_setter ?i x i" unfolding id_apply by blast
    then show ?thesis by (intro bexI[of _ r]) (simp_all add: driver_setter_def)
  next
    case False
    then show ?thesis using x ds(2) by (auto simp: newDrivers_eq[OF T])
  qed
  then show ?thesis using car ds(1,2) unfolding has_drivers_def by blast
qed

definition entry_drivers :: "persister \<Rightarrow> CarDriverRow list \<Rightarrow> CarEntry \<Rightarrow> bool" where
  "entry_drivers p ds c \<longleftrightarrow> (\<exists>car. ce_Car c = Some car \<and> has_drivers (map_get 0 (entryLookup p) (ci_CarIdx car)) (ce_Drivers c) ds)"

lemma entry_drivers_mono: "entry_drivers p ds c \<Longrightarrow> set ds \<subseteq> set ds' \<Longrightarrow> entry_drivers p ds' c"
  unfolding entry_drivers_def using has_drivers_mono by blast

lemma persist_drivers_loop:
  assumes T: "car_sql T" "car_readable T" and run: "for_each (persist_drivers T p) cs () db = Some (Inr u, db')"
  shows "\<exists>ds. db' = db\<lparr>cdb_Drivers := ds\<rparr> \<and> set (cdb_Drivers db) \<subseteq> set ds \<and> (\<forall>c \<in> set cs. entry_drivers p ds c)"
proof (rule for_each_inv[OF run, where I = "\<lambda>pre _ d. \<exists>ds. d = db\<lparr>cdb_Drivers := ds\<rparr> \<and> set (cdb_Drivers db) \<subseteq> set ds \<and>
    (\<forall>c \<in> set pre. entry_drivers p ds c)"])
  show "\<exists>ds. db = db\<lparr>cdb_Drivers := ds\<rparr> \<and> set (cdb_Drivers db) \<subseteq> set ds \<and> (\<forall>c \<in> set []. entry_drivers p ds c)"
    by (rule exI[of _ "cdb_Drivers db"]) simp
next
  fix pre c u d u1 d1
  assume "persist_drivers T p c u d = Some (Inr u1, d1)"
  from persist_drivers_ok[OF T this] obtain car ds1 where b: "ce_Car c = Some car" "d1 = d\<lparr>cdb_Drivers := ds1\<rparr>"
    "set (cdb_Drivers d) \<subseteq> set ds1" "has_drivers (map_get 0 (entryLookup p) (ci_CarIdx car)) (ce_Drivers c) ds1" by blast
  assume "\<exists>ds. d = db\<lparr>cdb_Drivers := ds\<rparr> \<and> set (cdb_Drivers db) \<subseteq> set ds \<and> (\<forall>c \<in> set pre. entry_drivers p ds c)"
  then obtain ds where i: "d = db\<lparr>cdb_Drivers := ds\<rparr>" "set (cdb_Drivers db) \<subseteq> set ds" "\<forall>c \<in> set pre. entry_drivers p ds c" by blast
  have sub: "set ds \<subseteq> set ds1" using b(3) i(1) by simp
  have "entry_drivers p ds1 c" using b(1,4) by (simp add: entry_drivers_def)
  then have "\<forall>c \<in> set (pre @ [c]). entry_drivers p ds1 c" using i(3) entry_drivers_mono[OF _ sub] by auto
  then show "\<exists>ds. d1 = db\<lparr>cdb_Drivers := ds\<rparr> \<and> set (cdb_Drivers db) \<subseteq> set ds \<and> (\<forall>c \<in> set (pre @ [c]). entry_drivers p ds c)"
    using b(2) i(1,2) sub by (intro exI[of _ ds1]) simp
qed

subsection \<open>Create\<close>

lemma persistEntries_ok:
  assumes T: "car_sql T" "car_readable T" and p: "entryLookup p = Map.empty"
    and run: "persistEntries T eventID req p db = Some (Inr u, db')"
  shows "\<exists>es ts ds p'. db' = db\<lparr>cdb_Entries := es, cdb_Teams := ts, cdb_Drivers := ds\<rparr> \<and>
    set (cdb_Entries db) \<subseteq> set es \<and> (\<forall>r \<in> set es - set (cdb_Entries db). cer_EventID r = word_of_int eventID) \<and>
    set (cdb_Teams db) \<subseteq> set ts \<and> set (cdb_Drivers db) \<subseteq> set ds \<and> lookup_sound eventID (entryLookup p') es \<and>
    (\<forall>c \<in> set (pdr_Entries req). entry_drivers p' ds c \<and>
      (\<forall>car. ce_Car c = Some car \<longrightarrow> entryLookup p' (ci_CarIdx car) \<noteq> None))"
proof -
  let ?e = "word_of_int eventID :: int32"
  have te: "sql_table cdb_Entries (\<lambda>rs db. db\<lparr>cdb_Entries := rs\<rparr>) cer_ID id (ct_Entries T)"
    using T(1) by (simp add: car_sql_def)
  obtain res where res: "tb_All (ct_Entries T) db (\<lambda>r. cer_EventID r = ?e) = Inr res"
    "set res = {r \<in> set (cdb_Entries db). cer_EventID r = ?e}"
    by (rule read_table[OF te car_readable_tables(3)[OF T(2)]])
  define p0 where "p0 = p\<lparr>entryLookup := fill cer_CarIdx cer_ID res Map.empty\<rparr>"
  define new where "new = filter (\<lambda>c. entryLookup p0 (ci_CarIdx (the (ce_Car c))) = None) (pdr_Entries req)"
  have cars: "\<forall>c \<in> set (pdr_Entries req). ce_Car c \<noteq> None"
    and new: "newEntries T eventID req p db = Some (new, p0)"
    using run p by (auto simp: persistEntries_def newEntries_def res(1) Let_def new_def p0_def split: if_splits)
  obtain p' d where l1: "for_each (persist_entry T eventID) new p0 db = Some (Inr p', d)"
    and l2: "for_each (persist_drivers T p') (pdr_Entries req) () d = Some (Inr u, db')"
    using run by (auto simp: persistEntries_def new split: Option.bind_splits sum.splits)
  have "lookup_sound eventID (entryLookup p0) (cdb_Entries db)"
    using res(2) by (auto simp: lookup_sound_def p0_def dest!: fill_Some)
  from persist_entry_loop[OF T(1) l1 this] obtain es ts where e: "d = db\<lparr>cdb_Entries := es, cdb_Teams := ts\<rparr>"
    "set (cdb_Entries db) \<subseteq> set es" "set (cdb_Teams db) \<subseteq> set ts"
    "\<forall>r \<in> set es - set (cdb_Entries db). cer_EventID r = ?e" "lookup_sound eventID (entryLookup p') es"
    "\<forall>idx. entryLookup p0 idx \<noteq> None \<longrightarrow> entryLookup p' idx \<noteq> None"
    "\<forall>c \<in> set new. \<exists>car. ce_Car c = Some car \<and> entryLookup p' (ci_CarIdx car) \<noteq> None"
    unfolding entries_inv_def by blast
  from persist_drivers_loop[OF T l2] obtain ds where ds: "db' = d\<lparr>cdb_Drivers := ds\<rparr>" "set (cdb_Drivers d) \<subseteq> set ds"
    "\<forall>c \<in> set (pdr_Entries req). entry_drivers p' ds c" by blast
  have "entryLookup p' (ci_CarIdx car) \<noteq> None" if c: "c \<in> set (pdr_Entries req)" "ce_Car c = Some car" for c car
  proof (cases "c \<in> set new")
    case True
    then show ?thesis using e(7) c(2) by fastforce
  next
    case False
    then have "entryLookup p0 (ci_CarIdx car) \<noteq> None" using c by (simp add: new_def)
    then show ?thesis using e(6) by blast
  qed
  moreover have "db' = db\<lparr>cdb_Entries := es, cdb_Teams := ts, cdb_Drivers := ds\<rparr>" using ds(1) e(1) by simp
  moreover have "set (cdb_Drivers db) \<subseteq> set ds" using ds(2) e(1) by simp
  ultimately show ?thesis using e(2-5) ds(3) by blast
qed

lemma car_Create_phases:
  assumes "car_Create T nm eventID req db = Some (Inr (), db')"
  obtains p1 db1 p2 db2 where "persistCarClass T eventID req newPersister db = Some (Inr p1, db1)"
    "persistCar T nm eventID req p1 db1 = Some (Inr p2, db2)" "persistEntries T eventID req p2 db2 = Some (Inr (), db')"
  using assms by (auto simp: car_Create_def split: Option.bind_splits sum.splits)

lemma persister_other_lookups:
  "persistCarClass T eventID req p db = Some (Inr p', db') \<Longrightarrow> carLookup p' = carLookup p \<and> entryLookup p' = entryLookup p"
  "persistCar T nm eventID req p db = Some (Inr p', db') \<Longrightarrow> entryLookup p' = entryLookup p"
proof -
  assume "persistCarClass T eventID req p db = Some (Inr p', db')"
  then show "carLookup p' = carLookup p \<and> entryLookup p' = entryLookup p"
    by (auto simp: persistCarClass_def newCarClasses_def Let_def split: sum.splits
        elim!: for_each_inv[where I = "\<lambda>_ s _. carLookup s = carLookup p \<and> entryLookup s = entryLookup p"] simp: andThen_Inr)
next
  assume "persistCar T nm eventID req p db = Some (Inr p', db')"
  then show "entryLookup p' = entryLookup p"
    by (auto simp: persistCar_def newCars_def Let_def split: sum.splits
        elim!: for_each_inv[where I = "\<lambda>_ s _. entryLookup s = entryLookup p"] simp: andThen_Inr)
qed

lemma create_knows:
  assumes T: "car_sql T" "car_readable T" and run: "car_Create T nm eventID req db = Some (Inr (), db')"
  shows "knows eventID req db' \<and> grown eventID db db'"
proof -
  let ?e = "word_of_int eventID :: int32"
  obtain p1 db1 p2 db2 where r1: "persistCarClass T eventID req newPersister db = Some (Inr p1, db1)"
    and r2: "persistCar T nm eventID req p1 db1 = Some (Inr p2, db2)"
    and r3: "persistEntries T eventID req p2 db2 = Some (Inr (), db')"
    using car_Create_phases[OF run] by blast
  have "carClassLookup newPersister = Map.empty" by (simp add: newPersister_def)
  from persistCarClass_ok[OF T this r1] obtain cls where cls: "db1 = db\<lparr>cdb_Classes := cls\<rparr>" "set (cdb_Classes db) \<subseteq> set cls"
    "\<forall>r \<in> set cls - set (cdb_Classes db). ccr_EventID r = ?e"
    "\<forall>c \<in> set (pdr_CarClasses req). \<exists>r \<in> set cls. ccr_EventID r = ?e \<and> ccr_CarClassID r = cc_Id c" by blast
  have "carLookup p1 = Map.empty" using persister_other_lookups(1)[OF r1] by (simp add: newPersister_def)
  from persistCar_ok[OF T this r2] obtain cars where cars: "db2 = db1\<lparr>cdb_Cars := cars\<rparr>" "set (cdb_Cars db1) \<subseteq> set cars"
    "\<forall>r \<in> set cars - set (cdb_Cars db1). cr_EventID r = ?e"
    "\<forall>c \<in> set (pdr_Cars req). \<exists>r \<in> set cars. cr_EventID r = ?e \<and> cr_CarID r = cm_CarId c" by blast
  have "entryLookup p2 = Map.empty"
    using persister_other_lookups(1)[OF r1] persister_other_lookups(2)[OF r2] by (simp add: newPersister_def)
  from persistEntries_ok[OF T this r3] obtain es ts ds p' where es: "db' = db2\<lparr>cdb_Entries := es, cdb_Teams := ts, cdb_Drivers := ds\<rparr>"
    "set (cdb_Entries db2) \<subseteq> set es" "\<forall>r \<in> set es - set (cdb_Entries db2). cer_EventID r = ?e"
    "set (cdb_Teams db2) \<subseteq> set ts" "set (cdb_Drivers db2) \<subseteq> set ds" "lookup_sound eventID (entryLookup p') es"
    "\<forall>c \<in> set (pdr_Entries req). entry_drivers p' ds c \<and> (\<forall>car. ce_Car c = Some car \<longrightarrow> entryLookup p' (ci_CarIdx car) \<noteq> None)"
    by blast
  have "\<exists>car. ce_Car c = Some car \<and> (\<exists>r \<in> set es. cer_EventID r = ?e \<and> cer_CarIdx r = ci_CarIdx car \<and>
      (\<forall>d \<in> set (ce_Drivers c). \<exists>dr \<in> set ds. cdr_CCarEntryID dr = cer_ID r \<and> cdr_DriverID dr = dri_Id d))"
    if c: "c \<in> set (pdr_Entries req)" for c
  proof -
    obtain car where car: "ce_Car c = Some car" "has_drivers (map_get 0 (entryLookup p') (ci_CarIdx car)) (ce_Drivers c) ds"
      using es(7) c unfolding entry_drivers_def by blast
    then have "entryLookup p' (ci_CarIdx car) \<noteq> None" using es(7) c by blast
    from lookup_sound_entry[OF es(6) this] obtain r where "entry_of eventID (entryLookup p') es car r" by blast
    then have "r \<in> set es" "cer_EventID r = ?e" "cer_CarIdx r = ci_CarIdx car" "map_get 0 (entryLookup p') (ci_CarIdx car) = cer_ID r"
      by (auto simp: entry_of_def)
    then show ?thesis using car unfolding has_drivers_def by auto
  qed
  then have "knows eventID req db'" using cls(1,4) cars(1,4) es(1) by (simp add: knows_def Let_def)
  moreover have "grown eventID db db'" using cls(1-3) cars(1-3) es(1-5) by (auto simp: grown_def Let_def)
  ultimately show ?thesis by blast
qed

text \<open>An event has one row for a car index.\<close>

definition entries_unique :: "int \<Rightarrow> ('d, 'z) car_db_scheme \<Rightarrow> bool" where
  "entries_unique eventID db \<longleftrightarrow> (\<forall>r \<in> set (cdb_Entries db). \<forall>r' \<in> set (cdb_Entries db).
     cer_EventID r = word_of_int eventID \<and> cer_EventID r' = word_of_int eventID \<and> cer_CarIdx r = cer_CarIdx r' \<longrightarrow> r = r')"

lemma create_known:
  assumes T: "car_sql T" "car_readable T" and known: "knows eventID req db" and uniq: "entries_unique eventID db"
  shows "car_Create T nm eventID req db = Some (Inr (), db)"
proof -
  let ?e = "word_of_int eventID :: int32"
  have tc: "sql_table cdb_Classes (\<lambda>rs db. db\<lparr>cdb_Classes := rs\<rparr>) ccr_ID id (ct_Classes T)"
    and tk: "sql_table cdb_Cars (\<lambda>rs db. db\<lparr>cdb_Cars := rs\<rparr>) cr_ID id (ct_Cars T)"
    and te: "sql_table cdb_Entries (\<lambda>rs db. db\<lparr>cdb_Entries := rs\<rparr>) cer_ID id (ct_Entries T)"
    using T(1) by (simp_all add: car_sql_def)
  obtain cls where cls: "tb_All (ct_Classes T) db (\<lambda>r. ccr_EventID r = ?e) = Inr cls"
    "set cls = {r \<in> set (cdb_Classes db). ccr_EventID r = ?e}" by (rule read_table[OF tc car_readable_tables(1)[OF T(2)]])
  obtain cars where cars: "tb_All (ct_Cars T) db (\<lambda>r. cr_EventID r = ?e) = Inr cars"
    "set cars = {r \<in> set (cdb_Cars db). cr_EventID r = ?e}" by (rule read_table[OF tk car_readable_tables(2)[OF T(2)]])
  obtain es where es: "tb_All (ct_Entries T) db (\<lambda>r. cer_EventID r = ?e) = Inr es"
    "set es = {r \<in> set (cdb_Entries db). cer_EventID r = ?e}" by (rule read_table[OF te car_readable_tables(3)[OF T(2)]])
  define m where "m = fill cer_CarIdx cer_ID es Map.empty"
  have r1: "persistCarClass T eventID req newPersister db = Some (Inr (newPersister\<lparr>carClassLookup := fill ccr_CarClassID ccr_ID cls Map.empty\<rparr>), db)"
  proof -
    have "filter (\<lambda>c. fill ccr_CarClassID ccr_ID cls Map.empty (cc_Id c) = None) (pdr_CarClasses req) = []"
      unfolding filter_empty_conv
    proof
      fix c
      assume "c \<in> set (pdr_CarClasses req)"
      with known obtain r where "r \<in> set (cdb_Classes db)" "ccr_EventID r = ?e" "ccr_CarClassID r = cc_Id c"
        unfolding knows_def Let_def by blast
      then have "cc_Id c \<in> ccr_CarClassID ` set cls" unfolding cls(2) by (metis (mono_tags) image_eqI mem_Collect_eq)
      then show "fill ccr_CarClassID ccr_ID cls Map.empty (cc_Id c) \<noteq> None" by (simp add: fill_None)
    qed
    then show ?thesis by (simp add: persistCarClass_def newCarClasses_def cls(1) newPersister_def)
  qed
  have r2: "persistCar T nm eventID req p db = Some (Inr (p\<lparr>carLookup := fill cr_CarID cr_ID cars (carLookup p)\<rparr>), db)" for p
  proof -
    have "filter (\<lambda>c. fill cr_CarID cr_ID cars (carLookup p) (cm_CarId c) = None) (pdr_Cars req) = []"
      unfolding filter_empty_conv
    proof
      fix c
      assume "c \<in> set (pdr_Cars req)"
      with known obtain r where "r \<in> set (cdb_Cars db)" "cr_EventID r = ?e" "cr_CarID r = cm_CarId c"
        unfolding knows_def Let_def by blast
      then have "cm_CarId c \<in> cr_CarID ` set cars" unfolding cars(2) by (metis (mono_tags) image_eqI mem_Collect_eq)
      then show "fill cr_CarID cr_ID cars (carLookup p) (cm_CarId c) \<noteq> None" by (simp add: fill_None)
    qed
    then show ?thesis by (simp add: persistCar_def newCars_def cars(1))
  qed
  have entry: "\<exists>car (r :: CarEntryRow). ce_Car c = Some car \<and> m (ci_CarIdx car) = Some (cer_ID r) \<and> has_drivers (cer_ID r) (ce_Drivers c) (cdb_Drivers db)"
    if c: "c \<in> set (pdr_Entries req)" for c
  proof -
    obtain car r where r: "ce_Car c = Some car" "r \<in> set (cdb_Entries db)" "cer_EventID r = ?e" "cer_CarIdx r = ci_CarIdx car"
      "has_drivers (cer_ID r) (ce_Drivers c) (cdb_Drivers db)"
      using known c unfolding knows_def Let_def has_drivers_def by blast
    have "ci_CarIdx car \<in> cer_CarIdx ` set es" using r(2-4) es(2) by force
    then obtain i where i: "m (ci_CarIdx car) = Some i" unfolding m_def by (metis fill_None not_None_eq)
    then obtain r' where "r' \<in> set es" "cer_CarIdx r' = ci_CarIdx car" "cer_ID r' = i" unfolding m_def by (auto dest: fill_Some)
    then have "r' = r" using uniq r(2-4) es(2) unfolding entries_unique_def by auto
    with i \<open>cer_ID r' = i\<close> have "m (ci_CarIdx car) = Some (cer_ID r)" by simp
    with r(1,5) show ?thesis by blast
  qed
  have r3: "persistEntries T eventID req p db = Some (Inr (), db)" if "entryLookup p = Map.empty" for p
  proof -
    have cars: "\<forall>c \<in> set (pdr_Entries req). ce_Car c \<noteq> None" using entry by fastforce
    have "filter (\<lambda>c. m (ci_CarIdx (the (ce_Car c))) = None) (pdr_Entries req) = []"
      using entry by (fastforce simp: filter_empty_conv)
    then have new: "newEntries T eventID req p db = Some ([], p\<lparr>entryLookup := m\<rparr>)"
      using cars that by (auto simp: newEntries_def es(1) m_def Let_def)
    have "persist_drivers T (p\<lparr>entryLookup := m\<rparr>) c () db = Some (Inr (), db)" if "c \<in> set (pdr_Entries req)" for c
    proof -
      obtain car and r :: CarEntryRow where c: "ce_Car c = Some car" "m (ci_CarIdx car) = Some (cer_ID r)" "has_drivers (cer_ID r) (ce_Drivers c) (cdb_Drivers db)"
        using entry[OF \<open>c \<in> set (pdr_Entries req)\<close>] by blast
      have "newDrivers T (cer_ID r) (ce_Drivers c) db = []"
        using c(3) by (auto simp: newDrivers_eq[OF T] filter_empty_conv has_drivers_def)
      then show ?thesis using c(1,2) by (simp add: persist_drivers_def)
    qed
    then have "for_each (persist_drivers T (p\<lparr>entryLookup := m\<rparr>)) (pdr_Entries req) () db = Some (Inr (), db)"
      by (intro for_each_skip) simp
    then show ?thesis by (simp add: persistEntries_def new)
  qed
  have "entryLookup newPersister = Map.empty" by (simp add: newPersister_def)
  then show ?thesis by (simp add: car_Create_def r1 r2 r3)
qed

text \<open>Uniqueness is kept for a message in which the car indices differ.\<close>

definition car_index :: "CarEntry \<Rightarrow> int32 option" where
  "car_index c = map_option ci_CarIdx (ce_Car c)"

definition unique_inv :: "int \<Rightarrow> persister \<Rightarrow> CarEntry list \<Rightarrow> persister \<Rightarrow> ('d, 'z) car_db_scheme \<Rightarrow> bool" where
  "unique_inv eventID p0 pre q d \<longleftrightarrow> entries_unique eventID d \<and>
     (\<forall>r \<in> set (cdb_Entries d). cer_EventID r = word_of_int eventID \<longrightarrow> entryLookup q (cer_CarIdx r) \<noteq> None) \<and>
     (\<forall>idx. entryLookup q idx \<noteq> None \<longrightarrow> entryLookup p0 idx \<noteq> None \<or> Some idx \<in> car_index ` set pre)"

lemma unique_inv_step:
  assumes T: "car_sql T" and run: "persist_entry T eventID c q d = Some (Inr q1, d1)" and I: "unique_inv eventID p0 pre q d"
    and c: "entryLookup p0 (ci_CarIdx (the (ce_Car c))) = None" "car_index c \<notin> car_index ` set pre"
  shows "unique_inv eventID p0 (pre @ [c]) q1 d1"
proof -
  from persist_entry_ok[OF T run] obtain car r es1 ts1 where b: "ce_Car c = Some car" "d1 = d\<lparr>cdb_Entries := es1, cdb_Teams := ts1\<rparr>"
    "set es1 = insert r (set (cdb_Entries d))" "cer_EventID r = word_of_int eventID"
    "cer_CarIdx r = ci_CarIdx car" "q1 = q\<lparr>entryLookup := (entryLookup q)(ci_CarIdx car \<mapsto> cer_ID r)\<rparr>" by blast
  have "entryLookup q (ci_CarIdx car) = None"
    using I c b(1) by (auto simp: unique_inv_def car_index_def)
  then have new: "\<forall>r' \<in> set (cdb_Entries d). cer_EventID r' = word_of_int eventID \<longrightarrow> cer_CarIdx r' \<noteq> ci_CarIdx car"
    using I by (auto simp: unique_inv_def)
  have "entries_unique eventID d1"
    using I new b(2-5) unfolding unique_inv_def entries_unique_def by (simp add: b(3)) metis
  moreover have "\<forall>r \<in> set (cdb_Entries d1). cer_EventID r = word_of_int eventID \<longrightarrow> entryLookup q1 (cer_CarIdx r) \<noteq> None"
    using I b(2,3,5,6) by (auto simp: unique_inv_def)
  moreover have "\<forall>idx. entryLookup q1 idx \<noteq> None \<longrightarrow> entryLookup p0 idx \<noteq> None \<or> Some idx \<in> car_index ` set (pre @ [c])"
    using I b(1,6) by (auto simp: unique_inv_def car_index_def)
  ultimately show ?thesis by (simp add: unique_inv_def)
qed

lemma persistEntries_unique:
  assumes T: "car_sql T" "car_readable T" and p: "entryLookup p = Map.empty"
    and run: "persistEntries T eventID req p db = Some (Inr u, db')"
    and uniq: "entries_unique eventID db" "distinct (map car_index (pdr_Entries req))"
  shows "entries_unique eventID db'"
proof -
  let ?e = "word_of_int eventID :: int32"
  have te: "sql_table cdb_Entries (\<lambda>rs db. db\<lparr>cdb_Entries := rs\<rparr>) cer_ID id (ct_Entries T)"
    using T(1) by (simp add: car_sql_def)
  obtain res where res: "tb_All (ct_Entries T) db (\<lambda>r. cer_EventID r = ?e) = Inr res"
    "set res = {r \<in> set (cdb_Entries db). cer_EventID r = ?e}"
    by (rule read_table[OF te car_readable_tables(3)[OF T(2)]])
  define p0 where "p0 = p\<lparr>entryLookup := fill cer_CarIdx cer_ID res Map.empty\<rparr>"
  define new where "new = filter (\<lambda>c. entryLookup p0 (ci_CarIdx (the (ce_Car c))) = None) (pdr_Entries req)"
  have "newEntries T eventID req p db = Some (new, p0)"
    using run p by (auto simp: persistEntries_def newEntries_def res(1) Let_def new_def p0_def split: if_splits)
  then obtain p' d where l1: "for_each (persist_entry T eventID) new p0 db = Some (Inr p', d)"
    and l2: "for_each (persist_drivers T p') (pdr_Entries req) () d = Some (Inr u, db')"
    using run by (auto simp: persistEntries_def split: Option.bind_splits sum.splits)
  have dist: "distinct (map car_index new)" using uniq(2) by (simp add: new_def distinct_map_filter)
  have "unique_inv eventID p0 new p' d"
  proof (rule for_each_prefix_inv[where I = "unique_inv eventID p0", OF l1])
    show "unique_inv eventID p0 [] p0 db"
      using uniq(1) res(2) by (auto simp: unique_inv_def p0_def) (metis (mono_tags, lifting) fill_None image_eqI mem_Collect_eq not_Some_eq)
  next
    fix pre c post q d q1 d1
    assume split: "new = pre @ c # post" and "unique_inv eventID p0 pre q d" "persist_entry T eventID c q d = Some (Inr q1, d1)"
    moreover have "car_index c \<notin> car_index ` set pre" using dist by (auto simp: split)
    moreover have "c \<in> set new" by (simp add: split)
    then have "entryLookup p0 (ci_CarIdx (the (ce_Car c))) = None" by (simp add: new_def)
    ultimately show "unique_inv eventID p0 (pre @ [c]) q1 d1" using unique_inv_step[OF T(1)] by blast
  qed
  then have "entries_unique eventID d" by (simp add: unique_inv_def)
  moreover obtain ds where "db' = d\<lparr>cdb_Drivers := ds\<rparr>" using persist_drivers_loop[OF T l2] by blast
  ultimately show ?thesis by (simp add: entries_unique_def)
qed

lemma create_unique:
  assumes T: "car_sql T" "car_readable T" and run: "car_Create T nm eventID req db = Some (Inr (), db')"
    and uniq: "entries_unique eventID db" "distinct (map car_index (pdr_Entries req))"
  shows "entries_unique eventID db'"
proof -
  obtain p1 db1 p2 db2 where r1: "persistCarClass T eventID req newPersister db = Some (Inr p1, db1)"
    and r2: "persistCar T nm eventID req p1 db1 = Some (Inr p2, db2)"
    and r3: "persistEntries T eventID req p2 db2 = Some (Inr (), db')"
    using car_Create_phases[OF run] by blast
  have "carClassLookup newPersister = Map.empty" by (simp add: newPersister_def)
  from persistCarClass_ok[OF T this r1] obtain cls where cls: "db1 = db\<lparr>cdb_Classes := cls\<rparr>" by blast
  have "carLookup p1 = Map.empty" using persister_other_lookups(1)[OF r1] by (simp add: newPersister_def)
  from persistCar_ok[OF T this r2] obtain cars where cars: "db2 = db1\<lparr>cdb_Cars := cars\<rparr>" by blast
  have "entries_unique eventID db2" using uniq(1) by (simp add: cls cars entries_unique_def)
  moreover have "entryLookup p2 = Map.empty"
    using persister_other_lookups(1)[OF r1] persister_other_lookups(2)[OF r2] by (simp add: newPersister_def)
  ultimately show ?thesis using persistEntries_unique[OF T _ r3 _ uniq(2)] by blast
qed


subsection \<open>An example\<close>

interpretation mem_classes: sql_table cdb_Classes "\<lambda>rs db. db\<lparr>cdb_Classes := rs\<rparr>" ccr_ID id
  "mem_table cdb_Classes (\<lambda>rs db. db\<lparr>cdb_Classes := rs\<rparr>) ccr_ID ()"
  by (rule mem_table_sql) simp_all

interpretation mem_entries: sql_table cdb_Entries "\<lambda>rs db. db\<lparr>cdb_Entries := rs\<rparr>" cer_ID id
  "mem_table cdb_Entries (\<lambda>rs db. db\<lparr>cdb_Entries := rs\<rparr>) cer_ID ()"
  by (rule mem_table_sql) simp_all

definition demo_cars_db :: "int car_db" where
  "demo_cars_db = \<lparr>cdb_Classes = [], cdb_Cars = [], cdb_Entries = [], cdb_Teams = [], cdb_Drivers = []\<rparr>"

lemma mem_cars_eval:
  "tb_All (ct_Classes (mem_cars err)) db P = Inr (filter P (cdb_Classes db))"
  "tb_All (ct_Cars (mem_cars err)) db P1 = Inr (filter P1 (cdb_Cars db))"
  "tb_All (ct_Entries (mem_cars err)) db P2 = Inr (filter P2 (cdb_Entries db))"
  "tb_All (ct_Drivers (mem_cars err)) db P3 = Inr (filter P3 (cdb_Drivers db))"
  "cdb_Classes db = [] \<Longrightarrow> tb_Insert (ct_Classes (mem_cars err)) db f = (Inr (f 1), db\<lparr>cdb_Classes := [f 1]\<rparr>)"
  "cdb_Entries db = [] \<Longrightarrow> tb_Insert (ct_Entries (mem_cars err)) db g = (Inr (g 1), db\<lparr>cdb_Entries := [g 1]\<rparr>)"
  "cdb_Teams db = [] \<Longrightarrow> tb_Insert (ct_Teams (mem_cars err)) db h = (Inr (h 1), db\<lparr>cdb_Teams := [h 1]\<rparr>)"
  by (simp_all add: mem_cars_def mem_table_def Let_def)

lemma demo_create: "\<exists>db'. car_Create (mem_cars ()) rec_decimals 7 demo_driver_msg demo_cars_db = Some (Inr (), db') \<and>
    length (cdb_Entries db') = 1"
proof -
  have "persistCarClass (mem_cars ()) 7 demo_driver_msg newPersister demo_cars_db = Some (Inr (newPersister\<lparr>carClassLookup := [1 \<mapsto> 1]\<rparr>),
      demo_cars_db\<lparr>cdb_Classes := [class_setter 7 \<lparr>cc_Id = 1, cc_Name = ''GT3''\<rparr> 1]\<rparr>)"
    by (simp add: persistCarClass_def newCarClasses_def mem_cars_eval demo_cars_db_def demo_driver_msg_def fill_def newPersister_def
        class_setter_def)
  moreover have "persistCar (mem_cars ()) rec_decimals 7 demo_driver_msg p (demo_cars_db\<lparr>cdb_Classes := cs\<rparr>) =
      Some (Inr p, demo_cars_db\<lparr>cdb_Classes := cs\<rparr>)" for p cs
    by (simp add: persistCar_def newCars_def mem_cars_eval demo_cars_db_def demo_driver_msg_def fill_def)
  moreover have "\<exists>db'. persistEntries (mem_cars ()) 7 demo_driver_msg (newPersister\<lparr>carClassLookup := m\<rparr>) (demo_cars_db\<lparr>cdb_Classes := cs\<rparr>) =
      Some (Inr (), db') \<and> length (cdb_Entries db') = 1" for m cs
    by (simp add: persistEntries_def newEntries_def persist_entry_def persist_drivers_def newDrivers_def mem_cars_eval
        demo_cars_db_def demo_driver_msg_def fill_def newPersister_def Let_def)
  ultimately show ?thesis by (simp add: car_Create_def)
qed


end
