(* ===== verification/Event_Service_Properties.thy ===== *)
theory Event_Service_Properties
  imports Event_Service Car_Repository_Properties State_Properties
begin

text \<open>
  What deleting, updating and reading a stored event does to the tables: an event is deleted as a whole, by who may, or
  not at all; an update concerns one row; and a registered event is read back.
\<close>

subsection \<open>The tables of the database\<close>

text \<open>Deletes on the recorded messages: the rows of the event go, those of other events stay.\<close>

definition of_event :: "('d, 'b) database \<Rightarrow> int32 \<Rightarrow> int \<Rightarrow> bool" where
  "of_event db e i \<longleftrightarrow> (\<exists>r \<in> set (db_RSInfos db). rsi_ID r = i \<and> rsi_EventID r = e)"

definition race_deletes :: "('d, 'b, 'e) Executor \<Rightarrow> bool" where
  "race_deletes ex \<longleftrightarrow>
     (\<forall>db tab e n db'. ex_DeleteProtos ex db tab e = (Inr n, db') \<longrightarrow>
        (\<exists>ps. db' = db\<lparr>db_Protos := (db_Protos db)(tab := ps)\<rparr> \<and>
           mset ps = mset (filter (\<lambda>p. \<not> of_event db e (fst p)) (db_Protos db tab)))) \<and>
     (\<forall>db e n db'. ex_DeleteRSInfos ex db e = (Inr n, db') \<longrightarrow>
        (\<exists>rs. db' = db\<lparr>db_RSInfos := rs\<rparr> \<and> mset rs = mset (filter (\<lambda>r. rsi_EventID r \<noteq> e) (db_RSInfos db))))"

definition admin_sql :: "('d, 'b, 'u, 'e) repos \<Rightarrow> bool" where
  "admin_sql R \<longleftrightarrow>
     (\<exists>st. sql_table adb_Events (\<lambda>rs db. db\<lparr>adb_Events := rs\<rparr>) evr_ID st (ar_Events R)) \<and>
     (\<exists>st. sql_table adb_EventExts (\<lambda>rs db. db\<lparr>adb_EventExts := rs\<rparr>) exr_EventID st (ar_EventExts R)) \<and>
     (\<exists>st. sql_table adb_Analyses (\<lambda>rs db. db\<lparr>adb_Analyses := rs\<rparr>) anr_EventID st (ar_Analyses R)) \<and>
     car_sql (ar_Cars R) \<and> race_deletes (ar_Race R)"

subsection \<open>Deleting an event\<close>

text \<open>The rows of all tables but those of the event, in any order.\<close>

definition without_event :: "int \<Rightarrow> ('d, 'b, 'u) admin_db \<Rightarrow> ('d, 'b, 'u) admin_db \<Rightarrow> bool" where
  "without_event eventID db db' \<longleftrightarrow> (let e = word_of_int eventID; race = adb_Race db; race' = adb_Race db' in
     adb_Tenants db' = adb_Tenants db \<and> adb_Tracks db' = adb_Tracks db \<and>
     mset (adb_Events db') = mset (filter (\<lambda>r. evr_ID r \<noteq> e) (adb_Events db)) \<and>
     mset (adb_EventExts db') = mset (filter (\<lambda>r. exr_EventID r \<noteq> e) (adb_EventExts db)) \<and>
     mset (adb_Analyses db') = mset (filter (\<lambda>r. anr_EventID r \<noteq> e) (adb_Analyses db)) \<and>
     mset (cdb_Classes db') = mset (filter (\<lambda>r. ccr_EventID r \<noteq> e) (cdb_Classes db)) \<and>
     mset (cdb_Cars db') = mset (filter (\<lambda>r. cr_EventID r \<noteq> e) (cdb_Cars db)) \<and>
     mset (cdb_Entries db') = mset (filter (\<lambda>r. cer_EventID r \<noteq> e) (cdb_Entries db)) \<and>
     mset (cdb_Teams db') = mset (filter (\<lambda>r. ctr_CCarEntryID r \<notin> entry_ids cdb_Entries eventID db) (cdb_Teams db)) \<and>
     mset (cdb_Drivers db') = mset (filter (\<lambda>r. cdr_CCarEntryID r \<notin> entry_ids cdb_Entries eventID db) (cdb_Drivers db)) \<and>
     mset (db_RSInfos race') = mset (filter (\<lambda>r. rsi_EventID r \<noteq> e) (db_RSInfos race)) \<and>
     (\<forall>tab. mset (db_Protos race' tab) = mset (filter (\<lambda>p. \<not> of_event race e (fst p)) (db_Protos race tab))))"

lemma delete_protos:
  assumes "race_deletes ex" "ex_DeleteProtos ex db tab e = (Inr n, db')"
  obtains ps where "db' = db\<lparr>db_Protos := (db_Protos db)(tab := ps)\<rparr>"
    "mset ps = mset (filter (\<lambda>p. \<not> of_event db e (fst p)) (db_Protos db tab))"
  using assms unfolding race_deletes_def by blast

lemma delete_infos:
  assumes "race_deletes ex" "ex_DeleteRSInfos ex db e = (Inr n, db')"
  obtains rs where "db' = db\<lparr>db_RSInfos := rs\<rparr>" "mset rs = mset (filter (\<lambda>r. rsi_EventID r \<noteq> e) (db_RSInfos db))"
  using assms unfolding race_deletes_def by blast

lemma on_race_Inr: "on_race f db = (Inr x, db') \<longleftrightarrow> (\<exists>rdb. f (adb_Race db) = (Inr x, rdb) \<and> db' = db\<lparr>adb_Race := rdb\<rparr>)"
  by (auto simp: on_race_def split: prod.splits)

lemma of_event_protos [simp]: "of_event (db\<lparr>db_Protos := f\<rparr>) e i = of_event db e i"
  by (simp add: of_event_def)

text \<open>The three deletes on the recorded messages.\<close>

lemma delete_race:
  assumes ex: "race_deletes ex" and s: "speedmap_DeleteByEventID ex eventID db = (Inr n1, db1)"
    and c: "carproto_DeleteByEventID ex eventID db1 = (Inr n2, db2)" and r: "racestate_DeleteByEventID ex eventID db2 = (Inr n3, db3)"
  shows "mset (db_RSInfos db3) = mset (filter (\<lambda>r. rsi_EventID r \<noteq> word_of_int eventID) (db_RSInfos db)) \<and>
    mset (db_Protos db3 tab) = mset (filter (\<lambda>p. \<not> of_event db (word_of_int eventID) (fst p)) (db_Protos db tab))"
proof -
  let ?e = "word_of_int eventID :: int32"
  obtain p1 where p1: "db1 = db\<lparr>db_Protos := (db_Protos db)(SpeedmapProtos := p1)\<rparr>"
    "mset p1 = mset (filter (\<lambda>p. \<not> of_event db ?e (fst p)) (db_Protos db SpeedmapProtos))"
    by (rule delete_protos[OF ex s[unfolded speedmap_DeleteByEventID_def]])
  obtain p2 where p2: "db2 = db1\<lparr>db_Protos := (db_Protos db1)(CarStateProtos := p2)\<rparr>"
    "mset p2 = mset (filter (\<lambda>p. \<not> of_event db1 ?e (fst p)) (db_Protos db1 CarStateProtos))"
    by (rule delete_protos[OF ex c[unfolded carproto_DeleteByEventID_def]])
  obtain m3 m4 d3 d4 where d: "ex_DeleteProtos ex db2 RaceStateProtos ?e = (Inr m3, d3)"
    "ex_DeleteProtos ex d3 MSGStateProtos ?e = (Inr m4, d4)" "ex_DeleteRSInfos ex d4 ?e = (Inr n3, db3)"
    using r by (auto simp: racestate_DeleteByEventID_def split: prod.splits sum.splits)
  obtain p3 where p3: "d3 = db2\<lparr>db_Protos := (db_Protos db2)(RaceStateProtos := p3)\<rparr>"
    "mset p3 = mset (filter (\<lambda>p. \<not> of_event db2 ?e (fst p)) (db_Protos db2 RaceStateProtos))"
    by (rule delete_protos[OF ex d(1)])
  obtain p4 where p4: "d4 = d3\<lparr>db_Protos := (db_Protos d3)(MSGStateProtos := p4)\<rparr>"
    "mset p4 = mset (filter (\<lambda>p. \<not> of_event d3 ?e (fst p)) (db_Protos d3 MSGStateProtos))"
    by (rule delete_protos[OF ex d(2)])
  obtain rs where rs: "db3 = d4\<lparr>db_RSInfos := rs\<rparr>" "mset rs = mset (filter (\<lambda>r. rsi_EventID r \<noteq> ?e) (db_RSInfos d4))"
    by (rule delete_infos[OF ex d(3)])
  show ?thesis using p1 p2 p3 p4 rs by (cases tab) simp_all
qed

text \<open>The car tables.\<close>

lemma delete_cars:
  assumes T: "car_sql T" and run: "car_DeleteByEventID T cdb_Entries eventID db = (Inr n, db')"
  shows "\<exists>ts ds es cs cls. db' = db\<lparr>cdb_Teams := ts, cdb_Drivers := ds, cdb_Entries := es, cdb_Cars := cs, cdb_Classes := cls\<rparr> \<and>
    mset ts = mset (filter (\<lambda>r. ctr_CCarEntryID r \<notin> entry_ids cdb_Entries eventID db) (cdb_Teams db)) \<and>
    mset ds = mset (filter (\<lambda>r. cdr_CCarEntryID r \<notin> entry_ids cdb_Entries eventID db) (cdb_Drivers db)) \<and>
    mset es = mset (filter (\<lambda>r. cer_EventID r \<noteq> word_of_int eventID) (cdb_Entries db)) \<and>
    mset cs = mset (filter (\<lambda>r. cr_EventID r \<noteq> word_of_int eventID) (cdb_Cars db)) \<and>
    mset cls = mset (filter (\<lambda>r. ccr_EventID r \<noteq> word_of_int eventID) (cdb_Classes db))"
proof -
  let ?e = "word_of_int eventID :: int32" and ?ids = "entry_ids cdb_Entries eventID"
  obtain n1 d1 n2 d2 d3 n4 d4 n5 where
    s1: "tb_Delete (ct_Teams T) db (\<lambda>r. ctr_CCarEntryID r \<in> ?ids db) = (Inr n1, d1)" and
    s2: "tb_Delete (ct_Drivers T) d1 (\<lambda>r. cdr_CCarEntryID r \<in> ?ids d1) = (Inr n2, d2)" and
    s3: "tb_Delete (ct_Entries T) d2 (\<lambda>r. cer_EventID r = ?e) = (Inr n, d3)" and
    s4: "tb_Delete (ct_Cars T) d3 (\<lambda>r. cr_EventID r = ?e) = (Inr n4, d4)" and
    s5: "tb_Delete (ct_Classes T) d4 (\<lambda>r. ccr_EventID r = ?e) = (Inr n5, db')"
    using run by (auto simp: car_DeleteByEventID_def andThen_Inr)
  have t: "sql_table cdb_Classes (\<lambda>rs db. db\<lparr>cdb_Classes := rs\<rparr>) ccr_ID id (ct_Classes T)"
    "sql_table cdb_Cars (\<lambda>rs db. db\<lparr>cdb_Cars := rs\<rparr>) cr_ID id (ct_Cars T)"
    "sql_table cdb_Entries (\<lambda>rs db. db\<lparr>cdb_Entries := rs\<rparr>) cer_ID id (ct_Entries T)"
    "sql_table cdb_Teams (\<lambda>rs db. db\<lparr>cdb_Teams := rs\<rparr>) ctr_ID id (ct_Teams T)"
    "sql_table cdb_Drivers (\<lambda>rs db. db\<lparr>cdb_Drivers := rs\<rparr>) cdr_ID id (ct_Drivers T)"
    using T by (simp_all add: car_sql_def)
  obtain ts where ts: "d1 = db\<lparr>cdb_Teams := ts\<rparr>" "mset ts = mset (filter (\<lambda>r. ctr_CCarEntryID r \<notin> ?ids db) (cdb_Teams db))"
    using sql_table.delete_ok[OF t(4) s1] by blast
  obtain ds where ds: "d2 = d1\<lparr>cdb_Drivers := ds\<rparr>" "mset ds = mset (filter (\<lambda>r. cdr_CCarEntryID r \<notin> ?ids d1) (cdb_Drivers d1))"
    using sql_table.delete_ok[OF t(5) s2] by blast
  obtain es where es: "d3 = d2\<lparr>cdb_Entries := es\<rparr>" "mset es = mset (filter (\<lambda>r. cer_EventID r \<noteq> ?e) (cdb_Entries d2))"
    using sql_table.delete_ok[OF t(3) s3] by blast
  obtain cs where cs: "d4 = d3\<lparr>cdb_Cars := cs\<rparr>" "mset cs = mset (filter (\<lambda>r. cr_EventID r \<noteq> ?e) (cdb_Cars d3))"
    using sql_table.delete_ok[OF t(2) s4] by blast
  obtain cls where cls: "db' = d4\<lparr>cdb_Classes := cls\<rparr>" "mset cls = mset (filter (\<lambda>r. ccr_EventID r \<noteq> ?e) (cdb_Classes d4))"
    using sql_table.delete_ok[OF t(1) s5] by blast
  have "?ids d1 = ?ids db" by (simp add: ts(1) entry_ids_def)
  then show ?thesis using ts ds es cs cls by (intro exI[of _ ts] exI[of _ ds] exI[of _ es] exI[of _ cs] exI[of _ cls]) simp
qed

lemma delete_event_all:
  assumes R: "admin_sql R" and run: "delete_event R eventID db = (Inr (), db')"
  shows "without_event eventID db db'"
proof -
  let ?e = "word_of_int eventID :: int32"
  obtain ste stx sta where
    te: "sql_table adb_Events (\<lambda>rs db. db\<lparr>adb_Events := rs\<rparr>) evr_ID ste (ar_Events R)" and
    tx: "sql_table adb_EventExts (\<lambda>rs db. db\<lparr>adb_EventExts := rs\<rparr>) exr_EventID stx (ar_EventExts R)" and
    ta: "sql_table adb_Analyses (\<lambda>rs db. db\<lparr>adb_Analyses := rs\<rparr>) anr_EventID sta (ar_Analyses R)" and
    tc: "car_sql (ar_Cars R)" and tr: "race_deletes (ar_Race R)"
    using R by (auto simp: admin_sql_def)
  obtain n1 d1 n2 r2 n3 r3 n4 r4 n5 d5 n6 d6 n7 where
    s1: "analysis_DeleteByEventID (ar_Analyses R) eventID db = (Inr n1, d1)" and
    s2: "speedmap_DeleteByEventID (ar_Race R) eventID (adb_Race d1) = (Inr n2, r2)" and
    s3: "carproto_DeleteByEventID (ar_Race R) eventID r2 = (Inr n3, r3)" and
    s4: "racestate_DeleteByEventID (ar_Race R) eventID r3 = (Inr n4, r4)" and
    s5: "car_DeleteByEventID (ar_Cars R) cdb_Entries eventID (d1\<lparr>adb_Race := r4\<rparr>) = (Inr n5, d5)" and
    s6: "eventext_DeleteByEventID (ar_EventExts R) eventID d5 = (Inr n6, d6)" and
    s7: "event_DeleteByID (ar_Events R) eventID d6 = (Inr n7, db')"
    using run by (auto simp: delete_event_def andThen_Inr on_race_Inr)
  obtain as where as: "d1 = db\<lparr>adb_Analyses := as\<rparr>" "mset as = mset (filter (\<lambda>r. anr_EventID r \<noteq> ?e) (adb_Analyses db))"
    using sql_table.delete_ok[OF ta s1[unfolded analysis_DeleteByEventID_def]] by blast
  note race = delete_race[OF tr s2 s3 s4]
  obtain ts ds es cs cls where cars: "d5 = d1\<lparr>adb_Race := r4, cdb_Teams := ts, cdb_Drivers := ds, cdb_Entries := es,
      cdb_Cars := cs, cdb_Classes := cls\<rparr>" and
    ms: "mset ts = mset (filter (\<lambda>r. ctr_CCarEntryID r \<notin> entry_ids cdb_Entries eventID db) (cdb_Teams db))"
    "mset ds = mset (filter (\<lambda>r. cdr_CCarEntryID r \<notin> entry_ids cdb_Entries eventID db) (cdb_Drivers db))"
    "mset es = mset (filter (\<lambda>r. cer_EventID r \<noteq> ?e) (cdb_Entries db))"
    "mset cs = mset (filter (\<lambda>r. cr_EventID r \<noteq> ?e) (cdb_Cars db))"
    "mset cls = mset (filter (\<lambda>r. ccr_EventID r \<noteq> ?e) (cdb_Classes db))"
    using delete_cars[OF tc s5] as(1) by (auto simp: entry_ids_def)
  obtain xs where xs: "d6 = d5\<lparr>adb_EventExts := xs\<rparr>" "mset xs = mset (filter (\<lambda>r. exr_EventID r \<noteq> ?e) (adb_EventExts d5))"
    using sql_table.delete_ok[OF tx s6[unfolded eventext_DeleteByEventID_def]] by blast
  obtain evs where evs: "db' = d6\<lparr>adb_Events := evs\<rparr>" "mset evs = mset (filter (\<lambda>r. evr_ID r \<noteq> ?e) (adb_Events d6))"
    using sql_table.delete_ok[OF te s7[unfolded event_DeleteByID_def]] by blast
  have "adb_Race d1 = adb_Race db" by (simp add: as(1))
  with race have race': "mset (db_RSInfos r4) = mset (filter (\<lambda>r. rsi_EventID r \<noteq> ?e) (db_RSInfos (adb_Race db)))"
    "\<And>tab. mset (db_Protos r4 tab) = mset (filter (\<lambda>p. \<not> of_event (adb_Race db) ?e (fst p)) (db_Protos (adb_Race db) tab))"
    by simp_all
  show ?thesis unfolding without_event_def Let_def using as ms race' xs evs by (simp add: cars)
qed

text \<open>A function in a transaction: an error leaves the database, success is that of the function.\<close>

lemma in_tx_cases:
  assumes "transactional runInTx" "in_tx runInTx f db = Some (err, db')"
  shows "(\<exists>e. err = Some e \<and> db' = db) \<or> (err = None \<and> f db = (Inr (), db'))"
  using assms(1)[unfolded transactional_def, rule_format, of "\<lambda>db. Some (stored (f db))" db] assms(2)
  by (cases "f db"; cases "fst (f db)") (auto simp: in_tx_def stored_def)

lemma in_tx_total: "transactional runInTx \<Longrightarrow> \<exists>err db'. in_tx runInTx f db = Some (err, db')"
  unfolding transactional_def
  by (erule allE[of _ "\<lambda>db. Some (stored (f db))"], erule allE[of _ db], cases "f db"; cases "fst (f db)")
    (auto simp: in_tx_def stored_def)

text \<open>Access: the event is found and the caller has the permission for the tenant the event belongs to.\<close>

definition may_access :: "('d, 'b, 'u, 'e) repos \<Rightarrow> Authentication \<Rightarrow> Permission \<Rightarrow> EventSelector \<Rightarrow> ('d, 'b, 'u) admin_db \<Rightarrow> Event \<Rightarrow> bool" where
  "may_access R a perm sel db event \<longleftrightarrow> ResolveEvent (event_repo_of R db) sel = Inr event \<and>
     (\<exists>t. tenant_LoadByEventID (ar_Tenants R) adb_Events (ar_uu R) (ar_noRows R) (uint (ev_Id event)) db = Inr t \<and>
       HasTenantPermission a perm (mt_ID t))"

lemma event_access_iff: "event_validateEventAccess R a perm sel db = Inr event \<longleftrightarrow> may_access R a perm sel db event"
  by (auto simp: event_validateEventAccess_def may_access_def split: sum.splits option.splits if_splits)

text \<open>
  C14: DeleteEvent returns.  It is refused or fails and changes nothing, or the event was found, the caller may delete events of
  its tenant, and of every table exactly the rows of this event are gone.
\<close>

lemma delete_event_complete:
  assumes "admin_sql R" "transactional runInTx"
  shows "\<exists>r db'. event_DeleteEvent R runInTx a sel db = Some (r, db') \<and>
    (case r of Inl err \<Rightarrow> db' = db
     | Inr _ \<Rightarrow> \<exists>event. may_access R a PermissionDeleteEvent sel db event \<and> without_event (uint (ev_Id event)) db db')"
proof (cases "event_validateEventAccess R a PermissionDeleteEvent sel db")
  case (Inr event)
  obtain err db' where tx: "in_tx runInTx (delete_event R (uint (ev_Id event))) db = Some (err, db')"
    using in_tx_total[OF assms(2)] by blast
  have h: "event_DeleteEvent R runInTx a sel db = Some (case err of Some e \<Rightarrow> Inl (RepoError e) | None \<Rightarrow> Inr (), db')"
    by (simp add: event_DeleteEvent_def Inr service_DeleteEvent_def tx)
  from in_tx_cases[OF assms(2) tx] show ?thesis
  proof
    assume ok: "err = None \<and> delete_event R (uint (ev_Id event)) db = (Inr (), db')"
    with delete_event_all[OF assms(1)] have "without_event (uint (ev_Id event)) db db'" by blast
    with h ok Inr show ?thesis by (auto simp: event_access_iff)
  qed (use h in auto)
qed (simp add: event_DeleteEvent_def)

subsection \<open>Updating an event\<close>

definition updated_row :: "'d decimal_ops \<Rightarrow> UpdateEventRequest \<Rightarrow> 'd EventRow \<Rightarrow> 'd EventRow" where
  "updated_row nm req r = (let r' = r\<lparr>evr_Name := if uer_Name req \<noteq> [] then uer_Name req else evr_Name r,
     evr_Description := Some (uer_Description req), evr_EventKey := if uer_Key req \<noteq> [] then uer_Key req else evr_EventKey r\<rparr>
   in case uer_ReplayInfo req of None \<Rightarrow> r' | Some ri \<Rightarrow> addReplayInfo nm ri r')"

lemma updated_row_fields: "evr_ID (updated_row nm req r) = evr_ID r" "evr_Description (updated_row nm req r) = Some (uer_Description req)"
  by (simp_all add: updated_row_def addReplayInfo_def Let_def split: option.splits)

lemma event_UpdateEvent_eq:
  "event_UpdateEvent tb nm i req db = andThen (tb_Update tb db (updated_row nm req) (\<lambda>r. evr_ID r = word_of_int i)) (\<lambda>_ db. (Inr (), db))"
proof -
  have "(\<lambda>r. case uer_ReplayInfo req of None \<Rightarrow>
      (if uer_Key req \<noteq> [] then (if uer_Name req \<noteq> [] then r\<lparr>evr_Name := uer_Name req\<rparr> else r)\<lparr>evr_Description := Some (uer_Description req)\<rparr>\<lparr>evr_EventKey := uer_Key req\<rparr>
       else (if uer_Name req \<noteq> [] then r\<lparr>evr_Name := uer_Name req\<rparr> else r)\<lparr>evr_Description := Some (uer_Description req)\<rparr>)
    | Some ri \<Rightarrow> addReplayInfo nm ri
      (if uer_Key req \<noteq> [] then (if uer_Name req \<noteq> [] then r\<lparr>evr_Name := uer_Name req\<rparr> else r)\<lparr>evr_Description := Some (uer_Description req)\<rparr>\<lparr>evr_EventKey := uer_Key req\<rparr>
       else (if uer_Name req \<noteq> [] then r\<lparr>evr_Name := uer_Name req\<rparr> else r)\<lparr>evr_Description := Some (uer_Description req)\<rparr>)) = updated_row nm req"
    by (rule ext) (simp add: updated_row_def Let_def split: option.splits)
  then show ?thesis unfolding event_UpdateEvent_def Let_def by simp
qed

text \<open>
  UpdateEvent returns.  It is refused or fails and changes nothing, or the caller may update events of the tenant and the
  row of the event, no other, has the new name, key and replay info where the request has them, and the request's description in
  any case; nothing else of the database changes.
\<close>

lemma update_event_row:
  assumes "sql_table adb_Events (\<lambda>rs db. db\<lparr>adb_Events := rs\<rparr>) evr_ID st (ar_Events R)" "transactional runInTx"
  shows "\<exists>r db'. event_UpdateEvent_handler R runInTx a req db = Some (r, db') \<and>
    (db' = db \<or> (\<exists>event rs. may_access R a PermissionUpdateEvent (uer_EventSelector req) db event \<and> db' = db\<lparr>adb_Events := rs\<rparr> \<and>
       mset rs = mset (map (\<lambda>r. if evr_ID r = ev_Id event then st (updated_row (ar_nm R) req r) else r) (adb_Events db)) \<and>
       r = repo_result (event_LoadByID (ar_Events R) (ar_nm R) (ar_noRows R) (uint (ev_Id event)) db')))"
proof (cases "event_validateEventAccess R a PermissionUpdateEvent (uer_EventSelector req) db")
  case (Inr event)
  let ?f = "event_UpdateEvent (ar_Events R) (ar_nm R) (uint (ev_Id event)) req"
  obtain err db' where tx: "in_tx runInTx ?f db = Some (err, db')" using in_tx_total[OF assms(2)] by blast
  have h: "event_UpdateEvent_handler R runInTx a req db = Some (repo_result (case err of Some e \<Rightarrow> Inl e
      | None \<Rightarrow> event_LoadByID (ar_Events R) (ar_nm R) (ar_noRows R) (uint (ev_Id event)) db'), db')"
    by (simp add: event_UpdateEvent_handler_def Inr service_UpdateEvent_def tx)
  from in_tx_cases[OF assms(2) tx] show ?thesis
  proof
    assume ok: "err = None \<and> ?f db = (Inr (), db')"
    then obtain n where "tb_Update (ar_Events R) db (updated_row (ar_nm R) req) (\<lambda>r. evr_ID r = ev_Id event) = (Inr n, db')"
      by (auto simp: event_UpdateEvent_eq andThen_Inr)
    from sql_table.update_ok[OF assms(1) this] show ?thesis using h ok Inr by (auto simp: event_access_iff)
  qed (use h in auto)
qed (simp add: event_UpdateEvent_handler_def)

subsection \<open>Reading an event\<close>

text \<open>Of an event without a recorded message there is no latest one, and the load of it panics.\<close>

lemma load_latest_none:
  assumes "sql_executor ex" "\<forall>r \<in> set (join db tab). rsi_EventID (fst r) \<noteq> word_of_int eventID"
  shows "load_latest ex cd tab eventID db = None"
proof -
  let ?q = "\<lparr>q_Where = [EventID_EQ (word_of_int eventID)], q_Limit = Some 1, q_OrderBy = [ID_Desc]\<rparr>"
  obtain rows where rows: "ex_SelectProtos ex db tab ?q = Inr rows" "answer ?q fst (join db tab) rows"
    by (rule select_protos[OF assms(1)])
  have "filter (\<lambda>r. rsi_EventID (fst r) = word_of_int eventID) (join db tab) = []"
    unfolding filter_empty_conv using assms(2) by blast
  with rows(2) have "rows = []" by (simp add: answer_def limit_rows_def)
  with rows(1) show ?thesis by (simp add: load_latest_def)
qed

lemma get_event_before_data:
  assumes "sql_executor (ar_Race R)" "ResolveEvent (event_repo_of R db) sel = Inr event"
    "analysis_LoadByEventID (ar_Analyses R) (ar_AnalysisCodec R) (ar_noRows R) (uint (ev_Id event)) db = Inr a"
    "track_LoadByID (ar_Tracks R) (ar_nm R) (ar_noRows R) (uint (ev_TrackId event)) db = Inr t"
    "\<forall>r \<in> set (join (adb_Race db) CarStateProtos). rsi_EventID (fst r) \<noteq> ev_Id event"
  shows "event_GetEvent R sel db = None"
proof -
  have "load_latest (ar_Race R) (ar_DriverCodec R) CarStateProtos (uint (ev_Id event)) (adb_Race db) = None"
    by (rule load_latest_none[OF assms(1)]) (use assms(5) in simp)
  with assms(2-4) show ?thesis by (simp add: event_GetEvent_def Let_def load_next_def carproto_LoadLatest_def)
qed

text \<open>Numbers and times the columns hold without loss: the row is stored as it is, and the floats of the message come back.\<close>

definition storable :: "('d EventRow \<Rightarrow> 'd EventRow) \<Rightarrow> 'd decimal_ops \<Rightarrow> timestamp \<Rightarrow> Event \<Rightarrow> uint32 \<Rightarrow> bool" where
  "storable st nm now event tenantID \<longleftrightarrow> (\<forall>i. st (event_setter nm now event tenantID i) = event_setter nm now event tenantID i) \<and>
     InexactFloat32 nm (dec_Abs nm (NewFromFloat32 nm (ev_PitSpeed event))) = ev_PitSpeed event \<and>
     InexactFloat32 nm (NewFromFloat32 nm f32_zero) = f32_zero \<and>
     (\<forall>ri. ev_ReplayInfo event = Some ri \<longrightarrow> InexactFloat32 nm (NewFromFloat32 nm (ri_MinSessionTime ri)) = ri_MinSessionTime ri \<and>
        InexactFloat32 nm (NewFromFloat32 nm (ri_MaxSessionTime ri)) = ri_MaxSessionTime ri)"

text \<open>What a load makes of the replay info: a missing one begins now, a missing time is the zero time.\<close>

definition replay_info_read :: "timestamp \<Rightarrow> ReplayInfo option \<Rightarrow> ReplayInfo option" where
  "replay_info_read now ri = Some (case ri of
     None \<Rightarrow> \<lparr>ri_MinTimestamp = Some now, ri_MinSessionTime = f32_zero, ri_MaxSessionTime = f32_zero\<rparr>
   | Some r \<Rightarrow> r\<lparr>ri_MinTimestamp := Some (as_time (ri_MinTimestamp r))\<rparr>)"

lemma event_row_message:
  assumes "storable st nm now event tenantID"
  shows "event_toPBMessage nm (event_setter nm now event tenantID i) =
    event\<lparr>ev_Id := i, ev_ReplayInfo := replay_info_read now (ev_ReplayInfo event)\<rparr>"
  using assms by (cases "ev_ReplayInfo event")
    (simp_all add: event_toPBMessage_def event_setter_def storable_def replay_info_read_def Let_def)

text \<open>
  An event that has been created is read back by the id it was given, which no other event had: all fields are those of the
  message, the replay info apart, which is never missing; and it belongs to the tenant it was created for.
\<close>

lemma event_create_load:
  assumes "sql_table adb_Events (\<lambda>rs db. db\<lparr>adb_Events := rs\<rparr>) evr_ID st (ar_Events R)"
    "event_Create (ar_Events R) (ar_nm R) now event tenantID db = (Inr i, db')"
    "storable st (ar_nm R) now event tenantID" "distinct (map evr_ID (adb_Events db))"
    "tb_All (ar_Events R) db' (\<lambda>r. evr_ID r = i) = Inr rs"
  shows "i \<notin> evr_ID ` set (adb_Events db) \<and> distinct (map evr_ID (adb_Events db')) \<and>
    event_LoadByID (ar_Events R) (ar_nm R) (ar_noRows R) (uint i) db' =
      Inr (event\<lparr>ev_Id := i, ev_ReplayInfo := replay_info_read now (ev_ReplayInfo event)\<rparr>) \<and>
    (\<forall>t. (\<exists>e \<in> set (adb_Events db'). evr_ID e = i \<and> evr_TenantID e = t) \<longleftrightarrow> t = tenantID)"
proof -
  obtain r where ins: "tb_Insert (ar_Events R) db (event_setter (ar_nm R) now event tenantID) = (Inr r, db')" "i = evr_ID r"
    using assms(2) by (auto simp: event_Create_def andThen_Inr)
  have rows: "mset (adb_Events db') = add_mset r (mset (adb_Events db))" "set (adb_Events db') = insert r (set (adb_Events db))"
    and "\<exists>j. r = st (event_setter (ar_nm R) now event tenantID j)"
    using sql_table.insert_rows[OF assms(1) ins(1)] by auto
  then obtain j where "r = event_setter (ar_nm R) now event tenantID j" using assms(3) by (auto simp: storable_def)
  then have r: "r = event_setter (ar_nm R) now event tenantID i"
    using ins(2) by (simp add: event_setter_def Let_def split: option.splits)
  have fresh: "i \<notin> evr_ID ` set (adb_Events db)" using sql_table.insert_fresh[OF assms(1) ins(1)] ins(2) by simp
  have one: "one_row (ar_noRows R) (tb_All (ar_Events R) db' (\<lambda>r. evr_ID r = i)) = Inr r"
    by (rule sql_table.one_unique[OF assms(1,5)]) (use rows(2) fresh ins(2) in \<open>auto simp: image_iff\<close>)
  have "mset (map evr_ID (adb_Events db')) = mset (map evr_ID (r # adb_Events db))" using rows(1) by simp
  then have "distinct (map evr_ID (adb_Events db'))"
    using assms(4) fresh ins(2) by (metis distinct.simps(2) list.simps(9) list.set_map mset_eq_imp_distinct_iff)
  moreover have "(\<exists>e \<in> set (adb_Events db'). evr_ID e = i \<and> evr_TenantID e = t) \<longleftrightarrow> t = tenantID" for t
  proof -
    have "evr_TenantID r = tenantID" by (simp add: r event_setter_def Let_def split: option.splits)
    then show ?thesis using fresh by (auto simp: rows(2) ins(2) image_iff)
  qed
  moreover have "event_LoadByID (ar_Events R) (ar_nm R) (ar_noRows R) (uint i) db' = Inr (event_toPBMessage (ar_nm R) r)"
    by (simp add: event_LoadByID_def one)
  ultimately show ?thesis using fresh event_row_message[OF assms(3), of i] r by simp
qed

subsection \<open>An example\<close>

text \<open>Two tenants with an event each; the tables are in memory.\<close>

definition mem_race :: "(int, 'b, unit) Executor" where
  "mem_race = mem_executor\<lparr>
     ex_DeleteProtos := (\<lambda>db tab e. (Inr 0, db\<lparr>db_Protos := (db_Protos db)(tab := filter (\<lambda>p. \<not> of_event db e (fst p)) (db_Protos db tab))\<rparr>)),
     ex_DeleteRSInfos := (\<lambda>db e. (Inr 0, db\<lparr>db_RSInfos := filter (\<lambda>r. rsi_EventID r \<noteq> e) (db_RSInfos db)\<rparr>))\<rparr>"

lemma mem_race_sql: "race_deletes mem_race" "sql_executor mem_race"
proof -
  show "race_deletes mem_race" by (auto simp: race_deletes_def mem_race_def)
  show "sql_executor mem_race" using mem_executor_sql by (simp add: mem_race_def sql_executor_def)
qed

definition ident_codec :: "('m, 'm, unit) codec" where
  "ident_codec = \<lparr>Marshal = Inr, Unmarshal = Inr\<rparr>"

definition some_codec :: "('m, nat, unit) codec" where
  "some_codec = \<lparr>Marshal = (\<lambda>_. Inl ()), Unmarshal = (\<lambda>_. Inl ())\<rparr>"

definition mem_repos :: "(int, nat, string, unit) repos" where
  "mem_repos = \<lparr>ar_Tenants = mem_table adb_Tenants (\<lambda>rs db. db\<lparr>adb_Tenants := rs\<rparr>) tn_ID (),
     ar_Tracks = mem_table adb_Tracks (\<lambda>rs db. db\<lparr>adb_Tracks := rs\<rparr>) tk_ID (),
     ar_Events = mem_table adb_Events (\<lambda>rs db. db\<lparr>adb_Events := rs\<rparr>) evr_ID (),
     ar_EventExts = mem_table adb_EventExts (\<lambda>rs db. db\<lparr>adb_EventExts := rs\<rparr>) exr_EventID (),
     ar_Analyses = mem_table adb_Analyses (\<lambda>rs db. db\<lparr>adb_Analyses := rs\<rparr>) anr_EventID (),
     ar_Cars = mem_cars (), ar_Race = mem_race,
     ar_nm = decimals.extend rec_decimals \<lparr>dec_Abs = abs, InexactFloat32 = ScanFloat32 rec_decimals\<rparr>,
     ar_uu = \<lparr>FromStringOrNil = id, uuid_String = id\<rparr>, ar_noRows = (), ar_unknownSelector = (),
     ar_AnalysisCodec = some_codec, ar_StateCodec = some_codec, ar_DriverCodec = some_codec, ar_SpeedmapCodec = some_codec,
     ar_MessageCodec = some_codec, ar_snapshots = (\<lambda>db e t n. Inl ()), ar_u32 = (\<lambda>_. 0)\<rparr>"

interpretation mem_events: sql_table adb_Events "\<lambda>rs db. db\<lparr>adb_Events := rs\<rparr>" evr_ID id "ar_Events mem_repos"
  by (simp add: mem_repos_def mem_table_sql)

lemma mem_admin_sql: "admin_sql mem_repos"
  unfolding admin_sql_def
proof (intro conjI)
  show "\<exists>st. sql_table adb_Events (\<lambda>rs db. db\<lparr>adb_Events := rs\<rparr>) evr_ID st (ar_Events mem_repos)"
    using mem_events.sql_table_axioms by blast
  show "\<exists>st. sql_table adb_EventExts (\<lambda>rs db. db\<lparr>adb_EventExts := rs\<rparr>) exr_EventID st (ar_EventExts mem_repos)"
    by (rule exI[of _ id]) (simp add: mem_repos_def mem_table_sql)
  show "\<exists>st. sql_table adb_Analyses (\<lambda>rs db. db\<lparr>adb_Analyses := rs\<rparr>) anr_EventID st (ar_Analyses mem_repos)"
    by (rule exI[of _ id]) (simp add: mem_repos_def mem_table_sql)
qed (simp_all add: mem_repos_def mem_cars_sql mem_race_sql)

definition mem_event :: "int32 \<Rightarrow> string \<Rightarrow> int EventRow" where
  "mem_event i k = \<lparr>evr_ID = i, evr_EventKey = k, evr_Name = ''race'', evr_Description = Some ''day'', evr_EventTime = 0,
     evr_RaceloggerVersion = ''1'', evr_TeamRacing = False, evr_MultiClass = False, evr_NumCarTypes = 1, evr_NumCarClasses = 1,
     evr_IrSessionID = None, evr_TrackID = 1, evr_PitSpeed = 0, evr_ReplayMinTimestamp = 0, evr_ReplayMinSessionTime = 0,
     evr_ReplayMaxSessionTime = 0, evr_Sessions = [], evr_IrSubSessionID = 0, evr_TenantID = i, evr_TireInfos = None\<rparr>"

definition mem_tenant :: "int32 \<Rightarrow> string TenantRow" where
  "mem_tenant i = \<lparr>tn_ID = i, tn_ExternalID = ''x'', tn_Name = ''t'', tn_APIKey = ''k'', tn_Active = True\<rparr>"

definition mem_admin :: "(int, nat, string) admin_db" where
  "mem_admin = \<lparr>cdb_Classes = [], cdb_Cars = [],
     cdb_Entries = [\<lparr>cer_ID = 9, cer_EventID = 1, cer_CCarID = 1, cer_CarIdx = 4, cer_CarNumber = ''4'', cer_CarNumberRaw = 4\<rparr>],
     cdb_Teams = [], cdb_Drivers = [], adb_Tenants = [mem_tenant 1, mem_tenant 2], adb_Tracks = [],
     adb_Events = [mem_event 1 ''a'', mem_event 2 ''b''], adb_EventExts = [], adb_Analyses = [],
     adb_Race = \<lparr>db_RSInfos = [rec_info 1 1 10, rec_info 2 2 20], db_Protos = (\<lambda>tab. [(1, 0), (2, 0)])\<rparr>\<rparr>"

lemma mem_permission:
  assumes "perm = PermissionDeleteEvent \<or> perm = PermissionUpdateEvent"
  shows "HasTenantPermission (tenant_auth demo_tenant) perm i \<longleftrightarrow> i = 1"
proof -
  have "grants RoleRaceDataProvider perm" "CHR ''_'' \<notin> set perm"
    using assms by (auto simp: grants_def permissions_of_def data_permissions_def map_get_def RoleRaceDataProvider_def
        PermissionDeleteEvent_def PermissionUpdateEvent_def)
  then show ?thesis using permission_by_scope_iff[OF sprint_u32_nonempty, of perm "tenant_auth demo_tenant" i]
    by (auto simp: HasTenantPermission_def tenant_auth_def sprint_u32_inj demo_tenant_def)
qed

lemma mem_access:
  assumes "perm = PermissionDeleteEvent \<or> perm = PermissionUpdateEvent"
  shows "event_validateEventAccess mem_repos (tenant_auth demo_tenant) perm (EventSelector_Key ''a'') mem_admin =
      Inr (event_toPBMessage (ar_nm mem_repos) (mem_event 1 ''a''))"
    "\<exists>err. event_validateEventAccess mem_repos (tenant_auth demo_tenant) perm (EventSelector_Key ''b'') mem_admin = Inl err"
  using mem_permission[OF assms]
  by (simp_all add: event_validateEventAccess_def ResolveEvent_def event_repo_of_def event_LoadByKey_def mem_repos_def mem_table_def
      mem_admin_def mem_event_def one_row_def tenant_LoadByEventID_def load_tenant_def mem_tenant_def event_toPBMessage_def
      tenant_toModel_def)

lemma delete_event_complete_witness:
  "\<exists>r db'. event_DeleteEvent mem_repos demo_tx (tenant_auth demo_tenant) (EventSelector_Key ''a'') mem_admin = Some (r, db') \<and>
    isl r = False \<and> adb_Events db' = [mem_event 2 ''b''] \<and> cdb_Entries db' = []"
proof -
  obtain r db' where d: "event_DeleteEvent mem_repos demo_tx (tenant_auth demo_tenant) (EventSelector_Key ''a'') mem_admin = Some (r, db')"
    "case r of Inl err \<Rightarrow> db' = mem_admin
     | Inr _ \<Rightarrow> \<exists>event. may_access mem_repos (tenant_auth demo_tenant) PermissionDeleteEvent (EventSelector_Key ''a'') mem_admin event \<and>
         without_event (uint (ev_Id event)) mem_admin db'"
    using delete_event_complete[OF mem_admin_sql demo_tx_transactional, of "tenant_auth demo_tenant" "EventSelector_Key ''a''" mem_admin] by blast
  have ev: "ev_Id (event_toPBMessage (ar_nm mem_repos) (mem_event 1 ''a'')) = 1" by (simp add: event_toPBMessage_def mem_event_def)
  have "\<exists>x db''. delete_event mem_repos 1 mem_admin = (Inr x, db'')"
    by (simp add: delete_event_def mem_repos_def analysis_DeleteByEventID_def mem_table_def on_race_def speedmap_DeleteByEventID_def
        carproto_DeleteByEventID_def racestate_DeleteByEventID_def mem_race_def car_DeleteByEventID_def mem_cars_def
        eventext_DeleteByEventID_def event_DeleteByID_def)
  then have "\<not> isl r" using d(1) ev mem_access(1)[of PermissionDeleteEvent]
    by (auto simp: event_DeleteEvent_def service_DeleteEvent_def in_tx_def demo_tx_def stored_def)
  with d(2) obtain event where event: "may_access mem_repos (tenant_auth demo_tenant) PermissionDeleteEvent (EventSelector_Key ''a'') mem_admin event"
    "without_event (uint (ev_Id event)) mem_admin db'" by (auto split: sum.splits)
  have "ev_Id event = 1" using event(1) mem_access(1)[of PermissionDeleteEvent] ev by (simp flip: event_access_iff)
  with event(2) have "mset (adb_Events db') = {#mem_event 2 ''b''#}" "mset (cdb_Entries db') = {#}"
    by (simp_all add: without_event_def Let_def mem_admin_def mem_event_def)
  with d(1) \<open>\<not> isl r\<close> show ?thesis by simp
qed

lemma update_event_row_witness:
  "\<exists>r db'. event_UpdateEvent_handler mem_repos demo_tx (tenant_auth demo_tenant)
      \<lparr>uer_EventSelector = EventSelector_Key ''a'', uer_Name = [], uer_Description = [], uer_Key = [], uer_ReplayInfo = None\<rparr> mem_admin = Some (r, db') \<and>
    mset (map evr_Description (adb_Events db')) = {#Some [], Some ''day''#} \<and> adb_Race db' = adb_Race mem_admin"
proof -
  let ?req = "\<lparr>uer_EventSelector = EventSelector_Key ''a'', uer_Name = [], uer_Description = [], uer_Key = [], uer_ReplayInfo = None\<rparr>"
  let ?e = "event_toPBMessage (ar_nm mem_repos) (mem_event 1 ''a'')"
  obtain r db' where u: "event_UpdateEvent_handler mem_repos demo_tx (tenant_auth demo_tenant) ?req mem_admin = Some (r, db')"
    "db' = mem_admin \<or> (\<exists>event rs. may_access mem_repos (tenant_auth demo_tenant) PermissionUpdateEvent (uer_EventSelector ?req) mem_admin event \<and>
       db' = mem_admin\<lparr>adb_Events := rs\<rparr> \<and>
       mset rs = mset (map (\<lambda>r. if evr_ID r = ev_Id event then id (updated_row (ar_nm mem_repos) ?req r) else r) (adb_Events mem_admin)))"
    using update_event_row[OF mem_events.sql_table_axioms demo_tx_transactional, of "tenant_auth demo_tenant" ?req mem_admin] by blast
  have id: "ev_Id ?e = 1" by (simp add: event_toPBMessage_def mem_event_def)
  have "event_UpdateEvent (ar_Events mem_repos) (ar_nm mem_repos) 1 ?req mem_admin =
      (Inr (), mem_admin\<lparr>adb_Events := [updated_row (ar_nm mem_repos) ?req (mem_event 1 ''a''), mem_event 2 ''b'']\<rparr>)"
    unfolding event_UpdateEvent_eq by (simp add: mem_repos_def mem_table_def mem_admin_def mem_event_def)
  then have "db' = mem_admin\<lparr>adb_Events := [updated_row (ar_nm mem_repos) ?req (mem_event 1 ''a''), mem_event 2 ''b'']\<rparr>"
    using u(1) mem_access(1)[of PermissionUpdateEvent] id
    by (simp add: event_UpdateEvent_handler_def service_UpdateEvent_def in_tx_def demo_tx_def stored_def)
  then have "adb_Events db' \<noteq> adb_Events mem_admin" by (simp add: mem_admin_def updated_row_def mem_event_def)
  then have "db' \<noteq> mem_admin" by blast
  then obtain event rs where e: "may_access mem_repos (tenant_auth demo_tenant) PermissionUpdateEvent (uer_EventSelector ?req) mem_admin event"
    "db' = mem_admin\<lparr>adb_Events := rs\<rparr>"
    "mset rs = mset (map (\<lambda>r. if evr_ID r = ev_Id event then id (updated_row (ar_nm mem_repos) ?req r) else r) (adb_Events mem_admin))"
    using u(2) by blast
  have "ev_Id event = 1" using e(1) mem_access(1)[of PermissionUpdateEvent] id by (simp flip: event_access_iff)
  with e(3) have "mset rs = {#updated_row (ar_nm mem_repos) ?req (mem_event 1 ''a''), mem_event 2 ''b''#}"
    by (simp add: mem_admin_def mem_event_def)
  then have "image_mset evr_Description (mset rs) = {#Some [], Some ''day''#}"
    by (simp add: updated_row_fields) (simp add: mem_event_def)
  with u(1) e(2) show ?thesis by simp
qed

lemma event_create_load_witness:
  "\<exists>i db'. event_Create (ar_Events mem_repos) (ar_nm mem_repos) 5 (demo_event 0 ''c'') 2 mem_admin = (Inr i, db') \<and> i \<noteq> 1 \<and>
    event_LoadByID (ar_Events mem_repos) (ar_nm mem_repos) () (uint i) db' =
      Inr (demo_event i ''c''\<lparr>ev_ReplayInfo := replay_info_read 5 (ev_ReplayInfo (demo_event 0 ''c''))\<rparr>)"
proof -
  obtain db' where c: "event_Create (ar_Events mem_repos) (ar_nm mem_repos) 5 (demo_event 0 ''c'') 2 mem_admin = (Inr 3, db')"
    by (simp add: event_Create_def mem_repos_def mem_table_def mem_admin_def mem_event_def event_setter_def demo_event_def Let_def)
  moreover have "storable id (ar_nm mem_repos) 5 (demo_event 0 ''c'') 2"
    by (simp add: storable_def mem_repos_def decimals.defs rec_decimals_def demo_event_def f32_of_int_exact)
  moreover have "distinct (map evr_ID (adb_Events mem_admin))" by (simp add: mem_admin_def mem_event_def)
  moreover have "tb_All (ar_Events mem_repos) db' (\<lambda>r. evr_ID r = 3) = Inr (filter (\<lambda>r. evr_ID r = 3) (adb_Events db'))"
    by (simp add: mem_repos_def mem_table_def)
  ultimately show ?thesis
    using event_create_load[OF mem_events.sql_table_axioms, of 5 "demo_event 0 ''c''" 2 mem_admin 3 db']
    by (intro exI[of _ 3] exI[of _ db']) (simp add: mem_repos_def demo_event_def)
qed

end
