(* ===== verification/Admin_Services.thy ===== *)
theory Admin_Services
  imports Event_Service Replay
begin

text \<open>
  The services that administer tenants, tracks and stored analyses and those that tell a client about itself and the server:
  pkg/grpc/server/tenant/tenant_server.go, track/track_server.go, analysis/analysis_server.go, user/user_server.go and
  settings/settings_server.go.

  A handler returns an error or its response, with the database and the tenant cache where it writes them.  None is a panic.  The
  tenant cache is the one the authentication of requests reads, when the server has been given one.
\<close>

subsection \<open>Tenants\<close>

definition denied :: "'e server_error + 'a" where
  "denied = Inl (ConnectError CodePermissionDenied)"

definition tenant_GetTenants :: "('d, 'b, 'u, 'e) repos \<Rightarrow> Authentication \<Rightarrow> ('d, 'b, 'u) admin_db \<Rightarrow> 'e server_error + TenantMsg list" where
  "tenant_GetTenants R a db = (if \<not> HasPermission a PermissionReadTenant then denied
     else map_sum id (map mt_Tenant) (repo_result (tenant_LoadAll (ar_Tenants R) (ar_uu R) db)))"

definition select_tenant :: "('d, 'b, 'u, 'e) repos \<Rightarrow> TenantSelector option \<Rightarrow> ('d, 'b, 'u) admin_db \<Rightarrow> ('e + TenantModel) run" where
  "select_tenant R sel db = tenant_LoadBySelector (ar_Tenants R) (ar_uu R) (ar_noRows R) (ar_unknownSelector R) sel db"

definition tenant_GetTenant :: "('d, 'b, 'u, 'e) repos \<Rightarrow> Authentication \<Rightarrow> TenantSelector option \<Rightarrow> ('d, 'b, 'u) admin_db \<Rightarrow>
    ('e server_error + TenantMsg) run" where
  "tenant_GetTenant R a sel db = (if \<not> HasPermission a PermissionReadTenant then Some denied
     else map_option (\<lambda>r. map_sum id mt_Tenant (repo_result r)) (select_tenant R sel db))"

text \<open>hash is utils.HashAPIKey, extID the new uuid.\<close>

definition tenant_CreateTenant :: "('d, 'b, 'u, 'e) repos \<Rightarrow> (string \<Rightarrow> string) \<Rightarrow> Authentication \<Rightarrow> 'e + 'u \<Rightarrow> CreateTenantRequest \<Rightarrow>
    ('d, 'b, 'u) admin_db \<Rightarrow> ('e server_error + TenantMsg) \<times> ('d, 'b, 'u) admin_db" where
  "tenant_CreateTenant R hash a extID req db = (if \<not> HasPermission a PermissionCreateTenant then (denied, db)
     else case tenant_Create (ar_Tenants R) (ar_uu R) extID (req\<lparr>ctr_ApiKey := hash (ctr_ApiKey req)\<rparr>) db of
       (r, db) \<Rightarrow> (map_sum id mt_Tenant (repo_result r), db))"

definition tenant_UpdateTenant :: "('d, 'b, 'u, 'e) repos \<Rightarrow> (string \<Rightarrow> string) \<Rightarrow> Authentication \<Rightarrow> UpdateTenantRequest \<Rightarrow>
    ('d, 'b, 'u) admin_db \<Rightarrow> tenant_cache option \<Rightarrow>
    (('e server_error + TenantMsg) \<times> ('d, 'b, 'u) admin_db \<times> tenant_cache option) run" where
  "tenant_UpdateTenant R hash a req db tcache = (if \<not> HasPermission a PermissionUpdateTenant then Some (denied, db, tcache)
     else map_option (\<lambda>r. case r of
         Inl err \<Rightarrow> (Inl (RepoError err), db, tcache)
       | Inr t \<Rightarrow> (let req = (if utr_ApiKey req \<noteq> [] then req\<lparr>utr_ApiKey := hash (utr_ApiKey req)\<rparr> else req) in
           case tenant_Update (ar_Tenants R) (ar_uu R) (ar_noRows R) (mt_ID t) req db of
             (Inl err, db) \<Rightarrow> (Inl (RepoError err), db, tcache)
           | (Inr ret, db) \<Rightarrow> (Inr (mt_Tenant ret), db, map_option (Invalidate (mt_APIKey ret)) tcache)))
       (select_tenant R (utr_Tenant req) db))"

definition tenant_DeleteTenant :: "('d, 'b, 'u, 'e) repos \<Rightarrow> Authentication \<Rightarrow> TenantSelector option \<Rightarrow>
    ('d, 'b, 'u) admin_db \<Rightarrow> tenant_cache option \<Rightarrow>
    (('e server_error + unit) \<times> ('d, 'b, 'u) admin_db \<times> tenant_cache option) run" where
  "tenant_DeleteTenant R a sel db tcache = (if \<not> HasPermission a PermissionDeleteTenant then Some (denied, db, tcache)
     else map_option (\<lambda>r. case r of
         Inl err \<Rightarrow> (Inl (RepoError err), db, tcache)
       | Inr data \<Rightarrow> (case tenant_DeleteByID (ar_Tenants R) (mt_ID data) db of
             (Inl err, db) \<Rightarrow> (Inl (RepoError err), db, tcache)
           | (Inr deleted, db) \<Rightarrow> (if deleted = 0 then (Inl (ConnectError CodeNotFound), db, tcache)
               else (Inr (), db, map_option (Invalidate (mt_APIKey data)) tcache))))
       (select_tenant R sel db))"

text \<open>NewTenantCache: the tenant of a hashed API key, from the repository.\<close>

definition tenant_loader :: "('d, 'b, 'u, 'e) repos \<Rightarrow> ('d, 'b, 'u) admin_db \<Rightarrow> string \<Rightarrow> 'e + TenantModel" where
  "tenant_loader R db key = tenant_LoadByAPIKey (ar_Tenants R) (ar_uu R) (ar_noRows R) key db"

subsection \<open>Tracks\<close>

definition track_GetTracks :: "('d, 'b, 'u, 'e) repos \<Rightarrow> (Track list \<Rightarrow> Track \<Rightarrow> bool) \<Rightarrow> ('d, 'b, 'u) admin_db \<Rightarrow>
    'e server_error option \<times> Track list" where
  "track_GetTracks R send db = (case track_LoadAll (ar_Tracks R) (ar_nm R) db of
     Inl err \<Rightarrow> (Some (RepoError err), [])
   | Inr data \<Rightarrow> (let (sent, out) = send_all send data [] in (if sent then None else Some SendError, out)))"

definition track_GetTrack :: "('d, 'b, 'u, 'e) repos \<Rightarrow> uint32 \<Rightarrow> ('d, 'b, 'u) admin_db \<Rightarrow> 'e server_error + Track" where
  "track_GetTrack R i db = repo_result (track_LoadByID (ar_Tracks R) (ar_nm R) (ar_noRows R) (uint i) db)"

definition tx_result :: "('e option \<times> 'db) run \<Rightarrow> (('e server_error + unit) \<times> 'db) run" where
  "tx_result = map_option (\<lambda>(err, db). (case err of Some e \<Rightarrow> Inl (RepoError e) | None \<Rightarrow> Inr (), db))"

text \<open>A request without a track is a nil dereference.\<close>

definition track_EnsureTrack_handler :: "('d, 'b, 'u, 'e) repos \<Rightarrow> ((('d, 'b, 'u) admin_db, 'e) txFunc \<Rightarrow> (('d, 'b, 'u) admin_db, 'e) txFunc) \<Rightarrow>
    Authentication \<Rightarrow> Track option \<Rightarrow> ('d, 'b, 'u) admin_db \<Rightarrow> (('e server_error + unit) \<times> ('d, 'b, 'u) admin_db) run" where
  "track_EnsureTrack_handler R runInTx a t db = (if \<not> HasPermission a PermissionCreateTrack then Some (denied, db)
     else Option.bind t (\<lambda>t. tx_result (in_tx runInTx (track_EnsureTrack (ar_Tracks R) (ar_nm R) (ar_noRows R) t) db)))"

definition track_UpdatePitInfo_handler :: "('d, 'b, 'u, 'e) repos \<Rightarrow> ((('d, 'b, 'u) admin_db, 'e) txFunc \<Rightarrow> (('d, 'b, 'u) admin_db, 'e) txFunc) \<Rightarrow>
    Authentication \<Rightarrow> uint32 \<Rightarrow> TrackPitInfo option \<Rightarrow> ('d, 'b, 'u) admin_db \<Rightarrow> (('e server_error + unit) \<times> ('d, 'b, 'u) admin_db) run" where
  "track_UpdatePitInfo_handler R runInTx a i pitInfo db = (if \<not> HasPermission a PermissionUpdateTrack then Some (denied, db)
     else tx_result (in_tx runInTx (\<lambda>db. andThen (track_UpdatePitInfo (ar_Tracks R) (ar_nm R) (uint i) pitInfo db) (\<lambda>_ db. (Inr (), db))) db))"

subsection \<open>Stored analyses\<close>

record GetAnalysisResponse =
  gar_Analysis :: Analysis
  gar_Snapshots :: "SnapshotData list"

definition GetAnalysis :: "('d, 'b, 'u, 'e) repos \<Rightarrow> EventSelector \<Rightarrow> ('d, 'b, 'u) admin_db \<Rightarrow> ('e server_error + GetAnalysisResponse) run" where
  "GetAnalysis R sel db = (case ResolveEvent (event_repo_of R db) sel of
     Inl err \<Rightarrow> Some (Inl err)
   | Inr e \<Rightarrow> (let i = uint (ev_Id e) in
       load_next (Some (analysis_LoadByEventID (ar_Analyses R) (ar_AnalysisCodec R) (ar_noRows R) i db)) (\<lambda>analysisData.
       load_next (LoadSnapshots (ar_Race R) (ar_snapshots R) (ar_u32 R) (ar_SpeedmapCodec R) i 300 (adb_Race db)) (\<lambda>snapshots.
         Some (Inr \<lparr>gar_Analysis = analysisData, gar_Snapshots = snapshots\<rparr>)))))"

text \<open>AnalysisComponent of the analysis service, another type than that of the live data service.\<close>

datatype ComputeComponent = COMPUTE_RACEGRAPH | COMPUTE_ALL | COMPUTE_OTHER int

text \<open>
  The analysis is written with the background context: on the connection of the repository, not in the transaction.  The
  transaction only sees the error of the write; what it makes of it is logged.  runInTx reports with the variable that the function has set
  whether it was called at all.
\<close>

definition server_storeAnalysisData :: "('d, 'b, 'u, 'e) repos \<Rightarrow> ((('d, 'b, 'u) admin_db, 'e) txFunc \<Rightarrow> (('d, 'b, 'u) admin_db, 'e) txFunc) \<Rightarrow>
    timestamp \<Rightarrow> int \<Rightarrow> Analysis \<Rightarrow> ('d, 'b, 'u) admin_db \<Rightarrow> ('d, 'b, 'u) admin_db run" where
  "server_storeAnalysisData R runInTx now eventID data db = (
     let (r, written) = analysis_Upsert (ar_Analyses R) adb_Analyses (ar_AnalysisCodec R) now eventID data db
     in map_option (\<lambda>(_, ran, _). if ran = None then db else written)
       (runInTx (\<lambda>db. Some (case r of Inl err \<Rightarrow> Some err | Inr _ \<Rightarrow> None, Some 1, db)) db))"

definition recompute_event :: "('d, 'b, 'u, 'e) repos \<Rightarrow> Event \<Rightarrow> ('d, 'b, 'u) admin_db \<Rightarrow> ('e server_error + Analysis) run" where
  "recompute_event R e db = (let nm = decimals.truncate (ar_nm R); race = adb_Race db in
     RecomputeAnalysis (event_repo_of R db) (RacestateRepository (ar_Race R) (ar_StateCodec R) nm race)
       (CarProtoRepository (ar_Race R) (ar_DriverCodec R) nm race) e)"

definition replace_component :: "ComputeComponent \<Rightarrow> Analysis \<Rightarrow> Analysis \<Rightarrow> Analysis" where
  "replace_component c recomputed a = (case c of
     COMPUTE_RACEGRAPH \<Rightarrow> a\<lparr>an_RaceGraph := an_RaceGraph recomputed\<rparr>
   | COMPUTE_ALL \<Rightarrow> a\<lparr>an_RaceGraph := an_RaceGraph recomputed\<rparr>
   | COMPUTE_OTHER _ \<Rightarrow> a)"

definition ComputeAnalysis :: "('d, 'b, 'u, 'e) repos \<Rightarrow> ((('d, 'b, 'u) admin_db, 'e) txFunc \<Rightarrow> (('d, 'b, 'u) admin_db, 'e) txFunc) \<Rightarrow>
    timestamp \<Rightarrow> Authentication \<Rightarrow> EventSelector \<Rightarrow> ComputeComponent \<Rightarrow> bool \<Rightarrow> ('d, 'b, 'u) admin_db \<Rightarrow>
    (('e server_error + Analysis) \<times> ('d, 'b, 'u) admin_db) run" where
  "ComputeAnalysis R runInTx now a sel component persist db = (
     if \<not> HasPermission a PermissionUpdateEvent then Some (denied, db)
     else case ResolveEvent (event_repo_of R db) sel of
       Inl err \<Rightarrow> Some (Inl err, db)
     | Inr e \<Rightarrow> (case analysis_LoadByEventID (ar_Analyses R) (ar_AnalysisCodec R) (ar_noRows R) (uint (ev_Id e)) db of
         Inl err \<Rightarrow> Some (Inl (RepoError err), db)
       | Inr analysisData \<Rightarrow> Option.bind (recompute_event R e db) (\<lambda>r. case r of
           Inl err \<Rightarrow> Some (Inl err, db)
         | Inr recomputed \<Rightarrow> (let analysisData = replace_component component recomputed analysisData in
             if persist then map_option (Pair (Inr analysisData)) (server_storeAnalysisData R runInTx now (uint (ev_Id e)) analysisData db)
             else Some (Inr analysisData, db)))))"

subsection \<open>Who am I, and what can the server do\<close>

record UserInfo =
  ui_UserId :: string
  ui_Username :: string
  ui_Roles :: "Role list"
  ui_IsAdmin :: bool
  ui_IsEditor :: bool
  ui_ScopedRoles :: "ScopedRole list"

text \<open>lo.Uniq keeps the first occurrence of every element.\<close>

definition lo_Uniq :: "'a list \<Rightarrow> 'a list" where
  "lo_Uniq xs = rev (remdups (rev xs))"

text \<open>None is the error CodeUnauthenticated: the caller has no session.\<close>

definition GetUserInfo :: "Authentication \<Rightarrow> UserInfo option" where
  "GetUserInfo a = (case a of
     SessionAuth _ userID _ _ _ _ \<Rightarrow> Some \<lparr>ui_UserId = userID, ui_Username = Principal a, ui_Roles = lo_Uniq (Roles a),
       ui_IsAdmin = (RoleAdmin \<in> set (Roles a)), ui_IsEditor = (RoleEditor \<in> set (CombinedRoles a)), ui_ScopedRoles = ScopedRoles a\<rparr>
   | _ \<Rightarrow> None)"

record ServerSettings =
  SupportsLogin :: bool

definition GetServerSettings :: "bool \<Rightarrow> ServerSettings" where
  "GetServerSettings supportsLogin = \<lparr>SupportsLogin = supportsLogin\<rparr>"

end
