(* ===== verification/Admin_Properties.thy ===== *)
theory Admin_Properties
  imports Admin_Services Event_Service_Properties Replay_Properties
begin

text \<open>
  The tenant service together with the cache and the authentication of requests: what a caller with an API key may do once the tenant
  has been changed; and the analysis service: an analysis that has been recomputed and stored is read back.
\<close>

subsection \<open>Keys of tenants\<close>

definition tenants_ok :: "('d, 'b, 'u, 'e) repos \<Rightarrow> bool" where
  "tenants_ok R \<longleftrightarrow> sql_table adb_Tenants (\<lambda>rs db. db\<lparr>adb_Tenants := rs\<rparr>) tn_ID id (ar_Tenants R) \<and>
     (\<forall>db P. \<not> isl (tb_All (ar_Tenants R) db P))"

text \<open>The table has the constraint that API keys are unique.\<close>

definition keys_unique :: "('d, 'b, 'u) admin_db \<Rightarrow> bool" where
  "keys_unique db \<longleftrightarrow> distinct (map tn_ID (adb_Tenants db)) \<and> distinct (map tn_APIKey (adb_Tenants db))"

lemma distinct_map_unique: "distinct (map f xs) \<Longrightarrow> x \<in> set xs \<Longrightarrow> y \<in> set xs \<Longrightarrow> f x = f y \<Longrightarrow> x = y"
  by (simp add: distinct_map inj_on_def)

text \<open>A loaded tenant is a row, and a row that alone satisfies the condition is loaded.\<close>

lemma load_tenant_row:
  assumes "tenants_ok R" "load_tenant (ar_Tenants R) uu noRows P db = Inr t"
  shows "\<exists>r \<in> set (adb_Tenants db). P r \<and> t = tenant_toModel uu r"
proof -
  have tt: "sql_table adb_Tenants (\<lambda>rs db. db\<lparr>adb_Tenants := rs\<rparr>) tn_ID id (ar_Tenants R)"
    using assms(1) by (simp add: tenants_ok_def)
  obtain r where "one_row noRows (tb_All (ar_Tenants R) db P) = Inr r" "t = tenant_toModel uu r"
    using assms(2) by (cases "one_row noRows (tb_All (ar_Tenants R) db P)") (auto simp: load_tenant_def)
  with sql_table.one_Inr[OF tt] show ?thesis by blast
qed

lemma load_tenant_unique:
  assumes "tenants_ok R" "r \<in> set (adb_Tenants db)" "P r" "\<And>r'. r' \<in> set (adb_Tenants db) \<Longrightarrow> P r' \<Longrightarrow> r' = r"
  shows "load_tenant (ar_Tenants R) uu noRows P db = Inr (tenant_toModel uu r)"
proof -
  have tt: "sql_table adb_Tenants (\<lambda>rs db. db\<lparr>adb_Tenants := rs\<rparr>) tn_ID id (ar_Tenants R)"
    and rd: "\<forall>db P. \<not> isl (tb_All (ar_Tenants R) db P)" using assms(1) by (simp_all add: tenants_ok_def)
  obtain rs where "tb_All (ar_Tenants R) db P = Inr rs" using rd by (metis sum.collapse(2))
  from sql_table.one_unique[OF tt this assms(2-4)] show ?thesis by (simp add: load_tenant_def)
qed

lemma select_tenant_row:
  assumes "tenants_ok R" "select_tenant R sel db = Some (Inr t)"
  shows "\<exists>r \<in> set (adb_Tenants db). t = tenant_toModel (ar_uu R) r"
  using assms(2) load_tenant_row[OF assms(1)]
  by (auto simp: select_tenant_def tenant_LoadBySelector_def tenant_LoadByExternalID_def tenant_LoadByName_def
      split: option.splits TenantSelector.splits; blast)

text \<open>A caller with a key that has just been invalidated in the cache is judged by the tenant the repository has now.\<close>

lemma authenticate_invalidated:
  assumes "rq_Token rq \<noteq> []" "rq_Token rq \<noteq> adminToken cfg" "hashAPIKey cfg (rq_Token rq) = k"
  shows "fst (apiKey_Authenticate cfg rq (Invalidate k c)) = (case loadTenant cfg k of
     Inl _ \<Rightarrow> None | Inr t \<Rightarrow> if tm_IsActive (mt_Tenant t) then Some (tenant_auth t) else None)"
  using lc.get_after_invalidate[of "loadTenant cfg" "rq_Now rq" k c] assms
  by (auto simp: apiKey_Authenticate_def split: prod.splits sum.splits)

text \<open>
  Once a tenant has been deleted nobody is authenticated by its key, whatever the cache held: the next request with the key
  asks the database, which knows it no more.
\<close>

lemma deleted_tenant_locked_out:
  assumes "tenants_ok R" "keys_unique db" "tenant_DeleteTenant R a sel db (Some c) = Some (Inr (), db', cache')"
    "loadTenant cfg = tenant_loader R db'"
  shows "\<exists>t c'. select_tenant R sel db = Some (Inr t) \<and> HasPermission a PermissionDeleteTenant \<and> cache' = Some c' \<and>
    (\<forall>rq. rq_Token rq \<noteq> adminToken cfg \<and> hashAPIKey cfg (rq_Token rq) = mt_APIKey t \<longrightarrow> fst (apiKey_Authenticate cfg rq c') = None)"
proof -
  have tt: "sql_table adb_Tenants (\<lambda>rs db. db\<lparr>adb_Tenants := rs\<rparr>) tn_ID id (ar_Tenants R)"
    using assms(1) by (simp add: tenants_ok_def)
  have perm: "HasPermission a PermissionDeleteTenant" using assms(3) by (auto simp: tenant_DeleteTenant_def denied_def split: if_splits)
  then obtain x where x: "select_tenant R sel db = Some x" "(case x of
         Inl err \<Rightarrow> (Inl (RepoError err), db, Some c)
       | Inr data \<Rightarrow> (case tb_Delete (ar_Tenants R) db (\<lambda>r. tn_ID r = mt_ID data) of
             (Inl err, db) \<Rightarrow> (Inl (RepoError err), db, Some c)
           | (Inr deleted, db) \<Rightarrow> (if deleted = 0 then (Inl (ConnectError CodeNotFound), db, Some c)
               else (Inr (), db, map_option (Invalidate (mt_APIKey data)) (Some c))))) = (Inr (), db', cache')"
    using assms(3) by (auto simp: tenant_DeleteTenant_def tenant_DeleteByID_def)
  then obtain t where xt: "x = Inr t" by (cases x) auto
  obtain n where n: "tb_Delete (ar_Tenants R) db (\<lambda>r. tn_ID r = mt_ID t) = (Inr n, db')" "cache' = Some (Invalidate (mt_APIKey t) c)"
    using x(2) by (auto simp: xt split: sum.splits prod.splits if_splits)
  note t = x(1)[unfolded xt] n
  obtain r where r: "r \<in> set (adb_Tenants db)" "t = tenant_toModel (ar_uu R) r" using select_tenant_row[OF assms(1) t(1)] by blast
  have rows: "set (adb_Tenants db') = {r' \<in> set (adb_Tenants db). tn_ID r' \<noteq> tn_ID r}"
    using sql_table.delete_rows[OF tt t(2)] r(2) by (simp add: tenant_toModel_def)
  have gone: "tn_APIKey r' \<noteq> mt_APIKey t" if "r' \<in> set (adb_Tenants db')" for r'
    using that r distinct_map_unique[of tn_APIKey "adb_Tenants db" r' r] assms(2) unfolding rows
    by (auto simp: keys_unique_def tenant_toModel_def)
  have "isl (tenant_loader R db' (mt_APIKey t))"
  proof (cases "tenant_loader R db' (mt_APIKey t)")
    case (Inr s)
    then have "load_tenant (ar_Tenants R) (ar_uu R) (ar_noRows R) (\<lambda>r. tn_APIKey r = mt_APIKey t) db' = Inr s"
      by (simp add: tenant_loader_def tenant_LoadByAPIKey_def)
    from load_tenant_row[OF assms(1) this] gone show ?thesis by blast
  qed simp
  then have "fst (apiKey_Authenticate cfg rq (Invalidate (mt_APIKey t) c)) = None"
    if "rq_Token rq \<noteq> adminToken cfg" "hashAPIKey cfg (rq_Token rq) = mt_APIKey t" for rq
    using authenticate_invalidated[OF _ that] assms(4) by (cases "rq_Token rq = []") (auto simp: apiKey_Authenticate_def split: sum.splits)
  then show ?thesis using t(1,3) perm by blast
qed

definition renamed_row :: "UpdateTenantRequest \<Rightarrow> 'u TenantRow \<Rightarrow> 'u TenantRow" where
  "renamed_row req r = r\<lparr>tn_Active := utr_IsActive req, tn_Name := if utr_Name req \<noteq> [] then utr_Name req else tn_Name r,
     tn_APIKey := if utr_ApiKey req \<noteq> [] then utr_ApiKey req else tn_APIKey r\<rparr>"

lemma tenant_Update_eq: "tenant_Update tb uu noRows i req db =
    andThen (tb_Update tb db (renamed_row req) (\<lambda>r. tn_ID r = i)) (\<lambda>_ db. (tenant_LoadByID tb uu noRows i db, db))"
  unfolding tenant_Update_def Let_def
  by (rule arg_cong[where f = "\<lambda>g. andThen (tb_Update tb db g (\<lambda>r. tn_ID r = i)) (\<lambda>_ db. (tenant_LoadByID tb uu noRows i db, db))"],
      rule ext) (simp add: renamed_row_def)


text \<open>What a successful update has done: t is the tenant as it is now, r its row.\<close>

lemma update_tenant_ok:
  assumes "tenants_ok R" "tenant_UpdateTenant R hash a req db (Some c) = Some (Inr msg, db', tc)"
  obtains t r old where "HasPermission a PermissionUpdateTenant" "mt_Tenant t = msg" "tc = Some (Invalidate (mt_APIKey t) c)"
    "r \<in> set (adb_Tenants db')" "t = tenant_toModel (ar_uu R) r" "tn_Active r = utr_IsActive req"
    "utr_ApiKey req \<noteq> [] \<Longrightarrow> hash (utr_ApiKey req) \<noteq> [] \<Longrightarrow> tn_APIKey r = hash (utr_ApiKey req)"
    "select_tenant R (utr_Tenant req) db = Some (Inr old)" "utr_ApiKey req = [] \<Longrightarrow> keys_unique db \<Longrightarrow> tn_APIKey r = mt_APIKey old"
proof -
  have tt: "sql_table adb_Tenants (\<lambda>rs db. db\<lparr>adb_Tenants := rs\<rparr>) tn_ID id (ar_Tenants R)"
    using assms(1) by (simp add: tenants_ok_def)
  have perm: "HasPermission a PermissionUpdateTenant" using assms(2) by (auto simp: tenant_UpdateTenant_def denied_def split: if_splits)
  define req' where "req' = (if utr_ApiKey req \<noteq> [] then req\<lparr>utr_ApiKey := hash (utr_ApiKey req)\<rparr> else req)"
  have "map_option (\<lambda>x. case x of
         Inl err \<Rightarrow> (Inl (RepoError err), db, Some c)
       | Inr t \<Rightarrow> (case tenant_Update (ar_Tenants R) (ar_uu R) (ar_noRows R) (mt_ID t) req' db of
             (Inl err, db) \<Rightarrow> (Inl (RepoError err), db, Some c)
           | (Inr ret, db) \<Rightarrow> (Inr (mt_Tenant ret), db, map_option (Invalidate (mt_APIKey ret)) (Some c))))
       (select_tenant R (utr_Tenant req) db) = Some (Inr msg, db', tc)"
    using assms(2) perm unfolding tenant_UpdateTenant_def Let_def req'_def by simp
  then obtain x where sel: "select_tenant R (utr_Tenant req) db = Some x" and x: "(case x of
         Inl err \<Rightarrow> (Inl (RepoError err), db, Some c)
       | Inr t \<Rightarrow> (case tenant_Update (ar_Tenants R) (ar_uu R) (ar_noRows R) (mt_ID t) req' db of
             (Inl err, db) \<Rightarrow> (Inl (RepoError err), db, Some c)
           | (Inr ret, db) \<Rightarrow> (Inr (mt_Tenant ret), db, map_option (Invalidate (mt_APIKey ret)) (Some c)))) = (Inr msg, db', tc)"
    by (auto simp only: map_option_eq_Some)
  then obtain old where old: "x = Inr old" by (cases x) auto
  obtain t where t: "tenant_Update (ar_Tenants R) (ar_uu R) (ar_noRows R) (mt_ID old) req' db = (Inr t, db')"
    "mt_Tenant t = msg" "tc = Some (Invalidate (mt_APIKey t) c)"
    using x by (auto simp: old split: sum.splits prod.splits)
  obtain n where upd: "tb_Update (ar_Tenants R) db (renamed_row req') (\<lambda>r. tn_ID r = mt_ID old) = (Inr n, db')"
    and load: "tenant_LoadByID (ar_Tenants R) (ar_uu R) (ar_noRows R) (mt_ID old) db' = Inr t"
    using t(1) by (auto simp: tenant_Update_eq andThen_Inr)
  obtain r where r: "r \<in> set (adb_Tenants db')" "tn_ID r = mt_ID old" "t = tenant_toModel (ar_uu R) r"
    using load_tenant_row[OF assms(1) load[unfolded tenant_LoadByID_def]] by blast
  have "r \<in> (\<lambda>r. if tn_ID r = mt_ID old then id (renamed_row req' r) else r) ` set (adb_Tenants db)"
    using r(1) sql_table.update_rows[OF tt upd] by simp
  then obtain r0 where r0: "r0 \<in> set (adb_Tenants db)" "tn_ID r0 = mt_ID old" "r = renamed_row req' r0" using r(2) by (auto split: if_splits)
  then have act: "tn_Active r = utr_IsActive req" and key: "utr_ApiKey req \<noteq> [] \<Longrightarrow> hash (utr_ApiKey req) \<noteq> [] \<Longrightarrow> tn_APIKey r = hash (utr_ApiKey req)"
    by (simp_all add: renamed_row_def req'_def)
  have same: "tn_APIKey r = mt_APIKey old" if "utr_ApiKey req = []" "keys_unique db"
  proof -
    obtain ro where ro: "ro \<in> set (adb_Tenants db)" "old = tenant_toModel (ar_uu R) ro"
      using select_tenant_row[OF assms(1)] sel old by blast
    then have "tn_ID ro = tn_ID r0" using r0(2) by (simp add: tenant_toModel_def)
    moreover have "distinct (map tn_ID (adb_Tenants db))" using that(2) by (simp add: keys_unique_def)
    ultimately have "ro = r0" using distinct_map_unique ro(1) r0(1) by metis
    then show ?thesis using ro(2) r0(3) that(1) by (simp add: renamed_row_def req'_def tenant_toModel_def)
  qed
  show thesis by (rule that[OF perm t(2,3) r(1,3) act key sel[unfolded old] same])
qed

text \<open>
  C16: once a tenant has been updated, the key it has now authenticates exactly while the tenant is active, and as the tenant
  that the response describes: an update that deactivates a tenant takes effect at once, whatever the cache held.
\<close>

lemma updated_tenant_key:
  assumes "tenants_ok R" "keys_unique db" "keys_unique db'" "\<And>k. hash k \<noteq> []"
    "tenant_UpdateTenant R hash a req db (Some c) = Some (Inr msg, db', tc)" "loadTenant cfg = tenant_loader R db'"
  shows "\<exists>old t c'. select_tenant R (utr_Tenant req) db = Some (Inr old) \<and> mt_Tenant t = msg \<and> HasPermission a PermissionUpdateTenant \<and>
    tc = Some c' \<and> tm_IsActive msg = utr_IsActive req \<and>
    mt_APIKey t = (if utr_ApiKey req \<noteq> [] then hash (utr_ApiKey req) else mt_APIKey old) \<and>
    (\<forall>rq. rq_Token rq \<noteq> [] \<and> rq_Token rq \<noteq> adminToken cfg \<and> hashAPIKey cfg (rq_Token rq) = mt_APIKey t \<longrightarrow>
       fst (apiKey_Authenticate cfg rq c') = (if utr_IsActive req then Some (tenant_auth t) else None))"
proof -
  obtain t r old where u: "HasPermission a PermissionUpdateTenant" "mt_Tenant t = msg" "tc = Some (Invalidate (mt_APIKey t) c)"
    "r \<in> set (adb_Tenants db')" "t = tenant_toModel (ar_uu R) r" "tn_Active r = utr_IsActive req"
    "utr_ApiKey req \<noteq> [] \<Longrightarrow> hash (utr_ApiKey req) \<noteq> [] \<Longrightarrow> tn_APIKey r = hash (utr_ApiKey req)"
    "select_tenant R (utr_Tenant req) db = Some (Inr old)" "utr_ApiKey req = [] \<Longrightarrow> keys_unique db \<Longrightarrow> tn_APIKey r = mt_APIKey old"
    using update_tenant_ok[OF assms(1,5)] by blast
  have "load_tenant (ar_Tenants R) (ar_uu R) (ar_noRows R) (\<lambda>r'. tn_APIKey r' = tn_APIKey r) db' = Inr t" unfolding u(5)
    by (rule load_tenant_unique[OF assms(1) u(4)])
      (use distinct_map_unique[of tn_APIKey "adb_Tenants db'"] u(4) assms(3) in \<open>auto simp: keys_unique_def\<close>)
  then have t: "tenant_loader R db' (mt_APIKey t) = Inr t" "mt_APIKey t = tn_APIKey r" "tm_IsActive msg = utr_IsActive req"
    using u(2,6) by (auto simp: tenant_loader_def tenant_LoadByAPIKey_def u(5) tenant_toModel_def)
  moreover have "mt_APIKey t = (if utr_ApiKey req \<noteq> [] then hash (utr_ApiKey req) else mt_APIKey old)"
    using t(2) u(7,9) assms(2,4) by simp
  ultimately show ?thesis using authenticate_invalidated[of _ cfg "mt_APIKey t" c] assms(6) u(1-3,8)
    by (intro exI[of _ old] exI[of _ t] exI[of _ "Invalidate (mt_APIKey t) c"]) auto
qed

text \<open>
  A key that an update has replaced still authenticates, as the tenant was before, while the cache holds it: only the new key is
  invalidated.
\<close>

lemma replaced_key_still_valid:
  assumes "tenants_ok R" "tenant_UpdateTenant R hash a req db (Some c) = Some (Inr msg, db', Some c')"
    "utr_ApiKey req \<noteq> []" "hash (utr_ApiKey req) \<noteq> []" "hash (utr_ApiKey req) \<noteq> k"
    "cached (rq_Now rq) k c = Some old" "tm_IsActive (mt_Tenant old)"
    "rq_Token rq \<noteq> []" "rq_Token rq \<noteq> adminToken cfg" "hashAPIKey cfg (rq_Token rq) = k"
  shows "fst (apiKey_Authenticate cfg rq c') = Some (tenant_auth old)"
proof -
  have "c' = Invalidate (hash (utr_ApiKey req)) c"
    by (rule update_tenant_ok[OF assms(1,2)]) (use assms(3,4) in \<open>simp add: tenant_toModel_def\<close>)
  then have "fst (Get (Some (loadTenant cfg)) (rq_Now rq) k c') = Inr old"
    using lc.get_result[of "loadTenant cfg" "rq_Now rq" k c'] assms(5,6) by (simp add: lc.invalidate_peek)
  then show ?thesis using assms(7-10) by (auto simp: apiKey_Authenticate_def split: prod.splits sum.splits)
qed

subsection \<open>Stored analyses\<close>

text \<open>The columns of the table keep the event and the data (the time stamp may lose precision), and the event is its primary key.\<close>

definition analyses_ok :: "('d, 'b, 'u, 'e) repos \<Rightarrow> bool" where
  "analyses_ok R \<longleftrightarrow> (\<exists>st. sql_table adb_Analyses (\<lambda>rs db. db\<lparr>adb_Analyses := rs\<rparr>) anr_EventID st (ar_Analyses R) \<and>
     (\<forall>r. anr_EventID (st r) = anr_EventID r \<and> anr_Protodata (st r) = anr_Protodata r)) \<and>
   (\<forall>db P. \<not> isl (tb_All (ar_Analyses R) db P)) \<and>
   (\<forall>a b. Marshal (ar_AnalysisCodec R) a = Inr b \<longrightarrow> Unmarshal (ar_AnalysisCodec R) b = Inr a)"

lemma upsert_rows:
  assumes "sql_table rows put key st tb" "upsert tb P r0 g db rows = (Inr u, db')"
    "\<And>r. P r \<Longrightarrow> Q (st (g r))" "\<And>i. Q (st r0)"
  shows "set (rows db') \<subseteq> {r \<in> set (rows db). \<not> P r} \<union> {r. Q r} \<and> {r \<in> set (rows db). \<not> P r} \<subseteq> set (rows db') \<and>
    (\<exists>r \<in> set (rows db'). Q r)"
proof (cases "\<exists>r \<in> set (rows db). P r")
  case True
  then obtain n where "tb_Update tb db g P = (Inr n, db')" using assms(2) by (auto simp: upsert_def andThen_Inr)
  from sql_table.update_rows[OF assms(1) this] True assms(3) show ?thesis by (auto split: if_splits)
next
  case False
  then obtain r where "tb_Insert tb db (\<lambda>_. r0) = (Inr r, db')" using assms(2) by (auto simp: upsert_def andThen_Inr)
  from sql_table.insert_rows[OF assms(1) this] False assms(4) show ?thesis by auto
qed

lemma analysis_stored:
  assumes "analyses_ok R" "analysis_Upsert (ar_Analyses R) adb_Analyses (ar_AnalysisCodec R) now i a db = (Inr u, db')"
  shows "analysis_LoadByEventID (ar_Analyses R) (ar_AnalysisCodec R) (ar_noRows R) i db' = Inr a \<and>
    {r \<in> set (adb_Analyses db'). anr_EventID r \<noteq> word_of_int i} = {r \<in> set (adb_Analyses db). anr_EventID r \<noteq> word_of_int i}"
proof -
  let ?i = "word_of_int i :: int32"
  obtain st where ta: "sql_table adb_Analyses (\<lambda>rs db. db\<lparr>adb_Analyses := rs\<rparr>) anr_EventID st (ar_Analyses R)"
    and st: "\<And>r. anr_EventID (st r) = anr_EventID r" "\<And>r. anr_Protodata (st r) = anr_Protodata r"
    using assms(1) by (auto simp: analyses_ok_def)
  obtain b where b: "Marshal (ar_AnalysisCodec R) a = Inr b"
    "upsert (ar_Analyses R) (\<lambda>r. anr_EventID r = ?i) \<lparr>anr_EventID = ?i, anr_Protodata = b, anr_RecordStamp = now\<rparr>
       (\<lambda>r. r\<lparr>anr_Protodata := b, anr_RecordStamp := now\<rparr>) db adb_Analyses = (Inr u, db')"
    using assms(2) by (auto simp: analysis_Upsert_def split: sum.splits)
  have rows: "set (adb_Analyses db') \<subseteq> {r \<in> set (adb_Analyses db). anr_EventID r \<noteq> ?i} \<union> {r. anr_EventID r = ?i \<and> anr_Protodata r = b}"
    "{r \<in> set (adb_Analyses db). anr_EventID r \<noteq> ?i} \<subseteq> set (adb_Analyses db')"
    "\<exists>r \<in> set (adb_Analyses db'). anr_EventID r = ?i \<and> anr_Protodata r = b"
    using upsert_rows[OF ta b(2), of "\<lambda>r. anr_EventID r = ?i \<and> anr_Protodata r = b"] by (auto simp: st)
  obtain rs where rs: "tb_All (ar_Analyses R) db' (\<lambda>r. anr_EventID r = ?i) = Inr rs"
    using assms(1) unfolding analyses_ok_def by (metis sum.collapse(2))
  have "set rs = {r \<in> set (adb_Analyses db'). anr_EventID r = ?i}" by (rule sql_table.select_set[OF ta rs])
  then have "rs \<noteq> []" "\<forall>r \<in> set rs. anr_Protodata r = b" using rows(1,3) by auto
  then obtain r where "one_row (ar_noRows R) (tb_All (ar_Analyses R) db' (\<lambda>r. anr_EventID r = ?i)) = Inr r" "anr_Protodata r = b"
    by (cases rs) (auto simp: rs one_row_def)
  moreover have "Unmarshal (ar_AnalysisCodec R) b = Inr a" using assms(1) b(1) by (auto simp: analyses_ok_def)
  ultimately show ?thesis using rows(1,2) by (auto simp: analysis_LoadByEventID_def bind_sum_def)
qed

text \<open>The upsert reports an error only when nothing has been written.\<close>

lemma analysis_not_stored:
  assumes "analyses_ok R" "analysis_Upsert (ar_Analyses R) adb_Analyses (ar_AnalysisCodec R) now i a db = (Inl e, db')"
  shows "db' = db"
proof -
  obtain st where ta: "sql_table adb_Analyses (\<lambda>rs db. db\<lparr>adb_Analyses := rs\<rparr>) anr_EventID st (ar_Analyses R)"
    using assms(1) by (auto simp: analyses_ok_def)
  from assms(2) sql_table.update_err[OF ta] sql_table.insert_err[OF ta] show ?thesis
    by (auto simp: analysis_Upsert_def upsert_def andThen_def split: sum.splits prod.splits if_splits)
qed

text \<open>
  C30: a computed analysis is the stored one with the race graph of the recomputation where the request asks for it.  When it is to
  be stored, then afterwards either the database is as it was or the analysis of the event is read back as it was returned; those of
  other events stay.  Storing it or not does not change the answer.
\<close>

lemma computed_analysis_read_back:
  assumes "analyses_ok R" "ComputeAnalysis R runInTx now a sel component persist db = Some (Inr an, db')"
  shows "\<exists>e old new. ResolveEvent (event_repo_of R db) sel = Inr e \<and> HasPermission a PermissionUpdateEvent \<and>
    analysis_LoadByEventID (ar_Analyses R) (ar_AnalysisCodec R) (ar_noRows R) (uint (ev_Id e)) db = Inr old \<and>
    recompute_event R e db = Some (Inr new) \<and> an = replace_component component new old \<and>
    (db' = db \<or> persist \<and>
       analysis_LoadByEventID (ar_Analyses R) (ar_AnalysisCodec R) (ar_noRows R) (uint (ev_Id e)) db' = Inr an \<and>
       {r \<in> set (adb_Analyses db'). anr_EventID r \<noteq> ev_Id e} = {r \<in> set (adb_Analyses db). anr_EventID r \<noteq> ev_Id e})"
proof -
  have perm: "HasPermission a PermissionUpdateEvent" using assms(2) by (auto simp: ComputeAnalysis_def denied_def split: if_splits)
  obtain e where e: "ResolveEvent (event_repo_of R db) sel = Inr e"
    using assms(2) perm by (cases "ResolveEvent (event_repo_of R db) sel") (auto simp: ComputeAnalysis_def)
  obtain old where old: "analysis_LoadByEventID (ar_Analyses R) (ar_AnalysisCodec R) (ar_noRows R) (uint (ev_Id e)) db = Inr old"
    using assms(2) perm e by (cases "analysis_LoadByEventID (ar_Analyses R) (ar_AnalysisCodec R) (ar_noRows R) (uint (ev_Id e)) db")
      (auto simp: ComputeAnalysis_def)
  obtain r where r: "recompute_event R e db = Some r" using assms(2) perm e old
    by (cases "recompute_event R e db") (auto simp: ComputeAnalysis_def)
  obtain new where new: "r = Inr new" using assms(2) perm e old r by (cases r) (auto simp: ComputeAnalysis_def)
  have an: "an = replace_component component new old" and
    store: "if persist then server_storeAnalysisData R runInTx now (uint (ev_Id e)) an db = Some db' else db' = db"
    using assms(2) perm e old r new by (auto simp: ComputeAnalysis_def Let_def split: if_splits)
  have "db' = db \<or> persist \<and> (\<exists>u. analysis_Upsert (ar_Analyses R) adb_Analyses (ar_AnalysisCodec R) now (uint (ev_Id e)) an db = (Inr u, db'))"
  proof (cases persist)
    case True
    obtain w written where w: "analysis_Upsert (ar_Analyses R) adb_Analyses (ar_AnalysisCodec R) now (uint (ev_Id e)) an db = (w, written)"
      by force
    have "db' = db \<or> db' = written" using store True by (auto simp: server_storeAnalysisData_def w split: if_splits)
    then show ?thesis using w True analysis_not_stored[OF assms(1)] by (cases w) auto
  qed (use store in simp)
  then have "db' = db \<or> persist \<and>
       analysis_LoadByEventID (ar_Analyses R) (ar_AnalysisCodec R) (ar_noRows R) (uint (ev_Id e)) db' = Inr an \<and>
       {r \<in> set (adb_Analyses db'). anr_EventID r \<noteq> ev_Id e} = {r \<in> set (adb_Analyses db). anr_EventID r \<noteq> ev_Id e}"
    using analysis_stored[OF assms(1), of now "uint (ev_Id e)" an db] by auto
  then show ?thesis
    by (intro exI[of _ e] exI[of _ old] exI[of _ new] conjI e perm old an) (simp_all only: r new)
qed

subsection \<open>An example\<close>

text \<open>Two tenants; the administrator; a cache that holds the first tenant as it was, under the hash h1 of its key.\<close>

definition key_tenant :: "int32 \<Rightarrow> string \<Rightarrow> string \<Rightarrow> bool \<Rightarrow> string TenantRow" where
  "key_tenant i n k act = \<lparr>tn_ID = i, tn_ExternalID = n, tn_Name = n, tn_APIKey = k, tn_Active = act\<rparr>"

definition key_admin :: "(int, nat, string) admin_db" where
  "key_admin = mem_admin\<lparr>adb_Tenants := [key_tenant 1 ''n1'' ''h1'' True, key_tenant 2 ''n2'' ''h2'' True]\<rparr>"

definition admin_caller :: Authentication where
  "admin_caller = SimpleAuth ''admin'' [RoleAdmin] []"

definition key_model :: TenantModel where
  "key_model = \<lparr>mt_ID = 1, mt_APIKey = ''h1'', mt_Tenant = \<lparr>tm_Name = ''n1'', tm_IsActive = True, tm_ExternalId = ''n1''\<rparr>\<rparr>"

definition key_cache :: tenant_cache where
  "key_cache = NewTenantCache\<lparr>items := [''h1'' \<mapsto> \<lparr>item_data = key_model, item_expires = Some 100\<rparr>]\<rparr>"

definition key_config :: "(int, nat, string) admin_db \<Rightarrow> unit AuthConfig" where
  "key_config db = \<lparr>adminToken = ''adm'', hashAPIKey = (\<lambda>k. CHR ''h'' # k), loadTenant = tenant_loader mem_repos db\<rparr>"

definition key_request :: Request where
  "key_request = \<lparr>rq_Token = ''1'', rq_Session = None, rq_Now = 50\<rparr>"

lemma mem_tenants_ok: "tenants_ok mem_repos"
  by (simp add: tenants_ok_def mem_repos_def mem_table_sql) (simp add: mem_table_def)

lemma key_admin_unique: "keys_unique key_admin"
  by (simp add: keys_unique_def key_admin_def key_tenant_def)

lemma admin_caller_may: "HasPermission admin_caller perm"
  by (simp add: permission_by_role admin_caller_def)

lemma key_cache_authenticates:
  "fst (apiKey_Authenticate (key_config db) key_request key_cache) = Some (tenant_auth key_model)"
  by (simp add: apiKey_Authenticate_def key_config_def key_request_def key_cache_def Get_def key_model_def)

lemma key_selected: "select_tenant mem_repos (Some (TenantSelector_Name ''n1'')) key_admin = Some (Inr t) \<Longrightarrow> mt_APIKey t = ''h1''"
  by (simp add: select_tenant_def tenant_LoadBySelector_def tenant_LoadByName_def load_tenant_def
      mem_repos_def mem_table_def key_admin_def key_tenant_def one_row_def tenant_toModel_def) auto

lemma deleted_tenant_locked_out_witness:
  "\<exists>db' c'. tenant_DeleteTenant mem_repos admin_caller (Some (TenantSelector_Name ''n1'')) key_admin (Some key_cache) = Some (Inr (), db', Some c') \<and>
    fst (apiKey_Authenticate (key_config db') key_request key_cache) = Some (tenant_auth key_model) \<and>
    fst (apiKey_Authenticate (key_config db') key_request c') = None"
proof -
  obtain db' tc where d: "tenant_DeleteTenant mem_repos admin_caller (Some (TenantSelector_Name ''n1'')) key_admin (Some key_cache) = Some (Inr (), db', tc)"
    by (simp add: tenant_DeleteTenant_def admin_caller_may select_tenant_def tenant_LoadBySelector_def tenant_LoadByName_def load_tenant_def
        mem_repos_def mem_table_def key_admin_def key_tenant_def one_row_def tenant_toModel_def tenant_DeleteByID_def)
  obtain t c' where t: "select_tenant mem_repos (Some (TenantSelector_Name ''n1'')) key_admin = Some (Inr t)" "tc = Some c'"
    "\<forall>rq. rq_Token rq \<noteq> adminToken (key_config db') \<and> hashAPIKey (key_config db') (rq_Token rq) = mt_APIKey t \<longrightarrow>
       fst (apiKey_Authenticate (key_config db') rq c') = None"
    using deleted_tenant_locked_out[OF mem_tenants_ok key_admin_unique d, of "key_config db'"] by (auto simp: key_config_def)
  have "mt_APIKey t = ''h1''" by (rule key_selected[OF t(1)])
  then have "fst (apiKey_Authenticate (key_config db') key_request c') = None" using t(3) by (simp add: key_config_def key_request_def)
  with d t(2) key_cache_authenticates show ?thesis by blast
qed

lemma key_update:
  "tenant_UpdateTenant mem_repos (\<lambda>k. CHR ''h'' # k) admin_caller
      \<lparr>utr_Tenant = Some (TenantSelector_Name ''n1''), utr_Name = [], utr_ApiKey = key, utr_IsActive = False\<rparr> key_admin (Some key_cache) =
    Some (Inr \<lparr>tm_Name = ''n1'', tm_IsActive = False, tm_ExternalId = ''n1''\<rparr>,
      key_admin\<lparr>adb_Tenants := [key_tenant 1 ''n1'' (if key \<noteq> [] then CHR ''h'' # key else ''h1'') False, key_tenant 2 ''n2'' ''h2'' True]\<rparr>,
      Some (Invalidate (if key \<noteq> [] then CHR ''h'' # key else ''h1'') key_cache))"
  by (simp add: tenant_UpdateTenant_def admin_caller_may select_tenant_def tenant_LoadBySelector_def tenant_LoadByName_def load_tenant_def
      mem_repos_def mem_table_def key_admin_def key_tenant_def one_row_def tenant_toModel_def tenant_Update_def tenant_LoadByID_def Let_def)

lemma updated_tenant_key_witness:
  "\<exists>msg db' c'. tenant_UpdateTenant mem_repos (\<lambda>k. CHR ''h'' # k) admin_caller
      \<lparr>utr_Tenant = Some (TenantSelector_Name ''n1''), utr_Name = [], utr_ApiKey = [], utr_IsActive = False\<rparr> key_admin (Some key_cache) =
      Some (Inr msg, db', Some c') \<and>
    fst (apiKey_Authenticate (key_config db') key_request key_cache) = Some (tenant_auth key_model) \<and>
    fst (apiKey_Authenticate (key_config db') key_request c') = None"
proof -
  let ?req = "\<lparr>utr_Tenant = Some (TenantSelector_Name ''n1''), utr_Name = [], utr_ApiKey = [], utr_IsActive = False\<rparr>"
  let ?db = "key_admin\<lparr>adb_Tenants := [key_tenant 1 ''n1'' ''h1'' False, key_tenant 2 ''n2'' ''h2'' True]\<rparr>"
  have u: "tenant_UpdateTenant mem_repos (\<lambda>k. CHR ''h'' # k) admin_caller ?req key_admin (Some key_cache) =
      Some (Inr \<lparr>tm_Name = ''n1'', tm_IsActive = False, tm_ExternalId = ''n1''\<rparr>, ?db, Some (Invalidate ''h1'' key_cache))"
    using key_update[of "[]"] by simp
  have "keys_unique ?db" by (simp add: keys_unique_def key_tenant_def)
  have hash: "CHR ''h'' # k \<noteq> []" for k by simp
  have config: "loadTenant (key_config ?db) = tenant_loader mem_repos ?db" by (simp add: key_config_def)
  obtain old t c' where o: "select_tenant mem_repos (utr_Tenant ?req) key_admin = Some (Inr old)"
    "Some (Invalidate ''h1'' key_cache) = Some c'"
    "mt_APIKey t = (if utr_ApiKey ?req \<noteq> [] then CHR ''h'' # utr_ApiKey ?req else mt_APIKey old)"
    "\<forall>rq. rq_Token rq \<noteq> [] \<and> rq_Token rq \<noteq> adminToken (key_config ?db) \<and> hashAPIKey (key_config ?db) (rq_Token rq) = mt_APIKey t \<longrightarrow>
       fst (apiKey_Authenticate (key_config ?db) rq c') = (if utr_IsActive ?req then Some (tenant_auth t) else None)"
    using updated_tenant_key[OF mem_tenants_ok key_admin_unique \<open>keys_unique ?db\<close> hash u config] by blast
  have "mt_APIKey old = ''h1''" by (rule key_selected) (use o(1) in simp)
  then have "fst (apiKey_Authenticate (key_config ?db) key_request (Invalidate ''h1'' key_cache)) = None"
    using o(2-4) by (simp add: key_config_def key_request_def)
  with u key_cache_authenticates show ?thesis by blast
qed

text \<open>An event with a recording of both kinds and a stored analysis; the proto columns hold any of the messages.\<close>

definition left_codec :: "('m, 'b, unit) codec \<Rightarrow> ('m, 'b + Analysis, unit) codec" where
  "left_codec cd = \<lparr>Marshal = (\<lambda>m. map_sum id Inl (Marshal cd m)), Unmarshal = (\<lambda>b. case b of Inl x \<Rightarrow> Unmarshal cd x | Inr _ \<Rightarrow> Inl ())\<rparr>"

definition right_codec :: "(Analysis, 'b + Analysis, unit) codec" where
  "right_codec = \<lparr>Marshal = (\<lambda>a. Inr (Inr a)), Unmarshal = (\<lambda>b. case b of Inl _ \<Rightarrow> Inl () | Inr a \<Rightarrow> Inr a)\<rparr>"

definition no_codec :: "('m, 'b, unit) codec" where
  "no_codec = \<lparr>Marshal = (\<lambda>_. Inl ()), Unmarshal = (\<lambda>_. Inl ())\<rparr>"

definition comp_repos :: "(int, proc_msg + Analysis, string, unit) repos" where
  "comp_repos = \<lparr>ar_Tenants = mem_table adb_Tenants (\<lambda>rs db. db\<lparr>adb_Tenants := rs\<rparr>) tn_ID (),
     ar_Tracks = mem_table adb_Tracks (\<lambda>rs db. db\<lparr>adb_Tracks := rs\<rparr>) tk_ID (),
     ar_Events = mem_table adb_Events (\<lambda>rs db. db\<lparr>adb_Events := rs\<rparr>) evr_ID (),
     ar_EventExts = mem_table adb_EventExts (\<lambda>rs db. db\<lparr>adb_EventExts := rs\<rparr>) exr_EventID (),
     ar_Analyses = mem_table adb_Analyses (\<lambda>rs db. db\<lparr>adb_Analyses := rs\<rparr>) anr_EventID (),
     ar_Cars = mem_cars (), ar_Race = mem_executor,
     ar_nm = decimals.extend rec_decimals \<lparr>dec_Abs = abs, InexactFloat32 = ScanFloat32 rec_decimals\<rparr>,
     ar_uu = \<lparr>FromStringOrNil = id, uuid_String = id\<rparr>, ar_noRows = (), ar_unknownSelector = (),
     ar_AnalysisCodec = right_codec, ar_StateCodec = left_codec both_state_codec, ar_DriverCodec = left_codec both_driver_codec,
     ar_SpeedmapCodec = no_codec, ar_MessageCodec = no_codec, ar_snapshots = (\<lambda>db e t n. Inl ()), ar_u32 = (\<lambda>_. 0)\<rparr>"

definition old_analysis :: Analysis where
  "old_analysis = \<lparr>an_RaceOrder = [''4''], an_CarLaps = [], an_CarComputeStates = [], an_CarStints = [], an_CarPits = [],
     an_CarOccupancies = [], an_RaceGraph = []\<rparr>"

definition comp_race :: "(int, proc_msg + Analysis) database" where
  "comp_race = \<lparr>db_RSInfos = db_RSInfos both_db, db_Protos = (\<lambda>tab. map (\<lambda>(i, m). (i, Inl m)) (db_Protos both_db tab))\<rparr>"

definition comp_admin :: "(int, proc_msg + Analysis, string) admin_db" where
  "comp_admin = \<lparr>cdb_Classes = [], cdb_Cars = [], cdb_Entries = [], cdb_Teams = [], cdb_Drivers = [], adb_Tenants = [], adb_Tracks = [],
     adb_Events = [mem_event 7 ''r''], adb_EventExts = [], adb_Analyses = [\<lparr>anr_EventID = 7, anr_Protodata = Inr old_analysis, anr_RecordStamp = 0\<rparr>],
     adb_Race = comp_race\<rparr>"

definition comp_event :: Event where
  "comp_event = event_toPBMessage (ar_nm comp_repos) (mem_event 7 ''r'')"

lemma comp_ok: "analyses_ok comp_repos"
proof -
  have "sql_table adb_Analyses (\<lambda>rs db. db\<lparr>adb_Analyses := rs\<rparr>) anr_EventID id (ar_Analyses comp_repos)"
    by (simp add: comp_repos_def mem_table_sql)
  then show ?thesis by (auto simp: analyses_ok_def) (auto simp: comp_repos_def mem_table_def right_codec_def)
qed

lemma comp_resolve: "ResolveEvent (event_repo_of comp_repos comp_admin) (EventSelector_Id 7) = Inr comp_event" "ev_Id comp_event = 7"
  by (simp_all add: ResolveEvent_def event_repo_of_def event_LoadByID_def comp_repos_def mem_table_def comp_admin_def mem_event_def
      one_row_def comp_event_def) (simp_all add: event_toPBMessage_def)

lemmas comp_defs = comp_race_def both_defs left_codec_def

lemma comp_recorded:
  "table_ok (left_codec both_state_codec) RaceStateProtos comp_race" "table_ok (left_codec both_driver_codec) CarStateProtos comp_race"
  "recorded (left_codec both_state_codec) RaceStateProtos comp_race comp_event = [rec_state 10, rec_state 30]"
  "recorded (left_codec both_driver_codec) CarStateProtos comp_race comp_event = [rec_driver 10, rec_driver 20]"
  by (simp_all add: table_ok_def comp_defs recorded_def event_rows_def join_def row_of_def comp_resolve(2))

lemma comp_recompute: "\<exists>a. recompute_event comp_repos comp_event comp_admin = Some (Inr a)"
proof -
  have "proc_inv (recompute_processor comp_event)"
    by (simp add: proc_inv_def recompute_processor_def NewProcessor_def WithCarProcessor_def WithRaceProcessor_def Let_def)
  moreover have "good_messages [] False (sort_key msg_time (map ProcState (recorded (left_codec both_state_codec) RaceStateProtos comp_race comp_event) @
      map ProcDriver (recorded (left_codec both_driver_codec) CarStateProtos comp_race comp_event)))"
    unfolding comp_recorded both_sorted by (simp add: rec_state_def rec_driver_def)
  ultimately obtain p where p: "go_for proc_step (sort_key msg_time (map ProcState (recorded (left_codec both_state_codec) RaceStateProtos comp_race comp_event) @
      map ProcDriver (recorded (left_codec both_driver_codec) CarStateProtos comp_race comp_event))) (recompute_processor comp_event) = Some p"
    using good_messages_ok by fastforce
  have "RecomputeAnalysis (event_repo_of comp_repos comp_admin) (RacestateRepository mem_executor (left_codec both_state_codec) nm comp_race)
      (CarProtoRepository mem_executor (left_codec both_driver_codec) nm comp_race) comp_event = Some (Inr (ComposeAnalysisData p))" for nm
    by (subst recompute_merged[OF mem_executor_sql comp_recorded(1,2)])
      (simp_all only: comp_resolve p, simp_all only: comp_recorded both_in_order option.map)
  then show ?thesis by (simp add: recompute_event_def comp_repos_def comp_admin_def)
qed

lemma computed_analysis_read_back_witness:
  "\<exists>an db'. ComputeAnalysis comp_repos demo_tx 9 admin_caller (EventSelector_Id 7) COMPUTE_RACEGRAPH True comp_admin = Some (Inr an, db') \<and>
    analysis_LoadByEventID (ar_Analyses comp_repos) (ar_AnalysisCodec comp_repos) () 7 db' = Inr an \<and> an_RaceOrder an = [''4'']"
proof -
  obtain new where new: "recompute_event comp_repos comp_event comp_admin = Some (Inr new)" using comp_recompute by blast
  let ?an = "replace_component COMPUTE_RACEGRAPH new old_analysis"
  have old: "analysis_LoadByEventID (ar_Analyses comp_repos) (ar_AnalysisCodec comp_repos) () 7 comp_admin = Inr old_analysis"
    by (simp add: analysis_LoadByEventID_def bind_sum_def comp_repos_def mem_table_def comp_admin_def one_row_def right_codec_def)
  have "\<exists>db'. server_storeAnalysisData comp_repos demo_tx 9 7 ?an comp_admin = Some db' \<and> db' \<noteq> comp_admin"
    by (simp add: server_storeAnalysisData_def analysis_Upsert_def comp_repos_def right_codec_def upsert_def comp_admin_def mem_table_def demo_tx_def)
  then obtain db' where c: "ComputeAnalysis comp_repos demo_tx 9 admin_caller (EventSelector_Id 7) COMPUTE_RACEGRAPH True comp_admin = Some (Inr ?an, db')"
    "db' \<noteq> comp_admin" by (auto simp: ComputeAnalysis_def admin_caller_may comp_resolve old new Let_def)
  from computed_analysis_read_back[OF comp_ok c(1)] c(2)
  have "analysis_LoadByEventID (ar_Analyses comp_repos) (ar_AnalysisCodec comp_repos) () 7 db' = Inr ?an" by (auto simp: comp_resolve)
  with c(1) show ?thesis by (auto simp: replace_component_def old_analysis_def)
qed

end
