(* ===== verification/Nats_Codec.thy ===== *)
theory Nats_Codec
  imports Repositories Event_Store
begin

text \<open>
  How the data proxy of a cluster writes the history of snapshots and the live events into a key-value store,
  pkg/grpc/server/util/proxy/nats/util.go: every part is preceded by its length, a uint32 in little endian order.

  A byte is an 8 bit word and the protobuf codec of a message an argument.  bytes.Buffer is the list of bytes still unread.  The map of events is an
  association list in the order of the range.
\<close>

type_synonym byte = "8 word"

unbundle bit_operations_syntax

subsection \<open>encoding/binary and bytes.Buffer\<close>

definition le32 :: "uint32 \<Rightarrow> byte list" where
  "le32 w = [ucast w, ucast (drop_bit 8 w), ucast (drop_bit 16 w), ucast (drop_bit 24 w)]"

text \<open>binary.Read of a uint32: fewer than four bytes are an error.\<close>

fun read_u32 :: "byte list \<Rightarrow> (uint32 \<times> byte list) option" where
  "read_u32 (a # b # c # d # buf) =
     Some (ucast a OR push_bit 8 (ucast b) OR push_bit 16 (ucast c) OR push_bit 24 (ucast d), buf)"
| "read_u32 _ = None"

text \<open>
  Buffer.Read into a slice of n zero bytes: on an empty buffer an error unless n is 0, otherwise it reads what is there and reports no error when
  that is less than n.
\<close>

definition buf_read :: "nat \<Rightarrow> byte list \<Rightarrow> (byte list \<times> byte list) option" where
  "buf_read n buf = (if buf = [] then if n = 0 then Some ([], []) else None
     else Some (take n buf @ replicate (n - length buf) 0, drop n buf))"

datatype 'e bin_error = ShortRead | CodecError 'e

subsection \<open>The history of snapshots\<close>

definition with_len :: "byte list \<Rightarrow> byte list" where
  "with_len data = le32 (word_of_nat (length data)) @ data"

fun snapHist_write :: "('m, byte list, 'e) codec \<Rightarrow> 'm list \<Rightarrow> byte list \<Rightarrow> 'e bin_error + byte list" where
  "snapHist_write cd [] result = Inr result"
| "snapHist_write cd (snap # items) result = (case Marshal cd snap of
     Inl err \<Rightarrow> Inl (CodecError err)
   | Inr data \<Rightarrow> snapHist_write cd items (result @ with_len data))"

definition snapHist_ToBinary :: "('m, byte list, 'e) codec \<Rightarrow> 'm list \<Rightarrow> 'e bin_error + byte list" where
  "snapHist_ToBinary cd items = snapHist_write cd items []"

lemma read_u32_length: "read_u32 buf = Some (n, buf') \<Longrightarrow> length buf' < length buf"
  by (cases buf rule: read_u32.cases) auto

lemma buf_read_length: "buf_read n buf = Some (d, buf') \<Longrightarrow> length buf' \<le> length buf"
  by (auto simp: buf_read_def split: if_splits)

text \<open>A length and as many bytes, the step of the loops that read.\<close>

definition read_part :: "byte list \<Rightarrow> (byte list \<times> byte list) option" where
  "read_part buf = Option.bind (read_u32 buf) (\<lambda>(n, buf). buf_read (unat n) buf)"

lemma read_part_length: "read_part buf = Some (d, buf') \<Longrightarrow> length buf' < length buf"
  using buf_read_length read_u32_length
  by (auto simp: read_part_def split: Option.bind_splits) fastforce

function snapHist_read :: "('m, byte list, 'e) codec \<Rightarrow> byte list \<Rightarrow> 'm list \<Rightarrow> 'e bin_error + 'm list" where
  "snapHist_read cd buf result = (if buf = [] then Inr result
     else case read_part buf of
       None \<Rightarrow> Inl ShortRead
     | Some (data, buf') \<Rightarrow> (case Unmarshal cd data of
         Inl err \<Rightarrow> Inl (CodecError err)
       | Inr snap \<Rightarrow> snapHist_read cd buf' (result @ [snap])))"
  by pat_completeness auto
termination by (relation "measure (\<lambda>(_, buf, _). length buf)") (auto dest: read_part_length)

declare snapHist_read.simps [simp del]

definition snapHist_FromBinary :: "('m, byte list, 'e) codec \<Rightarrow> byte list \<Rightarrow> 'e bin_error + 'm list" where
  "snapHist_FromBinary cd data = snapHist_read cd data []"

subsection \<open>The map of live events\<close>

definition bytes_of :: "string \<Rightarrow> byte list" where
  "bytes_of = map (\<lambda>c. word_of_nat (of_char c))"

definition string_of :: "byte list \<Rightarrow> string" where
  "string_of = map (\<lambda>b. char_of (unat b))"

fun events_write :: "('m, byte list, 'e) codec \<Rightarrow> (string \<times> 'm) list \<Rightarrow> byte list \<Rightarrow> 'e bin_error + byte list" where
  "events_write cd [] result = Inr result"
| "events_write cd ((k, v) # items) result = (case Marshal cd v of
     Inl err \<Rightarrow> Inl (CodecError err)
   | Inr data \<Rightarrow> events_write cd items (result @ with_len (bytes_of k) @ with_len data))"

definition events_ToBinary :: "('m, byte list, 'e) codec \<Rightarrow> (string \<times> 'm) list \<Rightarrow> 'e bin_error + byte list" where
  "events_ToBinary cd input = events_write cd input []"

function events_read :: "('m, byte list, 'e) codec \<Rightarrow> byte list \<Rightarrow> (string \<times> 'm) list \<Rightarrow> 'e bin_error + (string \<times> 'm) list" where
  "events_read cd buf result = (if buf = [] then Inr result
     else case read_part buf of
       None \<Rightarrow> Inl ShortRead
     | Some (key, buf1) \<Rightarrow> (case read_part buf1 of
         None \<Rightarrow> Inl ShortRead
       | Some (edBuf, buf2) \<Rightarrow> (case Unmarshal cd edBuf of
           Inl err \<Rightarrow> Inl (CodecError err)
         | Inr eventData \<Rightarrow> events_read cd buf2 (AList.update (string_of key) eventData result))))"
  by pat_completeness auto
termination
  by (relation "measure (\<lambda>(_, buf, _). length buf)") (auto dest!: read_part_length)

declare events_read.simps [simp del]

definition events_FromBinary :: "('m, byte list, 'e) codec \<Rightarrow> byte list \<Rightarrow> 'e bin_error + (string \<times> 'm) list" where
  "events_FromBinary cd data = events_read cd data []"

subsection \<open>Reading what has been written\<close>

lemma read_le32: "read_u32 (le32 w @ buf) = Some (w, buf)"
proof -
  have "ucast (ucast w :: byte) OR push_bit 8 (ucast (ucast (drop_bit 8 w) :: byte)) OR push_bit 16 (ucast (ucast (drop_bit 16 w) :: byte)) OR
      push_bit 24 (ucast (ucast (drop_bit 24 w) :: byte)) = w"
  proof (rule bit_word_eqI)
    fix n
    assume "n < LENGTH(32)"
    then consider "n < 8" | i where "n = 8 + i" "i < 8" | i where "n = 16 + i" "i < 8" | i where "n = 24 + i" "i < 8"
      by (cases "n < 8"; cases "n < 16"; cases "n < 24") (auto simp: le_iff_add not_less)
    then show "bit (ucast (ucast w :: byte) OR push_bit 8 (ucast (ucast (drop_bit 8 w) :: byte)) OR push_bit 16 (ucast (ucast (drop_bit 16 w) :: byte)) OR
        push_bit 24 (ucast (ucast (drop_bit 24 w) :: byte)) :: uint32) n \<longleftrightarrow> bit w n"
      by cases (auto simp: bit_simps)
  qed
  then show ?thesis by (simp add: le32_def)
qed

lemma read_with_len:
  assumes "length data < 2 ^ 32"
  shows "read_part (with_len data @ buf) = Some (data, buf)"
proof -
  have "unat (word_of_nat (length data) :: uint32) = length data" using assms by (simp add: unat_of_nat)
  then show ?thesis by (auto simp: read_part_def with_len_def read_le32 buf_read_def)
qed

lemma with_len_nonempty [simp]: "with_len data @ buf \<noteq> []" "with_len data \<noteq> []"
  by (simp_all add: with_len_def le32_def)

lemma string_of_bytes [simp]: "string_of (bytes_of k) = k"
proof -
  have "char_of (unat (word_of_nat (of_char c) :: byte)) = c" for c
    by (simp add: unat_of_nat)
  then show ?thesis by (simp add: string_of_def bytes_of_def o_def)
qed

text \<open>A message that the codec gives back and whose length a uint32 holds.\<close>

definition sendable :: "('m, byte list, 'e) codec \<Rightarrow> 'm \<Rightarrow> bool" where
  "sendable cd m \<longleftrightarrow> (\<exists>data. Marshal cd m = Inr data \<and> Unmarshal cd data = Inr m \<and> length data < 2 ^ 32)"

lemma snapHist_write_ok:
  assumes "\<forall>m \<in> set items. sendable cd m"
  shows "\<exists>bs. (\<forall>result. snapHist_write cd items result = Inr (result @ bs)) \<and>
    (\<forall>result. snapHist_read cd bs result = Inr (result @ items))"
  using assms
proof (induction items)
  case Nil
  show ?case by (rule exI[of _ "[]"]) (simp add: snapHist_read.simps)
next
  case (Cons m items)
  obtain data where d: "Marshal cd m = Inr data" "Unmarshal cd data = Inr m" "length data < 2 ^ 32"
    using Cons.prems by (auto simp: sendable_def)
  obtain bs where bs: "\<forall>result. snapHist_write cd items result = Inr (result @ bs)" "\<forall>result. snapHist_read cd bs result = Inr (result @ items)"
    using Cons by auto
  have "snapHist_read cd (with_len data @ bs) result = Inr (result @ m # items)" for result
    by (subst snapHist_read.simps) (simp add: read_with_len[OF d(3)] d(2) bs(2))
  then show ?case using d(1) bs(1) by (intro exI[of _ "with_len data @ bs"]) simp
qed

text \<open>A history of snapshots that has been written into the store is read back as it was, in order.\<close>

lemma snapshot_history_read_back:
  assumes "\<forall>m \<in> set items. sendable cd m"
  shows "\<exists>bs. snapHist_ToBinary cd items = Inr bs \<and> snapHist_FromBinary cd bs = Inr items"
  using snapHist_write_ok[OF assms] by (auto simp: snapHist_ToBinary_def snapHist_FromBinary_def)

lemma events_write_ok:
  assumes "\<forall>(k, m) \<in> set items. sendable cd m \<and> length k < 2 ^ 32"
  shows "\<exists>bs. (\<forall>result. events_write cd items result = Inr (result @ bs)) \<and>
    (\<forall>result. events_read cd bs result = Inr (fold (\<lambda>(k, m). AList.update k m) items result))"
  using assms
proof (induction items)
  case Nil
  show ?case by (rule exI[of _ "[]"]) (simp add: events_read.simps)
next
  case (Cons item items)
  obtain k m where item: "item = (k, m)" by force
  obtain data where d: "Marshal cd m = Inr data" "Unmarshal cd data = Inr m" "length data < 2 ^ 32"
    and k: "length (bytes_of k) < 2 ^ 32"
    using Cons.prems by (auto simp: sendable_def item bytes_of_def)
  obtain bs where bs: "\<forall>result. events_write cd items result = Inr (result @ bs)"
    "\<forall>result. events_read cd bs result = Inr (fold (\<lambda>(k, m). AList.update k m) items result)" using Cons by auto
  have "events_read cd (with_len (bytes_of k) @ with_len data @ bs) result =
      Inr (fold (\<lambda>(k, m). AList.update k m) items (AList.update k m result))" for result
    by (subst events_read.simps) (simp add: read_with_len[OF d(3)] read_with_len[OF k] d(2) bs(2))
  then show ?case using d(1) bs(1) by (intro exI[of _ "with_len (bytes_of k) @ with_len data @ bs"]) (simp add: item)
qed

lemma fold_update_map_of: "map_of (fold (\<lambda>(k, m). AList.update k m) items al) = map_of al ++ map_of (rev items)"
proof (induction items arbitrary: al)
  case (Cons item items)
  obtain k m where item: "item = (k, m)" by force
  show ?case by (rule ext) (auto simp: Cons.IH item update_conv' map_add_def split: option.splits)
qed simp

lemma map_of_rev_distinct: "distinct (map fst xs) \<Longrightarrow> map_of (rev xs) = map_of xs"
  by (rule map_of_inject_set[THEN iffD2]) (simp_all add: rev_map[symmetric])

text \<open>A map of live events is read back as the same map, whatever the order in which it was ranged over.\<close>

lemma events_read_back:
  assumes "\<forall>(k, m) \<in> set items. sendable cd m \<and> length k < 2 ^ 32" "distinct (map fst items)"
  shows "\<exists>bs items'. events_ToBinary cd items = Inr bs \<and> events_FromBinary cd bs = Inr items' \<and> map_of items' = map_of items \<and>
    distinct (map fst items') \<and> set items' = set items"
proof -
  obtain bs where bs: "\<forall>result. events_write cd items result = Inr (result @ bs)"
    "\<forall>result. events_read cd bs result = Inr (fold (\<lambda>(k, m). AList.update k m) items result)"
    using events_write_ok[OF assms(1)] by blast
  let ?items = "fold (\<lambda>(k, m). AList.update k m) items []"
  have m: "map_of ?items = map_of items" by (simp add: fold_update_map_of map_of_rev_distinct[OF assms(2)])
  have "distinct (map fst (fold (\<lambda>(k, m). AList.update k m) xs al))" if "distinct (map fst al)" for xs :: "(string \<times> 'a) list" and al
    using that by (induction xs arbitrary: al) (auto simp: distinct_update)
  then have d: "distinct (map fst ?items)" by simp
  have "set ?items = set items"
    using m d assms(2) by (metis (no_types, lifting) map_of_eq_Some_iff subrelI subset_antisym)
  then show ?thesis using bs m d by (auto simp: events_ToBinary_def events_FromBinary_def)
qed

text \<open>
  Data that end within a part are not refused: the missing bytes are taken for zeros.
\<close>

lemma short_part_padded:
  assumes "0 < k" "k < length data" "length data < 2 ^ 32"
  shows "snapHist_FromBinary cd (take (4 + k) (with_len data)) =
    (case Unmarshal cd (take k data @ replicate (length data - k) 0) of
       Inl err \<Rightarrow> Inl (CodecError err) | Inr m \<Rightarrow> Inr [m])"
proof -
  have "unat (word_of_nat (length data) :: uint32) = length data" using assms(3) by (simp add: unat_of_nat)
  moreover have "take (4 + k) (with_len data) = le32 (word_of_nat (length data)) @ take k data"
    by (simp add: with_len_def le32_def eval_nat_numeral)
  ultimately have "read_part (take (4 + k) (with_len data)) = Some (take k data @ replicate (length data - k) 0, [])"
    using assms by (auto simp: read_part_def read_le32 buf_read_def min_def)
  moreover have "take (4 + k) (with_len data) \<noteq> []" by (simp add: with_len_def le32_def)
  ultimately show ?thesis
    by (simp add: snapHist_FromBinary_def snapHist_read.simps[of cd "take (4 + k) (with_len data)"] snapHist_read.simps[of cd "[]"] split: sum.splits)
qed

end
