(* ===== verification/Nats_Global.thy ===== *)
theory Nats_Global
  imports Nats_Codec
begin

text \<open>
  The live events of a cluster, pkg/grpc/server/util/proxy/nats/events.go: every instance keeps the map of all live events, writes
  it to the key-value store when it registers or unregisters an event of its own, and watches the store for the writes of others.

  The store is not part of the repository: the values of its key events with their revisions, the latest first, are the list of a cluster.  An
  update gives the revision it is based on and fails unless that is the latest; answer is the new revision, or None when
  the update fails for another reason.
\<close>

type_synonym kv_history = "(nat \<times> byte list) list"

type_synonym event_codec = "(EventContainer, byte list, unit) codec"

subsection \<open>An instance\<close>

text \<open>The last field is what the watcher has decoded and not yet stored: it sets the revision before it takes the mutex.\<close>

record GlobalEvents =
  g_events :: "(string \<times> EventContainer) list"
  g_rev :: nat
  g_incoming :: "(string \<times> EventContainer) list option"

definition NewGlobalEvents :: GlobalEvents where
  "NewGlobalEvents = \<lparr>g_events = [], g_rev = 0, g_incoming = None\<rparr>"

definition kv_Update :: "nat option \<Rightarrow> byte list \<Rightarrow> nat \<Rightarrow> kv_history \<Rightarrow> (nat \<times> kv_history) option" where
  "kv_Update answer data based h = (case (h, answer) of
     ((latest, _) # _, Some new) \<Rightarrow> if based = latest \<and> latest < new then Some (new, (new, data) # h) else None
   | _ \<Rightarrow> None)"

text \<open>Writing the map; errors are logged.\<close>

definition g_write :: "event_codec \<Rightarrow> nat option \<Rightarrow> GlobalEvents \<Rightarrow> kv_history \<Rightarrow> GlobalEvents \<times> kv_history" where
  "g_write cd answer g h = (case events_ToBinary cd (g_events g) of
     Inl _ \<Rightarrow> (g, h)
   | Inr data \<Rightarrow> (case kv_Update answer data (g_rev g) h of
       None \<Rightarrow> (g, h)
     | Some (r, h) \<Rightarrow> (g\<lparr>g_rev := r\<rparr>, h)))"

definition container_key :: "EventContainer \<Rightarrow> string" where
  "container_key e = ev_Key (ec_Event e)"

definition global_RegisterEvent :: "event_codec \<Rightarrow> nat option \<Rightarrow> EventContainer \<Rightarrow> GlobalEvents \<Rightarrow> kv_history \<Rightarrow> GlobalEvents \<times> kv_history" where
  "global_RegisterEvent cd answer e g h = g_write cd answer (g\<lparr>g_events := AList.update (container_key e) e (g_events g)\<rparr>) h"

definition global_UnregisterEvent :: "event_codec \<Rightarrow> nat option \<Rightarrow> string \<Rightarrow> GlobalEvents \<Rightarrow> kv_history \<Rightarrow> GlobalEvents \<times> kv_history" where
  "global_UnregisterEvent cd answer eventKey g h = g_write cd answer (g\<lparr>g_events := AList.delete eventKey (g_events g)\<rparr>) h"

text \<open>The watcher handles an entry in two steps.\<close>

definition watch_entry :: "event_codec \<Rightarrow> nat \<times> byte list \<Rightarrow> GlobalEvents \<Rightarrow> GlobalEvents" where
  "watch_entry cd kve g = g\<lparr>g_rev := fst kve, g_incoming := (case events_FromBinary cd (snd kve) of Inl _ \<Rightarrow> None | Inr m \<Rightarrow> Some m)\<rparr>"

definition watch_store :: "GlobalEvents \<Rightarrow> GlobalEvents" where
  "watch_store g = (case g_incoming g of None \<Rightarrow> g | Some m \<Rightarrow> g\<lparr>g_events := m, g_incoming := None\<rparr>)"

text \<open>setupListener creates the key when it does not exist; new is the revision it gets.\<close>

definition create_key :: "nat \<Rightarrow> kv_history \<Rightarrow> kv_history" where
  "create_key new h = (if h = [] then [(new, [])] else h)"

definition CurrentLiveEvents :: "event_codec \<Rightarrow> kv_history \<Rightarrow> ((string \<times> EventContainer) list) option" where
  "CurrentLiveEvents cd h = (case h of [] \<Rightarrow> None
     | (_, v) # _ \<Rightarrow> (case events_FromBinary cd v of Inl _ \<Rightarrow> None | Inr m \<Rightarrow> Some m))"

subsection \<open>A cluster\<close>

text \<open>The operations an instance has done on its map since it last took the map from the store or wrote it there.\<close>

datatype own_op = OwnRegister EventContainer | OwnUnregister string

fun apply_op :: "own_op \<Rightarrow> (string \<Rightarrow> EventContainer option) \<Rightarrow> (string \<Rightarrow> EventContainer option)" where
  "apply_op (OwnRegister e) M = M(container_key e \<mapsto> e)"
| "apply_op (OwnUnregister k) M = M(k := None)"

record cluster =
  cl_hist :: kv_history
  cl_inst :: "nat \<Rightarrow> GlobalEvents"
  cl_own :: "nat \<Rightarrow> own_op list"
  \<comment> \<open>a record of what has happened, which no operation reads\<close>

text \<open>What the store says.\<close>

definition store_map :: "event_codec \<Rightarrow> cluster \<Rightarrow> (string \<Rightarrow> EventContainer option)" where
  "store_map cd s = (case CurrentLiveEvents cd (cl_hist s) of None \<Rightarrow> Map.empty | Some m \<Rightarrow> map_of m)"

definition after_op :: "nat \<Rightarrow> own_op \<Rightarrow> GlobalEvents \<times> kv_history \<Rightarrow> cluster \<Rightarrow> cluster" where
  "after_op i p res s = s\<lparr>cl_inst := (cl_inst s)(i := fst res), cl_hist := snd res, 
    cl_own := (cl_own s)(i := if snd res = cl_hist s then cl_own s i @ [p] else [])\<rparr>"

text \<open>
  A step of the cluster.  The watcher of an instance may get any entry the store has had.  In a run that is not racy an instance does not register or
  unregister events between the two steps of its watcher.
\<close>

inductive cl_step :: "event_codec \<Rightarrow> bool \<Rightarrow> cluster \<Rightarrow> cluster \<Rightarrow> bool" for cd racy where
  register: "sendable cd e \<Longrightarrow> length (container_key e) < 2 ^ 32 \<Longrightarrow> racy \<or> g_incoming (cl_inst s i) = None \<Longrightarrow>
    cl_step cd racy s (after_op i (OwnRegister e) (global_RegisterEvent cd answer e (cl_inst s i) (cl_hist s)) s)"
| unregister: "racy \<or> g_incoming (cl_inst s i) = None \<Longrightarrow>
    cl_step cd racy s (after_op i (OwnUnregister k) (global_UnregisterEvent cd answer k (cl_inst s i) (cl_hist s)) s)"
| watch: "kve \<in> set (cl_hist s) \<Longrightarrow> g_incoming (cl_inst s i) = None \<Longrightarrow>
    cl_step cd racy s (s\<lparr>cl_inst := (cl_inst s)(i := watch_entry cd kve (cl_inst s i))\<rparr>)"
| store: "g_incoming (cl_inst s i) \<noteq> None \<Longrightarrow>
    cl_step cd racy s (s\<lparr>cl_inst := (cl_inst s)(i := watch_store (cl_inst s i)), cl_own := (cl_own s)(i := [])\<rparr>)"

text \<open>It begins with the key as setupListener has created it.\<close>

definition cl_init :: "nat \<Rightarrow> cluster" where
  "cl_init new = \<lparr>cl_hist = create_key new [], cl_inst = (\<lambda>_. NewGlobalEvents), cl_own = (\<lambda>_. [])\<rparr>"

inductive cl_reach :: "event_codec \<Rightarrow> bool \<Rightarrow> cluster \<Rightarrow> bool" for cd racy where
  init: "0 < new \<Longrightarrow> cl_reach cd racy (cl_init new)"
| more: "cl_reach cd racy s \<Longrightarrow> cl_step cd racy s t \<Longrightarrow> cl_reach cd racy t"

subsection \<open>The invariant\<close>

text \<open>A map as an instance may hold and write it.\<close>

definition writable :: "event_codec \<Rightarrow> (string \<times> EventContainer) list \<Rightarrow> bool" where
  "writable cd m \<longleftrightarrow> distinct (map fst m) \<and> (\<forall>(k, e) \<in> set m. sendable cd e \<and> length k < 2 ^ 32)"

definition decodes :: "event_codec \<Rightarrow> byte list \<Rightarrow> (string \<times> EventContainer) list \<Rightarrow> bool" where
  "decodes cd v m \<longleftrightarrow> events_FromBinary cd v = Inr m \<and> writable cd m"

lemma writable_update: "writable cd m \<Longrightarrow> sendable cd e \<Longrightarrow> length k < 2 ^ 32 \<Longrightarrow> writable cd (AList.update k e m)"
proof -
  assume m: "writable cd m" and e: "sendable cd e" "length k < 2 ^ 32"
  have "set (AList.update k e m) \<subseteq> insert (k, e) (set m)" by (induction m) auto
  then show ?thesis using m e by (fastforce simp: writable_def AList.distinct_update)
qed

lemma writable_delete: "writable cd m \<Longrightarrow> writable cd (AList.delete k m)"
proof -
  have "set (AList.delete k m) \<subseteq> set m" by (induction m) auto
  then show "writable cd m \<Longrightarrow> writable cd (AList.delete k m)" by (auto simp: writable_def AList.distinct_delete)
qed

lemma write_decodes:
  assumes "writable cd m"
  shows "\<exists>v m'. events_ToBinary cd m = Inr v \<and> decodes cd v m' \<and> map_of m' = map_of m"
proof -
  obtain v m' where v: "events_ToBinary cd m = Inr v" "events_FromBinary cd v = Inr m'" "map_of m' = map_of m"
    "distinct (map fst m')" "set m' = set m"
    using events_read_back[of m cd] assms by (auto simp: writable_def)
  then show ?thesis using assms by (auto simp: decodes_def writable_def)
qed

text \<open>The events of an instance are those of the revision it names, with its own operations since then.\<close>

definition synced :: "event_codec \<Rightarrow> kv_history \<Rightarrow> GlobalEvents \<Rightarrow> own_op list \<Rightarrow> bool" where
  "synced cd h g own \<longleftrightarrow> writable cd (g_events g) \<and> (case g_incoming g of
     None \<Rightarrow> (\<forall>v m. (g_rev g, v) \<in> set h \<longrightarrow> events_FromBinary cd v = Inr m \<longrightarrow> map_of (g_events g) = fold apply_op own (map_of m))
   | Some m \<Rightarrow> writable cd m \<and> (\<forall>v. (g_rev g, v) \<in> set h \<longrightarrow> events_FromBinary cd v = Inr m))"

definition cl_inv :: "event_codec \<Rightarrow> cluster \<Rightarrow> bool" where
  "cl_inv cd s \<longleftrightarrow> cl_hist s \<noteq> [] \<and> distinct (map fst (cl_hist s)) \<and>
     (\<forall>(r, v) \<in> set (cl_hist s). 0 < r \<and> r \<le> fst (hd (cl_hist s)) \<and> (\<exists>m. decodes cd v m)) \<and>
     (\<forall>i. synced cd (cl_hist s) (cl_inst s i) (cl_own s i) \<and> g_rev (cl_inst s i) \<le> fst (hd (cl_hist s)))"

text \<open>A write of the map m: it fails and changes nothing, or it becomes the latest entry.\<close>

lemma g_write_cases:
  assumes "writable cd (g_events g)" "h \<noteq> []"
  shows "g_write cd answer g h = (g, h) \<or>
    (\<exists>new v m. g_write cd answer g h = (g\<lparr>g_rev := new\<rparr>, (new, v) # h) \<and> g_rev g = fst (hd h) \<and> fst (hd h) < new \<and>
       decodes cd v m \<and> map_of m = map_of (g_events g))"
proof -
  obtain v m where v: "events_ToBinary cd (g_events g) = Inr v" "decodes cd v m" "map_of m = map_of (g_events g)"
    using write_decodes[OF assms(1)] by blast
  obtain r w h' where h: "h = (r, w) # h'" using assms(2) by (cases h) auto
  show ?thesis
  proof (cases answer)
    case None
    then show ?thesis by (simp add: g_write_def v(1) kv_Update_def h)
  next
    case (Some new)
    then show ?thesis using v by (auto simp: g_write_def v(1) kv_Update_def h)
  qed
qed

lemma synced_hist:
  assumes "synced cd h g own" "g_rev g \<le> fst (hd h)" "fst (hd h) < new"
  shows "synced cd ((new, v) # h) g own"
  using assms by (auto simp: synced_def split: option.splits)

text \<open>An operation changes the map and writes it; a write that succeeds was based on the latest entry.\<close>

definition run_op :: "event_codec \<Rightarrow> nat option \<Rightarrow> own_op \<Rightarrow> GlobalEvents \<Rightarrow> kv_history \<Rightarrow> GlobalEvents \<times> kv_history" where
  "run_op cd answer p g h = (case p of
     OwnRegister e \<Rightarrow> global_RegisterEvent cd answer e g h
   | OwnUnregister k \<Rightarrow> global_UnregisterEvent cd answer k g h)"

definition op_ok :: "event_codec \<Rightarrow> own_op \<Rightarrow> bool" where
  "op_ok cd p \<longleftrightarrow> (\<forall>e. p = OwnRegister e \<longrightarrow> sendable cd e \<and> length (container_key e) < 2 ^ 32)"

lemma run_op_cases:
  assumes "writable cd (g_events g)" "h \<noteq> []" "op_ok cd p"
  obtains m where "writable cd m" "map_of m = apply_op p (map_of (g_events g))" "run_op cd answer p g h = (g\<lparr>g_events := m\<rparr>, h)"
  | m new v m' where "writable cd m" "map_of m = apply_op p (map_of (g_events g))"
    "run_op cd answer p g h = (g\<lparr>g_events := m, g_rev := new\<rparr>, (new, v) # h)" "g_rev g = fst (hd h)" "fst (hd h) < new"
    "decodes cd v m'" "map_of m' = map_of m"
proof -
  define m where "m = (case p of OwnRegister e \<Rightarrow> AList.update (container_key e) e (g_events g) | OwnUnregister k \<Rightarrow> AList.delete k (g_events g))"
  have run: "run_op cd answer p g h = g_write cd answer (g\<lparr>g_events := m\<rparr>) h"
    by (simp add: run_op_def m_def global_RegisterEvent_def global_UnregisterEvent_def split: own_op.splits)
  have m: "writable cd m" "map_of m = apply_op p (map_of (g_events g))"
    using assms by (auto simp: m_def op_ok_def writable_update writable_delete AList.update_conv' AList.delete_conv' split: own_op.splits)
  show ?thesis using g_write_cases[of cd "g\<lparr>g_events := m\<rparr>" h answer] assms(2) m that run by fastforce
qed

lemma cl_step_op:
  assumes "cl_step cd racy s t"
  obtains i p answer where "op_ok cd p" "racy \<or> g_incoming (cl_inst s i) = None"
    "t = after_op i p (run_op cd answer p (cl_inst s i) (cl_hist s)) s"
  | i kve where "kve \<in> set (cl_hist s)" "g_incoming (cl_inst s i) = None" "t = s\<lparr>cl_inst := (cl_inst s)(i := watch_entry cd kve (cl_inst s i))\<rparr>"
  | i where "g_incoming (cl_inst s i) \<noteq> None" "t = s\<lparr>cl_inst := (cl_inst s)(i := watch_store (cl_inst s i)), cl_own := (cl_own s)(i := [])\<rparr>"
  using assms
proof (cases rule: cl_step.cases)
  case (register e i answer)
  then show ?thesis using that(1)[of "OwnRegister e" i answer] by (simp add: op_ok_def run_op_def)
next
  case (unregister i k answer)
  then show ?thesis using that(1)[of "OwnUnregister k" i answer] by (simp add: op_ok_def run_op_def)
qed (blast intro: that)+

lemma cl_inv_init: "0 < new \<Longrightarrow> cl_inv cd (cl_init new)"
  by (auto simp: cl_inv_def cl_init_def create_key_def synced_def NewGlobalEvents_def decodes_def writable_def events_FromBinary_def events_read.simps)

lemma synced_op:
  assumes i: "g_incoming g = None" "synced cd h g own" "h \<noteq> []" "distinct (map fst h)" "op_ok cd p" "g_rev g \<le> fst (hd h)"
    and r: "run_op cd answer p g h = (g', h')" and h: "\<forall>(r, v) \<in> set h. r \<le> fst (hd h)"
  shows "synced cd h' g' (if h' = h then own @ [p] else [])" "g_rev g' \<le> fst (hd h')"
proof -
  have w: "writable cd (g_events g)" using i(2) by (simp add: synced_def)
  have "synced cd h' g' (if h' = h then own @ [p] else []) \<and> g_rev g' \<le> fst (hd h')"
  proof (rule run_op_cases[OF w i(3,5), of answer])
    fix m assume "writable cd m" "map_of m = apply_op p (map_of (g_events g))" "run_op cd answer p g h = (g\<lparr>g_events := m\<rparr>, h)"
    then show ?thesis using i r by (auto simp: synced_def)
  next
    fix m new v m'
    assume m: "writable cd m" "map_of m = apply_op p (map_of (g_events g))" "decodes cd v m'" "map_of m' = map_of m"
      and run: "run_op cd answer p g h = (g\<lparr>g_events := m, g_rev := new\<rparr>, (new, v) # h)" and new: "g_rev g = fst (hd h)" "fst (hd h) < new"
    then have "h' = (new, v) # h" "g' = g\<lparr>g_events := m, g_rev := new\<rparr>" using r by auto
    moreover have "(new, v') \<notin> set h" for v' using h new by fastforce
    ultimately show ?thesis using i(1) m by (auto simp: synced_def decodes_def)
  qed
  then show "synced cd h' g' (if h' = h then own @ [p] else [])" "g_rev g' \<le> fst (hd h')" by simp_all
qed

lemma hist_op:
  assumes "writable cd (g_events g)" "h \<noteq> []" "op_ok cd p" "run_op cd answer p g h = (g', h')"
  obtains "h' = h" | new v m where "h' = (new, v) # h" "g_rev g = fst (hd h)" "fst (hd h) < new" "decodes cd v m"
    "map_of m = apply_op p (map_of (g_events g))"
  by (rule run_op_cases[OF assms(1-3), of answer]) (use assms(4) that in fastforce)+

lemma cl_inv_step:
  assumes inv: "cl_inv cd s" and step: "cl_step cd False s t"
  shows "cl_inv cd t"
  using step
proof (cases rule: cl_step_op)
  case (1 i p answer)
  obtain g' h' where r: "run_op cd answer p (cl_inst s i) (cl_hist s) = (g', h')" by force
  have inc: "g_incoming (cl_inst s i) = None" using 1 by simp
  have hs: "\<forall>(r, v) \<in> set (cl_hist s). r \<le> fst (hd (cl_hist s))" using inv by (auto simp: cl_inv_def)
  have s: "synced cd h' g' (if h' = cl_hist s then cl_own s i @ [p] else [])" "g_rev g' \<le> fst (hd h')"
    using synced_op[OF inc _ _ _ 1(1) _ r hs] inv by (auto simp: cl_inv_def)
  have w: "writable cd (g_events (cl_inst s i))" "cl_hist s \<noteq> []" using inv by (auto simp: cl_inv_def synced_def)
  show ?thesis
  proof (rule hist_op[OF w 1(1) r])
    assume "h' = cl_hist s"
    then show ?thesis using inv s by (auto simp: cl_inv_def 1(3) after_op_def r)
  next
    fix new v m assume h: "h' = (new, v) # cl_hist s" "fst (hd (cl_hist s)) < new" "decodes cd v m"
    have "synced cd h' (cl_inst s j) (cl_own s j)" for j
      using inv h by (auto simp: cl_inv_def intro: synced_hist)
    moreover have "new \<notin> fst ` set (cl_hist s)" using hs h by fastforce
    moreover have "\<forall>(r, v) \<in> set h'. 0 < r \<and> r \<le> fst (hd h') \<and> (\<exists>m. decodes cd v m)"
      using inv h by (auto simp: cl_inv_def)
    moreover have "g_rev (cl_inst s j) \<le> fst (hd h')" for j
      using inv h(1,2) by (auto simp: cl_inv_def intro: order.trans less_imp_le)
    moreover have "distinct (map fst h')" using calculation(2) inv h(1) by (simp add: cl_inv_def)
    ultimately show ?thesis using s h(1) by (simp add: cl_inv_def 1(3) after_op_def r)
  qed
next
  case (2 i kve)
  obtain r v where kve: "kve = (r, v)" by force
  obtain m where m: "events_FromBinary cd v = Inr m" "writable cd m" "r \<le> fst (hd (cl_hist s))"
    using inv 2(1) kve by (auto simp: cl_inv_def decodes_def)
  have "v' = v" if "(r, v') \<in> set (cl_hist s)" for v'
    using that 2(1) inv unfolding kve cl_inv_def by (meson eq_key_imp_eq_value)
  then have "synced cd (cl_hist s) (watch_entry cd kve (cl_inst s i)) (cl_own s i)"
    using inv m by (auto simp: cl_inv_def synced_def watch_entry_def kve)
  then show ?thesis using inv m(3) by (auto simp: cl_inv_def 2(3) watch_entry_def kve)
next
  case (3 i)
  then obtain m where "g_incoming (cl_inst s i) = Some m" by auto
  moreover have "synced cd (cl_hist s) (cl_inst s i) (cl_own s i)" using inv by (simp add: cl_inv_def)
  ultimately have "synced cd (cl_hist s) (watch_store (cl_inst s i)) []" "g_rev (watch_store (cl_inst s i)) = g_rev (cl_inst s i)"
    by (auto simp: synced_def watch_store_def)
  then show ?thesis using inv by (auto simp: cl_inv_def 3(2))
qed

lemma cl_reach_inv: "cl_reach cd False s \<Longrightarrow> cl_inv cd s"
  by (induction rule: cl_reach.induct) (auto intro: cl_inv_init cl_inv_step)

subsection \<open>No registration of another instance is lost\<close>

text \<open>
  C27: in a run in which no instance registers or unregisters events while its watcher is between setting the revision and taking over the
  map, every step leaves the live events the store names as they are, or changes them by the operations one instance has done
  since it last agreed with the store, and by nothing else.
\<close>

lemma store_changed_by_own_ops:
  assumes "cl_reach cd False s" "cl_step cd False s t"
  shows "store_map cd t = store_map cd s \<or> (\<exists>i p. store_map cd t = fold apply_op (cl_own s i @ [p]) (store_map cd s))"
  using assms(2)
proof (cases rule: cl_step_op)
  case (1 i p answer)
  have inv: "cl_inv cd s" using cl_reach_inv[OF assms(1)] .
  obtain g' h' where r: "run_op cd answer p (cl_inst s i) (cl_hist s) = (g', h')" by force
  obtain lr lv rest where h: "cl_hist s = (lr, lv) # rest" using inv by (cases "cl_hist s") (auto simp: cl_inv_def)
  obtain m where m: "events_FromBinary cd lv = Inr m" using inv h by (auto simp: cl_inv_def decodes_def)
  have w: "writable cd (g_events (cl_inst s i))" "cl_hist s \<noteq> []" using inv by (auto simp: cl_inv_def synced_def)
  show ?thesis
  proof (rule hist_op[OF w 1(1) r])
    assume "h' = cl_hist s"
    then show ?thesis by (simp add: 1(3) after_op_def r store_map_def)
  next
    fix new v m'
    assume w: "h' = (new, v) # cl_hist s" "g_rev (cl_inst s i) = fst (hd (cl_hist s))" "decodes cd v m'"
      "map_of m' = apply_op p (map_of (g_events (cl_inst s i)))"
    have "synced cd (cl_hist s) (cl_inst s i) (cl_own s i)" "g_incoming (cl_inst s i) = None" using inv 1(2) by (auto simp: cl_inv_def)
    then have "map_of (g_events (cl_inst s i)) = fold apply_op (cl_own s i) (map_of m)" using w(2) h m by (auto simp: synced_def)
    then have "store_map cd t = fold apply_op (cl_own s i @ [p]) (store_map cd s)"
      using w h m r by (simp add: 1(3) after_op_def store_map_def CurrentLiveEvents_def decodes_def)
    then show ?thesis by blast
  qed
qed (simp_all add: store_map_def)

text \<open>
  The watcher sets the revision before it takes the mutex.  An event that is registered in between is written over the entry the
  watcher has just seen, and the events of that entry are lost.
\<close>

lemma registration_in_between:
  assumes "writable cd (g_events g)" "sendable cd e" "length (container_key e) < 2 ^ 32" "r < new" "events_FromBinary cd v = Inr m"
  shows "\<exists>g' w m'. global_RegisterEvent cd (Some new) e (watch_entry cd (r, v) g) ((r, v) # h) = (g', (new, w) # (r, v) # h) \<and>
    events_FromBinary cd w = Inr m' \<and> map_of m' = (map_of (g_events g))(container_key e \<mapsto> e)"
proof -
  let ?m = "AList.update (container_key e) e (g_events g)"
  obtain w m' where w: "events_ToBinary cd ?m = Inr w" "decodes cd w m'" "map_of m' = map_of ?m"
    using write_decodes[OF writable_update[OF assms(1-3)]] by blast
  then show ?thesis using assms(4) by (auto simp: global_RegisterEvent_def watch_entry_def g_write_def kv_Update_def decodes_def AList.update_conv')
qed

text \<open>
  A write that fails is logged and not repeated: the store keeps its entry, and the instance forgets the event with the next map it takes.
\<close>

lemma stale_registration_forgotten:
  assumes "g_rev g \<noteq> r" "global_RegisterEvent cd answer e g ((r, v) # h) = (g', h')" "events_FromBinary cd v = Inr m"
  shows "h' = (r, v) # h" "g_events (watch_store (watch_entry cd (r, v) g')) = m"
proof -
  show "h' = (r, v) # h"
    using assms(1,2) by (auto simp: global_RegisterEvent_def g_write_def kv_Update_def split: sum.splits option.splits)
  show "g_events (watch_store (watch_entry cd (r, v) g')) = m" by (simp add: watch_entry_def watch_store_def assms(3))
qed

text \<open>An instance that has seen the created key registers an event: the codec of the demonstration knows one message.\<close>

definition demo_live_event :: EventContainer where
  "demo_live_event = \<lparr>ec_Event = \<lparr>ev_Id = 7, ev_Key = ''e'', ev_Name = [], ev_Description = [], ev_RaceloggerVersion = [], ev_EventTime = 0,
      ev_TrackId = 1, ev_Sessions = [], ev_ReplayInfo = None, ev_TeamRacing = False, ev_MultiClass = False, ev_NumCarTypes = 0,
      ev_NumCarClasses = 0, ev_IrSessionId = 0, ev_IrSubSessionId = 0, ev_PitSpeed = Fin 0, ev_TireInfos = []\<rparr>,
    ec_Track = \<lparr>tr_Id = 1, tr_Name = [], tr_PitInfo = None, tr_ShortName = [], tr_Config = [], tr_Length = Fin 0,
      tr_PitSpeed = Fin 0, tr_Sectors = []\<rparr>, ec_Owner = []\<rparr>"

definition one_codec :: event_codec where
  "one_codec = \<lparr>Marshal = (\<lambda>_. Inr [1]), Unmarshal = (\<lambda>_. Inr demo_live_event)\<rparr>"

definition demo_cluster :: cluster where
  "demo_cluster = \<lparr>cl_hist = [(1, [])], cl_inst = (\<lambda>_. NewGlobalEvents)(0 := \<lparr>g_events = [], g_rev = 1, g_incoming = None\<rparr>), cl_own = (\<lambda>_. [])\<rparr>"

lemma demo_sendable: "sendable one_codec demo_live_event" "length (container_key demo_live_event) < 2 ^ 32"
  by (simp_all add: sendable_def one_codec_def container_key_def demo_live_event_def)

lemma demo_cluster_reach: "cl_reach one_codec False demo_cluster"
proof -
  let ?s = "cl_init 1"
  have r: "cl_reach one_codec False ?s" by (rule cl_reach.init) simp
  let ?t = "?s\<lparr>cl_inst := (cl_inst ?s)(0 := watch_entry one_codec (1, []) (cl_inst ?s 0))\<rparr>"
  have "cl_step one_codec False ?s ?t" by (rule cl_step.watch) (simp_all add: cl_init_def create_key_def NewGlobalEvents_def)
  then have t: "cl_reach one_codec False ?t" using r by (rule cl_reach.more[rotated])
  let ?u = "?t\<lparr>cl_inst := (cl_inst ?t)(0 := watch_store (cl_inst ?t 0)), cl_own := (cl_own ?t)(0 := [])\<rparr>"
  have e: "events_FromBinary cd [] = Inr []" for cd :: event_codec by (simp add: events_FromBinary_def events_read.simps)
  have "cl_step one_codec False ?t ?u" by (rule cl_step.store) (simp add: watch_entry_def e)
  then have "cl_reach one_codec False ?u" using t by (rule cl_reach.more[rotated])
  moreover have "?u = demo_cluster"
    by (simp add: demo_cluster_def cl_init_def create_key_def NewGlobalEvents_def watch_entry_def watch_store_def e fun_eq_iff)
  ultimately show ?thesis by simp
qed

lemma store_changed_by_own_ops_witness:
  "\<exists>t. cl_step one_codec False demo_cluster t \<and> store_map one_codec t ''e'' = Some demo_live_event \<and>
    (\<exists>i p. store_map one_codec t = fold apply_op (cl_own demo_cluster i @ [p]) (store_map one_codec demo_cluster))"
proof -
  let ?t = "after_op 0 (OwnRegister demo_live_event)
    (global_RegisterEvent one_codec (Some 2) demo_live_event (cl_inst demo_cluster 0) (cl_hist demo_cluster)) demo_cluster"
  have s: "cl_step one_codec False demo_cluster ?t"
    by (rule cl_step.register) (use demo_sendable in \<open>simp_all add: demo_cluster_def\<close>)
  obtain w m where w: "events_ToBinary one_codec [(''e'', demo_live_event)] = Inr w" "decodes one_codec w m" "map_of m = [''e'' \<mapsto> demo_live_event]"
    using write_decodes[of one_codec "[(''e'', demo_live_event)]"] demo_sendable by (auto simp: writable_def)
  have k: "container_key demo_live_event = ''e''" by (simp add: container_key_def demo_live_event_def)
  have "store_map one_codec ?t = [''e'' \<mapsto> demo_live_event]"
    using w by (simp add: after_op_def demo_cluster_def global_RegisterEvent_def k g_write_def kv_Update_def store_map_def
      CurrentLiveEvents_def decodes_def)
  moreover have "store_map one_codec demo_cluster = Map.empty"
    by (simp add: store_map_def CurrentLiveEvents_def demo_cluster_def events_FromBinary_def events_read.simps)
  ultimately show ?thesis
    using s store_changed_by_own_ops[OF demo_cluster_reach s] by (metis fun_upd_same option.distinct(1))
qed

end
