(* ===== verification/Nats_Proxy.thy ===== *)
theory Nats_Proxy
  imports Nats_Global Local_Proxy
begin

text \<open>
  The data proxy of a cluster, pkg/grpc/server/util/proxy/nats/nats.go with nats_bcst.go and nats_bcst_driver.go: the instance that
  records an event publishes what it receives on subjects named after the event; every instance knows all events of the cluster and feeds, once somebody
  asks for it, a broadcast server of its own from the subject.

  NATS is not part of the repository: a publish operation gives the messages it sends, the operation nats_receive handles a message on a
  subscription, and matches subject s says which subjects a subscription to subject gets.  The key-value store is an association list; whether a
  put succeeds is an argument.  Where the code ignores an error of proto.Marshal the data are empty.
\<close>

record nats_msg =
  nm_Subject :: string
  nm_Data :: "byte list"

type_synonym key_value = "(string \<times> byte list) list"

record nats_codecs =
  nc_event :: event_codec
  nc_state :: "(PublishStateRequest, byte list, unit) codec"
  nc_speedmap :: "(PublishSpeedmapRequest, byte list, unit) codec"
  nc_analysis :: "(Analysis, byte list, unit) codec"
  nc_snapshot :: "(SnapshotData, byte list, unit) codec"
  nc_driver :: "(LiveDriverDataResponse, byte list, unit) codec"

definition marshal_data :: "('m, byte list, 'e) codec \<Rightarrow> 'm \<Rightarrow> byte list" where
  "marshal_data cd m = (case Marshal cd m of Inl _ \<Rightarrow> [] | Inr data \<Rightarrow> data)"

definition selector_GetKey :: "EventSelector option \<Rightarrow> string" where
  "selector_GetKey sel = (case sel of Some (EventSelector_Key k) \<Rightarrow> k | _ \<Rightarrow> [])"

subsection \<open>Broadcasters of an event\<close>

text \<open>A broadcaster is made when it is first asked for.  The broadcaster of driver data also holds the latest data.\<close>

record driverDataBcstSupport =
  db_bcData :: "LiveDriverDataResponse broadcastServer option"
  db_latestDriverData :: "LiveDriverDataResponse option"

record broadcastContainer =
  bc_eventKey :: string
  bc_driverData :: "driverDataBcstSupport option"
  bc_analysis :: "Analysis broadcastServer option"
  bc_racestate :: "PublishStateRequest broadcastServer option"
  bc_speedmap :: "PublishSpeedmapRequest broadcastServer option"
  bc_snapshot :: "SnapshotData broadcastServer option"

definition createBroadcasters :: "string \<Rightarrow> broadcastContainer" where
  "createBroadcasters eventKey = \<lparr>bc_eventKey = eventKey, bc_driverData = None, bc_analysis = None, bc_racestate = None,
     bc_speedmap = None, bc_snapshot = None\<rparr>"

text \<open>What closing its quit channel does to a broadcaster.\<close>

definition close_broadcaster :: "'m broadcastServer option \<Rightarrow> 'm broadcastServer option run" where
  "close_broadcaster b = (case b of None \<Rightarrow> Some None | Some b \<Rightarrow> map_option Some (end_server b))"

definition driver_close :: "driverDataBcstSupport \<Rightarrow> driverDataBcstSupport run" where
  "driver_close db = map_option (\<lambda>b. db\<lparr>db_bcData := b\<rparr>) (close_broadcaster (db_bcData db))"

definition bc_close :: "broadcastContainer \<Rightarrow> broadcastContainer run" where
  "bc_close bc = do {
     a \<leftarrow> close_broadcaster (bc_analysis bc);
     r \<leftarrow> close_broadcaster (bc_racestate bc);
     m \<leftarrow> close_broadcaster (bc_speedmap bc);
     s \<leftarrow> close_broadcaster (bc_snapshot bc);
     d \<leftarrow> (case bc_driverData bc of None \<Rightarrow> Some None | Some db \<Rightarrow> map_option Some (driver_close db));
     Some (bc\<lparr>bc_analysis := a, bc_racestate := r, bc_speedmap := m, bc_snapshot := s, bc_driverData := d\<rparr>)
   }"

definition existing_or_new :: "'m broadcastServer option \<Rightarrow> 'm broadcastServer" where
  "existing_or_new b = (case b of None \<Rightarrow> NewBroadcastServer | Some b \<Rightarrow> b)"

definition getAnalysisBroadcaster :: "broadcastContainer \<Rightarrow> Analysis broadcastServer" where
  "getAnalysisBroadcaster bc = existing_or_new (bc_analysis bc)"

definition getRacestateBroadcaster :: "broadcastContainer \<Rightarrow> PublishStateRequest broadcastServer" where
  "getRacestateBroadcaster bc = existing_or_new (bc_racestate bc)"

definition getSpeedmapBroadcaster :: "broadcastContainer \<Rightarrow> PublishSpeedmapRequest broadcastServer" where
  "getSpeedmapBroadcaster bc = existing_or_new (bc_speedmap bc)"

definition getSnapshotBroadcaster :: "broadcastContainer \<Rightarrow> SnapshotData broadcastServer" where
  "getSnapshotBroadcaster bc = existing_or_new (bc_snapshot bc)"

text \<open>The channels of a client: ch is the channel that Subscribe makes.  The second operation of a pair is what the quit goroutine does.\<close>

definition createRacestateChannels :: "chan \<Rightarrow> broadcastContainer \<Rightarrow> broadcastContainer run" where
  "createRacestateChannels ch bc = map_option (\<lambda>b. bc\<lparr>bc_racestate := Some b\<rparr>) (client_call (Subscribe ch) (getRacestateBroadcaster bc))"

definition quitRacestate :: "chan \<Rightarrow> broadcastContainer \<Rightarrow> broadcastContainer run" where
  "quitRacestate ch bc = map_option (\<lambda>b. bc\<lparr>bc_racestate := Some b\<rparr>) (client_call (CancelSubscription ch) (getRacestateBroadcaster bc))"

definition createSpeedmapChannels :: "chan \<Rightarrow> broadcastContainer \<Rightarrow> broadcastContainer run" where
  "createSpeedmapChannels ch bc = map_option (\<lambda>b. bc\<lparr>bc_speedmap := Some b\<rparr>) (client_call (Subscribe ch) (getSpeedmapBroadcaster bc))"

definition quitSpeedmap :: "chan \<Rightarrow> broadcastContainer \<Rightarrow> broadcastContainer run" where
  "quitSpeedmap ch bc = map_option (\<lambda>b. bc\<lparr>bc_speedmap := Some b\<rparr>) (client_call (CancelSubscription ch) (getSpeedmapBroadcaster bc))"

definition createSnapshotChannels :: "chan \<Rightarrow> broadcastContainer \<Rightarrow> broadcastContainer run" where
  "createSnapshotChannels ch bc = map_option (\<lambda>b. bc\<lparr>bc_snapshot := Some b\<rparr>) (client_call (Subscribe ch) (getSnapshotBroadcaster bc))"

definition quitSnapshot :: "chan \<Rightarrow> broadcastContainer \<Rightarrow> broadcastContainer run" where
  "quitSnapshot ch bc = map_option (\<lambda>b. bc\<lparr>bc_snapshot := Some b\<rparr>) (client_call (CancelSubscription ch) (getSnapshotBroadcaster bc))"

definition createAnalysisChannels :: "chan \<Rightarrow> broadcastContainer \<Rightarrow> broadcastContainer run" where
  "createAnalysisChannels ch bc = map_option (\<lambda>b. bc\<lparr>bc_analysis := Some b\<rparr>) (client_call (Subscribe ch) (getAnalysisBroadcaster bc))"

definition quitAnalysis :: "chan \<Rightarrow> broadcastContainer \<Rightarrow> broadcastContainer run" where
  "quitAnalysis ch bc = map_option (\<lambda>b. bc\<lparr>bc_analysis := Some b\<rparr>) (client_call (CancelSubscription ch) (getAnalysisBroadcaster bc))"

subsection \<open>The proxy\<close>

record eventContainer =
  en_eventData :: EventContainer
  en_bcst :: broadcastContainer

text \<open>onUnregisterCB removes the event from the lookup of this instance; the last field records the selectors it was called with.\<close>

record NatsProxy =
  n_events :: "(string \<times> eventContainer) list"
  n_localEvents :: "string list"
  n_hasCB :: bool
  n_unregistered :: "EventSelector list"

definition nats_container :: "EventContainer \<Rightarrow> eventContainer" where
  "nats_container e = \<lparr>en_eventData = e, en_bcst = createBroadcasters (container_key e)\<rparr>"

definition setupGlobalEvents :: "event_codec \<Rightarrow> kv_history \<Rightarrow> NatsProxy \<Rightarrow> NatsProxy option" where
  "setupGlobalEvents cd h n = (case CurrentLiveEvents cd h of
     None \<Rightarrow> None
   | Some curEvents \<Rightarrow> Some (n\<lparr>n_events := fold (\<lambda>(k, v). AList.update k (nats_container v)) curEvents (n_events n)\<rparr>))"

definition NewNatsProxy :: "event_codec \<Rightarrow> kv_history \<Rightarrow> bool \<Rightarrow> NatsProxy option" where
  "NewNatsProxy cd h cb = setupGlobalEvents cd h \<lparr>n_events = [], n_localEvents = [], n_hasCB = cb, n_unregistered = []\<rparr>"

definition handleIncomingEventRegistered :: "event_codec \<Rightarrow> byte list \<Rightarrow> NatsProxy \<Rightarrow> NatsProxy" where
  "handleIncomingEventRegistered cd data n = (case Unmarshal cd data of
     Inl _ \<Rightarrow> n
   | Inr regData \<Rightarrow> n\<lparr>n_events := AList.update (container_key regData) (nats_container regData) (n_events n)\<rparr>)"

definition handleIncomingEventUnregistered :: "byte list \<Rightarrow> NatsProxy \<Rightarrow> NatsProxy run" where
  "handleIncomingEventUnregistered data n = (
     let key = string_of data;
         n = (if n_hasCB n then n\<lparr>n_unregistered := n_unregistered n @ [EventSelector_Key key]\<rparr> else n)
     in do {
       _ \<leftarrow> (case map_of (n_events n) key of None \<Rightarrow> Some () | Some ec \<Rightarrow> map_option (\<lambda>_. ()) (bc_close (en_bcst ec)));
       Some (n\<lparr>n_events := AList.delete key (n_events n), n_localEvents := removeAll key (n_localEvents n)\<rparr>)
     })"

definition nats_getEvent :: "EventSelector \<Rightarrow> NatsProxy \<Rightarrow> lookup_error + eventContainer" where
  "nats_getEvent selector n = (case selector of
     EventSelector_Id i \<Rightarrow> (case find (\<lambda>(_, v). ev_Id (ec_Event (en_eventData v)) = i) (n_events n) of
         Some (_, v) \<Rightarrow> Inr v | None \<Rightarrow> Inl ErrEventNotFound)
   | EventSelector_Key k \<Rightarrow> (case map_of (n_events n) k of Some v \<Rightarrow> Inr v | None \<Rightarrow> Inl ErrEventNotFound)
   | EventSelector_None \<Rightarrow> Inl ErrEventNotFound)"

definition nats_GetEvent :: "EventSelector \<Rightarrow> NatsProxy \<Rightarrow> lookup_error + EventContainer" where
  "nats_GetEvent selector n = map_sum id en_eventData (nats_getEvent selector n)"

definition nats_LiveEvents :: "NatsProxy \<Rightarrow> EventContainer list" where
  "nats_LiveEvents n = map (en_eventData \<circ> snd) (n_events n)"

subsection \<open>Publishing\<close>

definition subject_of :: "string \<Rightarrow> string \<Rightarrow> string" where
  "subject_of name key = name @ ''.'' @ key"

definition kv_Put :: "bool \<Rightarrow> string \<Rightarrow> byte list \<Rightarrow> key_value \<Rightarrow> key_value" where
  "kv_Put ok k data kv = (if ok then AList.update k data kv else kv)"

definition nats_PublishRaceStateData :: "nats_codecs \<Rightarrow> PublishStateRequest \<Rightarrow> nats_msg" where
  "nats_PublishRaceStateData nc req =
     \<lparr>nm_Subject = subject_of ''racestate'' (selector_GetKey (psr_Event req)), nm_Data = marshal_data (nc_state nc) req\<rparr>"

definition nats_PublishSpeedmapData :: "nats_codecs \<Rightarrow> PublishSpeedmapRequest \<Rightarrow> nats_msg" where
  "nats_PublishSpeedmapData nc req =
     \<lparr>nm_Subject = subject_of ''speedmap'' (selector_GetKey (psm_Event req)), nm_Data = marshal_data (nc_speedmap nc) req\<rparr>"

definition nats_PublishDriverData :: "nats_codecs \<Rightarrow> bool \<Rightarrow> PublishDriverDataRequest \<Rightarrow> key_value \<Rightarrow> key_value" where
  "nats_PublishDriverData nc ok req kv =
     kv_Put ok (subject_of ''driverdata'' (selector_GetKey (pdr_Event req))) (marshal_data (nc_driver nc) (ComposeLiveDriverDataResponse req)) kv"

definition nats_PublishAnalysisData :: "nats_codecs \<Rightarrow> string \<Rightarrow> Analysis \<Rightarrow> nats_msg" where
  "nats_PublishAnalysisData nc eventKey a = \<lparr>nm_Subject = subject_of ''analysis'' eventKey, nm_Data = marshal_data (nc_analysis nc) a\<rparr>"

definition nats_PublishEventUnregistered ::
  "event_codec \<Rightarrow> nat option \<Rightarrow> string \<Rightarrow> GlobalEvents \<Rightarrow> kv_history \<Rightarrow> nats_msg \<times> GlobalEvents \<times> kv_history" where
  "nats_PublishEventUnregistered cd answer eventKey g h =
     (\<lparr>nm_Subject = ''event.unregistered'', nm_Data = bytes_of eventKey\<rparr>, global_UnregisterEvent cd answer eventKey g h)"

text \<open>The watchdog's callback for a stale event.\<close>

definition DeleteEventCallback ::
  "event_codec \<Rightarrow> nat option \<Rightarrow> string \<Rightarrow> GlobalEvents \<Rightarrow> kv_history \<Rightarrow> nats_msg \<times> GlobalEvents \<times> kv_history" where
  "DeleteEventCallback = nats_PublishEventUnregistered"

text \<open>
  PublishEventRegistered subscribes to the analysis and the snapshots of the event with two fresh channels and announces it; the goroutines it starts
  are the forwarders below.
\<close>

definition nats_PublishEventRegistered ::
  "nats_codecs \<Rightarrow> nat option \<Rightarrow> chan \<Rightarrow> chan \<Rightarrow> EventProcessingData \<Rightarrow> NatsProxy \<Rightarrow> GlobalEvents \<Rightarrow> kv_history \<Rightarrow>
     (nats_msg \<times> EventProcessingData \<times> NatsProxy \<times> GlobalEvents \<times> kv_history) run" where
  "nats_PublishEventRegistered nc answer chA chS epd n g h = (
     let msg = container_of epd; key = ev_Key (epd_Event epd)
     in do {
       a \<leftarrow> client_call (Subscribe chA) (AnalysisBroadcast epd);
       s \<leftarrow> client_call (Subscribe chS) (SnapshotBroadcast epd);
       Some (\<lparr>nm_Subject = ''event.registered'', nm_Data = marshal_data (nc_event nc) msg\<rparr>,
         epd\<lparr>AnalysisBroadcast := a, SnapshotBroadcast := s\<rparr>,
         n\<lparr>n_localEvents := List.insert key (n_localEvents n)\<rparr>,
         global_RegisterEvent (nc_event nc) answer msg g h)
     })"

text \<open>The forwarder of analysis data.\<close>

definition forward_analysis :: "nats_codecs \<Rightarrow> string \<Rightarrow> Analysis list \<Rightarrow> nats_msg list" where
  "forward_analysis nc key = map (nats_PublishAnalysisData nc key)"

text \<open>The forwarder of snapshots keeps their history and writes all of it after each one.\<close>

record snapshot_forwarder =
  sf_history :: "SnapshotData list"
  sf_kv :: key_value
  sf_sent :: "nats_msg list"

definition pushHistory :: "nats_codecs \<Rightarrow> string \<Rightarrow> bool \<Rightarrow> snapshot_forwarder \<Rightarrow> snapshot_forwarder" where
  "pushHistory nc key ok f = (case snapHist_ToBinary (nc_snapshot nc) (sf_history f) of
     Inl _ \<Rightarrow> f
   | Inr histData \<Rightarrow> f\<lparr>sf_kv := kv_Put ok (subject_of ''snapshots'' key) histData (sf_kv f)\<rparr>)"

definition forward_snapshot :: "nats_codecs \<Rightarrow> string \<Rightarrow> SnapshotData \<times> bool \<Rightarrow> snapshot_forwarder \<Rightarrow> snapshot_forwarder" where
  "forward_snapshot nc key a f = pushHistory nc key (snd a)
     (f\<lparr>sf_sent := sf_sent f @ [\<lparr>nm_Subject = subject_of ''snapshot'' key, nm_Data = marshal_data (nc_snapshot nc) (fst a)\<rparr>],
        sf_history := sf_history f @ [fst a]\<rparr>)"

definition forward_snapshots :: "nats_codecs \<Rightarrow> string \<Rightarrow> bool \<Rightarrow> (SnapshotData \<times> bool) list \<Rightarrow> SnapshotData list \<Rightarrow> key_value \<Rightarrow> snapshot_forwarder" where
  "forward_snapshots nc key ok as history kv =
     fold (forward_snapshot nc key) as (pushHistory nc key ok \<lparr>sf_history = history, sf_kv = kv, sf_sent = []\<rparr>)"

definition nats_HistorySnapshotData :: "nats_codecs \<Rightarrow> EventSelector \<Rightarrow> NatsProxy \<Rightarrow> key_value \<Rightarrow> SnapshotData list" where
  "nats_HistorySnapshotData nc sel n kv = (case nats_getEvent sel n of
     Inl _ \<Rightarrow> []
   | Inr event \<Rightarrow> (case map_of kv (subject_of ''snapshots'' (container_key (en_eventData event))) of
       None \<Rightarrow> []
     | Some histData \<Rightarrow> (case snapHist_FromBinary (nc_snapshot nc) histData of Inl _ \<Rightarrow> [] | Inr entries \<Rightarrow> entries)))"

subsection \<open>Subscriptions of clients\<close>

definition nats_subscribe :: "(broadcastContainer \<Rightarrow> broadcastContainer run) \<Rightarrow> chan \<Rightarrow> EventSelector \<Rightarrow> NatsProxy \<Rightarrow> (lookup_error + chan \<times> NatsProxy) run" where
  "nats_subscribe create ch sel n = (case nats_getEvent sel n of
     Inl e \<Rightarrow> Some (Inl e)
   | Inr event \<Rightarrow> do {
       bc \<leftarrow> create (en_bcst event);
       Some (Inr (ch, n\<lparr>n_events := AList.update (container_key (en_eventData event)) (event\<lparr>en_bcst := bc\<rparr>) (n_events n)\<rparr>))
     })"

definition nats_SubscribeRaceStateData :: "chan \<Rightarrow> EventSelector \<Rightarrow> NatsProxy \<Rightarrow> (lookup_error + chan \<times> NatsProxy) run" where
  "nats_SubscribeRaceStateData ch = nats_subscribe (createRacestateChannels ch) ch"

definition nats_SubscribeSpeedmapData :: "chan \<Rightarrow> EventSelector \<Rightarrow> NatsProxy \<Rightarrow> (lookup_error + chan \<times> NatsProxy) run" where
  "nats_SubscribeSpeedmapData ch = nats_subscribe (createSpeedmapChannels ch) ch"

definition nats_SubscribeAnalysisData :: "chan \<Rightarrow> EventSelector \<Rightarrow> NatsProxy \<Rightarrow> (lookup_error + chan \<times> NatsProxy) run" where
  "nats_SubscribeAnalysisData ch = nats_subscribe (createAnalysisChannels ch) ch"

definition nats_SubscribeSnapshotData :: "chan \<Rightarrow> EventSelector \<Rightarrow> NatsProxy \<Rightarrow> (lookup_error + chan \<times> NatsProxy) run" where
  "nats_SubscribeSnapshotData ch = nats_subscribe (createSnapshotChannels ch) ch"

text \<open>
  A message on the subscription of a broadcaster, the callback of createEventBroadcaster: a message that cannot be unmarshalled is logged and dropped.
\<close>

definition bcst_receive :: "('m, byte list, unit) codec \<Rightarrow> (chan \<Rightarrow> bool) \<Rightarrow> byte list \<Rightarrow> 'm broadcastServer \<Rightarrow> 'm broadcastServer run" where
  "bcst_receive cd takes data b = (case Unmarshal cd data of Inl _ \<Rightarrow> Some b | Inr x \<Rightarrow> serve_source x takes b)"

text \<open>What an instance's broadcaster on subject does with the messages of the cluster.\<close>

fun nats_receive :: "('m, byte list, unit) codec \<Rightarrow> (string \<Rightarrow> string \<Rightarrow> bool) \<Rightarrow> (chan \<Rightarrow> bool) \<Rightarrow> string \<Rightarrow> nats_msg list \<Rightarrow>
    'm broadcastServer \<Rightarrow> 'm broadcastServer run" where
  "nats_receive cd matches takes subject [] b = Some b"
| "nats_receive cd matches takes subject (m # ms) b =
     (if matches subject (nm_Subject m) then do {
        b \<leftarrow> bcst_receive cd takes (nm_Data m) b;
        nats_receive cd matches takes subject ms b
      } else nats_receive cd matches takes subject ms b)"

subsection \<open>Driver data\<close>

text \<open>
  The watcher of the driver data in the key-value store: an entry that cannot be unmarshalled is logged and passed on as far as it has been decoded,
  which is partial.
\<close>

definition driver_watch :: "nats_codecs \<Rightarrow> (chan \<Rightarrow> bool) \<Rightarrow> LiveDriverDataResponse \<Rightarrow> byte list \<Rightarrow> driverDataBcstSupport \<Rightarrow> driverDataBcstSupport run" where
  "driver_watch nc takes partial data db = (
     let resp = (case Unmarshal (nc_driver nc) data of Inl _ \<Rightarrow> partial | Inr resp \<Rightarrow> resp)
     in map_option (\<lambda>b. db\<lparr>db_bcData := Some b, db_latestDriverData := Some resp\<rparr>) (serve_source resp takes (existing_or_new (db_bcData db))))"

text \<open>
  A client's channels: a goroutine sends the latest data, if there are any, then subscribes and forwards; a second one waits for the client to quit, cancels
  the subscription and closes the data channel.  The cancellation blocks for ever when the broadcaster has ended.
\<close>

record nats_driver_sub =
  nd_initial :: "LiveDriverDataResponse option"
  nd_subscribed :: bool
  nd_source :: "LiveDriverDataResponse list"
  nd_source_closed :: bool
  nd_quit :: bool
  nd_closed :: bool
  nd_out :: "LiveDriverDataResponse list"
  nd_panic :: bool

definition createDriverDataChannels :: "broadcastContainer \<Rightarrow> nats_driver_sub \<times> broadcastContainer" where
  "createDriverDataChannels bc = (
     let db = (case bc_driverData bc of None \<Rightarrow> \<lparr>db_bcData = None, db_latestDriverData = None\<rparr> | Some db \<Rightarrow> db)
     in (\<lparr>nd_initial = db_latestDriverData db, nd_subscribed = False, nd_source = [], nd_source_closed = False, nd_quit = False,
          nd_closed = False, nd_out = [], nd_panic = False\<rparr>, bc\<lparr>bc_driverData := Some db\<rparr>))"

definition nats_SubscribeDriverData :: "EventSelector \<Rightarrow> NatsProxy \<Rightarrow> lookup_error + nats_driver_sub \<times> NatsProxy" where
  "nats_SubscribeDriverData sel n = (case nats_getEvent sel n of
     Inl e \<Rightarrow> Inl e
   | Inr event \<Rightarrow> (let (sub, bc) = createDriverDataChannels (en_bcst event)
       in Inr (sub, n\<lparr>n_events := AList.update (container_key (en_eventData event)) (event\<lparr>en_bcst := bc\<rparr>) (n_events n)\<rparr>)))"

inductive nats_driver_step :: "nats_driver_sub \<Rightarrow> nats_driver_sub \<Rightarrow> bool" where
  initial: "nd_initial s = Some r \<Longrightarrow> \<not> nd_closed s \<Longrightarrow> nats_driver_step s (s\<lparr>nd_initial := None, nd_out := nd_out s @ [r]\<rparr>)"
| initial_panic: "nd_initial s = Some r \<Longrightarrow> nd_closed s \<Longrightarrow> nats_driver_step s (s\<lparr>nd_initial := None, nd_panic := True\<rparr>)"
| subscribe: "nd_initial s = None \<Longrightarrow> \<not> nd_subscribed s \<Longrightarrow> nats_driver_step s (s\<lparr>nd_subscribed := True\<rparr>)"
| source: "nd_subscribed s \<Longrightarrow> \<not> nd_source_closed s \<Longrightarrow> nats_driver_step s (s\<lparr>nd_source := nd_source s @ [d]\<rparr>)"
| event_end: "nd_subscribed s \<Longrightarrow> \<not> nd_source_closed s \<Longrightarrow> nats_driver_step s (s\<lparr>nd_source_closed := True\<rparr>)"
| forward: "nd_source s = d # ds \<Longrightarrow> \<not> nd_closed s \<Longrightarrow> nats_driver_step s (s\<lparr>nd_source := ds, nd_out := nd_out s @ [d]\<rparr>)"
| forward_panic: "nd_source s = d # ds \<Longrightarrow> nd_closed s \<Longrightarrow> nats_driver_step s (s\<lparr>nd_source := ds, nd_panic := True\<rparr>)"
| quit: "\<not> nd_quit s \<Longrightarrow> nats_driver_step s (s\<lparr>nd_quit := True\<rparr>)"
| cancel: "nd_quit s \<Longrightarrow> \<not> nd_source_closed s \<Longrightarrow> \<not> nd_closed s \<Longrightarrow>
    nats_driver_step s (s\<lparr>nd_source_closed := nd_subscribed s, nd_closed := True\<rparr>)"

inductive nats_driver_steps :: "nats_driver_sub \<Rightarrow> nats_driver_sub \<Rightarrow> bool" where
  none: "nats_driver_steps s s"
| more: "nats_driver_steps s t \<Longrightarrow> nats_driver_step t u \<Longrightarrow> nats_driver_steps s u"

inductive_cases nats_driver_stepE: "nats_driver_step s t"

text \<open>The end of the event does not close the data channel: only a client that quits does.\<close>

lemma nats_driver_open_after_event:
  assumes "nats_driver_steps (fst (createDriverDataChannels bc)) s" "\<not> nd_quit s"
  shows "\<not> nd_closed s"
proof -
  have "nats_driver_steps s0 s \<Longrightarrow> \<not> nd_closed s0 \<Longrightarrow> nd_closed s \<longrightarrow> nd_quit s" for s0
    by (induction rule: nats_driver_steps.induct) (auto elim!: nats_driver_stepE)
  then show ?thesis using assms by (auto simp: createDriverDataChannels_def Let_def)
qed

text \<open>A client that quits before it has taken the latest data makes the goroutine that sends them panic.\<close>

lemma nats_driver_panics:
  assumes "bc_driverData bc = Some db" "db_latestDriverData db = Some r"
  shows "\<exists>s. nats_driver_steps (fst (createDriverDataChannels bc)) s \<and> nd_panic s"
proof -
  let ?s = "fst (createDriverDataChannels bc)"
  have s: "nd_initial ?s = Some r" "\<not> nd_quit ?s" "\<not> nd_source_closed ?s" "\<not> nd_closed ?s"
    using assms by (simp_all add: createDriverDataChannels_def)
  have "nats_driver_steps ?s (?s\<lparr>nd_quit := True\<rparr>)"
    using s by (blast intro: nats_driver_steps.intros nats_driver_step.quit)
  then have "nats_driver_steps ?s (?s\<lparr>nd_quit := True, nd_source_closed := nd_subscribed ?s, nd_closed := True\<rparr>)"
    by (rule nats_driver_steps.more) (use nats_driver_step.cancel[of "?s\<lparr>nd_quit := True\<rparr>"] s in simp)
  then show ?thesis
    by (rule nats_driver_steps.more[THEN exI[of _ "_\<lparr>nd_initial := None, nd_panic := True\<rparr>", OF conjI]])
      (use s in \<open>auto intro!: nats_driver_step.initial_panic\<close>)
qed

subsection \<open>The history of snapshots\<close>

lemma forward_history: "sf_history (fold (forward_snapshot nc key) as f) = sf_history f @ map fst as"
  by (induction as arbitrary: f) (simp_all add: forward_snapshot_def pushHistory_def split: sum.splits)

lemma pushed_history:
  assumes "\<forall>m \<in> set (sf_history f). sendable (nc_snapshot nc) m"
  shows "\<exists>data. map_of (sf_kv (pushHistory nc key True f)) (subject_of ''snapshots'' key) = Some data \<and>
    snapHist_FromBinary (nc_snapshot nc) data = Inr (sf_history f)"
proof -
  obtain data where "snapHist_ToBinary (nc_snapshot nc) (sf_history f) = Inr data" "snapHist_FromBinary (nc_snapshot nc) data = Inr (sf_history f)"
    using snapHist_write_ok[OF assms] by (auto simp: snapHist_ToBinary_def snapHist_FromBinary_def)
  then show ?thesis by (simp add: pushHistory_def kv_Put_def AList.update_conv')
qed

text \<open>
  C17: every instance that knows the event reads the snapshots it had when it was announced and all that came since, in order, whether or not some of the earlier writes
  of the recording instance failed, as long as the last one succeeded.
\<close>

lemma snapshot_history_everywhere:
  assumes "\<forall>m \<in> set (history @ map fst as). sendable (nc_snapshot nc) m" "last (ok # map snd as)"
    and "nats_getEvent sel n = Inr event" "container_key (en_eventData event) = key"
  shows "nats_HistorySnapshotData nc sel n (sf_kv (forward_snapshots nc key ok as history kv)) = history @ map fst as"
proof -
  have "\<exists>data. map_of (sf_kv (forward_snapshots nc key ok as history kv)) (subject_of ''snapshots'' key) = Some data \<and>
    snapHist_FromBinary (nc_snapshot nc) data = Inr (history @ map fst as)"
  proof (cases as rule: rev_cases)
    case Nil
    then show ?thesis using assms(1,2) pushed_history[of "\<lparr>sf_history = history, sf_kv = kv, sf_sent = []\<rparr>" nc key]
      by (simp add: forward_snapshots_def)
  next
    case (snoc as' a)
    let ?f = "fold (forward_snapshot nc key) as' (pushHistory nc key ok \<lparr>sf_history = history, sf_kv = kv, sf_sent = []\<rparr>)"
    let ?g = "?f\<lparr>sf_sent := sf_sent ?f @ [\<lparr>nm_Subject = subject_of ''snapshot'' key, nm_Data = marshal_data (nc_snapshot nc) (fst a)\<rparr>],
        sf_history := sf_history ?f @ [fst a]\<rparr>"
    have "sf_history ?g = history @ map fst as"
      by (simp add: forward_history snoc) (simp add: pushHistory_def split: sum.splits)
    moreover have "snd a" using assms(2) by (simp add: snoc)
    ultimately show ?thesis using assms(1) pushed_history[of ?g nc key]
      by (simp add: forward_snapshots_def snoc forward_snapshot_def)
  qed
  then show ?thesis using assms(3,4) by (auto simp: nats_HistorySnapshotData_def)
qed

subsection \<open>States on another instance\<close>

lemma receive_one:
  assumes "bcast_inv b" "serving b" "ch \<in> set (listeners b)" "takes ch"
  shows "\<exists>t. serve_source msg takes b = Some t \<and> bcast_inv t \<and> serving t \<and> ch \<in> set (listeners t) \<and> msgs_of ch t = msgs_of ch b @ [msg]"
proof -
  obtain t where t: "serve (Source msg takes) b = Some t" "bcast_inv t" "serving t"
    "delivered t = delivered b @ map (\<lambda>l. (l, msg)) (filter takes (listeners b))"
    using serve_source_ok[OF assms(1,2)] by blast
  have dis: "distinct (listeners b)" "set (listeners b) \<inter> set (closed b) = {}" using assms(1,2) by (auto simp: bcast_inv_def)
  have "listeners t = listeners b"
    using t(1) deliver_loop[of "listeners b" "b\<lparr>numRcv := Suc (numRcv b), received := received b @ [msg]\<rparr>" msg takes] dis(2) by auto
  moreover have "msgs_of ch t = msgs_of ch b @ [msg]"
    using filter_one[OF dis(1), of takes ch] assms(3,4) by (simp add: msgs_of_def t(4) filter_map o_def)
  ultimately show ?thesis using t assms(2,3) by (simp add: serve_source_def)
qed

text \<open>A channel that has not been subscribed has got nothing.\<close>

lemma delivered_subscribed: "reach s \<Longrightarrow> \<forall>(c, m) \<in> set (delivered s). c \<in> set (subscribed s)"
proof (induction rule: reach.induct)
  case (message s msg takes t)
  have "set (listeners s) \<inter> set (closed s) = {}" "set (listeners s) \<subseteq> set (subscribed s)"
    using reach_inv[OF message.hyps(1)] message.hyps(2) by (auto simp: bcast_inv_def)
  then show ?case
    using message.IH message.hyps(3) deliver_loop[of "listeners s" "s\<lparr>numRcv := Suc (numRcv s), received := received s @ [msg]\<rparr>" msg takes]
    by (fastforce dest: subsetD)
next
  case (cancel s ch t)
  then show ?case by (auto simp: client_defs remove_listener_def split: Option.bind_splits)
next
  case (stop s t)
  then show ?case using serve_done_ok[OF reach_inv[OF stop.hyps(1)] stop.hyps(2)] by (auto simp: client_defs)
qed (auto simp: NewBroadcastServer_def client_defs)

lemma not_subscribed_none: "reach s \<Longrightarrow> ch \<notin> set (subscribed s) \<Longrightarrow> msgs_of ch s = []"
  using delivered_subscribed[of s] by (force simp: msgs_of_def filter_empty_conv)

lemma receive_all:
  assumes "bcast_inv b" "serving b" "ch \<in> set (listeners b)" "takes ch" "\<forall>x. matches subject x \<longleftrightarrow> x = subject"
    and "map nm_Data (filter (\<lambda>m. nm_Subject m = subject) ms) = map (marshal_data cd) xs" "\<forall>x \<in> set xs. sendable cd x"
  shows "\<exists>t. nats_receive cd matches takes subject ms b = Some t \<and> msgs_of ch t = msgs_of ch b @ xs"
  using assms
proof (induction ms arbitrary: b xs)
  case (Cons m ms)
  show ?case
  proof (cases "nm_Subject m = subject")
    case True
    then obtain x xs' where x: "xs = x # xs'" "nm_Data m = marshal_data cd x" using Cons.prems(6) by (cases xs) auto
    have u: "Unmarshal cd (nm_Data m) = Inr x" using Cons.prems(7) x by (auto simp: sendable_def marshal_data_def)
    obtain b' where b: "serve_source x takes b = Some b'" "bcast_inv b'" "serving b'" "ch \<in> set (listeners b')" "msgs_of ch b' = msgs_of ch b @ [x]"
      using receive_one[where takes = takes, OF Cons.prems(1-4)] by blast
    have "\<exists>t. nats_receive cd matches takes subject ms b' = Some t \<and> msgs_of ch t = msgs_of ch b' @ xs'"
      using Cons.prems True x by (intro Cons.IH[OF b(2-4)]) auto
    then obtain t where "nats_receive cd matches takes subject ms b' = Some t" "msgs_of ch t = msgs_of ch b' @ xs'" by blast
    then show ?thesis using True b(1,5) u x(1) Cons.prems(5) by (simp add: bcst_receive_def)
  next
    case False
    then show ?thesis using Cons by auto
  qed
qed simp


text \<open>
  The subject of a state is named after the key of its selector: the states of a provider that selects its event by id, which the state service
  accepts, are not those of the event's subject.
\<close>

lemma state_by_id_not_delivered:
  assumes "psr_Event req = Some (EventSelector_Id i)" "key \<noteq> []"
  shows "nm_Subject (nats_PublishRaceStateData nc req) \<noteq> subject_of ''racestate'' key"
  using assms by (simp add: nats_PublishRaceStateData_def selector_GetKey_def subject_of_def)

definition demo_published :: PublishStateRequest where
  "demo_published = \<lparr>psr_Event = Some (EventSelector_Key ''e''), psr_Session = None, psr_Cars = [], psr_Messages = [], psr_Timestamp = None\<rparr>"

definition demo_history :: "SnapshotData" where
  "demo_history = \<lparr>sd_RecordStamp = None, sd_SessionTime = Fin 1, sd_TimeOfDay = 0, sd_AirTemp = Fin 0, sd_TrackTemp = Fin 0, sd_TrackWetness = 0,
     sd_Precipitation = Fin 0, sd_CarClassLaptimes = []\<rparr>"

definition demo_codecs :: nats_codecs where
  "demo_codecs = \<lparr>nc_event = one_codec, nc_state = \<lparr>Marshal = (\<lambda>_. Inr [1]), Unmarshal = (\<lambda>_. Inr demo_published)\<rparr>,
     nc_speedmap = \<lparr>Marshal = (\<lambda>_. Inl ()), Unmarshal = (\<lambda>_. Inl ())\<rparr>, nc_analysis = \<lparr>Marshal = (\<lambda>_. Inl ()), Unmarshal = (\<lambda>_. Inl ())\<rparr>,
     nc_snapshot = \<lparr>Marshal = (\<lambda>_. Inr [1]), Unmarshal = (\<lambda>_. Inr demo_history)\<rparr>,
     nc_driver = \<lparr>Marshal = (\<lambda>_. Inl ()), Unmarshal = (\<lambda>_. Inl ())\<rparr>\<rparr>"

definition demo_proxy :: NatsProxy where
  "demo_proxy = \<lparr>n_events = [(''e'', nats_container demo_live_event)], n_localEvents = [], n_hasCB = False, n_unregistered = []\<rparr>"

lemma snapshot_history_everywhere_witness:
  "nats_HistorySnapshotData demo_codecs (EventSelector_Key ''e'') demo_proxy
     (sf_kv (forward_snapshots demo_codecs ''e'' False [(demo_history, False), (demo_history, True)] [demo_history] [])) =
   [demo_history, demo_history, demo_history]"
proof -
  have "\<forall>m \<in> set ([demo_history] @ map fst [(demo_history, False), (demo_history, True)]). sendable (nc_snapshot demo_codecs) m"
    by (simp add: sendable_def demo_codecs_def)
  moreover have "nats_getEvent (EventSelector_Key ''e'') demo_proxy = Inr (nats_container demo_live_event)"
    by (simp add: nats_getEvent_def demo_proxy_def)
  moreover have "container_key (en_eventData (nats_container demo_live_event)) = ''e''"
    by (simp add: nats_container_def container_key_def demo_live_event_def)
  ultimately show ?thesis
    using snapshot_history_everywhere[of "[demo_history]" "[(demo_history, False), (demo_history, True)]" demo_codecs False
      "EventSelector_Key ''e''" demo_proxy "nats_container demo_live_event" "''e''" "[]"] by simp
qed


end
