(* ===== verification/Session_Store.thy ===== *)
theory Session_Store
  imports Auth Messages
begin

text \<open>
  Sessions of users that have logged in: the stores pkg/grpc/session/impl/simple/simple_session_store.go and impl/oauth2
  (oauth2_session_store.go over memory_storage.go), the cookie of session.go and the interceptor impl/session_interceptor.go that puts the session of a request
  into its context.

  The time is an argument.  The OAuth library's token source is one too: an operation that asks it for a token gets the answer,
  None for an error.  A timer of time.AfterFunc is a number with what it is for; the operation that runs when it fires is mem_refresh.
\<close>

datatype session_error = ErrSessionNotFound | ErrSessionExpired | ErrInvalidSession

record OAuthToken =
  tok_AccessToken :: string
  tok_Expiry :: timestamp
  tok_IDToken :: "string option"

record sessionRawData =
  raw_ID :: string
  raw_Name :: string
  raw_Roles :: "Role list"
  raw_ScopedRoles :: "ScopedRole list"
  raw_Token :: "OAuthToken option"
  raw_ExtraIDToken :: string
  raw_LastAccessed :: timestamp
  raw_UserID :: string
  raw_TenantID :: uint32
  raw_LastSync :: timestamp

text \<open>What the interface Session tells of it.\<close>

definition session_info :: "sessionRawData \<Rightarrow> SessionInfo" where
  "session_info raw = \<lparr>sess_ID = raw_ID raw, sess_UserID = raw_UserID raw, sess_Name = raw_Name raw, sess_Roles = raw_Roles raw,
     sess_ScopedRoles = raw_ScopedRoles raw, sess_TenantID = raw_TenantID raw\<rparr>"

record session_Config =
  cfg_Timeout :: int
  cfg_CookieName :: string

definition session_WithTimeout :: "int \<Rightarrow> session_Config \<Rightarrow> session_Config" where
  "session_WithTimeout d c = c\<lparr>cfg_Timeout := d\<rparr>"

definition session_WithCookieName :: "string \<Rightarrow> session_Config \<Rightarrow> session_Config" where
  "session_WithCookieName name c = c\<lparr>cfg_CookieName := name\<rparr>"

subsection \<open>The simple store\<close>

record simpleSessionStore =
  ss_cfg :: session_Config
  ss_sessions :: "string \<Rightarrow> SessionInfo option"

definition simple_New :: "(session_Config \<Rightarrow> session_Config) list \<Rightarrow> simpleSessionStore" where
  "simple_New common = \<lparr>ss_cfg = fold (\<lambda>opt c. opt c) common \<lparr>cfg_Timeout = 30 * 1000000000, cfg_CookieName = []\<rparr>, ss_sessions = Map.empty\<rparr>"

definition simple_Get :: "string \<Rightarrow> simpleSessionStore \<Rightarrow> session_error + SessionInfo" where
  "simple_Get i s = (case ss_sessions s i of Some sess \<Rightarrow> Inr sess | None \<Rightarrow> Inl ErrSessionNotFound)"

definition simple_Save :: "SessionInfo \<Rightarrow> simpleSessionStore \<Rightarrow> simpleSessionStore" where
  "simple_Save sess s = s\<lparr>ss_sessions := (ss_sessions s)(sess_ID sess \<mapsto> sess)\<rparr>"

definition simple_Delete :: "string \<Rightarrow> simpleSessionStore \<Rightarrow> simpleSessionStore" where
  "simple_Delete i s = s\<lparr>ss_sessions := (ss_sessions s)(i := None)\<rparr>"

subsection \<open>The storage in memory\<close>

text \<open>The timers that have not fired: the number, the session and the time it is due.\<close>

record inMemoryStorage =
  ms_refreshThreshold :: int
  ms_Timeout :: int
  ms_sessions :: "string \<Rightarrow> sessionRawData option"
  ms_refresher :: "string \<Rightarrow> nat option"
  ms_timers :: "(nat \<times> string \<times> timestamp) list"
  ms_next :: nat

definition newInMemoryStorage :: "session_Config \<Rightarrow> int \<Rightarrow> inMemoryStorage" where
  "newInMemoryStorage cfg threshold = \<lparr>ms_refreshThreshold = threshold, ms_Timeout = cfg_Timeout cfg, ms_sessions = Map.empty,
     ms_refresher = Map.empty, ms_timers = [], ms_next = 0\<rparr>"

definition mem_Get :: "string \<Rightarrow> inMemoryStorage \<Rightarrow> session_error + sessionRawData" where
  "mem_Get i s = (case ms_sessions s i of Some sess \<Rightarrow> Inr sess | None \<Rightarrow> Inl ErrSessionNotFound)"

text \<open>The time until the token of a session is to be refreshed; a session without a token is a nil dereference.\<close>

definition duration_sub :: "int \<Rightarrow> int \<Rightarrow> int" where
  \<comment> \<open>of two Durations, which wraps\<close>
  "duration_sub a b = signed_take_bit 63 (a - b)"

definition refresh_wait :: "int \<Rightarrow> timestamp \<Rightarrow> OAuthToken \<Rightarrow> int" where
  "refresh_wait threshold now t = duration_sub (time_sub (tok_Expiry t) now) threshold"

definition calcTokenRefreshWait :: "int \<Rightarrow> timestamp \<Rightarrow> sessionRawData \<Rightarrow> int run" where
  "calcTokenRefreshWait threshold now raw = map_option (refresh_wait threshold now) (raw_Token raw)"

text \<open>A timer for a session, which becomes its refresher.  A timer the session had before goes on.\<close>

definition mem_set_refresher :: "string \<Rightarrow> timestamp \<Rightarrow> inMemoryStorage \<Rightarrow> inMemoryStorage" where
  "mem_set_refresher i due s = s\<lparr>ms_refresher := (ms_refresher s)(i \<mapsto> ms_next s),
     ms_timers := ms_timers s @ [(ms_next s, i, due)], ms_next := Suc (ms_next s)\<rparr>"

definition mem_Save :: "timestamp \<Rightarrow> sessionRawData \<Rightarrow> inMemoryStorage \<Rightarrow> inMemoryStorage run" where
  "mem_Save now raw s = (let raw = raw\<lparr>raw_LastAccessed := now\<rparr> in do {
     wait \<leftarrow> calcTokenRefreshWait (ms_refreshThreshold s) now raw;
     Some ((mem_set_refresher (raw_ID raw) (now + wait) s)\<lparr>ms_sessions := (ms_sessions s)(raw_ID raw \<mapsto> raw)\<rparr>)
   })"

definition mem_Delete :: "string \<Rightarrow> inMemoryStorage \<Rightarrow> inMemoryStorage" where
  "mem_Delete i s = (let s = s\<lparr>ms_sessions := (ms_sessions s)(i := None)\<rparr> in
     case ms_refresher s i of
       None \<Rightarrow> s
     | Some t \<Rightarrow> s\<lparr>ms_timers := filter (\<lambda>(n, _). n \<noteq> t) (ms_timers s), ms_refresher := (ms_refresher s)(i := None)\<rparr>)"

text \<open>
  What the timer t does when it fires; answer is the new token of the token source.  It is one step here, although the code holds the mutex only in
  parts of it: a deletion in between leaves a timer that finds no session when it fires.
\<close>

definition mem_refresh :: "timestamp \<Rightarrow> OAuthToken option \<Rightarrow> nat \<times> string \<times> timestamp \<Rightarrow> inMemoryStorage \<Rightarrow> inMemoryStorage" where
  "mem_refresh now answer t s = (
     let s = s\<lparr>ms_timers := filter (\<lambda>(n, _). n \<noteq> fst t) (ms_timers s)\<rparr>; i = fst (snd t)
     in case mem_Get i s of
       Inl _ \<Rightarrow> s
     | Inr mySession \<Rightarrow>
         (if ms_Timeout s < time_sub now (raw_LastAccessed mySession) then mem_Delete (raw_ID mySession) s
          else case answer of
            None \<Rightarrow> mem_Delete (raw_ID mySession) s
          | Some newToken \<Rightarrow> (mem_set_refresher i (now + refresh_wait (ms_refreshThreshold s) now newToken) s)
              \<lparr>ms_sessions := (ms_sessions s)(i \<mapsto> mySession\<lparr>raw_Token := Some newToken\<rparr>)\<rparr>))"

subsection \<open>The store over a storage\<close>

text \<open>
  The interface sessionStorage.  What Get returns is a pointer to the entry, through which the store sets the last access; st_Touch is this write.
  Save may panic.
\<close>

record 's sessionStorage =
  st_Get :: "string \<Rightarrow> 's \<Rightarrow> session_error + sessionRawData"
  st_Touch :: "string \<Rightarrow> timestamp \<Rightarrow> 's \<Rightarrow> 's"
  st_Save :: "timestamp \<Rightarrow> sessionRawData \<Rightarrow> 's \<Rightarrow> 's run"
  st_Delete :: "string \<Rightarrow> 's \<Rightarrow> 's"

definition mem_Touch :: "string \<Rightarrow> timestamp \<Rightarrow> inMemoryStorage \<Rightarrow> inMemoryStorage" where
  "mem_Touch i now s = s\<lparr>ms_sessions := (ms_sessions s)(i := map_option (\<lambda>raw. raw\<lparr>raw_LastAccessed := now\<rparr>) (ms_sessions s i))\<rparr>"

definition memory_storage :: "inMemoryStorage sessionStorage" where
  "memory_storage = \<lparr>st_Get = mem_Get, st_Touch = mem_Touch, st_Save = mem_Save, st_Delete = mem_Delete\<rparr>"

definition oauth2_defaults :: session_Config where
  "oauth2_defaults = \<lparr>cfg_Timeout = 30 * 60 * 1000000000, cfg_CookieName = ''iracelog_session''\<rparr>"

definition oauth2_Get :: "'s sessionStorage \<Rightarrow> session_Config \<Rightarrow> timestamp \<Rightarrow> string \<Rightarrow> 's \<Rightarrow> (session_error + sessionRawData) \<times> 's" where
  "oauth2_Get st cfg now i s = (case st_Get st i s of
     Inl _ \<Rightarrow> (Inl ErrSessionNotFound, s)
   | Inr sess \<Rightarrow> (if cfg_Timeout cfg < time_sub now (raw_LastAccessed sess) then (Inl ErrSessionExpired, st_Delete st i s)
       else (Inr (sess\<lparr>raw_LastAccessed := now\<rparr>), st_Touch st i now s)))"

text \<open>answer is what the token source of the session gives; a session that is not of this store's kind is ErrInvalidSession, not modelled.\<close>

definition oauth2_Save :: "'s sessionStorage \<Rightarrow> timestamp \<Rightarrow> OAuthToken option \<Rightarrow> sessionRawData \<Rightarrow> 's \<Rightarrow> 's run" where
  "oauth2_Save st now answer mySession s = (
     let raw = (case answer of Some token \<Rightarrow> mySession\<lparr>raw_Token := Some token\<rparr> | None \<Rightarrow> mySession)
     in st_Save st now (raw\<lparr>raw_LastAccessed := now\<rparr>) s)"

definition oauth2_Delete :: "'s sessionStorage \<Rightarrow> string \<Rightarrow> 's \<Rightarrow> 's" where
  "oauth2_Delete st i s = st_Delete st i s"

subsection \<open>Cookies\<close>

record Cookie =
  ck_Name :: string
  ck_Value :: string
  ck_MaxAge :: int

definition CreateCookieForSession :: "string \<Rightarrow> sessionRawData \<Rightarrow> int \<Rightarrow> Cookie" where
  "CreateCookieForSession cookieName sess timeout = \<lparr>ck_Name = cookieName, ck_Value = raw_ID sess, ck_MaxAge = timeout div 1000000000\<rparr>"

text \<open>
  A request with the value of the session cookie, if it has one.  The session goes into the context of unary calls; the response gets a cookie for the session in
  the context unless the handler has set one.
\<close>

definition session_intercept :: "'s sessionStorage \<Rightarrow> session_Config \<Rightarrow> bool \<Rightarrow> timestamp \<Rightarrow> string option \<Rightarrow> 's \<Rightarrow> sessionRawData option \<times> 's" where
  "session_intercept st cfg unary now cookie s = (if \<not> unary then (None, s)
     else case cookie of
       None \<Rightarrow> (None, s)
     | Some sessionID \<Rightarrow> (case oauth2_Get st cfg now sessionID s of (Inr sess, s) \<Rightarrow> (Some sess, s) | (Inl _, s) \<Rightarrow> (None, s)))"

definition addSessionCookie :: "session_Config \<Rightarrow> sessionRawData option \<Rightarrow> Cookie option \<Rightarrow> Cookie option" where
  "addSessionCookie cfg sessionData already = (case already of
     Some c \<Rightarrow> Some c
   | None \<Rightarrow> map_option (\<lambda>sess. CreateCookieForSession (cfg_CookieName cfg) sess (cfg_Timeout cfg)) sessionData)"

end
