(* ===== verification/Auth_Server.thy ===== *)
theory Auth_Server
  imports Session_Store
begin

text \<open>
  Logging in through an identity provider, pkg/grpc/server/auth/auth_server.go, with the cache of pending logins
  pkg/grpc/oidc/impl/simple/simple.go: the authorization code flow with a state that is used once, the session built
  from the token, and logging out.

  The identity provider, the OAuth and OIDC libraries, the random strings, url.Parse and the decoding of the token's payload are
  arguments.  EqualFold is modelled for ASCII.  A panic is None.
\<close>

subsection \<open>Pending logins\<close>

record PendingAuthState =
  pas_State :: string
  pas_CodeVerifier :: string
  pas_ClientRedirectURI :: string
  pas_CreatedAt :: timestamp

type_synonym simplePASCache = "string \<Rightarrow> PendingAuthState option"

definition pas_Get :: "string \<Rightarrow> simplePASCache \<Rightarrow> PendingAuthState option" where
  "pas_Get i c = c i"

definition pas_Save :: "PendingAuthState \<Rightarrow> simplePASCache \<Rightarrow> simplePASCache" where
  "pas_Save sess c = c(pas_State sess \<mapsto> sess)"

definition pas_Delete :: "string \<Rightarrow> simplePASCache \<Rightarrow> simplePASCache" where
  "pas_Delete i c = c(i := None)"

text \<open>state and verifier are the random strings, authCodeURL the library's address of the identity provider.\<close>

definition Login :: "(string \<Rightarrow> string \<Rightarrow> string) \<Rightarrow> timestamp \<Rightarrow> string \<Rightarrow> string \<Rightarrow> string \<Rightarrow> simplePASCache \<Rightarrow> string \<times> simplePASCache" where
  "Login authCodeURL now state verifier redirectUrl c =
     (authCodeURL state verifier,
      pas_Save \<lparr>pas_State = state, pas_CodeVerifier = verifier, pas_ClientRedirectURI = redirectUrl, pas_CreatedAt = now\<rparr> c)"

subsection \<open>Roles\<close>

definition GlobalRoles :: "Role list" where
  "GlobalRoles = [RoleAdmin, RoleTenantManager, RoleTrackManager]"

definition digit :: "char \<Rightarrow> bool" where
  "digit c \<longleftrightarrow> CHR ''0'' \<le> c \<and> c \<le> CHR ''9''"

text \<open>A role of the pattern ^(racedata-provider|editor)_tenant_(backslash d+)$ and its two groups.\<close>

definition match_role :: "Role \<Rightarrow> Role \<Rightarrow> (Role \<times> string) option" where
  "match_role role r = (let prefix = role @ ''_tenant_''; rest = drop (length prefix) r in
     if take (length prefix) r = prefix \<and> rest \<noteq> [] \<and> list_all digit rest then Some (role, rest) else None)"

definition match_scoped :: "Role \<Rightarrow> (Role \<times> string) option" where
  "match_scoped r = (case match_role RoleRaceDataProvider r of Some m \<Rightarrow> Some m | None \<Rightarrow> match_role RoleEditor r)"

definition add_scope :: "Role \<Rightarrow> (Role \<times> string list) list \<Rightarrow> (Role \<times> string list) list" where
  "add_scope r m = (case match_scoped r of
     None \<Rightarrow> m
   | Some (role, scope) \<Rightarrow> AList.update role (map_get [] (map_of m) role @ [scope]) m)"

definition extractScopedRoles :: "Role list \<Rightarrow> ScopedRole list" where
  "extractScopedRoles roles = map (\<lambda>(role, scopes). \<lparr>sr_Role = role, sr_Scopes = scopes\<rparr>) (fold add_scope roles [])"

text \<open>strings.Split at a separator of one character\<close>

fun split_at :: "char \<Rightarrow> string \<Rightarrow> string list" where
  "split_at sep [] = [[]]"
| "split_at sep (c # cs) = (if c = sep then [] # split_at sep cs
     else case split_at sep cs of [] \<Rightarrow> [[c]] | p # ps \<Rightarrow> (c # p) # ps)"

text \<open>
  The roles of the realm in the access token; decode does the decoding of base64 and JSON.  An error leaves the session without roles.
\<close>

definition extractKeycloakClaims :: "(string \<Rightarrow> Role list option) \<Rightarrow> string \<Rightarrow> Role list option" where
  "extractKeycloakClaims decode accessToken = (let parts = split_at CHR ''.'' accessToken in
     if length parts < 3 then None else decode (parts ! 1))"

record Claims =
  claim_name :: "string option"
  claim_sub :: "string option"

definition sprint_claim :: "string option \<Rightarrow> string" where
  "sprint_claim c = (case c of None \<Rightarrow> ''%!s(<nil>)'' | Some s \<Rightarrow> s)"

definition NewSession :: "string \<Rightarrow> (sessionRawData \<Rightarrow> sessionRawData) list \<Rightarrow> sessionRawData" where
  "NewSession i opts = fold (\<lambda>opt s. opt s) opts
     \<lparr>raw_ID = i, raw_Name = [], raw_Roles = [], raw_ScopedRoles = [], raw_Token = None, raw_ExtraIDToken = [], raw_LastAccessed = zero_time,
      raw_UserID = [], raw_TenantID = 0, raw_LastSync = zero_time\<rparr>"

definition WithSessionName :: "string \<Rightarrow> sessionRawData \<Rightarrow> sessionRawData" where
  "WithSessionName n s = s\<lparr>raw_Name := n\<rparr>"

definition WithSessionRoles :: "Role list \<Rightarrow> sessionRawData \<Rightarrow> sessionRawData" where
  "WithSessionRoles rs s = s\<lparr>raw_Roles := rs\<rparr>"

definition WithSessionScopedRoles :: "ScopedRole list \<Rightarrow> sessionRawData \<Rightarrow> sessionRawData" where
  "WithSessionScopedRoles rs s = s\<lparr>raw_ScopedRoles := rs\<rparr>"

definition WithSessionUserID :: "string \<Rightarrow> sessionRawData \<Rightarrow> sessionRawData" where
  "WithSessionUserID i s = s\<lparr>raw_UserID := i\<rparr>"

definition WithSessionIDToken :: "string \<Rightarrow> sessionRawData \<Rightarrow> sessionRawData" where
  "WithSessionIDToken t s = s\<lparr>raw_ExtraIDToken := t\<rparr>"

definition buildSession :: "(string \<Rightarrow> Role list option) \<Rightarrow> string \<Rightarrow> OAuthToken \<Rightarrow> string \<Rightarrow> Claims \<Rightarrow> sessionRawData" where
  "buildSession decode sessionID token idToken claims = (
     let sessionRoles = (case extractKeycloakClaims decode (tok_AccessToken token) of Some rs \<Rightarrow> rs | None \<Rightarrow> [])
     in NewSession sessionID [WithSessionName (sprint_claim (claim_name claims)),
       WithSessionRoles (filter (\<lambda>r. r \<in> set GlobalRoles) sessionRoles),
       WithSessionScopedRoles (extractScopedRoles sessionRoles),
       WithSessionUserID (sprint_claim (claim_sub claims)),
       WithSessionIDToken idToken])"

subsection \<open>The callback\<close>

record URL =
  url_Scheme :: string
  url_HasUser :: bool
  url_Hostname :: string

definition ascii_lower :: "char \<Rightarrow> char" where
  "ascii_lower c = (if CHR ''A'' \<le> c \<and> c \<le> CHR ''Z'' then char_of (of_char c + 32 :: nat) else c)"

definition EqualFold :: "string \<Rightarrow> string \<Rightarrow> bool" where
  "EqualFold a b \<longleftrightarrow> map ascii_lower a = map ascii_lower b"

text \<open>An absolute URL is one with a scheme; requestHost is the name of the host the request was sent to.\<close>

definition isValidRedirectTarget :: "(string \<Rightarrow> URL option) \<Rightarrow> string \<Rightarrow> string \<Rightarrow> bool" where
  "isValidRedirectTarget parse requestHost target = (
     if target = [] \<or> target = ''/'' then True
     else case parse target of
       None \<Rightarrow> False
     | Some u \<Rightarrow>
         if url_Scheme u \<noteq> [] then
           (if url_Scheme u \<noteq> ''http'' \<and> url_Scheme u \<noteq> ''https'' then False
            else if url_HasUser u then False
            else if requestHost = [] \<or> \<not> EqualFold (url_Hostname u) requestHost then False
            else True)
         else if take 2 target = ''//'' then False
         else take 1 target = ''/'')"

text \<open>
  What the handler uses of the identity provider: the exchange of a code (with the verifier) for a token, the verification of an ID token with its claims, whether the
  user info could be got; the random id of the session and the answer of the token source when the session is saved.
\<close>

record oidc_env =
  oe_Exchange :: "string \<Rightarrow> string \<Rightarrow> OAuthToken option"
  oe_Verify :: "string \<Rightarrow> Claims option"
  oe_UserInfo :: "OAuthToken \<Rightarrow> bool"
  oe_Decode :: "string \<Rightarrow> Role list option"
  oe_Parse :: "string \<Rightarrow> URL option"

datatype callback_result = HttpError nat | Redirect Cookie string

definition CallbackHandler :: "'s sessionStorage \<Rightarrow> session_Config \<Rightarrow> oidc_env \<Rightarrow> timestamp \<Rightarrow> string \<Rightarrow> OAuthToken option \<Rightarrow> string \<Rightarrow> string \<Rightarrow> string \<Rightarrow>
    simplePASCache \<Rightarrow> 's \<Rightarrow> (callback_result \<times> simplePASCache \<times> 's) run" where
  "CallbackHandler st cfg env now sessionID answer requestHost code state c s = (
     if code = [] \<or> state = [] then Some (HttpError 400, c, s)
     else case pas_Get state c of
       None \<Rightarrow> Some (HttpError 400, c, s)
     | Some pl \<Rightarrow> (let c = pas_Delete state c in
         case oe_Exchange env code (pas_CodeVerifier pl) of
           None \<Rightarrow> Some (HttpError 500, c, s)
         | Some token \<Rightarrow> (case tok_IDToken token of
             None \<Rightarrow> Some (HttpError 500, c, s)
           | Some rawIDToken \<Rightarrow> (case oe_Verify env rawIDToken of
               None \<Rightarrow> Some (HttpError 500, c, s)
             | Some claims \<Rightarrow> if \<not> oe_UserInfo env token then Some (HttpError 500, c, s)
                 else let sessionData = buildSession (oe_Decode env) sessionID token rawIDToken claims in do {
                   s \<leftarrow> oauth2_Save st now answer sessionData s;
                   let cookie = CreateCookieForSession (cfg_CookieName cfg) sessionData (cfg_Timeout cfg);
                   let redirectURL = (if isValidRedirectTarget (oe_Parse env) requestHost (pas_ClientRedirectURI pl) then pas_ClientRedirectURI pl else ''/'');
                   Some (Redirect cookie redirectURL, c, s)
                 }))))"

subsection \<open>Logging out\<close>

text \<open>
  None in the result is ErrAuthNotFound.  A failed logout at the identity provider is logged; its address is in the well-known configuration,
  which may be nil.
\<close>

definition Logout :: "'s sessionStorage \<Rightarrow> session_Config \<Rightarrow> bool \<Rightarrow> sessionRawData option \<Rightarrow> 's \<Rightarrow> (Cookie option \<times> 's) run" where
  "Logout st cfg hasWellKnown sessionData s = (case sessionData of
     None \<Rightarrow> Some (None, s)
   | Some sess \<Rightarrow> if raw_ExtraIDToken sess \<noteq> [] \<and> \<not> hasWellKnown then None
       else Some (Some (CreateCookieForSession (cfg_CookieName cfg) sess (cfg_Timeout cfg)\<lparr>ck_Value := [], ck_MaxAge := - 1\<rparr>),
         oauth2_Delete st (raw_ID sess) s))"

end
