(* ===== verification/Session_Properties.thy ===== *)
theory Session_Properties
  imports Auth_Server
begin

text \<open>
  What sessions guarantee: how long a session lives, that logging out ends it, what its roles allow, and that the state of a login is used once.
\<close>

subsection \<open>The interface of a storage\<close>

text \<open>What the store relies on: view is the content of a storage.\<close>

locale session_storage =
  fixes st :: "'s sessionStorage" and view :: "'s \<Rightarrow> string \<Rightarrow> sessionRawData option"
  assumes get: "st_Get st i s = (case view s i of Some raw \<Rightarrow> Inr raw | None \<Rightarrow> Inl ErrSessionNotFound)"
    and touch: "view (st_Touch st i now s) = (view s)(i := map_option (\<lambda>raw. raw\<lparr>raw_LastAccessed := now\<rparr>) (view s i))"
    and save: "st_Save st now raw s = Some s' \<Longrightarrow> view s' = (view s)(raw_ID raw \<mapsto> raw\<lparr>raw_LastAccessed := now\<rparr>)"
    and delete: "view (st_Delete st i s) = (view s)(i := None)"
begin

lemma store_get:
  "fst (oauth2_Get st cfg now i s) = (case view s i of
     Some raw \<Rightarrow> if cfg_Timeout cfg < time_sub now (raw_LastAccessed raw) then Inl ErrSessionExpired else Inr (raw\<lparr>raw_LastAccessed := now\<rparr>)
   | None \<Rightarrow> Inl ErrSessionNotFound)"
  by (simp add: oauth2_Get_def get split: option.splits)

lemma store_get_view:
  "view (snd (oauth2_Get st cfg now i s)) = (case view s i of
     Some raw \<Rightarrow> (view s)(i := if cfg_Timeout cfg < time_sub now (raw_LastAccessed raw) then None else Some (raw\<lparr>raw_LastAccessed := now\<rparr>))
   | None \<Rightarrow> view s)"
  by (simp add: oauth2_Get_def get touch delete split: option.splits)

lemma store_save:
  assumes "oauth2_Save st now answer sess s = Some s'"
  shows "\<exists>raw. raw_ID raw = raw_ID sess \<and> raw_LastAccessed raw = now \<and> view s' = (view s)(raw_ID sess \<mapsto> raw)"
  using save[OF assms[unfolded oauth2_Save_def Let_def]]
  by (auto split: option.splits intro!: exI[of _ "(if answer = None then sess else sess\<lparr>raw_Token := answer\<rparr>)\<lparr>raw_LastAccessed := now\<rparr>"])

lemma store_delete: "view (oauth2_Delete st i s) = (view s)(i := None)"
  by (simp add: oauth2_Delete_def delete)

text \<open>A deleted session is not found.\<close>

lemma store_deleted: "fst (oauth2_Get st cfg now i (oauth2_Delete st i s)) = Inl ErrSessionNotFound"
  by (simp add: store_get store_delete)

end

lemma mem_view_refresher [simp]: "ms_sessions (mem_set_refresher i due s) = ms_sessions s" "ms_Timeout (mem_set_refresher i due s) = ms_Timeout s"
  by (simp_all add: mem_set_refresher_def)

lemma mem_view_delete [simp]: "ms_sessions (mem_Delete i s) = (ms_sessions s)(i := None)" "ms_Timeout (mem_Delete i s) = ms_Timeout s"
  by (simp_all add: mem_Delete_def Let_def split: option.splits)

lemma mem_save_view:
  assumes "mem_Save now raw s = Some s'"
  shows "ms_sessions s' = (ms_sessions s)(raw_ID raw \<mapsto> raw\<lparr>raw_LastAccessed := now\<rparr>)" "ms_Timeout s' = ms_Timeout s"
  using assms by (auto simp: mem_Save_def Let_def split: Option.bind_splits)

interpretation mem: session_storage memory_storage ms_sessions
proof
  show "st_Save memory_storage now raw s = Some s' \<Longrightarrow> ms_sessions s' = (ms_sessions s)(raw_ID raw \<mapsto> raw\<lparr>raw_LastAccessed := now\<rparr>)" for now raw s s'
    using mem_save_view(1) by (simp add: memory_storage_def)
qed (auto simp: memory_storage_def mem_Get_def mem_Touch_def split: option.splits)

subsection \<open>How long a session lives\<close>

text \<open>
  The states of a store over the memory storage with the time.  The function says when a session was last used: saved, or got successfully.  It is
  None again when the session has been deleted or its token could not be refreshed.
\<close>

inductive store_reach :: "session_Config \<Rightarrow> int \<Rightarrow> timestamp \<Rightarrow> (string \<Rightarrow> timestamp option) \<Rightarrow> inMemoryStorage \<Rightarrow> bool" for cfg threshold where
  new: "store_reach cfg threshold now (\<lambda>_. None) (newInMemoryStorage cfg threshold)"
| wait: "store_reach cfg threshold now used s \<Longrightarrow> now \<le> later \<Longrightarrow> store_reach cfg threshold later used s"
| save: "store_reach cfg threshold now used s \<Longrightarrow> oauth2_Save memory_storage now answer sess s = Some t \<Longrightarrow>
    store_reach cfg threshold now (used(raw_ID sess \<mapsto> now)) t"
| get: "store_reach cfg threshold now used s \<Longrightarrow> oauth2_Get memory_storage cfg now i s = (r, t) \<Longrightarrow>
    store_reach cfg threshold now (case r of Inr _ \<Rightarrow> used(i \<mapsto> now) | Inl _ \<Rightarrow> used) t"
| delete: "store_reach cfg threshold now used s \<Longrightarrow> store_reach cfg threshold now (used(i := None)) (oauth2_Delete memory_storage i s)"
| timer: "store_reach cfg threshold now used s \<Longrightarrow> (n, i, due) \<in> set (ms_timers s) \<Longrightarrow> due \<le> now \<Longrightarrow>
    store_reach cfg threshold now (if answer = None then used(i := None) else used) (mem_refresh now answer (n, i, due) s)"

definition slot_inv :: "session_Config \<Rightarrow> timestamp \<Rightarrow> string \<Rightarrow> sessionRawData option \<Rightarrow> timestamp option \<Rightarrow> bool" where
  "slot_inv cfg now i v u \<longleftrightarrow> (case v of
     Some raw \<Rightarrow> raw_ID raw = i \<and> u = Some (raw_LastAccessed raw)
   | None \<Rightarrow> (\<forall>t. u = Some t \<longrightarrow> cfg_Timeout cfg < time_sub now t))"

lemma slot_inv_simps [simp]:
  "slot_inv cfg now i (Some raw) u \<longleftrightarrow> raw_ID raw = i \<and> u = Some (raw_LastAccessed raw)"
  "slot_inv cfg now i None None" "slot_inv cfg now i None (Some t) \<longleftrightarrow> cfg_Timeout cfg < time_sub now t"
  by (simp_all add: slot_inv_def)

definition store_inv :: "session_Config \<Rightarrow> timestamp \<Rightarrow> (string \<Rightarrow> timestamp option) \<Rightarrow> inMemoryStorage \<Rightarrow> bool" where
  "store_inv cfg now used s \<longleftrightarrow> ms_Timeout s = cfg_Timeout cfg \<and> (\<forall>i. slot_inv cfg now i (ms_sessions s i) (used i))"

text \<open>A step that changes the slot of one session.\<close>

lemma store_inv_upd:
  assumes "store_inv cfg now used s" "ms_Timeout t = ms_Timeout s" "ms_sessions t = (ms_sessions s)(i := v)" "slot_inv cfg now i v u"
    "used' = used(i := u)"
  shows "store_inv cfg now used' t"
  using assms by (simp add: store_inv_def)

lemma time_sub_mono: "now \<le> later \<Longrightarrow> time_sub now t \<le> time_sub later t"
  by (auto simp: time_sub_def clamp64_def)

lemma slot_inv_later: "slot_inv cfg now i v u \<Longrightarrow> now \<le> later \<Longrightarrow> slot_inv cfg later i v u"
  using time_sub_mono order.strict_trans2 by (cases v; cases u) (simp_all, blast)

lemma store_inv_get:
  assumes "store_inv cfg now used s" "oauth2_Get memory_storage cfg now i s = (r, t)"
  shows "store_inv cfg now (case r of Inr _ \<Rightarrow> used(i \<mapsto> now) | Inl _ \<Rightarrow> used) t"
proof (cases "ms_sessions s i")
  case None
  then show ?thesis using assms by (auto simp: oauth2_Get_def memory_storage_def mem_Get_def)
next
  case (Some raw)
  have raw: "raw_ID raw = i" "used i = Some (raw_LastAccessed raw)"
    using assms(1) Some by (auto simp: store_inv_def dest: spec[of _ i])
  show ?thesis
  proof (cases "cfg_Timeout cfg < time_sub now (raw_LastAccessed raw)")
    case True
    then have "r = Inl ErrSessionExpired" "t = mem_Delete i s" using assms(2) Some by (auto simp: oauth2_Get_def memory_storage_def mem_Get_def)
    then show ?thesis using True raw(2)
      by (auto intro: store_inv_upd[OF assms(1), where v = None and u = "used i" and i = i] simp: fun_upd_idem)
  next
    case False
    then have r: "r = Inr (raw\<lparr>raw_LastAccessed := now\<rparr>)" "t = mem_Touch i now s"
      using assms(2) Some by (auto simp: oauth2_Get_def memory_storage_def mem_Get_def)
    have "store_inv cfg now (used(i \<mapsto> now)) t"
      by (rule store_inv_upd[OF assms(1), where v = "Some (raw\<lparr>raw_LastAccessed := now\<rparr>)"]) (simp_all add: r(2) mem_Touch_def Some raw)
    then show ?thesis by (simp add: r(1))
  qed
qed

lemma store_inv_timer:
  assumes "store_inv cfg now used s"
  shows "store_inv cfg now (if answer = None then used(i := None) else used) (mem_refresh now answer (n, i, due) s)"
proof (cases "ms_sessions s i")
  case None
  then have "slot_inv cfg now i None (if answer = None then None else used i)" using assms by (auto simp: store_inv_def dest: spec[of _ i])
  then show ?thesis
    by (rule store_inv_upd[OF assms, rotated 2]) (use None in \<open>auto simp: mem_refresh_def mem_Get_def Let_def fun_upd_idem\<close>)
next
  case (Some raw)
  have raw: "raw_ID raw = i" "used i = Some (raw_LastAccessed raw)"
    using assms Some by (auto simp: store_inv_def dest: spec[of _ i])
  show ?thesis
  proof (cases "ms_Timeout s < time_sub now (raw_LastAccessed raw)")
    case True
    then show ?thesis using assms raw
      by (intro store_inv_upd[OF assms, where i = i and v = None and u = "if answer = None then None else used i"])
        (auto simp: mem_refresh_def mem_Get_def Let_def Some store_inv_def fun_upd_idem)
  next
    case False
    show ?thesis
    proof (cases answer)
      case None
      then show ?thesis using False raw
        by (intro store_inv_upd[OF assms, where i = i and v = None and u = None]) (auto simp: mem_refresh_def mem_Get_def Let_def Some)
    next
      case (Some token)
      then show ?thesis using False raw \<open>ms_sessions s i = Some raw\<close>
        by (intro store_inv_upd[OF assms, where i = i and v = "Some (raw\<lparr>raw_Token := Some token\<rparr>)" and u = "used i"])
          (auto simp: mem_refresh_def mem_Get_def Let_def fun_upd_idem)
    qed
  qed
qed

lemma store_reach_inv: "store_reach cfg threshold now used s \<Longrightarrow> store_inv cfg now used s"
proof (induction rule: store_reach.induct)
  case (new now)
  show ?case by (simp add: store_inv_def newInMemoryStorage_def)
next
  case (wait now used s later)
  then show ?case by (auto simp: store_inv_def intro: slot_inv_later)
next
  case (save now used s answer sess t)
  obtain raw where raw: "raw_ID raw = raw_ID sess" "raw_LastAccessed raw = now" "ms_sessions t = (ms_sessions s)(raw_ID sess \<mapsto> raw)"
    using mem.store_save[OF save.hyps(2)] by blast
  have "ms_Timeout t = ms_Timeout s" using save.hyps(2) mem_save_view(2) by (fastforce simp: oauth2_Save_def memory_storage_def Let_def)
  then show ?case using raw by (intro store_inv_upd[OF save.IH, where v = "Some raw" and u = "Some now" and i = "raw_ID sess"]) (simp_all add: fun_upd_def)
next
  case (delete now used s i)
  show ?case by (rule store_inv_upd[OF delete.IH, where v = None and u = None and i = i]) (simp_all add: oauth2_Delete_def memory_storage_def fun_upd_def)
qed (simp_all add: store_inv_get store_inv_timer)

text \<open>
  C18: a session identifies its user exactly while it has been used within the timeout: since its last use it has not been deleted, its token could be
  refreshed, and every use starts the timeout anew.
\<close>

theorem session_sliding_window:
  assumes "store_reach cfg threshold now used s"
  shows "(\<exists>sess. fst (oauth2_Get memory_storage cfg now i s) = Inr sess) \<longleftrightarrow> (\<exists>t. used i = Some t \<and> time_sub now t \<le> cfg_Timeout cfg)"
proof -
  have "slot_inv cfg now i (ms_sessions s i) (used i)" using store_reach_inv[OF assms] by (simp add: store_inv_def)
  then show ?thesis by (cases "used i") (auto simp: mem.store_get slot_inv_def split: option.splits)
qed

subsection \<open>Logging out\<close>


subsection \<open>What the roles of a session allow\<close>

lemma decimal_digits: "list_all digit (decimal n)"
proof (induction n rule: decimal.induct)
  case (1 n)
  have d: "digit (char_of (48 + m))" if "m < 10" for m :: nat
  proof -
    have "m \<in> {0, 1, 2, 3, 4, 5, 6, 7, 8, 9}" using that by auto
    then show ?thesis by (auto simp: digit_def less_eq_char_def)
  qed
  show ?case
  proof (cases "n < 10")
    case True
    then show ?thesis by (subst decimal.simps) (simp add: d)
  next
    case False
    then show ?thesis using 1 by (subst decimal.simps) (simp add: d)
  qed
qed

text \<open>The two roles of the pattern are not prefixes of each other, so that a role determines its scope.\<close>

lemma match_scoped_iff:
  "match_scoped r = Some (role, scope) \<longleftrightarrow>
    role \<in> {RoleRaceDataProvider, RoleEditor} \<and> r = role @ ''_tenant_'' @ scope \<and> scope \<noteq> [] \<and> list_all digit scope"
proof -
  have m: "match_role q r = Some (role, scope) \<longleftrightarrow> role = q \<and> r = role @ ''_tenant_'' @ scope \<and> scope \<noteq> [] \<and> list_all digit scope" for q
  proof -
    define p where "p = q @ ''_tenant_''"
    have "take (length p) r = p \<and> drop (length p) r = scope \<longleftrightarrow> r = p @ scope" by (metis append_eq_conv_conj)
    then have "match_role q r = Some (role, scope) \<longleftrightarrow> role = q \<and> r = p @ scope \<and> scope \<noteq> [] \<and> list_all digit scope"
      unfolding match_role_def Let_def p_def[symmetric] by auto
    then show ?thesis by (auto simp: p_def)
  qed
  have "match_role RoleRaceDataProvider (RoleEditor @ x) = None" for x
    by (simp add: match_role_def RoleRaceDataProvider_def RoleEditor_def)
  then show ?thesis
    using m[of RoleRaceDataProvider] m[of RoleEditor]
    by (cases "match_role RoleRaceDataProvider r") (auto simp: match_scoped_def)
qed

lemma add_scopes:
  "distinct (map fst m) \<Longrightarrow> distinct (map fst (fold add_scope roles m))"
  "scope \<in> set (map_get [] (map_of (fold add_scope roles m)) role) \<longleftrightarrow>
    scope \<in> set (map_get [] (map_of m) role) \<or> (\<exists>r \<in> set roles. match_scoped r = Some (role, scope))"
proof (induction roles arbitrary: m)
  case (Cons r roles)
  have m: "distinct (map fst m) \<Longrightarrow> distinct (map fst (add_scope r m))"
    "scope \<in> set (map_get [] (map_of (add_scope r m)) role) \<longleftrightarrow>
      scope \<in> set (map_get [] (map_of m) role) \<or> match_scoped r = Some (role, scope)" for m
    by (auto simp: add_scope_def AList.distinct_update AList.update_conv' map_get_def split: option.splits)
  { case 1 then show ?case using Cons.IH(1) m(1) by simp next
    case 2 then show ?case using Cons.IH(2) m(2) by auto }
qed simp_all

lemma find_rev_map_of:
  assumes "distinct (map fst m)"
  shows "find (\<lambda>sr. sr_Role sr = role) (rev (map (\<lambda>(role, scopes). \<lparr>sr_Role = role, sr_Scopes = scopes\<rparr>) m)) =
    map_option (\<lambda>scopes. \<lparr>sr_Role = role, sr_Scopes = scopes\<rparr>) (map_of m role)"
  using assms
proof (induction m)
  case (Cons p m)
  have app: "find P (xs @ ys) = (case find P xs of None \<Rightarrow> find P ys | Some x \<Rightarrow> Some x)" for P and xs ys :: "ScopedRole list"
    by (induction xs) auto
  show ?case
  proof (cases "fst p = role")
    case True
    then have "map_of m role = None" using Cons.prems by (auto simp: map_of_eq_None_iff)
    then show ?thesis using Cons True by (auto simp: app split: prod.splits)
  next
    case False
    then show ?thesis using Cons by (auto simp: app split: prod.splits option.splits)
  qed
qed simp

lemma ex_map_option:
  "(\<exists>role sr. (\<exists>z. map_of m role = Some z \<and> f role z = sr) \<and> P role sr) \<longleftrightarrow> (\<exists>role scopes. map_of m role = Some scopes \<and> P role (f role scopes))"
  by blast

text \<open>
  C10: a user may do something with an object of a tenant exactly when the access token names the administrator's role, or the provider's or editor's role for this
  very tenant and that role has the permission; and may do what concerns no object exactly by the administrator's, tenant manager's and
  track manager's roles.
\<close>

theorem session_permissions:
  assumes "rq_Token rq = []" "rq_Session rq = Some (session_info (buildSession decode i token idToken claims))"
    and "extractKeycloakClaims decode (tok_AccessToken token) = Some roles" "CHR ''_'' \<notin> set perm"
  shows "\<exists>a. handleAuth cfg rq tc = (Some a, tc) \<and>
    (HasObjectPermission a perm (sprint_u32 t) \<longleftrightarrow> RoleAdmin \<in> set roles \<or>
      (\<exists>role \<in> {RoleRaceDataProvider, RoleEditor}. role @ ''_tenant_'' @ sprint_u32 t \<in> set roles \<and> grants role perm)) \<and>
    (HasPermission a perm \<longleftrightarrow> RoleAdmin \<in> set roles \<or> (\<exists>role \<in> set roles \<inter> set GlobalRoles. grants role perm))"
proof -
  let ?s = "buildSession decode i token idToken claims"
  let ?a = "SessionAuth (raw_ID ?s) (raw_UserID ?s) (raw_Name ?s) (raw_Roles ?s) (raw_ScopedRoles ?s) 0"
  let ?m = "fold add_scope roles []"
  have s: "raw_Roles ?s = filter (\<lambda>r. r \<in> set GlobalRoles) roles" "raw_ScopedRoles ?s = extractScopedRoles roles"
    by (simp_all add: buildSession_def NewSession_def WithSessionName_def WithSessionRoles_def WithSessionScopedRoles_def WithSessionUserID_def
        WithSessionIDToken_def assms(3))
  have admin: "RoleAdmin \<in> set GlobalRoles" by (simp add: GlobalRoles_def)
  have "handleAuth cfg rq tc = (Some ?a, tc)"
    by (simp add: handleAuth_def apiKey_Authenticate_def session_Authenticate_def assms(1,2) session_info_def)
  moreover have "HasPermission ?a perm \<longleftrightarrow> RoleAdmin \<in> set roles \<or> (\<exists>role \<in> set roles \<inter> set GlobalRoles. grants role perm)"
    using admin by (auto simp: permission_by_role s(1))
  moreover have "HasObjectPermission ?a perm (sprint_u32 t) \<longleftrightarrow> RoleAdmin \<in> set roles \<or>
      (\<exists>role \<in> {RoleRaceDataProvider, RoleEditor}. role @ ''_tenant_'' @ sprint_u32 t \<in> set roles \<and> grants role perm)"
  proof -
    have d: "distinct (map fst ?m)" using add_scopes(1)[of "[]" roles] by simp
    have "HasObjectPermission ?a perm (sprint_u32 t) \<longleftrightarrow> RoleAdmin \<in> set roles \<or>
        (\<exists>role scopes. map_of ?m role = Some scopes \<and> grants role perm \<and> sprint_u32 t \<in> set scopes)"
      using admin by (subst permission_by_scope_iff) (simp_all add: assms(4) s extractScopedRoles_def find_rev_map_of[OF d] ex_map_option)
    also have "(\<exists>role scopes. map_of ?m role = Some scopes \<and> grants role perm \<and> sprint_u32 t \<in> set scopes) \<longleftrightarrow>
        (\<exists>role. grants role perm \<and> sprint_u32 t \<in> set (map_get [] (map_of ?m) role))"
      by (force simp: map_get_def split: option.splits)
    also have "\<dots> \<longleftrightarrow> (\<exists>role. grants role perm \<and> (\<exists>r \<in> set roles. match_scoped r = Some (role, sprint_u32 t)))"
      using add_scopes(2)[of "sprint_u32 t" roles "[]"] by (simp add: map_get_def)
    also have "\<dots> \<longleftrightarrow> (\<exists>role \<in> {RoleRaceDataProvider, RoleEditor}. role @ ''_tenant_'' @ sprint_u32 t \<in> set roles \<and> grants role perm)"
      using decimal_digits by (auto simp: match_scoped_iff sprint_u32_def)
    finally show ?thesis .
  qed
  ultimately show ?thesis by blast
qed

subsection \<open>The state of a login\<close>

text \<open>
  C32: a callback makes a session only with a state that a login has left in the cache, and no callback leaves its state there: the same state cannot be used for a second session.
  A callback without a session leaves the sessions as they are.
\<close>

theorem callback_state_once:
  assumes "CallbackHandler st cfg env now i answer host code state c s = Some (r, c', s')"
  shows "(c' state = None \<or> code = [] \<or> state = []) \<and> (\<forall>x. x \<noteq> state \<longrightarrow> c' x = c x) \<and>
    (case r of Redirect cookie url \<Rightarrow> c state \<noteq> None \<and> c' state = None \<and> ck_Value cookie = i | HttpError n \<Rightarrow> s' = s)"
proof (intro conjI)
  have "raw_ID (buildSession d i token idToken claims) = i" for d token idToken claims
    by (simp add: buildSession_def NewSession_def WithSessionName_def WithSessionRoles_def WithSessionScopedRoles_def WithSessionUserID_def WithSessionIDToken_def Let_def)
  note c = assms[unfolded CallbackHandler_def Let_def pas_Get_def pas_Delete_def CreateCookieForSession_def, simplified this]
  show "c' state = None \<or> code = [] \<or> state = []" using c by (auto split: if_splits option.splits Option.bind_splits)
  show "\<forall>x. x \<noteq> state \<longrightarrow> c' x = c x" using c by (auto split: if_splits option.splits Option.bind_splits)
  show "case r of Redirect cookie url \<Rightarrow> c state \<noteq> None \<and> c' state = None \<and> ck_Value cookie = i | HttpError n \<Rightarrow> s' = s"
    using c by (auto split: if_splits option.splits Option.bind_splits)
qed

subsection \<open>What the model shows besides\<close>

text \<open>A target that begins with a slash and a backslash, which browsers take for two slashes and so for another host, is accepted.\<close>

lemma redirect_to_other_host:
  assumes "parse (CHR ''/'' # CHR 0x5C # host) = Some u" "url_Scheme u = []"
  shows "isValidRedirectTarget parse requestHost (CHR ''/'' # CHR 0x5C # host)"
  using assms by (simp add: isValidRedirectTarget_def)

text \<open>Saving a session again does not stop the timer of the first time: both refresh the token.\<close>

lemma saved_twice_two_timers:
  assumes "mem_Save now raw s = Some s1" "mem_Save now raw s1 = Some s2"
  shows "\<exists>n d1 d2. (n, raw_ID raw, d1) \<in> set (ms_timers s2) \<and> (Suc n, raw_ID raw, d2) \<in> set (ms_timers s2)"
  using assms by (fastforce simp: mem_Save_def Let_def mem_set_refresher_def split: Option.bind_splits)

text \<open>A session whose token source gives no token when it is first saved crashes the callback.\<close>

lemma save_without_token_panics:
  "oauth2_Save memory_storage now None (buildSession decode i token idToken claims) s = None"
  by (simp add: oauth2_Save_def memory_storage_def mem_Save_def calcTokenRefreshWait_def buildSession_def NewSession_def WithSessionName_def
      WithSessionRoles_def WithSessionScopedRoles_def WithSessionUserID_def WithSessionIDToken_def Let_def)

text \<open>Logging out crashes when the well-known configuration could not be loaded at the start.\<close>

lemma logout_without_configuration:
  "raw_ExtraIDToken sess \<noteq> [] \<Longrightarrow> Logout st cfg False (Some sess) s = None"
  by (simp add: Logout_def)

subsection \<open>Demonstration\<close>

definition demo_token :: OAuthToken where
  "demo_token = \<lparr>tok_AccessToken = ''h.p.s'', tok_Expiry = 300 * 1000000000, tok_IDToken = Some ''id''\<rparr>"

definition demo_realm_roles :: "string \<Rightarrow> Role list option" where
  "demo_realm_roles p = (if p = ''p'' then Some [''editor_tenant_7'', ''track-manager'', ''offline_access''] else None)"

definition demo_user_session :: sessionRawData where
  "demo_user_session = buildSession demo_realm_roles ''s'' demo_token ''id'' \<lparr>claim_name = Some ''N'', claim_sub = Some ''u''\<rparr>"

definition demo_oidc :: oidc_env where
  "demo_oidc = \<lparr>oe_Exchange = (\<lambda>_ _. Some demo_token), oe_Verify = (\<lambda>_. Some \<lparr>claim_name = Some ''N'', claim_sub = Some ''u''\<rparr>),
     oe_UserInfo = (\<lambda>_. True), oe_Decode = demo_realm_roles, oe_Parse = (\<lambda>_. None)\<rparr>"

lemma demo_user_session_ID: "raw_ID demo_user_session = ''s''"
  by (simp add: demo_user_session_def buildSession_def NewSession_def WithSessionName_def WithSessionRoles_def WithSessionScopedRoles_def
      WithSessionUserID_def WithSessionIDToken_def Let_def)

lemma demo_saved: "\<exists>s. oauth2_Save memory_storage 0 (Some demo_token) demo_user_session (newInMemoryStorage oauth2_defaults 10) = Some s"
  by (simp add: oauth2_Save_def memory_storage_def mem_Save_def calcTokenRefreshWait_def Let_def)

lemma session_sliding_window_witness:
  "\<exists>s. oauth2_Save memory_storage 0 (Some demo_token) demo_user_session (newInMemoryStorage oauth2_defaults 10) = Some s \<and>
    (\<exists>sess. fst (oauth2_Get memory_storage oauth2_defaults (30 * 60 * 1000000000) ''s'' s) = Inr sess) \<and>
    (\<nexists>sess. fst (oauth2_Get memory_storage oauth2_defaults (30 * 60 * 1000000000 + 1) ''s'' s) = Inr sess)"
proof -
  obtain s where s: "oauth2_Save memory_storage 0 (Some demo_token) demo_user_session (newInMemoryStorage oauth2_defaults 10) = Some s"
    using demo_saved by blast
  have r: "store_reach oauth2_defaults 10 t [''s'' \<mapsto> 0] s" if "0 \<le> t" for t
    using store_reach.wait[OF store_reach.save[OF store_reach.new s] that] by (simp add: demo_user_session_ID)
  from session_sliding_window[OF r, of "30 * 60 * 1000000000" "''s''"] session_sliding_window[OF r, of "30 * 60 * 1000000000 + 1" "''s''"]
  show ?thesis using s by (simp add: time_sub_def clamp64_def oauth2_defaults_def)
qed


lemma session_permissions_witness:
  "\<exists>a. handleAuth \<lparr>adminToken = ''A'', hashAPIKey = id, loadTenant = (\<lambda>_. Inl ())\<rparr>
      \<lparr>rq_Token = [], rq_Session = Some (session_info demo_user_session), rq_Now = 0\<rparr> NewTenantCache = (Some a, NewTenantCache) \<and>
    HasObjectPermission a PermissionUpdateEvent (sprint_u32 7) \<and> \<not> HasObjectPermission a PermissionUpdateEvent (sprint_u32 8) \<and>
    \<not> HasPermission a PermissionUpdateEvent"
proof -
  let ?rq = "\<lparr>rq_Token = [], rq_Session = Some (session_info demo_user_session), rq_Now = 0\<rparr>"
  let ?cfg = "\<lparr>adminToken = ''A'', hashAPIKey = id, loadTenant = (\<lambda>_. Inl ())\<rparr>"
  let ?roles = "[''editor_tenant_7'', ''track-manager'', ''offline_access''] :: Role list"
  have claims: "extractKeycloakClaims demo_realm_roles (tok_AccessToken demo_token) = Some ?roles"
    by (simp add: extractKeycloakClaims_def demo_token_def demo_realm_roles_def)
  have rq: "rq_Session ?rq = Some (session_info (buildSession demo_realm_roles ''s'' demo_token ''id'' \<lparr>claim_name = Some ''N'', claim_sub = Some ''u''\<rparr>))"
    by (simp add: demo_user_session_def)
  have perm: "CHR ''_'' \<notin> set PermissionUpdateEvent" by (simp add: PermissionUpdateEvent_def)
  have d: "sprint_u32 7 = ''7''" "sprint_u32 8 = ''8''" by (simp_all add: sprint_u32_def decimal.simps) code_simp+
  have g: "grants RoleEditor PermissionUpdateEvent" "\<not> grants RoleTrackManager PermissionUpdateEvent" "\<not> grants RoleTenantManager PermissionUpdateEvent"
    by (simp_all add: PermissionUpdateEvent_def grants_def permissions_of_def RoleEditor_def RoleTrackManager_def RoleTenantManager_def data_permissions_def map_get_def)
  have p: "\<exists>a. handleAuth ?cfg ?rq NewTenantCache = (Some a, NewTenantCache) \<and>
      (HasObjectPermission a PermissionUpdateEvent (sprint_u32 t) \<longleftrightarrow> RoleAdmin \<in> set ?roles \<or>
        (\<exists>role \<in> {RoleRaceDataProvider, RoleEditor}. role @ ''_tenant_'' @ sprint_u32 t \<in> set ?roles \<and> grants role PermissionUpdateEvent)) \<and>
      (HasPermission a PermissionUpdateEvent \<longleftrightarrow> RoleAdmin \<in> set ?roles \<or> (\<exists>role \<in> set ?roles \<inter> set GlobalRoles. grants role PermissionUpdateEvent))" for t
    by (rule session_permissions[OF _ rq claims perm]) simp
  have roles: "RoleAdmin \<notin> set ?roles" "set ?roles \<inter> set GlobalRoles = {RoleTrackManager}"
    by (auto simp: RoleAdmin_def GlobalRoles_def RoleTrackManager_def RoleTenantManager_def)
  obtain a where a: "handleAuth ?cfg ?rq NewTenantCache = (Some a, NewTenantCache)" using p[of 7] by blast
  have "HasObjectPermission a PermissionUpdateEvent (sprint_u32 7)" "\<not> HasPermission a PermissionUpdateEvent"
    using p[of 7] a roles g by (auto simp: d RoleEditor_def)
  moreover have "\<not> HasObjectPermission a PermissionUpdateEvent (sprint_u32 8)"
    using p[of 8] a roles by (auto simp: d RoleEditor_def RoleRaceDataProvider_def)
  ultimately show ?thesis using a by blast
qed

lemma callback_state_once_witness:
  "\<exists>cookie url c s. CallbackHandler memory_storage oauth2_defaults demo_oidc 0 ''s'' (Some demo_token) ''h'' ''code'' ''x''
      (snd (Login (\<lambda>_ _. []) 0 ''x'' ''v'' ''/'' Map.empty)) (newInMemoryStorage oauth2_defaults 10) = Some (Redirect cookie url, c, s) \<and>
    ck_Value cookie = ''s'' \<and> c ''x'' = None"
proof -
  have "\<exists>cookie url c s. CallbackHandler memory_storage oauth2_defaults demo_oidc 0 ''s'' (Some demo_token) ''h'' ''code'' ''x''
      (snd (Login (\<lambda>_ _. []) 0 ''x'' ''v'' ''/'' Map.empty)) (newInMemoryStorage oauth2_defaults 10) = Some (Redirect cookie url, c, s)"
    using demo_saved by (auto simp: CallbackHandler_def Login_def pas_Get_def pas_Save_def demo_oidc_def demo_token_def[symmetric] demo_user_session_def Let_def)
      (auto simp: demo_token_def Let_def)
  then obtain cookie url c s where c: "CallbackHandler memory_storage oauth2_defaults demo_oidc 0 ''s'' (Some demo_token) ''h'' ''code'' ''x''
      (snd (Login (\<lambda>_ _. []) 0 ''x'' ''v'' ''/'' Map.empty)) (newInMemoryStorage oauth2_defaults 10) = Some (Redirect cookie url, c, s)" by blast
  from callback_state_once[OF c] show ?thesis using c by auto
qed

end
