(* ===== verification/Session_Nats.thy ===== *)
theory Session_Nats
  imports Session_Properties Repositories
begin

text \<open>
  Sessions shared by the instances of a cluster, pkg/grpc/session/impl/oauth2/nats_storage.go: a bucket of a key-value store holds the sessions as JSON,
  every instance caches those it has used and writes the time of the last access back in a cleanup round.  With it the pending logins in a
  bucket, pkg/grpc/oidc/impl/nats/nats_cache.go.

  The store is not part of the repository: an entry of a bucket is a value with the time it was written, and is gone when it is
  older than the TTL of the bucket; the argument ok says whether the store takes a write.  The JSON codec is an argument.
\<close>

type_synonym 'b bucket = "string \<Rightarrow> ('b \<times> timestamp) option"

definition bucket_Get :: "int \<Rightarrow> timestamp \<Rightarrow> string \<Rightarrow> 'b bucket \<Rightarrow> 'b option" where
  "bucket_Get ttl now k kv = (case kv k of Some (v, written) \<Rightarrow> if now - written < ttl then Some v else None | None \<Rightarrow> None)"

definition bucket_Put :: "bool \<Rightarrow> timestamp \<Rightarrow> string \<Rightarrow> 'b \<Rightarrow> 'b bucket \<Rightarrow> 'b bucket" where
  "bucket_Put ok now k v kv = (if ok then kv(k \<mapsto> (v, now)) else kv)"

definition bff_sessions_TTL :: int where "bff_sessions_TTL = 2 * minute"
definition bff_sessions_locks_TTL :: int where "bff_sessions_locks_TTL = 5 * 1000000000"

definition composeKey :: "string \<Rightarrow> string" where
  "composeKey i = ''session.oauth2.'' @ i"

type_synonym 'b session_codec = "(sessionRawData, 'b, unit) codec"

text \<open>The result says whether the session has been stored; LastSync and the ID token are set in any case.  A session without a token is a panic.\<close>

definition internalStore :: "'b session_codec \<Rightarrow> bool \<Rightarrow> timestamp \<Rightarrow> sessionRawData \<Rightarrow> 'b bucket \<Rightarrow> (bool \<times> sessionRawData \<times> 'b bucket) run" where
  "internalStore cd ok now sessionRaw kv = Option.bind (raw_Token sessionRaw) (\<lambda>token.
     let raw = sessionRaw\<lparr>raw_LastSync := now,
           raw_ExtraIDToken := (case tok_IDToken token of Some idt \<Rightarrow> idt | None \<Rightarrow> raw_ExtraIDToken sessionRaw)\<rparr>
     in case Marshal cd raw of
       Inl _ \<Rightarrow> Some (False, raw, kv)
     | Inr data \<Rightarrow> Some (ok, raw, bucket_Put ok now (composeKey (raw_ID raw)) data kv))"

datatype read_error = ReadNotFound | ReadError

definition internalRead :: "'b session_codec \<Rightarrow> timestamp \<Rightarrow> string \<Rightarrow> 'b bucket \<Rightarrow> read_error + sessionRawData" where
  "internalRead cd now i kv = (case bucket_Get bff_sessions_TTL now (composeKey i) kv of
     None \<Rightarrow> Inl ReadNotFound
   | Some data \<Rightarrow> (case Unmarshal cd data of
       Inl _ \<Rightarrow> Inl ReadError
     | Inr raw \<Rightarrow> Inr (if raw_ExtraIDToken raw \<noteq> []
         then raw\<lparr>raw_Token := map_option (\<lambda>t. t\<lparr>tok_IDToken := Some (raw_ExtraIDToken raw)\<rparr>) (raw_Token raw)\<rparr> else raw)))"

subsection \<open>The storage of an instance\<close>

record natsStorage =
  ns_refreshThreshold :: int
  ns_Timeout :: int
  ns_cache :: "(string \<times> sessionRawData) list"
  ns_refresher :: "string \<Rightarrow> nat option"
  ns_timers :: "(nat \<times> string \<times> timestamp) list"
  ns_next :: nat

definition newNATSStorage :: "session_Config \<Rightarrow> int \<Rightarrow> natsStorage" where
  "newNATSStorage cfg threshold = \<lparr>ns_refreshThreshold = threshold, ns_Timeout = cfg_Timeout cfg, ns_cache = [], ns_refresher = Map.empty,
     ns_timers = [], ns_next = 0\<rparr>"

definition natsst_Get :: "'b session_codec \<Rightarrow> timestamp \<Rightarrow> string \<Rightarrow> 'b bucket \<Rightarrow> natsStorage \<Rightarrow> (read_error + sessionRawData) \<times> natsStorage" where
  "natsst_Get cd now i kv s = (case map_of (ns_cache s) i of
     Some si \<Rightarrow> (Inr si, s)
   | None \<Rightarrow> (case internalRead cd now i kv of
       Inl err \<Rightarrow> (Inl err, s)
     | Inr sess \<Rightarrow> (Inr sess, s\<lparr>ns_cache := AList.update i sess (ns_cache s)\<rparr>)))"

text \<open>The store's write through the pointer that Get returns, which is that of the cache.\<close>

definition natsst_Touch :: "string \<Rightarrow> timestamp \<Rightarrow> natsStorage \<Rightarrow> natsStorage" where
  "natsst_Touch i now s = (case map_of (ns_cache s) i of
     None \<Rightarrow> s | Some si \<Rightarrow> s\<lparr>ns_cache := AList.update i (si\<lparr>raw_LastAccessed := now\<rparr>) (ns_cache s)\<rparr>)"

definition natsst_set_refresher :: "string \<Rightarrow> timestamp \<Rightarrow> natsStorage \<Rightarrow> natsStorage" where
  "natsst_set_refresher i due s = s\<lparr>ns_refresher := (ns_refresher s)(i \<mapsto> ns_next s), ns_timers := ns_timers s @ [(ns_next s, i, due)],
     ns_next := Suc (ns_next s)\<rparr>"

definition natsst_Save :: "'b session_codec \<Rightarrow> bool \<Rightarrow> timestamp \<Rightarrow> sessionRawData \<Rightarrow> 'b bucket \<Rightarrow> natsStorage \<Rightarrow> (bool \<times> 'b bucket \<times> natsStorage) run" where
  "natsst_Save cd ok now sess kv s = do {
     (stored, raw, kv) \<leftarrow> internalStore cd ok now sess kv;
     let s = (if stored then s\<lparr>ns_cache := AList.update (raw_ID raw) raw (ns_cache s)\<rparr> else s);
     wait \<leftarrow> calcTokenRefreshWait (ns_refreshThreshold s) now raw;
     Some (stored, kv, natsst_set_refresher (raw_ID raw) (now + wait) s)
   }"

definition natsst_Delete :: "bool \<Rightarrow> string \<Rightarrow> 'b bucket \<Rightarrow> natsStorage \<Rightarrow> 'b bucket \<times> natsStorage" where
  "natsst_Delete ok i kv s = (
     let s = s\<lparr>ns_cache := AList.delete i (ns_cache s)\<rparr>;
         s = (case ns_refresher s i of None \<Rightarrow> s
              | Some t \<Rightarrow> s\<lparr>ns_timers := filter (\<lambda>(n, _). n \<noteq> t) (ns_timers s), ns_refresher := (ns_refresher s)(i := None)\<rparr>)
     in (if ok then kv(composeKey i := None) else kv, s))"

text \<open>A round of the cleanup loop: later accesses are written into the bucket, then the cache is forgotten.  ok says which writes succeed.\<close>

definition cleanup_entry :: "'b session_codec \<Rightarrow> (string \<Rightarrow> bool) \<Rightarrow> timestamp \<Rightarrow> string \<times> sessionRawData \<Rightarrow> 'b bucket \<Rightarrow> 'b bucket run" where
  "cleanup_entry cd ok now e kv = (case e of (k, v) \<Rightarrow> (case internalRead cd now k kv of
     Inl _ \<Rightarrow> Some kv
   | Inr raw \<Rightarrow> (if raw_LastAccessed raw < raw_LastAccessed v
       then map_option (\<lambda>(_, _, kv). kv) (internalStore cd (ok k) now (raw\<lparr>raw_LastAccessed := raw_LastAccessed v\<rparr>) kv)
       else Some kv)))"

definition cleanup_round :: "'b session_codec \<Rightarrow> (string \<Rightarrow> bool) \<Rightarrow> timestamp \<Rightarrow> 'b bucket \<Rightarrow> natsStorage \<Rightarrow> ('b bucket \<times> natsStorage) run" where
  "cleanup_round cd ok now kv s = do {
     kv \<leftarrow> go_for (cleanup_entry cd ok now) (ns_cache s) kv;
     Some (kv, s\<lparr>ns_cache := []\<rparr>)
   }"

text \<open>The lock of a session, of which one instance at a time can create the key.\<close>

definition lockEntry :: "timestamp \<Rightarrow> string \<Rightarrow> unit bucket \<Rightarrow> unit bucket option" where
  "lockEntry now i locks = (case bucket_Get bff_sessions_locks_TTL now (''lock.'' @ i) locks of
     Some _ \<Rightarrow> None | None \<Rightarrow> Some (bucket_Put True now (''lock.'' @ i) () locks))"

definition unlockEntry :: "string \<Rightarrow> unit bucket \<Rightarrow> unit bucket" where
  "unlockEntry i locks = locks(''lock.'' @ i := None)"

text \<open>A timer that fires; the answer of the token source for the session's token, None for an error.\<close>

definition natsst_refresh :: "'b session_codec \<Rightarrow> bool \<Rightarrow> timestamp \<Rightarrow> OAuthToken option \<Rightarrow> nat \<times> string \<times> timestamp \<Rightarrow> unit bucket \<Rightarrow> 'b bucket \<Rightarrow> natsStorage \<Rightarrow>
    (unit bucket \<times> 'b bucket \<times> natsStorage) run" where
  "natsst_refresh cd ok now answer t locks kv s = (
     let s = s\<lparr>ns_timers := filter (\<lambda>(n, _). n \<noteq> fst t) (ns_timers s)\<rparr>; i = fst (snd t)
     in case lockEntry now i locks of
       None \<Rightarrow> Some (locks, kv, s)
     | Some locks \<Rightarrow> (let locks = unlockEntry i locks in
         case natsst_Get cd now i kv s of
           (Inl _, s) \<Rightarrow> Some (locks, kv, s)
         | (Inr mySession, s) \<Rightarrow>
             (if ns_Timeout s < time_sub now (raw_LastAccessed mySession) then (let (kv, s) = natsst_Delete ok (raw_ID mySession) kv s in Some (locks, kv, s))
              else case answer of
                None \<Rightarrow> (let (kv, s) = natsst_Delete ok (raw_ID mySession) kv s in Some (locks, kv, s))
              | Some newToken \<Rightarrow> do {
                  (_, raw, kv) \<leftarrow> internalStore cd ok now (mySession\<lparr>raw_Token := Some newToken\<rparr>) kv;
                  let s = s\<lparr>ns_cache := AList.update i raw (ns_cache s)\<rparr>;
                  Some (locks, kv, natsst_set_refresher i (now + refresh_wait (ns_refreshThreshold s) now newToken) s)
                })))"

subsection \<open>Pending logins\<close>

definition natspas_Get :: "(PendingAuthState, 'b, unit) codec \<Rightarrow> int \<Rightarrow> timestamp \<Rightarrow> string \<Rightarrow> 'b bucket \<Rightarrow> read_error + PendingAuthState" where
  "natspas_Get cd ttl now i kv = (case bucket_Get ttl now i kv of
     None \<Rightarrow> Inl ReadNotFound
   | Some data \<Rightarrow> (case Unmarshal cd data of Inl _ \<Rightarrow> Inl ReadError | Inr raw \<Rightarrow> Inr raw))"

definition natspas_Save :: "(PendingAuthState, 'b, unit) codec \<Rightarrow> bool \<Rightarrow> timestamp \<Rightarrow> PendingAuthState \<Rightarrow> 'b bucket \<Rightarrow> bool \<times> 'b bucket" where
  "natspas_Save cd ok now sess kv = (case Marshal cd sess of
     Inl _ \<Rightarrow> (False, kv)
   | Inr data \<Rightarrow> (ok, bucket_Put ok now (pas_State sess) data kv))"

definition natspas_Delete :: "bool \<Rightarrow> string \<Rightarrow> 'b bucket \<Rightarrow> 'b bucket" where
  "natspas_Delete ok i kv = (if ok then kv(i := None) else kv)"

subsection \<open>Sessions on other instances\<close>

text \<open>JSON gives back a session but for the extra fields of its token, which are not exported.\<close>

definition json_ok :: "'b session_codec \<Rightarrow> bool" where
  "json_ok cd \<longleftrightarrow> (\<forall>raw. \<exists>d. Marshal cd raw = Inr d \<and>
     Unmarshal cd d = Inr (raw\<lparr>raw_Token := map_option (\<lambda>t. t\<lparr>tok_IDToken := None\<rparr>) (raw_Token raw)\<rparr>))"

lemma internalStore_total: "raw_Token sess \<noteq> None \<Longrightarrow> \<exists>st raw kv'. internalStore cd ok now sess kv = Some (st, raw, kv')"
  by (auto simp: internalStore_def Let_def split: sum.splits)

lemma stored_read_back:
  assumes "json_ok cd" "internalStore cd True now sess kv = Some (stored, raw, kv')" "later - now < bff_sessions_TTL"
  shows "stored \<and> raw_ID raw = raw_ID sess \<and> (\<exists>r. internalRead cd later (raw_ID sess) kv' = Inr r \<and> session_info r = session_info sess \<and>
    raw_LastAccessed r = raw_LastAccessed sess \<and> raw_ExtraIDToken r = raw_ExtraIDToken raw \<and>
    map_option tok_AccessToken (raw_Token r) = map_option tok_AccessToken (raw_Token sess))"
proof -
  obtain token where t: "raw_Token sess = Some token" using assms(2) by (cases "raw_Token sess") (auto simp: internalStore_def)
  let ?r = "sess\<lparr>raw_LastSync := now, raw_ExtraIDToken := (case tok_IDToken token of Some idt \<Rightarrow> idt | None \<Rightarrow> raw_ExtraIDToken sess)\<rparr>"
  obtain d where d: "Marshal cd ?r = Inr d" "Unmarshal cd d = Inr (?r\<lparr>raw_Token := map_option (\<lambda>t. t\<lparr>tok_IDToken := None\<rparr>) (raw_Token ?r)\<rparr>)"
    using assms(1) unfolding json_ok_def by blast
  have "stored" "raw = ?r" "kv' = kv(composeKey (raw_ID sess) \<mapsto> (d, now))"
    using assms(2) d(1) by (auto simp: internalStore_def t Let_def bucket_Put_def)
  then show ?thesis using d(2) assms(3) by (simp add: internalRead_def bucket_Get_def session_info_def t)
qed

text \<open>
  A session saved on one instance identifies its user on every instance that has not cached it, within the TTL of the bucket: with the same
  name, roles and scopes, last accessed when it was saved.
\<close>

lemma nats_session_shared:
  assumes "json_ok cd" "natsst_Save cd True now sess kv a = Some (stored, kv', a')"
    and "map_of (ns_cache b) (raw_ID sess) = None" "later - now < bff_sessions_TTL"
  shows "\<exists>r. fst (natsst_Get cd later (raw_ID sess) kv' b) = Inr r \<and> session_info r = session_info sess \<and> raw_LastAccessed r = raw_LastAccessed sess"
proof -
  obtain st raw where "internalStore cd True now sess kv = Some (st, raw, kv')"
    using assms(2) by (auto simp: natsst_Save_def Let_def split: Option.bind_splits)
  from stored_read_back[OF assms(1) this assms(4)] show ?thesis using assms(3) by (auto simp: natsst_Get_def)
qed

text \<open>A session that has not been written for two minutes is gone, whatever the timeout of sessions.\<close>

lemma idle_session_lost:
  assumes "kv (composeKey i) = Some (data, written)" "written + 2 * minute \<le> now" "map_of (ns_cache s) i = None"
  shows "fst (natsst_Get cd now i kv s) = Inl ReadNotFound"
  using assms by (simp add: natsst_Get_def internalRead_def bucket_Get_def bff_sessions_TTL_def)

text \<open>
  A logout on one instance does not reach the cache of another, which goes on identifying the user until its next cleanup round; and when the timer of the session
  fires there, it writes the session into the bucket again.
\<close>

lemma logged_out_still_cached:
  assumes "map_of (ns_cache a) i = Some sess" "natsst_Delete True i kv b = (kv', b')"
  shows "fst (natsst_Get cd now i kv' a) = Inr sess"
  using assms(1) by (simp add: natsst_Get_def)

lemma logged_out_stored_again:
  assumes "json_ok cd" "map_of (ns_cache a) i = Some sess" "raw_ID sess = i" "natsst_Delete True i kv b = (kv', b')"
    and "time_sub now (raw_LastAccessed sess) \<le> ns_Timeout a" "lockEntry now i locks = Some locks'"
  shows "\<exists>l kv'' a' r. natsst_refresh cd True now (Some token) (n, i, due) locks kv' a = Some (l, kv'', a') \<and>
    internalRead cd now i kv'' = Inr r \<and> session_info r = session_info sess"
proof -
  let ?s = "sess\<lparr>raw_Token := Some token\<rparr>"
  obtain st raw kv'' where i: "internalStore cd True now ?s kv' = Some (st, raw, kv'')"
    using internalStore_total[of ?s cd True now kv'] by auto
  have "\<exists>r. internalRead cd now i kv'' = Inr r \<and> session_info r = session_info sess"
    using stored_read_back[OF assms(1) i, of now] assms(3) by (auto simp: bff_sessions_TTL_def minute_def session_info_def)
  then show ?thesis using assms(2,5,6) i by (auto simp: natsst_refresh_def natsst_Get_def Let_def)
qed

text \<open>The cleanup round keeps the later of the two times of access.\<close>

lemma cleanup_keeps_access:
  assumes "json_ok cd" "internalRead cd now k kv = Inr raw" "raw_ID raw = k" "raw_Token raw \<noteq> None" "ok k"
  shows "\<exists>kv' r. cleanup_entry cd ok now (k, v) kv = Some kv' \<and> internalRead cd now k kv' = Inr r \<and>
    raw_LastAccessed r = max (raw_LastAccessed raw) (raw_LastAccessed v) \<and> session_info r = session_info raw"
proof (cases "raw_LastAccessed raw < raw_LastAccessed v")
  case True
  let ?s = "raw\<lparr>raw_LastAccessed := raw_LastAccessed v\<rparr>"
  obtain st raw' kv' where i: "internalStore cd True now ?s kv = Some (st, raw', kv')"
    using internalStore_total[of ?s cd True now kv] assms(4) by auto
  from stored_read_back[OF assms(1) i, of now] show ?thesis
    using True assms(2,3,5) i by (auto simp: cleanup_entry_def bff_sessions_TTL_def minute_def session_info_def)
next
  case False
  then show ?thesis using assms(2) by (simp add: cleanup_entry_def)
qed

end
