(* ===== verification/Repair.thy ===== *)
theory Repair
  imports Repository_Properties
begin

text \<open>
  The repair tools that work on recorded data, pkg/cmd/repair/issue208/issue208.go and issue244/issue244.go: the session number of the race state
  of an rs_info row is copied into the driver data, or into the row itself.

  The SQL statements are the database's: a record of functions, of which repair_sql_ok says what they promise.  The rows of the query are read
  while the updates run on other connections of the pool, so that the query sees the data as they were.  A race state without a session is a nil dereference (None).
\<close>

record ('d, 'b, 'e) repair_sql =
  sq_CarAndState :: "('d, 'b) database \<Rightarrow> int32 \<Rightarrow> 'e + ('b \<times> 'b \<times> int) list"
  sq_State :: "('d, 'b) database \<Rightarrow> int32 \<Rightarrow> 'e + ('b \<times> int) list"
  sx_SetCarProto :: "('d, 'b) database \<Rightarrow> 'b \<Rightarrow> int \<Rightarrow> ('e + int) \<times> ('d, 'b) database"
  sx_SetSessionNum :: "('d, 'b) database \<Rightarrow> uint32 \<Rightarrow> int \<Rightarrow> ('e + int) \<times> ('d, 'b) database"

text \<open>The number of rows updated; an update that fails is logged.\<close>

definition count_update :: "('e + int) \<times> 'db \<Rightarrow> int \<Rightarrow> int \<times> 'db" where
  "count_update r updated = (case r of (Inl _, db) \<Rightarrow> (updated, db) | (Inr n, db) \<Rightarrow> (updated + n, db))"

subsection \<open>Issue 208\<close>

fun migrate_rows :: "('d, 'b, 'e) repair_sql \<Rightarrow> (PublishDriverDataRequest, 'b, 'e) codec \<Rightarrow> (PublishStateRequest, 'b, 'e) codec \<Rightarrow>
    ('b \<times> 'b \<times> int) list \<Rightarrow> int \<Rightarrow> ('d, 'b) database \<Rightarrow> (('e + int) \<times> ('d, 'b) database) run" where
  "migrate_rows sq cdD cdS [] updated db = Some (Inr updated, db)"
| "migrate_rows sq cdD cdS ((csProtodata, rsProtodata, rsID) # rows) updated db = (case Unmarshal cdD csProtodata of
     Inl err \<Rightarrow> Some (Inl err, db)
   | Inr driverstate \<Rightarrow> (case Unmarshal cdS rsProtodata of
       Inl err \<Rightarrow> Some (Inl err, db)
     | Inr racestate \<Rightarrow> do {
         session \<leftarrow> psr_Session racestate;
         (case Marshal cdD (driverstate\<lparr>pdr_SessionNum := ses_SessionNum session\<rparr>) of
           Inl err \<Rightarrow> Some (Inl err, db)
         | Inr binaryMessage \<Rightarrow>
             (let (updated, db) = count_update (sx_SetCarProto sq db binaryMessage rsID) updated in migrate_rows sq cdD cdS rows updated db))
       }))"

definition doMigrateCarStates :: "('d, 'b, 'e) repair_sql \<Rightarrow> (PublishDriverDataRequest, 'b, 'e) codec \<Rightarrow> (PublishStateRequest, 'b, 'e) codec \<Rightarrow>
    uint32 \<Rightarrow> ('d, 'b) database \<Rightarrow> (('e + int) \<times> ('d, 'b) database) run" where
  "doMigrateCarStates sq cdD cdS eventID db = (case sq_CarAndState sq db (ucast eventID) of
     Inl err \<Rightarrow> Some (Inl err, db)
   | Inr rows \<Rightarrow> migrate_rows sq cdD cdS rows 0 db)"

text \<open>The error of one event is logged, and the next one is migrated.\<close>

definition migrateCarStates :: "('d, 'b, 'e) repair_sql \<Rightarrow> (PublishDriverDataRequest, 'b, 'e) codec \<Rightarrow> (PublishStateRequest, 'b, 'e) codec \<Rightarrow>
    ('e + Event list) \<Rightarrow> ('d, 'b) database \<Rightarrow> ('d, 'b) database run" where
  "migrateCarStates sq cdD cdS events db = (case events of
     Inl _ \<Rightarrow> Some db
   | Inr events \<Rightarrow> go_for (\<lambda>e db. map_option snd (doMigrateCarStates sq cdD cdS (ev_Id e) db)) events db)"

subsection \<open>Issue 244\<close>

fun copy_rows :: "('d, 'b, 'e) repair_sql \<Rightarrow> (PublishStateRequest, 'b, 'e) codec \<Rightarrow> ('b \<times> int) list \<Rightarrow> int \<Rightarrow> ('d, 'b) database \<Rightarrow>
    (('e + int) \<times> ('d, 'b) database) run" where
  "copy_rows sq cdS [] updated db = Some (Inr updated, db)"
| "copy_rows sq cdS ((rsProtodata, rsID) # rows) updated db = (case Unmarshal cdS rsProtodata of
     Inl err \<Rightarrow> Some (Inl err, db)
   | Inr racestate \<Rightarrow> do {
       session \<leftarrow> psr_Session racestate;
       let (updated, db) = count_update (sx_SetSessionNum sq db (ses_SessionNum session) rsID) updated;
       copy_rows sq cdS rows updated db
     })"

definition doMigrateRaceStateSessionNums :: "('d, 'b, 'e) repair_sql \<Rightarrow> (PublishStateRequest, 'b, 'e) codec \<Rightarrow> uint32 \<Rightarrow> ('d, 'b) database \<Rightarrow>
    (('e + int) \<times> ('d, 'b) database) run" where
  "doMigrateRaceStateSessionNums sq cdS eventID db = (case sq_State sq db (ucast eventID) of
     Inl err \<Rightarrow> Some (Inl err, db)
   | Inr rows \<Rightarrow> copy_rows sq cdS rows 0 db)"

definition copySessionNums :: "('d, 'b, 'e) repair_sql \<Rightarrow> (PublishStateRequest, 'b, 'e) codec \<Rightarrow> ('e + Event list) \<Rightarrow> ('d, 'b) database \<Rightarrow>
    ('d, 'b) database run" where
  "copySessionNums sq cdS events db = (case events of
     Inl _ \<Rightarrow> Some db
   | Inr events \<Rightarrow> go_for (\<lambda>e db. map_option snd (doMigrateRaceStateSessionNums sq cdS (ev_Id e) db)) events db)"

subsection \<open>What the statements promise\<close>

definition set_car_proto :: "'b \<Rightarrow> int \<Rightarrow> ('d, 'b) database \<Rightarrow> ('d, 'b) database" where
  "set_car_proto b i db = db\<lparr>db_Protos := (db_Protos db)(CarStateProtos := map (\<lambda>(j, x). (j, if j = i then b else x)) (db_Protos db CarStateProtos))\<rparr>"

definition repair_sql_ok :: "('d, 'b, 'e) repair_sql \<Rightarrow> bool" where
  "repair_sql_ok sq \<longleftrightarrow>
     (\<forall>db e. \<exists>rows. sq_CarAndState sq db e = Inr rows \<and> set rows = {(c, s, i). (i, c) \<in> set (db_Protos db CarStateProtos) \<and>
        (i, s) \<in> set (db_Protos db RaceStateProtos) \<and> (\<exists>r \<in> set (db_RSInfos db). rsi_ID r = i \<and> rsi_EventID r = e)}) \<and>
     (\<forall>db b i. \<exists>n. sx_SetCarProto sq db b i = (Inr n, set_car_proto b i db))"

lemma repair_select:
  assumes "repair_sql_ok sq"
  obtains rows where "sq_CarAndState sq db e = Inr rows" "set rows = {(c, s, i). (i, c) \<in> set (db_Protos db CarStateProtos) \<and>
        (i, s) \<in> set (db_Protos db RaceStateProtos) \<and> (\<exists>r \<in> set (db_RSInfos db). rsi_ID r = i \<and> rsi_EventID r = e)}"
  using assms unfolding repair_sql_ok_def by blast

lemma repair_update:
  assumes "repair_sql_ok sq"
  obtains n where "sx_SetCarProto sq db b i = (Inr n, set_car_proto b i db)"
  using assms unfolding repair_sql_ok_def by blast

text \<open>The race state of an rs_info row of the event.\<close>

definition race_state_of :: "(PublishStateRequest, 'b, 'e) codec \<Rightarrow> ('d, 'b) database \<Rightarrow> int32 \<Rightarrow> int \<Rightarrow> PublishStateRequest option" where
  "race_state_of cdS db e i = (if \<exists>r \<in> set (db_RSInfos db). rsi_ID r = i \<and> rsi_EventID r = e
     then map_option (\<lambda>b. projr (Unmarshal cdS b)) (map_of (db_Protos db RaceStateProtos) i) else None)"

definition with_session_num :: "PublishStateRequest option \<Rightarrow> PublishDriverDataRequest \<Rightarrow> PublishDriverDataRequest" where
  "with_session_num s d = (case s of None \<Rightarrow> d | Some s \<Rightarrow> d\<lparr>pdr_SessionNum := ses_SessionNum (the (psr_Session s))\<rparr>)"

lemma set_car_proto_simps [simp]:
  "db_RSInfos (set_car_proto b i db) = db_RSInfos db" "tab \<noteq> CarStateProtos \<Longrightarrow> db_Protos (set_car_proto b i db) tab = db_Protos db tab"
  "db_Protos (set_car_proto b i db) CarStateProtos = map (\<lambda>(j, x). (j, if j = i then b else x)) (db_Protos db CarStateProtos)"
  by (simp_all add: set_car_proto_def)

text \<open>One row after the other: new i is what becomes of the driver data of row i.\<close>

lemma migrate_rows_ok:
  assumes "repair_sql_ok sq"
    and "\<And>c s i. (c, s, i) \<in> set rows \<Longrightarrow> \<exists>d st ses. Unmarshal cdD c = Inr d \<and> Unmarshal cdS s = Inr st \<and> psr_Session st = Some ses \<and>
      Marshal cdD (d\<lparr>pdr_SessionNum := ses_SessionNum ses\<rparr>) = Inr (new i)"
  shows "\<exists>n db'. migrate_rows sq cdD cdS rows updated db = Some (Inr n, db') \<and> db_RSInfos db' = db_RSInfos db \<and>
    (\<forall>tab. tab \<noteq> CarStateProtos \<longrightarrow> db_Protos db' tab = db_Protos db tab) \<and>
    db_Protos db' CarStateProtos = map (\<lambda>(j, x). (j, if j \<in> (\<lambda>(_, _, i). i) ` set rows then new j else x)) (db_Protos db CarStateProtos)"
  using assms(2)
proof (induction rows arbitrary: updated db)
  case (Cons row rows)
  obtain c s i where row: "row = (c, s, i)" by (cases row) auto
  obtain d st ses where r: "Unmarshal cdD c = Inr d" "Unmarshal cdS s = Inr st" "psr_Session st = Some ses"
    "Marshal cdD (d\<lparr>pdr_SessionNum := ses_SessionNum ses\<rparr>) = Inr (new i)" using Cons.prems[of c s i] by (auto simp: row)
  obtain n where n: "sx_SetCarProto sq db (new i) i = (Inr n, set_car_proto (new i) i db)"
    using repair_update[OF assms(1)] .
  obtain m db' where m: "migrate_rows sq cdD cdS rows (updated + n) (set_car_proto (new i) i db) = Some (Inr m, db')"
    "db_RSInfos db' = db_RSInfos db" "\<forall>tab. tab \<noteq> CarStateProtos \<longrightarrow> db_Protos db' tab = db_Protos db tab"
    "db_Protos db' CarStateProtos = map (\<lambda>(j, x). (j, if j \<in> (\<lambda>(_, _, i). i) ` set rows then new j else x)) (db_Protos (set_car_proto (new i) i db) CarStateProtos)"
    using Cons.IH[of "updated + n" "set_car_proto (new i) i db"] Cons.prems by auto
  have "migrate_rows sq cdD cdS (row # rows) updated db = Some (Inr m, db')" using m(1) r n by (simp add: row count_update_def)
  then show ?case using m(2-4) by (auto simp: row o_def split: prod.splits)
qed (auto simp: split_def)

text \<open>
  Migrating an event gives every driver data message of it the session number of the race state of its row, and changes nothing else, provided that every row has
  one driver data message.
\<close>

lemma driver_data_migrated:
  assumes "repair_sql_ok sq" "table_ok cdD CarStateProtos db" "table_ok cdS RaceStateProtos db"
    and "\<forall>m. \<exists>b. Marshal cdD m = Inr b \<and> Unmarshal cdD b = Inr m"
    and "\<forall>(i, b) \<in> set (db_Protos db RaceStateProtos). psr_Session (projr (Unmarshal cdS b)) \<noteq> None"
  shows "\<exists>n db'. doMigrateCarStates sq cdD cdS eventID db = Some (Inr n, db') \<and> db_RSInfos db' = db_RSInfos db \<and>
    (\<forall>tab. tab \<noteq> CarStateProtos \<longrightarrow> db_Protos db' tab = db_Protos db tab) \<and>
    map (\<lambda>(i, b). (i, projr (Unmarshal cdD b))) (db_Protos db' CarStateProtos) =
    map (\<lambda>(i, b). (i, with_session_num (race_state_of cdS db (ucast eventID) i) (projr (Unmarshal cdD b)))) (db_Protos db CarStateProtos)"
proof -
  obtain rows where rows: "sq_CarAndState sq db (ucast eventID) = Inr rows"
    "set rows = {(c, s, i). (i, c) \<in> set (db_Protos db CarStateProtos) \<and>
        (i, s) \<in> set (db_Protos db RaceStateProtos) \<and> (\<exists>r \<in> set (db_RSInfos db). rsi_ID r = i \<and> rsi_EventID r = ucast eventID)}"
    using repair_select[OF assms(1)] .
  obtain enc where enc: "\<And>m. Marshal cdD m = Inr (enc m) \<and> Unmarshal cdD (enc m) = Inr m" using assms(4) by metis
  define st where "st = race_state_of cdS db (ucast eventID)"
  define new where "new i = enc (with_session_num (st i) (projr (Unmarshal cdD (the (map_of (db_Protos db CarStateProtos) i)))))" for i
  have row: "map_of (db_Protos db CarStateProtos) i = Some c \<and> (\<exists>x. st i = Some x \<and> Unmarshal cdS s = Inr x)" if "(c, s, i) \<in> set rows" for c s i
  proof -
    have i: "(i, c) \<in> set (db_Protos db CarStateProtos)" "(i, s) \<in> set (db_Protos db RaceStateProtos)"
      "\<exists>r \<in> set (db_RSInfos db). rsi_ID r = i \<and> rsi_EventID r = ucast eventID" using that rows(2) by auto
    then have "map_of (db_Protos db CarStateProtos) i = Some c" "map_of (db_Protos db RaceStateProtos) i = Some s"
      using assms(2,3) by (simp_all add: table_ok_def)
    moreover obtain x where "Unmarshal cdS s = Inr x" using i(2) assms(3) by (auto simp: table_ok_def)
    ultimately show ?thesis using i(3) by (auto simp: st_def race_state_of_def)
  qed
  have r: "\<exists>d st ses. Unmarshal cdD c = Inr d \<and> Unmarshal cdS s = Inr st \<and> psr_Session st = Some ses \<and>
      Marshal cdD (d\<lparr>pdr_SessionNum := ses_SessionNum ses\<rparr>) = Inr (new i)" if inr: "(c, s, i) \<in> set rows" for c s i
  proof -
    obtain x where x: "map_of (db_Protos db CarStateProtos) i = Some c" "st i = Some x" "Unmarshal cdS s = Inr x" using row[OF inr] by blast
    obtain d where d: "Unmarshal cdD c = Inr d" using map_of_SomeD[OF x(1)] assms(2) by (auto simp: table_ok_def)
    have "(i, s) \<in> set (db_Protos db RaceStateProtos)" using inr rows(2) by simp
    then have "psr_Session (projr (Unmarshal cdS s)) \<noteq> None" using assms(5) by blast
    then obtain ses where "psr_Session x = Some ses" using x(3) by auto
    then show ?thesis using x d enc by (auto simp: new_def with_session_num_def)
  qed
  obtain n db' where m: "migrate_rows sq cdD cdS rows 0 db = Some (Inr n, db')" "db_RSInfos db' = db_RSInfos db"
    "\<forall>tab. tab \<noteq> CarStateProtos \<longrightarrow> db_Protos db' tab = db_Protos db tab"
    "db_Protos db' CarStateProtos = map (\<lambda>(j, x). (j, if j \<in> (\<lambda>(_, _, i). i) ` set rows then new j else x)) (db_Protos db CarStateProtos)"
    using migrate_rows_ok[where new = new and rows = rows, OF assms(1) r] by blast
  have "projr (Unmarshal cdD (if i \<in> (\<lambda>(_, _, i). i) ` set rows then new i else b)) = with_session_num (st i) (projr (Unmarshal cdD b))"
    if "(i, b) \<in> set (db_Protos db CarStateProtos)" for i b
  proof -
    have b: "map_of (db_Protos db CarStateProtos) i = Some b" using that assms(2) by (simp add: table_ok_def)
    have "i \<in> (\<lambda>(_, _, i). i) ` set rows \<longleftrightarrow> st i \<noteq> None"
    proof
      assume "st i \<noteq> None"
      then obtain s where "map_of (db_Protos db RaceStateProtos) i = Some s" "\<exists>r \<in> set (db_RSInfos db). rsi_ID r = i \<and> rsi_EventID r = ucast eventID"
        by (auto simp: st_def race_state_of_def split: if_splits)
      then have "(b, s, i) \<in> set rows" using that by (auto simp: rows(2) dest: map_of_SomeD)
      then show "i \<in> (\<lambda>(_, _, i). i) ` set rows" by force
    qed (use row in fastforce)
    then show ?thesis using enc by (auto simp: new_def b with_session_num_def)
  qed
  then have "map (\<lambda>(i, b). (i, projr (Unmarshal cdD b))) (db_Protos db' CarStateProtos) =
      map (\<lambda>(i, b). (i, with_session_num (st i) (projr (Unmarshal cdD b)))) (db_Protos db CarStateProtos)"
    by (auto simp: m(4))
  then show ?thesis using m rows(1) by (auto simp: doMigrateCarStates_def st_def)
qed

text \<open>
  The update selects the rows by the id of rs_info.  Where several driver data messages share an rs_info row, as between two states of a race, each
  of them is overwritten with the data of the last one the query gives.
\<close>

lemma shared_row_overwritten:
  assumes "repair_sql_ok sq" "Unmarshal cdD c = Inr d" "Unmarshal cdS s = Inr st" "psr_Session st = Some ses"
    and "Marshal cdD (d\<lparr>pdr_SessionNum := ses_SessionNum ses\<rparr>) = Inr b"
  shows "\<exists>n db'. migrate_rows sq cdD cdS [(c, s, i)] 0 db = Some (Inr n, db') \<and>
    (\<forall>x. (i, x) \<in> set (db_Protos db' CarStateProtos) \<longrightarrow> x = b)"
proof -
  obtain n where "sx_SetCarProto sq db b i = (Inr n, set_car_proto b i db)" using repair_update[OF assms(1)] .
  then show ?thesis using assms(2-5) by (auto simp: count_update_def)
qed

end
