(* ===== verification/Transactions.thy ===== *)
theory Transactions
  imports State_Properties Admin_Properties
begin

text \<open>
  How a repository finds its transaction: the transaction manager pkg/grpc/repository/bob/transaction.bob.go puts the executor of the transaction into the
  context (bob/context/context.go), and every repository asks the context for an executor before it takes its own connection.

  A world is a database with the transactions that are open on it, each the changes it has made so far.  bob.DB.RunInTx is an argument, of which
  tx_library says what it documents.  With it the manager gives what the services rely on (transactional).
\<close>

datatype executor = OnDB | OnTx nat

text \<open>The value of a context under the key of the package; nil contexts are None.\<close>

record GoContext =
  ctx_Executor :: "executor option"

definition Background :: GoContext where
  "Background = \<lparr>ctx_Executor = None\<rparr>"

definition bobCtx_NewContext :: "GoContext \<Rightarrow> executor \<Rightarrow> GoContext" where
  "bobCtx_NewContext ctx executor = ctx\<lparr>ctx_Executor := Some executor\<rparr>"

definition bobCtx_FromContext :: "GoContext option \<Rightarrow> executor option" where
  "bobCtx_FromContext ctx = (case ctx of None \<Rightarrow> None | Some c \<Rightarrow> ctx_Executor c)"

definition repo_getExecutor :: "executor \<Rightarrow> GoContext option \<Rightarrow> executor" where
  "repo_getExecutor conn ctx = (case bobCtx_FromContext ctx of Some e \<Rightarrow> e | None \<Rightarrow> conn)"

lemma executor_of_context [simp]: "repo_getExecutor conn (Some (bobCtx_NewContext ctx e)) = e"
  by (simp add: repo_getExecutor_def bobCtx_FromContext_def bobCtx_NewContext_def)

lemma executor_of_background [simp]: "repo_getExecutor conn (Some Background) = conn"
  by (simp add: repo_getExecutor_def bobCtx_FromContext_def Background_def)

subsection \<open>Statements\<close>

record 'db world =
  committed :: 'db
  open_txs :: "nat \<Rightarrow> ('db \<Rightarrow> 'db) option"

text \<open>A statement on the connection is committed at once, one in a transaction adds to its changes; in a transaction that is over it is an error.\<close>

definition exec_on :: "'e \<Rightarrow> executor \<Rightarrow> ('db, 'e) txFunc \<Rightarrow> 'db world \<Rightarrow> ('e option \<times> int option \<times> 'db world) run" where
  "exec_on txDone ex f w = (case ex of
     OnDB \<Rightarrow> map_option (\<lambda>(err, v, db). (err, v, w\<lparr>committed := db\<rparr>)) (f (committed w))
   | OnTx n \<Rightarrow> (case open_txs w n of
       None \<Rightarrow> Some (Some txDone, None, w)
     | Some changes \<Rightarrow> map_option (\<lambda>(err, v, _).
           (err, v, w\<lparr>open_txs := (open_txs w)(n \<mapsto> (\<lambda>db. case f (changes db) of None \<Rightarrow> changes db | Some (_, _, db') \<Rightarrow> db'))\<rparr>))
         (f (changes (committed w)))))"

text \<open>A call of a repository with a context.\<close>

definition repo_call :: "'e \<Rightarrow> executor \<Rightarrow> ('db, 'e) txFunc \<Rightarrow> GoContext \<Rightarrow> 'db world \<Rightarrow> ('e option \<times> int option \<times> 'db world) run" where
  "repo_call txDone conn f ctx = exec_on txDone (repo_getExecutor conn (Some ctx)) f"

subsection \<open>RunInTx\<close>

type_synonym ('db, 'e) lib_RunInTx = "GoContext \<Rightarrow> (GoContext option \<Rightarrow> executor \<Rightarrow> 'db world \<Rightarrow> ('e option \<times> int option \<times> 'db world) run) \<Rightarrow>
  'db world \<Rightarrow> ('e option \<times> int option \<times> 'db world) run"

definition bob_RunInTx :: "('db, 'e) lib_RunInTx \<Rightarrow> GoContext \<Rightarrow> (GoContext \<Rightarrow> 'db world \<Rightarrow> ('e option \<times> int option \<times> 'db world) run) \<Rightarrow>
    'db world \<Rightarrow> ('e option \<times> int option \<times> 'db world) run" where
  "bob_RunInTx db_RunInTx ctx fn = db_RunInTx ctx (\<lambda>ctx e.
     let ctx = (case ctx of None \<Rightarrow> Background | Some ctx \<Rightarrow> ctx) in fn (bobCtx_NewContext ctx e))"

definition begin_tx :: "nat \<Rightarrow> 'db world \<Rightarrow> 'db world" where
  "begin_tx n w = w\<lparr>open_txs := (open_txs w)(n \<mapsto> id)\<rparr>"

definition commit_tx :: "nat \<Rightarrow> 'db world \<Rightarrow> 'db world" where
  "commit_tx n w = (case open_txs w n of None \<Rightarrow> w | Some changes \<Rightarrow> \<lparr>committed = changes (committed w), open_txs = (open_txs w)(n := None)\<rparr>)"

definition rollback_tx :: "nat \<Rightarrow> 'db world \<Rightarrow> 'db world" where
  "rollback_tx n w = w\<lparr>open_txs := (open_txs w)(n := None)\<rparr>"

text \<open>
  What the library documents: the transaction cannot begin, or the function runs with a new one, which is rolled back when the function
  returns an error, and committed otherwise; a commit may fail.
\<close>

definition tx_library :: "('db, 'e) lib_RunInTx \<Rightarrow> bool" where
  "tx_library lib \<longleftrightarrow> (\<forall>ctx fn w. (\<exists>err. lib ctx fn w = Some (Some err, None, w)) \<or>
     (\<exists>n ctx'. open_txs w n = None \<and> (case fn ctx' (OnTx n) (begin_tx n w) of
        None \<Rightarrow> lib ctx fn w = None
      | Some (Some err, v, w') \<Rightarrow> lib ctx fn w = Some (Some err, v, rollback_tx n w')
      | Some (None, v, w') \<Rightarrow> lib ctx fn w = Some (None, v, commit_tx n w') \<or> (\<exists>err. lib ctx fn w = Some (Some err, v, rollback_tx n w')))))"

text \<open>What a service sees of a transaction in which it calls the repositories with the context it is given.\<close>

definition execute_calls :: "('db, 'e) lib_RunInTx \<Rightarrow> 'e \<Rightarrow> executor \<Rightarrow> ('db, 'e) txFunc \<Rightarrow> 'db world \<Rightarrow> ('e option \<times> int option \<times> 'db world) run" where
  "execute_calls lib txDone conn f = bob_RunInTx lib Background (repo_call txDone conn f)"

definition tx_manager :: "('db, 'e) lib_RunInTx \<Rightarrow> 'e \<Rightarrow> ('db, 'e) txFunc \<Rightarrow> ('db, 'e) txFunc" where
  "tx_manager lib txDone f db = map_option (\<lambda>(err, v, w). (err, v, committed w))
     (execute_calls lib txDone OnDB f \<lparr>committed = db, open_txs = Map.empty\<rparr>)"

lemma exec_on_begun:
  "exec_on txDone (OnTx n) f (begin_tx n w) = map_option (\<lambda>(err, v, _).
     (err, v, w\<lparr>open_txs := (open_txs w)(n \<mapsto> (\<lambda>db. case f db of None \<Rightarrow> db | Some (_, _, db') \<Rightarrow> db'))\<rparr>)) (f (committed w))"
  by (simp add: exec_on_def begin_tx_def id_def)

lemma closed_tx:
  assumes "open_txs w n = None"
  shows "w\<lparr>open_txs := (open_txs w)(n := None)\<rparr> = w" "\<lparr>committed = db, open_txs = (open_txs w)(n := None)\<rparr> = w\<lparr>committed := db\<rparr>"
    "w\<lparr>committed := db, open_txs := (open_txs w)(n := None)\<rparr> = w\<lparr>committed := db\<rparr>"
  using assms by (cases w, simp add: fun_upd_idem)+

text \<open>Whatever is called with the context of the transaction happens in it, and nothing else changes.\<close>

lemma execute_calls_cases:
  assumes "tx_library lib"
  shows "(\<exists>e. execute_calls lib txDone conn f w = Some (Some e, None, w)) \<or>
    (case f (committed w) of
       None \<Rightarrow> execute_calls lib txDone conn f w = None
     | Some (Some e, v, db') \<Rightarrow> execute_calls lib txDone conn f w = Some (Some e, v, w)
     | Some (None, v, db') \<Rightarrow> execute_calls lib txDone conn f w = Some (None, v, w\<lparr>committed := db'\<rparr>) \<or>
         (\<exists>e. execute_calls lib txDone conn f w = Some (Some e, v, w)))"
proof -
  let ?fn = "\<lambda>ctx e. let ctx = (case ctx of None \<Rightarrow> Background | Some ctx \<Rightarrow> ctx) in repo_call txDone conn f (bobCtx_NewContext ctx e)"
  have fn: "?fn ctx (OnTx n) (begin_tx n w) = map_option (\<lambda>(err, v, _).
     (err, v, w\<lparr>open_txs := (open_txs w)(n \<mapsto> (\<lambda>db. case f db of None \<Rightarrow> db | Some (_, _, db') \<Rightarrow> db'))\<rparr>)) (f (committed w))" for ctx n
    by (simp add: repo_call_def exec_on_begun Let_def)
  have run: "execute_calls lib txDone conn f w = lib Background ?fn w" by (simp add: execute_calls_def bob_RunInTx_def)
  consider e where "lib Background ?fn w = Some (Some e, None, w)"
    | n ctx' where "open_txs w n = None" "case ?fn ctx' (OnTx n) (begin_tx n w) of
        None \<Rightarrow> lib Background ?fn w = None
      | Some (Some err, v, w') \<Rightarrow> lib Background ?fn w = Some (Some err, v, rollback_tx n w')
      | Some (None, v, w') \<Rightarrow> lib Background ?fn w = Some (None, v, commit_tx n w') \<or>
          (\<exists>err. lib Background ?fn w = Some (Some err, v, rollback_tx n w'))"
    using assms[unfolded tx_library_def, rule_format, of Background ?fn w] by blast
  then show ?thesis
  proof cases
    case (2 n ctx')
    from 2(2) show ?thesis unfolding fn run
      by (cases "f (committed w)") (auto simp: commit_tx_def rollback_tx_def closed_tx[OF 2(1)] split: option.splits)
  qed (simp add: run)
qed

text \<open>
  C12: a service that calls the repositories with the context it gets from RunInTx changes the database as a whole or not at all: with the
  library's RunInTx the transaction manager is what the properties of the services assume (transactional).
\<close>

theorem transactions_atomic:
  assumes "tx_library lib"
  shows "transactional (tx_manager lib txDone)"
  unfolding transactional_def
proof (intro allI)
  fix f db
  show "(\<exists>e. tx_manager lib txDone f db = Some (Some e, None, db)) \<or> (case f db of
        None \<Rightarrow> tx_manager lib txDone f db = None
      | Some (Some e, v, db') \<Rightarrow> tx_manager lib txDone f db = Some (Some e, v, db)
      | Some (None, v, db') \<Rightarrow> tx_manager lib txDone f db = Some (None, v, db') \<or> (\<exists>e. tx_manager lib txDone f db = Some (Some e, v, db)))"
    using execute_calls_cases[OF assms, of txDone OnDB f "\<lparr>committed = db, open_txs = Map.empty\<rparr>"]
    by (auto simp: tx_manager_def split: option.splits)
qed

text \<open>A library that behaves as documented: it numbers its transactions by the first free number below 1000 and never fails.\<close>

definition mem_RunInTx :: "('db, unit) lib_RunInTx" where
  "mem_RunInTx ctx fn w = (case find (\<lambda>n. open_txs w n = None) [0..<1000] of
     None \<Rightarrow> Some (Some (), None, w)
   | Some n \<Rightarrow> (case fn (Some ctx) (OnTx n) (begin_tx n w) of
       None \<Rightarrow> None
     | Some (Some err, v, w') \<Rightarrow> Some (Some err, v, rollback_tx n w')
     | Some (None, v, w') \<Rightarrow> Some (None, v, commit_tx n w')))"

lemma mem_RunInTx_library: "tx_library mem_RunInTx"
  unfolding tx_library_def
proof (intro allI)
  fix ctx fn and w :: "'db world"
  show "(\<exists>err. mem_RunInTx ctx fn w = Some (Some err, None, w)) \<or>
     (\<exists>n ctx'. open_txs w n = None \<and> (case fn ctx' (OnTx n) (begin_tx n w) of
        None \<Rightarrow> mem_RunInTx ctx fn w = None
      | Some (Some err, v, w') \<Rightarrow> mem_RunInTx ctx fn w = Some (Some err, v, rollback_tx n w')
      | Some (None, v, w') \<Rightarrow> mem_RunInTx ctx fn w = Some (None, v, commit_tx n w') \<or>
          (\<exists>err. mem_RunInTx ctx fn w = Some (Some err, v, rollback_tx n w'))))"
  proof (cases "find (\<lambda>n. open_txs w n = None) [0..<1000]")
    case (Some n)
    then have "open_txs w n = None" by (auto simp: find_Some_iff)
    with Some show ?thesis
      by (intro disjI2 exI[of _ n] exI[of _ "Some ctx"]) (auto simp: mem_RunInTx_def split: option.splits prod.splits)
  qed (simp add: mem_RunInTx_def)
qed

theorem transactions_atomic_witness: "transactional (tx_manager (mem_RunInTx :: (int, unit) lib_RunInTx) ())"
  by (rule transactions_atomic[OF mem_RunInTx_library])

subsection \<open>Calls with another context\<close>

text \<open>
  storeAnalysisData of the analysis service calls the repository with the background context, inside a transaction: the call is on the connection, it is not
  undone, and the transaction commits nothing.
\<close>

definition run_background :: "('db, 'e) lib_RunInTx \<Rightarrow> 'e \<Rightarrow> executor \<Rightarrow> ('db, 'e) txFunc \<Rightarrow> 'db world \<Rightarrow> ('e option \<times> int option \<times> 'db world) run" where
  "run_background lib txDone conn f = bob_RunInTx lib Background (\<lambda>_. repo_call txDone conn f Background)"

lemma background_not_undone:
  assumes "tx_library lib" "f (committed w) = Some (err, v, db')"
  shows "(\<exists>e. run_background lib txDone OnDB f w = Some (Some e, None, w)) \<or>
    (\<exists>err'. run_background lib txDone OnDB f w = Some (err', v, w\<lparr>committed := db'\<rparr>) \<and> (err \<noteq> None \<longrightarrow> err' = err))"
proof -
  let ?fn = "\<lambda>(ctx :: GoContext option) (e :: executor). repo_call txDone OnDB f Background"
  have fn: "?fn ctx (OnTx n) (begin_tx n w) = Some (err, v, (begin_tx n w)\<lparr>committed := db'\<rparr>)" for ctx n
    using assms(2) by (simp add: repo_call_def exec_on_def begin_tx_def)
  have "run_background lib txDone OnDB f w = lib Background ?fn w" by (simp add: run_background_def bob_RunInTx_def)
  with assms(1)[unfolded tx_library_def, rule_format, of Background ?fn w] show ?thesis
    unfolding fn by (cases err) (auto simp: commit_tx_def rollback_tx_def begin_tx_def closed_tx)
qed

end
