(* ===== verification/Logger.thy ===== *)
theory Logger
  imports Go_Prelude
begin

text \<open>
  The loggers, log/zap.go, log/config_own.go, log/otel_util.go: which level a named logger has, which sinks it writes to and which fields they get.

  The library zap is used through its cores, of which only the kind and the level are kept; parsing a level and matching a regular expression are arguments
  (level_of gives the level also for a text that is none, matches is False for a pattern that does not compile).  The configured loggers are
  a map of Go; ranging over its keys is the list in the order of one run.
\<close>

subsection \<open>Configuration\<close>

type_synonym Level = int

definition InfoLevel :: Level where "InfoLevel = 0"
definition DPanicLevel :: Level where "DPanicLevel = 3"

record zap_Config =
  cz_Level :: Level
  cz_DisableCaller :: bool

record log_Config =
  lc_DefaultLevel :: string
  lc_Loggers :: "(string \<times> string) list"
  lc_Zap :: zap_Config
  lc_Filters :: "string list option"

record loggerConfig =
  my_cfg :: log_Config
  my_level :: string
  my_telemetry :: bool
  my_removeContextFields :: bool
  my_useZap :: bool

definition WithLogConfig :: "log_Config \<Rightarrow> loggerConfig \<Rightarrow> loggerConfig" where
  "WithLogConfig arg c = c\<lparr>my_cfg := arg\<rparr>"

definition WithLogLevel :: "string \<Rightarrow> loggerConfig \<Rightarrow> loggerConfig" where
  "WithLogLevel arg c = c\<lparr>my_level := arg\<rparr>"

definition WithTelemetry :: "bool \<Rightarrow> loggerConfig \<Rightarrow> loggerConfig" where
  "WithTelemetry arg c = c\<lparr>my_telemetry := arg\<rparr>"

definition WithRemoveContextFields :: "bool \<Rightarrow> loggerConfig \<Rightarrow> loggerConfig" where
  "WithRemoveContextFields arg c = c\<lparr>my_removeContextFields := arg\<rparr>"

definition WithUseZap :: "bool \<Rightarrow> loggerConfig \<Rightarrow> loggerConfig" where
  "WithUseZap arg c = c\<lparr>my_useZap := arg\<rparr>"

text \<open>The production configuration of zap is an argument; its level is info.\<close>

definition DefaultProdConfig :: "zap_Config \<Rightarrow> log_Config" where
  "DefaultProdConfig prodCfg = \<lparr>lc_DefaultLevel = ''info'', lc_Loggers = [], lc_Zap = prodCfg, lc_Filters = None\<rparr>"

text \<open>And that of development.\<close>

definition DefaultDevConfig :: "zap_Config \<Rightarrow> log_Config" where
  "DefaultDevConfig devCfg = \<lparr>lc_DefaultLevel = ''info'', lc_Loggers = [], lc_Zap = devCfg, lc_Filters = None\<rparr>"

definition newLoggerConfig :: "zap_Config \<Rightarrow> (loggerConfig \<Rightarrow> loggerConfig) list \<Rightarrow> loggerConfig" where
  "newLoggerConfig prodCfg opts = (
     let ret = fold (\<lambda>opt c. opt c) opts
       \<lparr>my_cfg = DefaultProdConfig prodCfg, my_level = [], my_telemetry = False, my_removeContextFields = True, my_useZap = True\<rparr>
     in if my_level ret = [] then ret\<lparr>my_level := lc_DefaultLevel (my_cfg ret)\<rparr> else ret)"

subsection \<open>Sinks\<close>

datatype core =
    OtelCore string Level
  | ZapCore Level
  | ContextIgnoring core

text \<open>A field of an entry: its key, and whether its value is a context.\<close>

record log_field =
  fld_Key :: string
  fld_IsContext :: bool

text \<open>The fields that a core gives to what it writes to, and whether it takes an entry of a level in its Check.\<close>

fun core_Write :: "core \<Rightarrow> log_field list \<Rightarrow> log_field list" where
  "core_Write (ContextIgnoring c) flds = core_Write c (filter (\<lambda>f. \<not> fld_IsContext f) flds)"
| "core_Write _ flds = flds"

fun core_Level :: "core \<Rightarrow> Level" where
  "core_Level (OtelCore _ lvl) = lvl"
| "core_Level (ZapCore lvl) = lvl"
| "core_Level (ContextIgnoring c) = core_Level c"

fun core_Check :: "core \<Rightarrow> Level \<Rightarrow> bool" where
  "core_Check (ContextIgnoring _) lvl \<longleftrightarrow> True"
| "core_Check c lvl \<longleftrightarrow> core_Level c \<le> lvl"

record zap_Logger =
  zl_Name :: string
  zl_Cores :: "core list"
  zl_Filters :: "string option"

definition combinedCores :: "core \<Rightarrow> string \<Rightarrow> loggerConfig \<Rightarrow> Level \<Rightarrow> zap_Logger" where
  "combinedCores zl name myCfg level = \<lparr>zl_Name = [],
     zl_Cores = (if my_telemetry myCfg then [OtelCore name level] else []) @
       (if my_useZap myCfg then [if my_removeContextFields myCfg then ContextIgnoring zl else zl] else []),
     zl_Filters = None\<rparr>"

text \<open>zap writes an entry below DPanic only if a core is enabled for it, and then to the cores whose Check takes it.\<close>

definition zap_write :: "zap_Logger \<Rightarrow> Level \<Rightarrow> log_field list \<Rightarrow> (core \<times> log_field list) list" where
  "zap_write zl lvl flds = (
     if lvl < DPanicLevel \<and> \<not> (\<exists>c \<in> set (zl_Cores zl). core_Level c \<le> lvl) then []
     else map (\<lambda>c. (c, core_Write c flds)) (filter (\<lambda>c. core_Check c lvl) (zl_Cores zl)))"

datatype otel_Severity = SeverityUndefined | SeverityDebug | SeverityInfo | SeverityWarn | SeverityError | SeverityFatal1 | SeverityFatal2 | SeverityFatal3

definition convertLevel :: "Level \<Rightarrow> otel_Severity" where
  "convertLevel level = (if level = - 1 then SeverityDebug else if level = 0 then SeverityInfo else if level = 1 then SeverityWarn
     else if level = 2 then SeverityError else if level = 3 then SeverityFatal1 else if level = 4 then SeverityFatal2
     else if level = 5 then SeverityFatal3 else SeverityUndefined)"

subsection \<open>Loggers\<close>

record Logger =
  lg_l :: zap_Logger
  lg_level :: Level
  lg_zapConfig :: zap_Config
  lg_loggerConfigs :: "(string \<times> string) list"
  lg_myCfg :: loggerConfig
  lg_ctx :: bool

definition log_New :: "(string \<Rightarrow> Level) \<Rightarrow> zap_Config \<Rightarrow> (loggerConfig \<Rightarrow> loggerConfig) list \<Rightarrow> Logger" where
  "log_New level_of prodCfg opts = (
     let myCfg = newLoggerConfig prodCfg opts; cfg = my_cfg myCfg;
         zap = (if my_level myCfg \<noteq> [] then (lc_Zap cfg)\<lparr>cz_Level := level_of (my_level myCfg)\<rparr> else lc_Zap cfg);
         zapLogger = combinedCores (ZapCore (cz_Level zap)) [] myCfg (cz_Level zap);
         zapLogger = (case lc_Filters cfg of None \<Rightarrow> zapLogger
           | Some fs \<Rightarrow> zapLogger\<lparr>zl_Filters := Some (concat (map (\<lambda>f. f @ '' '') fs))\<rparr>)
     in \<lparr>lg_l = zapLogger, lg_level = cz_Level zap, lg_zapConfig = zap, lg_loggerConfigs = lc_Loggers cfg,
        lg_myCfg = myCfg\<lparr>my_cfg := cfg\<lparr>lc_Zap := zap\<rparr>\<rparr>, lg_ctx = False\<rparr>)"

definition WithCtx :: "Logger \<Rightarrow> Logger" where
  "WithCtx l = l\<lparr>lg_ctx := True\<rparr>"

definition addContext :: "Logger \<Rightarrow> log_field list \<Rightarrow> log_field list" where
  "addContext l flds = (if \<not> lg_ctx l then flds else flds @ [\<lparr>fld_Key = ''context'', fld_IsContext = True\<rparr>])"

definition log_Log :: "Logger \<Rightarrow> Level \<Rightarrow> log_field list \<Rightarrow> (core \<times> log_field list) list" where
  "log_Log l lvl flds = zap_write (lg_l l) lvl (addContext l flds)"

text \<open>strings.Split by a dot.\<close>

fun split_dots :: "string \<Rightarrow> string \<Rightarrow> string list" where
  "split_dots cur [] = [cur]"
| "split_dots cur (c # s) = (if c = CHR ''.'' then cur # split_dots [] s else split_dots (cur @ [c]) s)"

definition parts :: "string \<Rightarrow> string list" where
  "parts s = split_dots [] s"

definition name_matches :: "(string \<Rightarrow> string \<Rightarrow> bool) \<Rightarrow> string list \<Rightarrow> string \<Rightarrow> bool" where
  "name_matches matches queryParts s \<longleftrightarrow> length (parts s) \<le> length queryParts \<and>
     list_all2 (\<lambda>p q. matches (''^'' @ p @ ''$'') q) (parts s) (take (length (parts s)) queryParts)"

definition findBestMatch :: "(string \<Rightarrow> string \<Rightarrow> bool) \<Rightarrow> string list \<Rightarrow> string \<Rightarrow> string" where
  "findBestMatch matches stringsList query = fold (\<lambda>s bestMatch.
     if name_matches matches (parts query) s \<and> (bestMatch = [] \<or> length (parts bestMatch) < length (parts s)) then s else bestMatch) stringsList []"

definition log_Named :: "(string \<Rightarrow> string \<Rightarrow> bool) \<Rightarrow> (string \<Rightarrow> Level) \<Rightarrow> (string list \<Rightarrow> string list) \<Rightarrow> string \<Rightarrow> Logger \<Rightarrow> Logger" where
  "log_Named matches level_of keys name l = (
     let fullLoggerName = (if zl_Name (lg_l l) \<noteq> [] then zl_Name (lg_l l) @ ''.'' @ name else name);
         bestMatch = findBestMatch matches (keys (map fst (lg_loggerConfigs l))) fullLoggerName
     in if bestMatch = [] then l\<lparr>lg_l := (lg_l l)\<lparr>zl_Name := fullLoggerName\<rparr>, lg_ctx := False\<rparr>
        else let cfg = map_of (lg_loggerConfigs l) bestMatch;
                 level = (case cfg of Some c \<Rightarrow> if c \<noteq> [] then level_of c else lg_level l | None \<Rightarrow> lg_level l)
          in l\<lparr>lg_l := combinedCores (ZapCore level) fullLoggerName (lg_myCfg l) level, lg_level := level, lg_ctx := False\<rparr>)"

subsection \<open>The best match\<close>

lemma parts_nonempty: "1 \<le> length (parts s)"
proof -
  have "split_dots cur s \<noteq> []" for cur by (induction cur s rule: split_dots.induct) auto
  then show ?thesis by (simp add: parts_def Suc_le_eq)
qed

lemma best_match_inv:
  defines "step \<equiv> \<lambda>P (f :: string \<Rightarrow> nat) s b. if P s \<and> (b = [] \<or> f b < f s) then s else b"
  assumes "\<And>s. f [] \<le> f s"
  shows "(fold (step P f) ss [] = [] \<or> fold (step P f) ss [] \<in> set ss \<and> P (fold (step P f) ss [])) \<and>
    (\<forall>s \<in> set ss. P s \<and> s \<noteq> [] \<longrightarrow> fold (step P f) ss [] \<noteq> [] \<and> f s \<le> f (fold (step P f) ss []))"
proof (induction ss rule: rev_induct)
  case (snoc s ss)
  then show ?case using assms(2) by (auto simp: step_def leD)
qed simp

text \<open>
  The best match is one of the names that match the query, with the most parts; there is none only if no name matches.
\<close>

lemma best_match_spec:
  "case findBestMatch matches names query of
     [] \<Rightarrow> \<forall>s \<in> set names. s \<noteq> [] \<longrightarrow> \<not> name_matches matches (parts query) s
   | best \<Rightarrow> best \<in> set names \<and> name_matches matches (parts query) best \<and>
       (\<forall>s \<in> set names. s \<noteq> [] \<and> name_matches matches (parts query) s \<longrightarrow> length (parts s) \<le> length (parts best))"
  using best_match_inv[of "\<lambda>s. length (parts s)" "name_matches matches (parts query)" names] parts_nonempty
  by (auto simp: findBestMatch_def parts_def split: list.split)

text \<open>A configured name that a logger with the full name may take.\<close>

definition configured_match :: "(string \<Rightarrow> string \<Rightarrow> bool) \<Rightarrow> Logger \<Rightarrow> string \<Rightarrow> string \<Rightarrow> bool" where
  "configured_match matches l full s \<longleftrightarrow> s \<in> fst ` set (lg_loggerConfigs l) \<and> s \<noteq> [] \<and> name_matches matches (parts full) s"

definition full_name :: "Logger \<Rightarrow> string \<Rightarrow> string" where
  "full_name l name = (if zl_Name (lg_l l) \<noteq> [] then zl_Name (lg_l l) @ ''.'' @ name else name)"

lemma cores_level: "c \<in> set (zl_Cores (combinedCores (ZapCore level) full cfg level)) \<Longrightarrow> core_Level c = level"
  by (auto simp: combinedCores_def split: if_splits)


definition demo_logger :: Logger where
  "demo_logger = log_New (\<lambda>s. if s = ''debug'' then - 1 else 0) \<lparr>cz_Level = 0, cz_DisableCaller = False\<rparr>
    [WithLogConfig \<lparr>lc_DefaultLevel = ''info'', lc_Loggers = [(''grpc'', ''error''), (''grpc.race'', ''debug'')],
       lc_Zap = \<lparr>cz_Level = 0, cz_DisableCaller = False\<rparr>, lc_Filters = None\<rparr>]"

lemma demo_logger_configs: "lg_loggerConfigs demo_logger = [(''grpc'', ''error''), (''grpc.race'', ''debug'')]"
  by (simp add: demo_logger_def log_New_def newLoggerConfig_def WithLogConfig_def Let_def)

definition demo_matches :: "string \<Rightarrow> string \<Rightarrow> bool" where
  "demo_matches p q \<longleftrightarrow> p = ''^'' @ q @ ''$''"

definition demo_levels :: "string \<Rightarrow> Level" where
  "demo_levels s = (if s = ''debug'' then - 1 else 2)"


text \<open>Where two names with as many parts match, the order in which Go ranges over the map decides.\<close>

lemma best_match_order:
  assumes "set names = set names'"
    and "\<And>s s'. s \<in> set names \<Longrightarrow> s' \<in> set names \<Longrightarrow> name_matches matches (parts query) s \<Longrightarrow> name_matches matches (parts query) s' \<Longrightarrow>
      s \<noteq> [] \<Longrightarrow> s' \<noteq> [] \<Longrightarrow> length (parts s) = length (parts s') \<Longrightarrow> s = s'"
  shows "findBestMatch matches names query = findBestMatch matches names' query"
proof (cases "findBestMatch matches names query = []")
  case True
  then show ?thesis using best_match_spec[where matches = matches and names = names and query = query] best_match_spec[where matches = matches and names = names' and query = query] assms(1)
    by (auto split: list.splits)
next
  case False
  let ?b = "findBestMatch matches names query" and ?b' = "findBestMatch matches names' query"
  have b: "?b \<in> set names" "name_matches matches (parts query) ?b"
    "\<forall>s \<in> set names. s \<noteq> [] \<and> name_matches matches (parts query) s \<longrightarrow> length (parts s) \<le> length (parts ?b)"
    using best_match_spec[where matches = matches and names = names and query = query] False by (auto split: list.splits)
  then have b': "?b' \<noteq> []" using best_match_spec[where matches = matches and names = names' and query = query] False assms(1) by (auto split: list.splits)
  then have "?b' \<in> set names" "name_matches matches (parts query) ?b'"
    "\<forall>s \<in> set names. s \<noteq> [] \<and> name_matches matches (parts query) s \<longrightarrow> length (parts s) \<le> length (parts ?b')"
    using best_match_spec[where matches = matches and names = names' and query = query] assms(1) by (auto split: list.splits)
  with b False b' show ?thesis by (intro assms(2)) (auto intro: antisym)
qed

lemma best_match_ambiguous:
  "findBestMatch (\<lambda>_ _. True) [''a.b'', ''a.c''] ''a.b'' \<noteq> findBestMatch (\<lambda>_ _. True) [''a.c'', ''a.b''] ''a.b''"
  by code_simp

subsection \<open>Contexts in the log\<close>

inductive logger_reach :: "Logger \<Rightarrow> bool" where
  new: "my_removeContextFields (newLoggerConfig prodCfg opts) \<Longrightarrow> logger_reach (log_New level_of prodCfg opts)"
| named: "logger_reach l \<Longrightarrow> logger_reach (log_Named matches level_of keys name l)"
| with_ctx: "logger_reach l \<Longrightarrow> logger_reach (WithCtx l)"

definition hides_context :: "core \<Rightarrow> bool" where
  "hides_context c \<longleftrightarrow> (case c of OtelCore _ _ \<Rightarrow> True | ZapCore _ \<Rightarrow> False | ContextIgnoring _ \<Rightarrow> True)"

lemma combined_hides: "my_removeContextFields cfg \<Longrightarrow> \<forall>c \<in> set (zl_Cores (combinedCores zl name cfg lvl)). hides_context c"
  by (auto simp: combinedCores_def hides_context_def)

lemma logger_reach_hides:
  "logger_reach l \<Longrightarrow> my_removeContextFields (lg_myCfg l) \<and> (\<forall>c \<in> set (zl_Cores (lg_l l)). hides_context c)"
proof (induction rule: logger_reach.induct)
  case (new prodCfg opts level_of)
  then show ?case by (auto simp: log_New_def Let_def combined_hides split: option.splits)
next
  case (named l matches level_of keys name)
  then show ?case by (auto simp: log_Named_def Let_def combined_hides)
qed (simp add: WithCtx_def)

lemma write_no_context: "hides_context c \<Longrightarrow> (\<forall>n lvl. c \<noteq> OtelCore n lvl) \<Longrightarrow> \<forall>f \<in> set (core_Write c flds). \<not> fld_IsContext f"
proof (cases c)
  case (ContextIgnoring d)
  moreover have "set (core_Write d fs) \<subseteq> set fs" for fs by (induction d fs rule: core_Write.induct) auto
  ultimately show ?thesis by fastforce
qed (simp_all add: hides_context_def)

text \<open>
  A logger that removes contexts writes none of them to files or the console, whatever loggers are made from it with names and
  contexts; only the telemetry gets them.
\<close>

theorem log_no_context:
  assumes "logger_reach l" "(c, written) \<in> set (log_Log l lvl flds)" "\<forall>n v. c \<noteq> OtelCore n v"
  shows "\<forall>f \<in> set written. \<not> fld_IsContext f"
  using assms(2) logger_reach_hides[OF assms(1)] write_no_context[OF _ assms(3)]
  by (auto simp: log_Log_def zap_write_def split: if_splits)

definition demo_zap :: zap_Config where
  "demo_zap = \<lparr>cz_Level = 0, cz_DisableCaller = False\<rparr>"

theorem log_no_context_witness:
  "logger_reach (WithCtx (log_New (\<lambda>_. 0) demo_zap [])) \<and>
    (\<exists>c. (c, [\<lparr>fld_Key = ''k'', fld_IsContext = False\<rparr>]) \<in> set (log_Log (WithCtx (log_New (\<lambda>_. 0) demo_zap [])) 0 [\<lparr>fld_Key = ''k'', fld_IsContext = False\<rparr>])) \<and>
    (\<forall>w. (ContextIgnoring (ZapCore 0), w) \<in> set (log_Log (WithCtx (log_New (\<lambda>_. 0) demo_zap [])) 0 [\<lparr>fld_Key = ''k'', fld_IsContext = False\<rparr>]) \<longrightarrow>
      (\<forall>f \<in> set w. \<not> fld_IsContext f))"
proof -
  have r: "logger_reach (WithCtx (log_New (\<lambda>_. 0) demo_zap []))"
    by (intro logger_reach.with_ctx logger_reach.new) (simp add: newLoggerConfig_def Let_def)
  have "log_Log (WithCtx (log_New (\<lambda>_. 0) demo_zap [])) 0 [\<lparr>fld_Key = ''k'', fld_IsContext = False\<rparr>] =
      [(ContextIgnoring (ZapCore 0), [\<lparr>fld_Key = ''k'', fld_IsContext = False\<rparr>])]" by code_simp
  with r log_no_context[OF r] show ?thesis by simp
qed

subsection \<open>What is lost\<close>

text \<open>A logger with a configuration of its own has no filters, and its name is not part of those of its children.\<close>

lemma named_loses_filters_and_name:
  assumes "findBestMatch matches (keys (map fst (lg_loggerConfigs l))) (if zl_Name (lg_l l) \<noteq> [] then zl_Name (lg_l l) @ ''.'' @ name else name) \<noteq> []"
  shows "zl_Filters (lg_l (log_Named matches level_of keys name l)) = None" "zl_Name (lg_l (log_Named matches level_of keys name l)) = []"
  using assms by (simp_all add: log_Named_def Let_def combinedCores_def)

text \<open>The level of the command line, which is never empty, hides the default level of the file.\<close>

lemma file_default_level_unused:
  "lvl \<noteq> [] \<Longrightarrow> my_level (newLoggerConfig prodCfg [WithLogConfig cfg, WithLogLevel lvl]) = lvl"
  by (simp add: newLoggerConfig_def WithLogConfig_def WithLogLevel_def Let_def)

end
