(* ===== verification/Go_Text.thy ===== *)
theory Go_Text
  imports Go_Float64
begin

text \<open>
  What the code uses of Go's text packages: strings.Contains, strconv.Atoi, time.ParseDuration, and regexp for the two patterns of conncheck.go.

  Strings are lists of bytes.  A pattern is a value of rx with the constructs that occur in the code; match_rx is the
  backtracking search, whose first match is the leftmost-first match of regexp.
\<close>

subsection \<open>Digits\<close>

definition is_digit :: "char \<Rightarrow> bool" where
  "is_digit c \<longleftrightarrow> CHR ''0'' \<le> c \<and> c \<le> CHR ''9''"

definition digit_val :: "char \<Rightarrow> int" where
  "digit_val c = of_char c - 48"

definition number_of_digits :: "string \<Rightarrow> int" where
  "number_of_digits ds = foldl (\<lambda>n c. 10 * n + digit_val c) 0 ds"

fun contains :: "string \<Rightarrow> string \<Rightarrow> bool" where
  "contains [] sub \<longleftrightarrow> sub = []"
| "contains (c # s) sub \<longleftrightarrow> prefix sub (c # s) \<or> contains s sub"

lemma contains_iff_sublist: "contains s sub \<longleftrightarrow> sublist sub s"
  by (induction s) (auto simp: sublist_Cons_right)

text \<open>strconv.Atoi: the number and whether there is an error; out of range it is the nearest int.\<close>

definition Atoi :: "string \<Rightarrow> int \<times> bool" where
  "Atoi s = (
     let neg = (s \<noteq> [] \<and> hd s = CHR ''-''); ds = (if s \<noteq> [] \<and> hd s \<in> {CHR ''-'', CHR ''+''} then tl s else s)
     in if ds = [] \<or> \<not> list_all is_digit ds then (0, True)
        else let n = number_of_digits ds in
          if neg then (if n \<le> 2 ^ 63 then (- n, False) else (- (2 ^ 63), True))
          else (if n < 2 ^ 63 then (n, False) else (2 ^ 63 - 1, True)))"

text \<open>A letter in lower case, as strings.ToLower makes it of an ASCII text.\<close>

definition lower :: "char \<Rightarrow> char" where
  "lower c = (let n = of_char c :: nat in if 65 \<le> n \<and> n \<le> 90 then char_of (n + 32) else c)"

subsection \<open>Durations\<close>

text \<open>leadingInt: the digits at the front as a number, None when it does not fit.\<close>

fun leadingInt :: "string \<Rightarrow> int \<Rightarrow> (int \<times> string) option" where
  "leadingInt [] x = Some (x, [])"
| "leadingInt (c # s) x = (if \<not> is_digit c then Some (x, c # s)
     else if 2 ^ 63 div 10 < x then None
     else let x = 10 * x + digit_val c in if 2 ^ 63 < x then None else leadingInt s x)"

text \<open>leadingFraction: the digits as a number with their number; digits that do not fit any more are skipped.\<close>

fun leadingFraction :: "string \<Rightarrow> int \<Rightarrow> nat \<Rightarrow> bool \<Rightarrow> int \<times> nat \<times> string" where
  "leadingFraction [] x k over = (x, k, [])"
| "leadingFraction (c # s) x k over = (if \<not> is_digit c then (x, k, c # s)
     else if over \<or> (2 ^ 63 - 1) div 10 < x \<or> 2 ^ 63 < 10 * x + digit_val c then leadingFraction s x k True
     else leadingFraction s (10 * x + digit_val c) (Suc k) over)"

definition unitMap :: "string \<Rightarrow> int option" where
  "unitMap = map_of [(''ns'', 1), (''us'', 1000), ([CHR 0xC2, CHR 0xB5, CHR ''s''], 1000), ([CHR 0xCE, CHR 0xBC, CHR ''s''], 1000),
     (''ms'', 1000000), (''s'', 1000000000), (''m'', 60000000000), (''h'', 3600000000000)]"

text \<open>float64(f) * (float64(unit) / scale), cut off: the magnitudes are multiples of the smallest positive float64.\<close>

definition fraction_of :: "int \<Rightarrow> nat \<Rightarrow> int \<Rightarrow> int" where
  "fraction_of f k unit = (
     let quot = round_div 53 (nat unit * f64_unit) (10 ^ k); f64 = round_div 53 (nat f * f64_unit) 1
     in int (round_div 53 (f64 * quot) f64_unit div f64_unit))"

text \<open>The value of one number with its unit, and the rest.\<close>

definition duration_item :: "string \<Rightarrow> (int \<times> string) option" where
  "duration_item s = (if s = [] \<or> \<not> (hd s = CHR ''.'' \<or> is_digit (hd s)) then None
     else case leadingInt s 0 of
       None \<Rightarrow> None
     | Some (v, s1) \<Rightarrow> (
         let pre = (length s1 \<noteq> length s);
             (f, k, s2, post) = (if s1 \<noteq> [] \<and> hd s1 = CHR ''.''
               then let (f, k, r) = leadingFraction (tl s1) 0 0 False in (f, k, r, length r \<noteq> length (tl s1))
               else (0, 0, s1, False));
             u = takeWhile (\<lambda>c. c \<noteq> CHR ''.'' \<and> \<not> is_digit c) s2;
             s3 = dropWhile (\<lambda>c. c \<noteq> CHR ''.'' \<and> \<not> is_digit c) s2
         in if \<not> pre \<and> \<not> post then None
            else if u = [] then None
            else case unitMap u of
              None \<Rightarrow> None
            | Some unit \<Rightarrow> (if 2 ^ 63 div unit < v then None
                else let v = v * unit; v = (if 0 < f then v + fraction_of f k unit else v)
                  in if 2 ^ 63 < v then None else Some (v, s3))))"

lemma leadingInt_length: "leadingInt s x = Some (y, r) \<Longrightarrow> length r \<le> length s"
  by (induction s x rule: leadingInt.induct) (auto simp: Let_def split: if_splits)

lemma leadingFraction_length: "length (snd (snd (leadingFraction s x k over))) \<le> length s"
  by (induction s x k over rule: leadingFraction.induct) auto

lemma duration_item_shorter:
  assumes "duration_item s = Some (v, r)"
  shows "length r < length s"
proof -
  have drop: "takeWhile P t \<noteq> [] \<Longrightarrow> length (dropWhile P t) < length t" for P and t :: string
    by (cases t) (auto simp: le_imp_less_Suc length_dropWhile_le split: if_splits)
  obtain w s1 where li: "leadingInt s 0 = Some (w, s1)" using assms by (auto simp: duration_item_def split: option.splits if_splits)
  have s1: "length s1 \<le> length s" using leadingInt_length[OF li] .
  have frac: "length (snd (snd (leadingFraction (tl s1) 0 0 False))) \<le> length s1"
    using leadingFraction_length[of "tl s1" 0 0 False] by simp
  show ?thesis using assms s1 frac
    by (auto simp: duration_item_def li Let_def split: option.splits if_splits prod.splits dest!: drop)
qed

function duration_items :: "string \<Rightarrow> int \<Rightarrow> int option" where
  "duration_items s d = (if s = [] then Some d
     else case duration_item s of
       None \<Rightarrow> None
     | Some (v, r) \<Rightarrow> if 2 ^ 63 < d + v then None else duration_items r (d + v))"
  by pat_completeness auto
termination
  by (relation "measure (length \<circ> fst)") (auto dest: duration_item_shorter)

declare duration_items.simps [simp del]

text \<open>time.ParseDuration, in nanoseconds; None is the error.\<close>

definition ParseDuration :: "string \<Rightarrow> int option" where
  "ParseDuration s = (
     let neg = (s \<noteq> [] \<and> hd s = CHR ''-''); s = (if s \<noteq> [] \<and> hd s \<in> {CHR ''-'', CHR ''+''} then tl s else s)
     in if s = ''0'' then Some 0
        else if s = [] then None
        else case duration_items s 0 of
          None \<Rightarrow> None
        | Some d \<Rightarrow> if neg then Some (- d) else if 2 ^ 63 - 1 < d then None else Some d)"

lemma digit_val_range: "is_digit c \<Longrightarrow> 0 \<le> digit_val c \<and> digit_val c \<le> 9"
  using of_nat_of_char[of c, where 'a = int] by (auto simp: digit_val_def is_digit_def less_eq_char_def)

lemma leadingInt_nonneg: "leadingInt s x = Some (y, r) \<Longrightarrow> 0 \<le> x \<Longrightarrow> 0 \<le> y"
  by (induction s x rule: leadingInt.induct) (auto simp: Let_def dest!: digit_val_range split: if_splits)

lemma unitMap_pos: "unitMap u = Some unit \<Longrightarrow> 0 < unit"
  by (auto simp: unitMap_def split: if_splits)

lemma duration_item_bound:
  assumes "duration_item s = Some (v, r)"
  shows "0 \<le> v \<and> v \<le> 2 ^ 63"
proof -
  obtain w s1 where li: "leadingInt s 0 = Some (w, s1)" using assms by (auto simp: duration_item_def split: option.splits if_splits)
  have "0 \<le> w" using leadingInt_nonneg[OF li] by simp
  moreover have "0 \<le> fraction_of f k unit" for f k unit by (simp add: fraction_of_def Let_def)
  ultimately show ?thesis using assms
    by (auto simp: duration_item_def li Let_def dest: unitMap_pos intro!: add_nonneg_nonneg mult_nonneg_nonneg split: option.splits if_splits prod.splits)
qed

lemma duration_items_bound: "duration_items s d = Some x \<Longrightarrow> 0 \<le> d \<Longrightarrow> d \<le> 2 ^ 63 \<Longrightarrow> 0 \<le> x \<and> x \<le> 2 ^ 63"
proof (induction s d rule: duration_items.induct)
  case (1 s d)
  show ?case
  proof (cases "s = []")
    case False
    with "1.prems"(1) obtain v r where item: "duration_item s = Some (v, r)" and le: "\<not> 2 ^ 63 < d + v" and rest: "duration_items r (d + v) = Some x"
      by (subst (asm) duration_items.simps) (auto split: option.splits if_splits)
    from duration_item_bound[OF item] le "1.prems"(2) show ?thesis by (intro "1.IH"[OF False item refl le rest]) auto
  qed (use "1.prems" in \<open>auto simp: duration_items.simps\<close>)
qed

text \<open>A duration is an int64.\<close>

lemma ParseDuration_bound:
  assumes "ParseDuration s = Some d"
  shows "- (2 ^ 63) \<le> d \<and> d < 2 ^ 63"
  using assms by (auto simp: ParseDuration_def Let_def dest!: duration_items_bound split: if_splits option.splits)

lemma ParseDuration_values:
  "ParseDuration ''1m'' = Some 60000000000" "ParseDuration ''15s'' = Some 15000000000" "ParseDuration ''1h30m'' = Some 5400000000000"
  "ParseDuration ''-2ms'' = Some (- 2000000)" "ParseDuration ''60'' = None" "ParseDuration [] = None"
  by code_simp+

end
