(* ===== verification/Calc_Type.thy ===== *)
theory Calc_Type
  imports Go_Text
begin

text \<open>
  The type of a calculation of race stints and its text, pkg/grpc/racestints/racestints.go.  A text that is no type is an error, an
  empty one the simple calculation.
\<close>

datatype CalcType = CalcTypeSimple | CalcTypeExpert

text \<open>unmarshalText: the type, if the text is one.\<close>

definition calc_String :: "CalcType \<Rightarrow> string" where
  "calc_String c = (case c of CalcTypeSimple \<Rightarrow> ''simple'' | CalcTypeExpert \<Rightarrow> ''expert'')"

definition calc_MarshalText :: "CalcType \<Rightarrow> string" where
  "calc_MarshalText c = calc_String c"

definition unmarshalText :: "string \<Rightarrow> CalcType option" where
  "unmarshalText text = (let t = map lower text in
     if t = ''simple'' \<or> t = [] then Some CalcTypeSimple else if t = ''expert'' then Some CalcTypeExpert else None)"

text \<open>UnmarshalText of a value that is there: None is the error.\<close>

definition UnmarshalText :: "string \<Rightarrow> CalcType option" where
  "UnmarshalText text = (case unmarshalText text of Some c \<Rightarrow> Some c | None \<Rightarrow> unmarshalText (map lower text))"

definition ParseCalcType :: "string \<Rightarrow> CalcType option" where
  "ParseCalcType text = UnmarshalText text"

lemma lower_idem [simp]: "lower (lower c) = lower c"
proof -
  have "of_char c mod 256 = (of_char c :: nat)" by (rule of_char_mod_256)
  then have "of_char c < (256 :: nat)" by (metis mod_less_divisor zero_less_numeral)
  then show ?thesis by (simp add: lower_def Let_def of_char_of)
qed

text \<open>The second try with the text in lower case never helps.\<close>

lemma UnmarshalText_once: "UnmarshalText text = unmarshalText text"
  by (simp add: UnmarshalText_def unmarshalText_def Let_def comp_def split: option.splits)

lemma calc_texts: "unmarshalText ''simple'' = Some CalcTypeSimple" "unmarshalText ''expert'' = Some CalcTypeExpert"
  by code_simp+

text \<open>What is printed is read back, in whatever letters.\<close>

lemma calc_type_roundtrip:
  assumes "map lower text = map lower (calc_MarshalText c)"
  shows "ParseCalcType text = Some c"
proof -
  have "unmarshalText text = unmarshalText (calc_MarshalText c)" using assms by (simp add: unmarshalText_def)
  then show ?thesis by (cases c) (simp_all add: ParseCalcType_def UnmarshalText_once calc_MarshalText_def calc_String_def calc_texts)
qed

end
