(* ===== verification/Tls_Certs.thy ===== *)
theory Tls_Certs
  imports Go_Prelude
begin

text \<open>
  The certificates of the TLS server: pkg/cmd/server/grpc/tlsconfig.go, which loads a certificate, serves it and loads it again when its file changes, and
  pkg/utils/certs/traefik/cert.go, which finds it in the file of the traefik proxy.

  Reading a file, parsing JSON and paths and making a key pair are arguments; an event of the file watcher comes with what reading the files gives at
  that moment.  The base64 decoder of Go's library is modelled.
\<close>

subsection \<open>base64\<close>

definition b64_alphabet :: string where
  "b64_alphabet = ''ABCDEFGHIJKLMNOPQRSTUVWXYZabcdefghijklmnopqrstuvwxyz0123456789+/''"

definition b64_val :: "char \<Rightarrow> nat option" where
  "b64_val c = index_func (\<lambda>d. d = c) b64_alphabet"

text \<open>The quads of a text without line breaks, to bytes; padding only at the end.\<close>

fun b64_quads :: "string \<Rightarrow> nat list option" where
  "b64_quads [] = Some []"
| "b64_quads (a # b # c # d # r) = do {
     x \<leftarrow> b64_val a;
     y \<leftarrow> b64_val b;
     (if c = CHR ''='' then (if d = CHR ''='' \<and> r = [] then Some [x * 4 + y div 16] else None)
      else do {
        z \<leftarrow> b64_val c;
        (if d = CHR ''='' then (if r = [] then Some [x * 4 + y div 16, y mod 16 * 16 + z div 4] else None)
         else do {
           w \<leftarrow> b64_val d;
           rest \<leftarrow> b64_quads r;
           Some ((x * 4 + y div 16) # (y mod 16 * 16 + z div 4) # (z mod 4 * 64 + w) # rest)
         })
      })
   }"
| "b64_quads _ = None"

definition b64_DecodeString :: "string \<Rightarrow> nat list option" where
  "b64_DecodeString s = b64_quads (filter (\<lambda>c. c \<noteq> CHR 0x0A \<and> c \<noteq> CHR 0x0D) s)"

subsection \<open>The store of traefik\<close>

record ('j, 'e, 'cert) cert_libs =
  os_ReadFile :: "string \<Rightarrow> 'e + string"
  oj_ParseString :: "string \<Rightarrow> 'e + 'j"
  jp_Path :: "string \<Rightarrow> 'e + ('j \<Rightarrow> 'j list)"
  \<comment> \<open>the path for the elements of Certificates whose domain.main is the text, and its Get\<close>
  oj_Unmarshal :: "'j \<Rightarrow> 'e + (string \<times> string)"
  \<comment> \<open>the fields certificate and key\<close>
  tls_X509KeyPair :: "nat list \<Rightarrow> nat list \<Rightarrow> 'e + 'cert"
  tls_LoadX509KeyPair :: "string \<Rightarrow> string \<Rightarrow> 'e + 'cert"

datatype 'e cert_error = LibError 'e | DomainNotFound | CorruptInput

definition lib_result :: "'e + 'a \<Rightarrow> 'e cert_error + 'a" where
  "lib_result r = (case r of Inl e \<Rightarrow> Inl (LibError e) | Inr x \<Rightarrow> Inr x)"

text \<open>Go on with the value, or return the error.\<close>

definition try_bind :: "'e + 'a \<Rightarrow> ('a \<Rightarrow> 'e + 'b) \<Rightarrow> 'e + 'b" where
  "try_bind r f = (case r of Inl e \<Rightarrow> Inl e | Inr x \<Rightarrow> f x)"

lemma try_bind_simps [simp]: "try_bind (Inl e) f = Inl e" "try_bind (Inr x) f = f x"
  by (simp_all add: try_bind_def)

definition getCertData :: "('j, 'e, 'cert) cert_libs \<Rightarrow> string \<Rightarrow> string \<Rightarrow> 'e cert_error + (string \<times> string)" where
  "getCertData L jsonData domain =
     try_bind (lib_result (oj_ParseString L jsonData)) (\<lambda>obj.
     try_bind (lib_result (jp_Path L domain)) (\<lambda>path.
       case path obj of
         [] \<Rightarrow> Inl DomainNotFound
       | r # _ \<Rightarrow> lib_result (oj_Unmarshal L r)))"

definition decode_result :: "string \<Rightarrow> 'e cert_error + nat list" where
  "decode_result s = (case b64_DecodeString s of None \<Rightarrow> Inl CorruptInput | Some bs \<Rightarrow> Inr bs)"

definition GetCertifcate :: "('j, 'e, 'cert) cert_libs \<Rightarrow> string \<Rightarrow> string \<Rightarrow> 'e cert_error + 'cert" where
  "GetCertifcate L jsonData domain =
     try_bind (getCertData L jsonData domain) (\<lambda>(certData, keyData).
     try_bind (decode_result certData) (\<lambda>decodedCertData.
     try_bind (decode_result keyData) (\<lambda>decodedKeyData.
       lib_result (tls_X509KeyPair L decodedCertData decodedKeyData))))"

definition GetCertFromTraefik :: "('j, 'e, 'cert) cert_libs \<Rightarrow> string \<Rightarrow> string \<Rightarrow> 'e cert_error + 'cert" where
  "GetCertFromTraefik L file domain = try_bind (lib_result (os_ReadFile L file)) (\<lambda>data. GetCertifcate L data domain)"

subsection \<open>The certificate of the server\<close>

record tls_flags =
  TLSCertFile :: string
  TLSKeyFile :: string
  TLSCAFile :: string
  TraefikCerts :: string
  TraefikCertDomain :: string

text \<open>The certificate that loading gives, if it gives one.\<close>

definition load_result :: "tls_flags \<Rightarrow> ('j, 'e, 'cert) cert_libs \<Rightarrow> 'cert option" where
  "load_result fl L = (
     if TraefikCerts fl \<noteq> [] \<and> TraefikCertDomain fl \<noteq> [] then
       (case GetCertFromTraefik L (TraefikCerts fl) (TraefikCertDomain fl) of Inl _ \<Rightarrow> None | Inr cert \<Rightarrow> Some cert)
     else if TLSCertFile fl \<noteq> [] \<and> TLSKeyFile fl \<noteq> [] then
       (case tls_LoadX509KeyPair L (TLSCertFile fl) (TLSKeyFile fl) of Inl _ \<Rightarrow> None | Inr cert \<Rightarrow> Some cert)
     else None)"

text \<open>loadCert: an error leaves the certificate as it is.\<close>

definition loadCert :: "tls_flags \<Rightarrow> ('j, 'e, 'cert) cert_libs \<Rightarrow> 'cert option \<Rightarrow> 'cert option" where
  "loadCert fl L c = (case load_result fl L of None \<Rightarrow> c | Some cert \<Rightarrow> Some cert)"

record 'pool TLSConfig =
  MinVersion13 :: bool
  ClientCAs :: "'pool option"
  VerifyClientCertIfGiven :: bool

text \<open>The configuration, without one when there is no certificate; mkPool makes a pool of the CA file, which may be empty.\<close>

definition NewTLSConfigProvider :: "tls_flags \<Rightarrow> ('j, 'e, 'cert) cert_libs \<Rightarrow> ('e + string \<Rightarrow> 'pool) \<Rightarrow> ('pool TLSConfig \<times> 'cert) option" where
  "NewTLSConfigProvider fl L mkPool = map_option (\<lambda>cert.
     (if TLSCAFile fl \<noteq> []
      then \<lparr>MinVersion13 = True, ClientCAs = Some (mkPool (os_ReadFile L (TLSCAFile fl))), VerifyClientCertIfGiven = True\<rparr>
      else \<lparr>MinVersion13 = True, ClientCAs = None, VerifyClientCertIfGiven = False\<rparr>, cert))
     (loadCert fl L None)"

text \<open>What the goroutine that watches the files can receive; a file event has the bits Write and Chmod among others.\<close>

datatype ('j, 'e, 'cert) watch_event =
    CtxDone
  | FileEvent (fe_Write: bool) (fe_Chmod: bool) (fe_libs: "('j, 'e, 'cert) cert_libs")
  | EventsClosed
  | WatchError
  | ErrorsClosed

text \<open>The certificate, and whether the goroutine still runs.\<close>

fun watch_step :: "tls_flags \<Rightarrow> ('j, 'e, 'cert) watch_event \<Rightarrow> 'cert option \<times> bool \<Rightarrow> 'cert option \<times> bool" where
  "watch_step fl ev (c, False) = (c, False)"
| "watch_step fl CtxDone (c, True) = (c, False)"
| "watch_step fl (FileEvent wr ch L) (c, True) = (if wr \<or> ch then loadCert fl L c else c, True)"
| "watch_step fl EventsClosed (c, True) = (c, False)"
| "watch_step fl WatchError (c, True) = (c, True)"
| "watch_step fl ErrorsClosed (c, True) = (c, False)"

definition watchAndReloadCerts :: "tls_flags \<Rightarrow> ('j, 'e, 'cert) watch_event list \<Rightarrow> 'cert option \<Rightarrow> 'cert option \<times> bool" where
  "watchAndReloadCerts fl evs c = fold (watch_step fl) evs (c, True)"

definition watched_files :: "tls_flags \<Rightarrow> string list" where
  "watched_files fl = filter (\<lambda>f. f \<noteq> []) [TLSCertFile fl, TLSKeyFile fl, TraefikCerts fl]"

definition GetCertificate :: "'cert option \<times> bool \<Rightarrow> 'cert option" where
  "GetCertificate = fst"

subsection \<open>Properties\<close>

text \<open>The events at which the certificate is loaded: file events with one of the two bits, until the goroutine ends.\<close>

fun reloads :: "('j, 'e, 'cert) watch_event list \<Rightarrow> ('j, 'e, 'cert) cert_libs list" where
  "reloads [] = []"
| "reloads (FileEvent wr ch L # evs) = (if wr \<or> ch then L # reloads evs else reloads evs)"
| "reloads (WatchError # evs) = reloads evs"
| "reloads (_ # evs) = []"

lemma watch_stopped: "fold (watch_step fl) evs (c, False) = (c, False)"
  by (induction evs) simp_all

lemma watch_certs: "fst (fold (watch_step fl) evs (Some c, True)) = Some (last (c # List.map_filter (load_result fl) (reloads evs)))"
proof (induction evs arbitrary: c rule: reloads.induct)
  case (2 wr ch L evs)
  then show ?case by (auto simp: loadCert_def map_filter_simps split: option.splits)
qed (simp_all add: map_filter_simps watch_stopped)


text \<open>When the store of traefik is configured and gives no certificate, the other files are not tried.\<close>

lemma traefik_only:
  assumes "TraefikCerts fl \<noteq> []" "TraefikCertDomain fl \<noteq> []" "GetCertFromTraefik L (TraefikCerts fl) (TraefikCertDomain fl) = Inl err"
  shows "NewTLSConfigProvider fl L mkPool = None"
  using assms by (simp add: NewTLSConfigProvider_def loadCert_def load_result_def)

text \<open>A file that is replaced, by an event that is neither a write nor a change of attributes, is not loaded.\<close>

lemma replaced_file_not_loaded: "watch_step fl (FileEvent False False L) (c, True) = (c, True)"
  by simp

text \<open>The decoder reads what the standard encoding writes.\<close>

definition b64_char :: "nat \<Rightarrow> char" where
  "b64_char n = b64_alphabet ! n"

fun b64_encode :: "nat list \<Rightarrow> string" where
  "b64_encode [] = []"
| "b64_encode [x] = [b64_char (x div 4), b64_char (x mod 4 * 16), CHR ''='', CHR ''='']"
| "b64_encode [x, y] = [b64_char (x div 4), b64_char (x mod 4 * 16 + y div 16), b64_char (y mod 16 * 4), CHR ''='']"
| "b64_encode (x # y # z # r) = b64_char (x div 4) # b64_char (x mod 4 * 16 + y div 16) # b64_char (y mod 16 * 4 + z div 64) #
     b64_char (z mod 64) # b64_encode r"

lemma index_func_nth: "distinct xs \<Longrightarrow> n < length xs \<Longrightarrow> index_func (\<lambda>d. d = xs ! n) xs = Some n"
proof (induction xs arbitrary: n)
  case (Cons x xs)
  then show ?case by (cases n) auto
qed simp

lemma b64_alphabet_facts: "distinct b64_alphabet" "length b64_alphabet = 64" "CHR ''='' \<notin> set b64_alphabet"
  by code_simp+

lemma b64_val_char [simp]: "n < 64 \<Longrightarrow> b64_val (b64_char n) = Some n"
  using index_func_nth[OF b64_alphabet_facts(1)] by (simp add: b64_val_def b64_char_def b64_alphabet_facts(2))

lemma b64_char_not_pad [simp]: "n < 64 \<Longrightarrow> b64_char n \<noteq> CHR ''=''"
  using nth_mem[of n b64_alphabet, unfolded b64_alphabet_facts(2)] b64_alphabet_facts(3) by (auto simp: b64_char_def)

lemma pack: "b < m \<Longrightarrow> (a * m + b) div m = a" "b < m \<Longrightarrow> (a * m + b) mod m = b" for a b m :: nat
  by simp_all

text \<open>The four values of three bytes, and back.\<close>

lemma quad_values:
  assumes "x < 256" "y < 256" "z < (256::nat)"
  shows "x div 4 < 64" "x mod 4 * 16 + y div 16 < 64" "y mod 16 * 4 + z div 64 < 64" "z mod 64 < 64"
    "(x mod 4 * 16 + y div 16) div 16 = x mod 4" "(x mod 4 * 16 + y div 16) mod 16 = y div 16"
    "(y mod 16 * 4 + z div 64) div 4 = y mod 16" "(y mod 16 * 4 + z div 64) mod 4 = z div 64"
proof -
  have *: "x div 4 < 64" "y div 16 < 16" "z div 64 < 4" "x mod 4 < 4" "y mod 16 < 16" using assms by simp_all
  show "x div 4 < 64" by (rule *(1))
  show "x mod 4 * 16 + y div 16 < 64" using *(2,4) by linarith
  show "y mod 16 * 4 + z div 64 < 64" using *(3,5) by linarith
  show "z mod 64 < 64" by simp
  show "(x mod 4 * 16 + y div 16) div 16 = x mod 4" "(x mod 4 * 16 + y div 16) mod 16 = y div 16" using *(2) by (simp_all only: pack)
  show "(y mod 16 * 4 + z div 64) div 4 = y mod 16" "(y mod 16 * 4 + z div 64) mod 4 = z div 64" using *(3) by (simp_all only: pack)
qed

lemma b64_quads_encode: "\<forall>x \<in> set bs. x < 256 \<Longrightarrow> b64_quads (b64_encode bs) = Some bs"
proof (induction bs rule: b64_encode.induct)
  case (2 x)
  then show ?case using quad_values[of x 0 0] by (simp del: mod_mult_self1 mod_mult_self2)
next
  case (3 x y)
  then show ?case using quad_values[of x y 0] by (simp add: div_mod_decomp)
next
  case (4 x y z r)
  then have "y < 16 * 16" by simp
  then have "y div 16 < 16" by (rule less_mult_imp_div_less)
  then have y: "y div 16 mod 16 * 16 + y mod 16 = y" "y div 16 div 16 = 0" by (simp only: mod_less div_mult_mod_eq, rule div_less)
  with 4 show ?case using quad_values[of x y z] by simp (simp only: y(1))
qed simp

end
