(* ===== verification/Telemetry.thy ===== *)
theory Telemetry
  imports Tls_Certs Go_Text
begin

text \<open>
  The setup of telemetry (pkg/otel/otel_setup.go): metrics, traces and logs are each given an exporter, in this order, and a provider that is made the
  global one; the certificates of the exporter of logs come from the environment.

  The exporters are those of the OpenTelemetry libraries: whether one can be made is an argument.
\<close>

datatype TelemetryOutput = StdOut | Grpc

definition output_String :: "TelemetryOutput \<Rightarrow> string" where
  "output_String out = (case out of StdOut \<Rightarrow> ''stdout'' | Grpc \<Rightarrow> ''grpc'')"

definition ParseTelemetryOutput :: "string \<Rightarrow> TelemetryOutput" where
  "ParseTelemetryOutput arg = (let a = map lower arg in if a = ''stdout'' then StdOut else if a = ''grpc'' then Grpc else StdOut)"

subsection \<open>The environment\<close>

text \<open>os.Getenv: the empty text for a variable that is not set.\<close>

definition getEnv :: "(string \<Rightarrow> string) \<Rightarrow> string \<Rightarrow> string \<Rightarrow> string" where
  "getEnv env key component = (let val = env (''OTEL_EXPORTER_OTLP_'' @ component @ ''_'' @ key) in
     if val \<noteq> [] then val else env (''OTEL_EXPORTER_OTLP_'' @ key))"

record ('cert, 'pool) client_tls =
  ct_Certificates :: "'cert list"
  ct_RootCAs :: "'pool option"

text \<open>mkPool is AppendCertsFromPEM on a new pool, None when it refuses the file.\<close>

datatype 'e tls_error = FileError 'e | BadCA

definition buildTLSConfig :: "(string \<Rightarrow> string) \<Rightarrow> ('j, 'e, 'cert) cert_libs \<Rightarrow> (string \<Rightarrow> 'pool option) \<Rightarrow> 'e tls_error + ('cert, 'pool) client_tls option" where
  "buildTLSConfig env L mkPool = (
     let insecureEnv = getEnv env ''INSECURE'' ''LOGS''; caEnv = getEnv env ''CERTIFICATE'' ''LOGS'';
         keyEnv = getEnv env ''CLIENT_KEY'' ''LOGS''; certEnv = getEnv env ''CLIENT_CERTIFICATE'' ''LOGS''
     in if caEnv = [] \<and> keyEnv = [] \<and> certEnv = [] \<and> insecureEnv = ''true'' then Inr None
     else case (if keyEnv \<noteq> [] \<and> certEnv \<noteq> [] then map_sum FileError (\<lambda>cert. [cert]) (tls_LoadX509KeyPair L certEnv keyEnv) else Inr []) of
       Inl err \<Rightarrow> Inl err
     | Inr certs \<Rightarrow> (if caEnv = [] then Inr (Some \<lparr>ct_Certificates = certs, ct_RootCAs = None\<rparr>)
         else case os_ReadFile L caEnv of
           Inl err \<Rightarrow> Inl (FileError err)
         | Inr caCert \<Rightarrow> (case mkPool caCert of
             None \<Rightarrow> Inl BadCA
           | Some pool \<Rightarrow> Inr (Some \<lparr>ct_Certificates = certs, ct_RootCAs = Some pool\<rparr>))))"

subsection \<open>Setup and shutdown\<close>

datatype telemetry_signal = Metrics | Traces | Logs

record otel_config =
  ot_output :: TelemetryOutput
  ot_runtimeStats :: bool

definition WithTelemetryOutput :: "TelemetryOutput \<Rightarrow> otel_config \<Rightarrow> otel_config" where
  "WithTelemetryOutput arg c = c\<lparr>ot_output := arg\<rparr>"

definition WithRuntimeStats :: "bool \<Rightarrow> otel_config \<Rightarrow> otel_config" where
  "WithRuntimeStats arg c = c\<lparr>ot_runtimeStats := arg\<rparr>"

text \<open>
  exporterOk tells whether the exporter of a signal could be made, with the TLS configuration for logs over gRPC (None is an insecure
  connection).
\<close>

record ('cert, 'pool) otel_env =
  oe_exporter :: "TelemetryOutput \<Rightarrow> telemetry_signal \<Rightarrow> ('cert, 'pool) client_tls option \<Rightarrow> bool"
  oe_runtime :: bool

text \<open>The providers that have been made global, also when there is an error.\<close>

definition setupMetrics :: "('cert, 'pool) otel_env \<Rightarrow> otel_config \<Rightarrow> telemetry_signal list \<Rightarrow> bool \<times> telemetry_signal list" where
  "setupMetrics X c done = (if oe_exporter X (ot_output c) Metrics None then (True, done @ [Metrics]) else (False, done))"

definition setupTraces :: "('cert, 'pool) otel_env \<Rightarrow> otel_config \<Rightarrow> telemetry_signal list \<Rightarrow> bool \<times> telemetry_signal list" where
  "setupTraces X c done = (if oe_exporter X (ot_output c) Traces None then (True, done @ [Traces]) else (False, done))"

definition setupLogs :: "('cert, 'pool) otel_env \<Rightarrow> 'e tls_error + ('cert, 'pool) client_tls option \<Rightarrow> otel_config \<Rightarrow> telemetry_signal list \<Rightarrow>
    bool \<times> telemetry_signal list" where
  "setupLogs X tls c done = (case (case ot_output c of StdOut \<Rightarrow> Inr None | Grpc \<Rightarrow> tls) of
     Inl err \<Rightarrow> (False, done)
   | Inr tlsCfg \<Rightarrow> (if oe_exporter X (ot_output c) Logs tlsCfg then (True, done @ [Logs]) else (False, done)))"

text \<open>Whether there is no error, and the providers.\<close>

definition otel_SetupTelemetry :: "('cert, 'pool) otel_env \<Rightarrow> 'e tls_error + ('cert, 'pool) client_tls option \<Rightarrow> (otel_config \<Rightarrow> otel_config) list \<Rightarrow>
    bool \<times> telemetry_signal list" where
  "otel_SetupTelemetry X tls opts = (let cfg = fold id opts \<lparr>ot_output = Grpc, ot_runtimeStats = True\<rparr> in
     case setupMetrics X cfg [] of (False, done) \<Rightarrow> (False, done) | (True, done) \<Rightarrow>
     (case setupTraces X cfg done of (False, done) \<Rightarrow> (False, done) | (True, done) \<Rightarrow>
     (case setupLogs X tls cfg done of (False, done) \<Rightarrow> (False, done) | (True, done) \<Rightarrow>
       (ot_runtimeStats cfg \<longrightarrow> oe_runtime X, done))))"

text \<open>Shutdown prints the errors and goes on: first everything is flushed, then shut down.\<close>

datatype telemetry_call = ForceFlush telemetry_signal | ShutdownProvider telemetry_signal

definition telemetry_Shutdown :: "(telemetry_call \<Rightarrow> bool) \<Rightarrow> telemetry_call list \<times> telemetry_call list" where
  "telemetry_Shutdown ok = (let calls = map ForceFlush [Metrics, Traces, Logs] @ map ShutdownProvider [Metrics, Traces, Logs] in
     (calls, filter (\<lambda>c. \<not> ok c) calls))"

subsection \<open>What holds\<close>

lemma output_texts: "ParseTelemetryOutput ''stdout'' = StdOut" "ParseTelemetryOutput ''grpc'' = Grpc" "ParseTelemetryOutput ''GRPC'' = Grpc"
  by code_simp+

lemma output_roundtrip: "ParseTelemetryOutput (output_String out) = out"
  by (cases out) (simp_all add: output_String_def output_texts)

lemma unknown_output_is_stdout: "ParseTelemetryOutput ''otlp'' = StdOut"
  by code_simp

text \<open>
  Telemetry is there exactly when every exporter could be made and the statistics started; after an error the providers of the signals before
  it stay the global ones, without anyone who would shut them down.
\<close>

lemma telemetry_setup:
  "otel_SetupTelemetry X tls [WithTelemetryOutput out] = (ok, provided) \<Longrightarrow>
    provided \<in> {[], [Metrics], [Metrics, Traces], [Metrics, Traces, Logs]} \<and>
    (ok \<longleftrightarrow> provided = [Metrics, Traces, Logs] \<and> oe_runtime X) \<and>
    (Metrics \<in> set provided \<longleftrightarrow> oe_exporter X out Metrics None) \<and>
    (Logs \<in> set provided \<longrightarrow> out = StdOut \<or> (\<exists>cfg. tls = Inr cfg \<and> oe_exporter X Grpc Logs cfg))"
  by (auto simp: otel_SetupTelemetry_def setupMetrics_def setupTraces_def setupLogs_def WithTelemetryOutput_def Let_def
      split: if_splits sum.splits TelemetryOutput.splits)

text \<open>Logs go over an insecure connection only when the environment says so and names no certificate.\<close>

lemma insecure_logs:
  "buildTLSConfig env L mkPool = Inr None \<longleftrightarrow> getEnv env ''INSECURE'' ''LOGS'' = ''true'' \<and> getEnv env ''CERTIFICATE'' ''LOGS'' = [] \<and>
    getEnv env ''CLIENT_KEY'' ''LOGS'' = [] \<and> getEnv env ''CLIENT_CERTIFICATE'' ''LOGS'' = []"
  by (auto simp: buildTLSConfig_def Let_def split: sum.splits option.splits)

text \<open>A key without a certificate is ignored.\<close>

lemma key_without_certificate:
  assumes "getEnv env ''CLIENT_CERTIFICATE'' ''LOGS'' = []" "getEnv env ''CERTIFICATE'' ''LOGS'' = []" "getEnv env ''CLIENT_KEY'' ''LOGS'' \<noteq> []"
  shows "buildTLSConfig env L mkPool = Inr (Some \<lparr>ct_Certificates = [], ct_RootCAs = None\<rparr>)"
  using assms by (simp add: buildTLSConfig_def)

end
