(* ===== verification/Database_Access.thy ===== *)
theory Database_Access
  imports Go_Prelude
begin

text \<open>
  The pool of connections (pkg/db/postgres/postgres.go) and the columns that hold JSON (pkg/db/mytypes/mytypes.go).

  pgxpool and encoding/json are arguments.
\<close>

subsection \<open>The pool\<close>

record 'tracer pool_config =
  pg_URL :: string
  pg_AfterConnect_uuid :: bool
  pg_Tracer :: "'tracer option"

record 'tracer pool_lib =
  pl_ParseConfig :: "string \<Rightarrow> bool"
  pl_New :: "'tracer pool_config \<Rightarrow> bool"
  pl_Ping :: "'tracer pool_config \<Rightarrow> bool"

definition postgres_WithTracer :: "'tracer \<Rightarrow> 'tracer pool_config \<Rightarrow> 'tracer pool_config" where
  "postgres_WithTracer t cfg = cfg\<lparr>pg_Tracer := Some t\<rparr>"

text \<open>The configuration of the pool; None is log.Fatal.  Every new connection knows the type of uuids.\<close>

definition InitWithURL :: "'tracer pool_lib \<Rightarrow> string \<Rightarrow> ('tracer pool_config \<Rightarrow> 'tracer pool_config) list \<Rightarrow> 'tracer pool_config run" where
  "InitWithURL L url opts = do {
     guard_run (pl_ParseConfig L url);
     let dbConfig = fold id opts \<lparr>pg_URL = url, pg_AfterConnect_uuid = True, pg_Tracer = None\<rparr>;
     guard_run (pl_New L dbConfig);
     guard_run (pl_Ping L dbConfig);
     Some dbConfig }"

definition InitDB :: "'tracer pool_lib \<Rightarrow> (string \<Rightarrow> string) \<Rightarrow> 'tracer pool_config run" where
  "InitDB L getenv = InitWithURL L (getenv ''DATABASE_URL'') []"

text \<open>A pool that is returned has answered, and has the tracer it was to have.\<close>

lemma InitWithURL_ready:
  "InitWithURL L url [postgres_WithTracer t] = Some cfg \<longleftrightarrow> pl_ParseConfig L url \<and> pl_New L cfg \<and> pl_Ping L cfg \<and>
    cfg = \<lparr>pg_URL = url, pg_AfterConnect_uuid = True, pg_Tracer = Some t\<rparr>"
  by (auto simp: InitWithURL_def postgres_WithTracer_def Let_def bind_eq_Some_conv guard_run_def split: if_splits)

subsection \<open>Columns that hold JSON\<close>

text \<open>
  What the driver gives for a column: NULL, the bytes, or something else.  json.Unmarshal into a pointer to the pointer: the JSON value null makes the inner
  pointer nil and so leaves what it pointed to as it was (Inr None).
\<close>

datatype 'b db_value = DB_Null | DB_Bytes 'b | DB_Other

record ('v, 'b, 'e) json_lib =
  js_Marshal :: "'v \<Rightarrow> 'e + 'b"
  js_Unmarshal :: "'b \<Rightarrow> 'e + 'v option"

datatype 'e scan_error = NotBytes | JsonError 'e

definition json_Scan :: "('v, 'b, 'e) json_lib \<Rightarrow> 'b db_value \<Rightarrow> 'v \<Rightarrow> 'e scan_error + 'v" where
  "json_Scan J val h = (case val of
     DB_Bytes bs \<Rightarrow> (case js_Unmarshal J bs of Inl err \<Rightarrow> Inl (JsonError err) | Inr None \<Rightarrow> Inr h | Inr (Some v) \<Rightarrow> Inr v)
   | _ \<Rightarrow> Inl NotBytes)"

definition json_Value :: "('v, 'b, 'e) json_lib \<Rightarrow> 'v \<Rightarrow> 'e + 'b" where
  "json_Value J h = js_Marshal J h"

text \<open>A value that was written is read back; a value whose text is null (a nil slice) is read back into a fresh variable only.\<close>

lemma json_column_roundtrip:
  assumes "json_Value J v = Inr bs" "js_Unmarshal J bs = Inr (if v = nil then None else Some v)"
  shows "json_Scan J (DB_Bytes bs) h = Inr (if v = nil then h else v)"
  using assms by (simp add: json_Scan_def)

lemma json_null_column: "json_Scan J DB_Null h = Inl NotBytes"
  by (simp add: json_Scan_def)

end
