(* ===== verification/Connections.thy ===== *)
theory Connections
  imports Go_Text
begin

text \<open>
  Waiting for the services the program needs, pkg/utils/conncheck.go, and the database URL, pkg/cmd/migrate/migrate.go and pkg/db/migrate/migrate.go.

  The two patterns of the code are values of rx.  match_rx is Go's search with its groups: a greedy repetition tries the longest run first, a lazy one the shortest.  The
  network is an argument: what the attempts to connect give and how long they take.
\<close>

subsection \<open>Patterns\<close>

datatype char_class = Lit char | AnyChar | Digit

datatype rx =
    Empty
  | Cls char_class
  | Then rx rx
  | Either rx rx
  | Opt rx
  | Many char_class
  | ManyLazy char_class
  | Group string rx

fun in_char_class :: "char_class \<Rightarrow> char \<Rightarrow> bool" where
  "in_char_class (Lit d) c \<longleftrightarrow> c = d"
| "in_char_class AnyChar c \<longleftrightarrow> c \<noteq> CHR 0x0A"
| "in_char_class Digit c \<longleftrightarrow> is_digit c"

fun many :: "char_class \<Rightarrow> (string \<Rightarrow> 'r option) \<Rightarrow> string \<Rightarrow> 'r option" where
  "many cl k [] = k []"
| "many cl k (c # s) = (if in_char_class cl c then (case many cl k s of Some r \<Rightarrow> Some r | None \<Rightarrow> k (c # s)) else k (c # s))"

fun many_lazy :: "char_class \<Rightarrow> (string \<Rightarrow> 'r option) \<Rightarrow> string \<Rightarrow> 'r option" where
  "many_lazy cl k [] = k []"
| "many_lazy cl k (c # s) = (case k (c # s) of Some r \<Rightarrow> Some r | None \<Rightarrow> if in_char_class cl c then many_lazy cl k s else None)"

type_synonym groups = "(string \<times> string) list"

text \<open>The text, the groups so far, and what is to match after the pattern.\<close>

primrec match_rx :: "rx \<Rightarrow> groups \<Rightarrow> (string \<Rightarrow> groups \<Rightarrow> 'r option) \<Rightarrow> string \<Rightarrow> 'r option" where
  "match_rx Empty gs k s = k s gs"
| "match_rx (Cls cl) gs k s = (case s of [] \<Rightarrow> None | c # r \<Rightarrow> if in_char_class cl c then k r gs else None)"
| "match_rx (Then p q) gs k s = match_rx p gs (\<lambda>r gs. match_rx q gs k r) s"
| "match_rx (Either p q) gs k s = (case match_rx p gs k s of Some r \<Rightarrow> Some r | None \<Rightarrow> match_rx q gs k s)"
| "match_rx (Opt p) gs k s = (case match_rx p gs k s of Some r \<Rightarrow> Some r | None \<Rightarrow> k s gs)"
| "match_rx (Many cl) gs k s = many cl (\<lambda>r. k r gs) s"
| "match_rx (ManyLazy cl) gs k s = many_lazy cl (\<lambda>r. k r gs) s"
| "match_rx (Group name p) gs k s = match_rx p gs (\<lambda>r gs. k r ((name, take (length s - length r) s) # gs)) s"

text \<open>A literal text, and one or more of a class.\<close>

primrec lits :: "string \<Rightarrow> rx" where
  "lits [] = Empty"
| "lits (c # s) = Then (Cls (Lit c)) (lits s)"

definition some_of :: "char_class \<Rightarrow> rx" where
  "some_of cl = Then (Cls cl) (Many cl)"

primrec group_names :: "rx \<Rightarrow> string list" where
  "group_names Empty = []"
| "group_names (Cls _) = []"
| "group_names (Then p q) = group_names p @ group_names q"
| "group_names (Either p q) = group_names p @ group_names q"
| "group_names (Opt p) = group_names p"
| "group_names (Many _) = []"
| "group_names (ManyLazy _) = []"
| "group_names (Group name p) = name # group_names p"

text \<open>
  resolveRegex: the groups by name, the empty text for a group that takes no part, and the empty map without a match.  Both patterns begin
  with ^, so that the match is at the start of the text.
\<close>

definition resolveRegex :: "rx \<Rightarrow> string \<Rightarrow> string \<Rightarrow> string option" where
  "resolveRegex p url = (case match_rx p [] (\<lambda>_ gs. Some gs) url of
     None \<Rightarrow> Map.empty
   | Some gs \<Rightarrow> (\<lambda>name. if name \<in> set (group_names p)
       then Some (case map_of gs name of Some text \<Rightarrow> text | None \<Rightarrow> []) else None))"

subsection \<open>Addresses\<close>

definition addr_rx :: rx where
  "addr_rx = Then (Group ''addr'' (Then (Group ''host'' (ManyLazy AnyChar))
      (Opt (Group [] (Then (Cls (Lit CHR '':'')) (Group ''port'' (some_of Digit))))))) (Then (Cls (Lit CHR ''/'')) (Many AnyChar))"

definition db_scheme :: string where
  "db_scheme = ''postgresql://''"

definition db_url_rx :: rx where
  "db_url_rx = Then (lits db_scheme) (Then (Group [] (Then (Many AnyChar) (Cls (Lit CHR ''@'')))) addr_rx)"

definition ws_url_rx :: rx where
  "ws_url_rx = Then (Group ''proto'' (Either (lits ''ws'') (lits ''wss''))) (Then (lits ''://'') addr_rx)"

definition ExtractFromDBURL :: "string \<Rightarrow> string" where
  "ExtractFromDBURL url = (let param = resolveRegex db_url_rx url in
     case param ''addr'' of
       None \<Rightarrow> []
     | Some addr \<Rightarrow> if param ''port'' \<noteq> None \<and> param ''port'' \<noteq> Some [] then addr else addr @ '':5432'')"

definition ExtractFromWebsocketURL :: "string \<Rightarrow> string \<times> string" where
  "ExtractFromWebsocketURL url = (let param = resolveRegex ws_url_rx url in
     case (param ''addr'', param ''proto'') of
       (Some addr, Some proto) \<Rightarrow>
         (if param ''port'' \<noteq> None \<and> param ''port'' \<noteq> Some [] then addr else if proto = ''wss'' then addr @ '':443'' else addr @ '':80'', proto)
     | _ \<Rightarrow> ([], []))"

lemma match_lits: "match_rx (lits p) gs k s = (if prefix p s then k (drop (length p) s) gs else None)"
  by (induction p arbitrary: s) (auto split: list.splits)

lemma group_names_lits [simp]: "group_names (lits p) = []"
  by (induction p) simp_all

lemma many_const [simp]: "many cl (\<lambda>_. Some x) s = Some x"
  by (induction s) simp_all

lemma many_stop: "\<forall>c \<in> set u. in_char_class cl c \<Longrightarrow> \<not> in_char_class cl d \<Longrightarrow> k (d # r) \<noteq> None \<Longrightarrow> many cl k (u @ d # r) = k (d # r)"
  by (induction u) auto

lemma many_no_next: "d \<notin> set t \<Longrightarrow> many cl (\<lambda>s. case s of [] \<Rightarrow> None | c # r \<Rightarrow> if in_char_class (Lit d) c then f r else None) t = None"
  by (induction t) auto

lemma many_lazy_skip:
  assumes "\<forall>c \<in> set h. in_char_class cl c" "\<And>c r. c \<in> set h \<Longrightarrow> k (c # r) = None" "k t = Some x"
  shows "many_lazy cl k (h @ t) = Some x"
  using assms by (induction h) (cases t; simp)+

lemma map_of_groups: "(case map_of [] name of Some text \<Rightarrow> text | None \<Rightarrow> []) = []"
  by simp

subsection \<open>What the addresses are\<close>

text \<open>The address of a database URL: everything between the last at sign and the slash after it, with the port 5432 where none is given.\<close>

lemma match_addr:
  assumes "\<forall>c \<in> set host. c \<noteq> CHR '':'' \<and> c \<noteq> CHR ''/'' \<and> c \<noteq> CHR 0x0A" "list_all is_digit port"
    "t = (if port = [] then CHR ''/'' # rest else CHR '':'' # port @ CHR ''/'' # rest)"
  shows "match_rx addr_rx gs (\<lambda>_ gs. Some gs) (host @ t) =
    Some ((''addr'', host @ (if port = [] then [] else CHR '':'' # port)) #
      (if port = [] then [(''host'', host)] else [([], CHR '':'' # port), (''port'', port), (''host'', host)]) @ gs)"
proof -
  have slash: "\<not> is_digit CHR ''/''" by code_simp
  let ?k = "\<lambda>r gs. match_rx (Then (Cls (Lit CHR ''/'')) (Many AnyChar)) ((''addr'', take (length (host @ t) - length r) (host @ t)) # gs) (\<lambda>_ gs. Some gs) r"
  let ?o = "Opt (Group [] (Then (Cls (Lit CHR '':'')) (Group ''port'' (some_of Digit))))"
  let ?l = "\<lambda>r. match_rx ?o ((''host'', take (length (host @ t) - length r) (host @ t)) # gs) ?k r"
  have "?l t = Some ((''addr'', host @ (if port = [] then [] else CHR '':'' # port)) #
      (if port = [] then [(''host'', host)] else [([], CHR '':'' # port), (''port'', port), (''host'', host)]) @ gs)"
  proof (cases "port = []")
    case True
    then show ?thesis using assms(3) by simp
  next
    case False
    then obtain d ds where port: "port = d # ds" by (cases port) auto
    with assms(2) have ds: "is_digit d" "\<forall>c \<in> set ds. in_char_class Digit c" by (auto simp: list_all_iff)
    then show ?thesis using assms(3) port by (simp add: some_of_def many_stop slash)
  qed
  moreover have "?l (c # r) = None" if "c \<in> set host" for c r using assms(1) that by auto
  ultimately have "many_lazy AnyChar ?l (host @ t) = Some ((''addr'', host @ (if port = [] then [] else CHR '':'' # port)) #
      (if port = [] then [(''host'', host)] else [([], CHR '':'' # port), (''port'', port), (''host'', host)]) @ gs)"
    using assms(1) by (intro many_lazy_skip) auto
  then show ?thesis by (simp add: addr_rx_def)
qed

lemma many_all: "\<forall>c \<in> set u. in_char_class cl c \<Longrightarrow> many cl k t = Some r \<Longrightarrow> many cl k (u @ t) = Some r"
  by (induction u) simp_all

lemma many_hit: "in_char_class cl c \<Longrightarrow> many cl k t = None \<Longrightarrow> k (c # t) = Some x \<Longrightarrow> many cl k (c # t) = Some x"
  by simp

lemma is_digit_neq: "is_digit c \<Longrightarrow> c \<noteq> CHR ''@''"
  by (auto simp: is_digit_def less_eq_char_def)

lemma match_user_none:
  "CHR ''@'' \<notin> set t \<Longrightarrow> match_rx (Then (Group [] (Then (Many AnyChar) (Cls (Lit CHR ''@'')))) addr_rx) [] k t = None"
  unfolding match_rx.simps by (rule many_no_next)

lemma match_user:
  assumes "\<forall>c \<in> set user. c \<noteq> CHR 0x0A" "CHR ''@'' \<notin> set t" "match_rx addr_rx [([], user @ ''@'')] (\<lambda>_. Some) t = Some gs"
  shows "match_rx (Then (Group [] (Then (Many AnyChar) (Cls (Lit CHR ''@'')))) addr_rx) [] (\<lambda>_. Some) (user @ CHR ''@'' # t) = Some gs"
proof -
  let ?s = "user @ CHR ''@'' # t"
  let ?f = "\<lambda>r. match_rx addr_rx [([], take (length ?s - length r) ?s)] (\<lambda>_. Some) r"
  let ?k = "\<lambda>s. case s of [] \<Rightarrow> None | c # r \<Rightarrow> if in_char_class (Lit CHR ''@'') c then ?f r else None"
  have "?k (CHR ''@'' # t) = Some gs" using assms(3) by simp
  then have "many AnyChar ?k (CHR ''@'' # t) = Some gs"
    by (intro many_hit[OF _ many_no_next[OF assms(2)]]) simp
  with assms(1) have "many AnyChar ?k ?s = Some gs" by (intro many_all) auto
  then show ?thesis unfolding match_rx.simps .
qed

text \<open>
  C37: the address the program waits for is that of the database URL: the part between the last at sign and the slash behind it, with
  the port 5432 when the URL has none.
\<close>

theorem db_url_address:
  assumes "\<forall>c \<in> set user. c \<noteq> CHR 0x0A" "\<forall>c \<in> set host. c \<notin> {CHR '':'', CHR ''/'', CHR ''@'', CHR 0x0A}"
    "list_all is_digit port" "CHR ''@'' \<notin> set rest"
  shows "ExtractFromDBURL (''postgresql://'' @ user @ ''@'' @ host @ (if port = [] then [] else '':'' @ port) @ ''/'' @ rest) =
    host @ '':'' @ (if port = [] then ''5432'' else port)"
proof -
  let ?t = "if port = [] then CHR ''/'' # rest else CHR '':'' # port @ CHR ''/'' # rest"
  let ?gs = "(''addr'', host @ (if port = [] then [] else CHR '':'' # port)) #
      (if port = [] then [(''host'', host)] else [([], CHR '':'' # port), (''port'', port), (''host'', host)]) @ [([], user @ ''@'')]"
  have no_at: "CHR ''@'' \<notin> set (host @ ?t)" using assms(2-4) is_digit_neq by (auto simp: list_all_iff)
  have "match_rx addr_rx [([], user @ ''@'')] (\<lambda>_. Some) (host @ ?t) = Some ?gs"
    using assms(2) by (intro match_addr[OF _ assms(3) refl]) simp
  from match_user[OF assms(1) no_at this]
  have "match_rx db_url_rx [] (\<lambda>_. Some) (db_scheme @ user @ CHR ''@'' # host @ ?t) = Some ?gs"
    by (simp only: db_url_rx_def match_rx.simps(3) match_lits) simp
  moreover have "group_names db_url_rx = [[], ''addr'', ''host'', [], ''port'']" by (simp add: db_url_rx_def addr_rx_def some_of_def)
  ultimately show ?thesis by (auto simp: ExtractFromDBURL_def resolveRegex_def Let_def db_scheme_def)
qed

theorem db_url_address_witness: "ExtractFromDBURL ''postgresql://u:p@db:5433/x'' = ''db:5433''"
  using db_url_address[of "''u:p''" "''db''" "''5433''" "''x''"] by (simp add: is_digit_def less_eq_char_def)

text \<open>A URL without a user has no address.\<close>

lemma db_url_no_user: "CHR ''@'' \<notin> set url \<Longrightarrow> ExtractFromDBURL url = []"
proof -
  assume no: "CHR ''@'' \<notin> set url"
  have "match_rx db_url_rx [] (\<lambda>_ gs. Some gs) url = None"
  proof (cases "prefix db_scheme url")
    case True
    then obtain r where url: "url = db_scheme @ r" by (auto simp: prefix_def)
    with no have "CHR ''@'' \<notin> set r" by simp
    from match_user_none[OF this, of "\<lambda>_. Some"] show ?thesis
      unfolding url db_url_rx_def match_rx.simps(3)[of "lits db_scheme"] match_lits by simp
  qed (simp add: db_url_rx_def match_lits)
  then show ?thesis by (simp add: ExtractFromDBURL_def resolveRegex_def)
qed

lemma url_examples:
  "ExtractFromDBURL ''postgresql://u:p@db:5433/x'' = ''db:5433''" "ExtractFromDBURL ''postgresql://u:p@db/x'' = ''db:5432''"
  "ExtractFromDBURL ''postgresql://db:5432/x'' = []" "ExtractFromDBURL ''postgres://u:p@db/x'' = []"
  "ExtractFromWebsocketURL ''wss://host/ws'' = (''host:443'', ''wss'')" "ExtractFromWebsocketURL ''ws://host:81/'' = (''host:81'', ''ws'')"
  by code_simp+

text \<open>A slash behind an at sign in the parameters of the URL is taken for the end of the address.\<close>

lemma db_url_at_in_params: "ExtractFromDBURL ''postgresql://u@db/x?application_name=me@home/1'' = ''home:5432''"
  by code_simp

subsection \<open>Waiting\<close>

text \<open>
  The i-th attempt to connect succeeds or not and takes a time; both loops ask the clock before an attempt and pause after one that failed.  The result is
  whether there was a connection, and the time.
\<close>

type_synonym attempts = "nat \<Rightarrow> bool \<times> nat"

function tcp_loop :: "attempts \<Rightarrow> nat \<Rightarrow> int \<Rightarrow> int \<Rightarrow> bool \<times> int" where
  "tcp_loop dial i now timeoutReached = (if now < timeoutReached
     then (if fst (dial i) then (True, now + int (snd (dial i)))
       else tcp_loop dial (Suc i) (now + int (snd (dial i)) + 200000000) timeoutReached)
     else (False, now))"
  by pat_completeness auto
termination
  by (relation "measure (\<lambda>(_, _, now, until). nat (until - now))") auto

declare tcp_loop.simps [simp del]

definition WaitForTCP :: "attempts \<Rightarrow> int \<Rightarrow> int \<Rightarrow> bool \<times> int" where
  "WaitForTCP dial now timeout = tcp_loop dial 0 now (now + timeout)"

function http_loop :: "attempts \<Rightarrow> nat \<Rightarrow> int \<Rightarrow> int \<Rightarrow> bool \<times> int" where
  "http_loop get i now timeoutReached = (if now < timeoutReached
     then (if fst (get i) then (True, now + int (snd (get i)))
       else http_loop get (Suc i) (now + int (snd (get i)) + 500000000) timeoutReached)
     else (False, now))"
  by pat_completeness auto
termination
  by (relation "measure (\<lambda>(_, _, now, until). nat (until - now))") auto

declare http_loop.simps [simp del]

definition WaitForHTTPResponse :: "attempts \<Rightarrow> int \<Rightarrow> int \<Rightarrow> bool \<times> int" where
  "WaitForHTTPResponse get now timeout = http_loop get 0 now (now + timeout)"

text \<open>The time at which attempt i begins, when all before it fail.\<close>

definition attempt_at :: "attempts \<Rightarrow> int \<Rightarrow> nat \<Rightarrow> int" where
  "attempt_at dial now i = now + (\<Sum>j < i. int (snd (dial j)) + 200000000)"

lemma attempt_at_Suc: "attempt_at dial now (Suc i) = attempt_at dial now i + int (snd (dial i)) + 200000000"
  by (simp add: attempt_at_def)

lemma attempt_at_mono: "i \<le> j \<Longrightarrow> attempt_at dial now i \<le> attempt_at dial now j"
  by (induction rule: dec_induct) (auto simp: attempt_at_Suc)

lemma tcp_loop_iff:
  "\<forall>j < i. \<not> fst (dial j) \<Longrightarrow> fst (tcp_loop dial i (attempt_at dial now i) until) \<longleftrightarrow> (\<exists>j. fst (dial j) \<and> attempt_at dial now j < until)"
proof (induction dial i "attempt_at dial now i" until rule: tcp_loop.induct)
  case (1 dial i until)
  have later: "attempt_at dial now i \<le> attempt_at dial now j" if "fst (dial j)" for j
    using 1(2) that by (intro attempt_at_mono) (meson not_less)
  show ?case
  proof (cases "attempt_at dial now i < until \<and> \<not> fst (dial i)")
    case True
    with 1(2) have "\<forall>j < Suc i. \<not> fst (dial j)" by (auto simp: less_Suc_eq)
    from 1(1)[OF _ _ _ this] True show ?thesis by (subst tcp_loop.simps) (simp add: attempt_at_Suc)
  next
    case False
    then show ?thesis using later by (subst tcp_loop.simps) force
  qed
qed

text \<open>There is a connection exactly if an attempt succeeds that begins before the timeout; then the program goes on.\<close>

lemma WaitForTCP_iff: "fst (WaitForTCP dial now timeout) \<longleftrightarrow> (\<exists>j. fst (dial j) \<and> attempt_at dial now j < now + timeout)"
  using tcp_loop_iff[of 0 dial now "now + timeout"] by (simp add: WaitForTCP_def attempt_at_def)

subsection \<open>The database\<close>

definition service_timeout :: "string \<Rightarrow> int" where
  "service_timeout waitForServices = (case ParseDuration waitForServices of Some d \<Rightarrow> d | None \<Rightarrow> 60 * 1000000000)"

text \<open>Whether the program goes on; otherwise it ends with log.Fatal.  The server asks whether there is an address, the commands do not.\<close>

definition waitForRequiredServices :: "(string \<Rightarrow> attempts) \<Rightarrow> string \<Rightarrow> string \<Rightarrow> int \<Rightarrow> bool" where
  "waitForRequiredServices dial waitForServices db now = (let addr = ExtractFromDBURL db
     in addr = [] \<or> fst (WaitForTCP (dial addr) now (service_timeout waitForServices)))"

definition wait_for_database :: "(string \<Rightarrow> attempts) \<Rightarrow> string \<Rightarrow> string \<Rightarrow> int \<Rightarrow> bool" where
  "wait_for_database dial waitForServices db now = fst (WaitForTCP (dial (ExtractFromDBURL db)) now (service_timeout waitForServices))"

definition prepareURLForDB :: "string \<Rightarrow> string" where
  "prepareURLForDB url = (let options = ''sslmode=disable'' in
     if contains url options then url
     else if contains url ''?'' then url @ ''&'' @ options
     else url @ ''?'' @ options)"

lemma prepared_url: "contains (prepareURLForDB url) ''sslmode=disable''" "prepareURLForDB (prepareURLForDB url) = prepareURLForDB url"
proof -
  show c: "contains (prepareURLForDB url) ''sslmode=disable''" for url
    unfolding prepareURLForDB_def Let_def contains_iff_sublist
    by (auto intro: suffix_imp_sublist simp: suffix_def simp del: append.simps)
  from c[of url] show "prepareURLForDB (prepareURLForDB url) = prepareURLForDB url"
    by (subst prepareURLForDB_def) (simp add: Let_def)
qed

text \<open>strings.Replace for the first occurrence.\<close>

fun replace_first :: "string \<Rightarrow> string \<Rightarrow> string \<Rightarrow> string" where
  "replace_first old new [] = (if old = [] then new else [])"
| "replace_first old new (c # s) = (if prefix old (c # s) then new @ drop (length old) (c # s) else c # replace_first old new s)"

datatype 'e up_result = UpDone | ErrNoChange | UpError 'e

text \<open>The library's migration from the source to the database with this URL; None is log.Fatal.\<close>

definition startMigration :: "(string \<Rightarrow> attempts) \<Rightarrow> (string \<Rightarrow> string \<Rightarrow> 'e + 'm) \<Rightarrow> ('m \<Rightarrow> 'e up_result) \<Rightarrow> string \<Rightarrow> string \<Rightarrow> string \<Rightarrow> int \<Rightarrow> 'e option run" where
  "startMigration dial new_migrate up waitForServices sourceURL db now = (
     if \<not> wait_for_database dial waitForServices db now then None
     else case new_migrate sourceURL (prepareURLForDB db) of
       Inl _ \<Rightarrow> None
     | Inr m \<Rightarrow> (case up m of UpDone \<Rightarrow> Some None | ErrNoChange \<Rightarrow> Some None | UpError e \<Rightarrow> Some (Some e)))"

definition MigrateDB :: "('e + 's) \<Rightarrow> ('s \<Rightarrow> string \<Rightarrow> 'e + 'm) \<Rightarrow> ('m \<Rightarrow> 'e up_result) \<Rightarrow> string \<Rightarrow> 'e option" where
  "MigrateDB source new_with_source up dbURI = (case source of
     Inl err \<Rightarrow> Some err
   | Inr src \<Rightarrow> (case new_with_source src (replace_first ''postgresql://'' ''pgx://'' dbURI) of
       Inl err \<Rightarrow> Some err
     | Inr m \<Rightarrow> (case up m of UpDone \<Rightarrow> None | ErrNoChange \<Rightarrow> None | UpError e \<Rightarrow> Some e)))"

text \<open>
  A database URL without a user: the server does not wait and starts, but the migration waits for the empty address, to which no
  connection is possible, and ends.
\<close>

lemma migration_without_user:
  assumes "CHR ''@'' \<notin> set db" "\<And>i. \<not> fst (dial [] i)"
  shows "waitForRequiredServices dial w db now" "startMigration dial nm up w src db now = None"
  using assms(2) by (simp_all add: waitForRequiredServices_def startMigration_def wait_for_database_def db_url_no_user[OF assms(1)] WaitForTCP_iff)

end
