(* ===== verification/Server_Setup.thy ===== *)
theory Server_Setup
  imports Connections Tls_Certs Admin_Services Session_Store
begin

text \<open>
  How the program is put together: the flags and where their values come from (cmd/root.go), the registries of implementations
  (session/factory and oidc/factory), the setup of the server in its order (pkg/cmd/server/grpc/grpc_server.go) and what a request
  passes on its way to a service.

  A step of the setup is None when the program ends there, by log.Fatal or because something is nil that an earlier step should have
  set.  What the libraries answer (the database, NATS, the identity provider, files) is the record server_env.
\<close>

subsection \<open>Flags\<close>

text \<open>
  pflag: a flag has a name, a value, and was given on the command line or not; flag_ok tells which values its type
  takes.  viper: the environment comes before the configuration file, an empty variable counts as not set; with AutomaticEnv a
  key is looked up in upper case behind the prefix, then under the names bound to it.
\<close>

record flag =
  flag_Name :: string
  flag_Value :: string
  flag_Changed :: bool
  flag_ok :: "string \<Rightarrow> bool"

record viper_config =
  vp_Env :: "string \<Rightarrow> string option"
  vp_File :: "string \<Rightarrow> string option"
  vp_Bound :: "string \<Rightarrow> string option"

definition ascii_upper :: "char \<Rightarrow> char" where
  "ascii_upper c = (let n = of_char c :: nat in if 97 \<le> n \<and> n \<le> 122 then char_of (n - 32) else c)"

definition envPrefix :: string where "envPrefix = ''ISM''"

definition env_get :: "viper_config \<Rightarrow> string \<Rightarrow> string option" where
  "env_get v key = (case vp_Env v key of Some val \<Rightarrow> if val = [] then None else Some val | None \<Rightarrow> None)"

definition viper_Get :: "viper_config \<Rightarrow> string \<Rightarrow> string option" where
  "viper_Get v name = (case env_get v (envPrefix @ ''_'' @ map ascii_upper name) of
     Some val \<Rightarrow> Some val
   | None \<Rightarrow> (case Option.bind (vp_Bound v name) (env_get v) of Some val \<Rightarrow> Some val | None \<Rightarrow> vp_File v name))"

definition bound_name :: "string \<Rightarrow> string" where
  "bound_name name = envPrefix @ ''_'' @ map ascii_upper (map (\<lambda>c. if c = CHR ''-'' then CHR ''_'' else c) name)"

definition bind_flag :: "flag \<Rightarrow> viper_config \<Rightarrow> flag \<times> viper_config" where
  "bind_flag f v = (
     let v = (if CHR ''-'' \<in> set (flag_Name f) then v\<lparr>vp_Bound := (vp_Bound v)(flag_Name f \<mapsto> bound_name (flag_Name f))\<rparr> else v)
     in (if \<not> flag_Changed f then
           (case viper_Get v (flag_Name f) of
              Some val \<Rightarrow> if flag_ok f val then f\<lparr>flag_Value := val, flag_Changed := True\<rparr> else f
            | None \<Rightarrow> f)
         else f, v))"

fun bindFlags :: "flag list \<Rightarrow> viper_config \<Rightarrow> flag list \<times> viper_config" where
  "bindFlags [] v = ([], v)"
| "bindFlags (f # fs) v = (let (f, v) = bind_flag f v; (fs, v) = bindFlags fs v in (f # fs, v))"

datatype command = Command (cmd_Flags: "flag list") (cmd_Commands: "command list")

fun collectCommands :: "command \<Rightarrow> command list" where
  "collectCommands (Command fs cs) = Command fs cs # concat (map collectCommands cs)"

subsection \<open>Registries\<close>

text \<open>
  Both factories are the same code: a registered creator is found by its key and by the type of its options, here the
  name of the package.
\<close>

datatype factory_error = ErrTypeNotSupported | ErrWrongCreator

type_synonym ('o, 'p, 's) creator = "'o list \<Rightarrow> 'p list \<Rightarrow> 's option"
type_synonym ('o, 'p, 's) registry = "string \<Rightarrow> (string \<times> ('o, 'p, 's) creator) option"

definition Register :: "string \<Rightarrow> string \<Rightarrow> ('o, 'p, 's) creator \<Rightarrow> ('o, 'p, 's) registry \<Rightarrow> ('o, 'p, 's) registry" where
  "Register key optType creator reg = reg(key \<mapsto> (optType, creator))"

text \<open>The inner option is None when the creator gives an error.\<close>

definition factory_New :: "('o, 'p, 's) registry \<Rightarrow> string \<Rightarrow> string \<Rightarrow> 'o list \<Rightarrow> 'p list \<Rightarrow> factory_error + 's option" where
  "factory_New reg key optType common specific = (case reg key of
     None \<Rightarrow> Inl ErrTypeNotSupported
   | Some (ty, creator) \<Rightarrow> (if ty = optType then Inr (creator common specific) else Inl ErrWrongCreator))"

definition created :: "factory_error + 's option \<Rightarrow> 's run" where
  "created r = (case r of Inl _ \<Rightarrow> None | Inr s \<Rightarrow> s)"

subsection \<open>The flags of the server\<close>

record server_flags =
  GrpcServerAddr :: string
  TLSServerAddr :: string
  tlsFlags :: tls_flags
  EnableTelemetry :: bool
  OtelOutput :: string
  TelemetryEndpoint :: string
  ProfilingPort :: int
  PrintMessage :: bool
  SupportTenants :: bool
  AdminToken :: string
  StaleDuration :: string
  MaxConcurrentStreams :: int
  EnableNats :: bool
  NatsURL :: string
  SupportIDP :: bool
  IDPClientID :: string
  IDPClientSecret :: string
  IDPIssuerURL :: string
  IDPCallbackURL :: string
  IDPTokenRefreshThreshold :: int
  SessionTimeout :: int
  CookieName :: string

text \<open>NewServerCmd: the defaults.\<close>

definition NewServerCmd :: server_flags where
  "NewServerCmd = \<lparr>GrpcServerAddr = ''localhost:8080'', TLSServerAddr = ''localhost:8081'',
     tlsFlags = \<lparr>TLSCertFile = [], TLSKeyFile = [], TLSCAFile = [], TraefikCerts = [], TraefikCertDomain = []\<rparr>,
     EnableTelemetry = False, OtelOutput = ''grpc'', TelemetryEndpoint = ''localhost:4317'', ProfilingPort = 0,
     PrintMessage = False, SupportTenants = False, AdminToken = [], StaleDuration = ''1m'', MaxConcurrentStreams = 100,
     EnableNats = False, NatsURL = ''nats://localhost:4222'', SupportIDP = False, IDPClientID = [], IDPClientSecret = [],
     IDPIssuerURL = [], IDPCallbackURL = [], IDPTokenRefreshThreshold = 10 * 1000000000, SessionTimeout = 5 * minute,
     CookieName = ''iracelog_session''\<rparr>"

text \<open>The flags of every command (cmd/root.go).\<close>

record root_flags =
  DB :: string
  WaitForServices :: string
  LogConfig :: string
  LogLevel :: string

definition root_defaults :: root_flags where
  "root_defaults = \<lparr>DB = ''postgresql://DB_USERNAME:DB_USER_PASSWORD@DB_HOST:5432/iracelog'', WaitForServices = ''15s'',
     LogConfig = [], LogLevel = ''info''\<rparr>"

subsection \<open>Stores made by the registries\<close>

record OIDCParam =
  oi_IssuerURL :: string
  oi_ClientID :: string
  oi_ClientSecret :: string
  oi_CallbackURL :: string

record oauth2SessionStoreConfig =
  oc_refreshThreshold :: int
  oc_oidcParam :: "OIDCParam option"
  oc_nats :: bool

type_synonym oauth2_Option = "oauth2SessionStoreConfig \<Rightarrow> oauth2SessionStoreConfig"

definition WithRefreshThreshold :: "int \<Rightarrow> oauth2_Option" where
  "WithRefreshThreshold d c = c\<lparr>oc_refreshThreshold := d\<rparr>"

definition oauth2_WithOIDCParams :: "OIDCParam option \<Rightarrow> oauth2_Option" where
  "oauth2_WithOIDCParams p c = c\<lparr>oc_oidcParam := p\<rparr>"

text \<open>The storage creator is the one of the key-value store instead of the one in memory.\<close>

definition oauth2_WithNATS :: oauth2_Option where
  "oauth2_WithNATS c = c\<lparr>oc_nats := True\<rparr>"

record oauth2SessionStore =
  os_cfg :: session_Config
  os_ownCfg :: oauth2SessionStoreConfig

text \<open>natsStorageOk: the buckets of the key-value store could be made.\<close>

definition oauth2_New :: "bool \<Rightarrow> (session_Config \<Rightarrow> session_Config, oauth2_Option, oauth2SessionStore) creator" where
  "oauth2_New natsStorageOk common specific = (
     let cfg = fold id common oauth2_defaults;
         ownCfg = fold id specific \<lparr>oc_refreshThreshold = 10 * 1000000000, oc_oidcParam = None, oc_nats = False\<rparr>
     in if oc_nats ownCfg \<and> \<not> natsStorageOk then None else Some \<lparr>os_cfg = cfg, os_ownCfg = ownCfg\<rparr>)"

definition SessionTypeOAuth2 :: string where "SessionTypeOAuth2 = ''oauth2''"

definition session_registry :: "bool \<Rightarrow> (session_Config \<Rightarrow> session_Config, oauth2_Option, oauth2SessionStore) registry" where
  "session_registry natsStorageOk = Register SessionTypeOAuth2 ''oauth2.Option'' (oauth2_New natsStorageOk) Map.empty"

text \<open>The cache of pending logins: its timeout, and whether it is the one in the key-value store.\<close>

record PendingAuthStateCache =
  pc_Timeout :: int
  pc_nats :: bool

definition oidc_WithTimeout :: "int \<Rightarrow> int \<Rightarrow> int" where
  "oidc_WithTimeout d _ = d"

definition simple_PASCache_New :: "(int \<Rightarrow> int, unit, PendingAuthStateCache) creator" where
  "simple_PASCache_New common _ = Some \<lparr>pc_Timeout = fold id common (30 * 1000000000), pc_nats = False\<rparr>"

text \<open>bucketOk: the bucket could be made.\<close>

definition nats_PASCache_New :: "bool \<Rightarrow> (int \<Rightarrow> int, unit, PendingAuthStateCache) creator" where
  "nats_PASCache_New bucketOk common specific =
     (if bucketOk then Some \<lparr>pc_Timeout = fold id common (30 * 1000000000), pc_nats = True\<rparr> else None)"

definition pas_registry :: "bool \<Rightarrow> (int \<Rightarrow> int, unit, PendingAuthStateCache) registry" where
  "pas_registry bucketOk = Register ''simple'' ''simple.Option'' simple_PASCache_New
     (Register ''nats'' ''nats.Option'' (nats_PASCache_New bucketOk) Map.empty)"

subsection \<open>Services\<close>

text \<open>
  What the servers are given by their options, one record for all of them.  'r are the repositories, 'tx the transaction manager.  The
  broker of live data is the local one or that on NATS; a lookup has its stale duration and the broker that is told of deleted events.
\<close>

datatype broker = LocalProxy | NatsProxy

record lookup_wiring =
  lw_Stale :: int
  lw_DeleteCB :: "broker option"

record ('r, 'tx) service =
  sv_Name :: string
  sv_repos :: "'r option"
  sv_txMgr :: "'tx option"
  sv_pe :: bool
  sv_lookup :: "lookup_wiring option"
  sv_dataProxy :: "broker option"
  sv_tenantCache :: bool
  sv_sessionStore :: "oauth2SessionStore option"
  sv_oidcParam :: "OIDCParam option"
  sv_pending :: "PendingAuthStateCache option"
  sv_supportsLogin :: bool

type_synonym ('r, 'tx) Option = "('r, 'tx) service \<Rightarrow> ('r, 'tx) service"

definition WithRepositories :: "'r option \<Rightarrow> ('r, 'tx) Option" where
  "WithRepositories r srv = srv\<lparr>sv_repos := r\<rparr>"

definition WithTxManager :: "'tx option \<Rightarrow> ('r, 'tx) Option" where
  "WithTxManager tx srv = srv\<lparr>sv_txMgr := tx\<rparr>"

definition WithPermissionEvaluator :: "('r, 'tx) Option" where
  "WithPermissionEvaluator srv = srv\<lparr>sv_pe := True\<rparr>"

definition WithEventLookup :: "lookup_wiring option \<Rightarrow> ('r, 'tx) Option" where
  "WithEventLookup l srv = srv\<lparr>sv_lookup := l\<rparr>"

definition WithDataProxy :: "broker option \<Rightarrow> ('r, 'tx) Option" where
  "WithDataProxy d srv = srv\<lparr>sv_dataProxy := d\<rparr>"

definition WithTenantCache :: "bool \<Rightarrow> ('r, 'tx) Option" where
  "WithTenantCache c srv = srv\<lparr>sv_tenantCache := c\<rparr>"

definition WithSessionStore :: "oauth2SessionStore option \<Rightarrow> ('r, 'tx) Option" where
  "WithSessionStore s srv = srv\<lparr>sv_sessionStore := s\<rparr>"

definition WithOIDCParams :: "OIDCParam option \<Rightarrow> ('r, 'tx) Option" where
  "WithOIDCParams p srv = srv\<lparr>sv_oidcParam := p\<rparr>"

definition WithPendingAuthStateCache :: "PendingAuthStateCache option \<Rightarrow> ('r, 'tx) Option" where
  "WithPendingAuthStateCache c srv = srv\<lparr>sv_pending := c\<rparr>"

definition WithSupportsLogin :: "bool \<Rightarrow> ('r, 'tx) Option" where
  "WithSupportsLogin b srv = srv\<lparr>sv_supportsLogin := b\<rparr>"

definition NewServer :: "string \<Rightarrow> ('r, 'tx) Option list \<Rightarrow> ('r, 'tx) service" where
  "NewServer name opts = fold id opts \<lparr>sv_Name = name, sv_repos = None, sv_txMgr = None, sv_pe = False, sv_lookup = None,
     sv_dataProxy = None, sv_tenantCache = False, sv_sessionStore = None, sv_oidcParam = None, sv_pending = None, sv_supportsLogin = False\<rparr>"

text \<open>The server of the login service asks the identity provider at once, and ends the program without an answer.\<close>

definition NewAuthServer :: "(string \<Rightarrow> bool) \<Rightarrow> ('r, 'tx) Option list \<Rightarrow> ('r, 'tx) service run" where
  "NewAuthServer provider opts = (let srv = NewServer ''AuthService'' opts in do {
     p \<leftarrow> sv_oidcParam srv;
     guard_run (provider (oi_IssuerURL p));
     Some srv })"

datatype interceptor = otel_interceptor | traceID_interceptor | config_interceptor | session_interceptor | auth_interceptor

record ('r, 'tx) mounted =
  mo_Service :: "('r, 'tx) service"
  mo_Interceptors :: "interceptor list"

definition mount :: "('r, 'tx) service \<Rightarrow> interceptor list \<Rightarrow> ('r, 'tx) mounted list" where
  "mount srv interceptors = [\<lparr>mo_Service = srv, mo_Interceptors = interceptors\<rparr>]"

subsection \<open>The server\<close>

text \<open>
  What the libraries answer.  Of the three connections to NATS each can fail; natsProxyOk tells whether the broker could be made.
\<close>

record ('r, 'tx) server_env =
  en_telemetry :: bool
  en_loadConfig :: "string \<Rightarrow> bool"
  en_dial :: "string \<Rightarrow> attempts"
  en_now :: int
  en_pool :: "string \<Rightarrow> bool"
  en_repos :: 'r
  en_txManager :: 'tx
  en_natsSession :: bool
  en_natsStorage :: bool
  en_natsPending :: bool
  en_natsBucket :: bool
  en_natsProxy :: bool
  en_provider :: "string \<Rightarrow> bool"

record ('r, 'tx) grpcServer =
  gs_tls :: bool
  gs_log :: bool
  gs_telemetry :: bool
  gs_pool :: bool
  gs_oidcParam :: "OIDCParam option"
  gs_txManager :: "'tx option"
  gs_repos :: "'r option"
  gs_tenantCache :: bool
  gs_sessionStore :: "oauth2SessionStore option"
  gs_pending :: "PendingAuthStateCache option"
  gs_authInterceptor :: "(string \<times> bool) option"
  gs_sessionInterceptor :: "oauth2SessionStore option"
  gs_eventLookup :: "lookup_wiring option"
  gs_dataProxy :: "broker option"
  gs_onUnregister :: "lookup_wiring option"
  gs_mounted :: "('r, 'tx) mounted list"
  gs_config :: server_flags
  gs_root :: root_flags

type_synonym ('r, 'tx) setup_step = "('r, 'tx) server_env \<Rightarrow> ('r, 'tx) grpcServer \<Rightarrow> ('r, 'tx) grpcServer run"

definition SetupTelemetry :: "('r, 'tx) setup_step" where
  "SetupTelemetry env s = Some (s\<lparr>gs_telemetry := EnableTelemetry (gs_config s) \<and> en_telemetry env\<rparr>)"

definition SetupLogger :: "('r, 'tx) setup_step" where
  "SetupLogger env s = (if LogConfig (gs_root s) \<noteq> [] \<and> \<not> en_loadConfig env (LogConfig (gs_root s)) then None
     else Some (s\<lparr>gs_log := True\<rparr>))"

definition server_waitForRequiredServices :: "('r, 'tx) setup_step" where
  "server_waitForRequiredServices env s = do {
     guard_run (gs_log s);
     guard_run (waitForRequiredServices (en_dial env) (WaitForServices (gs_root s)) (DB (gs_root s)) (en_now env));
     Some s }"

definition SetupDB :: "('r, 'tx) setup_step" where
  "SetupDB env s = do { guard_run (gs_log s); guard_run (en_pool env (DB (gs_root s))); Some (s\<lparr>gs_pool := True\<rparr>) }"

definition SetupIDPParam :: "('r, 'tx) setup_step" where
  "SetupIDPParam env s = (let c = gs_config s in if \<not> SupportIDP c then Some s
     else Some (s\<lparr>gs_oidcParam := Some \<lparr>oi_IssuerURL = IDPIssuerURL c, oi_ClientID = IDPClientID c,
       oi_ClientSecret = IDPClientSecret c, oi_CallbackURL = IDPCallbackURL c\<rparr>\<rparr>))"

definition SetupTransactionManager :: "('r, 'tx) setup_step" where
  "SetupTransactionManager env s = do { guard_run (gs_pool s); Some (s\<lparr>gs_txManager := Some (en_txManager env)\<rparr>) }"

definition SetupRepositories :: "('r, 'tx) setup_step" where
  "SetupRepositories env s = do { guard_run (gs_pool s); Some (s\<lparr>gs_repos := Some (en_repos env)\<rparr>) }"

definition SetupCaches :: "('r, 'tx) setup_step" where
  "SetupCaches env s = do { repos \<leftarrow> gs_repos s; Some (s\<lparr>gs_tenantCache := True\<rparr>) }"

definition SetupSessionStore :: "('r, 'tx) setup_step" where
  "SetupSessionStore env s = (let c = gs_config s; nats = SupportIDP c \<and> EnableNats c;
       extra = [WithRefreshThreshold (IDPTokenRefreshThreshold c)] @
         (if SupportIDP c then [oauth2_WithOIDCParams (gs_oidcParam s)] @ (if EnableNats c then [oauth2_WithNATS] else []) else [])
     in do {
       guard_run (nats \<longrightarrow> en_natsSession env);
       store \<leftarrow> created (factory_New (session_registry (en_natsStorage env)) SessionTypeOAuth2 ''oauth2.Option''
         [session_WithTimeout (SessionTimeout c), session_WithCookieName (CookieName c)] extra);
       Some (s\<lparr>gs_sessionStore := Some store\<rparr>) })"

definition SetupPendingAuthStateCache :: "('r, 'tx) setup_step" where
  "SetupPendingAuthStateCache env s = (let common = [oidc_WithTimeout (30 * 1000000000)]; reg = pas_registry (en_natsBucket env) in
     if EnableNats (gs_config s) then do {
       guard_run (en_natsPending env);
       c \<leftarrow> created (factory_New reg ''nats'' ''nats.Option'' common [()]);
       Some (s\<lparr>gs_pending := Some c\<rparr>) }
     else do {
       c \<leftarrow> created (factory_New reg ''simple'' ''simple.Option'' common []);
       Some (s\<lparr>gs_pending := Some c\<rparr>) })"

text \<open>An interceptor keeps what there is now, be it nil.\<close>

definition SetupAuthInterceptor :: "('r, 'tx) setup_step" where
  "SetupAuthInterceptor env s = Some (s\<lparr>gs_authInterceptor := Some (AdminToken (gs_config s), gs_tenantCache s)\<rparr>)"

definition SetupSessionInterceptor :: "('r, 'tx) setup_step" where
  "SetupSessionInterceptor env s = Some (s\<lparr>gs_sessionInterceptor := gs_sessionStore s\<rparr>)"

text \<open>appConfig, which the request finds in its context.\<close>

record Config =
  ac_PrintMessage :: bool
  ac_SupportTenants :: bool
  ac_SupportIDP :: bool

definition app_config :: "server_flags \<Rightarrow> Config" where
  "app_config c = \<lparr>ac_PrintMessage = PrintMessage c, ac_SupportTenants = SupportTenants c, ac_SupportIDP = SupportIDP c\<rparr>"

subsection \<open>The services of the server\<close>

definition user_chain :: "interceptor list" where
  "user_chain = [otel_interceptor, traceID_interceptor, config_interceptor, session_interceptor, auth_interceptor]"

definition registerSettingsServer :: "('r, 'tx) grpcServer \<Rightarrow> ('r, 'tx) mounted list run" where
  "registerSettingsServer s = Some (mount (NewServer ''SettingsService'' [WithSupportsLogin (SupportIDP (gs_config s))]) user_chain)"

definition registerAuthServer :: "('r, 'tx) server_env \<Rightarrow> ('r, 'tx) grpcServer \<Rightarrow> ('r, 'tx) mounted list run" where
  "registerAuthServer env s = (let c = gs_config s in if \<not> SupportIDP c then Some []
     else if IDPClientID c = [] \<or> IDPClientSecret c = [] \<or> IDPIssuerURL c = [] \<or> IDPCallbackURL c = [] then Some []
     else do {
       srv \<leftarrow> NewAuthServer (en_provider env)
         [WithSessionStore (gs_sessionStore s), WithOIDCParams (gs_oidcParam s), WithPendingAuthStateCache (gs_pending s)];
       Some (mount srv user_chain) })"

definition registerUserServer :: "('r, 'tx) grpcServer \<Rightarrow> ('r, 'tx) mounted list run" where
  "registerUserServer s = (if \<not> SupportIDP (gs_config s) then Some []
     else Some (mount (NewServer ''UserService'' [WithSessionStore (gs_sessionStore s)]) user_chain))"

definition registerEventServer :: "('r, 'tx) grpcServer \<Rightarrow> ('r, 'tx) mounted list run" where
  "registerEventServer s = Some (mount (NewServer ''EventService'' [WithRepositories (gs_repos s), WithTxManager (gs_txManager s),
     WithPermissionEvaluator]) user_chain)"

definition registerAnalysisServer :: "('r, 'tx) grpcServer \<Rightarrow> ('r, 'tx) mounted list run" where
  "registerAnalysisServer s = Some (mount (NewServer ''AnalysisService'' [WithRepositories (gs_repos s), WithTxManager (gs_txManager s),
     WithPermissionEvaluator]) [otel_interceptor, traceID_interceptor, config_interceptor, auth_interceptor])"

definition registerProviderServer :: "('r, 'tx) grpcServer \<Rightarrow> ('r, 'tx) mounted list run" where
  "registerProviderServer s = Some (mount (NewServer ''ProviderService'' [WithRepositories (gs_repos s), WithTxManager (gs_txManager s),
     WithEventLookup (gs_eventLookup s), WithDataProxy (gs_dataProxy s), WithPermissionEvaluator]) user_chain)"

definition registerStateServer :: "('r, 'tx) grpcServer \<Rightarrow> ('r, 'tx) mounted list run" where
  "registerStateServer s = Some (mount (NewServer ''RaceStateService'' [WithRepositories (gs_repos s), WithTxManager (gs_txManager s),
     WithEventLookup (gs_eventLookup s), WithDataProxy (gs_dataProxy s), WithPermissionEvaluator])
     [otel_interceptor, traceID_interceptor, auth_interceptor])"

definition registerLiveDataServer :: "('r, 'tx) grpcServer \<Rightarrow> ('r, 'tx) mounted list run" where
  "registerLiveDataServer s = Some (mount (NewServer ''LiveDataService'' [WithEventLookup (gs_eventLookup s), WithDataProxy (gs_dataProxy s)])
     [otel_interceptor, traceID_interceptor])"

text \<open>The track and the tenant service are given one repository of all; without repositories taking it is a panic.\<close>

definition registerTrackServer :: "('r, 'tx) grpcServer \<Rightarrow> ('r, 'tx) mounted list run" where
  "registerTrackServer s = do {
     repos \<leftarrow> gs_repos s;
     Some (mount (NewServer ''TrackService'' [WithRepositories (Some repos), WithPermissionEvaluator])
       [otel_interceptor, traceID_interceptor, auth_interceptor]) }"

definition registerTenantServer :: "('r, 'tx) grpcServer \<Rightarrow> ('r, 'tx) mounted list run" where
  "registerTenantServer s = do {
     repos \<leftarrow> gs_repos s;
     Some (mount (NewServer ''TenantService'' [WithRepositories (Some repos), WithTenantCache (gs_tenantCache s), WithPermissionEvaluator])
       [otel_interceptor, traceID_interceptor, auth_interceptor]) }"

definition registerPredictServer :: "('r, 'tx) grpcServer \<Rightarrow> ('r, 'tx) mounted list run" where
  "registerPredictServer s = Some (mount (NewServer ''PredictService'' [WithRepositories (gs_repos s), WithEventLookup (gs_eventLookup s)])
     [otel_interceptor, traceID_interceptor])"

definition registerHealthServer :: "('r, 'tx) grpcServer \<Rightarrow> ('r, 'tx) mounted list run" where
  "registerHealthServer s = Some (mount (NewServer ''Health'' []) [])"

text \<open>The names that reflection tells.\<close>

definition reflection_names :: "string list" where
  "reflection_names = [''AnalysisService'', ''EventService'', ''LiveDataService'', ''PredictService'', ''ProviderService'',
     ''RaceStateService'', ''TrackService'', ''TenantService'']"

definition registerReflectionServer :: "('r, 'tx) grpcServer \<Rightarrow> ('r, 'tx) mounted list run" where
  "registerReflectionServer s = Some (mount (NewServer ''ServerReflection'' []) [])"

definition stale_duration :: "string \<Rightarrow> int" where
  "stale_duration d = (case ParseDuration d of Some d \<Rightarrow> d | None \<Rightarrow> minute)"

text \<open>
  The local broker and the lookup know each other; with NATS both are replaced, and the broker is told to remove events from the new
  lookup when another instance unregisters them.
\<close>

definition wire_broker :: "('r, 'tx) server_env \<Rightarrow> ('r, 'tx) grpcServer \<Rightarrow> ('r, 'tx) grpcServer" where
  "wire_broker env s = (let d = stale_duration (StaleDuration (gs_config s));
       loc = s\<lparr>gs_dataProxy := Some LocalProxy, gs_eventLookup := Some \<lparr>lw_Stale = d, lw_DeleteCB = Some LocalProxy\<rparr>\<rparr>;
       l = \<lparr>lw_Stale = d, lw_DeleteCB = Some NatsProxy\<rparr>
     in if EnableNats (gs_config s) \<and> en_natsProxy env
        then loc\<lparr>gs_dataProxy := Some NatsProxy, gs_eventLookup := Some l, gs_onUnregister := Some l\<rparr> else loc)"

definition SetupGrpcServices :: "('r, 'tx) setup_step" where
  "SetupGrpcServices env s = (let s = wire_broker env s in
     map_option (\<lambda>ms. s\<lparr>gs_mounted := concat ms\<rparr>) (those
       [registerSettingsServer s, registerAuthServer env s, registerUserServer s, registerEventServer s, registerAnalysisServer s,
        registerProviderServer s, registerLiveDataServer s, registerStateServer s, registerTrackServer s, registerPredictServer s,
        registerTenantServer s, registerHealthServer s, registerReflectionServer s]))"

text \<open>The setup up to Start; tls tells whether there is a TLS configuration.\<close>

definition startServer :: "('r, 'tx) server_env \<Rightarrow> bool \<Rightarrow> root_flags \<Rightarrow> server_flags \<Rightarrow> ('r, 'tx) grpcServer run" where
  "startServer env tls rf c = go_for (\<lambda>step. step env)
     [SetupTelemetry, SetupLogger, server_waitForRequiredServices, SetupDB, SetupIDPParam, SetupTransactionManager, SetupRepositories,
      SetupCaches, SetupSessionStore, SetupPendingAuthStateCache, SetupAuthInterceptor, SetupSessionInterceptor, SetupGrpcServices]
     \<lparr>gs_tls = tls, gs_log = False, gs_telemetry = False, gs_pool = False, gs_oidcParam = None, gs_txManager = None, gs_repos = None,
      gs_tenantCache = False, gs_sessionStore = None, gs_pending = None, gs_authInterceptor = None, gs_sessionInterceptor = None,
      gs_eventLookup = None, gs_dataProxy = None, gs_onUnregister = None, gs_mounted = [], gs_config = c, gs_root = rf\<rparr>"

text \<open>Start: what it listens on (address, TLS, streams of a connection), and what it closes when it ends, by a signal or because a
  listener failed; it returns no error in either case.\<close>

definition listeners :: "('r, 'tx) grpcServer \<Rightarrow> (string \<times> bool \<times> int) list" where
  "listeners s = (let c = gs_config s in (if gs_tls s then [(TLSServerAddr c, True, MaxConcurrentStreams c)] else []) @
     [(GrpcServerAddr c, False, MaxConcurrentStreams c)])"

datatype server_end = GotSignal | ListenFailed
datatype shutdown = ShutdownTelemetry | CloseProxy broker

definition Start :: "('r, 'tx) grpcServer \<Rightarrow> server_end \<Rightarrow> (shutdown list \<times> string option) run" where
  "Start s ending = map_option (\<lambda>d. ((if gs_telemetry s then [ShutdownTelemetry] else []) @ [CloseProxy d], None)) (gs_dataProxy s)"

subsection \<open>A request on its way to the service\<close>

text \<open>
  The values an interceptor can put into the context (config.NewContext, session.AddSessionToContext, auth.AddAuthToContext), which the
  handlers read (config.FromContext and the others give nil when there is none).
\<close>

record rpc_context =
  rc_Config :: "Config option"
  rc_Session :: "sessionRawData option"
  rc_Auth :: "Authentication option"

text \<open>A request: whether it is unary, the session cookie and the api-token header.\<close>

record rpc_request =
  rp_Unary :: bool
  rp_Cookie :: "string option"
  rp_Token :: string

text \<open>
  The session store, the hash of an API key with the repository behind the tenant cache, and the time; the states of the
  session storage and of the tenant cache go through the chain.
\<close>

record ('s, 'e) rpc_env =
  re_Storage :: "'s sessionStorage"
  re_hashAPIKey :: "string \<Rightarrow> string"
  re_loadTenant :: "string \<Rightarrow> 'e + TenantModel"
  re_Now :: timestamp

definition auth_request :: "('s, 'e) rpc_env \<Rightarrow> rpc_request \<Rightarrow> sessionRawData option \<Rightarrow> Request" where
  "auth_request E rq sess = \<lparr>rq_Token = rp_Token rq, rq_Session = map_option session_info sess, rq_Now = re_Now E\<rparr>"

definition auth_config :: "('s, 'e) rpc_env \<Rightarrow> string \<Rightarrow> 'e AuthConfig" where
  "auth_config E token = \<lparr>adminToken = token, hashAPIKey = re_hashAPIKey E, loadTenant = re_loadTenant E\<rparr>"

fun run_interceptor :: "('r, 'tx) grpcServer \<Rightarrow> ('s, 'e) rpc_env \<Rightarrow> rpc_request \<Rightarrow> interceptor \<Rightarrow>
    rpc_context \<times> 's \<times> tenant_cache \<Rightarrow> (rpc_context \<times> 's \<times> tenant_cache) run" where
  "run_interceptor s E rq otel_interceptor (ctx, st, tc) = Some (ctx, st, tc)"
| "run_interceptor s E rq traceID_interceptor (ctx, st, tc) = Some (ctx, st, tc)"
| "run_interceptor s E rq config_interceptor (ctx, st, tc) = Some (ctx\<lparr>rc_Config := Some (app_config (gs_config s))\<rparr>, st, tc)"
| "run_interceptor s E rq session_interceptor (ctx, st, tc) = do {
     store \<leftarrow> gs_sessionInterceptor s;
     let (sess, st) = session_intercept (re_Storage E) (os_cfg store) (rp_Unary rq) (re_Now E) (rp_Cookie rq) st;
     Some (ctx\<lparr>rc_Session := sess\<rparr>, st, tc) }"
| "run_interceptor s E rq auth_interceptor (ctx, st, tc) = do {
     (token, hasCache) \<leftarrow> gs_authInterceptor s;
     guard_run (hasCache \<or> rp_Token rq = [] \<or> rp_Token rq = token);
     let (a, tc) = handleAuth (auth_config E token) (auth_request E rq (rc_Session ctx)) tc;
     Some (case a of Some a \<Rightarrow> ctx\<lparr>rc_Auth := Some a\<rparr> | None \<Rightarrow> ctx, st, tc) }"

text \<open>The interceptors from the outermost to the innermost; the context is the one the handler of the service gets.\<close>

definition handler_context :: "('r, 'tx) grpcServer \<Rightarrow> ('s, 'e) rpc_env \<Rightarrow> rpc_request \<Rightarrow> ('r, 'tx) mounted \<Rightarrow> 's \<Rightarrow> tenant_cache \<Rightarrow>
    (rpc_context \<times> 's \<times> tenant_cache) run" where
  "handler_context s E rq m st tc = go_for (run_interceptor s E rq) (mo_Interceptors m)
     (\<lparr>rc_Config = None, rc_Session = None, rc_Auth = None\<rparr>, st, tc)"

text \<open>
  The writing calls of the mounted track server.  The transaction manager is an interface: calling it when the server was given none is a
  panic.
\<close>

type_synonym ('d, 'b, 'u, 'e) tx_runner = "(('d, 'b, 'u) admin_db, 'e) txFunc \<Rightarrow> (('d, 'b, 'u) admin_db, 'e) txFunc"

definition served_EnsureTrack :: "(('d, 'b, 'u, 'e) repos, ('d, 'b, 'u, 'e) tx_runner) service \<Rightarrow> Authentication \<Rightarrow> Track option \<Rightarrow>
    ('d, 'b, 'u) admin_db \<Rightarrow> (('e server_error + unit) \<times> ('d, 'b, 'u) admin_db) run" where
  "served_EnsureTrack srv a t db = (if \<not> HasPermission a PermissionCreateTrack then Some (denied, db)
     else do { runInTx \<leftarrow> sv_txMgr srv; R \<leftarrow> sv_repos srv; track_EnsureTrack_handler R runInTx a t db })"

definition served_UpdatePitInfo :: "(('d, 'b, 'u, 'e) repos, ('d, 'b, 'u, 'e) tx_runner) service \<Rightarrow> Authentication \<Rightarrow> uint32 \<Rightarrow>
    TrackPitInfo option \<Rightarrow> ('d, 'b, 'u) admin_db \<Rightarrow> (('e server_error + unit) \<times> ('d, 'b, 'u) admin_db) run" where
  "served_UpdatePitInfo srv a i pitInfo db = (if \<not> HasPermission a PermissionUpdateTrack then Some (denied, db)
     else do { runInTx \<leftarrow> sv_txMgr srv; R \<leftarrow> sv_repos srv; track_UpdatePitInfo_handler R runInTx a i pitInfo db })"

end
