(* ===== verification/Setup_Properties.thy ===== *)
theory Setup_Properties
  imports Server_Setup Event_Service_Properties
begin

text \<open>
  What the setup of Server_Setup achieves: when the server starts and how its services are wired, and who the caller of a service is
  found to be.
\<close>

subsection \<open>The server when it starts\<close>

definition own_store :: "server_flags \<Rightarrow> oauth2SessionStore" where
  "own_store c = \<lparr>os_cfg = \<lparr>cfg_Timeout = SessionTimeout c, cfg_CookieName = CookieName c\<rparr>,
     os_ownCfg = \<lparr>oc_refreshThreshold = IDPTokenRefreshThreshold c,
       oc_oidcParam = (if SupportIDP c then Some \<lparr>oi_IssuerURL = IDPIssuerURL c, oi_ClientID = IDPClientID c,
         oi_ClientSecret = IDPClientSecret c, oi_CallbackURL = IDPCallbackURL c\<rparr> else None),
       oc_nats = (SupportIDP c \<and> EnableNats c)\<rparr>\<rparr>"

definition login_configured :: "server_flags \<Rightarrow> bool" where
  "login_configured c \<longleftrightarrow> SupportIDP c \<and> IDPClientID c \<noteq> [] \<and> IDPClientSecret c \<noteq> [] \<and> IDPIssuerURL c \<noteq> [] \<and> IDPCallbackURL c \<noteq> []"

definition services_ready :: "('r, 'tx) server_env \<Rightarrow> root_flags \<Rightarrow> server_flags \<Rightarrow> bool" where
  "services_ready env rf c \<longleftrightarrow> (LogConfig rf = [] \<or> en_loadConfig env (LogConfig rf)) \<and>
     waitForRequiredServices (en_dial env) (WaitForServices rf) (DB rf) (en_now env) \<and> en_pool env (DB rf) \<and>
     (SupportIDP c \<and> EnableNats c \<longrightarrow> en_natsSession env \<and> en_natsStorage env) \<and>
     (EnableNats c \<longrightarrow> en_natsPending env \<and> en_natsBucket env)"

text \<open>The server after everything but SetupGrpcServices.\<close>

definition prepared :: "('r, 'tx) server_env \<Rightarrow> bool \<Rightarrow> root_flags \<Rightarrow> server_flags \<Rightarrow> ('r, 'tx) grpcServer" where
  "prepared env tls rf c = \<lparr>gs_tls = tls, gs_log = True, gs_telemetry = (EnableTelemetry c \<and> en_telemetry env), gs_pool = True,
     gs_oidcParam = oc_oidcParam (os_ownCfg (own_store c)), gs_txManager = Some (en_txManager env), gs_repos = Some (en_repos env),
     gs_tenantCache = True, gs_sessionStore = Some (own_store c),
     gs_pending = Some \<lparr>pc_Timeout = 30 * 1000000000, pc_nats = EnableNats c\<rparr>, gs_authInterceptor = Some (AdminToken c, True),
     gs_sessionInterceptor = Some (own_store c), gs_eventLookup = None, gs_dataProxy = None, gs_onUnregister = None,
     gs_mounted = [], gs_config = c, gs_root = rf\<rparr>"

lemmas setup_defs = SetupTelemetry_def SetupLogger_def server_waitForRequiredServices_def SetupDB_def SetupIDPParam_def
  SetupTransactionManager_def SetupRepositories_def SetupCaches_def SetupSessionStore_def SetupPendingAuthStateCache_def
  SetupAuthInterceptor_def SetupSessionInterceptor_def

lemmas registry_defs = created_def factory_New_def session_registry_def Register_def oauth2_New_def session_WithTimeout_def
  session_WithCookieName_def WithRefreshThreshold_def oauth2_WithOIDCParams_def oauth2_WithNATS_def oauth2_defaults_def pas_registry_def
  simple_PASCache_New_def nats_PASCache_New_def oidc_WithTimeout_def

lemma go_for_Nil: "go_for f [] = Some"
  by (rule ext) simp

lemma startServer_prepared: "startServer env tls rf c =
    (if services_ready env rf c then SetupGrpcServices env (prepared env tls rf c) else None)"
  by (cases "SupportIDP c"; cases "EnableNats c") (simp_all add: startServer_def setup_defs registry_defs services_ready_def
      prepared_def own_store_def Let_def guard_run_def go_for_Nil)

text \<open>The broker and the lookup of the running server, and its services.\<close>

definition own_broker :: "('r, 'tx) server_env \<Rightarrow> server_flags \<Rightarrow> broker" where
  "own_broker env c = (if EnableNats c \<and> en_natsProxy env then NatsProxy else LocalProxy)"

definition own_lookup :: "('r, 'tx) server_env \<Rightarrow> server_flags \<Rightarrow> lookup_wiring" where
  "own_lookup env c = \<lparr>lw_Stale = stale_duration (StaleDuration c), lw_DeleteCB = Some (own_broker env c)\<rparr>"

lemma wire_broker_eq: "wire_broker env (prepared env tls rf c) = (prepared env tls rf c)
    \<lparr>gs_eventLookup := Some (own_lookup env c), gs_dataProxy := Some (own_broker env c),
     gs_onUnregister := (if own_broker env c = NatsProxy then Some (own_lookup env c) else None)\<rparr>"
  by (cases "EnableNats c \<and> en_natsProxy env") (auto simp: wire_broker_def own_broker_def own_lookup_def prepared_def Let_def)

lemmas register_defs = registerSettingsServer_def registerAuthServer_def registerUserServer_def registerEventServer_def
  registerAnalysisServer_def registerProviderServer_def registerLiveDataServer_def registerStateServer_def registerTrackServer_def
  registerPredictServer_def registerTenantServer_def registerHealthServer_def registerReflectionServer_def NewAuthServer_def mount_def

lemmas option_defs = NewServer_def WithRepositories_def WithTxManager_def WithPermissionEvaluator_def WithEventLookup_def
  WithDataProxy_def WithTenantCache_def WithSessionStore_def WithOIDCParams_def WithPendingAuthStateCache_def WithSupportsLogin_def

definition bare :: "string \<Rightarrow> ('r, 'tx) service" where
  "bare name = NewServer name []"

definition own_services :: "('r, 'tx) server_env \<Rightarrow> server_flags \<Rightarrow> ('r, 'tx) mounted list" where
  "own_services env c = (let r = Some (en_repos env); tx = Some (en_txManager env); store = Some (own_store c);
       l = Some (own_lookup env c); d = Some (own_broker env c);
       on = (\<lambda>srv chain. \<lparr>mo_Service = srv, mo_Interceptors = chain\<rparr>); anon_chain = [otel_interceptor, traceID_interceptor];
       token_chain = anon_chain @ [auth_interceptor]
     in [on ((bare ''SettingsService'')\<lparr>sv_supportsLogin := SupportIDP c\<rparr>) user_chain] @
        (if login_configured c then [on ((bare ''AuthService'')\<lparr>sv_sessionStore := store,
            sv_oidcParam := oc_oidcParam (os_ownCfg (own_store c)),
            sv_pending := Some \<lparr>pc_Timeout = 30 * 1000000000, pc_nats = EnableNats c\<rparr>\<rparr>) user_chain] else []) @
        (if SupportIDP c then [on ((bare ''UserService'')\<lparr>sv_sessionStore := store\<rparr>) user_chain] else []) @
        [on ((bare ''EventService'')\<lparr>sv_repos := r, sv_txMgr := tx, sv_pe := True\<rparr>) user_chain,
         on ((bare ''AnalysisService'')\<lparr>sv_repos := r, sv_txMgr := tx, sv_pe := True\<rparr>)
           (anon_chain @ [config_interceptor, auth_interceptor]),
         on ((bare ''ProviderService'')\<lparr>sv_repos := r, sv_txMgr := tx, sv_lookup := l, sv_dataProxy := d, sv_pe := True\<rparr>) user_chain,
         on ((bare ''LiveDataService'')\<lparr>sv_lookup := l, sv_dataProxy := d\<rparr>) anon_chain,
         on ((bare ''RaceStateService'')\<lparr>sv_repos := r, sv_txMgr := tx, sv_lookup := l, sv_dataProxy := d, sv_pe := True\<rparr>) token_chain,
         on ((bare ''TrackService'')\<lparr>sv_repos := r, sv_pe := True\<rparr>) token_chain,
         on ((bare ''PredictService'')\<lparr>sv_repos := r, sv_lookup := l\<rparr>) anon_chain,
         on ((bare ''TenantService'')\<lparr>sv_repos := r, sv_tenantCache := True, sv_pe := True\<rparr>) token_chain,
         on (bare ''Health'') [], on (bare ''ServerReflection'') []])"

definition login_provider_ok :: "('r, 'tx) server_env \<Rightarrow> server_flags \<Rightarrow> bool" where
  "login_provider_ok env c \<longleftrightarrow> (login_configured c \<longrightarrow> en_provider env (IDPIssuerURL c))"

lemma SetupGrpcServices_eq: "SetupGrpcServices env (prepared env tls rf c) = (if login_provider_ok env c
    then Some ((wire_broker env (prepared env tls rf c))\<lparr>gs_mounted := own_services env c\<rparr>) else None)"
  unfolding SetupGrpcServices_def wire_broker_eq Let_def
  by (cases "login_configured c"; cases "SupportIDP c"; cases "en_provider env (IDPIssuerURL c)")
    (auto simp: login_provider_ok_def register_defs option_defs own_services_def bare_def prepared_def own_store_def login_configured_def
      Let_def)

lemma startServer_eq: "startServer env tls rf c = (if services_ready env rf c \<and> login_provider_ok env c
    then Some ((wire_broker env (prepared env tls rf c))\<lparr>gs_mounted := own_services env c\<rparr>) else None)"
  by (simp add: startServer_prepared SetupGrpcServices_eq)

lemma startServer_SomeD:
  assumes "startServer env tls rf c = Some s"
  shows "s = (prepared env tls rf c)\<lparr>gs_eventLookup := Some (own_lookup env c), gs_dataProxy := Some (own_broker env c),
     gs_onUnregister := (if own_broker env c = NatsProxy then Some (own_lookup env c) else None), gs_mounted := own_services env c\<rparr>"
  using assms by (simp add: startServer_eq wire_broker_eq split: if_splits)

lemma bare_simps [simp]:
  "sv_Name (bare n) = n" "sv_repos (bare n) = None" "sv_txMgr (bare n) = None" "sv_pe (bare n) = False" "sv_lookup (bare n) = None"
  "sv_dataProxy (bare n) = None" "sv_tenantCache (bare n) = False" "sv_sessionStore (bare n) = None"
  by (simp_all add: bare_def NewServer_def)


text \<open>Start gives no error, also when a listener failed.\<close>

lemma failed_listener_not_reported: "startServer env tls rf c = Some s \<Longrightarrow> \<exists>done. Start s ListenFailed = Some (done, None)"
  by (auto dest!: startServer_SomeD simp: Start_def)

text \<open>Reflection does not tell of the settings, nor of the login and user services.\<close>

lemma reflection_incomplete:
  "{n. n \<in> {''SettingsService'', ''AuthService'', ''UserService'', ''EventService'', ''AnalysisService'', ''ProviderService'', ''LiveDataService'',
     ''RaceStateService'', ''TrackService'', ''PredictService'', ''TenantService''} \<and> n \<notin> set reflection_names} =
     {''SettingsService'', ''AuthService'', ''UserService''}"
  by (auto simp: reflection_names_def)

text \<open>A flag that is not on the command line gets the value of its variable, whose name has no dashes, even if the file has another.\<close>

lemma flag_from_environment:
  assumes "\<not> flag_Changed f" "CHR ''-'' \<in> set (flag_Name f)" "vp_Env v (envPrefix @ ''_'' @ map ascii_upper (flag_Name f)) = None"
    and "vp_Env v (bound_name (flag_Name f)) = Some val" "val \<noteq> []" "flag_ok f val"
  shows "flag_Value (fst (bind_flag f v)) = val"
  using assms by (simp add: bind_flag_def viper_Get_def env_get_def)

lemma flag_from_command_line: "flag_Changed f \<Longrightarrow> fst (bind_flag f v) = f"
  by (simp add: bind_flag_def Let_def)

lemma bound_name_example: "bound_name ''log-level'' = ''ISM_LOG_LEVEL''"
  by code_simp

subsection \<open>Who calls\<close>

definition user_services :: "string list" where
  "user_services = [''SettingsService'', ''AuthService'', ''UserService'', ''EventService'', ''ProviderService'']"

definition token_services :: "string list" where
  "token_services = [''AnalysisService'', ''RaceStateService'', ''TrackService'', ''TenantService'']"

lemma chains:
  assumes "m \<in> set (own_services env c)"
  shows "if sv_Name (mo_Service m) \<in> set user_services then mo_Interceptors m = user_chain
    else if sv_Name (mo_Service m) \<in> set token_services then
      mo_Interceptors m = [otel_interceptor, traceID_interceptor] @ (if sv_Name (mo_Service m) = ''AnalysisService'' then [config_interceptor] else []) @
        [auth_interceptor]
    else set (mo_Interceptors m) \<subseteq> {otel_interceptor, traceID_interceptor}"
  using assms by (auto simp: own_services_def Let_def user_services_def token_services_def)

lemma no_auth_chain:
  assumes "set is \<subseteq> {otel_interceptor, traceID_interceptor}"
  shows "go_for (run_interceptor s E rq) is x = Some x"
  using assms by (induction "is" arbitrary: x) auto

definition session_of :: "('s, 'e) rpc_env \<Rightarrow> server_flags \<Rightarrow> rpc_request \<Rightarrow> 's \<Rightarrow> sessionRawData option" where
  "session_of E c rq st = fst (session_intercept (re_Storage E) (os_cfg (own_store c)) (rp_Unary rq) (re_Now E) (rp_Cookie rq) st)"

definition caller :: "('s, 'e) rpc_env \<Rightarrow> server_flags \<Rightarrow> rpc_request \<Rightarrow> sessionRawData option \<Rightarrow> tenant_cache \<Rightarrow> Authentication option" where
  "caller E c rq sess tc = fst (handleAuth (auth_config E (AdminToken c)) (auth_request E rq sess) tc)"

lemma caller_Some: "\<exists>a. caller E c rq sess tc = Some a"
  by (auto simp: caller_def handleAuth_def anonymous_Authenticate_def split: prod.splits option.splits)

lemma run_session:
  assumes "gs_sessionInterceptor s = Some (own_store c)"
  shows "\<exists>st'. run_interceptor s E rq session_interceptor (ctx, st, tc) = Some (ctx\<lparr>rc_Session := session_of E c rq st\<rparr>, st', tc)"
  using assms by (cases "session_intercept (re_Storage E) (os_cfg (own_store c)) (rp_Unary rq) (re_Now E) (rp_Cookie rq) st")
    (simp add: session_of_def)

lemma run_auth:
  assumes "gs_authInterceptor s = Some (AdminToken c, True)"
  shows "\<exists>tc'. run_interceptor s E rq auth_interceptor (ctx, st, tc) = Some (ctx\<lparr>rc_Auth := caller E c rq (rc_Session ctx) tc\<rparr>, st, tc')"
proof -
  obtain a tc' where "handleAuth (auth_config E (AdminToken c)) (auth_request E rq (rc_Session ctx)) tc = (Some a, tc')"
    using caller_Some[of E c rq "rc_Session ctx" tc] by (auto simp: caller_def prod_eq_iff)
  with assms show ?thesis by (simp add: caller_def)
qed

lemma handler_context_of:
  assumes "startServer env tls rf c = Some s" "m \<in> set (gs_mounted s)"
  shows "\<exists>ctx st' tc'. handler_context s E rq m st tc = Some (ctx, st', tc') \<and>
    rc_Auth ctx = (if sv_Name (mo_Service m) \<in> set user_services then caller E c rq (session_of E c rq st) tc
      else if sv_Name (mo_Service m) \<in> set token_services then caller E c rq None tc else None)"
proof -
  note s = startServer_SomeD[OF assms(1)]
  have i: "gs_sessionInterceptor s = Some (own_store c)" "gs_authInterceptor s = Some (AdminToken c, True)"
    by (simp_all add: s prepared_def)
  have ch: "m \<in> set (own_services env c)" using assms(2) by (simp add: s)
  let ?n = "sv_Name (mo_Service m)"
  consider (user) "?n \<in> set user_services" | (token) "?n \<notin> set user_services" "?n \<in> set token_services"
    | (other) "?n \<notin> set user_services" "?n \<notin> set token_services" by blast
  then show ?thesis
  proof cases
    case user
    obtain st' where "run_interceptor s E rq session_interceptor (\<lparr>rc_Config = Some (app_config (gs_config s)), rc_Session = None, rc_Auth = None\<rparr>, st, tc) =
        Some (\<lparr>rc_Config = Some (app_config (gs_config s)), rc_Session = session_of E c rq st, rc_Auth = None\<rparr>, st', tc)"
      using run_session[OF i(1), of E rq "\<lparr>rc_Config = Some (app_config (gs_config s)), rc_Session = None, rc_Auth = None\<rparr>" st tc] by auto
    moreover obtain tc' where "run_interceptor s E rq auth_interceptor (\<lparr>rc_Config = Some (app_config (gs_config s)), rc_Session = session_of E c rq st, rc_Auth = None\<rparr>, st', tc) =
        Some (\<lparr>rc_Config = Some (app_config (gs_config s)), rc_Session = session_of E c rq st, rc_Auth = caller E c rq (session_of E c rq st) tc\<rparr>, st', tc')"
      using run_auth[OF i(2), of E rq "\<lparr>rc_Config = Some (app_config (gs_config s)), rc_Session = session_of E c rq st, rc_Auth = None\<rparr>" st' tc] by auto
    ultimately show ?thesis using user chains[OF ch] by (simp add: handler_context_def user_chain_def del: run_interceptor.simps(4,5))
  next
    case token
    obtain tc' where "run_interceptor s E rq auth_interceptor (\<lparr>rc_Config = cf, rc_Session = None, rc_Auth = None\<rparr>, st, tc) =
        Some (\<lparr>rc_Config = cf, rc_Session = None, rc_Auth = caller E c rq None tc\<rparr>, st, tc' cf)" for cf
      using run_auth[OF i(2), of E rq "\<lparr>rc_Config = cf, rc_Session = None, rc_Auth = None\<rparr>" st tc for cf] by simp metis
    then show ?thesis using token chains[OF ch] by (simp add: handler_context_def del: run_interceptor.simps(5))
  next
    case other
    then show ?thesis using chains[OF ch] by (simp add: handler_context_def no_auth_chain)
  qed
qed

lemma caller_without_session:
  assumes "caller E c rq None tc = Some a"
  shows "HasPermission a perm \<longleftrightarrow> rp_Token rq \<noteq> [] \<and> rp_Token rq = AdminToken c"
  using assms by (auto simp: caller_def handleAuth_def apiKey_Authenticate_def session_Authenticate_def anonymous_Authenticate_def
      auth_request_def auth_config_def permission_by_role anon_def tenant_auth_def split: if_splits sum.splits prod.splits)

subsection \<open>A server to try\<close>

definition start_env :: "((int, nat, string, unit) repos, (int, nat, string, unit) tx_runner) server_env" where
  "start_env = \<lparr>en_telemetry = False, en_loadConfig = (\<lambda>_. False), en_dial = (\<lambda>_ _. (True, 0)), en_now = 0, en_pool = (\<lambda>_. True), en_repos = mem_repos,
     en_txManager = (\<lambda>f. f), en_natsSession = False, en_natsStorage = False, en_natsPending = False, en_natsBucket = False,
     en_natsProxy = False, en_provider = (\<lambda>_. False)\<rparr>"

definition start_rpc :: "(inMemoryStorage, unit) rpc_env" where
  "start_rpc = \<lparr>re_Storage = memory_storage, re_hashAPIKey = (\<lambda>k. k), re_loadTenant = (\<lambda>_. Inl ()), re_Now = 0\<rparr>"

definition start_flags :: server_flags where
  "start_flags = NewServerCmd\<lparr>AdminToken := ''secret''\<rparr>"

lemma start_env_starts: "\<exists>s. startServer start_env False root_defaults start_flags = Some s"
proof -
  have "service_timeout ''15s'' = 15000000000" by code_simp
  then have "fst (WaitForTCP (\<lambda>_. (True, 0)) 0 (service_timeout ''15s''))"
    unfolding WaitForTCP_iff by (auto simp: attempt_at_def intro: exI[of _ 0])
  then show ?thesis
    by (simp add: startServer_eq services_ready_def login_provider_ok_def login_configured_def start_env_def root_defaults_def start_flags_def
      NewServerCmd_def waitForRequiredServices_def Let_def)
qed

lemma own_services_names: "(\<lambda>m. sv_Name (mo_Service m)) ` set (own_services env c) =
    {''SettingsService'', ''EventService'', ''AnalysisService'', ''ProviderService'', ''LiveDataService'', ''RaceStateService'', ''TrackService'',
     ''PredictService'', ''TenantService'', ''Health'', ''ServerReflection''} \<union> (if login_configured c then {''AuthService''} else {}) \<union>
     (if SupportIDP c then {''UserService''} else {})"
  by (simp add: own_services_def Let_def)

lemma start_env_service:
  assumes "startServer start_env False root_defaults start_flags = Some s" "n \<in> {''TenantService'', ''TrackService'', ''LiveDataService''}"
  shows "\<exists>m. m \<in> set (gs_mounted s) \<and> sv_Name (mo_Service m) = n"
proof -
  have "n \<in> (\<lambda>m. sv_Name (mo_Service m)) ` set (own_services start_env start_flags)" using assms(2) by (elim insertE) (simp_all add: own_services_names)
  then show ?thesis by (auto simp: startServer_SomeD[OF assms(1)])
qed

subsection \<open>Properties\<close>

text \<open>
  C11: who the caller of a service is depends on the service: the api token and then the session of the cookie count for the services of
  users, the api token alone for those of analyses, race states, tracks and tenants, and nobody is looked for by the others.
\<close>

theorem service_callers:
  assumes "startServer env tls rf c = Some s" "m \<in> set (gs_mounted s)"
  shows "\<exists>ctx st' tc'. handler_context s E rq m st tc = Some (ctx, st', tc') \<and>
    rc_Auth ctx = (let auth = (\<lambda>sess. fst (handleAuth (auth_config E (AdminToken c)) (auth_request E rq sess) tc)) in
      if sv_Name (mo_Service m) \<in> set user_services
      then auth (fst (session_intercept (re_Storage E) \<lparr>cfg_Timeout = SessionTimeout c, cfg_CookieName = CookieName c\<rparr> (rp_Unary rq) (re_Now E)
        (rp_Cookie rq) st))
      else if sv_Name (mo_Service m) \<in> set token_services then auth None else None)"
proof -
  have "os_cfg (own_store c) = \<lparr>cfg_Timeout = SessionTimeout c, cfg_CookieName = CookieName c\<rparr>" by (simp add: own_store_def)
  from handler_context_of[OF assms, of E rq st tc, unfolded caller_def session_of_def this] show ?thesis unfolding Let_def .
qed

theorem service_callers_witness:
  "\<exists>s m ctx st' tc'. startServer start_env False root_defaults start_flags = Some s \<and> m \<in> set (gs_mounted s) \<and>
     sv_Name (mo_Service m) = ''LiveDataService'' \<and>
     handler_context s start_rpc \<lparr>rp_Unary = True, rp_Cookie = None, rp_Token = ''secret''\<rparr> m
       (newInMemoryStorage oauth2_defaults 0) NewTenantCache = Some (ctx, st', tc') \<and> rc_Auth ctx = None"
proof -
  obtain s where s: "startServer start_env False root_defaults start_flags = Some s" using start_env_starts by blast
  then obtain m where m: "m \<in> set (gs_mounted s)" "sv_Name (mo_Service m) = ''LiveDataService''"
    using start_env_service[OF s, of "''LiveDataService''"] by auto
  show ?thesis using service_callers[OF s m(1), of start_rpc "\<lparr>rp_Unary = True, rp_Cookie = None, rp_Token = ''secret''\<rparr>"
      "newInMemoryStorage oauth2_defaults 0" NewTenantCache] s m
    by (auto simp: user_services_def token_services_def)
qed

text \<open>
  C20: for the services of analyses, race states, tracks and tenants a caller has a permission that does not concern an object
  exactly with the admin token; the roles of the user who is logged in do not count there.
\<close>

theorem token_services_admin_only:
  assumes "startServer env tls rf c = Some s" "m \<in> set (gs_mounted s)" "sv_Name (mo_Service m) \<in> set token_services"
  shows "\<exists>ctx st' tc' a. handler_context s E rq m st tc = Some (ctx, st', tc') \<and> rc_Auth ctx = Some a \<and>
    (HasPermission a perm \<longleftrightarrow> rp_Token rq \<noteq> [] \<and> rp_Token rq = AdminToken c)"
proof -
  have "sv_Name (mo_Service m) \<notin> set user_services"
    using assms(3) by (auto simp: token_services_def user_services_def)
  moreover obtain a where "caller E c rq None tc = Some a" using caller_Some by blast
  ultimately show ?thesis
    using handler_context_of[OF assms(1,2), of E rq st tc] assms(3) caller_without_session[of E c rq tc a perm] by auto
qed

theorem token_services_admin_only_witness:
  "\<exists>s m ctx st' tc' a. startServer start_env False root_defaults start_flags = Some s \<and> m \<in> set (gs_mounted s) \<and>
     sv_Name (mo_Service m) = ''TenantService'' \<and>
     handler_context s start_rpc \<lparr>rp_Unary = True, rp_Cookie = None, rp_Token = ''secret''\<rparr> m
       (newInMemoryStorage oauth2_defaults 0) NewTenantCache = Some (ctx, st', tc') \<and> rc_Auth ctx = Some a \<and>
     HasPermission a PermissionCreateTenant"
proof -
  obtain s where s: "startServer start_env False root_defaults start_flags = Some s" using start_env_starts by blast
  then obtain m where m: "m \<in> set (gs_mounted s)" "sv_Name (mo_Service m) = ''TenantService''"
    using start_env_service[OF s, of "''TenantService''"] by auto
  have "sv_Name (mo_Service m) \<in> set token_services" by (simp add: m(2) token_services_def)
  from token_services_admin_only[OF s m(1) this, of start_rpc "\<lparr>rp_Unary = True, rp_Cookie = None, rp_Token = ''secret''\<rparr>"
      "newInMemoryStorage oauth2_defaults 0" NewTenantCache PermissionCreateTenant]
  show ?thesis using s m by (auto simp: start_flags_def)
qed

text \<open>
  C38: the server gives the track service no transaction manager: every call that would write a track is a nil dereference when the
  caller may make it, and denied otherwise.
\<close>

theorem track_writes_panic:
  assumes "startServer env tls rf c = Some s" "m \<in> set (gs_mounted s)" "sv_Name (mo_Service m) = ''TrackService''"
  shows "served_EnsureTrack (mo_Service m) a t db = (if HasPermission a PermissionCreateTrack then None else Some (denied, db)) \<and>
    served_UpdatePitInfo (mo_Service m) a i pitInfo db = (if HasPermission a PermissionUpdateTrack then None else Some (denied, db))"
proof -
  have "m \<in> set (own_services env c)" using assms(1,2) by (auto dest!: startServer_SomeD)
  with assms(3) have "sv_txMgr (mo_Service m) = None" by (auto simp: own_services_def Let_def split: if_splits)
  then show ?thesis by (simp add: served_EnsureTrack_def served_UpdatePitInfo_def)
qed

theorem track_writes_panic_witness:
  "\<exists>s m. startServer start_env False root_defaults start_flags = Some s \<and> m \<in> set (gs_mounted s) \<and>
     sv_Name (mo_Service m) = ''TrackService'' \<and>
     served_EnsureTrack (mo_Service m) (SimpleAuth ''admin'' [RoleAdmin] []) None mem_admin = None"
proof -
  obtain s where s: "startServer start_env False root_defaults start_flags = Some s" using start_env_starts by blast
  then obtain m where m: "m \<in> set (gs_mounted s)" "sv_Name (mo_Service m) = ''TrackService''"
    using start_env_service[OF s, of "''TrackService''"] by auto
  have "HasPermission (SimpleAuth ''admin'' [RoleAdmin] []) PermissionCreateTrack" by (simp add: permission_by_role)
  with track_writes_panic[OF s m, of "SimpleAuth ''admin'' [RoleAdmin] []" None mem_admin 0 None] s m show ?thesis
    by (intro exI[of _ s] exI[of _ m]) simp
qed

end
