(* ===== verification/Snapshots.thy ===== *)
theory Snapshots
  imports Recording_Properties
begin

text \<open>
  The snapshots of a recorded event, pkg/grpc/repository/bob/speedmap/speedmap_repos_impl.go: the two queries that choose one speedmap for each
  bin of time, LoadSnapshots built with the query builder and LoadSnapshotsLegacy as raw SQL.

  A query is a value, which the database answers; window_answer says which answers SQL allows.  The window function asks for the first
  id of a bin without an order inside the bin, so that any row of the bin may be the first.  The length of a bin is sent as the text "'n seconds'", which
  the database reads as n seconds.
\<close>

subsection \<open>The queries\<close>

text \<open>Which rows go into the bins, the length of a bin and the argument of to_timestamp, both in seconds.\<close>

record 'd window_query =
  wq_Event :: int
  wq_From :: "'d condition"
  wq_Stride :: int
  wq_Origin :: int

definition UnixMilli :: "timestamp \<Rightarrow> int" where
  "UnixMilli t = t div 1000000"

definition snapshots_query :: "int \<Rightarrow> timestamp \<Rightarrow> int \<Rightarrow> 'd window_query" where
  "snapshots_query eventID startTS intervalSecs = \<lparr>
     wq_Event = sint (word_of_int eventID :: int32),
     wq_From = RecordStamp_GTE startTS,
     wq_Stride = intervalSecs,
     wq_Origin = UnixMilli startTS\<rparr>"

definition legacy_query :: "int \<Rightarrow> int \<Rightarrow> timestamp \<Rightarrow> int \<Rightarrow> 'd window_query" where
  "legacy_query eventID rsID startTS intervalSecs = \<lparr>
     wq_Event = eventID,
     wq_From = ID_GTE (word_of_int rsID),
     wq_Stride = intervalSecs,
     wq_Origin = UnixMilli startTS\<rparr>"

text \<open>A row of the result, scanned into a snapRaw.\<close>

definition scan_snapRaw :: "'d decimals \<Rightarrow> 'd RSInfo \<times> 'b \<Rightarrow> 'b snapRaw" where
  "scan_snapRaw nm row = \<lparr>
     sr_RecordStamp = rsi_RecordStamp (fst row),
     sr_SessionTime = ScanFloat32 nm (rsi_SessionTime (fst row)),
     sr_TimeOfDay = f32_of_int (sint (rsi_TimeOfDay (fst row))),
     sr_AirTemp = ScanFloat32 nm (rsi_AirTemp (fst row)),
     sr_TrackTemp = ScanFloat32 nm (rsi_TrackTemp (fst row)),
     sr_TrackWetness = sint (rsi_TrackWetness (fst row)),
     sr_Precipitation = ScanFloat32 nm (rsi_Precipitation (fst row)),
     sr_Protodata = snd row\<rparr>"

type_synonym ('d, 'b, 'e) window_exec = "('d, 'b) database \<Rightarrow> 'd window_query \<Rightarrow> 'e + ('d RSInfo \<times> 'b) list"

definition all_snapRaw :: "('d, 'b, 'e) window_exec \<Rightarrow> 'd decimals \<Rightarrow> ('d, 'b) database \<Rightarrow> 'd window_query \<Rightarrow> 'e + 'b snapRaw list" where
  "all_snapRaw wx nm db q = (case wx db q of Inl err \<Rightarrow> Inl err | Inr rows \<Rightarrow> Inr (map (scan_snapRaw nm) rows))"

text \<open>What LoadSnapshots asks the database for.\<close>

definition select_snapshots :: "('d, 'b, 'e) window_exec \<Rightarrow> 'd decimals \<Rightarrow> int \<Rightarrow> ('d, 'b) database \<Rightarrow> int32 \<Rightarrow> timestamp \<Rightarrow> int \<Rightarrow> 'e + 'b snapRaw list" where
  "select_snapshots wx nm eventID db _ startTS intervalSecs = all_snapRaw wx nm db (snapshots_query eventID startTS intervalSecs)"

definition LoadSnapshotsLegacy :: "('d, 'b, 'e) Executor \<Rightarrow> ('d, 'b, 'e) window_exec \<Rightarrow> 'd decimals \<Rightarrow> (f32 \<Rightarrow> uint32) \<Rightarrow>
    (PublishSpeedmapRequest, 'b, 'e) codec \<Rightarrow> int \<Rightarrow> int \<Rightarrow> ('d, 'b) database \<Rightarrow> ('e + SnapshotData list) run" where
  "LoadSnapshotsLegacy ex wx nm u32 cd eventID intervalSecs db = do {
     start \<leftarrow> findStartingPoint ex cd eventID db;
     (case start of
        Inl err \<Rightarrow> Some (Inl err)
      | Inr None \<Rightarrow> Some (Inr [])
      | Inr (Some (rsID, startTS)) \<Rightarrow>
          (case all_snapRaw wx nm db (legacy_query eventID rsID startTS intervalSecs) of
             Inl err \<Rightarrow> Some (Inl err)
           | Inr res \<Rightarrow> snapRowToSnapshotData u32 cd res []))
   }"

subsection \<open>What SQL answers\<close>

text \<open>date_bin: the beginning of the bin of a time, where the bins are counted from an origin.\<close>

definition date_bin :: "int \<Rightarrow> timestamp \<Rightarrow> timestamp \<Rightarrow> timestamp" where
  "date_bin stride source origin = origin + (source - origin) div stride * stride"

definition bin_of :: "'d window_query \<Rightarrow> 'd RSInfo \<times> 'b \<Rightarrow> timestamp" where
  "bin_of q r = date_bin (wq_Stride q * 1000000000) (rsi_RecordStamp (fst r)) (wq_Origin q * 1000000000)"

definition window_rows :: "('d::linorder, 'b) database \<Rightarrow> 'd window_query \<Rightarrow> ('d RSInfo \<times> 'b) list" where
  "window_rows db q = filter (\<lambda>r. sint (rsi_EventID (fst r)) = wq_Event q \<and> satisfies (wq_From q) (fst r)) (join db SpeedmapProtos)"

definition window_answer :: "('d::linorder, 'b) database \<Rightarrow> 'd window_query \<Rightarrow> ('d RSInfo \<times> 'b) list \<Rightarrow> bool" where
  "window_answer db q rows \<longleftrightarrow> (\<exists>first.
     (\<forall>r \<in> set (window_rows db q). first (bin_of q r) \<in> set (window_rows db q) \<and> bin_of q (first (bin_of q r)) = bin_of q r) \<and>
     mset rows = mset (filter (\<lambda>r. rsi_ID (fst r) \<in> (\<lambda>r. rsi_ID (fst (first (bin_of q r)))) ` set (window_rows db q)) (join db SpeedmapProtos)) \<and>
     sorted (map (\<lambda>r. rsi_RecordStamp (fst r)) rows))"

definition sql_window :: "('d::linorder, 'b, 'e) window_exec \<Rightarrow> bool" where
  "sql_window wx \<longleftrightarrow> (\<forall>db q rows. wx db q = Inr rows \<longrightarrow> 0 < wq_Stride q \<and> window_answer db q rows)"

lemma date_bin_le:
  assumes "0 < stride"
  shows "date_bin stride t origin \<le> t \<and> t < date_bin stride t origin + stride"
proof -
  have "(t - origin) div stride * stride + (t - origin) mod stride = t - origin" by (rule div_mult_mod_eq)
  with assms pos_mod_bound[of stride "t - origin"] pos_mod_sign[of stride "t - origin"] show ?thesis
    unfolding date_bin_def by linarith
qed

lemma date_bin_mono: "0 < stride \<Longrightarrow> t \<le> t' \<Longrightarrow> date_bin stride t origin \<le> date_bin stride t' origin"
  by (simp add: date_bin_def zdiv_mono1 mult_right_mono)

lemma bin_of_mono: "0 < wq_Stride q \<Longrightarrow> rsi_RecordStamp (fst r) \<le> rsi_RecordStamp (fst r') \<Longrightarrow> bin_of q r \<le> bin_of q r'"
  by (simp add: bin_of_def date_bin_mono)

lemma window_rows_join: "set (window_rows db q) \<subseteq> set (join db SpeedmapProtos)"
  by (auto simp: window_rows_def)

lemma sint_eq_iff: "sint a = sint b \<longleftrightarrow> a = b"
  by (auto intro: signed_word_eqI)

lemma inj_on_image_Collect: "inj_on f A \<Longrightarrow> B \<subseteq> A \<Longrightarrow> {x \<in> A. f x \<in> f ` B} = B"
  by (auto dest: inj_onD)

text \<open>With distinct ids an answer has one row for each bin that has rows, in the order of time.\<close>

lemma window_answer_bins:
  assumes "window_answer db q rows" "table_ok cd SpeedmapProtos db" "0 < wq_Stride q"
  shows "set rows \<subseteq> set (window_rows db q)" "bin_of q ` set rows = bin_of q ` set (window_rows db q)"
    "sorted_wrt (\<lambda>r r'. bin_of q r < bin_of q r') rows"
proof -
  obtain first where first: "\<And>r. r \<in> set (window_rows db q) \<Longrightarrow>
      first (bin_of q r) \<in> set (window_rows db q) \<and> bin_of q (first (bin_of q r)) = bin_of q r"
    and rows: "mset rows = mset (filter (\<lambda>r. rsi_ID (fst r) \<in> (\<lambda>r. rsi_ID (fst (first (bin_of q r)))) ` set (window_rows db q)) (join db SpeedmapProtos))"
    and stamps: "sorted (map (\<lambda>r. rsi_RecordStamp (fst r)) rows)" using assms(1) unfolding window_answer_def by blast
  let ?id = "\<lambda>r :: 'a RSInfo \<times> 'b. rsi_ID (fst r)" and ?picks = "(\<lambda>r. first (bin_of q r)) ` set (window_rows db q)"
  have ids: "distinct (map ?id (join db SpeedmapProtos))" using assms(2) by (rule join_distinct_ids)
  have "?picks \<subseteq> set (window_rows db q)" using first by auto
  then have "?picks \<subseteq> set (join db SpeedmapProtos)" using window_rows_join by blast
  moreover have "set rows = {r \<in> set (join db SpeedmapProtos). ?id r \<in> ?id ` ?picks}"
    using mset_eq_setD[OF rows] by (auto simp: image_image)
  moreover have "inj_on ?id (set (join db SpeedmapProtos))" using ids by (simp add: distinct_map)
  ultimately have set: "set rows = ?picks" by (simp add: inj_on_image_Collect)
  then show "set rows \<subseteq> set (window_rows db q)" using first by auto
  from set first show "bin_of q ` set rows = bin_of q ` set (window_rows db q)" by (force simp: image_image)
  have "distinct rows" using mset_eq_imp_distinct_iff[OF rows] ids by (simp add: distinct_map)
  moreover have "inj_on (bin_of q) (set rows)" unfolding set using first by (auto simp: inj_on_def)
  ultimately have "distinct (map (bin_of q) rows)" by (simp add: distinct_map)
  moreover have "sorted (map (bin_of q) rows)"
    using stamps unfolding sorted_map by (rule sorted_wrt_mono_rel[rotated]) (rule bin_of_mono[OF assms(3)])
  ultimately show "sorted_wrt (\<lambda>r r'. bin_of q r < bin_of q r') rows" by (simp add: strict_sorted_iff flip: sorted_wrt_map)
qed

subsection \<open>The start\<close>

definition timed :: "(PublishSpeedmapRequest, 'b, 'e) codec \<Rightarrow> 'd RSInfo \<times> 'b \<Rightarrow> bool" where
  "timed cd r \<longleftrightarrow> (\<exists>m entries. Unmarshal cd (snd r) = Inr m \<and> psm_Speedmap m = Some entries \<and> has_laptime entries)"

lemma starting_point_None: "starting_point cd rows = Some (Inr None) \<Longrightarrow> \<forall>r \<in> set rows. \<not> timed cd r"
  by (induction cd rows rule: starting_point.induct) (auto simp: timed_def bind_eq_Some_conv split: sum.splits if_splits)

lemma starting_point_Some:
  "starting_point cd rows = Some (Inr (Some (i, t))) \<Longrightarrow>
    \<exists>pre r post. rows = pre @ r # post \<and> timed cd r \<and> i = rsi_ID (fst r) \<and> t = rsi_RecordStamp (fst r) \<and> (\<forall>p \<in> set pre. \<not> timed cd p)"
proof (induction cd rows rule: starting_point.induct)
  case (2 cd row rows)
  then obtain m entries where m: "Unmarshal cd (snd row) = Inr m" "psm_Speedmap m = Some entries"
    by (auto simp: bind_eq_Some_conv split: sum.splits)
  show ?case
  proof (cases "has_laptime entries")
    case True
    with 2 m show ?thesis by (intro exI[of _ "[]"] exI[of _ row] exI[of _ rows]) (auto simp: timed_def)
  next
    case False
    with "2.IH"[OF m] "2.prems" m obtain pre r post where "rows = pre @ r # post" "timed cd r" "i = rsi_ID (fst r)"
      "t = rsi_RecordStamp (fst r)" "\<forall>p \<in> set pre. \<not> timed cd p" by auto
    with False m show ?thesis by (intro exI[of _ "row # pre"] exI[of _ r] exI[of _ post]) (auto simp: timed_def)
  qed
qed simp

definition event_speedmaps :: "('d, 'b) database \<Rightarrow> int \<Rightarrow> ('d RSInfo \<times> 'b) list" where
  "event_speedmaps db e = filter (\<lambda>r. rsi_EventID (fst r) = word_of_int e) (join db SpeedmapProtos)"

lemma findStartingPoint_cases:
  assumes "sql_executor ex" "findStartingPoint ex cd e db = Some (Inr start)"
  obtains (none) "start = None" "\<forall>r \<in> set (event_speedmaps db e). \<not> timed cd r"
  | (found) r where "start = Some (rsi_ID (fst r), rsi_RecordStamp (fst r))" "r \<in> set (event_speedmaps db e)" "timed cd r"
      "\<And>p. p \<in> set (event_speedmaps db e) \<Longrightarrow> timed cd p \<Longrightarrow> rsi_RecordStamp (fst r) \<le> rsi_RecordStamp (fst p)"
proof -
  let ?q = "\<lparr>q_Where = [EventID_EQ (word_of_int e)], q_Limit = None, q_OrderBy = [RecordStamp_Asc]\<rparr>"
  obtain rows where rows: "ex_SelectProtos ex db SpeedmapProtos ?q = Inr rows" "answer ?q fst (join db SpeedmapProtos) rows"
    using select_protos[OF assms(1)] .
  have mset: "mset rows = mset (event_speedmaps db e)" and sorted: "sorted_wrt (\<lambda>r r'. rsi_RecordStamp (fst r) \<le> rsi_RecordStamp (fst r')) rows"
    using rows(2) by (auto simp: answer_def limit_rows_def event_speedmaps_def elim!: sorted_wrt_mono_rel[rotated])
  have set: "set rows = set (event_speedmaps db e)" using mset by (rule mset_eq_setD)
  have sp: "starting_point cd rows = Some (Inr start)" using assms(2) rows(1) by (simp add: findStartingPoint_def)
  show thesis
  proof (cases start)
    case None
    with starting_point_None sp set none show ?thesis by metis
  next
    case (Some s)
    then obtain i t where start: "start = Some (i, t)" by (cases s) simp
    then obtain pre r post where r: "rows = pre @ r # post" "timed cd r" "i = rsi_ID (fst r)" "t = rsi_RecordStamp (fst r)"
      "\<forall>p \<in> set pre. \<not> timed cd p" using starting_point_Some[of cd rows i t] sp by blast
    have "rsi_RecordStamp (fst r) \<le> rsi_RecordStamp (fst p)" if "p \<in> set rows" "timed cd p" for p
      using that r sorted by (auto simp: sorted_wrt_append)
    with r set start show ?thesis by (intro found[of r]) auto
  qed
qed

lemma snapshot_data_stamps:
  "snapRowToSnapshotData u32 cd rows ret = Some (Inr ret') \<Longrightarrow> map sd_RecordStamp ret' = map sd_RecordStamp ret @ map (Some \<circ> sr_RecordStamp) rows"
  by (induction u32 cd rows ret rule: snapRowToSnapshotData.induct) (auto simp: bind_eq_Some_conv split: sum.splits)

lemma snapshot_data_total:
  "(\<And>raw. raw \<in> set rows \<Longrightarrow> \<exists>m entries. Unmarshal cd (sr_Protodata raw) = Inr m \<and> psm_Speedmap m = Some entries) \<Longrightarrow>
    \<exists>ret'. snapRowToSnapshotData u32 cd rows ret = Some (Inr ret')"
proof (induction rows arbitrary: ret)
  case (Cons raw rows)
  from Cons.prems[of raw] obtain m entries where "Unmarshal cd (sr_Protodata raw) = Inr m" "psm_Speedmap m = Some entries" by auto
  with Cons show ?case by simp
qed simp

subsection \<open>Properties\<close>

lemma sd_stamps:
  assumes "map sd_RecordStamp ret = map (Some \<circ> sr_RecordStamp) (map (scan_snapRaw nm) rows)"
  shows "ret = [] \<longleftrightarrow> rows = []" "sd_RecordStamp ` set ret = (\<lambda>r. Some (rsi_RecordStamp (fst r))) ` set rows"
    "sorted_wrt (\<lambda>r r'. P (Some (rsi_RecordStamp (fst r))) (Some (rsi_RecordStamp (fst r')))) rows \<Longrightarrow>
      sorted_wrt (\<lambda>s s'. P (sd_RecordStamp s) (sd_RecordStamp s')) ret"
proof -
  have m: "map sd_RecordStamp ret = map (\<lambda>r. Some (rsi_RecordStamp (fst r))) rows"
    using assms by (simp add: o_def scan_snapRaw_def)
  from m show "ret = [] \<longleftrightarrow> rows = []" by (metis map_is_Nil_conv)
  from m show "sd_RecordStamp ` set ret = (\<lambda>r. Some (rsi_RecordStamp (fst r))) ` set rows" by (metis list.set_map)
  assume "sorted_wrt (\<lambda>r r'. P (Some (rsi_RecordStamp (fst r))) (Some (rsi_RecordStamp (fst r')))) rows"
  then have "sorted_wrt P (map sd_RecordStamp ret)" unfolding m sorted_wrt_map .
  then show "sorted_wrt (\<lambda>s s'. P (sd_RecordStamp s) (sd_RecordStamp s')) ret" by (simp only: sorted_wrt_map)
qed


text \<open>A database that answers as SQL does, with the first row in the order of the join for a bin.\<close>

definition mem_window :: "(int, 'b, unit) window_exec" where
  "mem_window db q = (if wq_Stride q \<le> 0 then Inl () else
     let W = window_rows db q; first = (\<lambda>b. hd (filter (\<lambda>r. bin_of q r = b) W)); ids = map (\<lambda>r. rsi_ID (fst (first (bin_of q r)))) W
     in Inr (sort_key (\<lambda>r. rsi_RecordStamp (fst r)) (filter (\<lambda>r. rsi_ID (fst r) \<in> set ids) (join db SpeedmapProtos))))"

lemma hd_filter: "x \<in> set xs \<Longrightarrow> P x \<Longrightarrow> hd (filter P xs) \<in> set xs \<and> P (hd (filter P xs))"
  by (induction xs) auto

lemma mem_window_sql: "sql_window mem_window"
  unfolding sql_window_def
proof (intro allI impI conjI)
  fix db :: "(int, 'b) database" and q rows
  assume ans: "mem_window db q = Inr rows"
  then show "0 < wq_Stride q" by (simp add: mem_window_def split: if_splits)
  show "window_answer db q rows"
    unfolding window_answer_def
  proof (intro exI[of _ "\<lambda>b. hd (filter (\<lambda>r. bin_of q r = b) (window_rows db q))"] conjI ballI)
    fix r assume r: "r \<in> set (window_rows db q)"
    show "hd (filter (\<lambda>r'. bin_of q r' = bin_of q r) (window_rows db q)) \<in> set (window_rows db q)"
      "bin_of q (hd (filter (\<lambda>r'. bin_of q r' = bin_of q r) (window_rows db q))) = bin_of q r"
      using hd_filter[OF r, of "\<lambda>r'. bin_of q r' = bin_of q r"] by simp_all
  qed (use ans in \<open>auto simp: mem_window_def Let_def split: if_splits\<close>)
qed

text \<open>Four speedmaps of an event, the first of them without a lap time.\<close>

definition snap_row :: "bool \<Rightarrow> PublishSpeedmapRequest" where
  "snap_row t = \<lparr>psm_Event = None, psm_Speedmap = Some [(''GT3'', \<lparr>csd_Laptime = (if t then Fin 90 else Fin 0)\<rparr>)],
     psm_Timestamp = None\<rparr>"

definition snap_db :: "(int, PublishSpeedmapRequest) database" where
  "snap_db = \<lparr>db_RSInfos = [rec_info 1 7 0, rec_info 2 7 101000000000, rec_info 3 7 150000000000, rec_info 4 7 250000000000],
     db_Protos = (\<lambda>tab. if tab = SpeedmapProtos then [(1, snap_row False), (2, snap_row True), (3, snap_row True), (4, snap_row True)] else [])\<rparr>"

lemma snap_db_ok: "table_ok rec_codec SpeedmapProtos snap_db"
  by (simp add: table_ok_def snap_db_def rec_info_def rec_codec_def)

lemma snap_db_start: "findStartingPoint mem_executor rec_codec 7 snap_db = Some (Inr (Some (2, 101000000000)))"
  by code_simp

lemma snap_db_rows: "mem_window snap_db (snapshots_query 7 101000000000 300) =
    Inr [(rec_info 2 7 101000000000, snap_row True), (rec_info 4 7 250000000000, snap_row True)]"
  by (simp add: mem_window_def window_rows_def join_def snap_db_def rec_info_def snapshots_query_def bin_of_def date_bin_def UnixMilli_def Let_def)

lemma snap_db_loaded: "\<exists>ret. LoadSnapshots mem_executor (select_snapshots mem_window rec_decimals 7) (\<lambda>_. 0) rec_codec 7 300 snap_db = Some (Inr ret) \<and>
    map sd_RecordStamp ret = [Some 101000000000, Some 250000000000]"
proof -
  let ?rows = "map (scan_snapRaw rec_decimals) [(rec_info 2 7 101000000000, snap_row True), (rec_info 4 7 250000000000, snap_row True)]"
  have "\<exists>ret. snapRowToSnapshotData (\<lambda>_. 0) (rec_codec :: (PublishSpeedmapRequest, _, unit) codec) ?rows [] = Some (Inr ret)"
    by (rule snapshot_data_total) (auto simp: scan_snapRaw_def rec_codec_def snap_row_def)
  then obtain ret where ret: "snapRowToSnapshotData (\<lambda>_. 0) (rec_codec :: (PublishSpeedmapRequest, _, unit) codec) ?rows [] = Some (Inr ret)" ..
  from snapshot_data_stamps[OF ret] ret show ?thesis
    by (intro exI[of _ ret]) (simp add: LoadSnapshots_def snap_db_start select_snapshots_def all_snapRaw_def snap_db_rows scan_snapRaw_def rec_info_def
        del: snapRowToSnapshotData.simps)
qed


text \<open>
  The comment says that the bins begin with the race.  They do not: to_timestamp reads milliseconds as seconds, so that the first bin may
  end before its length is over.  Here two snapshots are 149 seconds apart, with bins of 300 seconds.
\<close>

lemma snapshot_bins_not_from_start:
  "date_bin (300 * 1000000000) 101000000000 (UnixMilli 101000000000 * 1000000000) = - 100000000000"
  by (simp add: date_bin_def UnixMilli_def)



text \<open>Rows that are not numbered in the order of time are in one window and not in the other.\<close>

lemma legacy_differs:
  "let db = snap_db\<lparr>db_RSInfos := [rec_info 1 7 250000000000, rec_info 2 7 101000000000]\<rparr>
   in map (rsi_ID \<circ> fst) (window_rows db (snapshots_query 7 101000000000 300)) = [1, 2] \<and>
      map (rsi_ID \<circ> fst) (window_rows db (legacy_query 7 2 101000000000 300)) = [2]"
  by code_simp

end
