(* ===== verification/Check_Tools.thy ===== *)
theory Check_Tools
  imports Connections Snapshots Admin_Services
begin

text \<open>
  The check commands, pkg/cmd/check: they read one event from the database and print what they find.

  A command ends with what it has printed, by log.Fatal, or by an error it has logged, after which it simply returns.  What is None in addition is said at
  each command: a panic, or a loop that does not end.
\<close>

datatype 'o outcome = Printed 'o | Fatal | LoggedError 'o

subsection \<open>The database\<close>

text \<open>Every command waits for the database and opens a pool, whose creation ends the program when it fails.\<close>

record check_env =
  ce_dial :: "string \<Rightarrow> attempts"
  ce_pool :: "string \<Rightarrow> bool"
  ce_now :: int
  ce_DB :: string
  ce_WaitForServices :: string

definition with_database :: "check_env \<Rightarrow> string \<Rightarrow> (int \<Rightarrow> 'o outcome run) \<Rightarrow> 'o outcome run" where
  "with_database E eventArg body = (let eventID = fst (Atoi eventArg) in
     if \<not> wait_for_database (ce_dial E) (ce_WaitForServices E) (ce_DB E) (ce_now E) \<or> \<not> ce_pool E (ce_DB E) then Some Fatal
     else body eventID)"

subsection \<open>Driver data\<close>

record ('m, 'e) commonFetcher =
  cf_loader :: "timestamp \<Rightarrow> 'e + 'm RangeContainer"
  cf_buffer :: "'m list"
  cf_lastTS :: timestamp

definition check_initDriverDataFetcher :: "('e, 'm) range_repo \<Rightarrow> int \<Rightarrow> timestamp \<Rightarrow> int \<Rightarrow> ('m, 'e) commonFetcher" where
  "check_initDriverDataFetcher carProto eventID lastTS limit =
     \<lparr>cf_loader = (\<lambda>startTs. LoadRange carProto eventID startTs limit), cf_buffer = [], cf_lastTS = lastTS\<rparr>"

text \<open>None: log.Fatal.\<close>

definition check_fetch :: "('m, 'e) commonFetcher \<Rightarrow> ('m, 'e) commonFetcher run" where
  "check_fetch f = (case cf_loader f (cf_lastTS f) of Inl _ \<Rightarrow> None | Inr c \<Rightarrow> Some (f\<lparr>cf_buffer := rc_Data c\<rparr>))"

definition check_next :: "('m, 'e) commonFetcher \<Rightarrow> ('m option \<times> ('m, 'e) commonFetcher) run" where
  "check_next f = map_option (\<lambda>f. case cf_buffer f of [] \<Rightarrow> (None, f) | m # buffer \<Rightarrow> (Some m, f\<lparr>cf_buffer := buffer\<rparr>))
     (if cf_buffer f = [] then check_fetch f else Some f)"

text \<open>The loop of checkDriverDataFetcher, which counts the messages; None: it does not end.\<close>

partial_function (option) check_loop :: "('m, 'e) commonFetcher \<Rightarrow> nat \<Rightarrow> nat outcome run" where
  "check_loop f i = (case check_next f of
     None \<Rightarrow> Some Fatal
   | Some (None, f) \<Rightarrow> Some (Printed i)
   | Some (Some data, f) \<Rightarrow> check_loop f (Suc i))"

definition checkDriverDataFetcher :: "check_env \<Rightarrow> 'e event_repo \<Rightarrow> ('e, 'm) range_repo \<Rightarrow> string \<Rightarrow> nat outcome run" where
  "checkDriverDataFetcher E er carProto eventArg = with_database E eventArg (\<lambda>eventID. case er_LoadByID er eventID of
     Inl _ \<Rightarrow> Some (LoggedError 0)
   | Inr _ \<Rightarrow> check_loop (check_initDriverDataFetcher carProto eventID zero_time 50) 0)"

subsection \<open>Car states\<close>

text \<open>
  A row of the query (of at most 300, by id): the driver data and the race state, the session time and the id of rs_info.  The first row that cannot be scanned or
  decoded ends the command; a race state without a session is a nil dereference (None).
\<close>

fun show_rows :: "(PublishDriverDataRequest, 'b, 'e) codec \<Rightarrow> (PublishStateRequest, 'b, 'e) codec \<Rightarrow> ('e + 'b \<times> 'b \<times> int) list \<Rightarrow>
    (uint32 \<times> uint32 \<times> int) list \<Rightarrow> (uint32 \<times> uint32 \<times> int) list outcome run" where
  "show_rows cdD cdS [] out = Some (Printed out)"
| "show_rows cdD cdS (Inl err # rows) out = Some (LoggedError out)"
| "show_rows cdD cdS (Inr (csProtodata, rsProtodata, rsID) # rows) out = (case Unmarshal cdD csProtodata of
     Inl _ \<Rightarrow> Some (LoggedError out)
   | Inr driverstate \<Rightarrow> (case Unmarshal cdS rsProtodata of
       Inl _ \<Rightarrow> Some (LoggedError out)
     | Inr racestate \<Rightarrow> do {
         session \<leftarrow> psr_Session racestate;
         show_rows cdD cdS rows (out @ [(pdr_SessionNum driverstate, ses_SessionNum session, rsID)]) }))"

definition showCombined :: "(PublishDriverDataRequest, 'b, 'e) codec \<Rightarrow> (PublishStateRequest, 'b, 'e) codec \<Rightarrow>
    (int \<Rightarrow> int \<Rightarrow> 'e + ('e + 'b \<times> 'b \<times> int) list) \<Rightarrow> int \<Rightarrow> (uint32 \<times> uint32 \<times> int) list outcome run" where
  "showCombined cdD cdS query eventID = (case query eventID 300 of
     Inl _ \<Rightarrow> Some (LoggedError [])
   | Inr rows \<Rightarrow> show_rows cdD cdS rows [])"

definition checkCarStates :: "check_env \<Rightarrow> 'e event_repo \<Rightarrow> (PublishDriverDataRequest, 'b, 'e) codec \<Rightarrow> (PublishStateRequest, 'b, 'e) codec \<Rightarrow>
    (int \<Rightarrow> int \<Rightarrow> 'e + ('e + 'b \<times> 'b \<times> int) list) \<Rightarrow> string \<Rightarrow> (uint32 \<times> uint32 \<times> int) list outcome run" where
  "checkCarStates E er cdD cdS query eventArg = with_database E eventArg (\<lambda>eventID. case er_LoadByID er eventID of
     Inl _ \<Rightarrow> Some (LoggedError [])
   | Inr _ \<Rightarrow> showCombined cdD cdS query eventID)"

subsection \<open>In and out laps\<close>

text \<open>
  The times of the cars that have one, with the index of the state.  The error of LoadRange is not looked at: it comes without a container, whose data
  are then read (None).
\<close>

definition checkStateInoutMarker :: "check_env \<Rightarrow> ('e, PublishStateRequest) range_repo \<Rightarrow> string \<Rightarrow>
    (nat \<times> int32 \<times> int32 \<times> TimeInfo) list outcome run" where
  "checkStateInoutMarker E states eventArg = with_database E eventArg (\<lambda>eventID. case LoadRange states eventID zero_time 1500 of
     Inl _ \<Rightarrow> None
   | Inr c \<Rightarrow> Some (Printed (concat (map (\<lambda>(i, d).
       List.map_filter (\<lambda>car. map_option (\<lambda>ti. (i, car_CarIdx car, car_Lc car, ti)) (car_TimeInfo car)) (psr_Cars d))
         (enumerate 0 (rc_Data c))))))"

subsection \<open>Laps and snapshots\<close>

definition displayLaps :: "check_env \<Rightarrow> (int \<Rightarrow> 'e + Analysis) \<Rightarrow> string \<Rightarrow> (nat \<times> string \<times> Lap) list outcome run" where
  "displayLaps E loadByEventID eventArg = with_database E eventArg (\<lambda>eventID. case loadByEventID eventID of
     Inl _ \<Rightarrow> Some Fatal
   | Inr data \<Rightarrow> Some (Printed (concat (map (\<lambda>(i, d). map (\<lambda>l. (i, cl_CarNum d, l)) (cl_Laps d)) (enumerate 0 (an_CarLaps data))))))"

definition checkSnapshotBob :: "check_env \<Rightarrow> (int \<Rightarrow> int \<Rightarrow> ('e + SnapshotData list) run) \<Rightarrow> string \<Rightarrow> (nat \<times> SnapshotData) list outcome run" where
  "checkSnapshotBob E loadSnapshots eventArg = with_database E eventArg (\<lambda>eventID. do {
     r \<leftarrow> loadSnapshots eventID 300;
     (case r of Inl _ \<Rightarrow> Some (LoggedError []) | Inr data \<Rightarrow> Some (Printed (enumerate 0 data))) })"

text \<open>Here the error is ignored: there are no snapshots then.\<close>

definition checkSnapshotBobLegacy :: "check_env \<Rightarrow> (int \<Rightarrow> int \<Rightarrow> ('e + SnapshotData list) run) \<Rightarrow> string \<Rightarrow> (nat \<times> SnapshotData) list outcome run" where
  "checkSnapshotBobLegacy E loadSnapshotsLegacy eventArg = with_database E eventArg (\<lambda>eventID. do {
     r \<leftarrow> loadSnapshotsLegacy eventID 300;
     (case r of Inl _ \<Rightarrow> Some (Printed []) | Inr data \<Rightarrow> Some (Printed (enumerate 0 data))) })"

subsection \<open>Properties\<close>

lemma check_loop_endless:
  fixes f :: "('m, 'e) commonFetcher"
  assumes "cf_loader f (cf_lastTS f) = Inr rc" "rc_Data rc \<noteq> []"
  shows "check_loop f i = None"
proof -
  have "\<not> (cf_loader f (cf_lastTS f) = Inr rc \<and> rc_Data rc \<noteq> [])" if "check_loop f i = Some y" for f :: "('m, 'e) commonFetcher" and i y
  proof (rule check_loop.raw_induct[OF _ that])
    fix loop :: "('m, 'e) commonFetcher \<Rightarrow> nat \<Rightarrow> nat outcome run" and f :: "('m, 'e) commonFetcher" and i y
    assume IH: "\<And>f i y. loop f i = Some y \<Longrightarrow> \<not> (cf_loader f (cf_lastTS f) = Inr rc \<and> rc_Data rc \<noteq> [])"
      and step: "(case check_next f of None \<Rightarrow> Some Fatal | Some (None, f) \<Rightarrow> Some (Printed i)
        | Some (Some data, f) \<Rightarrow> loop f (Suc i)) = Some y"
    show "\<not> (cf_loader f (cf_lastTS f) = Inr rc \<and> rc_Data rc \<noteq> [])"
    proof
      assume rc: "cf_loader f (cf_lastTS f) = Inr rc \<and> rc_Data rc \<noteq> []"
      then obtain m f' where "check_next f = Some (Some m, f')" "cf_loader f' (cf_lastTS f') = Inr rc"
        by (cases "cf_buffer f"; cases "rc_Data rc") (auto simp: check_next_def check_fetch_def)
      with IH[of f' "Suc i" y] step rc show False by simp
    qed
  qed
  with assms show ?thesis by (cases "check_loop f i") auto
qed

lemma check_loop_once:
  assumes "cf_buffer f = []"
  shows "check_loop f i = (case cf_loader f (cf_lastTS f) of Inl _ \<Rightarrow> Some Fatal
    | Inr rc \<Rightarrow> if rc_Data rc = [] then Some (Printed i) else None)"
proof (cases "\<exists>rc. cf_loader f (cf_lastTS f) = Inr rc \<and> rc_Data rc \<noteq> []")
  case True
  then show ?thesis using check_loop_endless[of f] by auto
next
  case False
  with assms show ?thesis by (subst check_loop.simps) (auto simp: check_next_def check_fetch_def split: sum.splits)
qed

text \<open>
  C39: the check of the driver data of an event returns exactly when there are none or the database fails: the time from which the
  next messages are asked for never advances.
\<close>

theorem driver_check_returns:
  "checkDriverDataFetcher E er carProto eventArg = (let eventID = fst (Atoi eventArg) in
     if \<not> (wait_for_database (ce_dial E) (ce_WaitForServices E) (ce_DB E) (ce_now E) \<and> ce_pool E (ce_DB E)) then Some Fatal
     else case er_LoadByID er eventID of
       Inl _ \<Rightarrow> Some (LoggedError 0)
     | Inr _ \<Rightarrow> (case LoadRange carProto eventID zero_time 50 of
         Inl _ \<Rightarrow> Some Fatal
       | Inr rc \<Rightarrow> if rc_Data rc = [] then Some (Printed 0) else None))"
  by (auto simp: checkDriverDataFetcher_def with_database_def check_initDriverDataFetcher_def check_loop_once Let_def split: sum.splits)

text \<open>
  Car states are shown in order up to the first row that cannot be decoded: with every row decoded, the session numbers of both messages
  of every row.
\<close>

definition shown_as :: "(PublishDriverDataRequest, 'b, 'e) codec \<Rightarrow> (PublishStateRequest, 'b, 'e) codec \<Rightarrow> 'e + 'b \<times> 'b \<times> int \<Rightarrow>
    uint32 \<times> uint32 \<times> int \<Rightarrow> bool" where
  "shown_as cdD cdS r x \<longleftrightarrow> (\<exists>cs rs i ds st ses. r = Inr (cs, rs, i) \<and> Unmarshal cdD cs = Inr ds \<and> Unmarshal cdS rs = Inr st \<and>
     psr_Session st = Some ses \<and> x = (pdr_SessionNum ds, ses_SessionNum ses, i))"

lemma show_rows_all:
  "list_all2 (shown_as cdD cdS) rows shown \<Longrightarrow> show_rows cdD cdS rows out = Some (Printed (out @ shown))"
  by (induction rows shown arbitrary: out rule: list_all2_induct) (auto simp: shown_as_def)

text \<open>An argument that is no number is taken for the event 0.\<close>

lemma no_number_is_event_0: "Atoi ''event-7'' = (0, True)"
  by (simp add: Atoi_def is_digit_def)

lemma inout_error_panics:
  assumes "wait_for_database (ce_dial E) (ce_WaitForServices E) (ce_DB E) (ce_now E)" "ce_pool E (ce_DB E)"
    "LoadRange states (fst (Atoi eventArg)) zero_time 1500 = Inl err"
  shows "checkStateInoutMarker E states eventArg = None"
  using assms by (simp add: checkStateInoutMarker_def with_database_def)

end
