(* ===== verification/Spec2Isabelle.thy ===== *)
theory Spec2Isabelle
  imports Provider_Properties Recording_Properties Replay_Client Race_Stints_Properties Predict_Properties Live_Properties Event_Service_Properties Admin_Properties Nats_Proxy Session_Nats Repair Transactions Logger Calc_Type Telemetry Database_Access Setup_Properties Check_Tools
begin

text \<open>
  A model of the iRacelog service manager: a gRPC service that receives the data of live races from
  recording clients, derives analysis data from them, publishes them to subscribers, records them in a
  database and streams recordings back.

  \<^bold>\<open>Theories and code.\<close>

  \<^item> Go_Prelude, Go_Float32, Messages: what the code uses of Go (panics as None, reading a map, loops, sorting, 32 bit
    floats) and the messages of the protocol, which are generated outside the repository.
  \<^item> Car_Processor (pkg/grpc/processing/car/car_processor.go): the records and maps of the processor and one definition
    per method.  Car_Invariants: the invariant car_inv and that each method keeps it; Car_Properties: what a recording does
    to states, stints, pit stops and seat times; Car_Interface: the lookups other components read, as the locale
    car_data, interpreted on the processor.
  \<^item> Race_Processor, Race_Properties (pkg/grpc/processing/race/race_processor.go): laps, race graphs, race order and replay info.
  \<^item> Processor (pkg/grpc/processing/processor.go): the processor of an event, which calls both and sends what it derives on
    channels; what it has sent is the list sent of its state.
  \<^item> Broadcast (pkg/utils/broadcast/broadcast.go): the server that copies a channel to its listeners, as a step function
    over the events of its loop, with the states it can reach as an inductive predicate.
  \<^item> Event_Lookup, Event_Store (pkg/utils/event_lookup.go): the registry of live events, each with its processor and six
    broadcast servers, and the watchdog; Event_Store states the registry as the locale event_store and interprets it.
  \<^item> Local_Proxy (pkg/grpc/server/util/proxy/local): the data proxy of a single instance; the goroutines of a driver data
    subscription are a step relation.
  \<^item> Loader_Cache (pkg/utils/cache): a cache with expiration in front of a loader, with its locale cache.
  \<^item> Permission (pkg/grpc/permission with its policy and data file) and Auth (pkg/grpc/auth): who a caller is and what the
    caller may do.
  \<^item> Range_Stream (pkg/grpc/server/state/*_util.go, the reading handlers of state_server.go): recorded data in pages, over
    the locale range_source.
  \<^item> Repositories (pkg/grpc/repository/bob/racestate, car/proto, speedmap): the queries and inserts.
    Repository_Properties says how an SQL executor answers and interprets range_source on the three repositories;
    Recording_Properties has the properties.
  \<^item> State_Server, State_Properties (pkg/grpc/server/state/state_server.go): the publishing handlers.
  \<^item> Provider_Server, Provider_Properties (pkg/grpc/server/provider): registering and unregistering events.
  \<^item> Replay, Replay_Properties (pkg/grpc/server/analysis): the recomputation of an analysis, which merges recorded streams by time
    (a partial function that ends); Replay_Client (pkg/cmd/replay): the command that plays an event back to a server.
  \<^item> Go_Float64, Race_Stints, Race_Stints_Properties (pkg/grpc/racestints): the calculation of stints and pit stops until the end
    of a race; Predict, Predict_Properties (pkg/grpc/server/predict): its parameters from recorded or live data, and the handlers.
  \<^item> Live_Data, Live_Properties (pkg/grpc/server/livedata): the streams of live data over the local proxy.
  \<^item> Tables, Master_Data (pkg/grpc/repository/bob/tenant, track, event, analysis): the statements on the other tables, with
    SQL's promises as the locale sql_table, and their repositories; Car_Repository, Car_Repository_Properties (repository/bob/car): the
    tables of cars, entries, teams and drivers.
  \<^item> Event_Service, Event_Service_Properties (pkg/grpc/server/event, pkg/grpc/service): reading, updating and deleting events;
    Admin_Services, Admin_Properties (pkg/grpc/server/tenant, track, analysis, user, settings): the administration.
  \<^item> Nats_Codec, Nats_Global, Nats_Proxy (pkg/grpc/server/util/proxy/nats): the data proxy of a cluster: the bytes it writes into a
    key-value store, the map of live events all instances share (a step relation on a cluster with its invariant), and the proxy.
  \<^item> Session_Store, Session_Nats (pkg/grpc/session), Auth_Server (pkg/grpc/server/auth, pkg/grpc/oidc): sessions, their storages and their
    timers, logging in and out; Session_Properties states the storage as the locale session_storage and interprets it on the storage in memory.
  \<^item> Snapshots (pkg/grpc/repository/bob/speedmap): the window queries of the snapshots, built and in raw SQL, and what they select;
    Transactions (pkg/grpc/repository/bob/transaction.bob.go, bob/context): the transaction manager, with the contexts that carry the executor, refines
    the transactions the services assume.
  \<^item> Repair (pkg/cmd/repair): the tools that copy session numbers into recorded data; Check_Tools (pkg/cmd/check): the commands that print it.
  \<^item> Server_Setup, Setup_Properties (pkg/cmd/server/grpc/grpc_server.go, cmd/root.go, pkg/config, session/factory, oidc/factory): flags, the setup
    of the server in its order, its services with what they are given, and the interceptors a request passes.
  \<^item> Go_Text, Connections (pkg/utils/conncheck.go, pkg/cmd/migrate, pkg/db/migrate): durations and numbers in texts, waiting for other services,
    addresses in URLs with the regular expressions as written, migrations; Database_Access (pkg/db/postgres, pkg/db/mytypes): the
    pool and the columns that hold JSON; Tls_Certs (tlsconfig.go, pkg/utils/certs/traefik): the certificate and its reloading; Logger (log): named loggers
    and their sinks; Telemetry (pkg/otel): the signals; Calc_Type (racestints.go): the names of calculations.

  \<^bold>\<open>How the parts interact.\<close>  A request is authenticated (Auth) and checked against the policy (Permission).  The provider
  service adds an event to the lookup (Event_Lookup), which makes its processors and broadcast servers.  The state service
  finds the event, gives the message to the data proxy, stores it in a transaction and hands it to the processor
  (Processor), whose results the broadcast servers (Broadcast) copy to the subscribers of the proxy (Local_Proxy).  Recorded
  data are read through the repositories (Repositories) in pages (Range_Stream).

  \<^bold>\<open>Conventions.\<close>  A computation that may panic (nil dereference, index out of range, send on a closed channel) has the
  result type run, which is option, and a panic is None; errors are values of a sum.  State is passed explicitly.  A map of
  the code that is ranged over is an association list in the order of one run of the range loop, any other map a
  function to options.  Machine integers are words where they can wrap; float32 is modelled exactly, as multiples of
  the smallest positive number, with rounding to nearest even.  Points in time are nanoseconds; the time now
  is an argument.  Concurrency is interleaving: one definition per critical section or per event of a loop, and the properties
  hold for every sequence of them.  No definition uses fuel: loops are structural, and the page loop of a stream, which
  ends only when a page is empty, is a partial function whose termination state_stream_complete proves.

  \<^bold>\<open>What the lemmas show.\<close>  For the processors: no panic on recordings that announce their cars, an invariant, and what a message
  changes.  For broadcast, lookup and proxies: delivery, order, orderly shutdown, uniqueness of keys, staleness, and that the instances of a cluster do not
  lose the events of each other.  For cache and sessions: bounded staleness, the timeout as a sliding window.  For permissions: what the policy
  grants, in closed form, and what the roles of a login allow.  For recorded data: complete streams, reading back what was recorded, recomputation in the order
  of time.  For replay and prediction: pace, order, termination, and the plan up to the end of the race.  For the services: what a request can change and who can
  change it.  This theory puts authentication, permissions, lookup and services together: tenant_confined.  Behaviour that is not meant, as
  far as one can tell, is stated as lemmas too, next to the properties it limits.

  The setup of the server says who is asked first: token_services_admin_only and service_callers compose it with authentication and sessions.

  \<^bold>\<open>Parameters.\<close>  The database, its transactions and its window queries, the protobuf and JSON codecs, decimals, uuids, semantic versions, the
  hash of API keys, NATS with its key-value store, the identity provider with the OAuth libraries, url.Parse, the JSON path library, key
  pairs and the file watcher, zap with its filters, the OpenTelemetry exporters, attempts to connect, the migration library, and the clients' readiness to
  receive are arguments; where a property relies on their documented behaviour it is a named hypothesis (sql_executor, sql_table, sql_window, transactional,
  tx_library, sendable, json_ok), with an instance that satisfies it.

  \<^bold>\<open>Not modelled.\<close>  The table models the query builder generates (pkg/db/models, pkg/db/dbinfo), of which the repositories use conditions,
  setters and statements as Tables and Repositories have them; the definitions of the commands for the command line; HTTP with its listeners, CORS and profiling; metrics,
  spans and the encoding of log entries; an older setup of telemetry that nothing calls (pkg/config/otlp.go); the connection to NATS and the errors of subscribing to
  it; the goroutines that close a stream when its client is gone; the empty data proxy, of which only the closing that does nothing is reached (by the local proxy).
\<close>

section \<open>Tenants\<close>

text \<open>
  What a caller can do with the API key of a tenant: publish data, register events and unregister them.  The two
  services share the lookup, the database and the authentication.
\<close>

datatype TenantRequest =
    TPublish timestamp PublishRequest
  | TRegister timestamp RegisterEventRequest
  | TUnregister EventSelector

fun tenant_step :: "('db, 'e) Repositories \<Rightarrow> (('db, 'e) txFunc \<Rightarrow> ('db, 'e) txFunc) \<Rightarrow> TenantModel \<Rightarrow>
    TenantRequest \<Rightarrow> 'db Server \<Rightarrow> 'db Server run" where
  "tenant_step repos tx t (TPublish now req) srv =
     map_option snd (handle_publish \<lparr>env_repos = repos, env_RunInTx = tx\<rparr> now (tenant_auth t) req srv)"
| "tenant_step repos tx t (TRegister now req) srv =
     map_option snd (RegisterEvent (local_env repos tx) now (tenant_auth t) req srv)"
| "tenant_step repos tx t (TUnregister sel) srv =
     map_option snd (UnregisterEvent (local_env repos tx) (tenant_auth t) sel srv)"

lemma tenant_post_owner:
  assumes "HasObjectPermission (tenant_auth t) PermissionPostRacedata own"
  shows "own = sprint_u32 (mt_ID t)"
proof (cases "own = []")
  case True
  with assms show ?thesis
    by (simp add: HasObjectPermission_def policy_allow_def has_admin_role_iff user_permissions_set expand_roles_def tenant_auth_def)
next
  case False
  with assms permission_by_scope_iff[of own PermissionPostRacedata "tenant_auth t"] show ?thesis
    by (auto simp: tenant_auth_def PermissionPostRacedata_def split: if_splits)
qed

lemma lookup_inv_put:
  assumes "lookup_inv el" "GetEvent sel el = Inr epd" "progress epd epd'"
  shows "lookup_inv (put_epd epd' el)"
proof -
  have "epd_ok epd" using GetEvent_map_of[OF assms(1,2)] assms(1) by (auto simp: lookup_inv_def dest: entries_okD)
  then have "epd_ok epd'" using assms(3) by (auto simp: progress_def epd_ok_def)
  with assms(1) show ?thesis
    by (simp add: lookup_inv_def put_epd_def distinct_update update_conv' entries_ok_simps)
qed

lemma publish_foreign:
  assumes "lookup_inv (srv_lookup srv)" "handle_publish env now (tenant_auth t) req srv = Some (res, srv')"
  shows "lookup_inv (srv_lookup srv') \<and> (\<forall>k epd. event_at srv k = Some epd \<longrightarrow> epd_Owner epd \<noteq> sprint_u32 (mt_ID t) \<longrightarrow>
    event_at srv' k = Some epd)"
  using assms(2)
proof (cases rule: handle_publish_result)
  case (accepted sel epd)
  have own: "epd_Owner epd = sprint_u32 (mt_ID t)" using accepted(3) by (rule tenant_post_owner)
  consider "srv_lookup srv' = srv_lookup srv"
    | epd' where "progress epd epd'" "srv_lookup srv' = put_epd epd' (srv_lookup srv)"
    using handle_accepted[OF assms(2) accepted(1,5)] by blast
  then show ?thesis
  proof cases
    case 2
    then show ?thesis
      using lookup_inv_put[OF assms(1) accepted(2) 2(1)] GetEvent_map_of[OF assms(1) accepted(2)] own progress_ident[OF 2(1)]
      by (auto simp: put_epd_map)
  qed (use assms(1) in simp)
qed (use assms(1) in simp)

lemma register_foreign:
  assumes "lookup_inv (srv_lookup srv)" "RegisterEvent env now a req srv = Some (res, srv')"
  shows "lookup_inv (srv_lookup srv') \<and> (\<forall>k epd. event_at srv k = Some epd \<longrightarrow> event_at srv' k = Some epd)"
proof (cases "srv_lookup srv' = srv_lookup srv")
  case False
  then obtain ev tr mode own epd where add: "AddEvent ev tr mode own now (srv_lookup srv) = (Some epd, srv_lookup srv')"
    using register_lookup[OF assms(2)] by blast
  from add_event_new[OF add] add AddEvent_inv[OF assms(1), of ev tr mode own now] show ?thesis by auto
qed (use assms(1) in simp)

lemma unregister_foreign:
  assumes "lookup_inv (srv_lookup srv)" "UnregisterEvent (local_env repos tx) (tenant_auth t) sel srv = Some (res, srv')"
  shows "lookup_inv (srv_lookup srv') \<and> (\<forall>k epd. event_at srv k = Some epd \<longrightarrow> epd_Owner epd \<noteq> sprint_u32 (mt_ID t) \<longrightarrow>
    event_at srv' k = Some epd)"
  using assms
proof (cases rule: unregister_cases)
  case (accepted epd)
  have "epd_Owner epd = sprint_u32 (mt_ID t)" using accepted(3) by (rule tenant_post_owner)
  with remove_event_map[OF assms(1) accepted(2,4)] GetEvent_map_of[OF assms(1) accepted(2)] show ?thesis by auto
qed (use assms(1) in simp)

lemma tenant_step_foreign:
  assumes "lookup_inv (srv_lookup srv)" "tenant_step repos tx t req srv = Some srv'"
  shows "lookup_inv (srv_lookup srv') \<and> (\<forall>k epd. event_at srv k = Some epd \<longrightarrow> epd_Owner epd \<noteq> sprint_u32 (mt_ID t) \<longrightarrow>
    event_at srv' k = Some epd)"
proof (cases req)
  case (TPublish now r)
  with assms(2) obtain res where "handle_publish \<lparr>env_repos = repos, env_RunInTx = tx\<rparr> now (tenant_auth t) r srv = Some (res, srv')"
    by auto
  from publish_foreign[OF assms(1) this] show ?thesis .
next
  case (TRegister now r)
  with assms(2) obtain res where "RegisterEvent (local_env repos tx) now (tenant_auth t) r srv = Some (res, srv')" by auto
  from register_foreign[OF assms(1) this] show ?thesis by blast
next
  case (TUnregister sel)
  with assms(2) obtain res where "UnregisterEvent (local_env repos tx) (tenant_auth t) sel srv = Some (res, srv')" by auto
  from unregister_foreign[OF assms(1) this] show ?thesis .
qed



end
